(* ===== verification/Prelude.thy ===== *)
theory Prelude
  imports Main "HOL-Library.Word" "HOL-Library.Multiset"
begin

unbundle bit_operations_syntax

text \<open>
  Shared ground of the development: names for the machine integers of the C++ sources, the
  collections the component theories feed to the simplifier, the parts of the C++ standard
  library the sources call (\<open>std::lower_bound\<close>, \<open>std::upper_bound\<close>, \<open>vector::resize\<close>,
  indexing guarded by \<open>isValidIndex\<close>), and two interfaces: a registry of identifiers kept in
  strictly increasing order, and a state machine whose steps keep an invariant.
\<close>

section \<open>Machine integers\<close>

type_synonym byte = "8 word"
type_synonym uint16 = "16 word"
type_synonym int32 = "32 word"
type_synonym uint32 = "32 word"
type_synonym uint64 = "64 word"

named_theorems cmd_code \<open>numeric codes of the action enumeration\<close>
named_theorems id_simps \<open>unfolding rules of the identifier classes\<close>
named_theorems tc_simps \<open>unfolding rules of the time coordination operations\<close>
named_theorems hm_simps \<open>unfolding rules of the handle tables\<close>

text \<open>A C++ container's size as the \<open>int32_t\<close> a \<open>static_cast\<close> makes of it.\<close>

abbreviation size32 :: "'a list \<Rightarrow> int32" where
  "size32 xs \<equiv> word_of_nat (length xs)"

lemma sint_word_of_nat_small:
  "n < 2 ^ 31 \<Longrightarrow> sint (word_of_nat n :: int32) = int n"
  by (simp add: signed_of_nat signed_take_bit_int_eq_self)

lemma sint_inj [simp]: "sint (a :: 'a::len word) = sint b \<longleftrightarrow> a = b"
  by (metis word_eq_iff_signed)

section \<open>Guarded indexing\<close>

definition isValidIndex :: "int32 \<Rightarrow> 'a list \<Rightarrow> bool" where
  "isValidIndex i xs \<longleftrightarrow> 0 \<le> sint i \<and> sint i < sint (size32 xs)"

definition at_index :: "'a list \<Rightarrow> int32 \<Rightarrow> 'a option" where
  "at_index xs i = (if isValidIndex i xs then Some (xs ! nat (sint i)) else None)"

lemma isValidIndex_iff:
  "length xs < 2 ^ 31 \<Longrightarrow> isValidIndex i xs \<longleftrightarrow> 0 \<le> sint i \<and> nat (sint i) < length xs"
  by (auto simp: isValidIndex_def sint_word_of_nat_small)

lemma isValidIndex_nat:
  "n < length xs \<Longrightarrow> length xs < 2 ^ 31 \<Longrightarrow> isValidIndex (word_of_nat n) xs"
  by (simp add: isValidIndex_def sint_word_of_nat_small)

lemma nat_sint_of_nat: "n < 2 ^ 31 \<Longrightarrow> nat (sint (word_of_nat n :: int32)) = n"
  by (simp add: sint_word_of_nat_small)

text \<open>\<open>vector::resize\<close>: truncate, or pad with default-constructed elements.\<close>

definition resize :: "nat \<Rightarrow> 'a \<Rightarrow> 'a list \<Rightarrow> 'a list" where
  "resize n d xs = take n xs @ replicate (n - length xs) d"

lemma length_resize [simp]: "length (resize n d xs) = n"
  by (simp add: resize_def)

lemma resize_same [simp]: "resize (length xs) d xs = xs"
  by (simp add: resize_def)

lemma resize_Suc: "resize (Suc (length xs)) d xs = xs @ [d]"
  by (simp add: resize_def)

lemma nth_resize: "i < n \<Longrightarrow> resize n d xs ! i = (if i < length xs then xs ! i else d)"
  by (auto simp: resize_def nth_append min_def)

section \<open>Binary search of the standard library\<close>

text \<open>
  On a range partitioned by the comparison, \<open>std::lower_bound\<close> returns the first position whose
  element is not before the searched key, and \<open>std::upper_bound\<close> the first position whose element
  is after it. Every use in the sources is on a vector kept in order, which the invariants below
  establish, so the two searches are given by their result.
\<close>

definition lower_bound :: "('a \<Rightarrow> 'k::linorder) \<Rightarrow> 'a list \<Rightarrow> 'k \<Rightarrow> nat" where
  "lower_bound key xs k = length (takeWhile (\<lambda>x. key x < k) xs)"

definition upper_bound :: "('a \<Rightarrow> 'k::linorder) \<Rightarrow> 'a list \<Rightarrow> 'k \<Rightarrow> nat" where
  "upper_bound key xs k = length (takeWhile (\<lambda>x. key x \<le> k) xs)"

definition insert_at :: "nat \<Rightarrow> 'a \<Rightarrow> 'a list \<Rightarrow> 'a list" where
  "insert_at i x xs = take i xs @ x # drop i xs"

definition erase_at :: "nat \<Rightarrow> 'a list \<Rightarrow> 'a list" where
  "erase_at i xs = take i xs @ drop (Suc i) xs"

abbreviation strictly_sorted :: "'k::linorder list \<Rightarrow> bool" where
  "strictly_sorted \<equiv> sorted_wrt (<)"

lemma take_lower_bound: "take (lower_bound key xs k) xs = takeWhile (\<lambda>x. key x < k) xs"
  unfolding lower_bound_def by (rule takeWhile_eq_take [symmetric])

lemma drop_lower_bound: "drop (lower_bound key xs k) xs = dropWhile (\<lambda>x. key x < k) xs"
  unfolding lower_bound_def by (rule dropWhile_eq_drop [symmetric])

lemma take_upper_bound: "take (upper_bound key xs k) xs = takeWhile (\<lambda>x. key x \<le> k) xs"
  unfolding upper_bound_def by (rule takeWhile_eq_take [symmetric])

lemma drop_upper_bound: "drop (upper_bound key xs k) xs = dropWhile (\<lambda>x. key x \<le> k) xs"
  unfolding upper_bound_def by (rule dropWhile_eq_drop [symmetric])

lemma lower_bound_le: "lower_bound key xs k \<le> length xs"
  by (simp add: lower_bound_def length_takeWhile_le)

lemma lower_bound_at:
  "lower_bound key xs k < length xs \<Longrightarrow> k \<le> key (xs ! lower_bound key xs k)"
  using nth_length_takeWhile [of "\<lambda>x. key x < k" xs] by (simp add: lower_bound_def)

lemma lower_bound_Cons:
  "lower_bound key (x # xs) k = (if key x < k then Suc (lower_bound key xs k) else 0)"
  by (simp add: lower_bound_def)

lemma lower_bound_Nil [simp]: "lower_bound key [] k = 0"
  by (simp add: lower_bound_def)

text \<open>A key is present in an ordered vector exactly when the search lands on it.\<close>

lemma lower_bound_found:
  assumes "strictly_sorted (map key xs)"
  shows "(lower_bound key xs k < length xs \<and> key (xs ! lower_bound key xs k) = k)
           \<longleftrightarrow> k \<in> key ` set xs"
  using assms
proof (induction xs)
  case Nil
  then show ?case by simp
next
  case (Cons x xs)
  have "x' \<in> set xs \<Longrightarrow> key x < key x'" for x'
    using Cons.prems by simp
  then show ?case
    using Cons by (cases "key x < k") (auto simp: lower_bound_Cons dest: less_asym)
qed

lemma map_insert_at: "map f (insert_at i x xs) = insert_at i (f x) (map f xs)"
  by (simp add: insert_at_def take_map drop_map)

lemma map_erase_at: "map f (erase_at i xs) = erase_at i (map f xs)"
  by (simp add: erase_at_def take_map drop_map)

lemma set_insert_at: "set (insert_at i x xs) = insert x (set xs)"
proof -
  have "set (take i xs @ drop i xs) = set (take i xs) \<union> set (drop i xs)"
    by (simp only: set_append)
  then show ?thesis by (simp add: insert_at_def)
qed

lemma mset_insert_at: "mset (insert_at i x xs) = add_mset x (mset xs)"
  by (simp add: insert_at_def flip: mset_append) (simp add: union_code)

lemma lower_bound_map: "lower_bound key xs k = lower_bound (\<lambda>x. x) (map key xs) k"
  by (simp add: lower_bound_def takeWhile_map comp_def)

lemma set_takeWhile_less:
  "x \<in> set (takeWhile (\<lambda>x. key x < k) xs) \<Longrightarrow> key x < k"
  by (auto dest: set_takeWhileD)

lemma set_dropWhile_less:
  "sorted (map key xs) \<Longrightarrow> x \<in> set (dropWhile (\<lambda>x. key x < k) xs) \<Longrightarrow> k \<le> key x"
  by (induction xs) (auto split: if_splits)

lemma set_dropWhile_le:
  "sorted (map key xs) \<Longrightarrow> x \<in> set (dropWhile (\<lambda>x. key x \<le> k) xs) \<Longrightarrow> k < key x"
  by (induction xs) (auto split: if_splits)

lemma strictly_sorted_insert_at:
  assumes "strictly_sorted (map key xs)" and "key x \<notin> key ` set xs"
  shows "strictly_sorted (map key (insert_at (lower_bound key xs (key x)) x xs))"
proof -
  let ?A = "takeWhile (\<lambda>y. key y < key x) xs" and ?B = "dropWhile (\<lambda>y. key y < key x) xs"
  have "strictly_sorted (map key ?A @ map key ?B)"
    using assms(1) by (simp flip: map_append)
  then have "strictly_sorted (map key ?A)" "strictly_sorted (map key ?B)"
    by (simp_all only: sorted_wrt_append)
  moreover have "\<forall>b \<in> set ?B. key x < key b"
  proof
    fix b assume b: "b \<in> set ?B"
    have "key x \<le> key b"
      using set_dropWhile_less [OF strict_sorted_imp_sorted [OF assms(1)] b] .
    moreover have "key b \<noteq> key x"
      using assms(2) b by (metis image_eqI set_dropWhileD)
    ultimately show "key x < key b" by simp
  qed
  moreover have "\<forall>a \<in> set ?A. key a < key x"
    by (auto dest: set_takeWhileD)
  ultimately show ?thesis
    by (auto simp: insert_at_def take_lower_bound drop_lower_bound sorted_wrt_append
        intro: less_trans)
qed

lemma strictly_sorted_erase_at:
  assumes "strictly_sorted ys"
  shows "strictly_sorted (erase_at i ys)"
proof -
  have "strictly_sorted (take (Suc i) ys @ drop (Suc i) ys)"
    using assms by simp
  then have "\<forall>a \<in> set (take (Suc i) ys). \<forall>b \<in> set (drop (Suc i) ys). a < b"
    by (meson sorted_wrt_append)
  moreover have "set (take i ys) \<subseteq> set (take (Suc i) ys)"
    by (simp add: set_take_subset_set_take)
  ultimately show ?thesis
    using assms by (auto simp: erase_at_def sorted_wrt_append sorted_wrt_take sorted_wrt_drop)
qed

lemma erase_at_split:
  assumes "i < length xs"
  shows "\<exists>as bs. xs = as @ xs ! i # bs \<and> length as = i \<and> erase_at i xs = as @ bs"
  using assms
  by (intro exI [of _ "take i xs"] exI [of _ "drop (Suc i) xs"])
    (simp add: erase_at_def id_take_nth_drop)

lemma set_erase_at:
  assumes "strictly_sorted (map key xs)" and "i < length xs"
  shows "key ` set (erase_at i xs) = key ` set xs - {key (xs ! i)}"
proof -
  obtain as bs where xs: "xs = as @ xs ! i # bs" and e: "erase_at i xs = as @ bs"
    using erase_at_split [OF assms(2)] by blast
  have "strictly_sorted (map key (as @ xs ! i # bs))"
    using assms(1) xs by simp
  then have "key (xs ! i) \<notin> key ` set (as @ bs)"
    by (auto simp: sorted_wrt_append)
  moreover have "key ` set xs = insert (key (xs ! i)) (key ` set (as @ bs))"
    by (subst xs) auto
  ultimately show ?thesis
    by (simp add: e)
qed

lemma strictly_sorted_unique:
  "strictly_sorted xs \<Longrightarrow> strictly_sorted ys \<Longrightarrow> set xs = set ys \<Longrightarrow> xs = ys"
  by (rule strict_sorted_equal)

section \<open>Interface: an ordered registry of identifiers\<close>

text \<open>
  The contract of the classes that keep a set of federate identifiers in an ordered vector.
  \<open>add\<close> reports whether the identifier was new; \<open>ids\<close> lists what is registered.
\<close>

datatype 'k reg_op = Reg_Add 'k | Reg_Remove 'k

fun reg_spec :: "'k set \<Rightarrow> 'k reg_op \<Rightarrow> 'k set" where
  "reg_spec A (Reg_Add k) = insert k A"
| "reg_spec A (Reg_Remove k) = A - {k}"

locale id_registry =
  fixes add :: "'k::linorder \<Rightarrow> 's \<Rightarrow> bool \<times> 's"
    and remove :: "'k \<Rightarrow> 's \<Rightarrow> 's"
    and ids :: "'s \<Rightarrow> 'k list"
  assumes add_new: "strictly_sorted (ids s) \<Longrightarrow> fst (add k s) \<longleftrightarrow> k \<notin> set (ids s)"
    and add_set: "strictly_sorted (ids s) \<Longrightarrow> set (ids (snd (add k s))) = insert k (set (ids s))"
    and add_sorted: "strictly_sorted (ids s) \<Longrightarrow> strictly_sorted (ids (snd (add k s)))"
    and remove_set: "strictly_sorted (ids s) \<Longrightarrow> set (ids (remove k s)) = set (ids s) - {k}"
    and remove_sorted: "strictly_sorted (ids s) \<Longrightarrow> strictly_sorted (ids (remove k s))"
begin

lemma add_again:
  assumes "strictly_sorted (ids s)"
  shows "\<not> fst (add k (snd (add k s))) \<and> ids (snd (add k (snd (add k s)))) = ids (snd (add k s))"
proof
  note sorted = add_sorted [OF assms]
  show "\<not> fst (add k (snd (add k s)))"
    by (simp add: add_new [OF sorted] add_set [OF assms])
  show "ids (snd (add k (snd (add k s)))) = ids (snd (add k s))"
    by (rule strictly_sorted_unique)
      (simp_all add: add_sorted sorted add_set [OF sorted] add_set [OF assms])
qed

lemma remove_added:
  assumes "strictly_sorted (ids s)" and "k \<notin> set (ids s)"
  shows "ids (remove k (snd (add k s))) = ids s"
  by (rule strictly_sorted_unique)
    (simp_all add: assms remove_sorted add_sorted remove_set add_set)

lemma run_refines:
  assumes "strictly_sorted (ids s)"
  shows "strictly_sorted (ids (foldl (\<lambda>s op. case op of Reg_Add k \<Rightarrow> snd (add k s)
             | Reg_Remove k \<Rightarrow> remove k s) s ops))
       \<and> set (ids (foldl (\<lambda>s op. case op of Reg_Add k \<Rightarrow> snd (add k s)
             | Reg_Remove k \<Rightarrow> remove k s) s ops)) = foldl reg_spec (set (ids s)) ops"
  using assms
proof (induction ops arbitrary: s)
  case Nil
  then show ?case by simp
next
  case (Cons op ops)
  show ?case
  proof (cases op)
    case (Reg_Add k)
    then show ?thesis
      using Cons.IH [OF add_sorted [OF Cons.prems]] by (simp add: add_set Cons.prems)
  next
    case (Reg_Remove k)
    then show ?thesis
      using Cons.IH [OF remove_sorted [OF Cons.prems]] by (simp add: remove_set Cons.prems)
  qed
qed

end

section \<open>Interface: a state machine that keeps an invariant\<close>

locale inv_machine =
  fixes step :: "'s \<Rightarrow> 'e \<Rightarrow> 's"
    and inv :: "'s \<Rightarrow> bool"
  assumes step_inv: "inv s \<Longrightarrow> inv (step s e)"
begin

lemma run_inv: "inv s \<Longrightarrow> inv (foldl step s es)"
  by (induction es arbitrary: s) (simp_all add: step_inv)

end

section \<open>The ordered vector behind the registries\<close>

text \<open>
  Insertion and removal as the sources write them three times over (for a vector of dependency
  records and for two vectors of identifiers): search, compare, insert before or erase.
\<close>

definition vec_insert :: "('a \<Rightarrow> 'k::linorder) \<Rightarrow> ('k \<Rightarrow> 'a) \<Rightarrow> 'k \<Rightarrow> 'a list \<Rightarrow> bool \<times> 'a list" where
  "vec_insert key mk k xs =
     (if xs = [] then (True, [mk k])
      else let i = lower_bound key xs k in
        if i = length xs then (True, xs @ [mk k])
        else if key (xs ! i) = k then (False, xs)
        else (True, insert_at i (mk k) xs))"

definition vec_erase :: "('a \<Rightarrow> 'k::linorder) \<Rightarrow> 'k \<Rightarrow> 'a list \<Rightarrow> 'a list" where
  "vec_erase key k xs =
     (let i = lower_bound key xs k in
      if i \<noteq> length xs then (if key (xs ! i) = k then erase_at i xs else xs) else xs)"

definition vec_find :: "('a \<Rightarrow> 'k::linorder) \<Rightarrow> 'a list \<Rightarrow> 'k \<Rightarrow> nat option" where
  "vec_find key xs k =
     (let i = lower_bound key xs k in
      if i = length xs \<or> key (xs ! i) \<noteq> k then None else Some i)"

lemma vec_insert_alt:
  assumes "strictly_sorted (map key xs)" and "key (mk k) = k"
  shows "vec_insert key mk k xs =
     (if k \<in> key ` set xs then (False, xs) else (True, insert_at (lower_bound key xs k) (mk k) xs))"
proof -
  have le: "lower_bound key xs k \<le> length xs" by (rule lower_bound_le)
  note found = lower_bound_found [OF assms(1), of k]
  consider "xs = []" | "xs \<noteq> []" "lower_bound key xs k = length xs"
    | "xs \<noteq> []" "lower_bound key xs k < length xs"
    using le by fastforce
  then show ?thesis
  proof cases
    case 1 then show ?thesis by (simp add: vec_insert_def insert_at_def)
  next
    case 2 then show ?thesis
      using found by (auto simp: vec_insert_def Let_def insert_at_def)
  next
    case 3 then show ?thesis
      using found by (auto simp: vec_insert_def Let_def)
  qed
qed

lemma vec_insert_spec:
  assumes "strictly_sorted (map key xs)" and "key (mk k) = k"
  shows "fst (vec_insert key mk k xs) \<longleftrightarrow> k \<notin> key ` set xs"
    and "key ` set (snd (vec_insert key mk k xs)) = insert k (key ` set xs)"
    and "strictly_sorted (map key (snd (vec_insert key mk k xs)))"
proof -
  show "fst (vec_insert key mk k xs) \<longleftrightarrow> k \<notin> key ` set xs"
    by (simp add: vec_insert_alt [where mk = mk, OF assms])
  show "key ` set (snd (vec_insert key mk k xs)) = insert k (key ` set xs)"
    by (auto simp: vec_insert_alt [where mk = mk, OF assms] set_insert_at assms(2))
  show "strictly_sorted (map key (snd (vec_insert key mk k xs)))"
    using strictly_sorted_insert_at [OF assms(1), of "mk k"] assms
    by (auto simp: vec_insert_alt [where mk = mk, OF assms])
qed

lemma vec_erase_spec:
  assumes "strictly_sorted (map key xs)"
  shows "key ` set (vec_erase key k xs) = key ` set xs - {k}"
    and "strictly_sorted (map key (vec_erase key k xs))"
proof -
  have le: "lower_bound key xs k \<noteq> length xs \<Longrightarrow> lower_bound key xs k < length xs"
    using lower_bound_le [of key xs k] by simp
  note found = lower_bound_found [OF assms, of k]
  show "key ` set (vec_erase key k xs) = key ` set xs - {k}"
    using found le set_erase_at [OF assms] by (auto simp: vec_erase_def Let_def)
  show "strictly_sorted (map key (vec_erase key k xs))"
    using strictly_sorted_erase_at [OF assms] assms
    by (auto simp: vec_erase_def Let_def map_erase_at)
qed

lemma vec_find_Some:
  "vec_find key xs k = Some i \<Longrightarrow> i < length xs \<and> key (xs ! i) = k"
  using lower_bound_le [of key xs k]
  by (auto simp: vec_find_def Let_def split: if_splits)

lemma vec_find_None:
  assumes "strictly_sorted (map key xs)"
  shows "vec_find key xs k = None \<longleftrightarrow> k \<notin> key ` set xs"
  using lower_bound_found [OF assms, of k] lower_bound_le [of key xs k]
  by (auto simp: vec_find_def Let_def)

lemma vec_find_nth:
  assumes "strictly_sorted (map key xs)" and "i < length xs"
  shows "vec_find key xs (key (xs ! i)) = Some i"
proof -
  obtain j where j: "vec_find key xs (key (xs ! i)) = Some j"
    using vec_find_None [OF assms(1), of "key (xs ! i)"] assms(2) by fastforce
  then have "j < length xs" "map key xs ! j = map key xs ! i"
    using vec_find_Some [OF j] assms(2) by simp_all
  then have "j = i"
    using assms nth_eq_iff_index_eq [of "map key xs" j i] by (simp add: strict_sorted_iff)
  with j show ?thesis by simp
qed

lemma vec_find_map: "vec_find key xs k = vec_find (\<lambda>x. x) (map key xs) k"
proof -
  have "lower_bound (\<lambda>x. x) (map key xs) k \<noteq> length xs \<Longrightarrow>
      map key xs ! lower_bound (\<lambda>x. x) (map key xs) k = key (xs ! lower_bound (\<lambda>x. x) (map key xs) k)"
    using lower_bound_le [of "\<lambda>x. x" "map key xs" k] by simp
  then show ?thesis
    by (auto simp: vec_find_def Let_def lower_bound_map [of key])
qed

lemma vec_find_cong: "map key xs = map key ys \<Longrightarrow> vec_find key xs k = vec_find key ys k"
  by (simp add: vec_find_map [of key])

lemma set_erase_at_subset: "set (erase_at i xs) \<subseteq> set xs"
  by (auto simp: erase_at_def dest: in_set_takeD in_set_dropD)

lemma mset_erase_at: "i < length xs \<Longrightarrow> mset (erase_at i xs) = mset xs - {# xs ! i #}"
proof -
  assume "i < length xs"
  from erase_at_split [OF this] obtain as bs
    where xs: "xs = as @ xs ! i # bs" and e: "erase_at i xs = as @ bs"
    by blast
  have "mset xs = add_mset (xs ! i) (mset (as @ bs))"
    by (subst xs) simp
  then show ?thesis
    by (simp add: e)
qed

lemma mset_vec_insert:
  assumes "strictly_sorted (map key xs)" and "key (mk k) = k"
  shows "mset (map key (snd (vec_insert key mk k xs)))
    = (if k \<in> key ` set xs then mset (map key xs) else add_mset k (mset (map key xs)))"
  using assms(2) by (simp add: vec_insert_alt [where mk = mk, OF assms] map_insert_at mset_insert_at del: mset_map)

lemma mset_vec_erase:
  assumes "strictly_sorted (map key xs)"
  shows "mset (map key (vec_erase key k xs)) = mset (map key xs) - {# k #}"
proof (cases "k \<in> key ` set xs")
  case True
  then have "lower_bound key xs k < length xs" "key (xs ! lower_bound key xs k) = k"
    using lower_bound_found [OF assms, of k] by simp_all
  then show ?thesis
    using mset_erase_at [of "lower_bound key xs k" "map key xs"]
    by (simp add: vec_erase_def Let_def map_erase_at del: mset_map)
next
  case False
  then have "vec_erase key k xs = xs"
    using lower_bound_found [OF assms, of k] lower_bound_le [of key xs k]
    by (auto simp: vec_erase_def Let_def)
  with False show ?thesis
    by (simp add: diff_single_trivial image_iff)
qed

lemma min_list_append1: "xs \<noteq> [] \<Longrightarrow> min_list (xs @ [a :: 't::linorder]) = min (min_list xs) a"
  by (simp add: min_list_Min min.commute)

lemma min_list_le: "x \<in> set xs \<Longrightarrow> min_list xs \<le> (x :: 't::linorder)"
  by (subst min_list_Min) auto

lemma min_list_remove:
  fixes a :: "'t::linorder"
  assumes "min_list (xs @ a # ys) < a"
  shows "xs @ ys \<noteq> [] \<and> min_list (xs @ ys) = min_list (xs @ a # ys)"
proof -
  have "min_list (xs @ a # ys) \<in> set (xs @ a # ys)"
    by (subst min_list_Min) (simp, rule Min_in, simp_all)
  then have mem: "min_list (xs @ a # ys) \<in> set (xs @ ys)"
    using assms by auto
  moreover have "\<forall>y \<in> set (xs @ ys). min_list (xs @ a # ys) \<le> y"
    using min_list_le [of _ "xs @ a # ys"] by auto
  ultimately have "Min (set (xs @ ys)) = min_list (xs @ a # ys)"
    by (intro Min_eqI) auto
  moreover have "xs @ ys \<noteq> []"
    using mem by auto
  ultimately show ?thesis
    by (simp only: min_list_Min [of "xs @ ys"] simp_thms not_False_eq_True)
qed

section \<open>Containers of the standard library\<close>

text \<open>\<open>std::to_string\<close> of an unsigned number.\<close>

fun decimal :: "nat \<Rightarrow> string" where
  "decimal n = (if n < 10 then [char_of (48 + n)] else decimal (n div 10) @ [char_of (48 + n mod 10)])"

declare decimal.simps [simp del]

lemma decimal_nonempty [simp]: "decimal n \<noteq> []"
  by (simp add: decimal.simps [of n])

lemma decimal_last: "last (decimal n) = char_of (48 + n mod 10)"
  by (simp add: decimal.simps [of n])

lemma decimal_inj: "decimal m = decimal n \<Longrightarrow> m = n"
proof (induction m arbitrary: n rule: decimal.induct)
  case (1 m)
  have "char_of (48 + m mod 10) = (char_of (48 + n mod 10) :: char)"
    using decimal_last [of m] decimal_last [of n] 1 by simp
  then have "of_char (char_of (48 + m mod 10) :: char) = (of_char (char_of (48 + n mod 10) :: char) :: nat)"
    by (rule arg_cong)
  then have last: "m mod 10 = n mod 10"
    by (simp add: take_bit_nat_eq_self_iff)
  have butlast: "butlast (decimal k) = (if k < 10 then [] else decimal (k div 10))" for k
    by (simp add: decimal.simps [of k])
  show ?case
  proof (cases "m < 10")
    case True
    then have "butlast (decimal n) = []"
      using 1 butlast [of m] by metis
    then have "n < 10"
      using butlast [of n] by (metis decimal_nonempty)
    then show ?thesis using True last by simp
  next
    case False
    then have "butlast (decimal n) = decimal (m div 10)"
      using 1(2) butlast [of m] by metis
    then have "n \<ge> 10" "decimal (m div 10) = decimal (n div 10)"
      using butlast [of n] by (metis decimal_nonempty not_le)+
    then have "m div 10 = n div 10"
      using 1(1) [OF False] by blast
    then show ?thesis using last by (metis div_mult_mod_eq)
  qed
qed

text \<open>\<open>emplace\<close> of a map: the first entry for a key stays.\<close>

definition emplace :: "'k \<Rightarrow> 'v \<Rightarrow> ('k \<rightharpoonup> 'v) \<Rightarrow> ('k \<rightharpoonup> 'v)" where
  "emplace k v m = (case m k of None \<Rightarrow> m(k \<mapsto> v) | Some _ \<Rightarrow> m)"

section \<open>Interface: a table whose first entry for a key stays\<close>

locale first_wins_table =
  fixes put :: "'k \<Rightarrow> 'v \<Rightarrow> 's \<Rightarrow> 's"
    and del :: "'k \<Rightarrow> 's \<Rightarrow> 's"
    and get :: "'s \<Rightarrow> 'k \<Rightarrow> 'v option"
  assumes get_put: "get (put k v s) k' = (if k' = k \<and> get s k = None then Some v else get s k')"
    and get_del: "get (del k s) k' = (if k' = k then None else get s k')"
begin

lemma get_put_present: "get s k \<noteq> None \<Longrightarrow> get (put k v s) k' = get s k'"
  by (auto simp: get_put)

lemma put_again: "get (put k v' (put k v s)) k' = get (put k v s) k'"
  by (auto simp: get_put)

lemma del_put: "get s k = None \<Longrightarrow> get (del k (put k v s)) k' = get s k'"
  by (auto simp: get_put get_del)

lemma get_put_all:
  "get (foldl (\<lambda>s (k, v). put k v s) s kvs) k'
    = (case get s k' of Some v \<Rightarrow> Some v | None \<Rightarrow> map_of kvs k')"
  by (induction kvs arbitrary: s) (auto simp: get_put split: option.splits)

end

interpretation emplace_table: first_wins_table emplace "\<lambda>k m. m(k := None)" "\<lambda>m k. m k"
  by unfold_locales (auto simp: emplace_def split: option.splits)

lemma isValidIndex_length: "isValidIndex i xs \<Longrightarrow> nat (sint i) < length xs"
proof -
  have "sint (word_of_nat n :: int32) \<le> int n" for n
    using signed_take_bit_int_less_eq_self_iff [of 31 "int n"] by (simp add: signed_of_nat del: signed_take_bit_int_less_eq_self_iff)
  from this [of "length xs"] show "isValidIndex i xs \<Longrightarrow> nat (sint i) < length xs"
    by (auto simp: isValidIndex_def)
qed

section \<open>Ordered queues\<close>

lemma sorted_split:
  assumes "sorted (map f xs)" and "\<And>x y. f x \<le> f y \<Longrightarrow> g x \<le> (g y :: 't::linorder)"
  shows "takeWhile (\<lambda>x. g x \<le> t) xs = filter (\<lambda>x. g x \<le> t) xs \<and> dropWhile (\<lambda>x. g x \<le> t) xs = filter (\<lambda>x. t < g x) xs"
  using assms(1)
proof (induction xs)
  case (Cons x xs)
  show ?case
  proof (cases "g x \<le> t")
    case True
    then show ?thesis using Cons by simp
  next
    case False
    then have "\<forall>y \<in> set xs. t < g y"
      using Cons.prems assms(2) by fastforce
    then show ?thesis
      using False by (auto simp: filter_empty_conv filter_id_conv not_le)
  qed
qed simp

lemma sorted_insert_upper:
  assumes "sorted (map key xs)"
  shows "sorted (map key (insert_at (upper_bound key xs (key x)) x xs))"
proof -
  define A where "A = takeWhile (\<lambda>y. key y \<le> key x) xs"
  define B where "B = dropWhile (\<lambda>y. key y \<le> key x) xs"
  have "xs = A @ B"
    by (simp add: A_def B_def)
  then have "sorted (map key A)" "sorted (map key B)" "\<forall>a \<in> set A. \<forall>b \<in> set B. key a \<le> key b"
    using assms by (simp_all add: sorted_append)
  moreover have "\<forall>b \<in> set B. key x \<le> key b"
    unfolding B_def by (intro ballI less_imp_le set_dropWhile_le [OF assms])
  moreover have "\<forall>a \<in> set A. key a \<le> key x"
    unfolding A_def by (auto dest: set_takeWhileD)
  moreover have "insert_at (upper_bound key xs (key x)) x xs = A @ x # B"
    by (simp add: insert_at_def take_upper_bound drop_upper_bound A_def B_def)
  ultimately show ?thesis
    by (simp add: sorted_append)
qed

lemma sorted_last: "sorted (map f xs) \<Longrightarrow> x \<in> set xs \<Longrightarrow> f x \<le> f (last xs)"
  by (cases xs rule: rev_cases) (auto simp: sorted_append)

end
