(* ===== verification/Action_Codes.thy ===== *)
theory Action_Codes
  imports Prelude
begin

text \<open>
  The action enumeration of \<open>ActionMessageDefintions.hpp\<close>. The enumeration has a fixed underlying
  type, so a message decoded from the network may carry any 32 bit code; the enumerators are named
  constants of that type. The table \<open>actionStrings\<close> gives their printed names.
\<close>

section \<open>Codes\<close>

type_synonym action_t = int32

definition cmd_priority_disconnect :: action_t where "cmd_priority_disconnect = - 3"
definition cmd_fed_ack :: action_t where "cmd_fed_ack = - 25"
definition cmd_broker_ack :: action_t where "cmd_broker_ack = - 27"
definition cmd_add_route :: action_t where "cmd_add_route = - 32"
definition cmd_route_ack :: action_t where "cmd_route_ack = - 16"
definition cmd_register_route :: action_t where "cmd_register_route = - 15"
definition cmd_reg_fed :: action_t where "cmd_reg_fed = - 105"
definition cmd_priority_ack :: action_t where "cmd_priority_ack = - 254"
definition cmd_query :: action_t where "cmd_query = - 268435493"
definition cmd_set_global :: action_t where "cmd_set_global = - 268435511"
definition cmd_broker_query :: action_t where "cmd_broker_query = - 37"
definition cmd_query_reply :: action_t where "cmd_query_reply = - 268435494"
definition cmd_reg_broker :: action_t where "cmd_reg_broker = - 268435496"
definition cmd_broker_location :: action_t where "cmd_broker_location = 268435399"
definition cmd_broker_setup :: action_t where "cmd_broker_setup = - 1"
definition cmd_ignore :: action_t where "cmd_ignore = 0"
definition cmd_tick :: action_t where "cmd_tick = 1"
definition cmd_user_disconnect :: action_t where "cmd_user_disconnect = 2"
definition cmd_disconnect :: action_t where "cmd_disconnect = 3"
definition cmd_disconnect_name :: action_t where "cmd_disconnect_name = 4"
definition cmd_disconnect_check :: action_t where "cmd_disconnect_check = 5"
definition cmd_disconnect_fed :: action_t where "cmd_disconnect_fed = 6"
definition cmd_broadcast_disconnect :: action_t where "cmd_broadcast_disconnect = 7"
definition cmd_disconnect_core :: action_t where "cmd_disconnect_core = 8"
definition cmd_disconnect_broker :: action_t where "cmd_disconnect_broker = 9"
definition cmd_disconnect_fed_ack :: action_t where "cmd_disconnect_fed_ack = 1006"
definition cmd_disconnect_core_ack :: action_t where "cmd_disconnect_core_ack = 1008"
definition cmd_disconnect_broker_ack :: action_t where "cmd_disconnect_broker_ack = 1009"
definition cmd_check_connections :: action_t where "cmd_check_connections = 297"
definition cmd_ping :: action_t where "cmd_ping = 298"
definition cmd_ping_priority :: action_t where "cmd_ping_priority = - 298"
definition cmd_ping_reply :: action_t where "cmd_ping_reply = 299"
definition cmd_broker_ping :: action_t where "cmd_broker_ping = 306"
definition cmd_init :: action_t where "cmd_init = 10"
definition cmd_init_grant :: action_t where "cmd_init_grant = 11"
definition cmd_init_not_ready :: action_t where "cmd_init_not_ready = 12"
definition cmd_exec_request :: action_t where "cmd_exec_request = 20"
definition cmd_exec_grant :: action_t where "cmd_exec_grant = 22"
definition cmd_exec_check :: action_t where "cmd_exec_check = 24"
definition cmd_ack :: action_t where "cmd_ack = 254"
definition cmd_stop :: action_t where "cmd_stop = 30"
definition cmd_terminate_immediately :: action_t where "cmd_terminate_immediately = 31"
definition cmd_time_grant :: action_t where "cmd_time_grant = 35"
definition cmd_time_check :: action_t where "cmd_time_check = 36"
definition cmd_request_current_time :: action_t where "cmd_request_current_time = 38"
definition cmd_time_block :: action_t where "cmd_time_block = 40"
definition cmd_time_unblock :: action_t where "cmd_time_unblock = 41"
definition cmd_time_barrier_request :: action_t where "cmd_time_barrier_request = 42"
definition cmd_time_barrier :: action_t where "cmd_time_barrier = 43"
definition cmd_time_barrier_clear :: action_t where "cmd_time_barrier_clear = 44"
definition cmd_pub :: action_t where "cmd_pub = 52"
definition cmd_bye :: action_t where "cmd_bye = 2000"
definition cmd_log :: action_t where "cmd_log = 55"
definition cmd_warning :: action_t where "cmd_warning = 9990"
definition cmd_error :: action_t where "cmd_error = 10000"
definition cmd_local_error :: action_t where "cmd_local_error = 10003"
definition cmd_global_error :: action_t where "cmd_global_error = 10005"
definition cmd_error_check :: action_t where "cmd_error_check = 10001"
definition cmd_invalid :: action_t where "cmd_invalid = 1010101"
definition cmd_send_route :: action_t where "cmd_send_route = 75"
definition cmd_search_dependency :: action_t where "cmd_search_dependency = 1464"
definition cmd_add_dependency :: action_t where "cmd_add_dependency = 140"
definition cmd_remove_dependency :: action_t where "cmd_remove_dependency = 141"
definition cmd_add_dependent :: action_t where "cmd_add_dependent = 144"
definition cmd_remove_dependent :: action_t where "cmd_remove_dependent = 145"
definition cmd_add_interdependency :: action_t where "cmd_add_interdependency = 148"
definition cmd_remove_interdependency :: action_t where "cmd_remove_interdependency = 149"
definition cmd_data_link :: action_t where "cmd_data_link = 268436163"
definition cmd_filter_link :: action_t where "cmd_filter_link = 268436165"
definition cmd_fed_configure_time :: action_t where "cmd_fed_configure_time = 202"
definition cmd_fed_configure_int :: action_t where "cmd_fed_configure_int = 203"
definition cmd_fed_configure_flag :: action_t where "cmd_fed_configure_flag = 204"
definition cmd_core_configure :: action_t where "cmd_core_configure = 207"
definition cmd_interface_configure :: action_t where "cmd_interface_configure = 209"
definition cmd_broker_configure :: action_t where "cmd_broker_configure = 211"
definition cmd_update_filter_op :: action_t where "cmd_update_filter_op = 10427"
definition null_info_command :: action_t where "null_info_command = 268435455"
definition priority_null_info_command :: action_t where "priority_null_info_command = - 268435457"
definition cmd_time_request :: action_t where "cmd_time_request = 500"
definition cmd_force_time_grant :: action_t where "cmd_force_time_grant = 525"
definition cmd_send_message :: action_t where "cmd_send_message = 268435476"
definition cmd_null_message :: action_t where "cmd_null_message = 726"
definition cmd_null_dest_message :: action_t where "cmd_null_dest_message = 730"
definition cmd_send_for_filter :: action_t where "cmd_send_for_filter = 268435486"
definition cmd_send_for_dest_filter_return :: action_t where "cmd_send_for_dest_filter_return = 268435487"
definition cmd_send_for_filter_return :: action_t where "cmd_send_for_filter_return = 268435491"
definition cmd_filter_result :: action_t where "cmd_filter_result = 268435496"
definition cmd_dest_filter_result :: action_t where "cmd_dest_filter_result = 268435497"
definition cmd_reg_pub :: action_t where "cmd_reg_pub = 268435506"
definition cmd_add_publisher :: action_t where "cmd_add_publisher = 50"
definition cmd_reg_filter :: action_t where "cmd_reg_filter = 268435516"
definition cmd_add_filter :: action_t where "cmd_add_filter = 62"
definition cmd_reg_input :: action_t where "cmd_reg_input = 268435526"
definition cmd_add_subscriber :: action_t where "cmd_add_subscriber = 70"
definition cmd_reg_end :: action_t where "cmd_reg_end = 268435546"
definition cmd_add_endpoint :: action_t where "cmd_add_endpoint = 90"
definition cmd_add_named_input :: action_t where "cmd_add_named_input = 104"
definition cmd_add_named_filter :: action_t where "cmd_add_named_filter = 105"
definition cmd_add_named_publication :: action_t where "cmd_add_named_publication = 106"
definition cmd_add_named_endpoint :: action_t where "cmd_add_named_endpoint = 107"
definition cmd_remove_named_input :: action_t where "cmd_remove_named_input = 124"
definition cmd_remove_named_filter :: action_t where "cmd_remove_named_filter = 125"
definition cmd_remove_named_publication :: action_t where "cmd_remove_named_publication = 126"
definition cmd_remove_named_endpoint :: action_t where "cmd_remove_named_endpoint = 127"
definition cmd_remove_subscriber :: action_t where "cmd_remove_subscriber = 134"
definition cmd_remove_filter :: action_t where "cmd_remove_filter = 135"
definition cmd_remove_publication :: action_t where "cmd_remove_publication = 136"
definition cmd_remove_endpoint :: action_t where "cmd_remove_endpoint = 137"
definition cmd_close_interface :: action_t where "cmd_close_interface = 133"
definition cmd_multi_message :: action_t where "cmd_multi_message = 1037"
definition cmd_connection_error :: action_t where "cmd_connection_error = 2034"
definition cmd_protocol_priority :: action_t where "cmd_protocol_priority = - 60000"
definition cmd_protocol :: action_t where "cmd_protocol = 60000"
definition cmd_protocol_big :: action_t where "cmd_protocol_big = 268495456"
definition cmd_resend :: action_t where "cmd_resend = 121212"

lemmas cmd_defs [cmd_code] =
  cmd_priority_disconnect_def cmd_fed_ack_def cmd_broker_ack_def cmd_add_route_def
  cmd_route_ack_def cmd_register_route_def cmd_reg_fed_def cmd_priority_ack_def cmd_query_def
  cmd_set_global_def cmd_broker_query_def cmd_query_reply_def cmd_reg_broker_def
  cmd_broker_location_def cmd_broker_setup_def cmd_ignore_def cmd_tick_def
  cmd_user_disconnect_def cmd_disconnect_def cmd_disconnect_name_def cmd_disconnect_check_def
  cmd_disconnect_fed_def cmd_broadcast_disconnect_def cmd_disconnect_core_def
  cmd_disconnect_broker_def cmd_disconnect_fed_ack_def cmd_disconnect_core_ack_def
  cmd_disconnect_broker_ack_def cmd_check_connections_def cmd_ping_def cmd_ping_priority_def
  cmd_ping_reply_def cmd_broker_ping_def cmd_init_def cmd_init_grant_def cmd_init_not_ready_def
  cmd_exec_request_def cmd_exec_grant_def cmd_exec_check_def cmd_ack_def cmd_stop_def
  cmd_terminate_immediately_def cmd_time_grant_def cmd_time_check_def
  cmd_request_current_time_def cmd_time_block_def cmd_time_unblock_def
  cmd_time_barrier_request_def cmd_time_barrier_def cmd_time_barrier_clear_def cmd_pub_def
  cmd_bye_def cmd_log_def cmd_warning_def cmd_error_def cmd_local_error_def cmd_global_error_def
  cmd_error_check_def cmd_invalid_def cmd_send_route_def cmd_search_dependency_def
  cmd_add_dependency_def cmd_remove_dependency_def cmd_add_dependent_def cmd_remove_dependent_def
  cmd_add_interdependency_def cmd_remove_interdependency_def cmd_data_link_def
  cmd_filter_link_def cmd_fed_configure_time_def cmd_fed_configure_int_def
  cmd_fed_configure_flag_def cmd_core_configure_def cmd_interface_configure_def
  cmd_broker_configure_def cmd_update_filter_op_def null_info_command_def
  priority_null_info_command_def cmd_time_request_def cmd_force_time_grant_def
  cmd_send_message_def cmd_null_message_def cmd_null_dest_message_def cmd_send_for_filter_def
  cmd_send_for_dest_filter_return_def cmd_send_for_filter_return_def cmd_filter_result_def
  cmd_dest_filter_result_def cmd_reg_pub_def cmd_add_publisher_def cmd_reg_filter_def
  cmd_add_filter_def cmd_reg_input_def cmd_add_subscriber_def cmd_reg_end_def
  cmd_add_endpoint_def cmd_add_named_input_def cmd_add_named_filter_def
  cmd_add_named_publication_def cmd_add_named_endpoint_def cmd_remove_named_input_def
  cmd_remove_named_filter_def cmd_remove_named_publication_def cmd_remove_named_endpoint_def
  cmd_remove_subscriber_def cmd_remove_filter_def cmd_remove_publication_def
  cmd_remove_endpoint_def cmd_close_interface_def cmd_multi_message_def cmd_connection_error_def
  cmd_protocol_priority_def cmd_protocol_def cmd_protocol_big_def cmd_resend_def

text \<open>All codes, in the order of the enumeration.\<close>

definition action_t_codes :: "action_t list" where
  "action_t_codes = [
     cmd_priority_disconnect, cmd_fed_ack, cmd_broker_ack, cmd_add_route, cmd_route_ack,
     cmd_register_route, cmd_reg_fed, cmd_priority_ack, cmd_query, cmd_set_global, cmd_broker_query,
     cmd_query_reply, cmd_reg_broker, cmd_broker_location, cmd_broker_setup, cmd_ignore, cmd_tick,
     cmd_user_disconnect, cmd_disconnect, cmd_disconnect_name, cmd_disconnect_check,
     cmd_disconnect_fed, cmd_broadcast_disconnect, cmd_disconnect_core, cmd_disconnect_broker,
     cmd_disconnect_fed_ack, cmd_disconnect_core_ack, cmd_disconnect_broker_ack, cmd_check_connections,
     cmd_ping, cmd_ping_priority, cmd_ping_reply, cmd_broker_ping, cmd_init, cmd_init_grant,
     cmd_init_not_ready, cmd_exec_request, cmd_exec_grant, cmd_exec_check, cmd_ack, cmd_stop,
     cmd_terminate_immediately, cmd_time_grant, cmd_time_check, cmd_request_current_time,
     cmd_time_block, cmd_time_unblock, cmd_time_barrier_request, cmd_time_barrier,
     cmd_time_barrier_clear, cmd_pub, cmd_bye, cmd_log, cmd_warning, cmd_error, cmd_local_error,
     cmd_global_error, cmd_error_check, cmd_invalid, cmd_send_route, cmd_search_dependency,
     cmd_add_dependency, cmd_remove_dependency, cmd_add_dependent, cmd_remove_dependent,
     cmd_add_interdependency, cmd_remove_interdependency, cmd_data_link, cmd_filter_link,
     cmd_fed_configure_time, cmd_fed_configure_int, cmd_fed_configure_flag, cmd_core_configure,
     cmd_interface_configure, cmd_broker_configure, cmd_update_filter_op, null_info_command,
     priority_null_info_command, cmd_time_request, cmd_force_time_grant, cmd_send_message,
     cmd_null_message, cmd_null_dest_message, cmd_send_for_filter, cmd_send_for_dest_filter_return,
     cmd_send_for_filter_return, cmd_filter_result, cmd_dest_filter_result, cmd_reg_pub,
     cmd_add_publisher, cmd_reg_filter, cmd_add_filter, cmd_reg_input, cmd_add_subscriber, cmd_reg_end,
     cmd_add_endpoint, cmd_add_named_input, cmd_add_named_filter, cmd_add_named_publication,
     cmd_add_named_endpoint, cmd_remove_named_input, cmd_remove_named_filter,
     cmd_remove_named_publication, cmd_remove_named_endpoint, cmd_remove_subscriber, cmd_remove_filter,
     cmd_remove_publication, cmd_remove_endpoint, cmd_close_interface, cmd_multi_message,
     cmd_connection_error, cmd_protocol_priority, cmd_protocol, cmd_protocol_big, cmd_resend]"

text \<open>The macro \<open>CMD_BROKER_PING\<close> of the header expands to the set-up command, not to the ping.\<close>

definition CMD_BROKER_PING :: action_t where
  "CMD_BROKER_PING = cmd_broker_setup"

section \<open>Names\<close>

definition unknownStr :: string where
  "unknownStr = ''unknown''"

definition actionStrings :: "(action_t \<times> string) list" where
  "actionStrings =
    [(cmd_priority_disconnect, ''priority_disconnect''),
     (cmd_disconnect, ''disconnect''),
     (cmd_disconnect_name, ''disconnect by name''),
     (cmd_user_disconnect, ''disconnect from user''),
     (cmd_broadcast_disconnect, ''broadcast disconnect''),
     (cmd_fed_ack, ''fed_ack''),
     (cmd_broker_ack, ''broker_ack''),
     (cmd_add_route, ''add_route''),
     (cmd_route_ack, ''route_ack''),
     (cmd_register_route, ''register_route''),
     (cmd_reg_fed, ''reg_fed''),
     (cmd_priority_ack, ''priority_ack''),
     (cmd_query, ''query''),
     (cmd_query_reply, ''query_reply''),
     (cmd_reg_broker, ''reg_broker''),
     (cmd_ignore, ''ignore''),
     (cmd_tick, ''tick''),
     (cmd_ping, ''ping''),
     (cmd_ping_reply, ''ping reply''),
     (cmd_fed_configure_time, ''fed_configure_time''),
     (cmd_fed_configure_int, ''fed_configure_int''),
     (cmd_fed_configure_flag, ''fed_configure_flag''),
     (cmd_init, ''init''),
     (cmd_init_grant, ''init_grant''),
     (cmd_init_not_ready, ''init_not_ready''),
     (cmd_exec_request, ''exec_request''),
     (cmd_exec_grant, ''exec_grant''),
     (cmd_exec_check, ''exec_check''),
     (cmd_disconnect_broker_ack, ''disconnect broker acknowledge''),
     (cmd_disconnect_core_ack, ''disconnect core acknowledge''),
     (cmd_disconnect_fed_ack, ''disconnect fed acknowledge''),
     (cmd_ack, ''ack''),
     (cmd_stop, ''stop''),
     (cmd_terminate_immediately, ''terminate_immediately''),
     (cmd_time_grant, ''time_grant''),
     (cmd_time_check, ''time_check''),
     (cmd_time_block, ''time_block''),
     (cmd_time_unblock, ''time_unblock''),
     (cmd_pub, ''pub''),
     (cmd_bye, ''bye''),
     (cmd_log, ''log''),
     (cmd_warning, ''warning''),
     (cmd_error, ''error''),
     (cmd_send_route, ''send_route''),
     (cmd_add_dependency, ''add_dependency''),
     (cmd_remove_dependency, ''remove_dependency''),
     (cmd_add_dependent, ''add_dependent''),
     (cmd_remove_dependent, ''remove_dependent''),
     (cmd_add_interdependency, ''add_interdependency''),
     (cmd_remove_interdependency, ''remove_interdependency''),
     (null_info_command, ''null_info''),
     (priority_null_info_command, ''priority_null_info''),
     (cmd_time_request, ''time_request''),
     (cmd_send_message, ''send_message''),
     (cmd_send_for_filter, ''send_for_filter''),
     (cmd_filter_result, ''result from running a filter''),
     (cmd_send_for_filter_return, ''send_for_filter_return''),
     (cmd_null_message, ''null message''),
     (cmd_reg_pub, ''reg_pub''),
     (cmd_add_publisher, ''add publisher''),
     (cmd_remove_publication, ''remove publisher''),
     (cmd_reg_filter, ''reg_filter''),
     (cmd_add_filter, ''add_filter''),
     (cmd_remove_filter, ''remove filter''),
     (cmd_filter_link, ''link filter''),
     (cmd_data_link, ''data link''),
     (cmd_reg_input, ''reg_input''),
     (cmd_add_subscriber, ''add_subscriber''),
     (cmd_remove_subscriber, ''remove subscriber''),
     (cmd_reg_end, ''reg_end''),
     (cmd_resend, ''reg_resend''),
     (cmd_add_endpoint, ''add_endpoint''),
     (cmd_remove_endpoint, ''remove endpoint''),
     (cmd_add_named_endpoint, ''add_named_endpoint''),
     (cmd_add_named_input, ''add_named_input''),
     (cmd_add_named_publication, ''add_named_publication''),
     (cmd_add_named_filter, ''add_named_filter''),
     (cmd_remove_named_endpoint, ''remove_named_endpoint''),
     (cmd_disconnect_fed, ''disconnect_fed''),
     (cmd_disconnect_broker, ''disconnect_broker''),
     (cmd_disconnect_core, ''disconnect_core''),
     (cmd_remove_named_input, ''remove_named_input''),
     (cmd_remove_named_publication, ''remove_named_publication''),
     (cmd_remove_named_filter, ''remove_named_filter''),
     (cmd_close_interface, ''close_interface''),
     (cmd_multi_message, ''multi message''),
     (cmd_broker_configure, ''broker_configure''),
     (cmd_time_barrier_request, ''request time barrier''),
     (cmd_time_barrier, ''time barrier''),
     (cmd_time_barrier_clear, ''clear time barrier''),
     (cmd_protocol_priority, ''protocol_priority''),
     (cmd_protocol, ''protocol''),
     (cmd_protocol_big, ''protocol_big'')]"

definition actionMessageType :: "action_t \<Rightarrow> string" where
  "actionMessageType action =
     (case find (\<lambda>pt. fst pt = action) actionStrings of
        Some res \<Rightarrow> snd res | None \<Rightarrow> unknownStr)"

definition errorStrings :: "(int \<times> string) list" where
  "errorStrings =
     [(- 2, ''connection error''),
      (- 5, ''lost connection with server''),
      (5, ''already in initialization mode''),
      (6, ''duplicate federate name detected''),
      (7, ''duplicate broker name detected''),
      (9, ''Broker key does not match'')]"

definition commandErrorString :: "int \<Rightarrow> string" where
  "commandErrorString errorcode =
     (case find (\<lambda>pt. fst pt = errorcode) errorStrings of
        Some res \<Rightarrow> snd res | None \<Rightarrow> unknownStr)"

section \<open>Codes and names are unambiguous\<close>

lemma codes_distinct: "distinct action_t_codes"
  by code_simp

lemma names_distinct: "distinct (map fst actionStrings)" "distinct (map snd actionStrings)"
  by code_simp+

lemma named_codes: "list_all (\<lambda>(c, _). c \<in> set action_t_codes) actionStrings"
  by code_simp

text \<open>A command is recognised by its code. No two commands of the enumeration have the same code, so
  the dispatch on a code is unambiguous; the table of names has every code and every name at most
  once and only codes of the enumeration, so a name shown stands for one command.\<close>

lemma command_codes_unambiguous:
  "distinct action_t_codes \<and> distinct (map fst actionStrings) \<and> distinct (map snd actionStrings)
     \<and> list_all (\<lambda>(c, _). c \<in> set action_t_codes) actionStrings"
  by (simp only: codes_distinct names_distinct named_codes simp_thms)

end
