(* ===== verification/Identifiers.thy ===== *)
theory Identifiers
  imports Prelude
begin

text \<open>
  The identifier classes of \<open>federate_id.hpp\<close> and \<open>global_federate_id.hpp\<close>: thin wrappers
  around a signed 32 bit value, each with its own invalid code. Comparison is signed, so every
  class is an instance of \<open>linorder\<close> through \<open>sint\<close>. A \<open>global_handle\<close> pairs a federate with
  an interface and is also turned into a 64 bit key; the main result is that the key is injective.
\<close>

section \<open>Local identifiers\<close>

datatype local_federate_id = Local_Federate_Id (fid: int32)

definition invalid_fid :: int32 where
  "invalid_fid = - 2000000000"

definition default_local_federate_id :: local_federate_id where
  "default_local_federate_id = Local_Federate_Id invalid_fid"

definition local_isValid :: "local_federate_id \<Rightarrow> bool" where
  "local_isValid f \<longleftrightarrow> fid f \<noteq> invalid_fid"

definition local_core_id :: local_federate_id where
  "local_core_id = Local_Federate_Id (- 259)"

datatype interface_handle = Interface_Handle (hid: int32)

definition invalid_handle :: int32 where
  "invalid_handle = - 1700000000"

definition default_interface_handle :: interface_handle where
  "default_interface_handle = Interface_Handle invalid_handle"

definition handle_isValid :: "interface_handle \<Rightarrow> bool" where
  "handle_isValid h \<longleftrightarrow> hid h \<noteq> invalid_handle"

definition direct_send_handle :: interface_handle where
  "direct_send_handle = Interface_Handle (- 1745234)"

instantiation local_federate_id :: linorder
begin

definition less_eq_local_federate_id :: "local_federate_id \<Rightarrow> local_federate_id \<Rightarrow> bool" where
  "less_eq_local_federate_id a b \<longleftrightarrow> sint (fid a) \<le> sint (fid b)"

definition less_local_federate_id :: "local_federate_id \<Rightarrow> local_federate_id \<Rightarrow> bool" where
  "less_local_federate_id a b \<longleftrightarrow> sint (fid a) < sint (fid b)"

instance
  by standard
    (auto simp: less_eq_local_federate_id_def less_local_federate_id_def
      intro: local_federate_id.expand)

end

instantiation interface_handle :: linorder
begin

definition less_eq_interface_handle :: "interface_handle \<Rightarrow> interface_handle \<Rightarrow> bool" where
  "less_eq_interface_handle a b \<longleftrightarrow> sint (hid a) \<le> sint (hid b)"

definition less_interface_handle :: "interface_handle \<Rightarrow> interface_handle \<Rightarrow> bool" where
  "less_interface_handle a b \<longleftrightarrow> sint (hid a) < sint (hid b)"

instance
  by standard
    (auto simp: less_eq_interface_handle_def less_interface_handle_def
      intro: interface_handle.expand)

end

section \<open>Global identifiers\<close>

definition global_federate_id_shift :: int32 where
  "global_federate_id_shift = 0x20000"

definition global_broker_id_shift :: int32 where
  "global_broker_id_shift = 0x70000000"

definition invalid_global_id :: int32 where
  "invalid_global_id = - 2010000000"

datatype global_broker_id = Global_Broker_Id (bid: int32)

definition broker_isFederate :: "global_broker_id \<Rightarrow> bool" where
  "broker_isFederate b \<longleftrightarrow> sint global_federate_id_shift \<le> sint (bid b)
     \<and> sint (bid b) < sint global_broker_id_shift"

definition broker_isBroker :: "global_broker_id \<Rightarrow> bool" where
  "broker_isBroker b \<longleftrightarrow> sint global_broker_id_shift \<le> sint (bid b)"

definition broker_isValid :: "global_broker_id \<Rightarrow> bool" where
  "broker_isValid b \<longleftrightarrow> bid b \<noteq> invalid_global_id"

definition broker_localIndex :: "global_broker_id \<Rightarrow> int32" where
  "broker_localIndex b = bid b - global_broker_id_shift"

definition default_global_broker_id :: global_broker_id where
  "default_global_broker_id = Global_Broker_Id invalid_global_id"

definition parent_broker_id :: global_broker_id where
  "parent_broker_id = Global_Broker_Id 0"

definition root_broker_id :: global_broker_id where
  "root_broker_id = Global_Broker_Id 1"

datatype global_federate_id = Global_Federate_Id (gid: int32)

definition fed_of_broker :: "global_broker_id \<Rightarrow> global_federate_id" where
  "fed_of_broker b = Global_Federate_Id (bid b)"

definition broker_of_fed :: "global_federate_id \<Rightarrow> global_broker_id" where
  "broker_of_fed f = Global_Broker_Id (gid f)"

definition fed_isFederate :: "global_federate_id \<Rightarrow> bool" where
  "fed_isFederate f \<longleftrightarrow> sint global_federate_id_shift \<le> sint (gid f)
     \<and> sint (gid f) < sint global_broker_id_shift"

definition fed_isBroker :: "global_federate_id \<Rightarrow> bool" where
  "fed_isBroker f \<longleftrightarrow> sint global_broker_id_shift \<le> sint (gid f)"

definition fed_isValid :: "global_federate_id \<Rightarrow> bool" where
  "fed_isValid f \<longleftrightarrow> gid f \<noteq> invalid_global_id"

definition fed_localIndex :: "global_federate_id \<Rightarrow> int32" where
  "fed_localIndex f = gid f - global_federate_id_shift"

definition default_global_federate_id :: global_federate_id where
  "default_global_federate_id = Global_Federate_Id invalid_global_id"

definition direct_core_id :: global_federate_id where
  "direct_core_id = Global_Federate_Id (- 235262)"

instantiation global_broker_id :: linorder
begin

definition less_eq_global_broker_id :: "global_broker_id \<Rightarrow> global_broker_id \<Rightarrow> bool" where
  "less_eq_global_broker_id a b \<longleftrightarrow> sint (bid a) \<le> sint (bid b)"

definition less_global_broker_id :: "global_broker_id \<Rightarrow> global_broker_id \<Rightarrow> bool" where
  "less_global_broker_id a b \<longleftrightarrow> sint (bid a) < sint (bid b)"

instance
  by standard
    (auto simp: less_eq_global_broker_id_def less_global_broker_id_def
      intro: global_broker_id.expand)

end

instantiation global_federate_id :: linorder
begin

definition less_eq_global_federate_id :: "global_federate_id \<Rightarrow> global_federate_id \<Rightarrow> bool" where
  "less_eq_global_federate_id a b \<longleftrightarrow> sint (gid a) \<le> sint (gid b)"

definition less_global_federate_id :: "global_federate_id \<Rightarrow> global_federate_id \<Rightarrow> bool" where
  "less_global_federate_id a b \<longleftrightarrow> sint (gid a) < sint (gid b)"

instance
  by standard
    (auto simp: less_eq_global_federate_id_def less_global_federate_id_def
      intro: global_federate_id.expand)

end

section \<open>Global handles and their keys\<close>

datatype global_handle = Global_Handle (fed_id: global_federate_id) (handle: interface_handle)

definition default_global_handle :: global_handle where
  "default_global_handle = Global_Handle default_global_federate_id default_interface_handle"

definition global_handle_key :: "global_handle \<Rightarrow> uint64" where
  "global_handle_key h = push_bit 32 (scast (gid (fed_id h)))
     + (scast (hid (handle h)) AND 0xFFFFFFFF)"

definition global_handle_less :: "global_handle \<Rightarrow> global_handle \<Rightarrow> bool" where
  "global_handle_less a b =
     (if fed_id a < fed_id b then True
      else if fed_id a \<noteq> fed_id b then False else handle a < handle b)"

definition global_handle_isValid :: "global_handle \<Rightarrow> bool" where
  "global_handle_isValid h \<longleftrightarrow> fed_isValid (fed_id h) \<and> handle_isValid (handle h)"

instantiation global_handle :: linorder
begin

definition less_global_handle :: "global_handle \<Rightarrow> global_handle \<Rightarrow> bool" where
  "less_global_handle a b = global_handle_less a b"

definition less_eq_global_handle :: "global_handle \<Rightarrow> global_handle \<Rightarrow> bool" where
  "less_eq_global_handle a b \<longleftrightarrow> a = b \<or> global_handle_less a b"

instance
proof
  fix x y z :: global_handle
  show "x < y \<longleftrightarrow> x \<le> y \<and> \<not> y \<le> x"
    by (auto simp: less_eq_global_handle_def less_global_handle_def global_handle_less_def)
  show "x \<le> x"
    by (simp add: less_eq_global_handle_def)
  show "x \<le> y \<Longrightarrow> y \<le> z \<Longrightarrow> x \<le> z"
    by (auto simp: less_eq_global_handle_def global_handle_less_def split: if_splits)
  show "x \<le> y \<Longrightarrow> y \<le> x \<Longrightarrow> x = y"
    by (auto simp: less_eq_global_handle_def global_handle_less_def split: if_splits)
  show "x \<le> y \<or> y \<le> x"
    by (auto simp: less_eq_global_handle_def global_handle_less_def intro: global_handle.expand)
qed

end

datatype route_id = Route_Id (rid: int32)

definition invalid_route_id :: int32 where
  "invalid_route_id = - 1295148000"

definition route_isValid :: "route_id \<Rightarrow> bool" where
  "route_isValid r \<longleftrightarrow> rid r \<noteq> invalid_route_id"

definition parent_route_id :: route_id where
  "parent_route_id = Route_Id 0"

definition control_route :: route_id where
  "control_route = Route_Id (- 1)"

lemmas id_defs [id_simps] =
  invalid_fid_def invalid_handle_def invalid_global_id_def global_federate_id_shift_def
  global_broker_id_shift_def local_isValid_def handle_isValid_def broker_isFederate_def
  broker_isBroker_def broker_isValid_def fed_isFederate_def fed_isBroker_def fed_isValid_def
  default_local_federate_id_def default_interface_handle_def default_global_broker_id_def
  default_global_federate_id_def parent_broker_id_def root_broker_id_def direct_core_id_def
  fed_of_broker_def broker_of_fed_def

section \<open>The key of a global handle is injective\<close>

lemma handle_key_low:
  "(scast (hid h) AND 0xFFFFFFFF :: uint64) = ucast (hid h)"
proof -
  have "(0xFFFFFFFF :: uint64) = mask 32"
    by (simp add: mask_eq_exp_minus_1)
  then have "(scast (hid h) AND 0xFFFFFFFF :: uint64) = take_bit 32 (scast (hid h))"
    by (simp only: take_bit_eq_mask)
  also have "\<dots> = ucast (hid h)"
  proof (rule bit_word_eqI)
    fix n :: nat
    have "bit (hid h) n \<Longrightarrow> n < 32"
      by (drule bit_imp_le_length) simp
    moreover have "n < 32 \<Longrightarrow> min 31 n = n"
      by simp
    ultimately show "bit (take_bit 32 (scast (hid h) :: uint64)) n \<longleftrightarrow> bit (ucast (hid h) :: uint64) n"
      by (auto simp: bit_simps)
  qed
  finally show ?thesis .
qed

lemma global_handle_key_or:
  "global_handle_key h = push_bit 32 (ucast (gid (fed_id h))) OR ucast (hid (handle h))"
proof -
  have "push_bit 32 (scast (gid (fed_id h)) :: uint64) = push_bit 32 (ucast (gid (fed_id h)))"
    by (rule bit_word_eqI) (auto simp: bit_simps)
  moreover have "push_bit 32 (ucast a) + ucast b = push_bit 32 (ucast a) OR (ucast b :: uint64)"
    for a b :: int32
    by (rule disjunctive_add) (auto simp: bit_simps dest: bit_imp_le_length)
  ultimately show ?thesis
    by (simp add: global_handle_key_def handle_key_low)
qed

lemma global_handle_key_parts:
  "ucast (global_handle_key h) = hid (handle h)"
  "ucast (drop_bit 32 (global_handle_key h)) = gid (fed_id h)"
  by (rule bit_word_eqI, auto simp: global_handle_key_or bit_simps dest: bit_imp_le_length)+

lemma global_handle_key_inj: "global_handle_key a = global_handle_key b \<longleftrightarrow> a = b"
  by (metis global_handle_key_parts global_handle.expand global_federate_id.expand
      interface_handle.expand)

end
