(* ===== verification/Enumerations.thy ===== *)
theory Enumerations
  imports Identifiers
begin

text \<open>
  The enumerations shared by the core classes (\<open>core-types.hpp\<close>, \<open>helics_enums.h\<close>,
  \<open>helics_definitions.hpp\<close>) and the flag bits carried by messages and handles
  (\<open>flagOperations.hpp\<close>).
\<close>

section \<open>Processing results and requests\<close>

datatype federate_state = HELICS_CREATED | HELICS_INITIALIZING | HELICS_EXECUTING
  | HELICS_TERMINATING | HELICS_ERROR | HELICS_FINISHED | HELICS_UNKNOWN

datatype message_processing_result = MPR_continue_processing | MPR_delay_message | MPR_next_step
  | MPR_iterating | MPR_halted | MPR_error

fun mpr_code :: "message_processing_result \<Rightarrow> int" where
  "mpr_code MPR_continue_processing = - 2"
| "mpr_code MPR_delay_message = - 1"
| "mpr_code MPR_next_step = 0"
| "mpr_code MPR_iterating = 2"
| "mpr_code MPR_halted = 3"
| "mpr_code MPR_error = 7"

definition returnableResult :: "message_processing_result \<Rightarrow> bool" where
  "returnableResult r \<longleftrightarrow> mpr_code MPR_next_step \<le> mpr_code r"

datatype iteration_result = IR_next_step | IR_iterating | IR_halted | IR_error

datatype iteration_request = no_iterations | force_iteration | iterate_if_needed

section \<open>Flag bits\<close>

definition iteration_requested_flag :: nat where "iteration_requested_flag = 0"
definition destination_target :: nat where "destination_target = 1"
definition required_flag :: nat where "required_flag = 2"
definition core_flag :: nat where "core_flag = 3"
definition error_flag :: nat where "error_flag = 4"
definition indicator_flag :: nat where "indicator_flag = 5"
definition empty_flag :: nat where "empty_flag = 6"
definition extra_flag1 :: nat where "extra_flag1 = 7"
definition optional_flag :: nat where "optional_flag = 8"
definition clone_flag :: nat where "clone_flag = 9"
definition extra_flag2 :: nat where "extra_flag2 = 8"
definition destination_processing_flag :: nat where "destination_processing_flag = 11"
definition disconnected_flag :: nat where "disconnected_flag = 12"
definition extra_flag3 :: nat where "extra_flag3 = 13"
definition extra_flag4 :: nat where "extra_flag4 = 14"
definition nameless_interface_flag :: nat where "nameless_interface_flag = 15"

text \<open>The enumerators of \<open>operation_flags\<close> in the order of the source.\<close>

definition operation_flags :: "nat list" where
  "operation_flags =
     [iteration_requested_flag, destination_target, required_flag, core_flag, error_flag, indicator_flag,
      empty_flag, extra_flag1, optional_flag, clone_flag, extra_flag2, destination_processing_flag,
      disconnected_flag, extra_flag3, extra_flag4, nameless_interface_flag]"

lemmas flag_defs = iteration_requested_flag_def required_flag_def core_flag_def error_flag_def
  indicator_flag_def empty_flag_def extra_flag1_def optional_flag_def clone_flag_def
  extra_flag2_def destination_processing_flag_def disconnected_flag_def extra_flag3_def
  extra_flag4_def destination_target_def nameless_interface_flag_def

text \<open>The operations on the \<open>flags\<close> field of a container; the shift is made on \<open>1U\<close>, 32 bits wide.\<close>

definition setActionFlag :: "uint16 \<Rightarrow> nat \<Rightarrow> uint16" where
  "setActionFlag flags flag = flags OR ucast (push_bit flag (1 :: uint32))"

definition checkActionFlag :: "uint16 \<Rightarrow> nat \<Rightarrow> bool" where
  "checkActionFlag flags flag \<longleftrightarrow> flags AND ucast (push_bit flag (1 :: uint32)) \<noteq> 0"

definition clearActionFlag :: "uint16 \<Rightarrow> nat \<Rightarrow> uint16" where
  "clearActionFlag flags flag = flags AND ucast (NOT (push_bit flag (1 :: uint32)))"

definition make_flags :: "nat \<Rightarrow> uint16" where
  "make_flags flag = ucast (push_bit flag (1 :: uint32))"

lemma bit_flag_mask:
  "n < 16 \<Longrightarrow> bit (ucast (2 ^ f :: uint32) :: uint16) n \<longleftrightarrow> n = f"
  by (auto simp: bit_simps)

lemma checkActionFlag_bit: "f < 16 \<Longrightarrow> checkActionFlag w f \<longleftrightarrow> bit w f"
proof -
  assume f: "f < 16"
  have "w AND ucast (push_bit f (1 :: uint32)) = 0 \<longleftrightarrow> \<not> bit w f"
  proof
    assume "w AND ucast (push_bit f (1 :: uint32)) = 0"
    then have "\<not> bit (w AND ucast (push_bit f (1 :: uint32))) f" by simp
    then show "\<not> bit w f"
      using f by (simp add: bit_and_iff bit_flag_mask)
  next
    assume "\<not> bit w f"
    then show "w AND ucast (push_bit f (1 :: uint32)) = 0"
      by (intro bit_word_eqI) (auto simp: bit_and_iff bit_flag_mask)
  qed
  then show ?thesis by (simp add: checkActionFlag_def)
qed

lemma bit_setActionFlag: "n < 16 \<Longrightarrow> bit (setActionFlag w f) n \<longleftrightarrow> bit w n \<or> n = f"
  by (simp add: setActionFlag_def bit_or_iff bit_flag_mask)

lemma bit_clearActionFlag: "n < 16 \<Longrightarrow> bit (clearActionFlag w f) n \<longleftrightarrow> bit w n \<and> n \<noteq> f"
  by (auto simp: clearActionFlag_def bit_simps)

lemma check_setActionFlag [simp]:
  "f < 16 \<Longrightarrow> g < 16 \<Longrightarrow> checkActionFlag (setActionFlag w f) g \<longleftrightarrow> g = f \<or> checkActionFlag w g"
  by (auto simp: checkActionFlag_bit bit_setActionFlag)

lemma check_clearActionFlag [simp]:
  "f < 16 \<Longrightarrow> g < 16 \<Longrightarrow> checkActionFlag (clearActionFlag w f) g \<longleftrightarrow> g \<noteq> f \<and> checkActionFlag w g"
  by (auto simp: checkActionFlag_bit bit_clearActionFlag)

lemma check_no_flags [simp]: "\<not> checkActionFlag 0 f"
  by (simp add: checkActionFlag_def)

section \<open>Properties and options\<close>

definition flag_observer :: int32 where "flag_observer = 0"
definition flag_uninterruptible :: int32 where "flag_uninterruptible = 1"
definition flag_interruptible :: int32 where "flag_interruptible = 2"
definition flag_source_only :: int32 where "flag_source_only = 4"
definition flag_only_transmit_on_change :: int32 where "flag_only_transmit_on_change = 6"
definition flag_only_update_on_change :: int32 where "flag_only_update_on_change = 8"
definition flag_wait_for_current_time_update :: int32 where "flag_wait_for_current_time_update = 10"
definition flag_restrictive_time_policy :: int32 where "flag_restrictive_time_policy = 11"
definition flag_rollback :: int32 where "flag_rollback = 12"
definition flag_forward_compute :: int32 where "flag_forward_compute = 14"
definition flag_realtime :: int32 where "flag_realtime = 16"
definition flag_single_thread_federate :: int32 where "flag_single_thread_federate = 27"
definition flag_slow_responding :: int32 where "flag_slow_responding = 29"
definition flag_delay_init_entry :: int32 where "flag_delay_init_entry = 45"
definition flag_enable_init_entry :: int32 where "flag_enable_init_entry = 47"
definition flag_ignore_time_mismatch_warnings :: int32 where "flag_ignore_time_mismatch_warnings = 67"
definition flag_terminate_on_error :: int32 where "flag_terminate_on_error = 72"

definition helics_federate_flags :: "int32 list" where
  "helics_federate_flags =
     [flag_observer, flag_uninterruptible, flag_interruptible, flag_source_only,
      flag_only_transmit_on_change, flag_only_update_on_change, flag_wait_for_current_time_update,
      flag_restrictive_time_policy, flag_rollback, flag_forward_compute, flag_realtime,
      flag_single_thread_federate, flag_slow_responding, flag_delay_init_entry, flag_enable_init_entry,
      flag_ignore_time_mismatch_warnings, flag_terminate_on_error]"

definition prop_time_delta :: int32 where "prop_time_delta = 137"
definition prop_period :: int32 where "prop_period = 140"
definition prop_offset :: int32 where "prop_offset = 141"
definition prop_rt_lag :: int32 where "prop_rt_lag = 143"
definition prop_rt_lead :: int32 where "prop_rt_lead = 144"
definition prop_rt_tolerance :: int32 where "prop_rt_tolerance = 145"
definition prop_input_delay :: int32 where "prop_input_delay = 148"
definition prop_output_delay :: int32 where "prop_output_delay = 150"
definition prop_max_iterations :: int32 where "prop_max_iterations = 259"
definition prop_log_level :: int32 where "prop_log_level = 271"
definition prop_file_log_level :: int32 where "prop_file_log_level = 272"
definition prop_console_log_level :: int32 where "prop_console_log_level = 274"

definition helics_properties :: "int32 list" where
  "helics_properties =
     [prop_time_delta, prop_period, prop_offset, prop_rt_lag, prop_rt_lead, prop_rt_tolerance,
      prop_input_delay, prop_output_delay, prop_max_iterations, prop_log_level, prop_file_log_level,
      prop_console_log_level]"

lemmas property_defs = prop_time_delta_def prop_period_def prop_offset_def prop_input_delay_def
  prop_output_delay_def prop_max_iterations_def flag_uninterruptible_def flag_interruptible_def
  flag_wait_for_current_time_update_def flag_restrictive_time_policy_def

lemmas fed_flag_defs = flag_observer_def flag_source_only_def flag_only_transmit_on_change_def
  flag_only_update_on_change_def flag_realtime_def flag_slow_responding_def
  flag_ignore_time_mismatch_warnings_def flag_terminate_on_error_def prop_rt_lag_def prop_rt_lead_def
  prop_rt_tolerance_def prop_log_level_def prop_file_log_level_def prop_console_log_level_def
  flag_rollback_def flag_forward_compute_def flag_single_thread_federate_def flag_delay_init_entry_def
  flag_enable_init_entry_def

definition opt_connection_required :: int32 where "opt_connection_required = 397"
definition opt_connection_optional :: int32 where "opt_connection_optional = 402"
definition opt_single_connection_only :: int32 where "opt_single_connection_only = 407"
definition opt_multiple_connections_allowed :: int32 where "opt_multiple_connections_allowed = 409"
definition opt_buffer_data :: int32 where "opt_buffer_data = 411"
definition opt_strict_type_checking :: int32 where "opt_strict_type_checking = 414"
definition opt_ignore_unit_mismatch :: int32 where "opt_ignore_unit_mismatch = 447"
definition opt_only_transmit_on_change :: int32 where "opt_only_transmit_on_change = 452"
definition opt_only_update_on_change :: int32 where "opt_only_update_on_change = 454"
definition opt_ignore_interrupts :: int32 where "opt_ignore_interrupts = 475"
definition opt_multi_input_handling_method :: int32 where "opt_multi_input_handling_method = 507"
definition opt_input_priority_location :: int32 where "opt_input_priority_location = 510"
definition opt_clear_priority_list :: int32 where "opt_clear_priority_list = 512"
definition opt_connections :: int32 where "opt_connections = 522"

definition helics_handle_options :: "int32 list" where
  "helics_handle_options =
     [opt_connection_required, opt_connection_optional, opt_single_connection_only,
      opt_multiple_connections_allowed, opt_buffer_data, opt_strict_type_checking,
      opt_ignore_unit_mismatch, opt_only_transmit_on_change, opt_only_update_on_change,
      opt_ignore_interrupts, opt_multi_input_handling_method, opt_input_priority_location,
      opt_clear_priority_list, opt_connections]"

lemmas option_defs = opt_connection_required_def opt_connection_optional_def
  opt_single_connection_only_def opt_multiple_connections_allowed_def opt_buffer_data_def
  opt_strict_type_checking_def opt_ignore_unit_mismatch_def opt_only_transmit_on_change_def
  opt_only_update_on_change_def opt_ignore_interrupts_def opt_input_priority_location_def
  opt_clear_priority_list_def opt_connections_def opt_multi_input_handling_method_def

text \<open>No two federate flags, properties or interface options have the same number, and none of one
  enumeration is in another, so a switch over all of them is unambiguous.\<close>

lemma setting_codes_distinct: "distinct (helics_federate_flags @ helics_properties @ helics_handle_options)"
  by (simp add: helics_federate_flags_def helics_properties_def helics_handle_options_def property_defs
    fed_flag_defs option_defs)

end
