(* ===== verification/Time_Param.thy ===== *)
theory Time_Param
  imports Prelude
begin

text \<open>
  Simulation time. \<open>helics::Time\<close> is an instance of \<open>TimeRepresentation\<close>, a class of the
  \<open>utilities\<close> submodule that is not part of the sources, so it is a parameter of the model: its
  values are a type \<open>'t\<close> whose comparison operators form a linear order, and its constants and
  arithmetic are the fields of a record that every definition using time takes as an argument.
  What the code relies on is stated as named predicates, used as hypotheses where a result needs
  them. The last section gives one concrete instance, a signed 64 bit tick counter, at which the
  predicates hold.
\<close>

record 't time_rep =
  zeroVal :: 't
  epsilon :: 't
  maxVal :: 't
  minVal :: 't
  t_neg :: "'t \<Rightarrow> 't"
  t_add :: "'t \<Rightarrow> 't \<Rightarrow> 't"
  t_sub :: "'t \<Rightarrow> 't \<Rightarrow> 't"
  t_blocks :: "'t \<Rightarrow> 't \<Rightarrow> 't" \<comment> \<open>\<open>std::ceil(a / p) * p\<close>\<close>
  t_of_int :: "int \<Rightarrow> 't" \<comment> \<open>conversion of an integer number of seconds\<close>
  getBaseTimeCode :: "'t \<Rightarrow> uint64"
  setBaseTimeCode :: "uint64 \<Rightarrow> 't"

definition timeZero :: "('t::linorder) time_rep \<Rightarrow> 't" where
  "timeZero T = zeroVal T"

definition timeEpsilon :: "('t::linorder) time_rep \<Rightarrow> 't" where
  "timeEpsilon T = epsilon T"

definition negEpsilon :: "('t::linorder) time_rep \<Rightarrow> 't" where
  "negEpsilon T = t_neg T (epsilon T)"

section \<open>What the code relies on\<close>

text \<open>\<open>maxVal\<close> and \<open>minVal\<close> are the largest and the smallest time.\<close>

definition time_bounded :: "('t::linorder) time_rep \<Rightarrow> bool" where
  "time_bounded T \<longleftrightarrow> (\<forall>t. minVal T \<le> t \<and> t \<le> maxVal T)"

text \<open>The constants are ordered as their names say.\<close>

definition time_consts :: "('t::linorder) time_rep \<Rightarrow> bool" where
  "time_consts T \<longleftrightarrow> minVal T < negEpsilon T \<and> negEpsilon T < zeroVal T \<and> zeroVal T < epsilon T
     \<and> epsilon T < maxVal T"

text \<open>The base code identifies a time: writing it out and reading it back loses nothing.\<close>

definition time_codec :: "('t::linorder) time_rep \<Rightarrow> bool" where
  "time_codec T \<longleftrightarrow> (\<forall>t. setBaseTimeCode T (getBaseTimeCode T t) = t)
     \<and> (\<forall>w. getBaseTimeCode T (setBaseTimeCode T w) = w)"

text \<open>
  \<open>R\<close> stands for the times far enough from the ends of the representation for the arithmetic to be
  exact. On them a duration leads forward, the sign of a difference tells which time comes first,
  and a time reached in whole periods, or in one period at least as long as the distance to it, is
  not overshot by the time itself.
\<close>

definition time_range :: "('t::linorder) time_rep \<Rightarrow> ('t \<Rightarrow> bool) \<Rightarrow> bool" where
  "time_range T R \<longleftrightarrow>
     (\<forall>a d. R a \<and> R d \<and> zeroVal T < d \<longrightarrow> a < t_add T a d)
   \<and> (\<forall>a d. R a \<and> R d \<and> zeroVal T \<le> d \<longrightarrow> a \<le> t_add T a d)
   \<and> (\<forall>a t. R a \<and> R t \<longrightarrow> (zeroVal T < t_sub T t a \<longleftrightarrow> a < t))
   \<and> (\<forall>a t p. R a \<and> R t \<and> R p \<and> a \<le> t \<and> epsilon T < p \<longrightarrow> t \<le> t_add T a (t_blocks T (t_sub T t a) p))
   \<and> (\<forall>a t p. R a \<and> R t \<and> R p \<and> t_sub T t a \<le> p \<longrightarrow> t \<le> t_add T a p)"

lemma time_rangeD:
  assumes "time_range T R"
  shows "R a \<Longrightarrow> R d \<Longrightarrow> zeroVal T < d \<Longrightarrow> a < t_add T a d"
    and "R a \<Longrightarrow> R d \<Longrightarrow> zeroVal T \<le> d \<Longrightarrow> a \<le> t_add T a d"
    and "R a \<Longrightarrow> R t \<Longrightarrow> zeroVal T < t_sub T t a \<longleftrightarrow> a < t"
    and "R a \<Longrightarrow> R t \<Longrightarrow> R p \<Longrightarrow> a \<le> t \<Longrightarrow> epsilon T < p \<Longrightarrow> t \<le> t_add T a (t_blocks T (t_sub T t a) p)"
    and "R a \<Longrightarrow> R t \<Longrightarrow> R p \<Longrightarrow> t_sub T t a \<le> p \<Longrightarrow> t \<le> t_add T a p"
  using assms by (auto simp: time_range_def)

lemma time_boundedD:
  "time_bounded T \<Longrightarrow> t \<le> maxVal T"
  "time_bounded T \<Longrightarrow> minVal T \<le> t"
  by (simp_all add: time_bounded_def)

lemma time_bounded_eq_max:
  "time_bounded T \<Longrightarrow> maxVal T \<le> t \<Longrightarrow> t = maxVal T"
  by (simp add: time_boundedD(1) antisym)

lemma time_bounded_less_max:
  "time_bounded T \<Longrightarrow> t < maxVal T \<longleftrightarrow> t \<noteq> maxVal T"
  using time_boundedD(1) [of T t] by auto

section \<open>A concrete instance\<close>

text \<open>A signed 64 bit count of nanoseconds with wrap-around arithmetic.\<close>

datatype ticks = Ticks (tick_count: uint64)

instantiation ticks :: linorder
begin

definition less_eq_ticks :: "ticks \<Rightarrow> ticks \<Rightarrow> bool" where
  "less_eq_ticks a b \<longleftrightarrow> sint (tick_count a) \<le> sint (tick_count b)"

definition less_ticks :: "ticks \<Rightarrow> ticks \<Rightarrow> bool" where
  "less_ticks a b \<longleftrightarrow> sint (tick_count a) < sint (tick_count b)"

instance
proof
  fix x y z :: ticks
  show "x \<le> y \<Longrightarrow> y \<le> x \<Longrightarrow> x = y"
    by (cases x; cases y) (simp add: less_eq_ticks_def word_eq_iff_signed)
qed (auto simp: less_eq_ticks_def less_ticks_def)

end

definition tick_rep :: "ticks time_rep" where
  "tick_rep = \<lparr> zeroVal = Ticks 0, epsilon = Ticks 1, maxVal = Ticks (2 ^ 63 - 1),
     minVal = Ticks (- (2 ^ 63 - 1) - 1),
     t_neg = (\<lambda>a. Ticks (- tick_count a)),
     t_add = (\<lambda>a b. Ticks (tick_count a + tick_count b)),
     t_sub = (\<lambda>a b. Ticks (tick_count a - tick_count b)),
     t_blocks = (\<lambda>a p. Ticks (word_of_int
        (- ((- sint (tick_count a)) div sint (tick_count p)) * sint (tick_count p)))),
     t_of_int = (\<lambda>i. Ticks (word_of_int (i * 1000000000))),
     getBaseTimeCode = tick_count, setBaseTimeCode = Ticks \<rparr>"

text \<open>Times from zero to about 73 years.\<close>

definition tick_small :: "ticks \<Rightarrow> bool" where
  "tick_small a \<longleftrightarrow> 0 \<le> sint (tick_count a) \<and> sint (tick_count a) < 2 ^ 61"

lemma ticks_le [simp]: "Ticks a \<le> Ticks b \<longleftrightarrow> sint a \<le> sint b"
  by (simp add: less_eq_ticks_def)

lemma ticks_less [simp]: "Ticks a < Ticks b \<longleftrightarrow> sint a < sint b"
  by (simp add: less_ticks_def)

lemma tick_simps [simp]:
  "zeroVal tick_rep = Ticks 0" "epsilon tick_rep = Ticks 1" "maxVal tick_rep = Ticks (2 ^ 63 - 1)"
  "minVal tick_rep = Ticks (- (2 ^ 63 - 1) - 1)"
  "t_neg tick_rep (Ticks a) = Ticks (- a)"
  "t_add tick_rep (Ticks a) (Ticks b) = Ticks (a + b)"
  "t_sub tick_rep (Ticks a) (Ticks b) = Ticks (a - b)"
  "timeZero tick_rep = Ticks 0" "timeEpsilon tick_rep = Ticks 1" "negEpsilon tick_rep = Ticks (- 1)"
  by (simp_all add: tick_rep_def timeZero_def timeEpsilon_def negEpsilon_def)

lemma sint_bounds64: "- (2 ^ 63) \<le> sint (w :: uint64)" "sint (w :: uint64) < 2 ^ 63"
  using sint_ge [of w] sint_lt [of w] by simp_all

lemma tick_bounded: "time_bounded tick_rep"
proof -
  have "sint (- (2 ^ 63 - 1) - 1 :: uint64) \<le> sint w \<and> sint w \<le> sint (2 ^ 63 - 1 :: uint64)"
    for w :: uint64
    using sint_bounds64 [of w] by simp
  then show ?thesis
    by (auto simp: time_bounded_def tick_rep_def less_eq_ticks_def)
qed

lemma tick_consts: "time_consts tick_rep"
  by (simp add: time_consts_def tick_rep_def negEpsilon_def)

lemma tick_codec: "time_codec tick_rep"
  by (simp add: time_codec_def tick_rep_def)

lemma sint_add64:
  "- (2 ^ 63) \<le> sint a + sint b \<Longrightarrow> sint a + sint b < 2 ^ 63 \<Longrightarrow>
     sint (a + b :: uint64) = sint a + sint b"
  by (simp add: sint_word_add signed_take_bit_int_eq_self)

lemma sint_diff64:
  "- (2 ^ 63) \<le> sint a - sint b \<Longrightarrow> sint a - sint b < 2 ^ 63 \<Longrightarrow>
     sint (a - b :: uint64) = sint a - sint b"
  by (simp add: sint_word_diff signed_take_bit_int_eq_self)

lemma ceil_mult:
  fixes d p :: int
  assumes "0 < p"
  shows "d \<le> - (- d div p) * p" and "- (- d div p) * p < d + p"
proof -
  have "- d = (- d div p) * p + - d mod p"
    by simp
  moreover have "0 \<le> - d mod p" "- d mod p < p"
    using assms by simp_all
  moreover have "- (- d div p) * p = - ((- d div p) * p)"
    by simp
  ultimately show "d \<le> - (- d div p) * p" and "- (- d div p) * p < d + p"
    by linarith+
qed

lemma tick_range: "time_range tick_rep tick_small"
proof -
  have blocks: "sint t \<le> sint (a + word_of_int (- (- sint (t - a) div sint p) * sint p))"
    if a: "0 \<le> sint a" "sint a < 2 ^ 61" and t: "sint t < 2 ^ 61" and p: "1 < sint p" "sint p < 2 ^ 61"
      and le: "sint a \<le> sint t" for a t p :: uint64
  proof -
    have diff: "sint (t - a) = sint t - sint a"
      using a t le by (intro sint_diff64) simp_all
    define c where "c = - (- (sint t - sint a) div sint p) * sint p"
    have c: "sint t - sint a \<le> c" "c < sint t - sint a + sint p"
      using ceil_mult [of "sint p" "sint t - sint a"] p by (simp_all add: c_def)
    then have w: "sint (word_of_int c :: uint64) = c"
      using a t p le by (simp add: signed_of_int signed_take_bit_int_eq_self)
    have "sint (a + word_of_int c) = sint a + c"
      using a t p le c w by (subst sint_add64) simp_all
    then show ?thesis
      using c by (simp only: diff c_def)
  qed
  show ?thesis
    unfolding time_range_def
  proof (intro conjI allI impI)
    fix a t p
    assume "tick_small a \<and> tick_small t \<and> tick_small p \<and> a \<le> t \<and> epsilon tick_rep < p"
    then show "t \<le> t_add tick_rep a (t_blocks tick_rep (t_sub tick_rep t a) p)"
      using blocks [of "tick_count a" "tick_count t" "tick_count p"]
      by (cases a; cases t; cases p) (simp add: tick_rep_def tick_small_def)
  qed (auto simp: tick_rep_def tick_small_def less_eq_ticks_def less_ticks_def sint_add64 sint_diff64)
qed

end
