(* ===== verification/Action_Message.thy ===== *)
theory Action_Message
  imports Action_Codes Enumerations Time_Param
begin

text \<open>
  The message object of the core (\<open>ActionMessage.hpp\<close>, \<open>ActionMessage.cpp\<close>) without its
  serialisation: the record, construction and copying, the string slots, the classification
  predicates and the conversion from and to the \<open>Message\<close> of \<open>core-data.hpp\<close>. The reference
  member \<open>name\<close> is an alias of \<open>payload\<close> and has no field of its own.
\<close>

section \<open>Data\<close>

record 't ActionMessage =
  messageAction :: action_t
  messageID :: int32
  source_id :: global_federate_id
  source_handle :: interface_handle
  dest_id :: global_federate_id
  dest_handle :: interface_handle
  counter :: uint16
  flags :: uint16
  sequenceID :: uint32
  actionTime :: 't
  payload :: string
  Te :: 't
  Tdemin :: 't
  Tso :: 't
  stringData :: "string list"

datatype helics_exception = Std_Invalid_Argument string | InvalidIdentifier string
  | InvalidParameter string | InvalidFunctionCall string | RegistrationFailure string
  | ConnectionFailure string | FunctionExecutionFailure string

text \<open>\<open>ActionMessage()\<close> and the constructor from an action.\<close>

definition ActionMessage_default :: "('t::linorder) time_rep \<Rightarrow> 't ActionMessage" where
  "ActionMessage_default T = \<lparr> messageAction = cmd_ignore, messageID = 0,
     source_id = fed_of_broker parent_broker_id, source_handle = default_interface_handle,
     dest_id = fed_of_broker parent_broker_id, dest_handle = default_interface_handle,
     counter = 0, flags = 0, sequenceID = 0, actionTime = timeZero T, payload = [],
     Te = timeZero T, Tdemin = timeZero T, Tso = timeZero T, stringData = [] \<rparr>"

definition mk_message :: "('t::linorder) time_rep \<Rightarrow> action_t \<Rightarrow> 't ActionMessage" where
  "mk_message T act = (ActionMessage_default T)\<lparr> messageAction := act \<rparr>"

definition mk_message_to ::
  "('t::linorder) time_rep \<Rightarrow> action_t \<Rightarrow> global_federate_id \<Rightarrow> global_federate_id \<Rightarrow> 't ActionMessage" where
  "mk_message_to T act sourceId destId =
     (mk_message T act)\<lparr> source_id := sourceId, dest_id := destId \<rparr>"

text \<open>
  The copy constructor initialises every member but \<open>sequenceID\<close>, which keeps its default; the
  assignment operators leave the \<open>sequenceID\<close> of the target.
\<close>

definition copy_message :: "'t ActionMessage \<Rightarrow> 't ActionMessage" where
  "copy_message act = act\<lparr> sequenceID := 0 \<rparr>"

definition assign_message :: "'t ActionMessage \<Rightarrow> 't ActionMessage \<Rightarrow> 't ActionMessage" where
  "assign_message target act = act\<lparr> sequenceID := sequenceID target \<rparr>"

definition setAction :: "action_t \<Rightarrow> 't ActionMessage \<Rightarrow> 't ActionMessage" where
  "setAction act m = m\<lparr> messageAction := act \<rparr>"

section \<open>Accessors\<close>

definition setSource :: "global_handle \<Rightarrow> 't ActionMessage \<Rightarrow> 't ActionMessage" where
  "setSource hand m = m\<lparr> source_id := fed_id hand, source_handle := handle hand \<rparr>"

definition setDestination :: "global_handle \<Rightarrow> 't ActionMessage \<Rightarrow> 't ActionMessage" where
  "setDestination hand m = m\<lparr> dest_id := fed_id hand, dest_handle := handle hand \<rparr>"

definition getSource :: "'t ActionMessage \<Rightarrow> global_handle" where
  "getSource m = Global_Handle (source_id m) (source_handle m)"

definition getDest :: "'t ActionMessage \<Rightarrow> global_handle" where
  "getDest m = Global_Handle (dest_id m) (dest_handle m)"

definition swapSourceDest :: "'t ActionMessage \<Rightarrow> 't ActionMessage" where
  "swapSourceDest m = m\<lparr> source_id := dest_id m, dest_id := source_id m,
     source_handle := dest_handle m, dest_handle := source_handle m \<rparr>"

definition setExtraData :: "int32 \<Rightarrow> 't ActionMessage \<Rightarrow> 't ActionMessage" where
  "setExtraData d m = m\<lparr> dest_handle := Interface_Handle d \<rparr>"

definition getExtraData :: "'t ActionMessage \<Rightarrow> int32" where
  "getExtraData m = hid (dest_handle m)"

definition getString :: "'t ActionMessage \<Rightarrow> int32 \<Rightarrow> string" where
  "getString m index =
     (if isValidIndex index (stringData m) then stringData m ! nat (sint index) else [])"

definition setString :: "int32 \<Rightarrow> string \<Rightarrow> 't ActionMessage \<Rightarrow> helics_exception + 't ActionMessage" where
  "setString index str m =
     (if 256 \<le> sint index \<or> sint index < 0
      then Inl (Std_Invalid_Argument ''index out of specified range (0-255)'')
      else let sd = (if sint (size32 (stringData m)) \<le> sint index
                     then resize (nat (sint index) + 1) [] (stringData m) else stringData m)
           in Inr (m\<lparr> stringData := sd[nat (sint index) := str] \<rparr>))"

definition msg_setFlag :: "nat \<Rightarrow> 't ActionMessage \<Rightarrow> 't ActionMessage" where
  "msg_setFlag f m = m\<lparr> flags := setActionFlag (flags m) f \<rparr>"

definition msg_clearFlag :: "nat \<Rightarrow> 't ActionMessage \<Rightarrow> 't ActionMessage" where
  "msg_clearFlag f m = m\<lparr> flags := clearActionFlag (flags m) f \<rparr>"

fun setIterationFlags :: "'t ActionMessage \<Rightarrow> iteration_request \<Rightarrow> 't ActionMessage" where
  "setIterationFlags m force_iteration =
     msg_setFlag required_flag (msg_setFlag iteration_requested_flag m)"
| "setIterationFlags m iterate_if_needed = msg_setFlag iteration_requested_flag m"
| "setIterationFlags m no_iterations = m"

section \<open>Classification\<close>

definition isProtocolCommand :: "'t ActionMessage \<Rightarrow> bool" where
  "isProtocolCommand m \<longleftrightarrow> messageAction m = cmd_protocol \<or> messageAction m = cmd_protocol_priority
     \<or> messageAction m = cmd_protocol_big"

definition isPriorityCommand :: "'t ActionMessage \<Rightarrow> bool" where
  "isPriorityCommand m \<longleftrightarrow> sint (messageAction m) < sint cmd_ignore"

definition isTimingCommand :: "'t ActionMessage \<Rightarrow> bool" where
  "isTimingCommand m \<longleftrightarrow> messageAction m \<in>
     {cmd_disconnect, cmd_broadcast_disconnect, cmd_disconnect_core, cmd_disconnect_broker,
      cmd_disconnect_fed, cmd_time_grant, cmd_time_request, cmd_exec_grant, cmd_exec_request,
      cmd_priority_disconnect, cmd_terminate_immediately, cmd_error, cmd_local_error,
      cmd_global_error}"

definition isDependencyCommand :: "'t ActionMessage \<Rightarrow> bool" where
  "isDependencyCommand m \<longleftrightarrow> messageAction m \<in>
     {cmd_add_dependency, cmd_remove_dependency, cmd_add_dependent, cmd_remove_dependent,
      cmd_add_interdependency, cmd_remove_interdependency}"

definition isDisconnectCommand :: "('t::linorder) time_rep \<Rightarrow> 't ActionMessage \<Rightarrow> bool" where
  "isDisconnectCommand T m \<longleftrightarrow>
     (if messageAction m \<in>
        {cmd_disconnect, cmd_disconnect_check, cmd_disconnect_name, cmd_user_disconnect,
         cmd_disconnect_fed, cmd_disconnect_core, cmd_priority_disconnect,
         cmd_terminate_immediately, cmd_remove_filter, cmd_remove_endpoint,
         cmd_disconnect_fed_ack, cmd_disconnect_core_ack, cmd_disconnect_broker_ack,
         cmd_disconnect_broker, cmd_broadcast_disconnect, cmd_stop} then True
      else if messageAction m = cmd_time_grant then actionTime m = maxVal T
      else False)"

definition isErrorCommand :: "'t ActionMessage \<Rightarrow> bool" where
  "isErrorCommand m \<longleftrightarrow> messageAction m \<in> {cmd_error, cmd_local_error, cmd_global_error}"

definition isValidCommand :: "'t ActionMessage \<Rightarrow> bool" where
  "isValidCommand m \<longleftrightarrow> messageAction m \<noteq> cmd_invalid"

definition errorMessageString :: "'t ActionMessage \<Rightarrow> string" where
  "errorMessageString m =
     (if checkActionFlag (flags m) error_flag
      then (let estring = getString m 0
            in if estring = [] then commandErrorString (sint (messageID m)) else estring)
      else [])"

section \<open>Messages between endpoints\<close>

record 't Message =
  msg_time :: 't
  msg_flags :: uint16
  messageValidation :: uint16
  msg_messageID :: int32
  msg_data :: string
  msg_dest :: string
  msg_source :: string
  original_source :: string
  original_dest :: string
  msg_counter :: int32

definition Message_default :: "('t::linorder) time_rep \<Rightarrow> 't Message" where
  "Message_default T = \<lparr> msg_time = timeZero T, msg_flags = 0, messageValidation = 0,
     msg_messageID = 0, msg_data = [], msg_dest = [], msg_source = [], original_source = [],
     original_dest = [], msg_counter = 0 \<rparr>"

definition Message_isValid :: "'t Message \<Rightarrow> bool" where
  "Message_isValid m \<longleftrightarrow>
     (if msg_data m \<noteq> [] then True else if msg_source m \<noteq> [] then True else msg_dest m \<noteq> [])"

definition Message_swap :: "'t Message \<Rightarrow> 't Message \<Rightarrow> 't Message \<times> 't Message" where
  "Message_swap a b =
     (a\<lparr> msg_time := msg_time b, msg_flags := msg_flags b, msg_messageID := msg_messageID b,
         original_source := original_source b, msg_source := msg_source b, msg_dest := msg_dest b,
         msg_data := msg_data b, original_dest := original_dest b \<rparr>,
      b\<lparr> msg_time := msg_time a, msg_flags := msg_flags a, msg_messageID := msg_messageID a,
         original_source := original_source a, msg_source := msg_source a, msg_dest := msg_dest a,
         msg_data := msg_data a, original_dest := original_dest a \<rparr>)"

text \<open>\<open>ActionMessage(std::unique_ptr<Message>)\<close>: members not listed keep their defaults.\<close>

definition message_to_command :: "('t::linorder) time_rep \<Rightarrow> 't Message \<Rightarrow> 't ActionMessage" where
  "message_to_command T msg = (ActionMessage_default T)\<lparr> messageAction := cmd_send_message,
     messageID := msg_messageID msg, actionTime := msg_time msg, payload := msg_data msg,
     stringData := [msg_dest msg, msg_source msg, original_source msg, original_dest msg] \<rparr>"

definition createMessageFromCommand :: "('t::linorder) time_rep \<Rightarrow> 't ActionMessage \<Rightarrow> 't Message" where
  "createMessageFromCommand T cmd =
     (let msg = (case stringData cmd of
          [] \<Rightarrow> Message_default T
        | [a] \<Rightarrow> (Message_default T)\<lparr> msg_dest := a \<rparr>
        | [a, b] \<Rightarrow> (Message_default T)\<lparr> msg_dest := a, msg_source := b \<rparr>
        | [a, b, c] \<Rightarrow> (Message_default T)\<lparr> msg_dest := a, msg_source := b, original_source := c \<rparr>
        | a # b # c # d # _ \<Rightarrow> (Message_default T)\<lparr> msg_dest := a, msg_source := b,
            original_source := c, original_dest := d \<rparr>)
      in msg\<lparr> msg_data := payload cmd, msg_time := actionTime cmd,
              msg_messageID := messageID cmd \<rparr>)"

section \<open>Facts used by the components\<close>

lemma mk_message_simps [simp]:
  "messageAction (mk_message T a) = a"
  "source_id (mk_message T a) = fed_of_broker parent_broker_id"
  "flags (mk_message T a) = 0"
  "counter (mk_message T a) = 0"
  "stringData (mk_message T a) = []"
  "payload (mk_message T a) = []"
  by (simp_all add: mk_message_def ActionMessage_default_def)

lemma setIterationFlags_simps [simp]:
  "messageAction (setIterationFlags m it) = messageAction m"
  "source_id (setIterationFlags m it) = source_id m"
  "dest_id (setIterationFlags m it) = dest_id m"
  "actionTime (setIterationFlags m it) = actionTime m"
  "ActionMessage.Te (setIterationFlags m it) = ActionMessage.Te m"
  "ActionMessage.Tdemin (setIterationFlags m it) = ActionMessage.Tdemin m"
  by (cases it; simp add: msg_setFlag_def)+

lemma setIterationFlags_check:
  "checkActionFlag (flags (setIterationFlags m it)) iteration_requested_flag \<longleftrightarrow>
     it \<noteq> no_iterations \<or> checkActionFlag (flags m) iteration_requested_flag"
  by (cases it) (auto simp: msg_setFlag_def flag_defs)

text \<open>A string written to a slot is read back from it, and the other slots keep their content.\<close>

lemma setString_getString:
  assumes "setString i s m = Inr m'" and "length (stringData m) < 2 ^ 31"
  shows "getString m' i = s"
    and "j \<noteq> i \<Longrightarrow> getString m' j = getString m j"
    and "length (stringData m') = max (length (stringData m)) (nat (sint i) + 1)"
proof -
  let ?n = "nat (sint i)"
  let ?sd = "if sint (size32 (stringData m)) \<le> sint i then resize (?n + 1) [] (stringData m)
             else stringData m"
  have i: "0 \<le> sint i" "sint i < 256" and m': "m' = m\<lparr> stringData := ?sd[?n := s] \<rparr>"
    using assms(1) by (auto simp: setString_def Let_def split: if_splits)
  have sz: "sint (size32 (stringData m)) = int (length (stringData m))"
    by (rule sint_word_of_nat_small [OF assms(2)])
  have len: "length ?sd = max (length (stringData m)) (?n + 1)"
    using i by (auto simp: sz)
  show len': "length (stringData m') = max (length (stringData m)) (nat (sint i) + 1)"
    using len by (simp add: m')
  have small: "length (stringData m') < 2 ^ 31"
    using assms(2) i by (simp add: len')
  have "stringData m' ! ?n = s" and "isValidIndex i (stringData m')"
    using i len' len by (simp_all add: isValidIndex_iff [OF small]) (simp add: m')
  then show "getString m' i = s"
    by (simp add: getString_def)
  assume "j \<noteq> i"
  then have ne: "0 \<le> sint j \<Longrightarrow> nat (sint j) \<noteq> ?n"
    using i(1) by (metis nat_eq_iff2 sint_inj)
  have val: "stringData m' ! nat (sint j)
      = (if nat (sint j) < length (stringData m) then stringData m ! nat (sint j) else [])"
    if "0 \<le> sint j" "nat (sint j) < length (stringData m')"
    using ne [OF that(1)] that(2) i by (auto simp: m' sz nth_resize)
  show "getString m' j = getString m j"
    using val len' by (auto simp: getString_def isValidIndex_iff [OF small] isValidIndex_iff [OF assms(2)])
qed

end
