(* ===== verification/Byte_Order.thy ===== *)
theory Byte_Order
  imports Prelude "HOL-Library.Monad_Syntax"
begin

text \<open>
  Memory images of machine integers and strings. \<open>host_bytes le n w\<close> is what \<open>memcpy\<close> of an
  \<open>n\<close> byte integer writes on a host whose endianness is \<open>le\<close> (little endian when true), and
  \<open>of_host_bytes\<close> is what copying the bytes back into an integer gives. \<open>swap_bytes\<close> is the
  in-place reversal of \<open>ActionMessage.cpp\<close>. The interface \<open>byte_codec\<close> states what a reader
  relies on when it takes a fixed number of bytes off a buffer.
\<close>

section \<open>Integers\<close>

fun le_bytes :: "nat \<Rightarrow> 'a::len word \<Rightarrow> byte list" where
  "le_bytes 0 w = []"
| "le_bytes (Suc n) w = ucast w # le_bytes n (drop_bit 8 w)"

fun of_le_bytes :: "byte list \<Rightarrow> 'a::len word" where
  "of_le_bytes [] = 0"
| "of_le_bytes (b # bs) = ucast b OR push_bit 8 (of_le_bytes bs)"

definition host_bytes :: "bool \<Rightarrow> nat \<Rightarrow> 'a::len word \<Rightarrow> byte list" where
  "host_bytes le n w = (if le then le_bytes n w else rev (le_bytes n w))"

definition of_host_bytes :: "bool \<Rightarrow> byte list \<Rightarrow> 'a::len word" where
  "of_host_bytes le bs = of_le_bytes (if le then bs else rev bs)"

lemma length_le_bytes [simp]: "length (le_bytes n w) = n"
  by (induction n arbitrary: w) simp_all

lemma length_host_bytes [simp]: "length (host_bytes le n w) = n"
  by (simp add: host_bytes_def)

lemma bit_of_le_bytes:
  "bit (of_le_bytes bs :: 'a::len word) k \<longleftrightarrow>
     k < LENGTH('a) \<and> k div 8 < length bs \<and> bit (bs ! (k div 8)) (k mod 8)"
proof (induction bs arbitrary: k)
  case Nil
  then show ?case by simp
next
  case (Cons b bs)
  show ?case
  proof (cases "k < 8")
    case True
    then show ?thesis by (auto simp: bit_simps dest: bit_imp_le_length)
  next
    case False
    then obtain j where k: "k = j + 8"
      by (metis add.commute le_Suc_ex not_less)
    then have "\<not> bit b k"
      using bit_imp_le_length [of b k] by auto
    moreover have "(j + 8) div 8 = Suc (j div 8)"
      by simp
    ultimately show ?thesis
      by (auto simp: k bit_simps Cons.IH simp del: div_add_self2)
  qed
qed

lemma nth_le_bytes:
  "i < n \<Longrightarrow> le_bytes n w ! i = ucast (drop_bit (8 * i) w)"
proof (induction n arbitrary: i w)
  case 0
  then show ?case by simp
next
  case (Suc n)
  then show ?case
    by (cases i) (simp_all add: ac_simps)
qed

lemma of_le_bytes_le_bytes:
  assumes "LENGTH('a) \<le> 8 * n"
  shows "of_le_bytes (le_bytes n w) = (w :: 'a::len word)"
proof (rule bit_word_eqI)
  fix k assume k: "k < LENGTH('a)"
  then have "k div 8 < n" using assms by simp
  then show "bit (of_le_bytes (le_bytes n w) :: 'a word) k \<longleftrightarrow> bit w k"
    using k by (simp add: bit_of_le_bytes nth_le_bytes bit_simps)
qed

lemma of_host_bytes_host_bytes:
  "LENGTH('a) \<le> 8 * n \<Longrightarrow> of_host_bytes le (host_bytes le n w) = (w :: 'a::len word)"
  by (simp add: of_host_bytes_def host_bytes_def of_le_bytes_le_bytes)

lemma host_bytes_other: "host_bytes (\<not> le) n w = rev (host_bytes le n w)"
  by (simp add: host_bytes_def)

section \<open>Reversal in place\<close>

definition swap_at :: "nat \<Rightarrow> 'a list \<Rightarrow> nat \<Rightarrow> 'a list" where
  "swap_at N d i = d[i := d ! (N - i - 1), N - i - 1 := d ! i]"

definition swap_bytes :: "byte list \<Rightarrow> byte list" where
  "swap_bytes d = foldl (swap_at (length d)) d [0..<length d div 2]"

lemma foldl_swap_at:
  "m \<le> length d div 2 \<Longrightarrow>
     length (foldl (swap_at (length d)) d [0..<m]) = length d
   \<and> (\<forall>i < length d. foldl (swap_at (length d)) d [0..<m] ! i
        = (if i < m \<or> length d - m \<le> i then d ! (length d - i - 1) else d ! i))"
proof (induction m)
  case 0
  then show ?case by simp
next
  case (Suc m)
  let ?e = "foldl (swap_at (length d)) d [0..<m]"
  have le: "m \<le> length d div 2" using Suc.prems by simp
  have m: "m < length d - m - 1" using Suc.prems by arith
  have len: "length ?e = length d"
    and nth: "\<And>i. i < length d \<Longrightarrow>
      ?e ! i = (if i < m \<or> length d - m \<le> i then d ! (length d - i - 1) else d ! i)"
    using Suc.IH [OF le] by auto
  have "?e ! m = d ! m" "?e ! (length d - m - 1) = d ! (length d - m - 1)"
    using m by (auto simp: nth)
  then have "foldl (swap_at (length d)) d [0..<Suc m]
      = ?e[m := d ! (length d - m - 1), length d - m - 1 := d ! m]"
    by (simp add: swap_at_def)
  then show ?case
    using m len by (auto simp: nth_list_update nth less_Suc_eq)
qed

text \<open>The loop over the first half reverses the buffer.\<close>

lemma swap_bytes_rev: "swap_bytes d = rev d"
proof (rule nth_equalityI)
  show len: "length (swap_bytes d) = length (rev d)"
    using foldl_swap_at [of "length d div 2" d] by (simp add: swap_bytes_def)
  fix i assume "i < length (swap_bytes d)"
  then have i: "i < length d" using len by simp
  show "swap_bytes d ! i = rev d ! i"
  proof (cases "i < length d div 2 \<or> length d - length d div 2 \<le> i")
    case True
    then show ?thesis
      using foldl_swap_at [of "length d div 2" d] i by (simp add: swap_bytes_def rev_nth)
  next
    case False
    then have "length d - i - 1 = i" by arith
    with False show ?thesis
      using foldl_swap_at [of "length d div 2" d] i by (simp add: swap_bytes_def rev_nth)
  qed
qed

text \<open>The swap applied to the memory of an integer of \<open>n\<close> bytes.\<close>

definition swap_word :: "bool \<Rightarrow> nat \<Rightarrow> 'a::len word \<Rightarrow> 'a word" where
  "swap_word le n w = of_host_bytes le (swap_bytes (host_bytes le n w))"

lemma swap_word_of_host_bytes:
  assumes "LENGTH('a) = 8 * n" and "length bs = n"
  shows "swap_word le n (of_host_bytes le bs :: 'a::len word) = of_host_bytes (\<not> le) bs"
proof -
  have "host_bytes le n (of_host_bytes le bs :: 'a word) = bs"
  proof -
    have "le_bytes n (of_le_bytes cs :: 'a word) = cs" if "length cs = n" for cs
    proof (rule nth_equalityI)
      show "length (le_bytes n (of_le_bytes cs :: 'a word)) = length cs" by (simp add: that)
      fix i assume "i < length (le_bytes n (of_le_bytes cs :: 'a word))"
      then have i: "i < n" by simp
      show "le_bytes n (of_le_bytes cs :: 'a word) ! i = cs ! i"
      proof (rule bit_word_eqI)
        fix k assume k: "k < LENGTH(8)"
        have "(8 * i + k) div 8 = i" "(8 * i + k) mod 8 = k" using k by simp_all
        moreover have "8 * i + k < LENGTH('a)" using i k assms(1) by simp
        ultimately show "bit (le_bytes n (of_le_bytes cs :: 'a word) ! i) k \<longleftrightarrow> bit (cs ! i) k"
          using i k that by (simp add: nth_le_bytes bit_simps bit_of_le_bytes)
      qed
    qed
    then show ?thesis
      using assms(2) by (simp add: host_bytes_def of_host_bytes_def)
  qed
  then show ?thesis
    by (simp add: swap_word_def swap_bytes_rev of_host_bytes_def)
qed

lemma swap_word_swap_word:
  assumes "LENGTH('a) = 8 * n"
  shows "swap_word le n (swap_word le n (w :: 'a::len word)) = w"
proof -
  have "swap_word le n w = of_host_bytes le (rev (host_bytes le n w))"
    by (simp add: swap_word_def swap_bytes_rev)
  then have "swap_word le n (swap_word le n w) = of_host_bytes (\<not> le) (rev (host_bytes le n w))"
    using swap_word_of_host_bytes [where 'a = 'a, OF assms, of "rev (host_bytes le n w)" le] by simp
  also have "\<dots> = of_host_bytes le (host_bytes le n w)"
    by (simp add: of_host_bytes_def)
  finally show ?thesis
    using assms by (simp add: of_host_bytes_host_bytes)
qed

section \<open>Strings\<close>

definition bytes_of_string :: "string \<Rightarrow> byte list" where
  "bytes_of_string s = map of_char s"

definition string_of_bytes :: "byte list \<Rightarrow> string" where
  "string_of_bytes bs = map (\<lambda>b. char_of (unat b)) bs"

lemma length_bytes_of_string [simp]: "length (bytes_of_string s) = length s"
  by (simp add: bytes_of_string_def)

lemma string_of_bytes_of_string [simp]: "string_of_bytes (bytes_of_string s) = s"
proof -
  have "char_of (unat (of_char c :: byte)) = c" for c
  proof -
    have "unat (of_char c :: byte) = unat (of_nat (of_char c) :: byte)"
      by (simp only: of_nat_of_char)
    also have "\<dots> = of_char c"
      using nat_of_char_less_256 [of c] by (simp only: unat_of_nat) simp
    finally have "unat (of_char c :: byte) = of_char c" .
    then show ?thesis by simp
  qed
  then show ?thesis
    by (simp add: string_of_bytes_def bytes_of_string_def comp_def)
qed

section \<open>Interface: reading a fixed number of bytes\<close>

text \<open>
  \<open>get k data\<close> reads \<open>k\<close> bytes at a pointer and advances it; \<open>None\<close> is a read past the end of
  the memory the pointer points into.
\<close>

definition get :: "nat \<Rightarrow> byte list \<Rightarrow> (byte list \<times> byte list) option" where
  "get k data = (if k \<le> length data then Some (take k data, drop k data) else None)"

lemma get_append [simp]: "length xs = k \<Longrightarrow> get k (xs @ ys) = Some (xs, ys)"
  by (auto simp: get_def)

lemma get_exact [simp]: "length xs = k \<Longrightarrow> get k xs = Some (xs, [])"
  by (auto simp: get_def)

lemma get_Some: "get k data = Some (a, r) \<longleftrightarrow> data = a @ r \<and> length a = k"
  by (auto simp: get_def)

locale byte_codec =
  fixes width :: nat
    and enc :: "'v \<Rightarrow> byte list"
    and dec :: "byte list \<Rightarrow> 'v"
  assumes enc_length: "length (enc v) = width"
    and dec_enc: "dec (enc v) = v"
begin

lemma read_back: "get width (enc v @ rest) = Some (enc v, rest)"
  by (simp add: enc_length)

lemma read_back_value: "map_option (\<lambda>(b, r). (dec b, r)) (get width (enc v @ rest)) = Some (v, rest)"
  by (simp add: read_back dec_enc)

lemma enc_inj: "enc v = enc w \<longleftrightarrow> v = w"
  by (metis dec_enc)

end

interpretation u16: byte_codec 2 "host_bytes le 2 :: uint16 \<Rightarrow> byte list" "of_host_bytes le" for le
  by unfold_locales (simp_all add: of_host_bytes_host_bytes)

interpretation u32: byte_codec 4 "host_bytes le 4 :: uint32 \<Rightarrow> byte list" "of_host_bytes le" for le
  by unfold_locales (simp_all add: of_host_bytes_host_bytes)

interpretation u64: byte_codec 8 "host_bytes le 8 :: uint64 \<Rightarrow> byte list" "of_host_bytes le" for le
  by unfold_locales (simp_all add: of_host_bytes_host_bytes)

end
