(* ===== verification/Message_Codec.thy ===== *)
theory Message_Codec
  imports Action_Message Byte_Order
begin

text \<open>
  Serialisation of messages (\<open>ActionMessage.cpp\<close>): \<open>toByteArray\<close>, \<open>fromByteArray\<close>, the packet
  framing of \<open>packetize\<close> and \<open>depacketize\<close>, and the multi message container. The endianness of
  the host is the argument \<open>le\<close>. Buffers are lists of bytes starting at the pointer the source
  uses, the buffer size is passed separately as in the source, and reading past the memory a
  pointer points into is the result \<open>None\<close>.
\<close>

section \<open>Writing\<close>

definition action_message_base_size :: int where
  "action_message_base_size = 7 * 4 + 2 * 2 + 8 + 4 + 1"

definition endian_byte :: "bool \<Rightarrow> byte" where
  "endian_byte le = (if le then 1 else 0)"

definition header_bytes :: "('t::linorder) time_rep \<Rightarrow> bool \<Rightarrow> 't ActionMessage \<Rightarrow> nat \<Rightarrow> byte list" where
  "header_bytes T le m ssize =
     [endian_byte le, word_of_nat (ssize div 65536), word_of_nat (ssize div 256 mod 256),
      word_of_nat (ssize mod 256)]
     @ host_bytes le 4 (messageAction m)
     @ host_bytes le 4 (messageID m)
     @ host_bytes le 4 (gid (source_id m))
     @ host_bytes le 4 (hid (source_handle m))
     @ host_bytes le 4 (gid (dest_id m))
     @ host_bytes le 4 (hid (dest_handle m))
     @ host_bytes le 2 (counter m)
     @ host_bytes le 2 (flags m)
     @ host_bytes le 4 (sequenceID m)
     @ host_bytes le 8 (getBaseTimeCode T (actionTime m))"

text \<open>
  The loop over the string data. Its buffer test compares against a size that the loop does not
  advance.
\<close>

fun put_strings :: "bool \<Rightarrow> int \<Rightarrow> int \<Rightarrow> string list \<Rightarrow> byte list option" where
  "put_strings le buffer_size ssize [] = Some []"
| "put_strings le buffer_size ssize (str # rest) =
     (if buffer_size < ssize then None
      else map_option (\<lambda>t. host_bytes le 4 (word_of_nat (length str) :: uint32)
                            @ bytes_of_string str @ t)
             (put_strings le buffer_size ssize rest))"

definition toByteArray ::
  "('t::linorder) time_rep \<Rightarrow> bool \<Rightarrow> 't ActionMessage \<Rightarrow> int \<Rightarrow> byte list option" where
  "toByteArray T le m buffer_size =
     (let ssize = (if messageAction m \<noteq> cmd_time_request then length (payload m) mod 2 ^ 24 else 0)
      in if buffer_size = 0 \<or> buffer_size < action_message_base_size + int ssize then None
         else if messageAction m = cmd_time_request
         then Some (header_bytes T le m ssize
                @ host_bytes le 8 (getBaseTimeCode T (Te m))
                @ host_bytes le 8 (getBaseTimeCode T (Tdemin m))
                @ host_bytes le 8 (getBaseTimeCode T (Tso m)) @ [0])
         else map_option
                (\<lambda>t. header_bytes T le m ssize @ bytes_of_string (take ssize (payload m))
                       @ [word_of_nat (length (stringData m))] @ t)
                (put_strings le buffer_size (int ssize + action_message_base_size) (stringData m)))"

definition serializedByteCount :: "'t ActionMessage \<Rightarrow> int32" where
  "serializedByteCount m =
     (if messageAction m = cmd_time_request
      then word_of_int action_message_base_size + word_of_nat (3 * 8)
      else foldl (\<lambda>size str. size + word_of_nat (4 + length str))
             (word_of_int action_message_base_size + word_of_nat (length (payload m)))
             (stringData m))"

text \<open>A string resized to the serialised size, then overwritten from its first byte.\<close>

definition overlay :: "byte list option \<Rightarrow> byte list \<Rightarrow> byte list" where
  "overlay w buf = (case w of None \<Rightarrow> buf | Some bs \<Rightarrow> bs @ drop (length bs) buf)"

definition to_string :: "('t::linorder) time_rep \<Rightarrow> bool \<Rightarrow> 't ActionMessage \<Rightarrow> byte list" where
  "to_string T le m =
     (let sz = sint (serializedByteCount m)
      in overlay (toByteArray T le m sz) (replicate (nat sz) 0))"

definition LEADING_CHAR :: byte where "LEADING_CHAR = 0xF3"
definition TAIL_CHAR1 :: byte where "TAIL_CHAR1 = 0xFA"
definition TAIL_CHAR2 :: byte where "TAIL_CHAR2 = 0xFC"

definition packetize :: "('t::linorder) time_rep \<Rightarrow> bool \<Rightarrow> 't ActionMessage \<Rightarrow> byte list" where
  "packetize T le m =
     (let sz = sint (serializedByteCount m);
          body = overlay (toByteArray T le m sz) (replicate (nat sz) 0);
          dsz = 4 + length body
      in [LEADING_CHAR, word_of_nat (dsz div 65536), word_of_nat (dsz div 256),
          word_of_nat dsz] @ body @ [TAIL_CHAR1, TAIL_CHAR2])"

section \<open>Reading\<close>

definition wrap32 :: "int \<Rightarrow> int" where
  "wrap32 x = sint (word_of_int x :: int32)"

definition three_bytes :: "byte list \<Rightarrow> nat" where
  "three_bytes h = 65536 * unat (h ! 1) + 256 * unat (h ! 2) + unat (h ! 3)"

definition invalidate :: "'t ActionMessage \<Rightarrow> 't ActionMessage" where
  "invalidate m = m\<lparr> messageAction := cmd_invalid \<rparr>"

text \<open>
  The loop that fills the resized string vector: whether it completed, the running size and the
  vector. \<open>tsize += ssize\<close> is a 32 bit addition.
\<close>

fun read_strings ::
  "bool \<Rightarrow> bool \<Rightarrow> int \<Rightarrow> nat \<Rightarrow> nat \<Rightarrow> int \<Rightarrow> byte list \<Rightarrow> string list
     \<Rightarrow> (bool \<times> int \<times> string list) option" where
  "read_strings le swap n ii 0 tsize data sd = Some (True, tsize, sd)"
| "read_strings le swap n ii (Suc k) tsize data sd =
     do {
       (b, d) \<leftarrow> get 4 data;
       let ssize = (if swap then swap_word le 4 (of_host_bytes le b :: uint32)
                    else of_host_bytes le b);
       let tsize' = wrap32 (tsize + uint ssize);
       if n < tsize' then Some (False, tsize', sd)
       else do {
         (s, d') \<leftarrow> get (unat ssize) d;
         read_strings le swap n (Suc ii) k tsize' d' (sd[ii := string_of_bytes s])
       }
     }"

definition swap_time :: "('t::linorder) time_rep \<Rightarrow> bool \<Rightarrow> 't \<Rightarrow> 't" where
  "swap_time T le t = setBaseTimeCode T (swap_word le 8 (getBaseTimeCode T t))"

text \<open>The final pass on a host of the other endianness; \<open>sequenceID\<close> is not part of it.\<close>

definition swap_fields :: "('t::linorder) time_rep \<Rightarrow> bool \<Rightarrow> 't ActionMessage \<Rightarrow> 't ActionMessage" where
  "swap_fields T le m =
     (let m1 = m\<lparr> messageID := swap_word le 4 (messageID m),
          source_id := Global_Federate_Id (swap_word le 4 (gid (source_id m))),
          source_handle := Interface_Handle (swap_word le 4 (hid (source_handle m))),
          dest_id := Global_Federate_Id (swap_word le 4 (gid (dest_id m))),
          dest_handle := Interface_Handle (swap_word le 4 (hid (dest_handle m))),
          counter := swap_word le 2 (counter m),
          flags := swap_word le 2 (flags m),
          actionTime := swap_time T le (actionTime m) \<rparr>
      in if messageAction m = cmd_time_request
         then m1\<lparr> Te := swap_time T le (Te m), Tdemin := swap_time T le (Tdemin m),
                   Tso := swap_time T le (Tso m) \<rparr>
         else m1)"

definition finish_read :: "('t::linorder) time_rep \<Rightarrow> bool \<Rightarrow> bool \<Rightarrow> 't ActionMessage \<Rightarrow> 't ActionMessage" where
  "finish_read T le swap m = (if swap then swap_fields T le m else m)"

text \<open>From the payload on.\<close>

definition read_tail ::
  "('t::linorder) time_rep \<Rightarrow> bool \<Rightarrow> bool \<Rightarrow> int \<Rightarrow> nat \<Rightarrow> int \<Rightarrow> byte list \<Rightarrow> 't ActionMessage
     \<Rightarrow> (int \<times> 't ActionMessage) option" where
  "read_tail T le swap n sz tsize data m =
     do {
       (m1, d1) \<leftarrow> (if 0 < sz then do { (p, d) \<leftarrow> get sz data;
                                       Some (m\<lparr> payload := string_of_bytes p \<rparr>, d) }
                   else Some (m, data));
       (c, d2) \<leftarrow> get 1 d1;
       let stringCount = unat (hd c);
       if stringCount \<noteq> 0 then do {
         let m2 = m1\<lparr> stringData := resize stringCount [] (stringData m1) \<rparr>;
         let tsize1 = tsize + 4 * int stringCount;
         if n < tsize1 then Some (0, invalidate m2)
         else do {
           (ok, tsize2, sd) \<leftarrow> read_strings le swap n 0 stringCount tsize1 d2 (stringData m2);
           let m3 = m2\<lparr> stringData := sd \<rparr>;
           if ok then Some (tsize2, finish_read T le swap m3) else Some (0, invalidate m3)
         }
       }
       else Some (tsize, finish_read T le swap (m1\<lparr> stringData := [] \<rparr>))
     }"

text \<open>\<open>fromByteArray\<close> after the test for a packet.\<close>

definition read_body ::
  "('t::linorder) time_rep \<Rightarrow> bool \<Rightarrow> 't ActionMessage \<Rightarrow> byte list \<Rightarrow> int
     \<Rightarrow> (int \<times> 't ActionMessage) option" where
  "read_body T le m data n =
     do {
       (h, d) \<leftarrow> get 4 data;
       let sz = three_bytes h;
       let tsize = action_message_base_size + int sz;
       if n < tsize then Some (0, invalidate m)
       else do {
         let swap = (h ! 0 \<noteq> endian_byte le);
         (b, d) \<leftarrow> get 4 d;
         let act = (if swap then swap_word le 4 (of_host_bytes le b) else of_host_bytes le b);
         (f1, d) \<leftarrow> get 4 d;
         (f2, d) \<leftarrow> get 4 d;
         (f3, d) \<leftarrow> get 4 d;
         (f4, d) \<leftarrow> get 4 d;
         (f5, d) \<leftarrow> get 4 d;
         (f6, d) \<leftarrow> get 2 d;
         (f7, d) \<leftarrow> get 2 d;
         (f8, d) \<leftarrow> get 4 d;
         (f9, d) \<leftarrow> get 8 d;
         let m1 = m\<lparr> messageAction := act, messageID := of_host_bytes le f1,
             source_id := Global_Federate_Id (of_host_bytes le f2),
             source_handle := Interface_Handle (of_host_bytes le f3),
             dest_id := Global_Federate_Id (of_host_bytes le f4),
             dest_handle := Interface_Handle (of_host_bytes le f5),
             counter := of_host_bytes le f6, flags := of_host_bytes le f7,
             sequenceID := of_host_bytes le f8,
             actionTime := setBaseTimeCode T (of_host_bytes le f9) \<rparr>;
         if act = cmd_time_request then do {
           let tsize1 = tsize + 3 * 8;
           if n < tsize1 then Some (0, invalidate m1)
           else do {
             (t1, d) \<leftarrow> get 8 d;
             (t2, d) \<leftarrow> get 8 d;
             (t3, d) \<leftarrow> get 8 d;
             read_tail T le swap n sz tsize1 d
               (m1\<lparr> Te := setBaseTimeCode T (of_host_bytes le t1),
                    Tdemin := setBaseTimeCode T (of_host_bytes le t2),
                    Tso := setBaseTimeCode T (of_host_bytes le t3) \<rparr>)
           }
         }
         else read_tail T le swap n sz tsize d
                (m1\<lparr> Te := timeZero T, Tdemin := timeZero T, Tso := timeZero T \<rparr>)
       }
     }"

text \<open>
  The two readers call each other: a buffer that starts with the leading character is tried as a
  packet, whose content is again read as a message. The content is strictly shorter than the
  packet, so the recursion ends. \<open>message_size\<close> is made of three bytes; \<open>message_size - 4\<close> passed
  as an \<open>int\<close> is the signed difference.
\<close>

function fromByteArray ::
  "('t::linorder) time_rep \<Rightarrow> bool \<Rightarrow> 't ActionMessage \<Rightarrow> byte list \<Rightarrow> int
     \<Rightarrow> (int \<times> 't ActionMessage) option"
  and depacketize ::
  "('t::linorder) time_rep \<Rightarrow> bool \<Rightarrow> 't ActionMessage \<Rightarrow> byte list \<Rightarrow> int
     \<Rightarrow> (int \<times> 't ActionMessage) option"
where
  "fromByteArray T le m data n =
     (if n < action_message_base_size then Some (0, invalidate m)
      else do {
        (h, _) \<leftarrow> get 1 data;
        if hd h = LEADING_CHAR then do {
          (res, m') \<leftarrow> depacketize T le m data n;
          if 0 < res then Some (res, m') else read_body T le m' data n
        }
        else read_body T le m data n
      })"
| "depacketize T le m data n =
     do {
       (h, _) \<leftarrow> get 1 data;
       if hd h \<noteq> LEADING_CHAR then Some (0, m)
       else if n < 6 then Some (0, m)
       else do {
         (b, _) \<leftarrow> get 4 data;
         let message_size = three_bytes b;
         if n < int message_size + 2 then Some (0, m)
         else do {
           (t1, d) \<leftarrow> get 1 (drop message_size data);
           if hd t1 \<noteq> TAIL_CHAR1 then Some (0, m)
           else do {
             (t2, _) \<leftarrow> get 1 d;
             if hd t2 \<noteq> TAIL_CHAR2 then Some (0, m)
             else do {
               (bytesUsed, m') \<leftarrow> fromByteArray T le m (drop 4 data) (int message_size - 4);
               Some (if 0 < bytesUsed then int message_size + 2 else 0, m')
             }
           }
         }
       }
     }"
  by pat_completeness auto
termination
  by (relation "measure (case_sum (\<lambda>(T, le, m, data, n). 2 * nat n + 1)
                                  (\<lambda>(T, le, m, data, n). 2 * nat n))")
    (auto simp: action_message_base_size_def)

declare fromByteArray.simps [simp del] depacketize.simps [simp del]

definition from_string ::
  "('t::linorder) time_rep \<Rightarrow> bool \<Rightarrow> 't ActionMessage \<Rightarrow> byte list \<Rightarrow> (int \<times> 't ActionMessage) option" where
  "from_string T le m data = fromByteArray T le m data (sint (size32 data))"

text \<open>The constructor from a byte string.\<close>

definition message_of_bytes ::
  "('t::linorder) time_rep \<Rightarrow> bool \<Rightarrow> byte list \<Rightarrow> 't ActionMessage option" where
  "message_of_bytes T le bytes = map_option snd (from_string T le (ActionMessage_default T) bytes)"

section \<open>Multi messages\<close>

definition appendMessage ::
  "('t::linorder) time_rep \<Rightarrow> bool \<Rightarrow> 't ActionMessage \<Rightarrow> 't ActionMessage \<Rightarrow> int \<times> 't ActionMessage" where
  "appendMessage T le m newMessage =
     (if messageAction m = cmd_multi_message \<and> unat (counter m) < 255
      then case setString (ucast (counter m)) (string_of_bytes (to_string T le newMessage)) m of
             Inr m' \<Rightarrow> (int (unat (counter m)) + 1, m'\<lparr> counter := counter m + 1 \<rparr>)
           | Inl e \<Rightarrow> (- 1, m\<lparr> counter := counter m + 1 \<rparr>)
      else (- 1, m))"

section \<open>What the reader makes of what the writer produced\<close>

lemma three_bytes_header:
  assumes "n < 2 ^ 24"
  shows "three_bytes (e # word_of_nat (n div 65536) # word_of_nat (n div 256 mod 256)
           # word_of_nat (n mod 256) # r) = n"
proof -
  have a: "n div 65536 < 256" using assms by simp
  have "n = 65536 * (n div 65536) + 256 * (n div 256 mod 256) + n mod 256"
  proof -
    have "n div 256 div 256 = n div 65536" by (simp add: div_mult2_eq [symmetric])
    then have "n div 256 = 256 * (n div 65536) + n div 256 mod 256"
      by (metis mult.commute div_mult_mod_eq)
    then have "n = 256 * (256 * (n div 65536) + n div 256 mod 256) + n mod 256"
      by (metis mult.commute div_mult_mod_eq)
    then show ?thesis by simp
  qed
  then show ?thesis
    using a by (simp add: three_bytes_def unat_of_nat take_bit_eq_mod unsigned_of_nat)
qed

lemma endian_byte_simps [simp]:
  "endian_byte le = endian_byte le' \<longleftrightarrow> le = le'"
  "endian_byte le \<noteq> LEADING_CHAR"
  by (simp_all add: endian_byte_def LEADING_CHAR_def)

text \<open>A field written on one host and read on another comes back after the conditional swap.\<close>

lemma read_field [simp]:
  assumes "LENGTH('a) = 8 * n"
  shows "swap_word le n (of_host_bytes le (host_bytes (\<not> le) n w)) = (w :: 'a::len word)"
    and "of_host_bytes le (host_bytes le n w) = w"
  using assms by (auto simp: swap_word_of_host_bytes of_host_bytes_host_bytes)

lemma swap_time_read [simp]:
  assumes "time_codec T"
  shows "swap_time T le (setBaseTimeCode T (of_host_bytes le (host_bytes (\<not> le) 8 (getBaseTimeCode T t)))) = t"
    and "setBaseTimeCode T (of_host_bytes le (host_bytes le 8 (getBaseTimeCode T t))) = t"
  using assms by (simp_all add: swap_time_def time_codec_def)

lemma le_cases: "(le' = le \<Longrightarrow> P) \<Longrightarrow> (le' = (\<not> le) \<Longrightarrow> P) \<Longrightarrow> P"
  by blast

lemma wrap32_small: "- (2 ^ 31) \<le> x \<Longrightarrow> x < 2 ^ 31 \<Longrightarrow> wrap32 x = x"
  by (simp add: wrap32_def signed_of_int signed_take_bit_int_eq_self)

definition strings_size :: "string list \<Rightarrow> nat" where
  "strings_size ss = (\<Sum>s\<leftarrow>ss. length s)"

lemma strings_size_simps [simp]:
  "strings_size [] = 0" "strings_size (s # ss) = length s + strings_size ss"
  by (simp_all add: strings_size_def)

lemma put_strings_Some:
  assumes "ssize \<le> n"
  shows "\<exists>bs. put_strings le n ssize ss = Some bs \<and> length bs = 4 * length ss + strings_size ss"
  using assms by (induction ss) auto

lemma read_strings_put:
  assumes "put_strings le' n0 ss0 ss = Some bs"
    and "0 \<le> tsize" and "tsize + int (strings_size ss) \<le> n" and "n < 2 ^ 31"
    and "ii + length ss = length sd"
  shows "read_strings le (le' \<noteq> le) n ii (length ss) tsize (bs @ rest) sd
    = Some (True, tsize + int (strings_size ss), take ii sd @ ss)"
  using assms
proof (induction ss arbitrary: bs tsize ii sd)
  case Nil
  then show ?case by simp
next
  case (Cons s ss)
  obtain t where t: "put_strings le' n0 ss0 ss = Some t"
    and bs: "bs = host_bytes le' 4 (word_of_nat (length s) :: uint32) @ bytes_of_string s @ t"
    using Cons.prems(1) by (auto split: if_splits)
  have small: "length s < 2 ^ 31"
    using Cons.prems(2-4) by simp
  have len: "uint (word_of_nat (length s) :: uint32) = int (length s)"
    "unat (word_of_nat (length s) :: uint32) = length s"
    using small by (simp_all add: unsigned_of_nat take_bit_nat_eq_self)
  have field: "(if le' \<noteq> le then swap_word le 4 (of_host_bytes le (host_bytes le' 4 (word_of_nat (length s) :: uint32)))
      else of_host_bytes le (host_bytes le' 4 (word_of_nat (length s) :: uint32))) = (word_of_nat (length s) :: uint32)"
    by (rule le_cases [of le' le]) simp_all
  have wrap: "wrap32 (tsize + int (length s)) = tsize + int (length s)"
    using Cons.prems(2-4) by (intro wrap32_small) simp_all
  have IH: "read_strings le (le' \<noteq> le) n (Suc ii) (length ss) (tsize + int (length s)) (t @ rest) (sd[ii := s])
    = Some (True, tsize + int (length s) + int (strings_size ss), take (Suc ii) (sd[ii := s]) @ ss)"
    by (rule Cons.IH [OF t]) (use Cons.prems in simp_all)
  have "take (Suc ii) (sd[ii := s]) = take ii sd @ [s]"
    using Cons.prems(5) by (simp add: take_Suc_conv_app_nth)
  then show ?case
    using Cons.prems(3) IH
    by (cases "le' = le") (simp_all add: bs field len wrap algebra_simps del: not_less)
qed

definition decoded ::
  "('t::linorder) time_rep \<Rightarrow> bool \<Rightarrow> bool \<Rightarrow> 't ActionMessage \<Rightarrow> 't ActionMessage \<Rightarrow> 't ActionMessage" where
  "decoded T le le' m0 m =
     (let seq = (if le' = le then sequenceID m else swap_word le 4 (sequenceID m)) in
      if messageAction m = cmd_time_request
      then m\<lparr> sequenceID := seq, payload := payload m0, stringData := [] \<rparr>
      else m\<lparr> sequenceID := seq, payload := (if payload m = [] then payload m0 else payload m),
              Te := timeZero T, Tdemin := timeZero T, Tso := timeZero T \<rparr>)"

definition encodable :: "'t ActionMessage \<Rightarrow> bool" where
  "encodable m \<longleftrightarrow> messageAction m = cmd_time_request
     \<or> (length (payload m) < 2 ^ 24 \<and> length (stringData m) < 256
        \<and> 45 + length (payload m) + 4 * length (stringData m) + strings_size (stringData m) < 2 ^ 31)"

definition encoded_size :: "'t ActionMessage \<Rightarrow> nat" where
  "encoded_size m = (if messageAction m = cmd_time_request then 69
     else 45 + length (payload m) + 4 * length (stringData m) + strings_size (stringData m))"

lemma length_header_bytes [simp]: "length (header_bytes T le m n) = 44"
  by (simp add: header_bytes_def)

lemma toByteArray_Some:
  assumes "encodable m" and "int (encoded_size m) \<le> n"
  shows "\<exists>bs. toByteArray T le m n = Some bs \<and> length bs = encoded_size m"
proof (cases "messageAction m = cmd_time_request")
  case True
  then show ?thesis
    using assms by (simp add: toByteArray_def encoded_size_def action_message_base_size_def)
next
  case False
  then have p: "length (payload m) mod 2 ^ 24 = length (payload m)"
    using assms(1) by (simp add: encodable_def)
  note p' = p [simplified]
  have "int (length (payload m)) + action_message_base_size \<le> n"
    using assms(2) False by (simp add: encoded_size_def action_message_base_size_def)
  then obtain bs where bs: "put_strings le n (int (length (payload m)) + action_message_base_size) (stringData m) = Some bs"
    "length bs = 4 * length (stringData m) + strings_size (stringData m)"
    using put_strings_Some by blast
  then show ?thesis
    using assms(2) False
    by (simp add: toByteArray_def p' Let_def encoded_size_def action_message_base_size_def)
qed

lemma serializedByteCount_encoded:
  assumes "encodable m"
  shows "sint (serializedByteCount m) = int (encoded_size m)"
proof (cases "messageAction m = cmd_time_request")
  case True
  then show ?thesis
    by (simp add: serializedByteCount_def encoded_size_def action_message_base_size_def)
next
  case False
  have fold: "foldl (\<lambda>size str. size + word_of_nat (4 + length str)) (word_of_nat k) ss
      = (word_of_nat (k + 4 * length ss + strings_size ss) :: int32)" for k ss
    by (induction ss arbitrary: k) (simp_all add: algebra_simps flip: of_nat_add)
  have "word_of_int action_message_base_size + word_of_nat (length (payload m))
      = (word_of_nat (45 + length (payload m)) :: int32)"
    by (simp add: action_message_base_size_def)
  then have "serializedByteCount m = word_of_nat (encoded_size m)"
    using False by (simp only: serializedByteCount_def fold encoded_size_def if_False)
  moreover have "encoded_size m < 2 ^ 31"
    using assms False by (simp add: encodable_def encoded_size_def)
  ultimately show ?thesis
    by (simp only: sint_word_of_nat_small)
qed


lemma get_1_Cons [simp]: "get (Suc 0) (x # r) = Some ([x], r)"
  by (simp add: get_def)

lemma bytes_of_string_Nil [simp]: "bytes_of_string [] = []"
  by (simp add: bytes_of_string_def)

lemma read_tail_put:
  assumes "put_strings le' n0 ss0 ss = Some bs" and "length ss < 256"
    and "0 \<le> tsize" and "tsize + 4 * int (length ss) + int (strings_size ss) \<le> n" and "n < 2 ^ 31"
  shows "read_tail T le (le' \<noteq> le) n (length p) tsize
           (bytes_of_string p @ (word_of_nat (length ss) :: byte) # bs @ rest) m
    = Some (tsize + 4 * int (length ss) + int (strings_size ss),
        finish_read T le (le' \<noteq> le)
          (m\<lparr> payload := (if p = [] then payload m else p), stringData := ss \<rparr>))"
proof -
  have count: "unat (word_of_nat (length ss) :: byte) = length ss"
    using assms(2) by (simp add: unsigned_of_nat take_bit_nat_eq_self)
  have strings: "ss \<noteq> [] \<Longrightarrow> read_strings le (le' \<noteq> le) n 0 (length ss) (tsize + 4 * int (length ss)) (bs @ rest)
      (resize (length ss) [] sd)
    = Some (True, tsize + 4 * int (length ss) + int (strings_size ss), ss)" for sd
    using read_strings_put [OF assms(1), of "tsize + 4 * int (length ss)" n 0 "resize (length ss) [] sd" le rest]
      assms(2-5) by (simp add: resize_def)
  have bs: "ss = [] \<Longrightarrow> bs = []"
    using assms(1) by simp
  show ?thesis
    using assms(3,4) strings bs
    by (cases "p = []"; cases "ss = []") (simp_all add: read_tail_def count)
qed

text \<open>The fixed fields as they are before the final pass of swaps.\<close>

definition raw_header ::
  "('t::linorder) time_rep \<Rightarrow> bool \<Rightarrow> bool \<Rightarrow> 't ActionMessage \<Rightarrow> 't ActionMessage \<Rightarrow> 't ActionMessage" where
  "raw_header T le le' m0 m =
     m0\<lparr> messageAction := messageAction m,
         messageID := of_host_bytes le (host_bytes le' 4 (messageID m)),
         source_id := Global_Federate_Id (of_host_bytes le (host_bytes le' 4 (gid (source_id m)))),
         source_handle := Interface_Handle (of_host_bytes le (host_bytes le' 4 (hid (source_handle m)))),
         dest_id := Global_Federate_Id (of_host_bytes le (host_bytes le' 4 (gid (dest_id m)))),
         dest_handle := Interface_Handle (of_host_bytes le (host_bytes le' 4 (hid (dest_handle m)))),
         counter := of_host_bytes le (host_bytes le' 2 (counter m)),
         flags := of_host_bytes le (host_bytes le' 2 (flags m)),
         sequenceID := of_host_bytes le (host_bytes le' 4 (sequenceID m)),
         actionTime := setBaseTimeCode T (of_host_bytes le (host_bytes le' 8 (getBaseTimeCode T (actionTime m)))) \<rparr>"

lemma raw_action:
  "(if le' \<noteq> le then swap_word le 4 (of_host_bytes le (host_bytes le' 4 (w :: int32)))
    else of_host_bytes le (host_bytes le' 4 w)) = w"
  by (rule le_cases [of le' le]) simp_all

lemma raw_sequence:
  "of_host_bytes le (host_bytes (\<not> le) 4 (w :: int32)) = swap_word le 4 w"
  by (cases le; simp add: swap_word_def swap_bytes_rev host_bytes_def)

lemma read_body_header:
  assumes "sz < 2 ^ 24" and "45 + int sz \<le> n"
  shows "read_body T le m0 (header_bytes T le' m sz @ data) n
    = (if messageAction m = cmd_time_request
       then if n < 69 + int sz then Some (0, invalidate (raw_header T le le' m0 m))
            else do {
             (t1, d) \<leftarrow> get 8 data;
             (t2, d) \<leftarrow> get 8 d;
             (t3, d) \<leftarrow> get 8 d;
             read_tail T le (le' \<noteq> le) n sz (69 + int sz) d
               ((raw_header T le le' m0 m)\<lparr> Te := setBaseTimeCode T (of_host_bytes le t1),
                    Tdemin := setBaseTimeCode T (of_host_bytes le t2),
                    Tso := setBaseTimeCode T (of_host_bytes le t3) \<rparr>)
           }
       else read_tail T le (le' \<noteq> le) n sz (45 + int sz) data
              ((raw_header T le le' m0 m)\<lparr> Te := timeZero T, Tdemin := timeZero T, Tso := timeZero T \<rparr>))"
proof -
  have get4: "get 4 (a # b # c # d # r) = Some ([a, b, c, d], r)" for a b c d :: byte and r
    by (simp add: get_def)
  show ?thesis
    using assms
    by (simp add: read_body_def header_bytes_def get4 three_bytes_header action_message_base_size_def
        raw_action Let_def raw_header_def)
qed


lemma finish_read_raw:
  assumes "time_codec T"
  shows "messageAction m \<noteq> cmd_time_request \<Longrightarrow>
      finish_read T le (le' \<noteq> le) ((raw_header T le le' m0 m)\<lparr> Te := t, Tdemin := t', Tso := t'', payload := p, stringData := ss \<rparr>)
      = m\<lparr> sequenceID := (if le' = le then sequenceID m else swap_word le 4 (sequenceID m)),
           payload := p, Te := t, Tdemin := t', Tso := t'', stringData := ss \<rparr>"
    and "messageAction m = cmd_time_request \<Longrightarrow>
      finish_read T le (le' \<noteq> le) ((raw_header T le le' m0 m)\<lparr> payload := p,
          Te := setBaseTimeCode T (of_host_bytes le (host_bytes le' 8 (getBaseTimeCode T (Te m)))),
          Tdemin := setBaseTimeCode T (of_host_bytes le (host_bytes le' 8 (getBaseTimeCode T (Tdemin m)))),
          Tso := setBaseTimeCode T (of_host_bytes le (host_bytes le' 8 (getBaseTimeCode T (Tso m)))), stringData := ss \<rparr>)
      = m\<lparr> sequenceID := (if le' = le then sequenceID m else swap_word le 4 (sequenceID m)),
           payload := p, stringData := ss \<rparr>"
proof -
  assume act: "messageAction m \<noteq> cmd_time_request"
  show "finish_read T le (le' \<noteq> le) ((raw_header T le le' m0 m)\<lparr> Te := t, Tdemin := t', Tso := t'', payload := p, stringData := ss \<rparr>)
      = m\<lparr> sequenceID := (if le' = le then sequenceID m else swap_word le 4 (sequenceID m)),
           payload := p, Te := t, Tdemin := t', Tso := t'', stringData := ss \<rparr>"
    by (rule le_cases [of le' le])
      (simp_all add: act assms assms [unfolded time_codec_def] raw_header_def finish_read_def swap_fields_def, simp_all add: raw_sequence)
next
  assume act: "messageAction m = cmd_time_request"
  show "finish_read T le (le' \<noteq> le) ((raw_header T le le' m0 m)\<lparr> payload := p,
          Te := setBaseTimeCode T (of_host_bytes le (host_bytes le' 8 (getBaseTimeCode T (Te m)))),
          Tdemin := setBaseTimeCode T (of_host_bytes le (host_bytes le' 8 (getBaseTimeCode T (Tdemin m)))),
          Tso := setBaseTimeCode T (of_host_bytes le (host_bytes le' 8 (getBaseTimeCode T (Tso m)))), stringData := ss \<rparr>)
      = m\<lparr> sequenceID := (if le' = le then sequenceID m else swap_word le 4 (sequenceID m)),
           payload := p, stringData := ss \<rparr>"
    by (rule le_cases [of le' le])
      (simp_all add: act assms assms [unfolded time_codec_def] raw_header_def finish_read_def swap_fields_def, simp_all add: raw_sequence flip: act)
qed

lemma read_body_toByteArray:
  assumes codec: "time_codec T" and enc: "encodable m"
    and out: "toByteArray T le' m k = Some bs" and n: "int (encoded_size m) \<le> n" "n < 2 ^ 31"
  shows "read_body T le m0 (bs @ rest) n = Some (int (encoded_size m), decoded T le le' m0 m)"
proof (cases "messageAction m = cmd_time_request")
  case True
  have tail: "read_tail T le (le' \<noteq> le) n 0 69 (0 # rest) m'
      = Some (69, finish_read T le (le' \<noteq> le) (m'\<lparr> stringData := [] \<rparr>))" for m'
    by (simp add: read_tail_def)
  have upd: "(raw_header T le le' m0 m)\<lparr> Te := a, Tdemin := b, Tso := c, stringData := [] \<rparr>
      = (raw_header T le le' m0 m)\<lparr> payload := payload m0, Te := a, Tdemin := b, Tso := c, stringData := [] \<rparr>" for a b c
    by (simp add: raw_header_def)
  have bs: "bs = header_bytes T le' m 0 @ host_bytes le' 8 (getBaseTimeCode T (Te m))
      @ host_bytes le' 8 (getBaseTimeCode T (Tdemin m)) @ host_bytes le' 8 (getBaseTimeCode T (Tso m)) @ [0]"
    using True out by (simp add: toByteArray_def split: if_splits)
  have "69 \<le> n"
    using n True by (simp add: encoded_size_def)
  then have "read_body T le m0 (bs @ rest) n = Some (69, m\<lparr> sequenceID :=
        (if le' = le then sequenceID m else swap_word le 4 (sequenceID m)),
      payload := payload m0, stringData := [] \<rparr>)"
    by (simp add: bs read_body_header True tail [simplified] upd finish_read_raw(2) [OF codec True, simplified]
        split del: if_split)
  with True show ?thesis
    by (simp add: encoded_size_def decoded_def)
next
  case False
  have p: "length (payload m) mod 16777216 = length (payload m)" "length (payload m) < 2 ^ 24"
      "length (stringData m) < 256"
    using enc False by (simp_all add: encodable_def)
  from False out obtain t where t: "put_strings le' k (int (length (payload m)) + action_message_base_size) (stringData m) = Some t"
    and bs: "bs = header_bytes T le' m (length (payload m)) @ bytes_of_string (payload m)
        @ word_of_nat (length (stringData m)) # t"
    by (auto simp: toByteArray_def p Let_def split: if_splits)
  have "payload (raw_header T le le' m0 m) = payload m0"
    by (simp add: raw_header_def)
  then have tail: "read_tail T le (le' \<noteq> le) n (length (payload m)) (45 + int (length (payload m)))
      (bytes_of_string (payload m) @ word_of_nat (length (stringData m)) # t @ rest)
      ((raw_header T le le' m0 m)\<lparr> Te := timeZero T, Tdemin := timeZero T, Tso := timeZero T \<rparr>)
    = Some (int (encoded_size m), decoded T le le' m0 m)"
    using False n
    by (subst read_tail_put [OF t p(3)])
      (simp_all add: encoded_size_def decoded_def finish_read_raw(1) [OF codec False, simplified]
        split del: if_split cong: if_cong)
  show ?thesis
    using False n p(2) tail by (simp add: bs read_body_header encoded_size_def)
qed

lemma first_byte_toByteArray:
  assumes "toByteArray T le m k = Some bs"
  shows "\<exists>r. bs = endian_byte le # r"
  using assms by (auto simp: toByteArray_def header_bytes_def Let_def split: if_splits)

lemma fromByteArray_toByteArray:
  assumes "time_codec T" and "encodable m" and "toByteArray T le' m k = Some bs"
    and "int (encoded_size m) \<le> n" "n < 2 ^ 31"
  shows "fromByteArray T le m0 (bs @ rest) n = Some (int (encoded_size m), decoded T le le' m0 m)"
proof -
  obtain r where "bs = endian_byte le' # r"
    using first_byte_toByteArray [OF assms(3)] by blast
  moreover have "45 \<le> n"
    using assms(4) by (simp add: encoded_size_def split: if_splits)
  ultimately show ?thesis
    using read_body_toByteArray [OF assms, of le m0 rest]
    by (simp add: fromByteArray.simps action_message_base_size_def)
qed

lemma to_string_encoded:
  assumes "encodable m"
  shows "\<exists>bs. toByteArray T le m (int (encoded_size m)) = Some bs \<and> to_string T le m = bs
           \<and> length bs = encoded_size m"
  using toByteArray_Some [OF assms, of "int (encoded_size m)" T le]
  by (auto simp: to_string_def overlay_def serializedByteCount_encoded [OF assms])

lemma encodable_small: "encodable m \<Longrightarrow> encoded_size m < 2 ^ 31"
  by (auto simp: encodable_def encoded_size_def)

lemma packetize_encoded:
  assumes "encodable m" and "encoded_size m + 4 < 2 ^ 24"
  shows "\<exists>bs. toByteArray T le m (int (encoded_size m)) = Some bs \<and> length bs = encoded_size m
    \<and> packetize T le m = LEADING_CHAR # word_of_nat ((encoded_size m + 4) div 65536)
        # word_of_nat ((encoded_size m + 4) div 256) # word_of_nat (encoded_size m + 4) # bs
        @ [TAIL_CHAR1, TAIL_CHAR2]"
  using toByteArray_Some [OF assms(1), of "int (encoded_size m)" T le]
  by (auto simp: packetize_def overlay_def serializedByteCount_encoded [OF assms(1)] Let_def add.commute)

lemma from_string_to_string_aux:
  assumes "time_codec T" and "encodable m"
  shows "from_string T le m0 (to_string T le' m)
    = Some (int (length (to_string T le' m)), decoded T le le' m0 m)"
  using to_string_encoded [OF assms(2), of T le'] encodable_small [OF assms(2)]
    fromByteArray_toByteArray [OF assms, of le' _ _ "int (encoded_size m)" le m0 "[]"]
  by (auto simp: from_string_def sint_word_of_nat_small)

text \<open>C5: a message written by \<open>to_string\<close> on one host and read by \<open>from_string\<close> on any other host,
  into any old message object, consumes exactly the bytes written and gives every field of the
  original back, up to what \<open>decoded\<close> lists: the sequence number is byte swapped between hosts of
  different endianness, a time request carries no payload and no strings, other messages carry no
  \<open>Te\<close>, \<open>Tdemin\<close>, \<open>Tso\<close>, and an empty payload leaves the payload of the old object.\<close>

theorem from_string_to_string:
  assumes "time_codec T" and "encodable m"
  shows "from_string T le m0 (to_string T le' m)
    = Some (int (length (to_string T le' m)), decoded T le le' m0 m)"
  by (rule from_string_to_string_aux [OF assms])

text \<open>A message with a payload and two strings, written on a little endian host.\<close>

definition sample_message :: "ticks ActionMessage" where
  "sample_message = (mk_message_to tick_rep cmd_pub (Global_Federate_Id 7) (Global_Federate_Id 9))
     \<lparr> payload := ''ab'', stringData := [''x'', ''yz''], sequenceID := 5 \<rparr>"

lemma sample_encodable: "encodable sample_message" "encoded_size sample_message = 58"
  by (simp_all add: encodable_def encoded_size_def sample_message_def mk_message_to_def cmd_defs)

theorem from_string_to_string_witness:
  "from_string tick_rep True (ActionMessage_default tick_rep) (to_string tick_rep False sample_message)
    = Some (int (length (to_string tick_rep False sample_message)),
        decoded tick_rep True False (ActionMessage_default tick_rep) sample_message)"
  by (rule from_string_to_string [OF tick_codec sample_encodable(1)])

text \<open>C27: a packet made by \<open>packetize\<close>, with any bytes after it in the buffer, is recognised by
  \<open>depacketize\<close>, consumed exactly up to its tail characters, and gives the message back.\<close>

theorem depacketize_packetize:
  assumes "time_codec T" and "encodable m" and "encoded_size m + 4 < 2 ^ 24"
    and "int (encoded_size m) + 6 \<le> n"
  shows "depacketize T le m0 (packetize T le' m @ rest) n
    = Some (int (length (packetize T le' m)), decoded T le le' m0 m)"
proof -
  obtain bs where bs: "toByteArray T le' m (int (encoded_size m)) = Some bs" "length bs = encoded_size m"
    and pk: "packetize T le' m = LEADING_CHAR # word_of_nat ((encoded_size m + 4) div 65536)
        # word_of_nat ((encoded_size m + 4) div 256) # word_of_nat (encoded_size m + 4) # bs
        @ [TAIL_CHAR1, TAIL_CHAR2]"
    using packetize_encoded [OF assms(2,3), of T le'] by blast
  have bytes: "(word_of_nat (k div 256) :: byte) = word_of_nat (k div 256 mod 256)"
    "(word_of_nat k :: byte) = word_of_nat (k mod 256)" for k
    by (simp_all add: word_of_nat_eq_iff take_bit_eq_mod)
  have size: "three_bytes (LEADING_CHAR # word_of_nat ((encoded_size m + 4) div 65536)
        # word_of_nat ((encoded_size m + 4) div 256) # [word_of_nat (encoded_size m + 4)]) = encoded_size m + 4"
    by (subst (1 2) bytes) (rule three_bytes_header [OF assms(3)])
  have body: "fromByteArray T le m0 (bs @ [TAIL_CHAR1, TAIL_CHAR2] @ rest) (int (encoded_size m))
      = Some (int (encoded_size m), decoded T le le' m0 m)"
    by (rule fromByteArray_toByteArray [OF assms(1,2) bs(1)])
      (use encodable_small [OF assms(2)] in simp_all)
  have pos: "0 < encoded_size m"
    by (simp add: encoded_size_def)
  have k4: "encoded_size m + 4 = Suc (Suc (Suc (Suc (length bs))))"
    using bs(2) by simp
  have parts: "get (Suc 0) (packetize T le' m @ rest) = Some ([LEADING_CHAR], tl (packetize T le' m @ rest))"
    "get 4 (packetize T le' m @ rest) = Some ([LEADING_CHAR, word_of_nat ((encoded_size m + 4) div 65536),
        word_of_nat ((encoded_size m + 4) div 256), word_of_nat (encoded_size m + 4)],
        bs @ [TAIL_CHAR1, TAIL_CHAR2] @ rest)"
    "drop (encoded_size m + 4) (packetize T le' m @ rest) = TAIL_CHAR1 # TAIL_CHAR2 # rest"
    "drop 4 (packetize T le' m @ rest) = bs @ [TAIL_CHAR1, TAIL_CHAR2] @ rest"
    "length (packetize T le' m) = encoded_size m + 6"
    unfolding pk by (simp_all add: get_def bs(2), simp only: k4 drop_Suc_Cons, simp)
  show ?thesis
    using pos assms(4)
    by (simp add: depacketize.simps [of T le m0 "packetize T le' m @ rest"] parts size [simplified]
        body [simplified] Let_def del: append_assoc drop_append)
qed

theorem depacketize_packetize_witness:
  "depacketize tick_rep True (ActionMessage_default tick_rep) (packetize tick_rep True sample_message @ [1, 2]) 70
    = Some (int (length (packetize tick_rep True sample_message)),
        decoded tick_rep True True (ActionMessage_default tick_rep) sample_message)"
  by (rule depacketize_packetize [OF tick_codec sample_encodable(1)]) (simp_all add: sample_encodable)

text \<open>C28: the running size of the string loop is a 32 bit sum, so a length field near \<open>2\<^sup>3\<^sup>2\<close> passes
  the test against the buffer size, and the reader goes on to read that many bytes from a 50 byte
  buffer: an out of bounds read, whatever the message.\<close>

theorem fromByteArray_overread:
  assumes "messageAction m \<noteq> cmd_time_request"
  shows "fromByteArray T le m0
    (header_bytes T le m 0 @ [1] @ host_bytes le 4 (0xFFFFFFF0 :: uint32) @ [0]) 50 = None"
proof -
  have first: "get (Suc 0) (header_bytes T le m 0 @ r) = Some ([endian_byte le], tl (header_bytes T le m 0 @ r))" for r
    by (simp add: header_bytes_def)
  have big: "get 4294967280 [0 :: byte] = None"
    by (simp add: get_def)
  have "read_tail T le (le \<noteq> le) 50 0 45 (1 # host_bytes le 4 (0xFFFFFFF0 :: uint32) @ [0]) m' = None" for m'
    by (simp add: read_tail_def wrap32_def big Let_def eval_nat_numeral(1))
  then show ?thesis
    using assms first read_body_header [of 0 50 T le m0 le m]
    by (simp add: fromByteArray.simps action_message_base_size_def)
qed

theorem fromByteArray_overread_witness:
  "fromByteArray tick_rep True (ActionMessage_default tick_rep)
    (header_bytes tick_rep True sample_message 0 @ [1] @ host_bytes True 4 (0xFFFFFFF0 :: uint32) @ [0]) 50 = None"
  by (rule fromByteArray_overread)
    (simp add: sample_message_def mk_message_to_def cmd_defs)

section \<open>Containers of messages\<close>

definition multi_ok :: "'t ActionMessage \<Rightarrow> bool" where
  "multi_ok m \<longleftrightarrow> messageAction m = cmd_multi_message \<and> unat (counter m) = length (stringData m)
     \<and> length (stringData m) \<le> 255"

lemma sint_ucast_counter: "sint (ucast (c :: uint16) :: int32) = int (unat c)"
proof -
  have "unat c < 65536"
    by (rule less_le_trans [OF unsigned_less]) simp
  then have "unat c < 2 ^ 31"
    by simp
  from sint_word_of_nat_small [OF this] show ?thesis
    by simp
qed

lemma unat_counter_Suc: "unat (c :: uint16) < 255 \<Longrightarrow> unat (c + 1) = Suc (unat c)"
  by (simp add: unat_word_ariths)

lemma appendMessage_room:
  assumes "multi_ok m" and "length (stringData m) < 255"
  shows "appendMessage T le m newMessage = (int (length (stringData m)) + 1,
      m\<lparr> counter := counter m + 1,
         stringData := stringData m @ [string_of_bytes (to_string T le newMessage)] \<rparr>)"
proof -
  have c: "unat (counter m) = length (stringData m)" and "messageAction m = cmd_multi_message"
    using assms(1) by (simp_all add: multi_ok_def)
  have "setString (ucast (counter m)) str m = Inr (m\<lparr> stringData := stringData m @ [str] \<rparr>)" for str
    using assms(2) by (simp add: setString_def sint_ucast_counter c sint_word_of_nat_small resize_Suc Let_def)
  with assms c show ?thesis
    by (simp add: appendMessage_def multi_ok_def)
qed

lemma appendMessage_full:
  "multi_ok m \<Longrightarrow> length (stringData m) = 255 \<Longrightarrow> appendMessage T le m newMessage = (- 1, m)"
  by (simp add: appendMessage_def multi_ok_def)

lemma appendMessage_multi_ok:
  "multi_ok m \<Longrightarrow> multi_ok (snd (appendMessage T le m newMessage))"
  by (cases "length (stringData m) = 255")
    (auto simp: appendMessage_full appendMessage_room multi_ok_def unat_counter_Suc)

text \<open>Appending in turn keeps the first messages that fit and drops the others.\<close>

lemma append_all:
  assumes "multi_ok m"
  shows "multi_ok (foldl (\<lambda>m x. snd (appendMessage T le m (f x))) m xs)
    \<and> stringData (foldl (\<lambda>m x. snd (appendMessage T le m (f x))) m xs)
      = stringData m @ take (255 - length (stringData m)) (map (\<lambda>x. string_of_bytes (to_string T le (f x))) xs)"
  using assms
proof (induction xs arbitrary: m)
  case Nil
  then show ?case by simp
next
  case (Cons x xs)
  show ?case
  proof (cases "length (stringData m) = 255")
    case True
    then show ?thesis
      using Cons by (simp add: appendMessage_full)
  next
    case False
    then have "length (stringData m) < 255"
      using Cons.prems by (simp add: multi_ok_def)
    then show ?thesis
      using Cons.IH [OF appendMessage_multi_ok [OF Cons.prems, of T le "f x"]] appendMessage_room [OF Cons.prems, of T le "f x"]
      by (simp add: take_Cons')
  qed
qed

lemma multi_ok_new: "multi_ok (mk_message T cmd_multi_message)"
  by (simp add: multi_ok_def)

lemma bytes_of_string_of_bytes [simp]: "bytes_of_string (string_of_bytes bs) = bs"
proof -
  have "of_char (char_of (unat a)) = a" for a :: byte
  proof -
    have "unat a < 256"
      by (rule less_le_trans [OF unsigned_less]) simp
    moreover have "(of_char (char_of (unat a)) :: byte) = word_of_nat (of_char (char_of (unat a)))"
      by (simp only: of_nat_of_char)
    ultimately show ?thesis by simp
  qed
  then show ?thesis
    by (simp add: bytes_of_string_def string_of_bytes_def comp_def)
qed

text \<open>C29: up to 255 messages appended to a container are read back from its strings, in order, by
  \<open>from_string\<close>, on a host of any endianness.\<close>

theorem multi_message_roundtrip:
  assumes "time_codec T" and "list_all encodable msgs" and "length msgs \<le> 255" and "i < length msgs"
  shows "from_string T le m0 (bytes_of_string (getString
      (foldl (\<lambda>m x. snd (appendMessage T le' m x)) (mk_message T cmd_multi_message) msgs) (word_of_nat i)))
    = Some (int (length (to_string T le' (msgs ! i))), decoded T le le' m0 (msgs ! i))"
proof -
  let ?m = "foldl (\<lambda>m x. snd (appendMessage T le' m x)) (mk_message T cmd_multi_message) msgs"
  have sd: "stringData ?m = map (\<lambda>x. string_of_bytes (to_string T le' x)) msgs"
    using append_all [OF multi_ok_new, where T = T and le = le' and f = "\<lambda>x. x" and xs = msgs] assms(3) by simp
  then have "isValidIndex (word_of_nat i) (stringData ?m)"
    using assms(3,4) by (intro isValidIndex_nat) simp_all
  then have "getString ?m (word_of_nat i) = string_of_bytes (to_string T le' (msgs ! i))"
    using assms(3,4) by (simp add: getString_def sd nat_sint_of_nat)
  moreover have "encodable (msgs ! i)"
    using assms(2,4) by (simp add: list_all_length)
  ultimately show ?thesis
    using from_string_to_string_aux [OF assms(1), where m = "msgs ! i" and le = le and ?m0.0 = m0 and le' = le'] by simp
qed

theorem multi_message_roundtrip_witness:
  "from_string tick_rep True (ActionMessage_default tick_rep) (bytes_of_string (getString
      (foldl (\<lambda>m x. snd (appendMessage tick_rep False m x)) (mk_message tick_rep cmd_multi_message)
         [sample_message, sample_message]) (word_of_nat 1)))
    = Some (int (length (to_string tick_rep False ([sample_message, sample_message] ! 1))),
        decoded tick_rep True False (ActionMessage_default tick_rep) ([sample_message, sample_message] ! 1))"
  by (rule multi_message_roundtrip [OF tick_codec]) (simp_all add: sample_encodable)

end
