(* ===== verification/Message_Queues.thy ===== *)
theory Message_Queues
  imports Action_Message "HOL-Library.Product_Lexorder" "HOL-Library.List_Lexorder" "HOL-Library.Char_ord"
begin

text \<open>
  The data behind publications and endpoints (\<open>PublicationInfo\<close>, \<open>EndpointInfo\<close>). An endpoint holds
  its messages in a queue that is sorted again after every insertion, by time and, for equal times, by
  the name of the original source. \<open>std::stable_sort\<close> keeps the order of equal elements, as \<open>sort_key\<close>
  does; strings are compared byte by byte.
\<close>

section \<open>Publications\<close>

record PublicationInfo =
  pub_id :: global_handle
  subscribers :: "global_handle list"
  pub_key :: string
  pub_type :: string
  pub_units :: string
  pub_data :: string
  has_update :: bool
  pub_only_update_on_change :: bool
  pub_required :: bool
  buffer_data :: bool
  required_connections :: int32

definition mk_PublicationInfo :: "global_handle \<Rightarrow> string \<Rightarrow> string \<Rightarrow> string \<Rightarrow> PublicationInfo" where
  "mk_PublicationInfo pid pkey ptype punits =
     \<lparr> pub_id = pid, subscribers = [], pub_key = pkey, pub_type = ptype, pub_units = punits, pub_data = [],
       has_update = False, pub_only_update_on_change = False, pub_required = False, buffer_data = False,
       required_connections = 0 \<rparr>"

definition CheckSetValue :: "string \<Rightarrow> PublicationInfo \<Rightarrow> bool \<times> PublicationInfo" where
  "CheckSetValue dataToCheck p =
     (if length dataToCheck \<noteq> length (pub_data p) \<or> pub_data p \<noteq> dataToCheck
      then (True, p\<lparr> pub_data := dataToCheck \<rparr>) else (False, p))"

definition removeSubscriber :: "global_handle \<Rightarrow> PublicationInfo \<Rightarrow> PublicationInfo" where
  "removeSubscriber subscriberToRemove p =
     p\<lparr> subscribers := filter (\<lambda>h. h \<noteq> subscriberToRemove) (subscribers p) \<rparr>"

section \<open>Endpoints\<close>

record 't EndpointInfo =
  ept_id :: global_handle
  ept_key :: string
  ept_type :: string
  message_queue :: "'t Message list"
  hasFilter :: bool

definition mk_EndpointInfo :: "global_handle \<Rightarrow> string \<Rightarrow> string \<Rightarrow> 't EndpointInfo" where
  "mk_EndpointInfo h key type =
     \<lparr> ept_id = h, ept_key = key, ept_type = type, message_queue = [], hasFilter = False \<rparr>"

definition getMessage :: "'t::linorder \<Rightarrow> 't EndpointInfo \<Rightarrow> 't Message option \<times> 't EndpointInfo" where
  "getMessage maxTime e =
     (case message_queue e of
        [] \<Rightarrow> (None, e)
      | m # ms \<Rightarrow> if msg_time m \<le> maxTime then (Some m, e\<lparr> message_queue := ms \<rparr>) else (None, e))"

definition firstMessageTime :: "('t::linorder) time_rep \<Rightarrow> 't EndpointInfo \<Rightarrow> 't" where
  "firstMessageTime T e = (case message_queue e of [] \<Rightarrow> maxVal T | m # _ \<Rightarrow> msg_time m)"

definition msgSorter :: "'t::linorder Message \<Rightarrow> 't \<times> string" where
  "msgSorter m = (msg_time m, original_source m)"

definition addMessage :: "'t::linorder Message \<Rightarrow> 't EndpointInfo \<Rightarrow> 't EndpointInfo" where
  "addMessage m e = e\<lparr> message_queue := sort_key msgSorter (message_queue e @ [m]) \<rparr>"

definition clearQueue :: "'t EndpointInfo \<Rightarrow> 't EndpointInfo" where
  "clearQueue e = e\<lparr> message_queue := [] \<rparr>"

fun count_until :: "'t::linorder \<Rightarrow> int32 \<Rightarrow> 't Message list \<Rightarrow> int32" where
  "count_until maxTime cnt [] = cnt"
| "count_until maxTime cnt (m # ms) = (if msg_time m \<le> maxTime then count_until maxTime (cnt + 1) ms else cnt)"

definition queueSize :: "'t::linorder \<Rightarrow> 't EndpointInfo \<Rightarrow> int32" where
  "queueSize maxTime e = count_until maxTime 0 (message_queue e)"

section \<open>Interface: a queue ordered by a key\<close>

locale keyed_queue =
  fixes add :: "'m \<Rightarrow> 's \<Rightarrow> 's"
    and get :: "'t::linorder \<Rightarrow> 's \<Rightarrow> 'm option \<times> 's"
    and bag :: "'s \<Rightarrow> 'm multiset"
    and ok :: "'s \<Rightarrow> bool"
    and time_of :: "'m \<Rightarrow> 't"
    and key :: "'m \<Rightarrow> 'k::linorder"
  assumes ok_add: "ok s \<Longrightarrow> ok (add m s)"
    and bag_add: "bag (add m s) = add_mset m (bag s)"
    and get_None: "ok s \<Longrightarrow> fst (get t s) = None \<Longrightarrow> snd (get t s) = s \<and> (\<forall>m \<in># bag s. t < time_of m)"
    and get_Some: "ok s \<Longrightarrow> fst (get t s) = Some m \<Longrightarrow> ok (snd (get t s)) \<and> m \<in># bag s
      \<and> time_of m \<le> t \<and> (\<forall>m' \<in># bag s. key m \<le> key m') \<and> bag (snd (get t s)) = bag s - {#m#}"
begin

primrec take_all :: "nat \<Rightarrow> 't \<Rightarrow> 's \<Rightarrow> 'm list \<times> 's" where
  "take_all 0 t s = ([], s)"
| "take_all (Suc n) t s =
     (case get t s of (None, s') \<Rightarrow> ([], s') | (Some m, s') \<Rightarrow> let (ms, s'') = take_all n t s' in (m # ms, s''))"

lemma take_all_bag:
  "ok s \<Longrightarrow> take_all n t s = (ms, s') \<Longrightarrow> ok s' \<and> bag s = mset ms + bag s' \<and> sorted (map key ms)
     \<and> (\<forall>m \<in> set ms. time_of m \<le> t \<and> (\<forall>m' \<in># bag s'. key m \<le> key m'))"
proof (induction n arbitrary: s ms s')
  case (Suc n)
  show ?case
  proof (cases "fst (get t s)")
    case None
    then show ?thesis
      using Suc.prems get_None [OF Suc.prems(1) None] by (auto simp: split_beta)
  next
    case (Some m)
    obtain ms1 s1 where rec: "take_all n t (snd (get t s)) = (ms1, s1)"
      by (cases "take_all n t (snd (get t s))")
    then have eq: "ms = m # ms1" "s' = s1"
      using Suc.prems(2) Some by (auto simp: split_beta split: option.splits)
    note g = get_Some [OF Suc.prems(1) Some]
    then have ok: "ok (snd (get t s))" by simp
    note ih = Suc.IH [OF ok rec]
    have "bag s = add_mset m (bag (snd (get t s)))"
      using g by simp
    then show ?thesis
      using ih g by (auto simp: eq)
  qed
qed simp

lemma take_all_stops:
  "ok s \<Longrightarrow> take_all n t s = (ms, s') \<Longrightarrow> length ms < n \<Longrightarrow> \<forall>m \<in># bag s'. t < time_of m"
proof (induction n arbitrary: s ms s')
  case (Suc n)
  show ?case
  proof (cases "fst (get t s)")
    case None
    then show ?thesis
      using Suc.prems get_None [OF Suc.prems(1) None] by (auto simp: split_beta)
  next
    case (Some m)
    obtain ms1 s1 where rec: "take_all n t (snd (get t s)) = (ms1, s1)"
      by (cases "take_all n t (snd (get t s))")
    then have eq: "ms = m # ms1" "s' = s1"
      using Suc.prems(2) Some by (auto simp: split_beta split: option.splits)
    have "ok (snd (get t s))"
      using get_Some [OF Suc.prems(1) Some] by simp
    from Suc.IH [OF this rec] show ?thesis
      using Suc.prems(3) by (simp add: eq)
  qed
qed simp

lemma take_all_complete:
  assumes "ok s" and "take_all (Suc (size (bag s))) t s = (ms, s')"
  shows "mset ms = filter_mset (\<lambda>m. time_of m \<le> t) (bag s) \<and> bag s' = filter_mset (\<lambda>m. t < time_of m) (bag s)
    \<and> sorted (map key ms) \<and> ok s'"
proof -
  note b = take_all_bag [OF assms]
  then have "size (bag s) = length ms + size (bag s')"
    by simp
  then have later: "\<forall>m \<in># bag s'. t < time_of m"
    using take_all_stops [OF assms] by simp
  have "filter_mset (\<lambda>m. time_of m \<le> t) (mset ms) = mset ms" "filter_mset (\<lambda>m. t < time_of m) (mset ms) = {#}"
    using b by (auto simp: filter_mset_eq_conv not_less)
  moreover have "filter_mset (\<lambda>m. time_of m \<le> t) (bag s') = {#}" "filter_mset (\<lambda>m. t < time_of m) (bag s') = bag s'"
    using later by (auto simp: filter_mset_eq_conv not_less)
  ultimately show ?thesis
    using b by simp
qed

end

interpretation ept_queue: keyed_queue addMessage getMessage "\<lambda>e. mset (message_queue e)"
    "\<lambda>e. sorted (map msgSorter (message_queue e))" msg_time msgSorter
proof
  fix s :: "'t::linorder EndpointInfo" and t :: 't and m
  show "sorted (map msgSorter (message_queue (addMessage m s)))"
    by (simp add: addMessage_def)
  show "mset (message_queue (addMessage m s)) = add_mset m (mset (message_queue s))"
    by (simp add: addMessage_def)
  assume ok: "sorted (map msgSorter (message_queue s))"
  show "snd (getMessage t s) = s \<and> (\<forall>m \<in># mset (message_queue s). t < msg_time m)"
    if "fst (getMessage t s) = None"
    using that ok by (cases "message_queue s") (fastforce simp: getMessage_def msgSorter_def split: if_splits)+
  show "sorted (map msgSorter (message_queue (snd (getMessage t s)))) \<and> m \<in># mset (message_queue s)
      \<and> msg_time m \<le> t \<and> (\<forall>m' \<in># mset (message_queue s). msgSorter m \<le> msgSorter m')
      \<and> mset (message_queue (snd (getMessage t s))) = mset (message_queue s) - {#m#}"
    if "fst (getMessage t s) = Some m"
    using that ok by (cases "message_queue s") (auto simp: getMessage_def split: if_splits)
qed

section \<open>Delivery\<close>

lemma sort_key_snoc: "sort_key f (sort_key f xs @ [x]) = sort_key f (xs @ [x])"
proof (rule properties_for_sort_key)
  show "filter (\<lambda>y. f k = f y) (sort_key f (xs @ [x])) = filter (\<lambda>y. f k = f y) (sort_key f xs @ [x])" for k
    using sort_key_stable [of f "f k" "xs @ [x]"] sort_key_stable [of f "f k" xs] by (simp add: eq_commute)
qed simp_all

lemma queue_after_adds:
  "message_queue (foldl (\<lambda>e m. addMessage m e) e ms) = (if ms = [] then message_queue e
     else sort_key msgSorter (message_queue e @ ms))"
proof (induction ms rule: rev_induct)
  case (snoc m ms)
  then show ?case
    using sort_key_snoc [of msgSorter "message_queue e @ ms" m] by (simp add: addMessage_def)
qed simp

text \<open>What an application receives that asks for messages until there are no more up to a time.\<close>

fun receive_all :: "nat \<Rightarrow> 't::linorder \<Rightarrow> 't EndpointInfo \<Rightarrow> 't Message list \<times> 't EndpointInfo" where
  "receive_all 0 t e = ([], e)"
| "receive_all (Suc n) t e =
     (case getMessage t e of
        (None, e') \<Rightarrow> ([], e')
      | (Some m, e') \<Rightarrow> let (ms, e'') = receive_all n t e' in (m # ms, e''))"

lemma receive_all_eq:
  "length (message_queue e) < n \<Longrightarrow> receive_all n t e
     = (takeWhile (\<lambda>m. msg_time m \<le> t) (message_queue e),
        e\<lparr> message_queue := dropWhile (\<lambda>m. msg_time m \<le> t) (message_queue e) \<rparr>)"
proof (induction n arbitrary: e)
  case (Suc n)
  show ?case
  proof (cases "message_queue e")
    case (Cons m ms)
    then show ?thesis
      using Suc.IH [of "e\<lparr> message_queue := ms \<rparr>"] Suc.prems by (simp add: getMessage_def)
  qed (simp add: getMessage_def)
qed simp

lemma queueSize_eq: "queueSize t e = size32 (takeWhile (\<lambda>m. msg_time m \<le> t) (message_queue e))"
proof -
  have "count_until t c ms = c + size32 (takeWhile (\<lambda>m. msg_time m \<le> t) ms)" for c and ms :: "'a Message list"
    by (induction t c ms rule: count_until.induct) (simp_all add: ac_simps)
  then show ?thesis
    by (simp add: queueSize_def)
qed

text \<open>C14: an endpoint delivers every message exactly once and in order. Messages that arrive in any
  order are received, up to a time, sorted by time and then by original source, equal ones in the
  order of arrival; the later ones stay; the size announced is the number of messages received, and
  the first message time announced is the time of the earliest message.\<close>

theorem endpoint_delivery:
  fixes ms :: "('t::linorder) Message list" and h :: global_handle and k ty :: string
  defines "e \<equiv> foldl (\<lambda>e m. addMessage m e) (mk_EndpointInfo h k ty) ms"
  shows "receive_all (Suc (length ms)) t e
      = (sort_key msgSorter (filter (\<lambda>m. msg_time m \<le> t) ms),
         e\<lparr> message_queue := sort_key msgSorter (filter (\<lambda>m. t < msg_time m) ms) \<rparr>)
    \<and> queueSize t e = size32 (filter (\<lambda>m. msg_time m \<le> t) ms)
    \<and> firstMessageTime T e = (if ms = [] then maxVal T else Min (msg_time ` set ms))"
proof -
  have q: "message_queue e = sort_key msgSorter ms"
    by (simp add: e_def queue_after_adds mk_EndpointInfo_def)
  have mono: "msgSorter x \<le> msgSorter y \<Longrightarrow> msg_time x \<le> msg_time y" for x y :: "'t Message"
    by (auto simp: msgSorter_def)
  have split: "takeWhile (\<lambda>m. msg_time m \<le> t) (sort_key msgSorter ms)
        = sort_key msgSorter (filter (\<lambda>m. msg_time m \<le> t) ms)"
      "dropWhile (\<lambda>m. msg_time m \<le> t) (sort_key msgSorter ms) = sort_key msgSorter (filter (\<lambda>m. t < msg_time m) ms)"
    using sorted_split [of msgSorter "sort_key msgSorter ms" msg_time t] mono by (simp_all add: filter_sort)
  have first: "firstMessageTime T e = (if ms = [] then maxVal T else Min (msg_time ` set ms))"
  proof (cases "sort_key msgSorter ms")
    case Nil
    then have "ms = []"
      by (metis length_0_conv length_sort)
    then show ?thesis
      by (simp add: firstMessageTime_def q)
  next
    case (Cons m rest)
    have "set (m # rest) = set ms"
      by (metis Cons set_sort)
    moreover have "sorted (map msgSorter (m # rest))"
      by (metis Cons sorted_sort_key)
    then have "\<forall>x \<in> set rest. msg_time m \<le> msg_time x"
      using mono by auto
    ultimately have "Min (msg_time ` set ms) = msg_time m"
      by (intro Min_eqI) auto
    moreover have "ms \<noteq> []"
      using Cons by auto
    ultimately show ?thesis
      by (simp add: firstMessageTime_def q Cons)
  qed
  show ?thesis
    using first receive_all_eq [of e "Suc (length ms)" t] by (simp add: q split queueSize_eq)
qed

text \<open>Whatever state an endpoint's queue has reached, messages added and taken from it are neither
  lost nor duplicated: after further additions, taking all messages up to a time returns exactly the
  ones due, in order, and leaves exactly the others, in a queue that is still sorted.\<close>

lemma endpoint_queue_contract:
  assumes "sorted (map msgSorter (message_queue e))"
    and "receive_all (Suc (length (message_queue e) + length ms)) t (foldl (\<lambda>e m. addMessage m e) e ms) = (out, e')"
  shows "mset out = filter_mset (\<lambda>m. msg_time m \<le> t) (mset (message_queue e) + mset ms)
    \<and> mset (message_queue e') = filter_mset (\<lambda>m. t < msg_time m) (mset (message_queue e) + mset ms)
    \<and> sorted (map msgSorter out) \<and> sorted (map msgSorter (message_queue e'))"
proof -
  define e1 where "e1 = foldl (\<lambda>e m. addMessage m e) e ms"
  have "receive_all n t e = ept_queue.take_all n t e" for n and e :: "'a EndpointInfo"
    by (induction n arbitrary: e) (auto split: option.split prod.split)
  moreover have bag: "mset (message_queue e1) = mset (message_queue e) + mset ms"
    and ok: "sorted (map msgSorter (message_queue e1))"
    using assms(1) by (simp_all add: e1_def queue_after_adds)
  moreover have "size (mset (message_queue e1)) = length (message_queue e) + length ms"
    by (simp add: bag del: size_mset) simp
  ultimately have "ept_queue.take_all (Suc (size (mset (message_queue e1)))) t e1 = (out, e')"
    using assms(2) by (simp add: e1_def)
  from ept_queue.take_all_complete [OF ok this] show ?thesis
    by (simp add: bag)
qed

lemma endpoint_queue_contract_example:
  "mset (fst (receive_all 3 (Ticks 5) (foldl (\<lambda>e m. addMessage m e) (mk_EndpointInfo default_global_handle [] [])
      [(Message_default tick_rep)\<lparr> msg_time := Ticks 9 \<rparr>, (Message_default tick_rep)\<lparr> msg_time := Ticks 4 \<rparr>])))
    = {# (Message_default tick_rep)\<lparr> msg_time := Ticks 4 \<rparr> #}"
proof -
  let ?ms = "[(Message_default tick_rep)\<lparr> msg_time := Ticks 9 \<rparr>, (Message_default tick_rep)\<lparr> msg_time := Ticks 4 \<rparr>]"
  let ?e = "mk_EndpointInfo default_global_handle [] [] :: ticks EndpointInfo"
  have ok: "sorted (map msgSorter (message_queue ?e))" and len: "message_queue ?e = []"
    by (simp_all add: mk_EndpointInfo_def)
  obtain out e' where "receive_all (Suc (length (message_queue ?e) + length ?ms)) (Ticks 5)
      (foldl (\<lambda>e m. addMessage m e) ?e ?ms) = (out, e')"
    by (metis surj_pair)
  from endpoint_queue_contract [OF ok this] this show ?thesis
    by (simp add: len eval_nat_numeral)
qed

text \<open>A publication that transmits on change reports a change exactly when the value differs from the
  last one, and remembers the last value either way; removing a subscriber removes all its entries and
  keeps the order of the others.\<close>

theorem publication_change_detection:
  "fst (CheckSetValue d p) = (d \<noteq> pub_data p) \<and> pub_data (snd (CheckSetValue d p)) = d
   \<and> \<not> fst (CheckSetValue d (snd (CheckSetValue d p)))
   \<and> subscribers (removeSubscriber h p) = removeAll h (subscribers p)"
  by (auto simp: CheckSetValue_def removeSubscriber_def removeAll_filter_not_eq neq_commute)

end
