(* ===== verification/Input_Info.thy ===== *)
theory Input_Info
  imports Action_Message "HOL-Library.Product_Lexorder" "HOL-Library.Sublist"
begin

text \<open>
  Inputs and the values queued for them (\<open>InputInfo.hpp\<close>, \<open>InputInfo.cpp\<close>). For every source an input
  keeps a queue of records ordered by time and iteration, the value it currently shows and the time
  of that value, in parallel vectors. A shared pointer to a data block is an optional string of
  bytes. The conversion of units is the business of a library that is not part of the sources and
  a parameter.
\<close>

section \<open>Records\<close>

record 't dataRecord =
  rec_time :: 't
  rec_iteration :: uint32
  rec_data :: "string option"

record sourceInformation =
  src_key :: string
  src_type :: string
  src_units :: string

record 't InputInfo =
  inp_id :: global_handle
  inp_key :: string
  inp_type :: string
  inp_units :: string
  inp_required :: bool
  inp_optional :: bool
  has_target :: bool
  only_update_on_change :: bool
  not_interruptible :: bool
  strict_type_matching :: bool
  ignore_unit_mismatch :: bool
  required_connnections :: int32
  current_data_time :: "('t \<times> uint32) list"
  current_data :: "string option list"
  input_sources :: "global_handle list"
  deactivated :: "'t list"
  source_info :: "sourceInformation list"
  priority_sources :: "int32 list"
  data_queues :: "'t dataRecord list list"
  inputUnits :: string
  inputType :: string

definition mk_InputInfo :: "global_handle \<Rightarrow> string \<Rightarrow> string \<Rightarrow> string \<Rightarrow> 't InputInfo" where
  "mk_InputInfo h key type units =
     \<lparr> inp_id = h, inp_key = key, inp_type = type, inp_units = units, inp_required = False,
       inp_optional = False, has_target = False, only_update_on_change = False, not_interruptible = False,
       strict_type_matching = False, ignore_unit_mismatch = False, required_connnections = 0,
       current_data_time = [], current_data = [], input_sources = [], deactivated = [], source_info = [],
       priority_sources = [], data_queues = [], inputUnits = [], inputType = [] \<rparr>"

section \<open>Current values\<close>

definition getData_at :: "int32 \<Rightarrow> 't InputInfo \<Rightarrow> string option" where
  "getData_at index s = (if isValidIndex index (current_data s) then current_data s ! nat (sint index) else None)"

fun priority_search :: "int \<Rightarrow> int \<Rightarrow> int32 list \<Rightarrow> bool" where
  "priority_search index1 index2 [] = False"
| "priority_search index1 index2 (p # ps) =
     (if sint p = index1 then True else if sint p = index2 then False else priority_search index1 index2 ps)"

definition priorityCheck :: "int \<Rightarrow> int \<Rightarrow> int32 list \<Rightarrow> bool" where
  "priorityCheck index1 index2 priorities = priority_search index1 index2 (rev priorities)"

definition data_step :: "int32 list \<Rightarrow> int \<times> int \<times> 't::linorder \<Rightarrow> 't \<times> uint32 \<Rightarrow> int \<times> int \<times> 't" where
  "data_step priorities st cd =
     (case st of (ind, mxind, mxTime) \<Rightarrow>
        if fst cd > mxTime then (ind + 1, ind, fst cd)
        else if fst cd = mxTime \<and> priorityCheck ind mxind priorities then (ind + 1, ind, mxTime)
        else (ind + 1, mxind, mxTime))"

text \<open>The most recent value, with the index of its source.\<close>

definition getData :: "('t::linorder) time_rep \<Rightarrow> 't InputInfo \<Rightarrow> int \<times> string option" where
  "getData T s =
     (let (ind, mxind, mxTime) =
            foldl (data_step (priority_sources s)) (0, - 1, minVal T) (current_data_time s)
      in if mxind \<ge> 0 then (mxind, current_data s ! nat mxind) else (0, None))"

section \<open>Queueing\<close>

definition recordComparison :: "'t dataRecord \<Rightarrow> 't \<times> nat" where
  "recordComparison r = (rec_time r, unat (rec_iteration r))"

fun find_source :: "global_handle \<Rightarrow> global_handle list \<Rightarrow> nat \<Rightarrow> nat option" where
  "find_source h [] i = None"
| "find_source h (x # xs) i = (if x = h then Some i else find_source h xs (Suc i))"

definition queue_insert :: "'t::linorder dataRecord \<Rightarrow> 't dataRecord list \<Rightarrow> 't dataRecord list" where
  "queue_insert r q =
     (if q = [] \<or> rec_time r > rec_time (last q) then q @ [r]
      else insert_at (upper_bound recordComparison q (recordComparison r)) r q)"

definition addData ::
  "global_handle \<Rightarrow> 't::linorder \<Rightarrow> uint32 \<Rightarrow> string option \<Rightarrow> 't InputInfo \<Rightarrow> 't InputInfo" where
  "addData source valueTime iteration data s =
     (case find_source source (input_sources s) 0 of
        None \<Rightarrow> s
      | Some index \<Rightarrow>
          if valueTime > deactivated s ! index then s
          else s\<lparr> data_queues := (data_queues s)[index :=
                   queue_insert \<lparr> rec_time = valueTime, rec_iteration = iteration, rec_data = data \<rparr>
                     (data_queues s ! index)] \<rparr>)"

definition addSource ::
  "('t::linorder) time_rep \<Rightarrow> global_handle \<Rightarrow> string \<Rightarrow> string \<Rightarrow> string \<Rightarrow> 't InputInfo \<Rightarrow> 't InputInfo" where
  "addSource T newSource sourceName stype sunits s =
     (let sources = input_sources s @ [newSource]
      in s\<lparr> inputUnits := [], inputType := [], input_sources := sources,
            source_info := source_info s @ [\<lparr> src_key = sourceName, src_type = stype, src_units = sunits \<rparr>],
            data_queues := resize (length sources) [] (data_queues s),
            current_data := resize (length sources) None (current_data s),
            current_data_time := resize (length sources) (minVal T, 0) (current_data_time s),
            deactivated := deactivated s @ [maxVal T],
            has_target := True \<rparr>)"

text \<open>Dropping the records after a time from the back of a queue.\<close>

function pop_after :: "'t::linorder \<Rightarrow> 't dataRecord list \<Rightarrow> 't dataRecord list" where
  "pop_after minTime q =
     (if q \<noteq> [] \<and> rec_time (last q) > minTime then pop_after minTime (butlast q) else q)"
  by auto

termination
  by (relation "measure (\<lambda>(t, q). length q)") auto

declare pop_after.simps [simp del]

definition deactivate_source :: "'t::linorder \<Rightarrow> nat \<Rightarrow> 't InputInfo \<Rightarrow> 't InputInfo" where
  "deactivate_source minTime ii s =
     s\<lparr> data_queues := (data_queues s)[ii := pop_after minTime (data_queues s ! ii)],
        deactivated := (if minTime < deactivated s ! ii then (deactivated s)[ii := minTime] else deactivated s) \<rparr>"

definition removeSource :: "global_handle \<Rightarrow> 't::linorder \<Rightarrow> 't InputInfo \<Rightarrow> 't InputInfo" where
  "removeSource sourceToRemove minTime s =
     foldl (\<lambda>s ii. if input_sources s ! ii = sourceToRemove then deactivate_source minTime ii s else s)
       (s\<lparr> inputUnits := [], inputType := [] \<rparr>) [0..<length (input_sources s)]"

definition removeSource_named :: "string \<Rightarrow> 't::linorder \<Rightarrow> 't InputInfo \<Rightarrow> 't InputInfo" where
  "removeSource_named sourceName minTime s =
     foldl (\<lambda>s ii. if src_key (source_info s ! ii) = sourceName then deactivate_source minTime ii s else s)
       (s\<lparr> inputUnits := [], inputType := [] \<rparr>) [0..<length (source_info s)]"

definition clearFutureData :: "'t InputInfo \<Rightarrow> 't InputInfo" where
  "clearFutureData s = s\<lparr> data_queues := map (\<lambda>q. []) (data_queues s) \<rparr>"

section \<open>Types and units of the sources\<close>

definition injection_list :: "string list \<Rightarrow> string" where
  "injection_list xs = butlast (''['' @ concat (map (\<lambda>x. ''\"'' @ x @ ''\",'') xs)) @ '']''"

definition getInjectionType :: "'t InputInfo \<Rightarrow> string \<times> 't InputInfo" where
  "getInjectionType s =
     (if inputType s = [] \<and> source_info s \<noteq> []
      then let types = map src_type (source_info s);
               t = (if list_all (\<lambda>x. x = hd types) types then hd types else injection_list types)
           in (t, s\<lparr> inputType := t \<rparr>)
      else (inputType s, s))"

definition getInjectionUnits :: "'t InputInfo \<Rightarrow> string \<times> 't InputInfo" where
  "getInjectionUnits s =
     (if inputUnits s = [] \<and> source_info s \<noteq> []
      then let units = map src_units (source_info s);
               u = (if list_all (\<lambda>x. x = hd units) units then hd units else injection_list units)
           in (u, s\<lparr> inputUnits := u \<rparr>)
      else (inputUnits s, s))"

section \<open>Advancing time\<close>

text \<open>
  The three ways to advance share their shape: from the front of a queue the records due are passed
  over, the last one becomes current, and the passed ones are erased. A comparison of values reads
  through both pointers; the records queued by \<open>addData\<close> carry the value of a publication, which is
  never a null pointer.
\<close>

fun pass_while :: "('t dataRecord \<Rightarrow> bool) \<Rightarrow> 't dataRecord \<Rightarrow> 't dataRecord list \<Rightarrow> 't dataRecord \<times> 't dataRecord list" where
  "pass_while P prev [] = (prev, [])"
| "pass_while P prev (r # rs) = (if P r then pass_while P r rs else (prev, r # rs))"

definition updateData :: "'t dataRecord \<Rightarrow> nat \<Rightarrow> 't InputInfo \<Rightarrow> bool \<times> 't InputInfo" where
  "updateData update index s =
     (if \<not> only_update_on_change s \<or> current_data s ! index = None
      then (True, s\<lparr> current_data := (current_data s)[index := rec_data update],
                     current_data_time := (current_data_time s)[index := (rec_time update, rec_iteration update)] \<rparr>)
      else if the (current_data s ! index) \<noteq> the (rec_data update)
      then (True, s\<lparr> current_data := (current_data s)[index := rec_data update],
                     current_data_time := (current_data_time s)[index := (rec_time update, rec_iteration update)] \<rparr>)
      else if fst (current_data_time s ! index) = rec_time update
      then (False, s\<lparr> current_data_time := (current_data_time s)
                        [index := (fst (current_data_time s ! index), rec_iteration update)] \<rparr>)
      else (False, s))"

definition advance_queue ::
  "('t dataRecord \<Rightarrow> 't dataRecord list \<Rightarrow> 't dataRecord \<times> 't dataRecord list) \<Rightarrow> 't::linorder \<Rightarrow> nat
     \<Rightarrow> bool \<times> 't InputInfo \<Rightarrow> bool \<times> 't InputInfo" where
  "advance_queue pass newTime index us =
     (let (updated, s) = us
      in case data_queues s ! index of
           [] \<Rightarrow> (updated, s)
         | r # rs \<Rightarrow>
             if rec_time r > newTime then (updated, s)
             else let (prev, rest) = pass r rs;
                      (res, s1) = updateData prev index s
                  in (updated \<or> res, s1\<lparr> data_queues := (data_queues s1)[index := rest] \<rparr>))"

definition advance_all ::
  "('t dataRecord \<Rightarrow> 't dataRecord list \<Rightarrow> 't dataRecord \<times> 't dataRecord list) \<Rightarrow> 't::linorder \<Rightarrow> 't InputInfo
     \<Rightarrow> bool \<times> 't InputInfo" where
  "advance_all pass newTime s =
     foldl (\<lambda>us index. advance_queue pass newTime index us) (False, s) [0..<length (data_queues s)]"

definition updateTimeUpTo :: "'t::linorder \<Rightarrow> 't InputInfo \<Rightarrow> bool \<times> 't InputInfo" where
  "updateTimeUpTo newTime s = advance_all (pass_while (\<lambda>r. rec_time r < newTime)) newTime s"

definition pass_iteration ::
  "'t::linorder \<Rightarrow> 't dataRecord \<Rightarrow> 't dataRecord list \<Rightarrow> 't dataRecord \<times> 't dataRecord list" where
  "pass_iteration newTime r rs =
     (let (prev, rest) = pass_while (\<lambda>r. rec_time r < newTime) r rs
      in case rest of
           [] \<Rightarrow> (prev, rest)
         | c # cs \<Rightarrow>
             if rec_time c = newTime
             then let cindex = rec_iteration prev
                  in pass_while (\<lambda>r. rec_time r = newTime \<and> rec_iteration r = cindex) prev rest
             else (prev, rest))"

definition updateTimeNextIteration :: "'t::linorder \<Rightarrow> 't InputInfo \<Rightarrow> bool \<times> 't InputInfo" where
  "updateTimeNextIteration newTime s = advance_all (pass_iteration newTime) newTime s"

definition updateTimeInclusive :: "'t::linorder \<Rightarrow> 't InputInfo \<Rightarrow> bool \<times> 't InputInfo" where
  "updateTimeInclusive newTime s = advance_all (pass_while (\<lambda>r. rec_time r \<le> newTime)) newTime s"

definition nextValueTime :: "('t::linorder) time_rep \<Rightarrow> 't InputInfo \<Rightarrow> 't" where
  "nextValueTime T s =
     (if not_interruptible s then maxVal T
      else foldl (\<lambda>nvtime q. if q \<noteq> [] then (if rec_time (hd q) < nvtime then rec_time (hd q) else nvtime) else nvtime)
             (maxVal T) (data_queues s))"

section \<open>Compatibility of types and units\<close>

definition convertible_set :: "string list" where
  "convertible_set = [''double_vector'', ''complex_vector'', ''vector'', ''double'', ''float'', ''bool'',
     ''char'', ''uchar'', ''int32'', ''int64'', ''uint32'', ''uint64'', ''int16'', ''string'', ''complex'',
     ''complex_f'', ''named_point'']"

definition checkTypeMatch :: "string \<Rightarrow> string \<Rightarrow> bool \<Rightarrow> bool" where
  "checkTypeMatch type1 type2 strict_match =
     (if type1 = [] \<or> type1 = type2 \<or> type1 = ''def'' \<or> type1 = ''any'' \<or> type1 = ''raw'' then True
      else if strict_match then False
      else if type2 = [] \<or> type2 = ''def'' \<or> type2 = ''any'' then True
      else if type1 \<in> set convertible_set then type2 \<in> set convertible_set
      else type2 = ''raw'')"

text \<open>The units library: parsing, validity, and whether a conversion yields a number.\<close>

record 'u unit_library =
  unit_from_string :: "string \<Rightarrow> 'u"
  is_valid :: "'u \<Rightarrow> bool"
  quick_convertible :: "'u \<Rightarrow> 'u \<Rightarrow> bool"
  convertible :: "'u \<Rightarrow> 'u \<Rightarrow> bool"

definition checkUnitMatch :: "'u unit_library \<Rightarrow> string \<Rightarrow> string \<Rightarrow> bool \<Rightarrow> bool" where
  "checkUnitMatch U unit1 unit2 strict_match =
     (if unit1 = [] \<or> unit1 = unit2 \<or> unit1 = ''def'' \<or> unit1 = ''any'' then True
      else if unit2 = [] \<or> unit2 = ''def'' \<or> unit2 = ''any'' then True
      else let u1 = unit_from_string U unit1; u2 = unit_from_string U unit2
           in if \<not> is_valid U u1 \<or> \<not> is_valid U u2 then False
              else if strict_match then quick_convertible U u1 u2 else convertible U u1 u2)"

section \<open>Queues stay ordered\<close>

lemma recordComparison_time:
  "recordComparison (r :: 't::linorder dataRecord) \<le> recordComparison r' \<Longrightarrow> rec_time r \<le> rec_time r'"
  by (auto simp: recordComparison_def)

lemma queue_insert_spec:
  assumes "sorted (map recordComparison q)"
  shows "sorted (map recordComparison (queue_insert r q))" and "mset (queue_insert r q) = add_mset r (mset q)"
proof -
  have "sorted (map recordComparison (q @ [r]))" if "rec_time r > rec_time (last q)"
  proof -
    have "recordComparison x < recordComparison r" if x: "x \<in> set q" for x
    proof -
      have "recordComparison x \<le> recordComparison (last q)"
        using sorted_last [OF assms x] .
      then show ?thesis
        using \<open>rec_time r > rec_time (last q)\<close> by (auto simp: recordComparison_def)
    qed
    then show ?thesis
      using assms by (auto simp: sorted_append intro: less_imp_le)
  qed
  then show "sorted (map recordComparison (queue_insert r q))"
    using sorted_insert_upper [OF assms, of r] by (auto simp: queue_insert_def)
  show "mset (queue_insert r q) = add_mset r (mset q)"
    by (simp add: queue_insert_def mset_insert_at)
qed

lemma pop_after_filter:
  "sorted (map recordComparison q) \<Longrightarrow> pop_after t q = filter (\<lambda>r. rec_time r \<le> t) q"
proof (induction q rule: rev_induct)
  case (snoc r q)
  show ?case
  proof (cases "rec_time r > t")
    case True
    then show ?thesis
      using snoc by (simp add: pop_after.simps [of t "q @ [r]"] sorted_append)
  next
    case False
    have "rec_time x \<le> t" if "x \<in> set q" for x
      using snoc.prems that recordComparison_time False by (fastforce simp: sorted_append)
    then show ?thesis
      using False by (simp add: pop_after.simps [of t "q @ [r]"])
  qed
qed (simp add: pop_after.simps)

lemma pass_while_eq: "pass_while P r rs = (last (r # takeWhile P rs), dropWhile P rs)"
  by (induction P r rs rule: pass_while.induct) auto

section \<open>Each queue advances on its own\<close>

definition takes_value :: "bool \<Rightarrow> string option \<Rightarrow> 't dataRecord \<Rightarrow> bool" where
  "takes_value on_change d r \<longleftrightarrow> \<not> on_change \<or> d = None \<or> the d \<noteq> the (rec_data r)"

definition next_slot ::
  "('t dataRecord \<Rightarrow> 't dataRecord list \<Rightarrow> 't dataRecord \<times> 't dataRecord list) \<Rightarrow> 't::linorder \<Rightarrow> bool
     \<Rightarrow> 't dataRecord list \<Rightarrow> string option \<Rightarrow> 't \<times> uint32
     \<Rightarrow> bool \<times> 't dataRecord list \<times> string option \<times> ('t \<times> uint32)" where
  "next_slot pass newTime on_change q d ct =
     (case q of
        [] \<Rightarrow> (False, q, d, ct)
      | r # rs \<Rightarrow>
          if rec_time r > newTime then (False, q, d, ct)
          else let (prev, rest) = pass r rs
               in if takes_value on_change d prev
                  then (True, rest, rec_data prev, (rec_time prev, rec_iteration prev))
                  else (False, rest, d, if fst ct = rec_time prev then (fst ct, rec_iteration prev) else ct))"

definition slot_result where
  "slot_result pass newTime s i =
     next_slot pass newTime (only_update_on_change s) (data_queues s ! i) (current_data s ! i) (current_data_time s ! i)"

lemma updateData_alt:
  "updateData r i s =
     (let ok = takes_value (only_update_on_change s) (current_data s ! i) r;
          ct = current_data_time s ! i
      in (ok, s\<lparr> current_data := (current_data s)[i := if ok then rec_data r else current_data s ! i],
                 current_data_time := (current_data_time s)[i := if ok then (rec_time r, rec_iteration r)
                   else if fst ct = rec_time r then (fst ct, rec_iteration r) else ct] \<rparr>))"
  by (simp add: updateData_def takes_value_def Let_def)

lemma advance_queue_slot:
  assumes "slot_result pass newTime s i = (u, q, d, ct)"
  shows "advance_queue pass newTime i (updated, s)
    = (updated \<or> u, s\<lparr> data_queues := (data_queues s)[i := q], current_data := (current_data s)[i := d],
         current_data_time := (current_data_time s)[i := ct] \<rparr>)"
proof (cases "data_queues s ! i = [] \<or> rec_time (hd (data_queues s ! i)) > newTime")
  case True
  then have "u = False" "q = data_queues s ! i" "d = current_data s ! i" "ct = current_data_time s ! i"
    using assms by (auto simp: slot_result_def next_slot_def split: list.splits)
  moreover have "advance_queue pass newTime i (updated, s) = (updated, s)"
    using True by (auto simp: advance_queue_def split: list.split)
  ultimately show ?thesis
    by simp
next
  case False
  then obtain r rs where q: "data_queues s ! i = r # rs" "\<not> rec_time r > newTime"
    by (cases "data_queues s ! i") auto
  obtain prev rest where p: "pass r rs = (prev, rest)"
    by (cases "pass r rs")
  show ?thesis
    using assms
    by (cases "takes_value (only_update_on_change s) (current_data s ! i) prev")
      (auto simp: slot_result_def next_slot_def q p advance_queue_def updateData_alt Let_def)
qed

lemma advance_some:
  fixes s :: "('t::linorder) InputInfo" and newTime :: 't
    and pass :: "'t dataRecord \<Rightarrow> 't dataRecord list \<Rightarrow> 't dataRecord \<times> 't dataRecord list"
  assumes "k \<le> n" and "length (data_queues s) = n" "length (current_data s) = n" "length (current_data_time s) = n"
  defines "res \<equiv> slot_result pass newTime s"
  shows "foldl (\<lambda>us i. advance_queue pass newTime i us) (False, s) [0..<k]
    = (\<exists>i < k. fst (res i),
       s\<lparr> data_queues := map (\<lambda>i. if i < k then fst (snd (res i)) else data_queues s ! i) [0..<n],
          current_data := map (\<lambda>i. if i < k then fst (snd (snd (res i))) else current_data s ! i) [0..<n],
          current_data_time := map (\<lambda>i. if i < k then snd (snd (snd (res i))) else current_data_time s ! i) [0..<n] \<rparr>)"
  using assms(1)
proof (induction k)
  case 0
  show ?case
    using map_nth [of "data_queues s"] map_nth [of "current_data s"] map_nth [of "current_data_time s"] assms(2-4)
    by simp
next
  case (Suc k)
  let ?s = "s\<lparr> data_queues := map (\<lambda>i. if i < k then fst (snd (res i)) else data_queues s ! i) [0..<n],
          current_data := map (\<lambda>i. if i < k then fst (snd (snd (res i))) else current_data s ! i) [0..<n],
          current_data_time := map (\<lambda>i. if i < k then snd (snd (snd (res i))) else current_data_time s ! i) [0..<n] \<rparr>"
  obtain u q d ct where r: "res k = (u, q, d, ct)"
    by (metis prod_cases4)
  have "slot_result pass newTime ?s k = (u, q, d, ct)"
    using Suc.prems r by (simp add: slot_result_def res_def)
  note step = advance_queue_slot [OF this, of "\<exists>i < k. fst (res i)"]
  have upd: "(map (\<lambda>i. if i < k then f (res i) else g i) [0..<n])[k := f (res k)]
      = map (\<lambda>i. if i < Suc k then f (res i) else g i) [0..<n]" for f g
    using Suc.prems by (intro nth_equalityI) (auto simp: nth_list_update less_Suc_eq)
  have ex: "(\<exists>i < Suc k. fst (res i)) = ((\<exists>i < k. fst (res i)) \<or> u)"
    using r by (auto simp: less_Suc_eq)
  show ?case
    using Suc.IH [OF Suc_leD [OF Suc.prems]] step upd [of "\<lambda>x. fst (snd x)" "\<lambda>i. data_queues s ! i"]
      upd [of "\<lambda>x. fst (snd (snd x))" "\<lambda>i. current_data s ! i"]
      upd [of "\<lambda>x. snd (snd (snd x))" "\<lambda>i. current_data_time s ! i"] r ex
    by simp
qed

section \<open>Invariant\<close>

definition inp_inv :: "('t::linorder) InputInfo \<Rightarrow> bool" where
  "inp_inv s \<longleftrightarrow>
     (let n = length (input_sources s)
      in length (current_data s) = n \<and> length (current_data_time s) = n \<and> length (deactivated s) = n
       \<and> length (source_info s) = n \<and> length (data_queues s) = n
       \<and> (\<forall>i < n. sorted (map recordComparison (data_queues s ! i))
            \<and> (\<forall>r \<in> set (data_queues s ! i). rec_time r \<le> deactivated s ! i)))"

lemma inp_inv_lengths:
  assumes "inp_inv s"
  shows "length (current_data s) = length (input_sources s)" "length (current_data_time s) = length (input_sources s)"
    "length (deactivated s) = length (input_sources s)" "length (source_info s) = length (input_sources s)"
    "length (data_queues s) = length (input_sources s)"
  using assms by (simp_all add: inp_inv_def Let_def)

lemma inp_inv_queue:
  assumes "inp_inv s" and "i < length (input_sources s)"
  shows "sorted (map recordComparison (data_queues s ! i))"
    and "r \<in> set (data_queues s ! i) \<Longrightarrow> rec_time r \<le> deactivated s ! i"
  using assms by (simp_all add: inp_inv_def Let_def)

lemma find_source_Some:
  "find_source h xs k = Some i \<Longrightarrow> \<exists>j. i = k + j \<and> j < length xs \<and> xs ! j = h \<and> (\<forall>j' < j. xs ! j' \<noteq> h)"
proof (induction h xs k rule: find_source.induct)
  case (2 h x xs k)
  show ?case
  proof (cases "x = h")
    case False
    then obtain j where "i = Suc k + j" "j < length xs" "xs ! j = h" "\<forall>j' < j. xs ! j' \<noteq> h"
      using 2 by auto
    then show ?thesis
      using False by (intro exI [of _ "Suc j"]) (auto simp: nth_Cons split: nat.split)
  qed (use 2 in auto)
qed simp

lemma find_source_None: "find_source h xs k = None \<longleftrightarrow> h \<notin> set xs"
  by (induction h xs k rule: find_source.induct) auto

lemma addData_inv:
  assumes "inp_inv s"
  shows "inp_inv (addData h t it d s)"
proof (cases "find_source h (input_sources s) 0")
  case None
  then show ?thesis using assms by (simp add: addData_def)
next
  case (Some i)
  then have i: "i < length (input_sources s)"
    using find_source_Some [OF Some] by simp
  let ?r = "\<lparr> rec_time = t, rec_iteration = it, rec_data = d \<rparr>"
  have "set (queue_insert ?r (data_queues s ! i)) = insert ?r (set (data_queues s ! i))"
    using queue_insert_spec(2) [OF inp_inv_queue(1) [OF assms i], of ?r] by (metis set_mset_add_mset_insert set_mset_mset)
  then show ?thesis
    using assms Some i queue_insert_spec(1) [OF inp_inv_queue(1) [OF assms i], of ?r]
    by (auto simp: addData_def inp_inv_def Let_def nth_list_update)
qed

lemma addSource_inv:
  assumes "inp_inv s"
  shows "inp_inv (addSource T h k ty un s)"
proof -
  have r: "resize (Suc (length (input_sources s))) d xs = xs @ [d]" if "length xs = length (input_sources s)"
    for d :: 'x and xs
    using that resize_Suc [of xs d] by simp
  show ?thesis
    using assms by (auto simp: addSource_def inp_inv_def Let_def resize_def nth_append less_Suc_eq)
qed

lemma deactivate_source_inv:
  assumes "inp_inv s" and "i < length (input_sources s)"
  shows "inp_inv (deactivate_source t i s)"
proof -
  have "pop_after t (data_queues s ! i) = filter (\<lambda>r. rec_time r \<le> t) (data_queues s ! i)"
    using pop_after_filter inp_inv_queue(1) [OF assms] by blast
  then show ?thesis
    using assms by (auto simp: deactivate_source_def inp_inv_def Let_def nth_list_update sorted_filter min_def not_less)
qed

lemma removeSource_inv:
  assumes "inp_inv s"
  shows "inp_inv (removeSource h t s)" and "inp_inv (removeSource_named k t s)"
proof -
  have fold: "inp_inv s \<Longrightarrow> \<forall>i \<in> set js. i < length (input_sources s) \<Longrightarrow>
      inp_inv (foldl (\<lambda>s i. if P s i then deactivate_source t i s else s) s js)" for P s js
  proof (induction js arbitrary: s)
    case (Cons j js)
    have "inp_inv (if P s j then deactivate_source t j s else s)"
      using Cons.prems by (simp add: deactivate_source_inv)
    moreover have "input_sources (if P s j then deactivate_source t j s else s) = input_sources s"
      by (simp add: deactivate_source_def)
    ultimately show ?case
      using Cons.IH Cons.prems(2) by simp
  qed simp
  have "inp_inv (s\<lparr> inputUnits := [], inputType := [] \<rparr>)"
    using assms by (simp add: inp_inv_def Let_def)
  then show "inp_inv (removeSource h t s)" and "inp_inv (removeSource_named k t s)"
    using fold inp_inv_lengths(4) [OF assms] by (simp_all add: removeSource_def removeSource_named_def)
qed

lemma advance_all_eq:
  fixes s :: "('t::linorder) InputInfo" and newTime :: 't
    and pass :: "'t dataRecord \<Rightarrow> 't dataRecord list \<Rightarrow> 't dataRecord \<times> 't dataRecord list"
  assumes "inp_inv s"
  defines "n \<equiv> length (input_sources s)" and "res \<equiv> slot_result pass newTime s"
  shows "advance_all pass newTime s = (\<exists>i < n. fst (res i),
     s\<lparr> data_queues := map (\<lambda>i. fst (snd (res i))) [0..<n],
        current_data := map (\<lambda>i. fst (snd (snd (res i)))) [0..<n],
        current_data_time := map (\<lambda>i. snd (snd (snd (res i)))) [0..<n] \<rparr>)"
proof -
  have "map (\<lambda>i. if i < n then f i else g i) [0..<n] = map f [0..<n]" for f g :: "nat \<Rightarrow> 'x"
    by simp
  then show ?thesis
    using advance_some [of n n s pass newTime] inp_inv_lengths [OF assms(1)]
    by (simp add: advance_all_def n_def res_def)
qed

lemma advance_all_inv:
  assumes "inp_inv s" and "\<And>r rs. suffix (snd (pass r rs)) (r # rs)"
  shows "inp_inv (snd (advance_all pass newTime s))"
proof -
  have suf: "suffix (fst (snd (slot_result pass newTime s i))) (data_queues s ! i)" for i
    using assms(2) by (auto simp: slot_result_def next_slot_def split_beta split: list.split)
  have "sorted (map recordComparison (fst (snd (slot_result pass newTime s i))))"
    and "\<forall>r \<in> set (fst (snd (slot_result pass newTime s i))). rec_time r \<le> deactivated s ! i"
    if "i < length (input_sources s)" for i
    using inp_inv_queue [OF assms(1) that] suf [of i] by (auto simp: suffix_def sorted_append)
  then show ?thesis
    using inp_inv_lengths [OF assms(1)]
    by (auto simp: advance_all_eq [OF assms(1)] inp_inv_def Let_def)
qed

lemma pass_while_suffix: "suffix (snd (pass_while P r rs)) rs"
  by (simp add: pass_while_eq suffix_dropWhile)

lemma pass_iteration_suffix: "suffix (snd (pass_iteration t r rs)) rs"
proof -
  obtain prev rest where p: "pass_while (\<lambda>r. rec_time r < t) r rs = (prev, rest)"
    by (cases "pass_while (\<lambda>r. rec_time r < t) r rs")
  then have rest: "suffix rest rs"
    using pass_while_suffix [of "\<lambda>r. rec_time r < t" r rs] by simp
  then have "suffix (snd (pass_while P prev rest)) rs" for P
    using pass_while_suffix suffix_order.trans by blast
  with rest show ?thesis
    by (cases rest) (simp_all add: pass_iteration_def p Let_def del: pass_while.simps)
qed

lemma update_time_inv:
  assumes "inp_inv s"
  shows "inp_inv (snd (updateTimeInclusive t s))" "inp_inv (snd (updateTimeUpTo t s))"
    "inp_inv (snd (updateTimeNextIteration t s))"
proof -
  have "suffix (snd (pass_while P r rs)) (r # rs)" "suffix (snd (pass_iteration t r rs)) (r # rs)"
    for P and r :: "'a dataRecord" and rs
    by (simp_all add: suffix_ConsI pass_while_suffix pass_iteration_suffix)
  then show "inp_inv (snd (updateTimeInclusive t s))" "inp_inv (snd (updateTimeUpTo t s))"
    "inp_inv (snd (updateTimeNextIteration t s))"
    unfolding updateTimeInclusive_def updateTimeUpTo_def updateTimeNextIteration_def
    by (simp_all add: advance_all_inv assms)
qed

text \<open>Everything done to an input; the last rule stands for the setting of its flags.\<close>

inductive inp_step :: "('t::linorder) time_rep \<Rightarrow> 't InputInfo \<Rightarrow> 't InputInfo \<Rightarrow> bool" for T where
  inp_data: "inp_step T s (addData h t it d s)"
| inp_source: "inp_step T s (addSource T h k ty un s)"
| inp_remove: "inp_step T s (removeSource h t s)"
| inp_remove_named: "inp_step T s (removeSource_named k t s)"
| inp_clear: "inp_step T s (clearFutureData s)"
| inp_inclusive: "inp_step T s (snd (updateTimeInclusive t s))"
| inp_up_to: "inp_step T s (snd (updateTimeUpTo t s))"
| inp_iteration: "inp_step T s (snd (updateTimeNextIteration t s))"
| inp_type_read: "inp_step T s (snd (getInjectionType s))"
| inp_units_read: "inp_step T s (snd (getInjectionUnits s))"
| inp_flags: "inp_step T s (s\<lparr> inp_required := a, only_update_on_change := b, not_interruptible := c,
    strict_type_matching := d, ignore_unit_mismatch := e, required_connnections := n, priority_sources := ps \<rparr>)"

lemma inp_step_inv: "inp_step T s s' \<Longrightarrow> inp_inv s \<Longrightarrow> inp_inv s'"
proof (induction rule: inp_step.induct)
  case (inp_clear s)
  then show ?case by (simp add: clearFutureData_def inp_inv_def Let_def)
next
  case (inp_type_read s)
  then show ?case by (simp add: getInjectionType_def inp_inv_def Let_def)
next
  case (inp_units_read s)
  then show ?case by (simp add: getInjectionUnits_def inp_inv_def Let_def)
next
  case (inp_flags s)
  then show ?case by (simp add: inp_inv_def Let_def)
qed (simp_all add: addData_inv addSource_inv removeSource_inv update_time_inv)

lemma inp_reachable_inv: "(inp_step T)\<^sup>*\<^sup>* (mk_InputInfo h k ty un) s \<Longrightarrow> inp_inv s"
proof (induction rule: rtranclp_induct)
  case base
  show ?case by (simp add: mk_InputInfo_def inp_inv_def Let_def)
qed (rule inp_step_inv)

lemmas sorted_due = sorted_split [where f = recordComparison and g = rec_time, OF _ recordComparison_time]

lemma inclusive_slot:
  fixes q :: "('t::linorder) dataRecord list" and t :: 't
  assumes "sorted (map recordComparison q)"
  defines "due \<equiv> filter (\<lambda>r. rec_time r \<le> t) q"
  shows "next_slot (pass_while (\<lambda>r. rec_time r \<le> t)) t on_change q d ct =
    (if due = [] then (False, filter (\<lambda>r. t < rec_time r) q, d, ct)
     else if takes_value on_change d (last due)
     then (True, filter (\<lambda>r. t < rec_time r) q, rec_data (last due), (rec_time (last due), rec_iteration (last due)))
     else (False, filter (\<lambda>r. t < rec_time r) q, d,
           if fst ct = rec_time (last due) then (fst ct, rec_iteration (last due)) else ct))"
proof (cases q)
  case (Cons r rs)
  note split = sorted_due [OF assms(1), of t]
  show ?thesis
  proof (cases "rec_time r \<le> t")
    case True
    then have "due = r # takeWhile (\<lambda>r. rec_time r \<le> t) rs"
      "filter (\<lambda>r. t < rec_time r) q = dropWhile (\<lambda>r. rec_time r \<le> t) rs"
      using split Cons by (simp_all add: due_def)
    then show ?thesis
      using True Cons by (simp add: next_slot_def pass_while_eq)
  next
    case False
    then have "t < rec_time r"
      by simp
    moreover have "due = []" "filter (\<lambda>r. t < rec_time r) q = q"
      using False split Cons unfolding due_def by (metis dropWhile.simps(2) takeWhile.simps(2))+
    ultimately show ?thesis
      using False Cons by (simp add: next_slot_def)
  qed
qed (simp add: next_slot_def due_def)

lemma Min_insert_Min:
  fixes A B :: "'t::linorder set"
  shows "finite A \<Longrightarrow> A \<noteq> {} \<Longrightarrow> finite B \<Longrightarrow> Min (insert (Min A) B) = Min (A \<union> B)"
  by (cases "B = {}") (simp_all add: Min.union)

lemma nextValueTime_eq:
  assumes "\<And>q. q \<in> set (data_queues s) \<Longrightarrow> sorted (map recordComparison q)"
  shows "nextValueTime T s = (if not_interruptible s then maxVal T
     else Min (insert (maxVal T) (rec_time ` (\<Union> (set ` set (data_queues s))))))"
proof -
  have step: "(if q \<noteq> [] then (if rec_time (hd q) < m then rec_time (hd q) else m) else m)
      = Min (insert m (rec_time ` set q))" if "sorted (map recordComparison q)" for m and q :: "'a dataRecord list"
  proof (cases q)
    case (Cons r rs)
    then have "\<forall>x \<in> set rs. rec_time r \<le> rec_time x"
      using that recordComparison_time by auto
    then have "Min (insert m (rec_time ` set q)) = min m (rec_time r)"
      using Cons by (intro Min_eqI) (auto simp: min_def)
    then show ?thesis
      using Cons by (auto simp: min_def)
  qed simp
  have "foldl (\<lambda>nv q. if q \<noteq> [] then (if rec_time (hd q) < nv then rec_time (hd q) else nv) else nv) m qs
      = Min (insert m (rec_time ` (\<Union> (set ` set qs))))"
    if "\<And>q. q \<in> set qs \<Longrightarrow> sorted (map recordComparison q)" for m and qs :: "'a dataRecord list list"
    using that
  proof (induction qs arbitrary: m)
    case (Cons q qs)
    have "foldl (\<lambda>nv q. if q \<noteq> [] then (if rec_time (hd q) < nv then rec_time (hd q) else nv) else nv) m (q # qs)
        = Min (insert (Min (insert m (rec_time ` set q))) (rec_time ` (\<Union> (set ` set qs))))"
      using Cons step [of q m] by simp
    also have "\<dots> = Min (insert m (rec_time ` set q) \<union> rec_time ` (\<Union> (set ` set qs)))"
      by (rule Min_insert_Min) simp_all
    finally show ?case
      by (simp add: image_Un del: Min_insert)
  qed simp
  from this [OF assms] show ?thesis
    by (simp add: nextValueTime_def)
qed

section \<open>Properties of inputs\<close>

text \<open>C36: in every reachable state of an input its parallel vectors have one entry per source, every
  queue is ordered by time and iteration, nothing is queued for after the deactivation of its source,
  and the next value time announced is the earliest time queued.\<close>

theorem input_invariant:
  assumes "(inp_step T)\<^sup>*\<^sup>* (mk_InputInfo h k ty un) s"
  shows "length (current_data s) = length (input_sources s) \<and> length (current_data_time s) = length (input_sources s)
    \<and> length (deactivated s) = length (input_sources s) \<and> length (data_queues s) = length (input_sources s)
    \<and> (\<forall>i < length (input_sources s). sorted (map recordComparison (data_queues s ! i))
         \<and> (\<forall>r \<in> set (data_queues s ! i). rec_time r \<le> deactivated s ! i))
    \<and> nextValueTime T s = (if not_interruptible s then maxVal T
         else Min (insert (maxVal T) (rec_time ` (\<Union> (set ` set (data_queues s))))))"
proof -
  note inv = inp_reachable_inv [OF assms]
  have "q \<in> set (data_queues s) \<Longrightarrow> sorted (map recordComparison q)" for q
    using inp_inv_queue(1) [OF inv] inp_inv_lengths(5) [OF inv] by (auto simp: in_set_conv_nth)
  from nextValueTime_eq [OF this] show ?thesis
    using inp_inv_lengths [OF inv] inp_inv_queue [OF inv] by simp
qed

definition one_source :: "ticks InputInfo" where
  "one_source = addData (Global_Handle (Global_Federate_Id 131073) (Interface_Handle 0)) (Ticks 7) 0 (Some ''a'')
     (addSource tick_rep (Global_Handle (Global_Federate_Id 131073) (Interface_Handle 0)) ''pub'' ''double'' []
       (mk_InputInfo default_global_handle ''inp'' ''double'' []))"

lemma one_source_reachable:
  "(inp_step tick_rep)\<^sup>*\<^sup>* (mk_InputInfo default_global_handle ''inp'' ''double'' []) one_source"
  unfolding one_source_def by (rule rtranclp.rtrancl_into_rtrancl [OF r_into_rtranclp]) (rule inp_source inp_data)+

lemma one_source_simps:
  "input_sources one_source = [Global_Handle (Global_Federate_Id 131073) (Interface_Handle 0)]"
  "data_queues one_source = [[\<lparr> rec_time = Ticks 7, rec_iteration = 0, rec_data = Some ''a'' \<rparr>]]"
  "not_interruptible one_source = False" "only_update_on_change one_source = False"
  "current_data one_source = [None]" "deactivated one_source = [Ticks (2 ^ 63 - 1)]"
  by (simp_all add: one_source_def addData_def addSource_def mk_InputInfo_def resize_def queue_insert_def)

theorem input_invariant_witness: "nextValueTime tick_rep one_source = Ticks 7"
  using input_invariant [OF one_source_reachable]
  by (simp add: one_source_simps min_def)

text \<open>C21: advancing an input to a time, inclusively, takes exactly the values that are due. For every
  source the queue keeps the later records and no others, the value shown is that of the last record
  due unless it is to change only on change and does not, a change is reported exactly if some source
  takes a value, and no value is announced for a time that has passed.\<close>

theorem update_inclusive_spec:
  assumes "(inp_step T)\<^sup>*\<^sup>* (mk_InputInfo h k ty un) s" and "updateTimeInclusive t s = (u, s')"
  shows "(\<forall>i < length (input_sources s).
        let due = filter (\<lambda>r. rec_time r \<le> t) (data_queues s ! i);
            takes = (due \<noteq> [] \<and> takes_value (only_update_on_change s) (current_data s ! i) (last due))
        in data_queues s' ! i = filter (\<lambda>r. t < rec_time r) (data_queues s ! i)
         \<and> current_data s' ! i = (if takes then rec_data (last due) else current_data s ! i))
    \<and> (u \<longleftrightarrow> (\<exists>i < length (input_sources s).
          let due = filter (\<lambda>r. rec_time r \<le> t) (data_queues s ! i)
          in due \<noteq> [] \<and> takes_value (only_update_on_change s) (current_data s ! i) (last due)))
    \<and> (nextValueTime T s' = maxVal T \<or> t < nextValueTime T s')"
proof -
  note inv = inp_reachable_inv [OF assms(1)]
  let ?n = "length (input_sources s)"
  let ?res = "slot_result (pass_while (\<lambda>r. rec_time r \<le> t)) t s"
  have s': "u = (\<exists>i < ?n. fst (?res i))"
    "data_queues s' = map (\<lambda>i. fst (snd (?res i))) [0..<?n]"
    "current_data s' = map (\<lambda>i. fst (snd (snd (?res i)))) [0..<?n]"
    using assms(2) by (auto simp: updateTimeInclusive_def advance_all_eq [OF inv])
  have res: "?res i = (let due = filter (\<lambda>r. rec_time r \<le> t) (data_queues s ! i);
       q = filter (\<lambda>r. t < rec_time r) (data_queues s ! i); d = current_data s ! i; ct = current_data_time s ! i
     in if due = [] then (False, q, d, ct)
        else if takes_value (only_update_on_change s) d (last due)
        then (True, q, rec_data (last due), (rec_time (last due), rec_iteration (last due)))
        else (False, q, d, if fst ct = rec_time (last due) then (fst ct, rec_iteration (last due)) else ct))"
    if "i < ?n" for i
    using inclusive_slot [OF inp_inv_queue(1) [OF inv that]] by (simp add: slot_result_def Let_def)
  have queues: "\<forall>i < ?n. data_queues s' ! i = filter (\<lambda>r. t < rec_time r) (data_queues s ! i)"
    by (simp add: s' res Let_def)
  have inv': "inp_inv s'"
    using update_time_inv(1) [OF inv, of t] assms(2) by simp
  have sorted: "q \<in> set (data_queues s') \<Longrightarrow> sorted (map recordComparison q)" for q
    using inp_inv_queue(1) [OF inv'] inp_inv_lengths(5) [OF inv'] by (auto simp: in_set_conv_nth)
  have later: "\<forall>x \<in> rec_time ` (\<Union> (set ` set (data_queues s'))). t < x"
    by (auto simp: s'(2) res Let_def)
  have "nextValueTime T s' = maxVal T \<or> nextValueTime T s' \<in> rec_time ` (\<Union> (set ` set (data_queues s')))"
    using Min_in [of "insert (maxVal T) (rec_time ` (\<Union> (set ` set (data_queues s'))))"]
    by (simp add: nextValueTime_eq [OF sorted])
  then have "nextValueTime T s' = maxVal T \<or> t < nextValueTime T s'"
    using later by blast
  moreover have "\<forall>i < ?n. current_data s' ! i
      = (let due = filter (\<lambda>r. rec_time r \<le> t) (data_queues s ! i)
         in if due \<noteq> [] \<and> takes_value (only_update_on_change s) (current_data s ! i) (last due)
            then rec_data (last due) else current_data s ! i)"
    by (auto simp: s' res Let_def)
  moreover have "u \<longleftrightarrow> (\<exists>i < ?n. let due = filter (\<lambda>r. rec_time r \<le> t) (data_queues s ! i)
      in due \<noteq> [] \<and> takes_value (only_update_on_change s) (current_data s ! i) (last due))"
    by (auto simp: s' res Let_def split: if_splits)
  ultimately show ?thesis
    using queues by (simp add: Let_def)
qed

theorem update_inclusive_spec_witness:
  "current_data (snd (updateTimeInclusive (Ticks 7) one_source)) ! 0 = Some ''a''"
proof -
  obtain u s' where "updateTimeInclusive (Ticks 7) one_source = (u, s')"
    by (metis surj_pair)
  from update_inclusive_spec [OF one_source_reachable this] this show ?thesis
    by (simp add: one_source_simps takes_value_def Let_def)
qed

text \<open>Advancing up to a time, meant not to take the values at that time, takes a value at exactly
  that time when it is first in its queue, and shows it.\<close>

lemma up_to_takes_front:
  assumes "(inp_step T)\<^sup>*\<^sup>* (mk_InputInfo h k ty un) s" and "i < length (input_sources s)"
    and "data_queues s ! i = r # rs" and "rec_time r = t" and "\<not> only_update_on_change s"
  shows "current_data (snd (updateTimeUpTo t s)) ! i = rec_data r
    \<and> data_queues (snd (updateTimeUpTo t s)) ! i = rs \<and> fst (updateTimeUpTo t s)"
proof -
  note inv = inp_reachable_inv [OF assms(1)]
  have "\<forall>x \<in> set rs. t \<le> rec_time x"
    using inp_inv_queue(1) [OF inv assms(2)] recordComparison_time by (auto simp: assms(3) assms(4) [symmetric])
  then have "takeWhile (\<lambda>r. rec_time r < t) rs = []" "dropWhile (\<lambda>r. rec_time r < t) rs = rs"
    by (cases rs; auto)+
  then have "slot_result (pass_while (\<lambda>r. rec_time r < t)) t s i
      = (True, rs, rec_data r, (rec_time r, rec_iteration r))"
    using assms(3-5) by (simp add: slot_result_def next_slot_def pass_while_eq takes_value_def)
  then show ?thesis
    using assms(2) by (auto simp: updateTimeUpTo_def advance_all_eq [OF inv] intro!: exI [of _ i])
qed

lemma up_to_takes_front_example:
  "current_data (snd (updateTimeUpTo (Ticks 7) one_source)) ! 0 = Some ''a''"
  using up_to_takes_front [OF one_source_reachable, of 0] by (simp add: one_source_simps)

text \<open>A source that is removed and added again stays silent: values for it after the time of removal
  are dropped, because the first, deactivated entry is found and the search ends there.\<close>

lemma readded_source_dropped:
  assumes "i < length (input_sources s)" and "length (deactivated s) = length (input_sources s)"
    and "input_sources s ! i = h" and "\<forall>j < i. input_sources s ! j \<noteq> h" and "deactivated s ! i < t"
  shows "addData h t it d (addSource T h k ty un s) = addSource T h k ty un s"
proof -
  have find: "find_source h (xs @ ys) n = Some (n + j)"
    if "j < length xs" "xs ! j = h" "\<forall>j' < j. xs ! j' \<noteq> h" for xs ys :: "global_handle list" and n j
    using that
  proof (induction xs arbitrary: j n)
    case (Cons x xs)
    show ?case
    proof (cases j)
      case (Suc j')
      then have "x \<noteq> h" "\<forall>k < j'. xs ! k \<noteq> h"
        using Cons.prems(3) by fastforce+
      then show ?thesis
        using Cons.IH [of j' "Suc n"] Cons.prems(1,2) Suc by simp
    qed (use Cons.prems in simp)
  qed simp
  have "find_source h (input_sources (addSource T h k ty un s)) 0 = Some i"
    using find [OF assms(1,3,4), of "[h]" 0] by (simp add: addSource_def)
  moreover have "deactivated (addSource T h k ty un s) ! i = deactivated s ! i"
    using assms(1,2) by (simp add: addSource_def Let_def nth_append)
  ultimately show ?thesis
    using assms(5) by (simp add: addData_def)
qed

lemma readded_source_dropped_example:
  "addData (Global_Handle (Global_Federate_Id 131073) (Interface_Handle 0)) (Ticks 9) 0 (Some ''b'')
     (addSource tick_rep (Global_Handle (Global_Federate_Id 131073) (Interface_Handle 0)) ''pub'' ''double'' []
       (removeSource (Global_Handle (Global_Federate_Id 131073) (Interface_Handle 0)) (Ticks 8) one_source))
   = addSource tick_rep (Global_Handle (Global_Federate_Id 131073) (Interface_Handle 0)) ''pub'' ''double'' []
       (removeSource (Global_Handle (Global_Federate_Id 131073) (Interface_Handle 0)) (Ticks 8) one_source)"
  by (rule readded_source_dropped [of 0])
    (simp_all add: removeSource_def deactivate_source_def one_source_simps)

end
