(* ===== verification/Interface_Info.thy ===== *)
theory Interface_Info
  imports Message_Queues Input_Info
begin

text \<open>
  The interfaces of one federate (\<open>InterfaceInfo.hpp\<close>, \<open>InterfaceInfo.cpp\<close>): its publications, inputs
  and endpoints, their properties and the check made before initialization. The three containers are
  of the class \<open>DualMappedPointerVector\<close>, which is not part of the sources; its operations are a
  parameter, with what is relied on in \<open>dual_laws\<close>. The text of an issue is produced by the library
  \<open>fmt\<close>, a parameter too. The two functions that write a JSON description are not modelled.
\<close>

section \<open>The container\<close>

text \<open>
  Elements are found by name or by handle and are visited in the order of insertion. \<open>dv_write\<close> is an
  assignment through the pointer that \<open>find\<close> returned, \<open>dv_write_back\<close> one through the pointer to the
  last element, \<open>dv_write_all\<close> one to every element in turn.
\<close>

record ('s, 'v) dual_vector =
  dv_empty :: 's
  dv_insert :: "string \<Rightarrow> interface_handle \<Rightarrow> 'v \<Rightarrow> 's \<Rightarrow> 's"
  dv_find_name :: "string \<Rightarrow> 's \<Rightarrow> 'v option"
  dv_find :: "interface_handle \<Rightarrow> 's \<Rightarrow> 'v option"
  dv_elems :: "'s \<Rightarrow> 'v list"
  dv_write :: "interface_handle \<Rightarrow> 'v \<Rightarrow> 's \<Rightarrow> 's"
  dv_write_back :: "('v \<Rightarrow> 'v) \<Rightarrow> 's \<Rightarrow> 's"
  dv_write_all :: "('v \<Rightarrow> 'v) \<Rightarrow> 's \<Rightarrow> 's"

definition find_write_law :: "('s, 'v) dual_vector \<Rightarrow> bool" where
  "find_write_law D \<longleftrightarrow> (\<forall>h h' v s. dv_find D h (dv_write D h' v s) =
     (if h = h' \<and> dv_find D h' s \<noteq> None then Some v else dv_find D h s))"

definition find_insert_law :: "('s, 'v) dual_vector \<Rightarrow> bool" where
  "find_insert_law D \<longleftrightarrow> (\<forall>n h v s. dv_find_name D n s = None \<longrightarrow> dv_find D h s = None \<longrightarrow>
     (\<forall>h'. dv_find D h' (dv_insert D n h v s) = (if h' = h then Some v else dv_find D h' s)) \<and>
     dv_elems D (dv_insert D n h v s) = dv_elems D s @ [v])"

definition write_back_law :: "('s, 'v) dual_vector \<Rightarrow> bool" where
  "write_back_law D \<longleftrightarrow> (\<forall>n h v s f. dv_find_name D n s = None \<longrightarrow> dv_find D h s = None \<longrightarrow>
     dv_write_back D f (dv_insert D n h v s) = dv_insert D n h (f v) s)"

definition write_all_law :: "('s, 'v) dual_vector \<Rightarrow> bool" where
  "write_all_law D \<longleftrightarrow> (\<forall>f s. (\<forall>h. dv_find D h (dv_write_all D f s) = map_option f (dv_find D h s)) \<and>
     dv_elems D (dv_write_all D f s) = map f (dv_elems D s))"

definition elems_law :: "('s, 'v) dual_vector \<Rightarrow> bool" where
  "elems_law D \<longleftrightarrow> (\<forall>h v s. (dv_find D h s = Some v \<longrightarrow> v \<in> set (dv_elems D s)) \<and>
     set (dv_elems D (dv_write D h v s)) \<subseteq> insert v (set (dv_elems D s))) \<and>
     dv_elems D (dv_empty D) = [] \<and> (\<forall>h. dv_find D h (dv_empty D) = None)"

definition dual_laws :: "('s, 'v) dual_vector \<Rightarrow> bool" where
  "dual_laws D \<longleftrightarrow> find_write_law D \<and> find_insert_law D \<and> write_back_law D \<and> write_all_law D \<and> elems_law D"

section \<open>State\<close>

record ('t, 'p, 'e, 'i) containers =
  publication_ops :: "('p, PublicationInfo) dual_vector"
  endpoint_ops :: "('e, 't EndpointInfo) dual_vector"
  input_ops :: "('i, 't InputInfo) dual_vector"

record ('p, 'e, 'i) InterfaceInfo =
  if_global_id :: global_federate_id
  if_only_update_on_change :: bool
  publications :: 'p
  endpoints :: 'e
  inputs :: 'i

definition InterfaceInfo_default :: "('t, 'p, 'e, 'i) containers \<Rightarrow> ('p, 'e, 'i) InterfaceInfo" where
  "InterfaceInfo_default K =
     \<lparr> if_global_id = default_global_federate_id, if_only_update_on_change = False,
       publications = dv_empty (publication_ops K), endpoints = dv_empty (endpoint_ops K),
       inputs = dv_empty (input_ops K) \<rparr>"

definition setGlobalId :: "global_federate_id \<Rightarrow> ('p, 'e, 'i) InterfaceInfo \<Rightarrow> ('p, 'e, 'i) InterfaceInfo" where
  "setGlobalId newglobalId s = s\<lparr> if_global_id := newglobalId \<rparr>"

section \<open>Creation and lookup\<close>

definition createPublication ::
  "('t, 'p, 'e, 'i) containers \<Rightarrow> interface_handle \<Rightarrow> string \<Rightarrow> string \<Rightarrow> string \<Rightarrow> ('p, 'e, 'i) InterfaceInfo
     \<Rightarrow> ('p, 'e, 'i) InterfaceInfo" where
  "createPublication K h key type units s =
     s\<lparr> publications := dv_insert (publication_ops K) key h
          (mk_PublicationInfo (Global_Handle (if_global_id s) h) key type units) (publications s) \<rparr>"

definition createInput ::
  "('t, 'p, 'e, 'i) containers \<Rightarrow> interface_handle \<Rightarrow> string \<Rightarrow> string \<Rightarrow> string \<Rightarrow> ('p, 'e, 'i) InterfaceInfo
     \<Rightarrow> ('p, 'e, 'i) InterfaceInfo" where
  "createInput K h key type units s =
     s\<lparr> inputs := dv_write_back (input_ops K) (only_update_on_change_update (\<lambda>_. if_only_update_on_change s))
          (dv_insert (input_ops K) key h
             (mk_InputInfo (Global_Handle (if_global_id s) h) key type units) (inputs s)) \<rparr>"

definition createEndpoint ::
  "('t, 'p, 'e, 'i) containers \<Rightarrow> interface_handle \<Rightarrow> string \<Rightarrow> string \<Rightarrow> ('p, 'e, 'i) InterfaceInfo
     \<Rightarrow> ('p, 'e, 'i) InterfaceInfo" where
  "createEndpoint K h endpointName type s =
     s\<lparr> endpoints := dv_insert (endpoint_ops K) endpointName h
          (mk_EndpointInfo (Global_Handle (if_global_id s) h) endpointName type) (endpoints s) \<rparr>"

definition setChangeUpdateFlag ::
  "('t, 'p, 'e, 'i) containers \<Rightarrow> bool \<Rightarrow> ('p, 'e, 'i) InterfaceInfo \<Rightarrow> ('p, 'e, 'i) InterfaceInfo" where
  "setChangeUpdateFlag K updateFlag s =
     (if updateFlag \<noteq> if_only_update_on_change s
      then s\<lparr> if_only_update_on_change := updateFlag,
              inputs := dv_write_all (input_ops K) (only_update_on_change_update (\<lambda>_. updateFlag)) (inputs s) \<rparr>
      else s)"

definition if_getPublication ::
  "('t, 'p, 'e, 'i) containers \<Rightarrow> interface_handle \<Rightarrow> ('p, 'e, 'i) InterfaceInfo \<Rightarrow> PublicationInfo option" where
  "if_getPublication K h s = dv_find (publication_ops K) h (publications s)"

definition if_getPublication_named ::
  "('t, 'p, 'e, 'i) containers \<Rightarrow> string \<Rightarrow> ('p, 'e, 'i) InterfaceInfo \<Rightarrow> PublicationInfo option" where
  "if_getPublication_named K pubName s = dv_find_name (publication_ops K) pubName (publications s)"

definition if_getInput ::
  "('t, 'p, 'e, 'i) containers \<Rightarrow> interface_handle \<Rightarrow> ('p, 'e, 'i) InterfaceInfo \<Rightarrow> 't InputInfo option" where
  "if_getInput K h s = dv_find (input_ops K) h (inputs s)"

definition if_getInput_named ::
  "('t, 'p, 'e, 'i) containers \<Rightarrow> string \<Rightarrow> ('p, 'e, 'i) InterfaceInfo \<Rightarrow> 't InputInfo option" where
  "if_getInput_named K inputName s = dv_find_name (input_ops K) inputName (inputs s)"

definition if_getEndpoint ::
  "('t, 'p, 'e, 'i) containers \<Rightarrow> interface_handle \<Rightarrow> ('p, 'e, 'i) InterfaceInfo \<Rightarrow> 't EndpointInfo option" where
  "if_getEndpoint K h s = dv_find (endpoint_ops K) h (endpoints s)"

definition if_getEndpoint_named ::
  "('t, 'p, 'e, 'i) containers \<Rightarrow> string \<Rightarrow> ('p, 'e, 'i) InterfaceInfo \<Rightarrow> 't EndpointInfo option" where
  "if_getEndpoint_named K endpointName s = dv_find_name (endpoint_ops K) endpointName (endpoints s)"

text \<open>Writing back the object a lookup by handle returned.\<close>

definition put_publication ::
  "('t, 'p, 'e, 'i) containers \<Rightarrow> interface_handle \<Rightarrow> PublicationInfo \<Rightarrow> ('p, 'e, 'i) InterfaceInfo
     \<Rightarrow> ('p, 'e, 'i) InterfaceInfo" where
  "put_publication K h p s = s\<lparr> publications := dv_write (publication_ops K) h p (publications s) \<rparr>"

definition put_input ::
  "('t, 'p, 'e, 'i) containers \<Rightarrow> interface_handle \<Rightarrow> 't InputInfo \<Rightarrow> ('p, 'e, 'i) InterfaceInfo
     \<Rightarrow> ('p, 'e, 'i) InterfaceInfo" where
  "put_input K h i s = s\<lparr> inputs := dv_write (input_ops K) h i (inputs s) \<rparr>"

definition put_endpoint ::
  "('t, 'p, 'e, 'i) containers \<Rightarrow> interface_handle \<Rightarrow> 't EndpointInfo \<Rightarrow> ('p, 'e, 'i) InterfaceInfo
     \<Rightarrow> ('p, 'e, 'i) InterfaceInfo" where
  "put_endpoint K h e s = s\<lparr> endpoints := dv_write (endpoint_ops K) h e (endpoints s) \<rparr>"

section \<open>Properties\<close>

definition input_with_option :: "int32 \<Rightarrow> int32 \<Rightarrow> 't InputInfo \<Rightarrow> 't InputInfo option" where
  "input_with_option opt value i =
     (let bvalue = (value \<noteq> 0)
      in if opt = opt_ignore_interrupts then Some (i\<lparr> not_interruptible := bvalue \<rparr>)
         else if opt = opt_only_update_on_change then Some (i\<lparr> only_update_on_change := bvalue \<rparr>)
         else if opt = opt_connection_required then Some (i\<lparr> inp_required := bvalue \<rparr>)
         else if opt = opt_connection_optional then Some (i\<lparr> inp_required := \<not> bvalue \<rparr>)
         else if opt = opt_single_connection_only
              then Some (i\<lparr> required_connnections := (if bvalue then 1 else 0) \<rparr>)
         else if opt = opt_multiple_connections_allowed
              then Some (i\<lparr> required_connnections := (if bvalue then 0 else 1) \<rparr>)
         else if opt = opt_strict_type_checking then Some (i\<lparr> strict_type_matching := bvalue \<rparr>)
         else if opt = opt_ignore_unit_mismatch then Some (i\<lparr> ignore_unit_mismatch := bvalue \<rparr>)
         else if opt = opt_connections then Some (i\<lparr> required_connnections := value \<rparr>)
         else if opt = opt_input_priority_location
              then Some (i\<lparr> priority_sources := priority_sources i @ [value] \<rparr>)
         else if opt = opt_clear_priority_list then Some (i\<lparr> priority_sources := [] \<rparr>)
         else None)"

definition setInputProperty ::
  "('t, 'p, 'e, 'i) containers \<Rightarrow> interface_handle \<Rightarrow> int32 \<Rightarrow> int32 \<Rightarrow> ('p, 'e, 'i) InterfaceInfo
     \<Rightarrow> bool \<times> ('p, 'e, 'i) InterfaceInfo" where
  "setInputProperty K h opt value s =
     (case if_getInput K h s of
        None \<Rightarrow> (False, s)
      | Some ipt \<Rightarrow> (case input_with_option opt value ipt of
                       None \<Rightarrow> (False, s) | Some ipt' \<Rightarrow> (True, put_input K h ipt' s)))"

definition publication_with_option :: "int32 \<Rightarrow> int32 \<Rightarrow> PublicationInfo \<Rightarrow> PublicationInfo option" where
  "publication_with_option opt value p =
     (let bvalue = (value \<noteq> 0)
      in if opt = opt_only_transmit_on_change then Some (p\<lparr> pub_only_update_on_change := bvalue \<rparr>)
         else if opt = opt_connection_required then Some (p\<lparr> pub_required := bvalue \<rparr>)
         else if opt = opt_connection_optional then Some (p\<lparr> pub_required := \<not> bvalue \<rparr>)
         else if opt = opt_single_connection_only
              then Some (p\<lparr> required_connections := (if bvalue then 1 else 0) \<rparr>)
         else if opt = opt_multiple_connections_allowed
              then Some (p\<lparr> required_connections := (if \<not> bvalue then 0 else 1) \<rparr>)
         else if opt = opt_buffer_data then Some (p\<lparr> buffer_data := bvalue \<rparr>)
         else if opt = opt_connections then Some (p\<lparr> required_connections := value \<rparr>)
         else None)"

definition setPublicationProperty ::
  "('t, 'p, 'e, 'i) containers \<Rightarrow> interface_handle \<Rightarrow> int32 \<Rightarrow> int32 \<Rightarrow> ('p, 'e, 'i) InterfaceInfo
     \<Rightarrow> bool \<times> ('p, 'e, 'i) InterfaceInfo" where
  "setPublicationProperty K h opt value s =
     (case if_getPublication K h s of
        None \<Rightarrow> (False, s)
      | Some pub \<Rightarrow> (case publication_with_option opt value pub of
                       None \<Rightarrow> (False, s) | Some pub' \<Rightarrow> (True, put_publication K h pub' s)))"

definition setEndpointProperty ::
  "interface_handle \<Rightarrow> int32 \<Rightarrow> int32 \<Rightarrow> ('p, 'e, 'i) InterfaceInfo \<Rightarrow> bool \<times> ('p, 'e, 'i) InterfaceInfo" where
  "setEndpointProperty h opt value s = (False, s)"

definition getInputProperty ::
  "('t, 'p, 'e, 'i) containers \<Rightarrow> interface_handle \<Rightarrow> int32 \<Rightarrow> ('p, 'e, 'i) InterfaceInfo \<Rightarrow> int32" where
  "getInputProperty K h opt s =
     (case if_getInput K h s of
        None \<Rightarrow> 0
      | Some ipt \<Rightarrow>
          if opt = opt_connections then word_of_nat (length (input_sources ipt))
          else if opt = opt_input_priority_location
          then (if priority_sources ipt = [] then - 1 else last (priority_sources ipt))
          else let flagval =
                 (if opt = opt_ignore_interrupts then not_interruptible ipt
                  else if opt = opt_only_update_on_change then only_update_on_change ipt
                  else if opt = opt_connection_required then inp_required ipt
                  else if opt = opt_connection_optional then \<not> inp_required ipt
                  else if opt = opt_single_connection_only then required_connnections ipt = 1
                  else if opt = opt_multiple_connections_allowed then required_connnections ipt \<noteq> 1
                  else if opt = opt_strict_type_checking then strict_type_matching ipt
                  else if opt = opt_clear_priority_list then priority_sources ipt = []
                  else False)
               in if flagval then 1 else 0)"

definition getPublicationProperty ::
  "('t, 'p, 'e, 'i) containers \<Rightarrow> interface_handle \<Rightarrow> int32 \<Rightarrow> ('p, 'e, 'i) InterfaceInfo \<Rightarrow> int32" where
  "getPublicationProperty K h opt s =
     (case if_getPublication K h s of
        None \<Rightarrow> 0
      | Some pub \<Rightarrow>
          if opt = opt_connections then word_of_nat (length (subscribers pub))
          else let flagval =
                 (if opt = opt_only_transmit_on_change then pub_only_update_on_change pub
                  else if opt = opt_connection_required then pub_required pub
                  else if opt = opt_connection_optional then \<not> pub_required pub
                  else if opt = opt_single_connection_only then required_connections pub = 1
                  else if opt = opt_multiple_connections_allowed then required_connections pub \<noteq> 1
                  else if opt = opt_buffer_data then buffer_data pub
                  else False)
               in if flagval then 1 else 0)"

definition getEndpointProperty :: "interface_handle \<Rightarrow> int32 \<Rightarrow> ('p, 'e, 'i) InterfaceInfo \<Rightarrow> int32" where
  "getEndpointProperty h opt s = 0"

section \<open>The check for issues\<close>

datatype fmt_arg = Fmt_String string | Fmt_Int int

type_synonym formatter = "string \<Rightarrow> fmt_arg list \<Rightarrow> string"

type_synonym issue = "int32 \<times> string"

definition connection_failure :: int32 where "connection_failure = - 2"

definition input_connection_issues :: "formatter \<Rightarrow> 't InputInfo \<Rightarrow> issue list" where
  "input_connection_issues F ipt =
     (if inp_required ipt \<and> \<not> has_target ipt
      then [(connection_failure, F ''Input {} is required but has no connection'' [Fmt_String (inp_key ipt)])]
      else []) @
     (if 0 < sint (required_connnections ipt)
         \<and> length (input_sources ipt) \<noteq> nat (sint (required_connnections ipt))
      then if required_connnections ipt = 1
           then [(connection_failure,
                  F ''Input {} is single source only but has more than one connection''
                    [Fmt_String (inp_key ipt)])]
           else [(connection_failure,
                  F ''Input {} requires {} connections but{} {} were made''
                    [Fmt_String (inp_key ipt), Fmt_Int (sint (required_connnections ipt)),
                     Fmt_String (if length (input_sources ipt) < nat (sint (required_connnections ipt))
                                 then '' only'' else []),
                     Fmt_Int (int (length (input_sources ipt)))])]
      else [])"

definition source_issues :: "'u unit_library \<Rightarrow> formatter \<Rightarrow> 't InputInfo \<Rightarrow> sourceInformation \<Rightarrow> issue list" where
  "source_issues U F ipt source =
     (if \<not> checkTypeMatch (inp_type ipt) (src_type source) (strict_type_matching ipt)
      then [(connection_failure,
             F ''Input \"{}\" source has mismatched types: {} is not compatible with {}''
               [Fmt_String (inp_key ipt), Fmt_String (inp_type ipt), Fmt_String (src_type source)])]
      else []) @
     (if \<not> ignore_unit_mismatch ipt \<and> \<not> checkUnitMatch U (inp_units ipt) (src_units source) False
      then [(connection_failure,
             F ''Input \"{}\" source has incompatible unit: {} is not convertible to {}''
               [Fmt_String (inp_key ipt), Fmt_String (src_units source), Fmt_String (inp_units ipt)])]
      else [])"

definition input_issues :: "'u unit_library \<Rightarrow> formatter \<Rightarrow> 't InputInfo \<Rightarrow> issue list" where
  "input_issues U F ipt =
     input_connection_issues F ipt @ concat (map (source_issues U F ipt) (source_info ipt))"

definition publication_issues :: "formatter \<Rightarrow> PublicationInfo \<Rightarrow> issue list" where
  "publication_issues F pub =
     (if pub_required pub \<and> subscribers pub = []
      then [(connection_failure,
             F ''Publication {} is required but has no subscribers'' [Fmt_String (pub_key pub)])]
      else []) @
     (if 0 < sint (required_connections pub) \<and> length (subscribers pub) \<noteq> nat (sint (required_connections pub))
      then if required_connections pub = 1
           then [(connection_failure,
                  F ''Publication {} is single source only but has more than one connection''
                    [Fmt_String (pub_key pub)])]
           else [(connection_failure,
                  F ''Publication {} requires {} connections but only {} are made''
                    [Fmt_String (pub_key pub), Fmt_Int (sint (required_connections pub)),
                     Fmt_Int (int (length (subscribers pub)))])]
      else [])"

definition checkInterfacesForIssues ::
  "'u unit_library \<Rightarrow> formatter \<Rightarrow> ('t, 'p, 'e, 'i) containers \<Rightarrow> ('p, 'e, 'i) InterfaceInfo \<Rightarrow> issue list" where
  "checkInterfacesForIssues U F K s =
     concat (map (input_issues U F) (dv_elems (input_ops K) (inputs s))) @
     concat (map (publication_issues F) (dv_elems (publication_ops K) (publications s)))"

section \<open>Laws for the operations\<close>

definition container_laws :: "('t, 'p, 'e, 'i) containers \<Rightarrow> bool" where
  "container_laws K \<longleftrightarrow> dual_laws (publication_ops K) \<and> dual_laws (endpoint_ops K) \<and> dual_laws (input_ops K)"

lemma dual_find_write:
  "dual_laws D \<Longrightarrow> dv_find D h (dv_write D h' v s) =
     (if h = h' \<and> dv_find D h' s \<noteq> None then Some v else dv_find D h s)"
  by (simp add: dual_laws_def find_write_law_def)

lemma dual_find_insert:
  assumes "dual_laws D" "dv_find_name D n s = None" "dv_find D h s = None"
  shows "dv_find D h' (dv_insert D n h v s) = (if h' = h then Some v else dv_find D h' s)"
    and "dv_elems D (dv_insert D n h v s) = dv_elems D s @ [v]"
    and "dv_write_back D f (dv_insert D n h v s) = dv_insert D n h (f v) s"
  using assms by (auto simp: dual_laws_def find_insert_law_def write_back_law_def)

lemma dual_write_all:
  assumes "dual_laws D"
  shows "dv_find D h (dv_write_all D f s) = map_option f (dv_find D h s)"
    and "dv_elems D (dv_write_all D f s) = map f (dv_elems D s)"
  using assms by (auto simp: dual_laws_def write_all_law_def)

lemma dual_elems:
  assumes "dual_laws D"
  shows "dv_find D h s = Some v \<Longrightarrow> v \<in> set (dv_elems D s)"
    and "set (dv_elems D (dv_write D h v s)) \<subseteq> insert v (set (dv_elems D s))"
    and "dv_elems D (dv_empty D) = []" and "dv_find D h (dv_empty D) = None"
  using assms by (auto simp: dual_laws_def elems_law_def)

lemma getInput_put:
  "container_laws K \<Longrightarrow> if_getInput K h (put_input K h' i s) =
     (if h = h' \<and> if_getInput K h' s \<noteq> None then Some i else if_getInput K h s)"
  by (simp add: container_laws_def if_getInput_def put_input_def dual_find_write)

lemma getPublication_put:
  "container_laws K \<Longrightarrow> if_getPublication K h (put_publication K h' p s) =
     (if h = h' \<and> if_getPublication K h' s \<noteq> None then Some p else if_getPublication K h s)"
  by (simp add: container_laws_def if_getPublication_def put_publication_def dual_find_write)

text \<open>An association list in the order of insertion is such a container.\<close>

type_synonym 'v entries = "(string \<times> interface_handle \<times> 'v) list"

definition entry_write :: "interface_handle \<Rightarrow> 'v \<Rightarrow> 'v entries \<Rightarrow> 'v entries" where
  "entry_write h v = map (\<lambda>(n, g, w). (n, g, if g = h then v else w))"

definition list_vector :: "('v entries, 'v) dual_vector" where
  "list_vector = \<lparr> dv_empty = [],
     dv_insert = (\<lambda>n h v s. if map_of s n \<noteq> None \<or> map_of (map snd s) h \<noteq> None then s else s @ [(n, h, v)]),
     dv_find_name = (\<lambda>n s. map_option snd (map_of s n)),
     dv_find = (\<lambda>h s. map_of (map snd s) h),
     dv_elems = map (snd \<circ> snd),
     dv_write = entry_write,
     dv_write_back = (\<lambda>f s. if s = [] then [] else butlast s @ [apsnd (apsnd f) (last s)]),
     dv_write_all = (\<lambda>f. map (apsnd (apsnd f))) \<rparr>"

lemma entry_write_find:
  "map_of (map snd (entry_write h' v s)) h =
     (if h = h' \<and> map_of (map snd s) h' \<noteq> None then Some v else map_of (map snd s) h)"
  by (induction s) (auto simp: entry_write_def)

lemma map_entries_find: "map_of (map (apsnd f \<circ> snd) s) h = map_option f (map_of (map snd s) h)"
  by (induction s) auto

lemma list_vector_laws: "dual_laws (list_vector :: ('v entries, 'v) dual_vector)"
proof -
  have "find_write_law (list_vector :: ('v entries, 'v) dual_vector)"
    by (simp add: find_write_law_def list_vector_def entry_write_find)
  moreover have "find_insert_law (list_vector :: ('v entries, 'v) dual_vector)"
    by (auto simp: find_insert_law_def list_vector_def map_add_def split: option.splits)
  moreover have "write_back_law (list_vector :: ('v entries, 'v) dual_vector)"
    by (simp add: write_back_law_def list_vector_def)
  moreover have "write_all_law (list_vector :: ('v entries, 'v) dual_vector)"
    by (auto simp: write_all_law_def list_vector_def map_entries_find)
  moreover have "elems_law (list_vector :: ('v entries, 'v) dual_vector)"
    by (auto simp: elems_law_def list_vector_def entry_write_def image_iff dest!: map_of_SomeD) force+
  ultimately show ?thesis by (simp add: dual_laws_def)
qed

definition list_containers ::
  "('t, PublicationInfo entries, 't EndpointInfo entries, 't InputInfo entries) containers" where
  "list_containers = \<lparr> publication_ops = list_vector, endpoint_ops = list_vector, input_ops = list_vector \<rparr>"

lemma list_containers_laws: "container_laws list_containers"
  by (simp add: container_laws_def list_containers_def list_vector_laws)

section \<open>Reading back what was set\<close>

text \<open>The options that an input keeps as a flag of its own and reads back.\<close>

definition input_flag_options :: "int32 list" where
  "input_flag_options = [opt_ignore_interrupts, opt_only_update_on_change, opt_connection_required,
     opt_connection_optional, opt_single_connection_only, opt_multiple_connections_allowed,
     opt_strict_type_checking]"

definition publication_flag_options :: "int32 list" where
  "publication_flag_options = [opt_only_transmit_on_change, opt_connection_required,
     opt_connection_optional, opt_single_connection_only, opt_buffer_data]"

lemma setInputProperty_find:
  assumes "container_laws K" "if_getInput K h s = Some i" "input_with_option opt v i = Some i'"
  shows "setInputProperty K h opt v s = (True, put_input K h i' s)"
    and "if_getInput K h (put_input K h i' s) = Some i'"
  using assms by (simp_all add: setInputProperty_def getInput_put)

lemma setPublicationProperty_find:
  assumes "container_laws K" "if_getPublication K h s = Some p" "publication_with_option opt v p = Some p'"
  shows "setPublicationProperty K h opt v s = (True, put_publication K h p' s)"
    and "if_getPublication K h (put_publication K h p' s) = Some p'"
  using assms by (simp_all add: setPublicationProperty_def getPublication_put)

lemma input_option_known: "opt \<in> set input_flag_options \<Longrightarrow> \<exists>i'. input_with_option opt v i = Some i'"
  by (auto simp: input_flag_options_def input_with_option_def Let_def)

lemma publication_option_known:
  "opt \<in> set publication_flag_options \<Longrightarrow> \<exists>p'. publication_with_option opt v p = Some p'"
  by (auto simp: publication_flag_options_def publication_with_option_def Let_def)

lemma input_option_read:
  assumes "container_laws K" "if_getInput K h s = Some i" "opt \<in> set input_flag_options"
  shows "getInputProperty K h opt (snd (setInputProperty K h opt v s)) = (if v \<noteq> 0 then 1 else 0)"
proof -
  obtain i' where i': "input_with_option opt v i = Some i'"
    using input_option_known [OF assms(3)] by blast
  show ?thesis
    using i' assms(3) setInputProperty_find [OF assms(1,2) i']
    by (cases "v = 0")
      (auto simp: getInputProperty_def input_with_option_def input_flag_options_def option_defs Let_def)
qed

lemma publication_option_read:
  assumes "container_laws K" "if_getPublication K h s = Some p" "opt \<in> set publication_flag_options"
  shows "getPublicationProperty K h opt (snd (setPublicationProperty K h opt v s)) = (if v \<noteq> 0 then 1 else 0)"
proof -
  obtain p' where p': "publication_with_option opt v p = Some p'"
    using publication_option_known [OF assms(3)] by blast
  show ?thesis
    using p' assms(3) setPublicationProperty_find [OF assms(1,2) p']
    by (cases "v = 0")
      (auto simp: getPublicationProperty_def publication_with_option_def publication_flag_options_def
        option_defs Let_def)
qed

lemma setInputProperty_used:
  assumes "container_laws K" "if_getInput K h s = Some i" "opt \<in> set input_flag_options"
  shows "fst (setInputProperty K h opt v s)"
    and "h' \<noteq> h \<Longrightarrow> if_getInput K h' (snd (setInputProperty K h opt v s)) = if_getInput K h' s"
  using input_option_known [OF assms(3), of v i] assms(1,2)
  by (auto simp: setInputProperty_find getInput_put)

lemma setPublicationProperty_used:
  assumes "container_laws K" "if_getPublication K h s = Some p" "opt \<in> set publication_flag_options"
  shows "fst (setPublicationProperty K h opt v s)"
    and "h' \<noteq> h \<Longrightarrow> if_getPublication K h' (snd (setPublicationProperty K h opt v s)) = if_getPublication K h' s"
  using publication_option_known [OF assms(3), of v p] assms(1,2)
  by (auto simp: setPublicationProperty_find getPublication_put)

definition two_interfaces ::
  "(PublicationInfo entries, ticks EndpointInfo entries, ticks InputInfo entries) InterfaceInfo" where
  "two_interfaces =
     createInput list_containers (Interface_Handle 1) ''in'' ''double'' ''m''
       (createPublication list_containers (Interface_Handle 0) ''out'' ''double'' ''m''
          (InterfaceInfo_default list_containers))"

lemma two_interfaces_find:
  "\<exists>p. if_getPublication list_containers (Interface_Handle 0) two_interfaces = Some p \<and> subscribers p = []"
  "\<exists>i. if_getInput list_containers (Interface_Handle 1) two_interfaces = Some i"
  by (simp_all add: two_interfaces_def createInput_def createPublication_def InterfaceInfo_default_def
      list_containers_def list_vector_def if_getPublication_def if_getInput_def mk_PublicationInfo_def)

text \<open>An option set on an input or a publication is read back with the value it was given, for every
  option kept as a flag but those of the next property, and nothing changes for another interface.\<close>

lemma interface_options_roundtrip:
  assumes "container_laws K" "if_getInput K h s = Some i" "if_getPublication K g s = Some p"
    and "opt \<in> set input_flag_options" "popt \<in> set publication_flag_options"
  shows "fst (setInputProperty K h opt v s) \<and> fst (setPublicationProperty K g popt v s) \<and>
    getInputProperty K h opt (snd (setInputProperty K h opt v s)) = (if v \<noteq> 0 then 1 else 0) \<and>
    getPublicationProperty K g popt (snd (setPublicationProperty K g popt v s)) = (if v \<noteq> 0 then 1 else 0) \<and>
    (h' \<noteq> h \<longrightarrow> if_getInput K h' (snd (setInputProperty K h opt v s)) = if_getInput K h' s) \<and>
    (g' \<noteq> g \<longrightarrow> if_getPublication K g' (snd (setPublicationProperty K g popt v s)) = if_getPublication K g' s)"
  using setInputProperty_used [OF assms(1,2,4)] setPublicationProperty_used [OF assms(1,3,5)]
    input_option_read [OF assms(1,2,4)] publication_option_read [OF assms(1,3,5)] by blast

lemma interface_options_roundtrip_example:
  "getInputProperty list_containers (Interface_Handle 1) opt_multiple_connections_allowed
     (snd (setInputProperty list_containers (Interface_Handle 1) opt_multiple_connections_allowed 0 two_interfaces)) = 0"
proof -
  obtain p i where pi: "if_getPublication list_containers (Interface_Handle 0) two_interfaces = Some p"
      "if_getInput list_containers (Interface_Handle 1) two_interfaces = Some i"
    using two_interfaces_find by blast
  show ?thesis
    using interface_options_roundtrip [OF list_containers_laws pi(2,1),
        of opt_multiple_connections_allowed opt_buffer_data 0]
    by (simp add: input_flag_options_def publication_flag_options_def)
qed

text \<open>Two options do not behave that way. Allowing multiple connections on a publication makes it
  require exactly one, is read back as not allowed, and makes the check before initialization reject
  a publication with several subscribers; and ignoring unit mismatches on an input always reads
  back as zero.\<close>

lemma interface_options_misread:
  assumes "container_laws K" "if_getInput K h s = Some i" "if_getPublication K g s = Some p" "v \<noteq> 0"
  shows "getPublicationProperty K g opt_multiple_connections_allowed
      (snd (setPublicationProperty K g opt_multiple_connections_allowed v s)) = 0 \<and>
    (\<exists>p'. if_getPublication K g (snd (setPublicationProperty K g opt_multiple_connections_allowed v s)) = Some p' \<and>
       subscribers p' = subscribers p \<and> (1 < length (subscribers p) \<longrightarrow> publication_issues F p' \<noteq> [])) \<and>
    getInputProperty K h opt_ignore_unit_mismatch
      (snd (setInputProperty K h opt_ignore_unit_mismatch v s)) = 0"
proof -
  let ?p = "p\<lparr> required_connections := 1 \<rparr>" and ?i = "i\<lparr> ignore_unit_mismatch := True \<rparr>"
  have p: "publication_with_option opt_multiple_connections_allowed v p = Some ?p"
    using assms(4) by (simp add: publication_with_option_def option_defs)
  have i: "input_with_option opt_ignore_unit_mismatch v i = Some ?i"
    using assms(4) by (simp add: input_with_option_def option_defs)
  show ?thesis
    using setPublicationProperty_find [OF assms(1,3) p] setInputProperty_find [OF assms(1,2) i]
    by (auto simp: getPublicationProperty_def getInputProperty_def option_defs publication_issues_def)
qed

lemma interface_options_misread_example:
  "getPublicationProperty list_containers (Interface_Handle 0) opt_multiple_connections_allowed
     (snd (setPublicationProperty list_containers (Interface_Handle 0) opt_multiple_connections_allowed 1
             two_interfaces)) = 0"
proof -
  obtain p i where pi: "if_getPublication list_containers (Interface_Handle 0) two_interfaces = Some p"
      "if_getInput list_containers (Interface_Handle 1) two_interfaces = Some i"
    using two_interfaces_find by blast
  show ?thesis
    using interface_options_misread [OF list_containers_laws pi(2,1), of 1] by simp
qed

section \<open>Interfaces without issues\<close>

definition right_count :: "int32 \<Rightarrow> 'a list \<Rightarrow> bool" where
  "right_count required xs \<longleftrightarrow> sint required \<le> 0 \<or> int (length xs) = sint required"

definition input_connected :: "'u unit_library \<Rightarrow> 't InputInfo \<Rightarrow> bool" where
  "input_connected U i \<longleftrightarrow> (inp_required i \<longrightarrow> has_target i) \<and> right_count (required_connnections i) (input_sources i) \<and>
     (\<forall>src\<in>set (source_info i). checkTypeMatch (inp_type i) (src_type src) (strict_type_matching i) \<and>
        (ignore_unit_mismatch i \<or> checkUnitMatch U (inp_units i) (src_units src) False))"

definition publication_connected :: "PublicationInfo \<Rightarrow> bool" where
  "publication_connected p \<longleftrightarrow>
     (pub_required p \<longrightarrow> subscribers p \<noteq> []) \<and> right_count (required_connections p) (subscribers p)"

lemma input_issues_none: "input_issues U F i = [] \<longleftrightarrow> input_connected U i"
proof -
  have "input_connection_issues F i = [] \<longleftrightarrow>
      (inp_required i \<longrightarrow> has_target i) \<and> right_count (required_connnections i) (input_sources i)"
    by (auto simp: input_connection_issues_def right_count_def split: if_splits)
  then show ?thesis
    by (auto simp: input_issues_def input_connected_def source_issues_def)
qed

lemma publication_issues_none: "publication_issues F p = [] \<longleftrightarrow> publication_connected p"
  by (auto simp: publication_issues_def publication_connected_def right_count_def split: if_splits)

lemma no_issues:
  "checkInterfacesForIssues U F K s = [] \<longleftrightarrow>
     list_all (input_connected U) (dv_elems (input_ops K) (inputs s)) \<and>
     list_all publication_connected (dv_elems (publication_ops K) (publications s))"
  by (simp add: checkInterfacesForIssues_def input_issues_none publication_issues_none list_all_iff)

lemma issue_codes: "(c, m) \<in> set (checkInterfacesForIssues U F K s) \<Longrightarrow> c = connection_failure"
  by (auto simp: checkInterfacesForIssues_def input_issues_def input_connection_issues_def source_issues_def
      publication_issues_def split: if_splits)

end
