(* ===== verification/Time_Dependencies.thy ===== *)
theory Time_Dependencies
  imports Action_Message
begin

text \<open>
  What a coordinator knows of the federates it waits for (\<open>TimeDependencies.hpp\<close>,
  \<open>TimeDependencies.cpp\<close>): one record per dependency, updated by the timing messages of that
  federate, in a vector ordered by federate identifier.
\<close>

section \<open>One dependency\<close>

datatype time_state_t =
    initialized | exec_requested_iterative | exec_requested | time_granted
  | time_requested_iterative | time_requested | time_error

fun time_state_code :: "time_state_t \<Rightarrow> int" where
  "time_state_code initialized = 0"
| "time_state_code exec_requested_iterative = 1"
| "time_state_code exec_requested = 2"
| "time_state_code time_granted = 3"
| "time_state_code time_requested_iterative = 4"
| "time_state_code time_requested = 5"
| "time_state_code time_error = 7"

record 't DependencyInfo =
  fedID :: global_federate_id
  minFed :: global_federate_id
  time_state :: time_state_t
  cyclic :: bool
  Tnext :: 't
  dep_Te :: 't
  dep_Tdemin :: 't
  forwardEvent :: 't

definition mk_DependencyInfo :: "('t::linorder) time_rep \<Rightarrow> global_federate_id \<Rightarrow> 't DependencyInfo" where
  "mk_DependencyInfo T fed =
     \<lparr> fedID = fed, minFed = default_global_federate_id, time_state = initialized, cyclic = False,
       Tnext = negEpsilon T, dep_Te = timeZero T, dep_Tdemin = timeZero T, forwardEvent = maxVal T \<rparr>"

text \<open>The branch of \<open>ProcessMessage\<close> for a message on its way to the dependency.\<close>

definition process_send ::
  "'t::linorder ActionMessage \<Rightarrow> 't DependencyInfo \<Rightarrow> bool \<times> 't DependencyInfo" where
  "process_send m d =
     (if time_state d = time_granted
      then (False, if actionTime m < forwardEvent d then d\<lparr> forwardEvent := actionTime m \<rparr> else d)
      else if actionTime m \<ge> Tnext d
      then if actionTime m < dep_Te d
           then let te = max (Tnext d) (actionTime m)
                in (True, d\<lparr> dep_Te := te,
                             dep_Tdemin := (if te < dep_Tdemin d then te else dep_Tdemin d) \<rparr>)
           else (False, d)
      else if Tnext d < dep_Te d
           then (True, d\<lparr> dep_Te := Tnext d,
                          dep_Tdemin := (if Tnext d < dep_Tdemin d then Tnext d else dep_Tdemin d) \<rparr>)
           else (False, d))"

text \<open>The branch for a time request: a predicted event may come before the event announced.\<close>

definition dep_time_request ::
  "('t::linorder) time_rep \<Rightarrow> 't ActionMessage \<Rightarrow> 't DependencyInfo \<Rightarrow> 't DependencyInfo" where
  "dep_time_request T m d =
     (let te = (if forwardEvent d < Te m then forwardEvent d else Te m)
      in d\<lparr> time_state := (if checkActionFlag (flags m) iteration_requested_flag
                            then time_requested_iterative else time_requested),
            Tnext := actionTime m,
            dep_Te := te,
            dep_Tdemin := (if te < Tdemin m then te else Tdemin m),
            forwardEvent := maxVal T,
            minFed := Global_Federate_Id (hid (source_handle m)) \<rparr>)"

definition process_leave ::
  "('t::linorder) time_rep \<Rightarrow> time_state_t \<Rightarrow> 't DependencyInfo \<Rightarrow> 't DependencyInfo" where
  "process_leave T st d =
     d\<lparr> time_state := st, Tnext := maxVal T, dep_Te := maxVal T, dep_Tdemin := maxVal T,
        minFed := default_global_federate_id \<rparr>"

definition leaving_actions :: "action_t list" where
  "leaving_actions = [cmd_disconnect, cmd_priority_disconnect, cmd_broadcast_disconnect,
     cmd_disconnect_core, cmd_disconnect_broker, cmd_disconnect_fed]"

definition ProcessMessage ::
  "('t::linorder) time_rep \<Rightarrow> 't ActionMessage \<Rightarrow> 't DependencyInfo \<Rightarrow> bool \<times> 't DependencyInfo" where
  "ProcessMessage T m d =
     (if messageAction m = cmd_exec_request
      then (True, d\<lparr> time_state := (if checkActionFlag (flags m) iteration_requested_flag
                                     then exec_requested_iterative else exec_requested) \<rparr>)
      else if messageAction m = cmd_exec_grant
      then (True, if \<not> checkActionFlag (flags m) iteration_requested_flag
                  then d\<lparr> time_state := time_granted, Tnext := timeZero T,
                          dep_Tdemin := timeZero T, dep_Te := timeZero T \<rparr>
                  else d\<lparr> time_state := initialized \<rparr>)
      else if messageAction m = cmd_time_request
      then (True, dep_time_request T m d)
      else if messageAction m = cmd_time_grant
      then (True, d\<lparr> time_state := time_granted, Tnext := actionTime m, dep_Te := actionTime m,
                     dep_Tdemin := actionTime m,
                     minFed := Global_Federate_Id (hid (source_handle m)) \<rparr>)
      else if messageAction m \<in> set leaving_actions
      then (True, process_leave T time_granted d)
      else if messageAction m = cmd_local_error \<or> messageAction m = cmd_global_error
      then (True, process_leave T time_error d)
      else if messageAction m = cmd_send_message
      then process_send m d
      else (False, d))"

section \<open>The set of dependencies\<close>

type_synonym 't TimeDependencies = "'t DependencyInfo list"

definition getDependencyInfo :: "global_federate_id \<Rightarrow> 't TimeDependencies \<Rightarrow> 't DependencyInfo option" where
  "getDependencyInfo fed deps = map_option (\<lambda>i. deps ! i) (vec_find fedID deps fed)"

definition isDependency :: "global_federate_id \<Rightarrow> 't TimeDependencies \<Rightarrow> bool" where
  "isDependency ofed deps =
     (let res = lower_bound fedID deps ofed
      in if res = length deps then False else fedID (deps ! res) = ofed)"

definition addDependency ::
  "('t::linorder) time_rep \<Rightarrow> global_federate_id \<Rightarrow> 't TimeDependencies \<Rightarrow> bool \<times> 't TimeDependencies" where
  "addDependency T fed deps = vec_insert fedID (mk_DependencyInfo T) fed deps"

definition removeDependency :: "global_federate_id \<Rightarrow> 't TimeDependencies \<Rightarrow> 't TimeDependencies" where
  "removeDependency fed deps = vec_erase fedID fed deps"

definition updateTime ::
  "('t::linorder) time_rep \<Rightarrow> 't ActionMessage \<Rightarrow> 't TimeDependencies \<Rightarrow> bool \<times> 't TimeDependencies" where
  "updateTime T m deps =
     (let dependency_id = (if messageAction m \<noteq> cmd_send_message then source_id m else dest_id m)
      in case vec_find fedID deps dependency_id of
           None \<Rightarrow> (False, deps)
         | Some i \<Rightarrow> let (res, d) = ProcessMessage T m (deps ! i) in (res, deps[i := d]))"

definition checkIfReadyForExecEntry :: "bool \<Rightarrow> 't TimeDependencies \<Rightarrow> bool" where
  "checkIfReadyForExecEntry iterating deps =
     (if iterating then list_all (\<lambda>dep. time_state dep \<noteq> initialized) deps
      else list_all (\<lambda>dep. \<not> time_state_code (time_state dep) < time_state_code exec_requested) deps)"

definition hasActiveTimeDependencies :: "('t::linorder) time_rep \<Rightarrow> 't TimeDependencies \<Rightarrow> bool" where
  "hasActiveTimeDependencies T deps =
     list_ex (\<lambda>dep. fed_isFederate (fedID dep) \<and> Tnext dep < maxVal T) deps"

definition resetIteratingExecRequests :: "'t TimeDependencies \<Rightarrow> 't TimeDependencies" where
  "resetIteratingExecRequests deps =
     map (\<lambda>dep. if time_state dep = exec_requested_iterative
                then dep\<lparr> time_state := initialized \<rparr> else dep) deps"

fun ready_iterating :: "'t::linorder \<Rightarrow> 't TimeDependencies \<Rightarrow> bool" where
  "ready_iterating desiredGrantTime [] = True"
| "ready_iterating desiredGrantTime (dep # deps) =
     (if Tnext dep < desiredGrantTime then False
      else if Tnext dep = desiredGrantTime \<and> time_state dep = time_granted then False
      else ready_iterating desiredGrantTime deps)"

fun ready_single :: "'t::linorder \<Rightarrow> 't TimeDependencies \<Rightarrow> bool" where
  "ready_single desiredGrantTime [] = True"
| "ready_single desiredGrantTime (dep # deps) =
     (if Tnext dep < desiredGrantTime then False
      else if Tnext dep = desiredGrantTime
      then if time_state dep = time_granted then False else ready_single desiredGrantTime deps
      else ready_single desiredGrantTime deps)"

definition checkIfReadyForTimeGrant :: "bool \<Rightarrow> 't::linorder \<Rightarrow> 't TimeDependencies \<Rightarrow> bool" where
  "checkIfReadyForTimeGrant iterating desiredGrantTime deps =
     (if iterating then ready_iterating desiredGrantTime deps else ready_single desiredGrantTime deps)"

definition resetIteratingTimeRequests :: "'t \<Rightarrow> 't TimeDependencies \<Rightarrow> 't TimeDependencies" where
  "resetIteratingTimeRequests requestTime deps =
     map (\<lambda>dep. if time_state dep = time_requested_iterative
                then if Tnext dep = requestTime
                     then dep\<lparr> time_state := time_granted, dep_Te := requestTime,
                               dep_Tdemin := requestTime \<rparr>
                     else dep
                else dep) deps"

definition resetDependentEvents :: "'t::linorder \<Rightarrow> 't TimeDependencies \<Rightarrow> 't TimeDependencies" where
  "resetDependentEvents grantTime deps =
     map (\<lambda>dep. dep\<lparr> dep_Te := max (Tnext dep) grantTime, dep_Tdemin := max (Tnext dep) grantTime \<rparr>)
       deps"

section \<open>Lemmas on one dependency\<close>

text \<open>The identity of a dependency is fixed, and its earliest event is never after its next one.\<close>

definition dep_ok :: "('t::linorder) DependencyInfo \<Rightarrow> bool" where
  "dep_ok d \<longleftrightarrow> dep_Tdemin d \<le> dep_Te d"

lemma ProcessMessage_fedID [simp]: "fedID (snd (ProcessMessage T m d)) = fedID d"
  by (simp add: ProcessMessage_def process_send_def dep_time_request_def process_leave_def Let_def)

lemma process_send_ok: "dep_ok d \<Longrightarrow> dep_ok (snd (process_send m d))"
  by (auto simp: dep_ok_def process_send_def Let_def)

lemma ProcessMessage_ok: "dep_ok d \<Longrightarrow> dep_ok (snd (ProcessMessage T m d))"
  using process_send_ok [of d m]
  by (auto simp: ProcessMessage_def dep_ok_def dep_time_request_def process_leave_def Let_def)

lemma dep_ok_new: "dep_ok (mk_DependencyInfo T fed)"
  by (simp add: dep_ok_def mk_DependencyInfo_def)

lemma fedID_mk [simp]: "fedID (mk_DependencyInfo T fed) = fed"
  by (simp add: mk_DependencyInfo_def)

lemma ProcessMessage_leave:
  "messageAction m \<in> set leaving_actions \<Longrightarrow> ProcessMessage T m d = (True, process_leave T time_granted d)"
  by (auto simp: ProcessMessage_def leaving_actions_def cmd_defs)

section \<open>Lemmas on the set of dependencies\<close>

abbreviation dep_ids :: "'t TimeDependencies \<Rightarrow> global_federate_id list" where
  "dep_ids deps \<equiv> map fedID deps"

interpretation dep_reg: id_registry "addDependency T" removeDependency dep_ids for T
  by unfold_locales
    (simp_all add: addDependency_def removeDependency_def vec_insert_spec [where mk = "mk_DependencyInfo T"]
      vec_erase_spec)

definition deps_ok :: "('t::linorder) TimeDependencies \<Rightarrow> bool" where
  "deps_ok deps \<longleftrightarrow> strictly_sorted (dep_ids deps) \<and> list_all dep_ok deps"

lemma deps_ok_sorted: "deps_ok deps \<Longrightarrow> strictly_sorted (dep_ids deps)"
  by (simp add: deps_ok_def)

lemma isDependency_iff:
  "strictly_sorted (dep_ids deps) \<Longrightarrow> isDependency fed deps \<longleftrightarrow> fed \<in> set (dep_ids deps)"
  using lower_bound_found [of fedID deps fed] lower_bound_le [of fedID deps fed]
  by (auto simp: isDependency_def Let_def)

lemma getDependencyInfo_Some:
  "getDependencyInfo fed deps = Some d \<Longrightarrow> d \<in> set deps \<and> fedID d = fed"
  using vec_find_Some by (fastforce simp: getDependencyInfo_def)

lemma getDependencyInfo_iff:
  assumes "strictly_sorted (dep_ids deps)"
  shows "getDependencyInfo fed deps = Some d \<longleftrightarrow> d \<in> set deps \<and> fedID d = fed"
proof
  assume "d \<in> set deps \<and> fedID d = fed"
  then show "getDependencyInfo fed deps = Some d"
    using vec_find_nth [OF assms] by (auto simp: getDependencyInfo_def in_set_conv_nth)
qed (rule getDependencyInfo_Some)

definition msg_dependency :: "'t ActionMessage \<Rightarrow> global_federate_id" where
  "msg_dependency m = (if messageAction m \<noteq> cmd_send_message then source_id m else dest_id m)"

lemma updateTime_cases:
  "updateTime T m deps = (False, deps) \<and> vec_find fedID deps (msg_dependency m) = None
   \<or> (\<exists>i. vec_find fedID deps (msg_dependency m) = Some i \<and> i < length deps
        \<and> fedID (deps ! i) = msg_dependency m
        \<and> updateTime T m deps = (fst (ProcessMessage T m (deps ! i)),
             deps[i := snd (ProcessMessage T m (deps ! i))]))"
  by (cases "vec_find fedID deps (msg_dependency m)")
    (auto simp: updateTime_def msg_dependency_def split_beta dest: vec_find_Some)

lemma updateTime_ids [simp]: "dep_ids (snd (updateTime T m deps)) = dep_ids deps"
  using updateTime_cases [of T m deps] by (auto simp: map_update list_update_same_conv)

lemma updateTime_ok:
  assumes "list_all dep_ok deps"
  shows "list_all dep_ok (snd (updateTime T m deps))"
  using updateTime_cases [of T m deps] assms
  by (auto simp: list_all_iff ProcessMessage_ok dest!: set_update_subset_insert [THEN subsetD])

lemma updateTime_other:
  assumes "strictly_sorted (dep_ids deps)"
  shows "getDependencyInfo fed (snd (updateTime T m deps))
    = (if fed = msg_dependency m
       then map_option (\<lambda>d. snd (ProcessMessage T m d)) (getDependencyInfo fed deps)
       else getDependencyInfo fed deps)"
proof -
  have find: "vec_find fedID (snd (updateTime T m deps)) fed = vec_find fedID deps fed"
    by (rule vec_find_cong) simp
  show ?thesis
    using updateTime_cases [of T m deps] find
    by (cases "vec_find fedID deps fed")
      (auto simp: getDependencyInfo_def nth_list_update dest: vec_find_Some)
qed

lemma ready_iff:
  "checkIfReadyForTimeGrant iterating t deps
     \<longleftrightarrow> (\<forall>d \<in> set deps. t < Tnext d \<or> (Tnext d = t \<and> time_state d \<noteq> time_granted))"
proof -
  have "ready_iterating t deps \<longleftrightarrow> (\<forall>d \<in> set deps. t < Tnext d \<or> (Tnext d = t \<and> time_state d \<noteq> time_granted))"
    by (induction deps) auto
  moreover have "ready_single t deps = ready_iterating t deps"
    by (induction deps) auto
  ultimately show ?thesis
    by (simp add: checkIfReadyForTimeGrant_def)
qed


lemma ready_earlier:
  "checkIfReadyForTimeGrant it t deps \<Longrightarrow> t' < t \<Longrightarrow> checkIfReadyForTimeGrant it' t' deps"
  by (auto simp: ready_iff)

lemma map_keeps_ids: "(\<And>d. fedID (f d) = fedID d) \<Longrightarrow> dep_ids (map f deps) = dep_ids deps"
  by simp

lemma reset_ids [simp]:
  "dep_ids (resetIteratingExecRequests deps) = dep_ids deps"
  "dep_ids (resetIteratingTimeRequests t deps) = dep_ids deps"
  "dep_ids (resetDependentEvents t deps) = dep_ids deps"
  by (simp_all add: resetIteratingExecRequests_def resetIteratingTimeRequests_def
      resetDependentEvents_def comp_def)

lemma reset_ok:
  "list_all dep_ok deps \<Longrightarrow> list_all dep_ok (resetIteratingExecRequests deps)"
  "list_all dep_ok deps \<Longrightarrow> list_all dep_ok (resetIteratingTimeRequests t deps)"
  "list_all dep_ok (resetDependentEvents t deps)"
  by (auto simp: list_all_iff dep_ok_def resetIteratingExecRequests_def
      resetIteratingTimeRequests_def resetDependentEvents_def)

lemma addDependency_ok:
  assumes "strictly_sorted (dep_ids deps)" and "list_all dep_ok deps"
  shows "list_all dep_ok (snd (addDependency T fed deps))"
  using assms
  by (auto simp: addDependency_def vec_insert_alt [where mk = "mk_DependencyInfo T"] list_all_iff
      set_insert_at dep_ok_new)

lemma removeDependency_ok:
  "list_all dep_ok deps \<Longrightarrow> list_all dep_ok (removeDependency fed deps)"
  using set_erase_at_subset by (fastforce simp: removeDependency_def vec_erase_def Let_def list_all_iff)

text \<open>Everything a coordinator does to its dependencies, as one step function.\<close>

datatype 't dep_op = Dep_Add global_federate_id | Dep_Remove global_federate_id
  | Dep_Update "'t ActionMessage" | Dep_ResetExec | Dep_ResetTime 't | Dep_ResetEvents 't

fun dep_step :: "('t::linorder) time_rep \<Rightarrow> 't TimeDependencies \<Rightarrow> 't dep_op \<Rightarrow> 't TimeDependencies" where
  "dep_step T deps (Dep_Add fed) = snd (addDependency T fed deps)"
| "dep_step T deps (Dep_Remove fed) = removeDependency fed deps"
| "dep_step T deps (Dep_Update m) = snd (updateTime T m deps)"
| "dep_step T deps Dep_ResetExec = resetIteratingExecRequests deps"
| "dep_step T deps (Dep_ResetTime t) = resetIteratingTimeRequests t deps"
| "dep_step T deps (Dep_ResetEvents t) = resetDependentEvents t deps"

lemma dep_step_ok: "deps_ok deps \<Longrightarrow> deps_ok (dep_step T deps e)"
  by (cases e) (auto simp: deps_ok_def dep_reg.add_sorted dep_reg.remove_sorted addDependency_ok
      removeDependency_ok updateTime_ok reset_ok simp del: map_map)

interpretation dep_machine: inv_machine "dep_step T" deps_ok for T
  by unfold_locales (rule dep_step_ok)

text \<open>C33: whatever additions, removals, messages and resets a coordinator applies to an empty set of
  dependencies, in any order, the vector stays strictly ordered by federate, which every binary
  search in it relies on, and no dependency's earliest dependent event lies after its next event.\<close>

theorem dependencies_invariant:
  "strictly_sorted (map fedID (foldl (dep_step T) [] es))
   \<and> list_all (\<lambda>d. dep_Tdemin d \<le> dep_Te d) (foldl (dep_step T) [] es)"
proof -
  have "deps_ok (foldl (dep_step T) [] es)"
    by (rule dep_machine.run_inv) (simp add: deps_ok_def)
  then show ?thesis
    by (auto simp: deps_ok_def list_all_iff dep_ok_def)
qed

text \<open>Registering and removing dependencies in any order refines the corresponding operations on a
  set of federates, and \<open>isDependency\<close> decides membership of that set.\<close>

lemma dependency_registry_refines:
  "isDependency fed (foldl (\<lambda>deps op. case op of Reg_Add k \<Rightarrow> snd (addDependency T k deps)
        | Reg_Remove k \<Rightarrow> removeDependency k deps) [] ops)
   \<longleftrightarrow> fed \<in> foldl reg_spec {} ops"
  using dep_reg.run_refines [of "[]" T ops] by (simp add: isDependency_iff)

text \<open>In an ordered vector a message changes the record of exactly one dependency, the sender (or
  the destination, for a message on its way), by \<open>ProcessMessage\<close>; all others stay as they are.\<close>

lemma updateTime_local:
  assumes "strictly_sorted (map fedID deps)"
  shows "getDependencyInfo fed (snd (updateTime T m deps))
    = (if fed = (if messageAction m \<noteq> cmd_send_message then source_id m else dest_id m)
       then map_option (\<lambda>d. snd (ProcessMessage T m d)) (getDependencyInfo fed deps)
       else getDependencyInfo fed deps)"
  using updateTime_other [OF assms, of fed T m] by (simp add: msg_dependency_def)

definition two_deps :: "ticks TimeDependencies" where
  "two_deps = [mk_DependencyInfo tick_rep (Global_Federate_Id 131073), mk_DependencyInfo tick_rep (Global_Federate_Id 131074)]"

definition grant_at :: "int32 \<Rightarrow> uint64 \<Rightarrow> ticks ActionMessage" where
  "grant_at fed t = (mk_message tick_rep cmd_time_grant)\<lparr> source_id := Global_Federate_Id fed, actionTime := Ticks t \<rparr>"

lemma two_deps_sorted: "strictly_sorted (map fedID two_deps)"
  by (simp add: two_deps_def less_global_federate_id_def)

lemma updateTime_local_example:
  "getDependencyInfo (Global_Federate_Id 131074) (snd (updateTime tick_rep (grant_at 131073 5) two_deps))
    = getDependencyInfo (Global_Federate_Id 131074) two_deps"
  by (subst updateTime_local [OF two_deps_sorted]) (simp add: grant_at_def mk_message_def cmd_defs)

text \<open>The two branches of \<open>checkIfReadyForTimeGrant\<close> agree: a time can be granted exactly when every
  dependency can next act after it, or at it without having been granted that time already. So
  readiness for a time implies readiness for every earlier one.\<close>

lemma ready_for_grant_spec:
  "checkIfReadyForTimeGrant iterating t deps
     = list_all (\<lambda>d. t < Tnext d \<or> Tnext d = t \<and> time_state d \<noteq> time_granted) deps
   \<and> (t' < t \<and> checkIfReadyForTimeGrant iterating t deps \<longrightarrow> checkIfReadyForTimeGrant iterating' t' deps)"
  using ready_earlier by (auto simp: ready_iff list_all_iff)

lemma ready_for_grant_spec_example:
  "checkIfReadyForTimeGrant False (Ticks (- 1)) two_deps \<and> checkIfReadyForTimeGrant True (Ticks (- 2)) two_deps"
proof -
  have "checkIfReadyForTimeGrant False (Ticks (- 1)) two_deps"
    by (simp add: two_deps_def checkIfReadyForTimeGrant_def mk_DependencyInfo_def negEpsilon_def tick_rep_def)
  then show ?thesis
    using ready_for_grant_spec [of False "Ticks (- 1)" two_deps "Ticks (- 2)" True] by simp
qed

section \<open>Interface: a tracker of dependencies and dependents\<close>

text \<open>
  The contract of \<open>processDependencyUpdateMessage\<close> in both coordinators: the six commands that add
  and remove dependencies, dependents, or both at once, seen as operations on two sets of federates.
\<close>

definition dependency_spec :: "'t ActionMessage \<Rightarrow> global_federate_id set \<Rightarrow> global_federate_id set" where
  "dependency_spec m A =
     (if messageAction m = cmd_add_dependency \<or> messageAction m = cmd_add_interdependency
      then insert (source_id m) A
      else if messageAction m = cmd_remove_dependency \<or> messageAction m = cmd_remove_interdependency
      then A - {source_id m} else A)"

definition dependent_spec :: "'t ActionMessage \<Rightarrow> global_federate_id set \<Rightarrow> global_federate_id set" where
  "dependent_spec m A =
     (if messageAction m = cmd_add_dependent \<or> messageAction m = cmd_add_interdependency
      then insert (source_id m) A
      else if messageAction m = cmd_remove_dependent \<or> messageAction m = cmd_remove_interdependency
      then A - {source_id m} else A)"

lemma dependency_spec_cases:
  "(\<forall>A. dependency_spec m A = insert (source_id m) A) \<or> (\<forall>A. dependency_spec m A = A - {source_id m})
    \<or> (\<forall>A. dependency_spec m A = A)"
  by (simp add: dependency_spec_def)

lemma dependent_spec_cases:
  "(\<forall>A. dependent_spec m A = insert (source_id m) A) \<or> (\<forall>A. dependent_spec m A = A - {source_id m})
    \<or> (\<forall>A. dependent_spec m A = A)"
  by (simp add: dependent_spec_def)

lemma specs_commute:
  assumes "source_id m \<noteq> source_id m'"
  shows "dependency_spec m (dependency_spec m' A) = dependency_spec m' (dependency_spec m A)"
    and "dependent_spec m (dependent_spec m' A) = dependent_spec m' (dependent_spec m A)"
proof -
  show "dependency_spec m (dependency_spec m' A) = dependency_spec m' (dependency_spec m A)"
    using dependency_spec_cases [of m] dependency_spec_cases [of m'] assms by (elim disjE) auto
  show "dependent_spec m (dependent_spec m' A) = dependent_spec m' (dependent_spec m A)"
    using dependent_spec_cases [of m] dependent_spec_cases [of m'] assms by (elim disjE) auto
qed

locale dependency_tracker =
  fixes update :: "'t ActionMessage \<Rightarrow> 's \<Rightarrow> 's"
    and deps :: "'s \<Rightarrow> global_federate_id set"
    and dents :: "'s \<Rightarrow> global_federate_id set"
    and ok :: "'s \<Rightarrow> bool"
  assumes ok_update: "ok s \<Longrightarrow> ok (update m s)"
    and deps_update: "ok s \<Longrightarrow> deps (update m s) = dependency_spec m (deps s)"
    and dents_update: "ok s \<Longrightarrow> dents (update m s) = dependent_spec m (dents s)"
begin

lemma run_tracks:
  "ok s \<Longrightarrow> ok (foldl (\<lambda>s m. update m s) s ms)
     \<and> deps (foldl (\<lambda>s m. update m s) s ms) = foldl (\<lambda>A m. dependency_spec m A) (deps s) ms
     \<and> dents (foldl (\<lambda>s m. update m s) s ms) = foldl (\<lambda>A m. dependent_spec m A) (dents s) ms"
  by (induction ms arbitrary: s) (simp_all add: ok_update deps_update dents_update)

lemma updates_commute:
  "ok s \<Longrightarrow> source_id m \<noteq> source_id m' \<Longrightarrow>
     deps (update m (update m' s)) = deps (update m' (update m s))
   \<and> dents (update m (update m' s)) = dents (update m' (update m s))"
  using specs_commute(1) [of m m' "deps s"] specs_commute(2) [of m m' "dents s"]
  by (simp add: deps_update dents_update ok_update)

lemma interdependency_both:
  assumes "ok s" and "messageAction m = cmd_add_interdependency" and "messageAction m1 = cmd_add_dependency"
    and "messageAction m2 = cmd_add_dependent" and "source_id m1 = source_id m" and "source_id m2 = source_id m"
  shows "deps (update m s) = deps (update m2 (update m1 s)) \<and> dents (update m s) = dents (update m2 (update m1 s))"
  using assms by (simp add: deps_update dents_update ok_update dependency_spec_def dependent_spec_def cmd_defs)

end

end
