(* ===== verification/Time_Coordinator.thy ===== *)
theory Time_Coordinator
  imports Time_Dependencies Message_Codec
begin

text \<open>
  The time coordinator of a federate (\<open>TimeCoordinator.hpp\<close>, \<open>TimeCoordinator.cpp\<close>). The state is
  the record \<open>TimeCoordinator\<close>; the calls of \<open>sendMessageFunction\<close> are appended to the field
  \<open>tc_sent\<close> in the order they are made. \<open>getNextPossibleTime\<close> contains a loop whose end depends on
  the time arithmetic, so it and everything that calls it has an option type: \<open>None\<close> is a call that
  does not return.
\<close>

section \<open>State\<close>

datatype message_process_result = no_effect | processed | delay_processing

record 't tcoptions =
  timeDelta :: 't
  inputDelay :: 't
  outputDelay :: 't
  offset :: 't
  period :: 't
  wait_for_current_time_updates :: bool
  uninterruptible :: bool
  restrictive_time_policy :: bool
  maxIterations :: int32

definition tcoptions_default :: "('t::linorder) time_rep \<Rightarrow> 't tcoptions" where
  "tcoptions_default T =
     \<lparr> timeDelta = epsilon T, inputDelay = timeZero T, outputDelay = timeZero T, offset = timeZero T,
       period = timeZero T, wait_for_current_time_updates = False, uninterruptible = False,
       restrictive_time_policy = False, maxIterations = 50 \<rparr>"

record 't TimeCoordinator =
  tc_time_granted :: 't
  tc_time_requested :: 't
  tc_time_next :: 't
  tc_time_minminDe :: 't
  tc_time_minDe :: 't
  tc_time_allow :: 't
  tc_time_exec :: 't
  tc_time_message :: 't
  tc_time_value :: 't
  tc_time_grantBase :: 't
  tc_time_block :: 't
  tc_dependent_federates :: "global_federate_id list"
  tc_dependency_federates :: "global_federate_id list"
  tc_dependencies :: "'t TimeDependencies"
  tc_dependents :: "global_federate_id list"
  tc_timeBlocks :: "('t \<times> int32) list"
  tc_info :: "'t tcoptions"
  tc_source_id :: global_federate_id
  tc_iterating :: iteration_request
  tc_checkingExec :: bool
  tc_executionMode :: bool
  tc_hasInitUpdates :: bool
  tc_iteration :: int32
  tc_disconnected :: bool
  tc_sent :: "'t ActionMessage list"

definition TimeCoordinator_default :: "('t::linorder) time_rep \<Rightarrow> 't TimeCoordinator" where
  "TimeCoordinator_default T =
     \<lparr> tc_time_granted = minVal T, tc_time_requested = maxVal T, tc_time_next = timeZero T,
       tc_time_minminDe = timeZero T, tc_time_minDe = timeZero T, tc_time_allow = minVal T,
       tc_time_exec = maxVal T, tc_time_message = maxVal T, tc_time_value = maxVal T,
       tc_time_grantBase = minVal T, tc_time_block = maxVal T, tc_dependent_federates = [],
       tc_dependency_federates = [], tc_dependencies = [], tc_dependents = [], tc_timeBlocks = [],
       tc_info = tcoptions_default T, tc_source_id = Global_Federate_Id 0,
       tc_iterating = no_iterations, tc_checkingExec = False, tc_executionMode = False,
       tc_hasInitUpdates = False, tc_iteration = 0, tc_disconnected = False, tc_sent = [] \<rparr>"

section \<open>Sending\<close>

definition sendMessage :: "'t ActionMessage \<Rightarrow> 't TimeCoordinator \<Rightarrow> 't TimeCoordinator" where
  "sendMessage m s = s\<lparr> tc_sent := tc_sent s @ [m] \<rparr>"

definition transmitTimingMessage :: "'t ActionMessage \<Rightarrow> 't TimeCoordinator \<Rightarrow> 't TimeCoordinator" where
  "transmitTimingMessage msg s =
     foldl (\<lambda>s dep. sendMessage (msg\<lparr> dest_id := dep \<rparr>) s) s (tc_dependents s)"

definition time_request_message :: "('t::linorder) time_rep \<Rightarrow> 't TimeCoordinator \<Rightarrow> 't ActionMessage" where
  "time_request_message T s =
     (let upd = (mk_message T cmd_time_request)
            \<lparr> source_id := tc_source_id s, actionTime := tc_time_next s,
              Te := (if tc_time_exec s \<noteq> maxVal T then t_add T (tc_time_exec s) (outputDelay (tc_info s))
                     else tc_time_exec s),
              Tdemin := (if tc_time_minDe s < tc_time_next s then tc_time_next s else tc_time_minDe s) \<rparr>
      in if tc_iterating s \<noteq> no_iterations
         then (setIterationFlags upd (tc_iterating s))\<lparr> counter := ucast (tc_iteration s) \<rparr>
         else upd)"

definition sendTimeRequest :: "('t::linorder) time_rep \<Rightarrow> 't TimeCoordinator \<Rightarrow> 't TimeCoordinator" where
  "sendTimeRequest T s = transmitTimingMessage (time_request_message T s) s"

definition enteringExecMode ::
  "('t::linorder) time_rep \<Rightarrow> iteration_request \<Rightarrow> 't TimeCoordinator \<Rightarrow> 't TimeCoordinator" where
  "enteringExecMode T mode s =
     (if tc_executionMode s then s
      else let s1 = s\<lparr> tc_iterating := mode, tc_checkingExec := True \<rparr>;
               execreq = (mk_message T cmd_exec_request)\<lparr> source_id := tc_source_id s1 \<rparr>;
               execreq' = (if tc_iterating s1 \<noteq> no_iterations then setIterationFlags execreq (tc_iterating s1)
                           else execreq)
           in transmitTimingMessage execreq' s1)"

section \<open>Possible times\<close>

definition generateAllowedTime ::
  "('t::linorder) time_rep \<Rightarrow> 't TimeCoordinator \<Rightarrow> 't \<Rightarrow> 't" where
  "generateAllowedTime T s testTime =
     (if period (tc_info s) > timeEpsilon T
      then if testTime = maxVal T then testTime
           else if t_sub T testTime (tc_time_grantBase s) > period (tc_info s)
           then t_add T (tc_time_grantBase s)
                  (t_blocks T (t_sub T testTime (tc_time_grantBase s)) (period (tc_info s)))
           else t_add T (tc_time_grantBase s) (period (tc_info s))
      else testTime)"

partial_function (option) step_periods ::
  "('t::linorder) time_rep \<Rightarrow> 't \<Rightarrow> 't \<Rightarrow> 't \<Rightarrow> 't option" where
  "step_periods T per bound retTime =
     (if retTime < bound then step_periods T per bound (t_add T retTime per) else Some retTime)"

definition getNextPossibleTime :: "('t::linorder) time_rep \<Rightarrow> 't TimeCoordinator \<Rightarrow> 't option" where
  "getNextPossibleTime T s =
     (let i = tc_info s
      in if tc_time_granted s = timeZero T
         then if offset i > timeDelta i then Some (offset i)
              else if offset i = timeZero T
              then Some (generateAllowedTime T s (max (timeDelta i) (period i)))
              else if period i \<le> epsilon T then Some (timeDelta i)
              else step_periods T (period i) (timeDelta i) (t_add T (offset i) (period i))
         else Some (generateAllowedTime T s
                (t_add T (tc_time_grantBase s) (max (timeDelta i) (period i)))))"

definition updateNextExecutionTime ::
  "('t::linorder) time_rep \<Rightarrow> 't TimeCoordinator \<Rightarrow> (bool \<times> 't TimeCoordinator) option" where
  "updateNextExecutionTime T s =
     (let cexec = tc_time_exec s
      in if uninterruptible (tc_info s)
         then Some (tc_time_requested s \<noteq> cexec, s\<lparr> tc_time_exec := tc_time_requested s \<rparr>)
         else do {
           let e1 = min (tc_time_message s) (tc_time_value s);
           let e2 = (if e1 < maxVal T then t_add T e1 (inputDelay (tc_info s)) else e1);
           let e3 = min (tc_time_requested s) e2;
           e4 \<leftarrow> (if e3 \<le> tc_time_granted s
                  then (if tc_iterating s = no_iterations then getNextPossibleTime T s
                        else Some (tc_time_granted s))
                  else Some e3);
           let e5 = (if t_sub T e4 (tc_time_granted s) > timeZero T then generateAllowedTime T s e4 else e4);
           Some (e5 \<noteq> cexec, s\<lparr> tc_time_exec := e5 \<rparr>)
         })"

definition updateNextPossibleEventTime ::
  "('t::linorder) time_rep \<Rightarrow> 't TimeCoordinator \<Rightarrow> 't TimeCoordinator option" where
  "updateNextPossibleEventTime T s =
     do {
       n1 \<leftarrow> (if tc_iterating s = no_iterations then getNextPossibleTime T s else Some (tc_time_granted s));
       if uninterruptible (tc_info s) then Some (s\<lparr> tc_time_next := tc_time_requested s \<rparr>)
       else do {
         let lower = t_add T (tc_time_minminDe s) (inputDelay (tc_info s));
         let n2 = (if tc_time_minminDe s < maxVal T \<and> \<not> restrictive_time_policy (tc_info s)
                   then if lower > n1 then generateAllowedTime T s lower else n1
                   else n1);
         Some (s\<lparr> tc_time_next := t_add T (min n2 (tc_time_exec s)) (outputDelay (tc_info s)) \<rparr>)
       }
     }"

text \<open>The three minima of the loop over the dependencies in \<open>updateTimeFactors\<close>.\<close>

definition factor_step ::
  "('t::linorder) time_rep \<Rightarrow> 't \<times> 't \<times> 't \<Rightarrow> 't DependencyInfo \<Rightarrow> 't \<times> 't \<times> 't" where
  "factor_step T acc dep =
     (let (minNext, minminDe, minDe) = acc
      in (if Tnext dep < minNext then Tnext dep else minNext,
          if dep_Tdemin dep \<ge> Tnext dep
          then (if dep_Tdemin dep < minminDe then dep_Tdemin dep else minminDe)
          else t_of_int T (- 1),
          if dep_Te dep < minDe then dep_Te dep else minDe))"

definition updateTimeFactors ::
  "('t::linorder) time_rep \<Rightarrow> 't TimeCoordinator \<Rightarrow> (bool \<times> 't TimeCoordinator) option" where
  "updateTimeFactors T s =
     (let m0 = min (tc_time_value s) (tc_time_message s);
          (minNext, minminDe, minDe) = foldl (factor_step T) (maxVal T, m0, m0) (tc_dependencies s);
          s1 = s\<lparr> tc_time_minminDe := min minDe minminDe \<rparr>;
          prev_next = tc_time_next s1
      in do {
        s2 \<leftarrow> updateNextPossibleEventTime T s1;
        let update1 = (prev_next \<noteq> tc_time_next s2);
        let minDe' = (if minDe < maxVal T
                      then t_add T (generateAllowedTime T s2 minDe) (outputDelay (tc_info s2)) else minDe);
        let update2 = (update1 \<or> minDe' \<noteq> tc_time_minDe s2);
        let s3 = s2\<lparr> tc_time_minDe := minDe',
                     tc_time_allow := (if minNext < maxVal T then t_add T (inputDelay (tc_info s2)) minNext
                                       else maxVal T) \<rparr>;
        (_, s4) \<leftarrow> updateNextExecutionTime T s3;
        Some (update2, s4)
      })"

section \<open>Dependents and dependencies\<close>

definition tc_addDependency ::
  "('t::linorder) time_rep \<Rightarrow> global_federate_id \<Rightarrow> 't TimeCoordinator \<Rightarrow> bool \<times> 't TimeCoordinator" where
  "tc_addDependency T fed s =
     (let (added, deps) = addDependency T fed (tc_dependencies s);
          s1 = s\<lparr> tc_dependencies := deps \<rparr>
      in if added then (True, s1\<lparr> tc_dependency_federates := tc_dependency_federates s1 @ [fed] \<rparr>)
         else (False, s1))"

definition tc_addDependent ::
  "global_federate_id \<Rightarrow> 't TimeCoordinator \<Rightarrow> bool \<times> 't TimeCoordinator" where
  "tc_addDependent fed s =
     (let (added, deps) = vec_insert (\<lambda>f. f) (\<lambda>f. f) fed (tc_dependents s);
          s1 = s\<lparr> tc_dependents := deps \<rparr>
      in if added then (True, s1\<lparr> tc_dependent_federates := tc_dependent_federates s1 @ [fed] \<rparr>)
         else (False, s1))"

definition tc_removeDependency :: "global_federate_id \<Rightarrow> 't TimeCoordinator \<Rightarrow> 't TimeCoordinator" where
  "tc_removeDependency fed s =
     s\<lparr> tc_dependencies := removeDependency fed (tc_dependencies s),
        tc_dependency_federates := remove1 fed (tc_dependency_federates s) \<rparr>"

definition tc_removeDependent :: "global_federate_id \<Rightarrow> 't TimeCoordinator \<Rightarrow> 't TimeCoordinator" where
  "tc_removeDependent fed s =
     (let dep = lower_bound (\<lambda>f. f) (tc_dependents s) fed
      in if dep \<noteq> length (tc_dependents s)
         then if tc_dependents s ! dep = fed
              then s\<lparr> tc_dependents := erase_at dep (tc_dependents s),
                      tc_dependent_federates := remove1 fed (tc_dependent_federates s) \<rparr>
              else s
         else s)"

definition tc_getDependencies :: "'t TimeCoordinator \<Rightarrow> global_federate_id list" where
  "tc_getDependencies s = tc_dependency_federates s"

definition tc_getDependents :: "'t TimeCoordinator \<Rightarrow> global_federate_id list" where
  "tc_getDependents s = tc_dependent_federates s"

definition tc_processDependencyUpdateMessage ::
  "('t::linorder) time_rep \<Rightarrow> 't ActionMessage \<Rightarrow> 't TimeCoordinator \<Rightarrow> 't TimeCoordinator" where
  "tc_processDependencyUpdateMessage T cmd s =
     (if messageAction cmd = cmd_add_dependency then snd (tc_addDependency T (source_id cmd) s)
      else if messageAction cmd = cmd_remove_dependency then tc_removeDependency (source_id cmd) s
      else if messageAction cmd = cmd_add_dependent then snd (tc_addDependent (source_id cmd) s)
      else if messageAction cmd = cmd_remove_dependent then tc_removeDependent (source_id cmd) s
      else if messageAction cmd = cmd_add_interdependency
      then snd (tc_addDependent (source_id cmd) (snd (tc_addDependency T (source_id cmd) s)))
      else if messageAction cmd = cmd_remove_interdependency
      then tc_removeDependent (source_id cmd) (tc_removeDependency (source_id cmd) s)
      else s)"

section \<open>Messages that concern time\<close>

text \<open>The search of an unblocking message for the block it ends: the time of the block and what is left.\<close>

definition release_block ::
  "('t::linorder) time_rep \<Rightarrow> int32 \<Rightarrow> ('t \<times> int32) list \<Rightarrow> 't \<times> ('t \<times> int32) list" where
  "release_block T blockId blocks =
     (if snd (hd blocks) = blockId then (fst (hd blocks), tl blocks)
      else case dropWhile (\<lambda>block. snd block \<noteq> blockId) blocks of
             [] \<Rightarrow> (maxVal T, blocks)
           | blk # after \<Rightarrow> (fst blk, takeWhile (\<lambda>block. snd block \<noteq> blockId) blocks @ after))"

definition processTimeBlockMessage ::
  "('t::linorder) time_rep \<Rightarrow> 't ActionMessage \<Rightarrow> 't TimeCoordinator
     \<Rightarrow> message_process_result \<times> 't TimeCoordinator" where
  "processTimeBlockMessage T cmd s =
     (if messageAction cmd = cmd_time_block
      then (no_effect,
            s\<lparr> tc_timeBlocks := tc_timeBlocks s @ [(actionTime cmd, messageID cmd)],
               tc_time_block := (if actionTime cmd < tc_time_block s then actionTime cmd
                                 else tc_time_block s) \<rparr>)
      else if messageAction cmd = cmd_time_unblock \<and> tc_timeBlocks s \<noteq> []
      then let (ltime, blocks) = release_block T (messageID cmd) (tc_timeBlocks s);
               s1 = s\<lparr> tc_timeBlocks := blocks \<rparr>
           in if ltime \<le> tc_time_block s
              then (processed,
                    s1\<lparr> tc_time_block := (if blocks \<noteq> [] then min_list (map fst blocks) else maxVal T) \<rparr>)
              else (no_effect, s1)
      else (no_effect, s))"

definition isDelayableMessage :: "'t ActionMessage \<Rightarrow> global_federate_id \<Rightarrow> bool" where
  "isDelayableMessage cmd localId \<longleftrightarrow>
     (messageAction cmd = cmd_time_grant \<or> messageAction cmd = cmd_exec_grant) \<and> source_id cmd \<noteq> localId"

text \<open>Whether the state of the sender asks for a grant to be processed later.\<close>

definition delays_grant :: "('t::linorder) DependencyInfo \<Rightarrow> 't TimeCoordinator \<Rightarrow> bool" where
  "delays_grant dep s =
     (case time_state dep of
        time_requested \<Rightarrow> Tnext dep > tc_time_exec s
      | time_requested_iterative \<Rightarrow>
          Tnext dep > tc_time_exec s
          \<or> (tc_iterating s \<noteq> no_iterations \<and> tc_time_exec s = Tnext dep)
      | exec_requested_iterative \<Rightarrow> tc_iterating s \<noteq> no_iterations \<and> tc_checkingExec s
      | _ \<Rightarrow> False)"

definition tc_updateTime ::
  "('t::linorder) time_rep \<Rightarrow> 't ActionMessage \<Rightarrow> 't TimeCoordinator
     \<Rightarrow> message_process_result \<times> 't TimeCoordinator" where
  "tc_updateTime T cmd s =
     (let (res, deps) = updateTime T cmd (tc_dependencies s)
      in (if res then processed else no_effect, s\<lparr> tc_dependencies := deps \<rparr>))"

definition removing_actions :: "action_t list" where
  "removing_actions = [cmd_disconnect, cmd_broadcast_disconnect, cmd_disconnect_core,
     cmd_disconnect_fed, cmd_disconnect_broker, cmd_global_error, cmd_local_error]"

definition tc_processTimeMessage ::
  "('t::linorder) time_rep \<Rightarrow> 't ActionMessage \<Rightarrow> 't TimeCoordinator
     \<Rightarrow> message_process_result \<times> 't TimeCoordinator" where
  "tc_processTimeMessage T cmd s =
     (if messageAction cmd = cmd_time_block \<or> messageAction cmd = cmd_time_unblock
      then processTimeBlockMessage T cmd s
      else if messageAction cmd = cmd_force_time_grant
      then if tc_time_granted s < actionTime cmd
           then let s1 = s\<lparr> tc_time_granted := actionTime cmd, tc_time_grantBase := actionTime cmd \<rparr>;
                    treq = (mk_message T cmd_time_grant)
                             \<lparr> source_id := tc_source_id s1, actionTime := tc_time_granted s1 \<rparr>
                in (processed, transmitTimingMessage treq s1)
           else (no_effect, s)
      else let s1 = (if messageAction cmd \<in> set removing_actions
                     then tc_removeDependent (source_id cmd) s else s)
           in if isDelayableMessage cmd (tc_source_id s1)
              then case getDependencyInfo (source_id cmd) (tc_dependencies s1) of
                     None \<Rightarrow> (no_effect, s1)
                   | Some dep \<Rightarrow> if delays_grant dep s1 then (delay_processing, s1)
                                 else tc_updateTime T cmd s1
              else tc_updateTime T cmd s1)"

section \<open>Leaving\<close>

definition connections :: "('t::linorder) time_rep \<Rightarrow> 't TimeCoordinator \<Rightarrow> global_federate_id list" where
  "connections T s =
     sort (remdups (tc_dependents s
       @ map fedID (filter (\<lambda>dep. Tnext dep < maxVal T) (tc_dependencies s))))"

text \<open>The part \<open>disconnect\<close> and \<open>localError\<close> share: one message per connection, in one container
  when there are several. Its result says whether there was any connection.\<close>

definition send_bye ::
  "('t::linorder) time_rep \<Rightarrow> bool \<Rightarrow> action_t \<Rightarrow> 't TimeCoordinator \<Rightarrow> bool \<times> 't TimeCoordinator" where
  "send_bye T le act s =
     (let bye = (mk_message T act)\<lparr> source_id := tc_source_id s \<rparr>
      in case connections T s of
           [] \<Rightarrow> (False, s)
         | [fed] \<Rightarrow>
             let bye' = bye\<lparr> dest_id := fed \<rparr>
             in (True, if fed = tc_source_id s then snd (tc_processTimeMessage T bye' s)
                       else sendMessage bye' s)
         | feds \<Rightarrow>
             let (multi, s1) =
                   foldl (\<lambda>(multi, s1) fed.
                       let bye' = bye\<lparr> dest_id := fed \<rparr>
                       in if fed = tc_source_id s1 then (multi, snd (tc_processTimeMessage T bye' s1))
                          else (snd (appendMessage T le multi bye'), s1))
                     (mk_message T cmd_multi_message, s) feds
             in (True, sendMessage multi s1))"

definition disconnect :: "('t::linorder) time_rep \<Rightarrow> bool \<Rightarrow> 't TimeCoordinator \<Rightarrow> 't TimeCoordinator" where
  "disconnect T le s =
     (let s1 = s\<lparr> tc_time_granted := maxVal T, tc_time_grantBase := maxVal T \<rparr>;
          (any, s2) = send_bye T le cmd_disconnect s1
      in if any then s2\<lparr> tc_disconnected := True \<rparr> else s2)"

definition localError :: "('t::linorder) time_rep \<Rightarrow> bool \<Rightarrow> 't TimeCoordinator \<Rightarrow> 't TimeCoordinator" where
  "localError T le s =
     (if tc_disconnected s then s
      else let s1 = s\<lparr> tc_time_granted := maxVal T, tc_time_grantBase := maxVal T \<rparr>;
               (any, s2) = send_bye T le cmd_local_error s1
           in if any then s2\<lparr> tc_disconnected := True \<rparr> else s2)"

section \<open>Requests and grants\<close>

text \<open>The first part of \<open>timeRequest\<close>: the time asked for and the times of the next value and message.\<close>

definition set_request ::
  "('t::linorder) time_rep \<Rightarrow> 't \<Rightarrow> iteration_request \<Rightarrow> 't \<Rightarrow> 't \<Rightarrow> 't TimeCoordinator
     \<Rightarrow> 't TimeCoordinator option" where
  "set_request T nextTime iterate newValueTime newMessageTime s =
     (let s1 = s\<lparr> tc_iterating := iterate \<rparr>
      in do {
        (nextTime', s2) \<leftarrow>
          (if iterate \<noteq> no_iterations
           then Some (if nextTime < tc_time_granted s1 \<or> iterate = force_iteration
                      then tc_time_granted s1 else nextTime, s1)
           else do {
             np \<leftarrow> getNextPossibleTime T s1;
             let nt = (if nextTime < np then np else nextTime);
             Some (nt, s1\<lparr> tc_time_next := (if uninterruptible (tc_info s1) then nt else np) \<rparr>)
           });
        let value = (if newValueTime > tc_time_next s2 then newValueTime else tc_time_next s2);
        let message = (if newMessageTime > tc_time_next s2 then newMessageTime else tc_time_next s2);
        Some (s2\<lparr> tc_time_requested := nextTime', tc_time_value := value, tc_time_message := message,
                  tc_time_exec := (if uninterruptible (tc_info s2) then nextTime'
                                   else min value (min message nextTime')) \<rparr>)
      })"

definition timeRequest ::
  "('t::linorder) time_rep \<Rightarrow> 't \<Rightarrow> iteration_request \<Rightarrow> 't \<Rightarrow> 't \<Rightarrow> 't TimeCoordinator
     \<Rightarrow> 't TimeCoordinator option" where
  "timeRequest T nextTime iterate newValueTime newMessageTime s =
     do {
       s3 \<leftarrow> set_request T nextTime iterate newValueTime newMessageTime s;
       let s4 = s3\<lparr> tc_dependencies := resetDependentEvents (tc_time_granted s3) (tc_dependencies s3) \<rparr>;
       (_, s5) \<leftarrow> updateTimeFactors T s4;
       Some (if tc_dependents s5 \<noteq> [] then sendTimeRequest T s5 else s5)
     }"

text \<open>The time an update is taken into account at, shared by the two functions below.\<close>

definition update_time ::
  "('t::linorder) time_rep \<Rightarrow> 't \<Rightarrow> 't TimeCoordinator \<Rightarrow> 't option" where
  "update_time T t s =
     (if tc_iterating s \<noteq> no_iterations
      then Some (if t \<le> tc_time_granted s then tc_time_granted s else t)
      else map_option (\<lambda>np. if t \<le> np then np else t) (getNextPossibleTime T s))"

definition updateValueTime ::
  "('t::linorder) time_rep \<Rightarrow> 't \<Rightarrow> 't TimeCoordinator \<Rightarrow> 't TimeCoordinator option" where
  "updateValueTime T valueUpdateTime s =
     (if \<not> tc_executionMode s
      then Some (if valueUpdateTime < timeZero T then s\<lparr> tc_hasInitUpdates := True \<rparr> else s)
      else if valueUpdateTime < tc_time_value s
      then do {
        let ptime = tc_time_value s;
        v \<leftarrow> update_time T valueUpdateTime s;
        let s1 = s\<lparr> tc_time_value := v \<rparr>;
        if v < ptime \<and> \<not> tc_disconnected s1
        then do {
          (changed, s2) \<leftarrow> updateNextExecutionTime T s1;
          Some (if changed then sendTimeRequest T s2 else s2)
        }
        else Some s1
      }
      else Some s)"

definition updateMessageTime ::
  "('t::linorder) time_rep \<Rightarrow> 't \<Rightarrow> 't TimeCoordinator \<Rightarrow> 't TimeCoordinator option" where
  "updateMessageTime T messageUpdateTime s =
     (if \<not> tc_executionMode s
      then Some (if messageUpdateTime < timeZero T then s\<lparr> tc_hasInitUpdates := True \<rparr> else s)
      else if messageUpdateTime < tc_time_message s
      then do {
        let ptime = tc_time_message s;
        v \<leftarrow> update_time T messageUpdateTime s;
        let s1 = s\<lparr> tc_time_message := v \<rparr>;
        if v < ptime \<and> \<not> tc_disconnected s1
        then do {
          (changed, s2) \<leftarrow> updateNextExecutionTime T s1;
          Some (if changed then sendTimeRequest T s2 else s2)
        }
        else Some s1
      }
      else Some s)"

definition updateTimeGrant :: "('t::linorder) time_rep \<Rightarrow> 't TimeCoordinator \<Rightarrow> 't TimeCoordinator" where
  "updateTimeGrant T s =
     (let s1 = (if tc_iterating s \<noteq> force_iteration
                then s\<lparr> tc_time_granted := tc_time_exec s, tc_time_grantBase := tc_time_exec s \<rparr> else s);
          treq = (mk_message T cmd_time_grant)
                   \<lparr> source_id := tc_source_id s1, actionTime := tc_time_granted s1,
                     counter := ucast (tc_iteration s1) \<rparr>;
          s2 = (if tc_iterating s1 \<noteq> no_iterations
                then s1\<lparr> tc_dependencies :=
                           resetIteratingTimeRequests (tc_time_exec s1) (tc_dependencies s1) \<rparr>
                else s1)
      in transmitTimingMessage treq s2)"

definition checkTimeGrant ::
  "('t::linorder) time_rep \<Rightarrow> bool \<Rightarrow> 't TimeCoordinator
     \<Rightarrow> (message_processing_result \<times> 't TimeCoordinator) option" where
  "checkTimeGrant T le s =
     do {
       (update, s1) \<leftarrow> updateTimeFactors T s;
       if tc_time_exec s1 = maxVal T \<and> tc_time_allow s1 = maxVal T
       then Some (MPR_halted,
              disconnect T le (s1\<lparr> tc_time_granted := maxVal T, tc_time_grantBase := maxVal T \<rparr>))
       else if tc_time_block s1 \<le> tc_time_exec s1 then Some (MPR_continue_processing, s1)
       else
         let again = Some (MPR_continue_processing,
               if tc_dependents s1 \<noteq> [] \<and> update then sendTimeRequest T s1 else s1)
         in if tc_iterating s1 = no_iterations
               \<or> (tc_time_exec s1 > tc_time_granted s1 \<and> tc_iterating s1 = iterate_if_needed)
            then let s2 = s1\<lparr> tc_iteration := 0 \<rparr>
                 in if tc_time_allow s2 > tc_time_exec s2 then Some (MPR_next_step, updateTimeGrant T s2)
                    else if tc_time_allow s2 = tc_time_exec s2
                       \<and> (tc_time_requested s2 \<le> tc_time_exec s2
                          \<or> checkIfReadyForTimeGrant False (tc_time_exec s2) (tc_dependencies s2))
                    then Some (MPR_next_step, updateTimeGrant T s2)
                    else Some (MPR_continue_processing,
                      if tc_dependents s2 \<noteq> [] \<and> update then sendTimeRequest T s2 else s2)
            else if tc_time_allow s1 > tc_time_exec s1
            then Some (MPR_iterating, updateTimeGrant T (s1\<lparr> tc_iteration := tc_iteration s1 + 1 \<rparr>))
            else if tc_time_allow s1 = tc_time_exec s1
               \<and> checkIfReadyForTimeGrant True (tc_time_exec s1) (tc_dependencies s1)
            then Some (MPR_iterating, updateTimeGrant T (s1\<lparr> tc_iteration := tc_iteration s1 + 1 \<rparr>))
            else again
     }"

definition exec_entry_result :: "'t TimeCoordinator \<Rightarrow> message_processing_result" where
  "exec_entry_result s =
     (case tc_iterating s of
        no_iterations \<Rightarrow> MPR_next_step
      | iterate_if_needed \<Rightarrow>
          (if tc_hasInitUpdates s
           then if sint (tc_iteration s) \<ge> sint (maxIterations (tc_info s)) then MPR_next_step
                else MPR_iterating
           else MPR_next_step)
      | force_iteration \<Rightarrow> MPR_iterating)"

definition checkExecEntry ::
  "('t::linorder) time_rep \<Rightarrow> 't TimeCoordinator \<Rightarrow> message_processing_result \<times> 't TimeCoordinator" where
  "checkExecEntry T s =
     (if tc_time_block s \<le> timeZero T then (MPR_continue_processing, s)
      else if \<not> checkIfReadyForExecEntry (tc_iterating s \<noteq> no_iterations) (tc_dependencies s)
      then (MPR_continue_processing, s)
      else let ret = exec_entry_result s
           in if ret = MPR_next_step
              then let s1 = s\<lparr> tc_time_granted := timeZero T, tc_time_grantBase := timeZero T,
                               tc_executionMode := True, tc_iteration := 0 \<rparr>;
                       execgrant = (mk_message T cmd_exec_grant)\<lparr> source_id := tc_source_id s1 \<rparr>
                   in (ret, transmitTimingMessage execgrant s1)
              else if ret = MPR_iterating
              then let s1 = s\<lparr> tc_dependencies := resetIteratingExecRequests (tc_dependencies s),
                               tc_hasInitUpdates := False, tc_iteration := tc_iteration s + 1 \<rparr>;
                       execgrant = msg_setFlag iteration_requested_flag
                         ((mk_message T cmd_exec_grant)
                            \<lparr> source_id := tc_source_id s1, counter := ucast (tc_iteration s1) \<rparr>)
                   in (ret, transmitTimingMessage execgrant s1)
              else (ret, s))"

section \<open>Configuration\<close>

definition setTimeProperty ::
  "('t::linorder) time_rep \<Rightarrow> int32 \<Rightarrow> 't \<Rightarrow> 't TimeCoordinator \<Rightarrow> 't TimeCoordinator" where
  "setTimeProperty T timeProperty propertyVal s =
     (let i = tc_info s
      in if timeProperty = prop_output_delay then s\<lparr> tc_info := i\<lparr> outputDelay := propertyVal \<rparr> \<rparr>
         else if timeProperty = prop_input_delay then s\<lparr> tc_info := i\<lparr> inputDelay := propertyVal \<rparr> \<rparr>
         else if timeProperty = prop_time_delta
         then s\<lparr> tc_info := i\<lparr> timeDelta := (if propertyVal \<le> timeZero T then timeEpsilon T
                                            else propertyVal) \<rparr> \<rparr>
         else if timeProperty = prop_period then s\<lparr> tc_info := i\<lparr> period := propertyVal \<rparr> \<rparr>
         else if timeProperty = prop_offset then s\<lparr> tc_info := i\<lparr> offset := propertyVal \<rparr> \<rparr>
         else s)"

definition setIntProperty ::
  "('t::linorder) time_rep \<Rightarrow> int32 \<Rightarrow> int32 \<Rightarrow> 't TimeCoordinator \<Rightarrow> 't TimeCoordinator" where
  "setIntProperty T intProperty propertyVal s =
     (if intProperty = prop_max_iterations
      then s\<lparr> tc_info := (tc_info s)\<lparr> maxIterations := propertyVal \<rparr> \<rparr>
      else setTimeProperty T intProperty (t_of_int T (sint propertyVal)) s)"

definition setOptionFlag :: "int32 \<Rightarrow> bool \<Rightarrow> 't TimeCoordinator \<Rightarrow> 't TimeCoordinator" where
  "setOptionFlag optionFlag value s =
     (let i = tc_info s
      in if optionFlag = flag_uninterruptible then s\<lparr> tc_info := i\<lparr> uninterruptible := value \<rparr> \<rparr>
         else if optionFlag = flag_wait_for_current_time_update
         then s\<lparr> tc_info := i\<lparr> wait_for_current_time_updates := value \<rparr> \<rparr>
         else if optionFlag = flag_restrictive_time_policy
         then s\<lparr> tc_info := i\<lparr> restrictive_time_policy := value \<rparr> \<rparr>
         else s)"

definition getTimeProperty :: "('t::linorder) time_rep \<Rightarrow> int32 \<Rightarrow> 't TimeCoordinator \<Rightarrow> 't" where
  "getTimeProperty T timeProperty s =
     (let i = tc_info s
      in if timeProperty = prop_output_delay then outputDelay i
         else if timeProperty = prop_input_delay then inputDelay i
         else if timeProperty = prop_time_delta then timeDelta i
         else if timeProperty = prop_period then period i
         else if timeProperty = prop_offset then offset i
         else minVal T)"

definition getIntegerProperty :: "int32 \<Rightarrow> 't TimeCoordinator \<Rightarrow> int32" where
  "getIntegerProperty intProperty s =
     (if intProperty = prop_max_iterations then maxIterations (tc_info s) else - 972)"

definition getOptionFlag :: "int32 \<Rightarrow> 't TimeCoordinator \<Rightarrow> helics_exception + bool" where
  "getOptionFlag optionFlag s =
     (let i = tc_info s
      in if optionFlag = flag_uninterruptible then Inr (uninterruptible i)
         else if optionFlag = flag_interruptible then Inr (\<not> uninterruptible i)
         else if optionFlag = flag_wait_for_current_time_update then Inr (wait_for_current_time_updates i)
         else if optionFlag = flag_restrictive_time_policy then Inr (restrictive_time_policy i)
         else Inl (Std_Invalid_Argument ''flag not recognized''))"

definition processConfigUpdateMessage ::
  "('t::linorder) time_rep \<Rightarrow> 't ActionMessage \<Rightarrow> 't TimeCoordinator \<Rightarrow> 't TimeCoordinator" where
  "processConfigUpdateMessage T cmd s =
     (if messageAction cmd = cmd_fed_configure_time
      then setTimeProperty T (messageID cmd) (actionTime cmd) s
      else if messageAction cmd = cmd_fed_configure_int
      then setIntProperty T (messageID cmd) (ucast (counter cmd)) s
      else if messageAction cmd = cmd_fed_configure_flag
      then setOptionFlag (messageID cmd) (checkActionFlag (flags cmd) indicator_flag) s
      else s)"

definition getGrantedTime :: "'t TimeCoordinator \<Rightarrow> 't" where
  "getGrantedTime s = tc_time_granted s"

definition allowedSendTime :: "('t::linorder) time_rep \<Rightarrow> 't TimeCoordinator \<Rightarrow> 't" where
  "allowedSendTime T s = t_add T (tc_time_granted s) (outputDelay (tc_info s))"

section \<open>What the helpers leave alone\<close>

lemma transmit_eq [simp]:
  "transmitTimingMessage msg s
    = s\<lparr> tc_sent := tc_sent s @ map (\<lambda>dep. msg\<lparr> dest_id := dep \<rparr>) (tc_dependents s) \<rparr>"
proof -
  have "foldl (\<lambda>s dep. sendMessage (msg\<lparr> dest_id := dep \<rparr>) s) s deps
      = s\<lparr> tc_sent := tc_sent s @ map (\<lambda>dep. msg\<lparr> dest_id := dep \<rparr>) deps \<rparr>" for deps
    by (induction deps arbitrary: s) (simp_all add: sendMessage_def)
  then show ?thesis
    by (simp add: transmitTimingMessage_def)
qed

text \<open>The next possible time depends on what has been granted and on the configuration only.\<close>

lemma generateAllowedTime_frame [simp]:
  "generateAllowedTime T (s\<lparr> tc_time_requested := x0 \<rparr>) = generateAllowedTime T s"
  "generateAllowedTime T (s\<lparr> tc_time_next := x1 \<rparr>) = generateAllowedTime T s"
  "generateAllowedTime T (s\<lparr> tc_time_minminDe := x2 \<rparr>) = generateAllowedTime T s"
  "generateAllowedTime T (s\<lparr> tc_time_minDe := x3 \<rparr>) = generateAllowedTime T s"
  "generateAllowedTime T (s\<lparr> tc_time_allow := x4 \<rparr>) = generateAllowedTime T s"
  "generateAllowedTime T (s\<lparr> tc_time_exec := x5 \<rparr>) = generateAllowedTime T s"
  "generateAllowedTime T (s\<lparr> tc_time_message := x6 \<rparr>) = generateAllowedTime T s"
  "generateAllowedTime T (s\<lparr> tc_time_value := x7 \<rparr>) = generateAllowedTime T s"
  "generateAllowedTime T (s\<lparr> tc_time_block := x8 \<rparr>) = generateAllowedTime T s"
  "generateAllowedTime T (s\<lparr> tc_dependencies := x9 \<rparr>) = generateAllowedTime T s"
  "generateAllowedTime T (s\<lparr> tc_dependents := x10 \<rparr>) = generateAllowedTime T s"
  "generateAllowedTime T (s\<lparr> tc_iterating := x11 \<rparr>) = generateAllowedTime T s"
  "generateAllowedTime T (s\<lparr> tc_iteration := x12 \<rparr>) = generateAllowedTime T s"
  "generateAllowedTime T (s\<lparr> tc_sent := x13 \<rparr>) = generateAllowedTime T s"
  "generateAllowedTime T (s\<lparr> tc_hasInitUpdates := x14 \<rparr>) = generateAllowedTime T s"
  by (simp_all add: generateAllowedTime_def fun_eq_iff)

lemma getNextPossibleTime_frame [simp]:
  "getNextPossibleTime T (s\<lparr> tc_time_requested := x0 \<rparr>) = getNextPossibleTime T s"
  "getNextPossibleTime T (s\<lparr> tc_time_next := x1 \<rparr>) = getNextPossibleTime T s"
  "getNextPossibleTime T (s\<lparr> tc_time_minminDe := x2 \<rparr>) = getNextPossibleTime T s"
  "getNextPossibleTime T (s\<lparr> tc_time_minDe := x3 \<rparr>) = getNextPossibleTime T s"
  "getNextPossibleTime T (s\<lparr> tc_time_allow := x4 \<rparr>) = getNextPossibleTime T s"
  "getNextPossibleTime T (s\<lparr> tc_time_exec := x5 \<rparr>) = getNextPossibleTime T s"
  "getNextPossibleTime T (s\<lparr> tc_time_message := x6 \<rparr>) = getNextPossibleTime T s"
  "getNextPossibleTime T (s\<lparr> tc_time_value := x7 \<rparr>) = getNextPossibleTime T s"
  "getNextPossibleTime T (s\<lparr> tc_time_block := x8 \<rparr>) = getNextPossibleTime T s"
  "getNextPossibleTime T (s\<lparr> tc_dependencies := x9 \<rparr>) = getNextPossibleTime T s"
  "getNextPossibleTime T (s\<lparr> tc_dependents := x10 \<rparr>) = getNextPossibleTime T s"
  "getNextPossibleTime T (s\<lparr> tc_iterating := x11 \<rparr>) = getNextPossibleTime T s"
  "getNextPossibleTime T (s\<lparr> tc_iteration := x12 \<rparr>) = getNextPossibleTime T s"
  "getNextPossibleTime T (s\<lparr> tc_sent := x13 \<rparr>) = getNextPossibleTime T s"
  "getNextPossibleTime T (s\<lparr> tc_hasInitUpdates := x14 \<rparr>) = getNextPossibleTime T s"
  by (simp_all add: getNextPossibleTime_def Let_def)

text \<open>The execution time the code settles on, for a given next possible time.\<close>

definition exec_time :: "('t::linorder) time_rep \<Rightarrow> 't \<Rightarrow> 't TimeCoordinator \<Rightarrow> 't" where
  "exec_time T np s =
     (if uninterruptible (tc_info s) then tc_time_requested s
      else let e1 = min (tc_time_message s) (tc_time_value s);
               e2 = (if e1 < maxVal T then t_add T e1 (inputDelay (tc_info s)) else e1);
               e3 = min (tc_time_requested s) e2;
               e4 = (if e3 \<le> tc_time_granted s
                     then (if tc_iterating s = no_iterations then np else tc_time_granted s) else e3)
           in if t_sub T e4 (tc_time_granted s) > timeZero T then generateAllowedTime T s e4 else e4)"

lemma updateNextExecutionTime_eq:
  "getNextPossibleTime T s = Some np \<Longrightarrow>
    updateNextExecutionTime T s
      = Some (exec_time T np s \<noteq> tc_time_exec s, s\<lparr> tc_time_exec := exec_time T np s \<rparr>)"
  by (simp add: updateNextExecutionTime_def exec_time_def Let_def)

definition event_time :: "('t::linorder) time_rep \<Rightarrow> 't \<Rightarrow> 't TimeCoordinator \<Rightarrow> 't" where
  "event_time T np s =
     (let n1 = (if tc_iterating s = no_iterations then np else tc_time_granted s);
          lower = t_add T (tc_time_minminDe s) (inputDelay (tc_info s));
          n2 = (if tc_time_minminDe s < maxVal T \<and> \<not> restrictive_time_policy (tc_info s) \<and> lower > n1
                then generateAllowedTime T s lower else n1)
      in if uninterruptible (tc_info s) then tc_time_requested s
         else t_add T (min n2 (tc_time_exec s)) (outputDelay (tc_info s)))"

lemma updateNextPossibleEventTime_eq:
  "getNextPossibleTime T s = Some np \<Longrightarrow>
    updateNextPossibleEventTime T s = Some (s\<lparr> tc_time_next := event_time T np s \<rparr>)"
  by (simp add: updateNextPossibleEventTime_def event_time_def Let_def)

definition min_next :: "('t::linorder) time_rep \<Rightarrow> 't TimeDependencies \<Rightarrow> 't" where
  "min_next T deps = foldl (\<lambda>m d. min m (Tnext d)) (maxVal T) deps"

lemma less_if_min: "(if y < a then y else a) = min a (y :: 't::linorder)"
  by (cases "y < a") simp_all

lemma factor_min_next: "fst (foldl (factor_step T) (a, b, c) deps) = foldl (\<lambda>m d. min m (Tnext d)) a deps"
proof (induction deps arbitrary: a b c)
  case Nil
  then show ?case by simp
next
  case (Cons d deps)
  obtain b' c' where "factor_step T (a, b, c) d = (min a (Tnext d), b', c')"
    by (simp add: factor_step_def less_if_min)
  then show ?case
    by (simp add: Cons.IH)
qed

lemma foldl_min_spec:
  fixes f :: "'a \<Rightarrow> 't::linorder"
  shows
  "foldl (\<lambda>m d. min m (f d)) a xs \<le> a"
  "d \<in> set xs \<Longrightarrow> foldl (\<lambda>m d. min m (f d)) a xs \<le> f d"
  "foldl (\<lambda>m d. min m (f d)) a xs = a \<or> (\<exists>d \<in> set xs. foldl (\<lambda>m d. min m (f d)) a xs = f d)"
proof (induction xs arbitrary: a)
  case (Cons x xs)
  { case 1 show ?case using Cons.IH(1) [of "min a (f x)"] by simp }
  { case 2 then show ?case using Cons.IH(1,2) [of "min a (f x)"] by auto }
  { case 3 show ?case using Cons.IH(3) [of "min a (f x)"] by (auto simp: min_def split: if_splits) }
qed simp_all

lemma min_next_spec:
  "d \<in> set deps \<Longrightarrow> min_next T deps \<le> Tnext d"
  "min_next T deps = maxVal T \<or> (\<exists>d \<in> set deps. min_next T deps = Tnext d)"
  using foldl_min_spec(2) [of d deps Tnext "maxVal T"] foldl_min_spec(3) [of Tnext "maxVal T" deps]
  by (simp_all add: min_next_def)

definition allow_time :: "('t::linorder) time_rep \<Rightarrow> 't TimeCoordinator \<Rightarrow> 't" where
  "allow_time T s =
     (if min_next T (tc_dependencies s) < maxVal T
      then t_add T (inputDelay (tc_info s)) (min_next T (tc_dependencies s)) else maxVal T)"

text \<open>The state after \<open>updateTimeFactors\<close>: five times change, and nothing else.\<close>

lemma updateTimeFactors_Some:
  assumes "getNextPossibleTime T s = Some np"
  shows "\<exists>u a b c. updateTimeFactors T s = Some (u, s\<lparr> tc_time_minminDe := a, tc_time_next := b,
      tc_time_minDe := c, tc_time_allow := allow_time T s, tc_time_exec := exec_time T np s \<rparr>)"
proof -
  obtain x y z where fold: "foldl (factor_step T) (maxVal T, min (tc_time_value s) (tc_time_message s),
      min (tc_time_value s) (tc_time_message s)) (tc_dependencies s) = (x, y, z)"
    by (metis prod_cases3)
  have x: "x = min_next T (tc_dependencies s)"
    using factor_min_next [of T "maxVal T" _ _ "tc_dependencies s"] fold
    by (metis fst_conv min_next_def)
  have exec: "exec_time T np (s\<lparr> tc_time_minminDe := a, tc_time_next := b, tc_time_minDe := c, tc_time_allow := d \<rparr>)
      = exec_time T np s" for a b c d
    by (simp add: exec_time_def Let_def)
  have np1: "getNextPossibleTime T (s\<lparr> tc_time_minminDe := a \<rparr>) = Some np" for a
    using assms by simp
  have np2: "getNextPossibleTime T (s\<lparr> tc_time_minminDe := a, tc_time_next := b, tc_time_minDe := c, tc_time_allow := d \<rparr>) = Some np"
    for a b c d
    using assms by simp
  let ?n = "event_time T np (s\<lparr> tc_time_minminDe := min z y \<rparr>)"
  let ?d = "if z < maxVal T then t_add T (generateAllowedTime T s z) (outputDelay (tc_info s)) else z"
  have "updateTimeFactors T s = Some (tc_time_next s \<noteq> ?n \<or> ?d \<noteq> tc_time_minDe s,
      s\<lparr> tc_time_minminDe := min z y, tc_time_next := ?n, tc_time_minDe := ?d,
         tc_time_allow := allow_time T s, tc_time_exec := exec_time T np s \<rparr>)"
    by (simp add: updateTimeFactors_def fold x updateNextPossibleEventTime_eq [OF np1]
        updateNextExecutionTime_eq [OF np2] exec allow_time_def Let_def)
  then show ?thesis
    by (intro exI)
qed

lemma sendTimeRequest_eq:
  "sendTimeRequest T s = s\<lparr> tc_sent := tc_sent s
     @ map (\<lambda>dep. (time_request_message T s)\<lparr> dest_id := dep \<rparr>) (tc_dependents s) \<rparr>"
  by (simp add: sendTimeRequest_def)

lemma time_request_message_simps [simp]:
  "messageAction (time_request_message T s) = cmd_time_request"
  "source_id (time_request_message T s) = tc_source_id s"
  "actionTime (time_request_message T s) = tc_time_next s"
  by (simp_all add: time_request_message_def Let_def)

section \<open>Grants\<close>

lemma min_next_Min:
  assumes "time_bounded T" and "\<exists>d \<in> set deps. Tnext d < maxVal T"
  shows "min_next T deps = Min (Tnext ` set deps)" and "min_next T deps < maxVal T"
proof -
  obtain d where d: "d \<in> set deps" "Tnext d < maxVal T"
    using assms(2) by blast
  then show less: "min_next T deps < maxVal T"
    using min_next_spec(1) [OF d(1), of T] by simp
  then obtain d' where d': "d' \<in> set deps" "min_next T deps = Tnext d'"
    using min_next_spec(2) [of T deps] by auto
  then show "min_next T deps = Min (Tnext ` set deps)"
    using min_next_spec(1) [of _ deps T] by (intro Min_eqI [symmetric]) auto
qed

lemma min_next_max:
  "\<not> (\<exists>d \<in> set deps. Tnext d < maxVal T) \<Longrightarrow> \<not> min_next T deps < maxVal T"
  using min_next_spec(2) [of T deps] by auto

lemma allow_time_spec:
  assumes "time_bounded T"
  shows "allow_time T s =
    (if \<exists>d \<in> set (tc_dependencies s). Tnext d < maxVal T
     then t_add T (inputDelay (tc_info s)) (Min (Tnext ` set (tc_dependencies s))) else maxVal T)"
  using min_next_Min [OF assms, of "tc_dependencies s"] min_next_max [of "tc_dependencies s" T]
  by (simp add: allow_time_def)

lemma updateTimeGrant_times [simp]:
  "tc_time_granted (updateTimeGrant T s)
     = (if tc_iterating s = force_iteration then tc_time_granted s else tc_time_exec s)"
  "tc_time_exec (updateTimeGrant T s) = tc_time_exec s"
  "tc_time_allow (updateTimeGrant T s) = tc_time_allow s"
  "tc_time_block (updateTimeGrant T s) = tc_time_block s"
  "tc_time_grantBase (updateTimeGrant T s)
     = (if tc_iterating s = force_iteration then tc_time_grantBase s else tc_time_exec s)"
  by (simp_all add: updateTimeGrant_def Let_def)

text \<open>When a grant is given: never past the allowed time, never at or past a block, and at the allowed
  time itself only if that is the time asked for or every dependency is ready.\<close>

lemma checkTimeGrant_cases:
  assumes "getNextPossibleTime T s = Some np"
  shows "\<exists>r s'. checkTimeGrant T le s = Some (r, s')
    \<and> (r = MPR_next_step \<or> r = MPR_iterating \<longrightarrow>
        tc_time_exec s' = exec_time T np s \<and> tc_time_allow s' = allow_time T s
      \<and> tc_time_granted s' = (if tc_iterating s = force_iteration then tc_time_granted s else exec_time T np s)
      \<and> exec_time T np s \<le> allow_time T s
      \<and> exec_time T np s < tc_time_block s
      \<and> (exec_time T np s = allow_time T s \<longrightarrow>
           (r = MPR_next_step \<and> tc_time_requested s \<le> exec_time T np s)
         \<or> checkIfReadyForTimeGrant (r = MPR_iterating) (exec_time T np s) (tc_dependencies s)))"
proof -
  obtain u a b c where upd: "updateTimeFactors T s = Some (u, s\<lparr> tc_time_minminDe := a, tc_time_next := b,
      tc_time_minDe := c, tc_time_allow := allow_time T s, tc_time_exec := exec_time T np s \<rparr>)"
    using updateTimeFactors_Some [OF assms] by blast
  show ?thesis
    unfolding checkTimeGrant_def upd
    by (simp add: Let_def not_le not_less) (auto simp: not_le)
qed

section \<open>Possible times lie ahead\<close>

text \<open>The loop of \<open>getNextPossibleTime\<close> ends exactly when some number of periods reaches the bound, and
  then returns the first time that does.\<close>

lemma step_periods_reach:
  assumes "bound \<le> ((\<lambda>t. t_add T t per) ^^ n) t"
  shows "\<exists>k \<le> n. step_periods T per bound t = Some (((\<lambda>t. t_add T t per) ^^ k) t)
    \<and> bound \<le> ((\<lambda>t. t_add T t per) ^^ k) t"
  using assms
proof (induction n arbitrary: t)
  case 0
  then show ?case
    by (auto simp: step_periods.simps [of T per bound t])
next
  case (Suc n)
  show ?case
  proof (cases "t < bound")
    case True
    have "bound \<le> ((\<lambda>t. t_add T t per) ^^ n) (t_add T t per)"
      using Suc.prems by (simp add: funpow_Suc_right del: funpow.simps)
    then obtain k where "k \<le> n" "step_periods T per bound (t_add T t per) = Some (((\<lambda>t. t_add T t per) ^^ k) (t_add T t per))"
      "bound \<le> ((\<lambda>t. t_add T t per) ^^ k) (t_add T t per)"
      using Suc.IH by blast
    then show ?thesis
      using True by (intro exI [of _ "Suc k"]) (simp add: step_periods.simps [of T per bound t] funpow_Suc_right del: funpow.simps)
  next
    case False
    then show ?thesis
      by (intro exI [of _ 0]) (simp add: step_periods.simps [of T per bound t])
  qed
qed

lemma step_periods_bound:
  fixes T :: "('t::linorder) time_rep"
  assumes "step_periods T per bound t = Some r"
  shows "bound \<le> r"
proof (rule step_periods.raw_induct [where P = "\<lambda>T per bound t r. bound \<le> r", OF _ assms])
  fix f and T :: "'t time_rep" and per bound retTime r :: 't
  assume IH: "\<And>T per bound retTime y. f T per bound retTime = Some y \<Longrightarrow> bound \<le> y"
    and eq: "(if retTime < bound then f T per bound (t_add T retTime per) else Some retTime) = Some r"
  then show "bound \<le> r"
    using IH [of T per bound "t_add T retTime per" r] by (cases "retTime < bound") simp_all
qed

text \<open>On the tick counter the loop ends as long as the sums stay in range.\<close>

lemma step_periods_ticks:
  assumes "0 < sint per" and "sint bound + sint per < 2 ^ 63"
  shows "\<exists>r. step_periods tick_rep (Ticks per) (Ticks bound) (Ticks t) = Some r"
proof (induction "nat (sint bound - sint t)" arbitrary: t rule: less_induct)
  case less
  show ?case
  proof (cases "sint t < sint bound")
    case True
    have "sint (t + per) = sint t + sint per"
      using assms True sint_bounds64 [of t] by (intro sint_add64) simp_all
    then have "nat (sint bound - sint (t + per)) < nat (sint bound - sint t)"
      using assms(1) True by simp
    from less [OF this] show ?thesis
      using True by (simp add: step_periods.simps [of tick_rep _ _ "Ticks t"])
  next
    case False
    then show ?thesis
      by (simp add: step_periods.simps [of tick_rep _ _ "Ticks t"])
  qed
qed

lemma generateAllowedTime_later:
  assumes "time_range T R" and "R t" and "R (tc_time_grantBase s)" and "R (period (tc_info s))"
    and "tc_time_grantBase s \<le> t"
  shows "t \<le> generateAllowedTime T s t"
  using time_rangeD(4) [OF assms(1), of "tc_time_grantBase s" t "period (tc_info s)"]
    time_rangeD(5) [OF assms(1), of "tc_time_grantBase s" t "period (tc_info s)"] assms
  by (auto simp: generateAllowedTime_def timeEpsilon_def not_less)

lemma generateAllowedTime_max: "generateAllowedTime T s (maxVal T) = maxVal T"
  by (simp add: generateAllowedTime_def)

text \<open>What an executing coordinator needs of its configuration: ordinary times, a positive step.\<close>

definition tc_regular :: "('t::linorder) time_rep \<Rightarrow> ('t \<Rightarrow> bool) \<Rightarrow> 't TimeCoordinator \<Rightarrow> bool" where
  "tc_regular T R s \<longleftrightarrow>
     time_consts T \<and> time_bounded T \<and> time_range T R
   \<and> R (timeZero T) \<and> R (tc_time_granted s) \<and> tc_time_grantBase s = tc_time_granted s
   \<and> timeZero T \<le> tc_time_granted s
   \<and> timeZero T < timeDelta (tc_info s) \<and> R (timeDelta (tc_info s))
   \<and> R (period (tc_info s))
   \<and> R (t_add T (tc_time_granted s) (max (timeDelta (tc_info s)) (period (tc_info s))))"

lemma next_possible_later:
  assumes reg: "tc_regular T R s" and np: "getNextPossibleTime T s = Some np"
  shows "tc_time_granted s < np"
proof -
  let ?i = "tc_info s" and ?g = "tc_time_granted s"
  let ?d = "max (timeDelta ?i) (period ?i)"
  note r = reg [unfolded tc_regular_def]
  have d: "zeroVal T < ?d" "R ?d"
    using r by (auto simp: max_def timeZero_def)
  have allowed: "t \<le> generateAllowedTime T s t" if "R t" "?g \<le> t" for t
    using generateAllowedTime_later [of T R t s] that r by simp
  show ?thesis
  proof (cases "?g = timeZero T")
    case True
    have pos: "timeZero T < timeDelta ?i"
      using r by simp
    have "np = offset ?i \<and> offset ?i > timeDelta ?i \<or> np = generateAllowedTime T s ?d
      \<or> np = timeDelta ?i \<or> step_periods T (period ?i) (timeDelta ?i) (t_add T (offset ?i) (period ?i)) = Some np"
      using np True by (simp add: getNextPossibleTime_def Let_def split: if_splits)
    then consider "np = offset ?i" "offset ?i > timeDelta ?i" | "np = generateAllowedTime T s ?d"
      | "np = timeDelta ?i" | "step_periods T (period ?i) (timeDelta ?i) (t_add T (offset ?i) (period ?i)) = Some np"
      by blast
    then show ?thesis
    proof cases
      case 2
      have "?d \<le> np"
        using allowed [of ?d] d 2 True by (simp add: timeZero_def)
      with d(1) have "zeroVal T < np"
        by (rule less_le_trans)
      then show ?thesis
        using True by (simp add: timeZero_def)
    next
      case 4
      then show ?thesis
        using step_periods_bound [OF 4] pos True by simp
    qed (use pos True in simp_all)
  next
    case False
    have "?g < t_add T ?g ?d"
      using time_rangeD(1) [of T R ?g ?d] r d by simp
    moreover have "t_add T ?g ?d \<le> generateAllowedTime T s (t_add T ?g ?d)"
      using allowed [of "t_add T ?g ?d"] r calculation by simp
    ultimately show ?thesis
      using np False r by (simp add: getNextPossibleTime_def Let_def)
  qed
qed


text \<open>The time of the next event as the coordinator sees it: the request, or an earlier value or
  message, delayed by the input delay.\<close>

definition next_event :: "('t::linorder) time_rep \<Rightarrow> 't TimeCoordinator \<Rightarrow> 't" where
  "next_event T s =
     (let e = min (tc_time_message s) (tc_time_value s)
      in min (tc_time_requested s) (if e < maxVal T then t_add T e (inputDelay (tc_info s)) else e))"

lemma exec_time_alt:
  "exec_time T np s =
     (if uninterruptible (tc_info s) then tc_time_requested s
      else let e = (if next_event T s \<le> tc_time_granted s
                    then (if tc_iterating s = no_iterations then np else tc_time_granted s)
                    else next_event T s)
           in if t_sub T e (tc_time_granted s) > timeZero T then generateAllowedTime T s e else e)"
  by (simp add: exec_time_def next_event_def Let_def)

lemma exec_time_later:
  assumes reg: "tc_regular T R s" and np: "getNextPossibleTime T s = Some np"
    and range: "R np \<or> np = maxVal T" "R (next_event T s) \<or> next_event T s = maxVal T"
    and unint: "\<not> uninterruptible (tc_info s)"
  shows "tc_time_granted s \<le> exec_time T np s"
    and "tc_iterating s = no_iterations \<Longrightarrow> tc_time_granted s < exec_time T np s"
proof -
  let ?g = "tc_time_granted s"
  let ?e = "if next_event T s \<le> ?g then (if tc_iterating s = no_iterations then np else ?g)
            else next_event T s"
  note r = reg [unfolded tc_regular_def]
  have e: "R ?e \<or> ?e = maxVal T"
    using range r by simp
  have ge: "?g \<le> ?e" and gt: "tc_iterating s = no_iterations \<Longrightarrow> ?g < ?e"
    using next_possible_later [OF reg np] by auto
  have "t \<le> (if t_sub T t ?g > timeZero T then generateAllowedTime T s t else t)"
    if "R t \<or> t = maxVal T" "?g \<le> t" for t
    using generateAllowedTime_later [of T R t s] generateAllowedTime_max [of T s] that r by auto
  from this [OF e ge] have "?e \<le> exec_time T np s"
    using unint by (simp only: exec_time_alt Let_def if_False)
  with ge gt show "?g \<le> exec_time T np s"
    and "tc_iterating s = no_iterations \<Longrightarrow> ?g < exec_time T np s"
    by (meson order_trans less_le_trans)+
qed

section \<open>The registries of a coordinator\<close>

lemma tc_removeDependent_alt:
  assumes "strictly_sorted (tc_dependents s)"
  shows "tc_removeDependent fed s =
    (if fed \<in> set (tc_dependents s)
     then s\<lparr> tc_dependents := vec_erase (\<lambda>f. f) fed (tc_dependents s),
             tc_dependent_federates := remove1 fed (tc_dependent_federates s) \<rparr> else s)"
proof -
  let ?i = "lower_bound (\<lambda>f. f) (tc_dependents s) fed"
  have "?i \<noteq> length (tc_dependents s) \<and> tc_dependents s ! ?i = fed \<longleftrightarrow> fed \<in> set (tc_dependents s)"
    using lower_bound_found [of "\<lambda>f. f" "tc_dependents s" fed] lower_bound_le [of "\<lambda>f. f" "tc_dependents s" fed] assms
    by (auto simp: le_less)
  then show ?thesis
    by (cases "fed \<in> set (tc_dependents s)") (auto simp: tc_removeDependent_def vec_erase_def Let_def)
qed

lemma tc_removeDependent_dependents:
  "tc_dependents (tc_removeDependent fed s) = vec_erase (\<lambda>f. f) fed (tc_dependents s)"
  by (simp add: tc_removeDependent_def vec_erase_def Let_def)

interpretation tc_dependent_reg: id_registry tc_addDependent tc_removeDependent tc_dependents
  by unfold_locales
    (simp_all add: tc_addDependent_def tc_removeDependent_dependents Let_def split_beta
      vec_insert_spec [where key = "\<lambda>f. f" and mk = "\<lambda>f. f", simplified]
      vec_erase_spec [where key = "\<lambda>f. f", simplified])

interpretation tc_dependency_reg: id_registry "tc_addDependency T" tc_removeDependency
    "\<lambda>s. dep_ids (tc_dependencies s)" for T
  by unfold_locales
    (simp_all add: tc_addDependency_def tc_removeDependency_def Let_def split_beta
      dep_reg.add_new dep_reg.add_set dep_reg.add_sorted dep_reg.remove_set dep_reg.remove_sorted
      del: set_map)

section \<open>Invariant of the state\<close>

definition block_ok :: "('t::linorder) time_rep \<Rightarrow> 't TimeCoordinator \<Rightarrow> bool" where
  "block_ok T s \<longleftrightarrow> tc_time_block s =
     (if tc_timeBlocks s = [] then maxVal T else min_list (map fst (tc_timeBlocks s)))"

definition records_ok :: "'t TimeCoordinator \<Rightarrow> bool" where
  "records_ok s \<longleftrightarrow> mset (tc_dependent_federates s) = mset (tc_dependents s)
     \<and> mset (tc_dependency_federates s) = mset (dep_ids (tc_dependencies s))"

definition tc_inv :: "('t::linorder) time_rep \<Rightarrow> 't TimeCoordinator \<Rightarrow> bool" where
  "tc_inv T s \<longleftrightarrow> deps_ok (tc_dependencies s) \<and> strictly_sorted (tc_dependents s) \<and> records_ok s
     \<and> block_ok T s \<and> timeZero T < timeDelta (tc_info s)"

text \<open>The invariant looks at the registries, the blocks and the step size.\<close>

lemma tc_inv_cong:
  assumes "tc_dependencies s' = tc_dependencies s" and "tc_dependents s' = tc_dependents s"
    and "tc_dependent_federates s' = tc_dependent_federates s"
    and "tc_dependency_federates s' = tc_dependency_federates s"
    and "tc_timeBlocks s' = tc_timeBlocks s" and "tc_time_block s' = tc_time_block s"
    and "timeDelta (tc_info s') = timeDelta (tc_info s)"
  shows "tc_inv T s' \<longleftrightarrow> tc_inv T s"
  by (simp add: tc_inv_def records_ok_def block_ok_def assms)

lemma tc_inv_addDependency:
  assumes "tc_inv T s"
  shows "tc_inv T (snd (tc_addDependency T fed s))"
proof -
  have sorted: "strictly_sorted (dep_ids (tc_dependencies s))" and ok: "list_all dep_ok (tc_dependencies s)"
    using assms by (simp_all add: tc_inv_def deps_ok_def)
  have "mset (dep_ids (snd (addDependency T fed (tc_dependencies s))))
      = (if fst (addDependency T fed (tc_dependencies s))
         then add_mset fed (mset (dep_ids (tc_dependencies s))) else mset (dep_ids (tc_dependencies s)))"
    using mset_vec_insert [OF sorted, of "mk_DependencyInfo T" fed] dep_reg.add_new [OF sorted, of T fed]
    by (simp add: addDependency_def del: mset_map)
  then show ?thesis
    using assms dep_reg.add_sorted [OF sorted, of T fed] addDependency_ok [OF sorted ok, of T fed]
    by (auto simp: tc_addDependency_def tc_inv_def records_ok_def block_ok_def deps_ok_def Let_def split_beta
        simp del: mset_map)
qed

lemma tc_inv_addDependent:
  assumes "tc_inv T s"
  shows "tc_inv T (snd (tc_addDependent fed s))"
proof -
  have sorted: "strictly_sorted (map (\<lambda>f. f) (tc_dependents s))"
    using assms by (simp add: tc_inv_def)
  have "mset (snd (vec_insert (\<lambda>f. f) (\<lambda>f. f) fed (tc_dependents s)))
      = (if fst (vec_insert (\<lambda>f. f) (\<lambda>f. f) fed (tc_dependents s))
         then add_mset fed (mset (tc_dependents s)) else mset (tc_dependents s))"
    using mset_vec_insert [OF sorted, of "\<lambda>f. f" fed] vec_insert_spec(1) [OF sorted, of "\<lambda>f. f" fed]
    by simp
  then show ?thesis
    using assms vec_insert_spec(3) [OF sorted, of "\<lambda>f. f" fed]
    by (auto simp: tc_addDependent_def tc_inv_def records_ok_def block_ok_def Let_def split_beta)
qed

lemma tc_inv_removeDependency:
  assumes "tc_inv T s"
  shows "tc_inv T (tc_removeDependency fed s)"
proof -
  have sorted: "strictly_sorted (dep_ids (tc_dependencies s))" and ok: "list_all dep_ok (tc_dependencies s)"
    using assms by (simp_all add: tc_inv_def deps_ok_def)
  show ?thesis
    using assms dep_reg.remove_sorted [OF sorted, of fed] removeDependency_ok [OF ok, of fed]
      mset_vec_erase [OF sorted, of fed]
    by (simp add: tc_removeDependency_def tc_inv_def records_ok_def block_ok_def deps_ok_def
        removeDependency_def del: mset_map)
qed

lemma tc_inv_removeDependent:
  assumes "tc_inv T s"
  shows "tc_inv T (tc_removeDependent fed s)"
proof -
  have sorted: "strictly_sorted (tc_dependents s)"
    using assms by (simp add: tc_inv_def)
  show ?thesis
    using assms mset_vec_erase [of "\<lambda>f. f" "tc_dependents s" fed] vec_erase_spec(2) [of "\<lambda>f. f" "tc_dependents s" fed] sorted
    by (auto simp: tc_removeDependent_alt [OF sorted] tc_inv_def records_ok_def block_ok_def)
qed


lemma release_block_cases:
  assumes "blocks \<noteq> []"
  shows "release_block T i blocks = (maxVal T, blocks)
    \<or> (\<exists>before blk after. blocks = before @ blk # after \<and> release_block T i blocks = (fst blk, before @ after))"
proof (cases "dropWhile (\<lambda>block. snd block \<noteq> i) blocks")
  case Nil
  then have "snd (hd blocks) \<noteq> i"
    using assms by (cases blocks) (auto split: if_splits)
  then have "release_block T i blocks = (maxVal T, blocks)"
    unfolding release_block_def Nil by simp
  then show ?thesis ..
next
  case (Cons blk after)
  define before where "before = takeWhile (\<lambda>block. snd block \<noteq> i) blocks"
  have split: "blocks = before @ blk # after"
    using takeWhile_dropWhile_id [of "\<lambda>block. snd block \<noteq> i" blocks] Cons by (simp add: before_def)
  have "release_block T i blocks = (fst blk, before @ after)"
  proof (cases "snd (hd blocks) = i")
    case True
    then have "before = []"
      using assms by (cases blocks) (simp_all add: before_def)
    with True split show ?thesis
      by (simp add: release_block_def)
  next
    case False
    then show ?thesis
      unfolding release_block_def Cons by (simp add: before_def)
  qed
  with split show ?thesis
    by blast
qed

lemma block_ok_block_message:
  assumes "time_bounded T" and "block_ok T s"
  shows "block_ok T (snd (processTimeBlockMessage T cmd s))"
proof (cases "messageAction cmd = cmd_time_block")
  case True
  then show ?thesis
    using assms time_boundedD(1) [OF assms(1), of "actionTime cmd"]
    by (auto simp: processTimeBlockMessage_def block_ok_def min_list_append1 min_def not_less)
next
  case False
  show ?thesis
  proof (cases "messageAction cmd = cmd_time_unblock \<and> tc_timeBlocks s \<noteq> []")
    case True
    obtain l bs where rel: "release_block T (messageID cmd) (tc_timeBlocks s) = (l, bs)"
      by (cases "release_block T (messageID cmd) (tc_timeBlocks s)") blast
    consider "l = maxVal T" "bs = tc_timeBlocks s"
      | before blk after where "tc_timeBlocks s = before @ blk # after" "l = fst blk" "bs = before @ after"
      using release_block_cases [of "tc_timeBlocks s" T "messageID cmd"] True rel by auto
    then show ?thesis
    proof cases
      case 1
      then show ?thesis
        using assms(2) False True rel by (simp add: processTimeBlockMessage_def block_ok_def)
    next
      case 2
      have block: "tc_time_block s = min_list (map fst before @ fst blk # map fst after)"
        using assms(2) 2(1) by (simp add: block_ok_def)
      have eq: "snd (processTimeBlockMessage T cmd s) = (if l \<le> tc_time_block s
          then s\<lparr> tc_timeBlocks := bs,
                  tc_time_block := (if bs \<noteq> [] then min_list (map fst bs) else maxVal T) \<rparr>
          else s\<lparr> tc_timeBlocks := bs \<rparr>)"
        using False True rel by (simp add: processTimeBlockMessage_def)
      show ?thesis
      proof (cases "l \<le> tc_time_block s")
        case True
        then show ?thesis
          by (simp add: eq block_ok_def)
      next
        case False
        then have "bs \<noteq> [] \<and> min_list (map fst bs) = tc_time_block s"
          using min_list_remove [of "map fst before" "fst blk" "map fst after"] 2 block by (simp add: not_le)
        with False show ?thesis
          by (simp add: eq block_ok_def)
      qed
    qed
  next
    case False
    then show ?thesis
      using assms(2) \<open>messageAction cmd \<noteq> cmd_time_block\<close> by (auto simp: processTimeBlockMessage_def)
  qed
qed

text \<open>Operations that only move times keep the invariant.\<close>

definition tc_static :: "'t TimeCoordinator \<Rightarrow> _" where
  "tc_static s = (tc_dependencies s, tc_dependents s, tc_dependent_federates s, tc_dependency_federates s,
     tc_timeBlocks s, tc_time_block s, tc_info s, tc_source_id s, tc_executionMode s)"

lemma tc_inv_static: "tc_static s' = tc_static s \<Longrightarrow> tc_inv T s' = tc_inv T s"
  by (simp add: tc_static_def tc_inv_def records_ok_def block_ok_def)

lemma updateNextExecutionTime_static:
  "updateNextExecutionTime T s = Some (b, s') \<Longrightarrow> tc_static s' = tc_static s"
  by (cases "uninterruptible (tc_info s)")
    (auto simp: updateNextExecutionTime_def Let_def bind_eq_Some_conv tc_static_def)

lemma updateNextPossibleEventTime_static:
  "updateNextPossibleEventTime T s = Some s' \<Longrightarrow> tc_static s' = tc_static s"
  by (cases "uninterruptible (tc_info s)")
    (auto simp: updateNextPossibleEventTime_def Let_def bind_eq_Some_conv tc_static_def)

lemma updateTimeFactors_static:
  assumes "updateTimeFactors T s = Some (u, s')"
  shows "tc_static s' = tc_static s"
proof -
  obtain x y z where fold: "foldl (factor_step T) (maxVal T, min (tc_time_value s) (tc_time_message s),
      min (tc_time_value s) (tc_time_message s)) (tc_dependencies s) = (x, y, z)"
    by (metis prod_cases3)
  have upd [simp]: "tc_static (s\<lparr> tc_time_minminDe := a \<rparr>) = tc_static s"
    "tc_static (s\<lparr> tc_time_minDe := c, tc_time_allow := d \<rparr>) = tc_static s" for s :: "'a TimeCoordinator" and a c d
    by (simp_all add: tc_static_def)
  obtain s2 c d where s2: "updateNextPossibleEventTime T (s\<lparr> tc_time_minminDe := min z y \<rparr>) = Some s2"
    and ex: "\<exists>b. updateNextExecutionTime T (s2\<lparr> tc_time_minDe := c, tc_time_allow := d \<rparr>) = Some (b, s')"
    using assms by (auto simp: updateTimeFactors_def fold Let_def bind_eq_Some_conv)
  then show ?thesis
    using updateNextExecutionTime_static updateNextPossibleEventTime_static [OF s2] by fastforce
qed

lemma tc_inv_frame [simp]:
  "tc_inv T (s\<lparr> tc_time_granted := x1 \<rparr>) = tc_inv T s"
  "tc_inv T (s\<lparr> tc_time_grantBase := x2 \<rparr>) = tc_inv T s"
  "tc_inv T (s\<lparr> tc_time_requested := x3 \<rparr>) = tc_inv T s"
  "tc_inv T (s\<lparr> tc_time_next := x4 \<rparr>) = tc_inv T s"
  "tc_inv T (s\<lparr> tc_time_minminDe := x5 \<rparr>) = tc_inv T s"
  "tc_inv T (s\<lparr> tc_time_minDe := x6 \<rparr>) = tc_inv T s"
  "tc_inv T (s\<lparr> tc_time_allow := x7 \<rparr>) = tc_inv T s"
  "tc_inv T (s\<lparr> tc_time_exec := x8 \<rparr>) = tc_inv T s"
  "tc_inv T (s\<lparr> tc_time_message := x9 \<rparr>) = tc_inv T s"
  "tc_inv T (s\<lparr> tc_time_value := x10 \<rparr>) = tc_inv T s"
  "tc_inv T (s\<lparr> tc_iterating := x11 \<rparr>) = tc_inv T s"
  "tc_inv T (s\<lparr> tc_checkingExec := x12 \<rparr>) = tc_inv T s"
  "tc_inv T (s\<lparr> tc_executionMode := x13 \<rparr>) = tc_inv T s"
  "tc_inv T (s\<lparr> tc_hasInitUpdates := x14 \<rparr>) = tc_inv T s"
  "tc_inv T (s\<lparr> tc_iteration := x15 \<rparr>) = tc_inv T s"
  "tc_inv T (s\<lparr> tc_disconnected := x16 \<rparr>) = tc_inv T s"
  "tc_inv T (s\<lparr> tc_sent := x17 \<rparr>) = tc_inv T s"
  "tc_inv T (s\<lparr> tc_source_id := x18 \<rparr>) = tc_inv T s"
  by (simp_all add: tc_inv_def records_ok_def block_ok_def)

lemma tc_inv_dependencies:
  assumes "tc_inv T s" and "dep_ids deps = dep_ids (tc_dependencies s)" and "list_all dep_ok deps"
  shows "tc_inv T (s\<lparr> tc_dependencies := deps \<rparr>)"
  using assms by (simp add: tc_inv_def records_ok_def block_ok_def deps_ok_def del: mset_map)

lemma tc_inv_deps_ok: "tc_inv T s \<Longrightarrow> list_all dep_ok (tc_dependencies s)"
  by (simp add: tc_inv_def deps_ok_def)

lemma sendTimeRequest_inv [simp]: "tc_inv T' (sendTimeRequest T s) = tc_inv T' s"
  by (simp add: sendTimeRequest_eq)

lemma sendMessage_inv [simp]: "tc_inv T (sendMessage m s) = tc_inv T s"
  by (simp add: sendMessage_def)

lemma updateTimeFactors_inv: "updateTimeFactors T s = Some (u, s') \<Longrightarrow> tc_inv T' s' = tc_inv T' s"
  by (rule tc_inv_static [OF updateTimeFactors_static])

lemma set_request_static: "set_request T t it v m s = Some s' \<Longrightarrow> tc_static s' = tc_static s"
  by (cases "it = no_iterations") (auto simp: set_request_def Let_def bind_eq_Some_conv tc_static_def)

lemma timeRequest_inv:
  assumes "timeRequest T t it v m s = Some s'" and inv: "tc_inv T s"
  shows "tc_inv T s'"
proof -
  obtain s3 u s5 where s3: "set_request T t it v m s = Some s3"
    and s5: "updateTimeFactors T (s3\<lparr> tc_dependencies := resetDependentEvents (tc_time_granted s3) (tc_dependencies s3) \<rparr>) = Some (u, s5)"
    and s': "s' = (if tc_dependents s5 \<noteq> [] then sendTimeRequest T s5 else s5)"
    using assms(1) by (auto simp: timeRequest_def Let_def bind_eq_Some_conv)
  have "tc_inv T s3"
    using tc_inv_static [OF set_request_static [OF s3]] inv by simp
  from tc_inv_dependencies [OF this reset_ids(3) reset_ok(3)] show ?thesis
    using updateTimeFactors_inv [OF s5, of T] by (simp add: s')
qed

lemma updateValueTime_inv:
  assumes "updateValueTime T t s = Some s'"
  shows "tc_inv T' s' = tc_inv T' s"
  using assms tc_inv_static [OF updateNextExecutionTime_static, of T _ _ _ T']
  by (auto simp: updateValueTime_def Let_def bind_eq_Some_conv split: if_splits)

lemma updateMessageTime_inv:
  assumes "updateMessageTime T t s = Some s'"
  shows "tc_inv T' s' = tc_inv T' s"
  using assms tc_inv_static [OF updateNextExecutionTime_static, of T _ _ _ T']
  by (auto simp: updateMessageTime_def Let_def bind_eq_Some_conv split: if_splits)

lemma updateTimeGrant_inv: "tc_inv T s \<Longrightarrow> tc_inv T (updateTimeGrant T' s)"
  by (simp add: updateTimeGrant_def Let_def)
    (intro conjI impI tc_inv_dependencies; simp add: tc_inv_deps_ok reset_ok del: map_map)

lemma enteringExecMode_inv: "tc_inv T' (enteringExecMode T it s) = tc_inv T' s"
  by (simp add: enteringExecMode_def Let_def)

lemma checkExecEntry_inv: "tc_inv T s \<Longrightarrow> tc_inv T (snd (checkExecEntry T' s))"
  by (simp add: checkExecEntry_def Let_def)
    (intro conjI impI tc_inv_dependencies; simp add: tc_inv_deps_ok reset_ok del: map_map)

lemma tc_updateTime_inv: "tc_inv T s \<Longrightarrow> tc_inv T (snd (tc_updateTime T' m s))"
  by (simp add: tc_updateTime_def split_beta tc_inv_dependencies updateTime_ok tc_inv_deps_ok)

lemma processTimeBlockMessage_keeps:
  "tc_dependencies (snd (processTimeBlockMessage T cmd s)) = tc_dependencies s"
  "tc_dependents (snd (processTimeBlockMessage T cmd s)) = tc_dependents s"
  "tc_dependent_federates (snd (processTimeBlockMessage T cmd s)) = tc_dependent_federates s"
  "tc_dependency_federates (snd (processTimeBlockMessage T cmd s)) = tc_dependency_federates s"
  "tc_info (snd (processTimeBlockMessage T cmd s)) = tc_info s"
  by (simp_all add: processTimeBlockMessage_def Let_def split_beta)

lemma processTimeBlockMessage_inv:
  "time_bounded T \<Longrightarrow> tc_inv T s \<Longrightarrow> tc_inv T (snd (processTimeBlockMessage T cmd s))"
  using block_ok_block_message [of T s cmd]
  by (simp add: tc_inv_def records_ok_def processTimeBlockMessage_keeps)

lemma tc_processTimeMessage_inv:
  assumes "time_bounded T" and "tc_inv T s"
  shows "tc_inv T (snd (tc_processTimeMessage T cmd s))"
  using assms
  by (auto simp: tc_processTimeMessage_def Let_def processTimeBlockMessage_inv tc_updateTime_inv
      tc_inv_removeDependent split: option.split)

lemma send_bye_inv:
  assumes "time_bounded T" and "tc_inv T s"
  shows "tc_inv T (snd (send_bye T le act s))"
proof -
  define bye where "bye = (mk_message T act)\<lparr> source_id := tc_source_id s \<rparr>"
  have fold: "tc_inv T s1 \<Longrightarrow> tc_inv T (snd (foldl (\<lambda>(multi, s1) fed.
        let bye' = bye\<lparr> dest_id := fed \<rparr>
        in if fed = tc_source_id s1 then (multi, snd (tc_processTimeMessage T bye' s1))
           else (snd (appendMessage T le multi bye'), s1)) (multi, s1) feds))" for multi s1 feds
    by (induction feds arbitrary: multi s1) (auto simp: Let_def tc_processTimeMessage_inv assms(1))
  show ?thesis
    using assms fold
    by (auto simp: send_bye_def Let_def tc_processTimeMessage_inv split_beta bye_def [symmetric] split: list.split)
qed

lemma disconnect_inv: "time_bounded T \<Longrightarrow> tc_inv T s \<Longrightarrow> tc_inv T (disconnect T le s)"
  using send_bye_inv [of T "s\<lparr> tc_time_granted := maxVal T, tc_time_grantBase := maxVal T \<rparr>" le cmd_disconnect]
  by (simp add: disconnect_def Let_def split_beta)

lemma localError_inv: "time_bounded T \<Longrightarrow> tc_inv T s \<Longrightarrow> tc_inv T (localError T le s)"
  using send_bye_inv [of T "s\<lparr> tc_time_granted := maxVal T, tc_time_grantBase := maxVal T \<rparr>" le cmd_local_error]
  by (simp add: localError_def Let_def split_beta)

lemma checkTimeGrant_inv:
  assumes "checkTimeGrant T le s = Some (r, s')" and "time_bounded T" and "tc_inv T s"
  shows "tc_inv T s'"
proof -
  obtain u s1 where s1: "updateTimeFactors T s = Some (u, s1)"
    using assms(1) by (auto simp: checkTimeGrant_def bind_eq_Some_conv)
  then have "tc_inv T s1"
    using updateTimeFactors_inv assms(3) by blast
  then show ?thesis
    using assms(1,2) by (auto simp: checkTimeGrant_def s1 Let_def disconnect_inv updateTimeGrant_inv split: if_splits)
qed

lemma tc_processDependencyUpdateMessage_inv:
  "tc_inv T s \<Longrightarrow> tc_inv T (tc_processDependencyUpdateMessage T cmd s)"
  by (simp add: tc_processDependencyUpdateMessage_def tc_inv_addDependency tc_inv_addDependent
      tc_inv_removeDependency tc_inv_removeDependent)

lemma setTimeProperty_inv:
  assumes "time_consts T" and "tc_inv T s"
  shows "tc_inv T (setTimeProperty T p v s)"
  using assms
  by (auto simp: setTimeProperty_def Let_def tc_inv_def records_ok_def block_ok_def time_consts_def
      timeZero_def timeEpsilon_def)

lemma processConfigUpdateMessage_inv:
  assumes "time_consts T" and "tc_inv T s"
  shows "tc_inv T (processConfigUpdateMessage T cmd s)"
proof -
  have "tc_inv T (setIntProperty T p i s)" for p i
    using setTimeProperty_inv [OF assms, of p]  assms(2)
    by (auto simp: setIntProperty_def tc_inv_def records_ok_def block_ok_def)
  moreover have "tc_inv T (setOptionFlag f b s)" for f b
    using assms(2) by (auto simp: setOptionFlag_def Let_def tc_inv_def records_ok_def block_ok_def)
  ultimately show ?thesis
    using assms by (simp add: processConfigUpdateMessage_def setTimeProperty_inv)
qed

section \<open>Runs of a coordinator\<close>

text \<open>Everything a federate does to its coordinator; a call that does not return makes no step.\<close>

inductive tc_step :: "('t::linorder) time_rep \<Rightarrow> bool \<Rightarrow> 't TimeCoordinator \<Rightarrow> 't TimeCoordinator \<Rightarrow> bool"
  for T le where
  entering: "tc_step T le s (enteringExecMode T mode s)"
| exec_entry: "tc_step T le s (snd (checkExecEntry T s))"
| request: "timeRequest T t it v m s = Some s' \<Longrightarrow> tc_step T le s s'"
| value_time: "updateValueTime T t s = Some s' \<Longrightarrow> tc_step T le s s'"
| message_time: "updateMessageTime T t s = Some s' \<Longrightarrow> tc_step T le s s'"
| grant: "checkTimeGrant T le s = Some (r, s') \<Longrightarrow> tc_step T le s s'"
| time_message: "tc_step T le s (snd (tc_processTimeMessage T cmd s))"
| dependency_message: "tc_step T le s (tc_processDependencyUpdateMessage T cmd s)"
| config_message: "tc_step T le s (processConfigUpdateMessage T cmd s)"
| leave: "tc_step T le s (disconnect T le s)"
| fail: "tc_step T le s (localError T le s)"
| set_source: "tc_step T le s (s\<lparr> tc_source_id := i \<rparr>)"

lemma tc_step_inv:
  assumes "tc_step T le s s'" and "time_bounded T" and "time_consts T" and "tc_inv T s"
  shows "tc_inv T s'"
  using assms(1)
proof cases
  case value_time
  then show ?thesis using updateValueTime_inv assms(4) by blast
next
  case message_time
  then show ?thesis using updateMessageTime_inv assms(4) by blast
qed (use assms timeRequest_inv checkTimeGrant_inv in
    \<open>auto simp: enteringExecMode_inv checkExecEntry_inv tc_processTimeMessage_inv
      tc_processDependencyUpdateMessage_inv processConfigUpdateMessage_inv disconnect_inv localError_inv\<close>)

lemma tc_reachable_inv:
  assumes "(tc_step T le)\<^sup>*\<^sup>* (TimeCoordinator_default T) s" and "time_bounded T" and "time_consts T"
  shows "tc_inv T s"
  using assms(1)
proof induction
  case base
  then show ?case
    using assms(3) by (simp add: TimeCoordinator_default_def tcoptions_default_def tc_inv_def deps_ok_def records_ok_def
        block_ok_def time_consts_def timeZero_def)
next
  case (step s s')
  then show ?case
    using tc_step_inv assms(2,3) by blast
qed

interpretation tc_tracker: dependency_tracker "tc_processDependencyUpdateMessage T"
    "\<lambda>s. set (dep_ids (tc_dependencies s))" "\<lambda>s. set (tc_dependents s)" "tc_inv T" for T
proof
  fix s :: "'a TimeCoordinator" and m
  assume inv: "tc_inv T s"
  show "tc_inv T (tc_processDependencyUpdateMessage T m s)"
    by (rule tc_processDependencyUpdateMessage_inv [OF inv])
  have deps: "strictly_sorted (dep_ids (tc_dependencies s))" and dents: "strictly_sorted (tc_dependents s)"
    using inv by (simp_all add: tc_inv_def deps_ok_def)
  have keep: "tc_dependents (snd (tc_addDependency T f s)) = tc_dependents s"
    "tc_dependents (tc_removeDependency f s) = tc_dependents s"
    "tc_dependencies (snd (tc_addDependent f s)) = tc_dependencies s"
    "tc_dependencies (tc_removeDependent f s) = tc_dependencies s" for f and s :: "'a TimeCoordinator"
    by (simp_all add: tc_addDependency_def tc_removeDependency_def tc_addDependent_def tc_removeDependent_def
        Let_def split_beta)
  show "set (dep_ids (tc_dependencies (tc_processDependencyUpdateMessage T m s)))
      = dependency_spec m (set (dep_ids (tc_dependencies s)))"
    by (simp add: tc_processDependencyUpdateMessage_def dependency_spec_def keep
        tc_dependency_reg.add_set [OF deps] tc_dependency_reg.remove_set [OF deps] cmd_defs del: set_map)
  show "set (tc_dependents (tc_processDependencyUpdateMessage T m s)) = dependent_spec m (set (tc_dependents s))"
    by (simp add: tc_processDependencyUpdateMessage_def dependent_spec_def keep dents
        tc_dependent_reg.add_set tc_dependent_reg.remove_set cmd_defs)
qed

section \<open>Leaving a federation\<close>

lemma connections_set:
  "set (connections T s) = set (tc_dependents s) \<union> {fedID d |d. d \<in> set (tc_dependencies s) \<and> Tnext d < maxVal T}"
  by (auto simp: connections_def)

definition bye_string :: "('t::linorder) time_rep \<Rightarrow> bool \<Rightarrow> action_t \<Rightarrow> global_federate_id \<Rightarrow> global_federate_id \<Rightarrow> string" where
  "bye_string T le act src fed =
     string_of_bytes (to_string T le ((mk_message T act)\<lparr> source_id := src, dest_id := fed \<rparr>))"

lemma send_bye_many:
  assumes "tc_source_id s \<notin> set (connections T s)" and "2 \<le> length (connections T s)"
  shows "\<exists>multi. send_bye T le act s = (True, sendMessage multi s)
    \<and> messageAction multi = cmd_multi_message
    \<and> stringData multi = take 255 (map (bye_string T le act (tc_source_id s)) (connections T s))"
proof -
  let ?bye = "(mk_message T act)\<lparr> source_id := tc_source_id s \<rparr>"
  let ?multi = "foldl (\<lambda>m x. snd (appendMessage T le m (?bye\<lparr> dest_id := x \<rparr>))) (mk_message T cmd_multi_message) (connections T s)"
  have fold: "tc_source_id s \<notin> set feds \<Longrightarrow> foldl (\<lambda>(multi, s1) fed.
        let bye' = ?bye\<lparr> dest_id := fed \<rparr>
        in if fed = tc_source_id s1 then (multi, snd (tc_processTimeMessage T bye' s1))
           else (snd (appendMessage T le multi bye'), s1)) (multi, s) feds
      = (foldl (\<lambda>m x. snd (appendMessage T le m (?bye\<lparr> dest_id := x \<rparr>))) multi feds, s)" for multi feds
    by (induction feds arbitrary: multi) (auto simp: Let_def)
  obtain f1 f2 rest where c: "connections T s = f1 # f2 # rest"
    using assms(2) by (cases "connections T s"; cases "tl (connections T s)") auto
  have "send_bye T le act s = (True, sendMessage ?multi s)"
    using fold [OF assms(1), of "mk_message T cmd_multi_message"]
    by (simp add: send_bye_def c Let_def del: foldl_Cons)
  moreover have "multi_ok ?multi \<and> stringData ?multi = take 255 (map (bye_string T le act (tc_source_id s)) (connections T s))"
    using append_all [OF multi_ok_new, where T = T and le = le and f = "\<lambda>x. ?bye\<lparr> dest_id := x \<rparr>" and xs = "connections T s"]
    by (simp add: bye_string_def [abs_def])
  ultimately show ?thesis
    by (auto simp: multi_ok_def)
qed

text \<open>A coordinator that leaves, with several connections and not connected to itself, sends one
  container message with one disconnect message for every federate that depends on it and every
  dependency that has not left, in the order of their identifiers, and has disconnected. The
  container takes 255 messages; with more connections the rest are not told.\<close>

lemma disconnect_notifies:
  assumes "tc_source_id s \<notin> set (connections T s)" and "2 \<le> length (connections T s)"
  shows "\<exists>multi. tc_sent (disconnect T le s) = tc_sent s @ [multi]
    \<and> messageAction multi = cmd_multi_message
    \<and> stringData multi = take 255 (map (\<lambda>fed. string_of_bytes (to_string T le
        ((mk_message T cmd_disconnect)\<lparr> source_id := tc_source_id s, dest_id := fed \<rparr>))) (connections T s))
    \<and> set (connections T s) = set (tc_dependents s)
        \<union> {fedID d |d. d \<in> set (tc_dependencies s) \<and> Tnext d < maxVal T}
    \<and> tc_disconnected (disconnect T le s) \<and> tc_time_granted (disconnect T le s) = maxVal T"
proof -
  let ?s = "s\<lparr> tc_time_granted := maxVal T, tc_time_grantBase := maxVal T \<rparr>"
  have conn: "connections T ?s = connections T s"
    by (simp add: connections_def)
  obtain multi where "send_bye T le cmd_disconnect ?s = (True, sendMessage multi ?s)"
    "messageAction multi = cmd_multi_message"
    "stringData multi = take 255 (map (bye_string T le cmd_disconnect (tc_source_id s)) (connections T s))"
    using send_bye_many [of ?s T le cmd_disconnect] assms by (auto simp: conn)
  then show ?thesis
    using connections_set [of T s] by (auto simp: disconnect_def sendMessage_def bye_string_def [abs_def])
qed

definition two_dependents :: "ticks TimeCoordinator" where
  "two_dependents = (TimeCoordinator_default tick_rep)
     \<lparr> tc_dependents := [Global_Federate_Id 131073, Global_Federate_Id 131074], tc_source_id := Global_Federate_Id 131072 \<rparr>"

lemma two_dependents_connections:
  "connections tick_rep two_dependents = [Global_Federate_Id 131073, Global_Federate_Id 131074]"
  by (simp add: connections_def two_dependents_def TimeCoordinator_default_def less_eq_global_federate_id_def)

lemma disconnect_notifies_example:
  "tc_disconnected (disconnect tick_rep True two_dependents)"
proof -
  have "tc_source_id two_dependents \<notin> set (connections tick_rep two_dependents)"
    by (simp add: two_dependents_connections) (simp add: two_dependents_def)
  from disconnect_notifies [OF this, of True] show ?thesis
    by (auto simp: two_dependents_connections)
qed


section \<open>Properties of the coordinator\<close>

text \<open>C24: in every state a coordinator can reach from its initial one, by any sequence of requests,
  checks, messages and configuration, the dependencies and dependents are strictly ordered vectors
  without duplicates, the accessible records of both agree with them, the blocking time is the
  earliest block in force, and the minimal time step is positive.\<close>

theorem coordinator_invariant:
  assumes "time_bounded T" and "time_consts T" and "(tc_step T le)\<^sup>*\<^sup>* (TimeCoordinator_default T) s"
  shows "strictly_sorted (map fedID (tc_dependencies s)) \<and> strictly_sorted (tc_dependents s)
    \<and> mset (tc_getDependencies s) = mset (map fedID (tc_dependencies s))
    \<and> mset (tc_getDependents s) = mset (tc_dependents s)
    \<and> tc_time_block s = (if tc_timeBlocks s = [] then maxVal T else Min (fst ` set (tc_timeBlocks s)))
    \<and> timeZero T < getTimeProperty T prop_time_delta s"
  using tc_reachable_inv [OF assms(3,1,2)]
  by (simp add: tc_inv_def deps_ok_def records_ok_def block_ok_def tc_getDependencies_def tc_getDependents_def
      getTimeProperty_def property_defs min_list_Min)

theorem coordinator_invariant_witness:
  "strictly_sorted (map fedID (tc_dependencies (tc_processDependencyUpdateMessage tick_rep
      ((mk_message tick_rep cmd_add_dependency)\<lparr> source_id := Global_Federate_Id 131073 \<rparr>)
      (TimeCoordinator_default tick_rep))))"
  using coordinator_invariant [OF tick_bounded tick_consts
      r_into_rtranclp [where r = "tc_step tick_rep True", OF dependency_message]]
  by blast

text \<open>C1: \<open>checkTimeGrant\<close> returns whenever a next possible time exists, and when it grants a time or an
  iteration, the time is before every block, is not past the allowed time (the input delay after
  the earliest time any active dependency can still act), and is equal to the allowed time only if
  it was requested or every dependency is ready for it.\<close>

theorem time_grant_safe:
  assumes "time_bounded T" and "getNextPossibleTime T s = Some np"
  shows "\<exists>r s'. checkTimeGrant T le s = Some (r, s')
    \<and> (r = MPR_next_step \<or> r = MPR_iterating \<longrightarrow>
        tc_time_granted s' = (if tc_iterating s = force_iteration then tc_time_granted s else tc_time_exec s')
      \<and> tc_time_exec s' < tc_time_block s
      \<and> tc_time_exec s' \<le> tc_time_allow s'
      \<and> tc_time_allow s' =
          (if \<exists>d \<in> set (tc_dependencies s). Tnext d < maxVal T
           then t_add T (inputDelay (tc_info s)) (Min (Tnext ` set (tc_dependencies s))) else maxVal T)
      \<and> (tc_time_exec s' = tc_time_allow s' \<longrightarrow>
           (r = MPR_next_step \<and> tc_time_requested s \<le> tc_time_exec s')
         \<or> checkIfReadyForTimeGrant (r = MPR_iterating) (tc_time_exec s') (tc_dependencies s)))"
proof -
  obtain r s' where r: "checkTimeGrant T le s = Some (r, s')"
    and c: "r = MPR_next_step \<or> r = MPR_iterating \<longrightarrow>
        tc_time_exec s' = exec_time T np s \<and> tc_time_allow s' = allow_time T s
      \<and> tc_time_granted s' = (if tc_iterating s = force_iteration then tc_time_granted s else exec_time T np s)
      \<and> exec_time T np s \<le> allow_time T s \<and> exec_time T np s < tc_time_block s
      \<and> (exec_time T np s = allow_time T s \<longrightarrow>
           (r = MPR_next_step \<and> tc_time_requested s \<le> exec_time T np s)
         \<or> checkIfReadyForTimeGrant (r = MPR_iterating) (exec_time T np s) (tc_dependencies s))"
    using checkTimeGrant_cases [OF assms(2), of le] by blast
  then show ?thesis
    unfolding allow_time_spec [OF assms(1), symmetric]
    by (intro exI [of _ r] exI [of _ s']) auto
qed

definition one_dep :: "ticks TimeCoordinator" where
  "one_dep = (TimeCoordinator_default tick_rep)
     \<lparr> tc_time_granted := Ticks 10, tc_time_grantBase := Ticks 10, tc_time_requested := Ticks 20,
       tc_dependencies := [(mk_DependencyInfo tick_rep (Global_Federate_Id 131073))\<lparr> Tnext := Ticks 30 \<rparr>] \<rparr>"

lemma one_dep_next: "getNextPossibleTime tick_rep one_dep = Some (Ticks 11)"
  by (simp add: one_dep_def getNextPossibleTime_def TimeCoordinator_default_def tcoptions_default_def
      generateAllowedTime_def max_def)

theorem time_grant_safe_witness:
  "\<exists>r s'. checkTimeGrant tick_rep True one_dep = Some (r, s')
    \<and> (r = MPR_next_step \<or> r = MPR_iterating \<longrightarrow> tc_time_exec s' < tc_time_block one_dep)"
  using time_grant_safe [OF tick_bounded one_dep_next, of True] by blast


lemma one_dep_regular: "tc_regular tick_rep tick_small one_dep"
  using tick_bounded tick_consts tick_range
  by (simp add: tc_regular_def one_dep_def TimeCoordinator_default_def tcoptions_default_def tick_small_def max_def)



text \<open>\<open>getNextPossibleTime\<close> returns, and returns a time after the one granted, provided the loop
  over periods, if it is entered, can reach the minimal time step.\<close>

lemma next_possible_time:
  assumes "tc_regular T R s"
    and "tc_time_granted s = timeZero T \<and> offset (tc_info s) \<noteq> timeZero T \<longrightarrow>
      (\<exists>n. timeDelta (tc_info s) \<le> ((\<lambda>t. t_add T t (period (tc_info s))) ^^ n)
             (t_add T (offset (tc_info s)) (period (tc_info s))))"
  shows "\<exists>np. getNextPossibleTime T s = Some np \<and> tc_time_granted s < np"
proof -
  have "\<exists>np. getNextPossibleTime T s = Some np"
  proof (cases "tc_time_granted s = timeZero T \<and> offset (tc_info s) \<noteq> timeZero T")
    case True
    then obtain np where "step_periods T (period (tc_info s)) (timeDelta (tc_info s))
        (t_add T (offset (tc_info s)) (period (tc_info s))) = Some np"
      using assms(2) step_periods_reach by blast
    then show ?thesis
      using True by (simp add: getNextPossibleTime_def Let_def)
  next
    case False
    then show ?thesis
      by (auto simp: getNextPossibleTime_def Let_def)
  qed
  then show ?thesis
    using next_possible_later [OF assms(1)] by blast
qed

definition offset_start :: "ticks TimeCoordinator" where
  "offset_start = (TimeCoordinator_default tick_rep)
     \<lparr> tc_time_granted := Ticks 0, tc_time_grantBase := Ticks 0,
       tc_info := (tcoptions_default tick_rep)\<lparr> timeDelta := Ticks 9, offset := Ticks 2, period := Ticks 3 \<rparr> \<rparr>"

lemma next_possible_time_example:
  "\<exists>np. getNextPossibleTime tick_rep offset_start = Some np \<and> tc_time_granted offset_start < np"
proof (rule next_possible_time)
  show "tc_regular tick_rep tick_small offset_start"
    using tick_bounded tick_consts tick_range
    by (simp add: tc_regular_def offset_start_def tick_small_def max_def)
  show "tc_time_granted offset_start = timeZero tick_rep \<and> offset (tc_info offset_start) \<noteq> timeZero tick_rep \<longrightarrow>
      (\<exists>n. timeDelta (tc_info offset_start) \<le> ((\<lambda>t. t_add tick_rep t (period (tc_info offset_start))) ^^ n)
             (t_add tick_rep (offset (tc_info offset_start)) (period (tc_info offset_start))))"
    by (intro impI exI [of _ 2]) (simp add: offset_start_def eval_nat_numeral)
qed

text \<open>Entry to execution: with no block at or before time zero and the dependencies ready, the
  coordinator either enters at time zero with its iteration counter reset, or iterates, counting up,
  only when forced or when something changed and the limit is not reached; it tells every dependent
  which, and otherwise nothing changes.\<close>

lemma exec_entry_spec:
  "checkExecEntry T s =
     (if tc_time_block s \<le> timeZero T
        \<or> \<not> checkIfReadyForExecEntry (tc_iterating s \<noteq> no_iterations) (tc_dependencies s)
      then (MPR_continue_processing, s)
      else if tc_iterating s = no_iterations
        \<or> tc_iterating s = iterate_if_needed
          \<and> (tc_hasInitUpdates s \<longrightarrow> sint (maxIterations (tc_info s)) \<le> sint (tc_iteration s))
      then (MPR_next_step,
        s\<lparr> tc_time_granted := timeZero T, tc_time_grantBase := timeZero T, tc_executionMode := True,
           tc_iteration := 0,
           tc_sent := tc_sent s @ map (\<lambda>dep. (mk_message T cmd_exec_grant)
                        \<lparr> source_id := tc_source_id s, dest_id := dep \<rparr>) (tc_dependents s) \<rparr>)
      else (MPR_iterating,
        s\<lparr> tc_dependencies := resetIteratingExecRequests (tc_dependencies s), tc_hasInitUpdates := False,
           tc_iteration := tc_iteration s + 1,
           tc_sent := tc_sent s @ map (\<lambda>dep. msg_setFlag iteration_requested_flag
                        ((mk_message T cmd_exec_grant)\<lparr> source_id := tc_source_id s, dest_id := dep,
                           counter := ucast (tc_iteration s + 1) \<rparr>)) (tc_dependents s) \<rparr>))"
  by (cases "tc_iterating s") (auto simp: checkExecEntry_def exec_entry_result_def Let_def msg_setFlag_def)

lemma exec_entry_spec_example:
  "fst (checkExecEntry tick_rep (TimeCoordinator_default tick_rep)) = MPR_next_step"
  by (subst exec_entry_spec)
    (simp add: TimeCoordinator_default_def checkIfReadyForExecEntry_def)

text \<open>A request without iteration asks for the requested time or the next possible one, whichever is
  later; no value or message counts before that, what has been granted stays, and every dependent
  receives one time request.\<close>

lemma time_request_spec:
  assumes "getNextPossibleTime T s = Some np"
  shows "\<exists>s'. timeRequest T t no_iterations v m s = Some s'
    \<and> tc_time_requested s' = max t np \<and> np \<le> tc_time_value s' \<and> np \<le> tc_time_message s'
    \<and> tc_time_granted s' = tc_time_granted s
    \<and> (\<exists>upd. messageAction upd = cmd_time_request \<and> source_id upd = tc_source_id s
        \<and> actionTime upd = tc_time_next s'
        \<and> tc_sent s' = tc_sent s @ map (\<lambda>dep. upd\<lparr> dest_id := dep \<rparr>) (tc_dependents s))"
proof -
  let ?nt = "if t < np then np else t"
  let ?n = "if uninterruptible (tc_info s) then ?nt else np"
  let ?v = "if v > ?n then v else ?n" and ?m = "if m > ?n then m else ?n"
  let ?s3 = "s\<lparr> tc_iterating := no_iterations, tc_time_next := ?n, tc_time_requested := ?nt, tc_time_value := ?v,
      tc_time_message := ?m, tc_time_exec := (if uninterruptible (tc_info s) then ?nt else min ?v (min ?m ?nt)) \<rparr>"
  let ?s4 = "?s3\<lparr> tc_dependencies := resetDependentEvents (tc_time_granted s) (tc_dependencies s) \<rparr>"
  have s3: "set_request T t no_iterations v m s = Some ?s3"
    using assms by (simp add: set_request_def Let_def)
  have "getNextPossibleTime T ?s4 = Some np"
    using assms by simp
  from updateTimeFactors_Some [OF this] obtain u a b c where
    f: "updateTimeFactors T ?s4 = Some (u, ?s4\<lparr> tc_time_minminDe := a, tc_time_next := b,
      tc_time_minDe := c, tc_time_allow := allow_time T ?s4, tc_time_exec := exec_time T np ?s4 \<rparr>)"
    by blast
  let ?s5 = "?s4\<lparr> tc_time_minminDe := a, tc_time_next := b,
      tc_time_minDe := c, tc_time_allow := allow_time T ?s4, tc_time_exec := exec_time T np ?s4 \<rparr>"
  let ?s' = "?s5\<lparr> tc_sent := tc_sent s @ map (\<lambda>dep. (time_request_message T ?s5)\<lparr> dest_id := dep \<rparr>) (tc_dependents s) \<rparr>"
  have "timeRequest T t no_iterations v m s = Some ?s'"
    using f by (simp add: timeRequest_def s3 sendTimeRequest_eq)
  then show ?thesis
    by (intro exI [of _ ?s'] conjI exI [of _ "time_request_message T ?s5"]) (auto simp: max_def not_less)
qed

lemma time_request_spec_example:
  "\<exists>s'. timeRequest tick_rep (Ticks 15) no_iterations (Ticks 12) (Ticks 40) one_dep = Some s'
    \<and> tc_time_requested s' = Ticks 15"
  using time_request_spec [OF one_dep_next, of "Ticks 15" "Ticks 12" "Ticks 40"] by (auto simp: max_def)

text \<open>Any sequence of dependency update messages has the effect of the corresponding operations on
  the set of dependencies and the set of dependents.\<close>

lemma dependency_updates_refine:
  assumes "timeZero T < epsilon T"
  shows "set (map fedID (tc_dependencies (foldl (\<lambda>s m. tc_processDependencyUpdateMessage T m s)
          (TimeCoordinator_default T) ms))) = foldl (\<lambda>A m. dependency_spec m A) {} ms
    \<and> set (tc_dependents (foldl (\<lambda>s m. tc_processDependencyUpdateMessage T m s)
          (TimeCoordinator_default T) ms)) = foldl (\<lambda>A m. dependent_spec m A) {} ms"
proof -
  have "tc_inv T (TimeCoordinator_default T)"
    using assms by (simp add: TimeCoordinator_default_def tcoptions_default_def tc_inv_def deps_ok_def
        records_ok_def block_ok_def)
  from tc_tracker.run_tracks [OF this, of ms] show ?thesis
    by (simp add: TimeCoordinator_default_def)
qed

lemma dependency_updates_refine_example:
  "set (tc_dependents (foldl (\<lambda>s m. tc_processDependencyUpdateMessage tick_rep m s) (TimeCoordinator_default tick_rep)
     [(mk_message tick_rep cmd_add_interdependency)\<lparr> source_id := Global_Federate_Id 131073 \<rparr>]))
    = {Global_Federate_Id 131073}"
proof -
  have "timeZero tick_rep < epsilon tick_rep"
    by simp
  from conjunct2 [OF dependency_updates_refine [OF this,
      of "[(mk_message tick_rep cmd_add_interdependency)\<lparr> source_id := Global_Federate_Id 131073 \<rparr>]"]]
  show ?thesis
    by (simp add: dependent_spec_def)
qed

end
