(* ===== verification/Handle_Manager.thy ===== *)
theory Handle_Manager
  imports Enumerations
begin

text \<open>
  The table of interface handles that cores and brokers keep (\<open>BasicHandleInfo.hpp\<close>,
  \<open>HandleManager.hpp\<close>, \<open>HandleManager.cpp\<close>): a deque of records, four indices from names and one from
  global identifiers. The pointers and references the lookups hand out are positions in the deque;
  the class indexes the deque without a test where it follows one of its own indices, so that such a
  position is in range is a theorem about the table and not part of the definitions.
\<close>

section \<open>Handle records\<close>

datatype handle_type = HT_unknown | HT_publication | HT_input | HT_endpoint | HT_filter

fun handle_type_char :: "handle_type \<Rightarrow> char" where
  "handle_type_char HT_unknown = CHR ''u''"
| "handle_type_char HT_publication = CHR ''p''"
| "handle_type_char HT_input = CHR ''i''"
| "handle_type_char HT_endpoint = CHR ''e''"
| "handle_type_char HT_filter = CHR ''f''"

definition mapped_flag :: nat where "mapped_flag = extra_flag1"
definition has_source_filter_flag :: nat where "has_source_filter_flag = extra_flag2"
definition has_dest_filter_flag :: nat where "has_dest_filter_flag = extra_flag3"
definition has_non_cloning_dest_filter_flag :: nat where "has_non_cloning_dest_filter_flag = extra_flag4"

definition handle_flag_definitions :: "nat list" where
  "handle_flag_definitions =
     [mapped_flag, has_source_filter_flag, has_dest_filter_flag, has_non_cloning_dest_filter_flag]"

record BasicHandleInfo =
  bh_handle :: global_handle
  local_fed_id :: local_federate_id
  handleType :: handle_type
  used :: bool
  bh_flags :: uint16
  bh_key :: string
  bh_type :: string
  bh_units :: string
  interface_info :: string

definition BasicHandleInfo_default :: BasicHandleInfo where
  "BasicHandleInfo_default =
     \<lparr> bh_handle = default_global_handle, local_fed_id = default_local_federate_id, handleType = HT_unknown,
       used = False, bh_flags = 0, bh_key = [], bh_type = [], bh_units = [], interface_info = [] \<rparr>"

definition mk_BasicHandleInfo ::
  "global_federate_id \<Rightarrow> interface_handle \<Rightarrow> handle_type \<Rightarrow> string \<Rightarrow> string \<Rightarrow> string \<Rightarrow> BasicHandleInfo" where
  "mk_BasicHandleInfo federate_id handle_id type_of_handle key_name type_name unit_name =
     BasicHandleInfo_default\<lparr> bh_handle := Global_Handle federate_id handle_id, handleType := type_of_handle,
       bh_key := key_name, bh_type := type_name, bh_units := unit_name \<rparr>"

definition getInterfaceHandle :: "BasicHandleInfo \<Rightarrow> interface_handle" where
  "getInterfaceHandle i = handle (bh_handle i)"

definition getFederateId :: "BasicHandleInfo \<Rightarrow> global_federate_id" where
  "getFederateId i = fed_id (bh_handle i)"

definition setInfoField :: "string \<Rightarrow> BasicHandleInfo \<Rightarrow> BasicHandleInfo" where
  "setInfoField info i = i\<lparr> interface_info := info \<rparr>"

text \<open>The two names a filter has for its type and units are references to the fields.\<close>

definition type_in :: "BasicHandleInfo \<Rightarrow> string" where
  "type_in i = bh_type i"

definition type_out :: "BasicHandleInfo \<Rightarrow> string" where
  "type_out i = bh_units i"

section \<open>The table\<close>

type_synonym name_index = "string \<rightharpoonup> interface_handle"

record HandleManager =
  hm_handles :: "BasicHandleInfo list"
  hm_publications :: name_index
  hm_endpoints :: name_index
  hm_inputs :: name_index
  hm_filters :: name_index
  unique_ids :: "uint64 \<rightharpoonup> int32"

definition HandleManager_empty :: HandleManager where
  "HandleManager_empty =
     \<lparr> hm_handles = [], hm_publications = Map.empty, hm_endpoints = Map.empty, hm_inputs = Map.empty,
       hm_filters = Map.empty, unique_ids = Map.empty \<rparr>"

definition generateName :: "handle_type \<Rightarrow> HandleManager \<Rightarrow> string" where
  "generateName what s =
     (case what of
        HT_endpoint \<Rightarrow> ''_ept_''
      | HT_input \<Rightarrow> ''_input_''
      | HT_publication \<Rightarrow> ''_pub_''
      | HT_filter \<Rightarrow> ''_filter_''
      | _ \<Rightarrow> ''_handle_'') @ decimal (length (hm_handles s))"

definition addSearchFields :: "BasicHandleInfo \<Rightarrow> int32 \<Rightarrow> HandleManager \<Rightarrow> HandleManager" where
  "addSearchFields h index s =
     (let s1 = (case handleType h of
          HT_endpoint \<Rightarrow> s\<lparr> hm_endpoints := emplace (bh_key h) (Interface_Handle index) (hm_endpoints s) \<rparr>
        | HT_publication \<Rightarrow> s\<lparr> hm_publications := emplace (bh_key h) (Interface_Handle index) (hm_publications s) \<rparr>
        | HT_filter \<Rightarrow>
            if bh_key h \<noteq> [] then s\<lparr> hm_filters := emplace (bh_key h) (Interface_Handle index) (hm_filters s) \<rparr>
            else s
        | HT_input \<Rightarrow> s\<lparr> hm_inputs := emplace (bh_key h) (Interface_Handle index) (hm_inputs s) \<rparr>
        | HT_unknown \<Rightarrow> s)
      in s1\<lparr> unique_ids := emplace (global_handle_key (bh_handle h)) index (unique_ids s1) \<rparr>)"

definition addHandle_copy :: "BasicHandleInfo \<Rightarrow> HandleManager \<Rightarrow> HandleManager" where
  "addHandle_copy otherHandle s =
     addSearchFields otherHandle (size32 (hm_handles s)) (s\<lparr> hm_handles := hm_handles s @ [otherHandle] \<rparr>)"

definition addHandle_id ::
  "global_federate_id \<Rightarrow> interface_handle \<Rightarrow> handle_type \<Rightarrow> string \<Rightarrow> string \<Rightarrow> string \<Rightarrow> HandleManager
     \<Rightarrow> nat \<times> HandleManager" where
  "addHandle_id fed local_id what key type units s =
     (let actKey = (if key \<noteq> [] then key else generateName what s);
          info = mk_BasicHandleInfo fed local_id what actKey type units
      in (length (hm_handles s),
          addSearchFields info (size32 (hm_handles s)) (s\<lparr> hm_handles := hm_handles s @ [info] \<rparr>)))"

definition addHandle ::
  "global_federate_id \<Rightarrow> handle_type \<Rightarrow> string \<Rightarrow> string \<Rightarrow> string \<Rightarrow> HandleManager \<Rightarrow> nat \<times> HandleManager" where
  "addHandle fed what key type units s =
     addHandle_id fed (Interface_Handle (size32 (hm_handles s))) what key type units s"

definition removeHandle :: "global_handle \<Rightarrow> HandleManager \<Rightarrow> HandleManager" where
  "removeHandle h s =
     (let key = global_handle_key h
      in case unique_ids s key of
           None \<Rightarrow> s
         | Some index \<Rightarrow>
             let info = hm_handles s ! nat (sint index);
                 s1 = s\<lparr> unique_ids := (unique_ids s)(key := None) \<rparr>;
                 s2 = (if bh_key info \<noteq> []
                       then case handleType info of
                              HT_endpoint \<Rightarrow> s1\<lparr> hm_endpoints := (hm_endpoints s1)(bh_key info := None) \<rparr>
                            | HT_publication \<Rightarrow> s1\<lparr> hm_publications := (hm_publications s1)(bh_key info := None) \<rparr>
                            | HT_filter \<Rightarrow> s1\<lparr> hm_filters := (hm_filters s1)(bh_key info := None) \<rparr>
                            | HT_input \<Rightarrow> s1\<lparr> hm_inputs := (hm_inputs s1)(bh_key info := None) \<rparr>
                            | HT_unknown \<Rightarrow> s1
                       else s1)
             in s2\<lparr> hm_handles := (hm_handles s2)[nat (sint index) := BasicHandleInfo_default] \<rparr>)"

definition addHandleAtIndex :: "BasicHandleInfo \<Rightarrow> int32 \<Rightarrow> HandleManager \<Rightarrow> HandleManager" where
  "addHandleAtIndex otherHandle index s =
     (if index = size32 (hm_handles s) then addHandle_copy otherHandle s
      else if isValidIndex index (hm_handles s)
      then addSearchFields otherHandle index
             (s\<lparr> hm_handles := (hm_handles s)[nat (sint index) := otherHandle] \<rparr>)
      else if 0 < sint index
      then addSearchFields otherHandle index
             (s\<lparr> hm_handles := (resize (nat (sint index) + 1) BasicHandleInfo_default (hm_handles s))
                                 [nat (sint index) := otherHandle] \<rparr>)
      else s)"

section \<open>Lookup\<close>

definition getHandleInfo :: "interface_handle \<Rightarrow> HandleManager \<Rightarrow> nat option" where
  "getHandleInfo h s = (if isValidIndex (hid h) (hm_handles s) then Some (nat (sint (hid h))) else None)"

definition findHandle :: "global_handle \<Rightarrow> HandleManager \<Rightarrow> nat option" where
  "findHandle h s = map_option (\<lambda>i. nat (sint i)) (unique_ids s (global_handle_key h))"

definition getEndpoint :: "string \<Rightarrow> HandleManager \<Rightarrow> nat option" where
  "getEndpoint name s = map_option (\<lambda>h. nat (sint (hid h))) (hm_endpoints s name)"

definition getPublication :: "string \<Rightarrow> HandleManager \<Rightarrow> nat option" where
  "getPublication name s = map_option (\<lambda>h. nat (sint (hid h))) (hm_publications s name)"

definition getInput :: "string \<Rightarrow> HandleManager \<Rightarrow> nat option" where
  "getInput name s = map_option (\<lambda>h. nat (sint (hid h))) (hm_inputs s name)"

definition getFilter :: "string \<Rightarrow> HandleManager \<Rightarrow> nat option" where
  "getFilter name s = map_option (\<lambda>h. nat (sint (hid h))) (hm_filters s name)"

definition getEndpoint_at :: "interface_handle \<Rightarrow> HandleManager \<Rightarrow> nat option" where
  "getEndpoint_at h s =
     (if isValidIndex (hid h) (hm_handles s)
      then let i = nat (sint (hid h)) in if handleType (hm_handles s ! i) = HT_endpoint then Some i else None
      else None)"

definition getPublication_at :: "interface_handle \<Rightarrow> HandleManager \<Rightarrow> nat option" where
  "getPublication_at h s =
     (if isValidIndex (hid h) (hm_handles s)
      then let i = nat (sint (hid h)) in if handleType (hm_handles s ! i) = HT_publication then Some i else None
      else None)"

definition getFilter_at :: "interface_handle \<Rightarrow> HandleManager \<Rightarrow> nat option" where
  "getFilter_at h s =
     (if isValidIndex (hid h) (hm_handles s)
      then let i = nat (sint (hid h)) in if handleType (hm_handles s ! i) = HT_filter then Some i else None
      else None)"

definition getLocalFedID :: "interface_handle \<Rightarrow> HandleManager \<Rightarrow> local_federate_id" where
  "getLocalFedID h s =
     (if isValidIndex (hid h) (hm_handles s) then local_fed_id (hm_handles s ! nat (sint (hid h)))
      else default_local_federate_id)"

section \<open>Options\<close>

definition handle_setFlag :: "nat \<Rightarrow> BasicHandleInfo \<Rightarrow> BasicHandleInfo" where
  "handle_setFlag f i = i\<lparr> bh_flags := setActionFlag (bh_flags i) f \<rparr>"

definition handle_clearFlag :: "nat \<Rightarrow> BasicHandleInfo \<Rightarrow> BasicHandleInfo" where
  "handle_clearFlag f i = i\<lparr> bh_flags := clearActionFlag (bh_flags i) f \<rparr>"

definition update_handle :: "nat \<Rightarrow> (BasicHandleInfo \<Rightarrow> BasicHandleInfo) \<Rightarrow> HandleManager \<Rightarrow> HandleManager" where
  "update_handle i f s = s\<lparr> hm_handles := (hm_handles s)[i := f (hm_handles s ! i)] \<rparr>"

definition setHandleOption :: "interface_handle \<Rightarrow> int32 \<Rightarrow> int32 \<Rightarrow> HandleManager \<Rightarrow> HandleManager" where
  "setHandleOption h option val s =
     (if isValidIndex (hid h) (hm_handles s)
      then let i = nat (sint (hid h))
           in if option = opt_connection_required
              then if val \<noteq> 0
                   then update_handle i (\<lambda>b. handle_setFlag required_flag (handle_clearFlag optional_flag b)) s
                   else update_handle i (handle_clearFlag required_flag) s
              else if option = opt_connection_optional
              then if val \<noteq> 0
                   then update_handle i (\<lambda>b. handle_setFlag optional_flag (handle_clearFlag required_flag b)) s
                   else update_handle i (handle_clearFlag optional_flag) s
              else s
      else s)"

definition getHandleOption :: "interface_handle \<Rightarrow> int32 \<Rightarrow> HandleManager \<Rightarrow> int32" where
  "getHandleOption h option s =
     (let rvalue =
        (if isValidIndex (hid h) (hm_handles s)
         then let f = bh_flags (hm_handles s ! nat (sint (hid h)))
              in if option = opt_only_update_on_change then checkActionFlag f extra_flag1
                 else if option = opt_only_transmit_on_change then checkActionFlag f extra_flag2
                 else if option = opt_connection_required then checkActionFlag f required_flag
                 else if option = opt_connection_optional then checkActionFlag f optional_flag
                 else if option = opt_single_connection_only then checkActionFlag f extra_flag4
                 else False
         else False)
      in of_bool rvalue)"

section \<open>The indices agree with the table\<close>

fun name_index_of :: "handle_type \<Rightarrow> HandleManager \<Rightarrow> name_index" where
  "name_index_of HT_unknown s = Map.empty"
| "name_index_of HT_publication s = hm_publications s"
| "name_index_of HT_input s = hm_inputs s"
| "name_index_of HT_endpoint s = hm_endpoints s"
| "name_index_of HT_filter s = hm_filters s"

definition name_entry_ok :: "BasicHandleInfo list \<Rightarrow> handle_type \<Rightarrow> string \<Rightarrow> interface_handle \<Rightarrow> bool" where
  "name_entry_ok hs t name h \<longleftrightarrow> name \<noteq> [] \<and> 0 \<le> sint (hid h) \<and> nat (sint (hid h)) < length hs
     \<and> handleType (hs ! nat (sint (hid h))) = t \<and> bh_key (hs ! nat (sint (hid h))) = name"

definition id_entry_ok :: "BasicHandleInfo list \<Rightarrow> uint64 \<Rightarrow> int32 \<Rightarrow> bool" where
  "id_entry_ok hs k i \<longleftrightarrow> 0 \<le> sint i \<and> nat (sint i) < length hs
     \<and> k = global_handle_key (bh_handle (hs ! nat (sint i)))"

definition hm_inv :: "HandleManager \<Rightarrow> bool" where
  "hm_inv s \<longleftrightarrow> length (hm_handles s) < 2 ^ 31
     \<and> (\<forall>t name h. name_index_of t s name = Some h \<longrightarrow> name_entry_ok (hm_handles s) t name h)
     \<and> (\<forall>k i. unique_ids s k = Some i \<longrightarrow> id_entry_ok (hm_handles s) k i)"

lemma mk_BasicHandleInfo_simps [simp]:
  "bh_handle (mk_BasicHandleInfo f i w k t u) = Global_Handle f i"
  "bh_key (mk_BasicHandleInfo f i w k t u) = k"
  "handleType (mk_BasicHandleInfo f i w k t u) = w"
  by (simp_all add: mk_BasicHandleInfo_def)

lemma name_index_frame [simp]:
  "name_index_of t (s\<lparr> hm_handles := hs \<rparr>) = name_index_of t s"
  "name_index_of t (s\<lparr> unique_ids := u \<rparr>) = name_index_of t s"
  by (cases t; simp)+

text \<open>Only a named handle of a known kind enters a name index; handles of the other kinds always enter
  the index of identifiers.\<close>

lemma addSearchFields_names:
  "name_index_of t (addSearchFields h i s) =
     (if t = handleType h \<and> t \<noteq> HT_unknown \<and> (t = HT_filter \<longrightarrow> bh_key h \<noteq> [])
      then emplace (bh_key h) (Interface_Handle i) (name_index_of t s) else name_index_of t s)"
  by (cases t; cases "handleType h") (simp_all add: addSearchFields_def)

lemma addSearchFields_ids:
  "unique_ids (addSearchFields h i s) = emplace (global_handle_key (bh_handle h)) i (unique_ids s)"
  by (cases "handleType h") (simp_all add: addSearchFields_def Let_def)

lemma addSearchFields_handles [simp]: "hm_handles (addSearchFields h i s) = hm_handles s"
  by (cases "handleType h") (simp_all add: addSearchFields_def Let_def)

text \<open>Placing a handle where no index points keeps the agreement.\<close>

lemma addSearchFields_inv:
  assumes inv: "hm_inv s" and hs: "length hs < 2 ^ 31" "length (hm_handles s) \<le> length hs"
    and same: "\<And>j. j < length (hm_handles s) \<Longrightarrow> j \<noteq> nat (sint i) \<Longrightarrow> hs ! j = hm_handles s ! j"
    and pos: "0 \<le> sint i" "nat (sint i) < length hs" "hs ! nat (sint i) = h"
    and key: "handleType h \<noteq> HT_unknown \<longrightarrow> handleType h \<noteq> HT_filter \<longrightarrow> bh_key h \<noteq> []"
    and free: "nat (sint i) < length (hm_handles s) \<longrightarrow> handleType (hm_handles s ! nat (sint i)) = HT_unknown
       \<and> unique_ids s (global_handle_key (bh_handle (hm_handles s ! nat (sint i)))) \<noteq> Some i"
  shows "hm_inv (addSearchFields h i (s\<lparr> hm_handles := hs \<rparr>))"
proof -
  have old: "name_entry_ok hs t name x" if "name_index_of t s name = Some x" for t name x
  proof -
    have e: "name_entry_ok (hm_handles s) t name x" and "t \<noteq> HT_unknown"
      using that inv by (auto simp: hm_inv_def)
    then have "nat (sint (hid x)) \<noteq> nat (sint i)"
      using free by (auto simp: name_entry_ok_def)
    with e show ?thesis
      using same hs(2) by (auto simp: name_entry_ok_def)
  qed
  have oldid: "id_entry_ok hs k x" if "unique_ids s k = Some x" for k x
  proof -
    have e: "id_entry_ok (hm_handles s) k x"
      using that inv by (auto simp: hm_inv_def)
    have "nat (sint x) \<noteq> nat (sint i)"
    proof
      assume "nat (sint x) = nat (sint i)"
      then have "x = i"
        using e pos(1) by (simp add: id_entry_ok_def eq_nat_nat_iff)
      then show False
        using e free that by (auto simp: id_entry_ok_def)
    qed
    with e show ?thesis
      using same hs(2) by (auto simp: id_entry_ok_def)
  qed
  have "name_entry_ok hs t name x"
    if "name_index_of t (addSearchFields h i (s\<lparr> hm_handles := hs \<rparr>)) name = Some x" for t name x
    using that old [of t name x] pos key
    by (auto simp: addSearchFields_names name_entry_ok_def emplace_table.get_put split: if_splits)
  moreover have "id_entry_ok hs k x"
    if "unique_ids (addSearchFields h i (s\<lparr> hm_handles := hs \<rparr>)) k = Some x" for k x
    using that oldid [of k x] pos
    by (auto simp: addSearchFields_ids id_entry_ok_def emplace_table.get_put split: if_splits)
  ultimately show ?thesis
    using hs(1) by (simp add: hm_inv_def)
qed

definition key_ok :: "BasicHandleInfo \<Rightarrow> bool" where
  "key_ok h \<longleftrightarrow> (handleType h \<noteq> HT_unknown \<longrightarrow> handleType h \<noteq> HT_filter \<longrightarrow> bh_key h \<noteq> [])"

lemma append_handle_inv:
  assumes "hm_inv s" and "length (hm_handles s) + 1 < 2 ^ 31" and "key_ok h"
  shows "hm_inv (addSearchFields h (size32 (hm_handles s)) (s\<lparr> hm_handles := hm_handles s @ [h] \<rparr>))"
proof -
  have "nat (sint (size32 (hm_handles s) :: int32)) = length (hm_handles s)" "0 \<le> sint (size32 (hm_handles s) :: int32)"
    using assms(2) by (simp_all add: sint_word_of_nat_small)
  then show ?thesis
    using assms by (intro addSearchFields_inv) (auto simp: nth_append key_ok_def)
qed

lemma addHandle_copy_inv:
  "hm_inv s \<Longrightarrow> length (hm_handles s) + 1 < 2 ^ 31 \<Longrightarrow> key_ok h \<Longrightarrow> hm_inv (addHandle_copy h s)"
  by (simp add: addHandle_copy_def append_handle_inv)

lemma generateName_nonempty [simp]: "generateName what s \<noteq> []"
  by (simp add: generateName_def)

lemma addHandle_id_inv:
  "hm_inv s \<Longrightarrow> length (hm_handles s) + 1 < 2 ^ 31 \<Longrightarrow> hm_inv (snd (addHandle_id fed i what key ty un s))"
  by (simp add: addHandle_id_def Let_def append_handle_inv key_ok_def mk_BasicHandleInfo_def)

lemma removeHandle_alt:
  "removeHandle h s = (case unique_ids s (global_handle_key h) of None \<Rightarrow> s | Some i \<Rightarrow>
     let info = hm_handles s ! nat (sint i)
     in s\<lparr> unique_ids := (unique_ids s)(global_handle_key h := None),
           hm_publications := (if handleType info = HT_publication \<and> bh_key info \<noteq> []
              then (hm_publications s)(bh_key info := None) else hm_publications s),
           hm_endpoints := (if handleType info = HT_endpoint \<and> bh_key info \<noteq> []
              then (hm_endpoints s)(bh_key info := None) else hm_endpoints s),
           hm_inputs := (if handleType info = HT_input \<and> bh_key info \<noteq> []
              then (hm_inputs s)(bh_key info := None) else hm_inputs s),
           hm_filters := (if handleType info = HT_filter \<and> bh_key info \<noteq> []
              then (hm_filters s)(bh_key info := None) else hm_filters s),
           hm_handles := (hm_handles s)[nat (sint i) := BasicHandleInfo_default] \<rparr>)"
  by (auto simp: removeHandle_def Let_def split: option.split handle_type.split)

lemma removeHandle_names:
  "unique_ids s (global_handle_key h) = Some i \<Longrightarrow>
    name_index_of t (removeHandle h s) =
     (if handleType (hm_handles s ! nat (sint i)) = t \<and> bh_key (hm_handles s ! nat (sint i)) \<noteq> []
      then (name_index_of t s)(bh_key (hm_handles s ! nat (sint i)) := None) else name_index_of t s)"
  by (cases t) (auto simp: removeHandle_alt Let_def)

lemma removeHandle_rest:
  "unique_ids s (global_handle_key h) = Some i \<Longrightarrow>
    hm_handles (removeHandle h s) = (hm_handles s)[nat (sint i) := BasicHandleInfo_default]"
  "unique_ids s (global_handle_key h) = Some i \<Longrightarrow>
    unique_ids (removeHandle h s) = (unique_ids s)(global_handle_key h := None)"
  by (simp_all add: removeHandle_alt Let_def)

lemma removeHandle_inv:
  assumes "hm_inv s"
  shows "hm_inv (removeHandle h s)"
proof (cases "unique_ids s (global_handle_key h)")
  case None
  then show ?thesis
    using assms by (simp add: removeHandle_def)
next
  case (Some i)
  let ?i = "nat (sint i)" and ?hs = "hm_handles s"
  note handles = removeHandle_rest(1) [OF Some] and ids = removeHandle_rest(2) [OF Some]
  have idx: "id_entry_ok ?hs (global_handle_key h) i"
    using assms Some by (simp add: hm_inv_def)
  have "name_entry_ok (?hs[?i := BasicHandleInfo_default]) t name x"
    if "name_index_of t (removeHandle h s) name = Some x" for t name x
  proof -
    have old: "name_index_of t s name = Some x"
      using that by (auto simp: removeHandle_names [OF Some] split: if_splits)
    then have e: "name_entry_ok ?hs t name x"
      using assms by (simp add: hm_inv_def)
    moreover have "nat (sint (hid x)) \<noteq> ?i"
      using e that by (auto simp: removeHandle_names [OF Some] name_entry_ok_def split: if_splits)
    ultimately show ?thesis
      by (auto simp: name_entry_ok_def)
  qed
  moreover have "id_entry_ok (?hs[?i := BasicHandleInfo_default]) k x"
    if "unique_ids (removeHandle h s) k = Some x" for k x
  proof -
    have k: "k \<noteq> global_handle_key h" "id_entry_ok ?hs k x"
      using that assms by (auto simp: ids hm_inv_def split: if_splits)
    then have "nat (sint x) \<noteq> ?i"
      using idx by (auto simp: id_entry_ok_def)
    with k show ?thesis
      by (auto simp: id_entry_ok_def)
  qed
  ultimately show ?thesis
    using assms by (simp add: hm_inv_def handles)
qed

definition slot_free :: "int32 \<Rightarrow> HandleManager \<Rightarrow> bool" where
  "slot_free i s \<longleftrightarrow> (isValidIndex i (hm_handles s) \<longrightarrow>
     handleType (hm_handles s ! nat (sint i)) = HT_unknown
     \<and> unique_ids s (global_handle_key (bh_handle (hm_handles s ! nat (sint i)))) \<noteq> Some i)"

lemma addHandleAtIndex_inv:
  assumes "hm_inv s" and "length (hm_handles s) + 1 < 2 ^ 31" and "sint i + 1 < 2 ^ 31" and "key_ok h"
    and "slot_free i s"
  shows "hm_inv (addHandleAtIndex h i s)"
proof -
  have size: "sint (size32 (hm_handles s) :: int32) = int (length (hm_handles s))"
    using assms(2) by (intro sint_word_of_nat_small) simp
  consider "i = size32 (hm_handles s)" | "i \<noteq> size32 (hm_handles s)" "isValidIndex i (hm_handles s)"
    | "i \<noteq> size32 (hm_handles s)" "\<not> isValidIndex i (hm_handles s)" "0 < sint i"
    | "i \<noteq> size32 (hm_handles s)" "\<not> isValidIndex i (hm_handles s)" "\<not> 0 < sint i"
    by blast
  then show ?thesis
  proof cases
    case 1
    then show ?thesis
      using assms by (simp add: addHandleAtIndex_def addHandle_copy_inv)
  next
    case 2
    then show ?thesis
      using assms by (simp add: addHandleAtIndex_def, intro addSearchFields_inv)
        (auto simp: isValidIndex_def size slot_free_def key_ok_def)
  next
    case 3
    then have "length (hm_handles s) \<le> nat (sint i)"
      by (auto simp: isValidIndex_def size)
    then show ?thesis
      using assms 3 by (simp add: addHandleAtIndex_def, intro addSearchFields_inv)
        (auto simp: nth_resize key_ok_def)
  next
    case 4
    then show ?thesis
      using assms by (simp add: addHandleAtIndex_def)
  qed
qed

lemma update_handle_inv:
  assumes "hm_inv s" and "\<And>b. bh_handle (f b) = bh_handle b" and "\<And>b. bh_key (f b) = bh_key b"
    and "\<And>b. handleType (f b) = handleType b"
  shows "hm_inv (update_handle i f s)"
proof -
  have "bh_handle (((hm_handles s)[i := f (hm_handles s ! i)]) ! j) = bh_handle (hm_handles s ! j)"
    "bh_key (((hm_handles s)[i := f (hm_handles s ! i)]) ! j) = bh_key (hm_handles s ! j)"
    "handleType (((hm_handles s)[i := f (hm_handles s ! i)]) ! j) = handleType (hm_handles s ! j)"
    if "j < length (hm_handles s)" for j
    using assms(2-4) that by (cases "i = j"; simp)+
  then show ?thesis
    using assms(1) by (auto simp: hm_inv_def update_handle_def name_entry_ok_def id_entry_ok_def)
qed

lemma setHandleOption_inv: "hm_inv s \<Longrightarrow> hm_inv (setHandleOption h opt val s)"
  by (simp add: setHandleOption_def Let_def update_handle_inv handle_setFlag_def handle_clearFlag_def)

text \<open>
  What cores and brokers do to the table. The guards are what keeps the agreement: the number of
  handles fits the index type, a handle copied in has a name, and a handle placed at an index does
  not overwrite one that is still indexed. A holder of a reference may set the fields that are not
  constant.
\<close>

inductive hm_step :: "HandleManager \<Rightarrow> HandleManager \<Rightarrow> bool" where
  hm_add: "length (hm_handles s) + 1 < 2 ^ 31 \<Longrightarrow> hm_step s (snd (addHandle fed what key ty un s))"
| hm_add_id: "length (hm_handles s) + 1 < 2 ^ 31 \<Longrightarrow> hm_step s (snd (addHandle_id fed i what key ty un s))"
| hm_copy: "length (hm_handles s) + 1 < 2 ^ 31 \<Longrightarrow> key_ok h \<Longrightarrow> hm_step s (addHandle_copy h s)"
| hm_at_index: "length (hm_handles s) + 1 < 2 ^ 31 \<Longrightarrow> sint i + 1 < 2 ^ 31 \<Longrightarrow> key_ok h \<Longrightarrow> slot_free i s
    \<Longrightarrow> hm_step s (addHandleAtIndex h i s)"
| hm_remove: "hm_step s (removeHandle g s)"
| hm_option: "hm_step s (setHandleOption h opt val s)"
| hm_touch: "hm_step s (update_handle n (\<lambda>b. b\<lparr> local_fed_id := l, used := u, bh_flags := f, interface_info := info \<rparr>) s)"

lemma hm_step_inv: "hm_step s s' \<Longrightarrow> hm_inv s \<Longrightarrow> hm_inv s'"
  by (induction rule: hm_step.induct)
    (simp_all add: addHandle_def addHandle_id_inv addHandle_copy_inv addHandleAtIndex_inv removeHandle_inv
      setHandleOption_inv update_handle_inv)

lemma hm_reachable_inv: "hm_step\<^sup>*\<^sup>* HandleManager_empty s \<Longrightarrow> hm_inv s"
proof (induction rule: rtranclp_induct)
  case base
  have "name_index_of t HandleManager_empty = Map.empty" for t
    by (cases t) (simp_all add: HandleManager_empty_def)
  then show ?case
    by (simp add: hm_inv_def HandleManager_empty_def)
qed (rule hm_step_inv)

definition by_name :: "handle_type \<Rightarrow> string \<Rightarrow> HandleManager \<Rightarrow> nat option" where
  "by_name t name s = map_option (\<lambda>h. nat (sint (hid h))) (name_index_of t s name)"

lemma by_name_lookups:
  "by_name HT_endpoint name s = getEndpoint name s" "by_name HT_publication name s = getPublication name s"
  "by_name HT_input name s = getInput name s" "by_name HT_filter name s = getFilter name s"
  by (simp_all add: by_name_def getEndpoint_def getPublication_def getInput_def getFilter_def)

lemma by_name_ok:
  "hm_inv s \<Longrightarrow> by_name t name s = Some i \<Longrightarrow>
     i < length (hm_handles s) \<and> handleType (hm_handles s ! i) = t \<and> bh_key (hm_handles s ! i) = name"
  by (auto simp: by_name_def hm_inv_def name_entry_ok_def)

lemma findHandle_ok:
  "hm_inv s \<Longrightarrow> findHandle h s = Some i \<Longrightarrow> i < length (hm_handles s) \<and> bh_handle (hm_handles s ! i) = h"
  by (fastforce simp: findHandle_def hm_inv_def id_entry_ok_def global_handle_key_inj)

section \<open>Properties of the handle table\<close>

text \<open>C16: in every reachable state of the table a lookup that succeeds is right: the position is inside
  the deque, and the record there has the name and kind, or the global identifier, that was asked
  for.\<close>

theorem handle_lookups_sound:
  assumes "hm_step\<^sup>*\<^sup>* HandleManager_empty s"
  shows "(getEndpoint name s = Some i \<longrightarrow> i < length (hm_handles s)
        \<and> handleType (hm_handles s ! i) = HT_endpoint \<and> bh_key (hm_handles s ! i) = name)
    \<and> (getPublication name s = Some i \<longrightarrow> i < length (hm_handles s)
        \<and> handleType (hm_handles s ! i) = HT_publication \<and> bh_key (hm_handles s ! i) = name)
    \<and> (getInput name s = Some i \<longrightarrow> i < length (hm_handles s)
        \<and> handleType (hm_handles s ! i) = HT_input \<and> bh_key (hm_handles s ! i) = name)
    \<and> (getFilter name s = Some i \<longrightarrow> i < length (hm_handles s)
        \<and> handleType (hm_handles s ! i) = HT_filter \<and> bh_key (hm_handles s ! i) = name)
    \<and> (findHandle h s = Some i \<longrightarrow> i < length (hm_handles s) \<and> bh_handle (hm_handles s ! i) = h)"
  using by_name_ok [OF hm_reachable_inv [OF assms], of _ name i] findHandle_ok [OF hm_reachable_inv [OF assms], of h i]
  by (simp add: by_name_lookups [symmetric])

definition one_endpoint :: HandleManager where
  "one_endpoint = snd (addHandle (Global_Federate_Id 131072) HT_endpoint ''ept'' ''text'' [] HandleManager_empty)"

lemma one_endpoint_reachable: "hm_step\<^sup>*\<^sup>* HandleManager_empty one_endpoint"
  unfolding one_endpoint_def by (rule r_into_rtranclp, rule hm_add) (simp add: HandleManager_empty_def)

lemma one_endpoint_simps:
  "hm_handles one_endpoint = [mk_BasicHandleInfo (Global_Federate_Id 131072) (Interface_Handle 0) HT_endpoint ''ept'' ''text'' []]"
  "hm_endpoints one_endpoint = [''ept'' \<mapsto> Interface_Handle 0]"
  "unique_ids one_endpoint
     = [global_handle_key (Global_Handle (Global_Federate_Id 131072) (Interface_Handle 0)) \<mapsto> 0]"
  by (simp_all add: one_endpoint_def addHandle_def addHandle_id_def Let_def addSearchFields_def HandleManager_empty_def
      mk_BasicHandleInfo_def emplace_def)

theorem handle_lookups_sound_witness:
  "getEndpoint ''ept'' one_endpoint = Some 0 \<and> bh_key (hm_handles one_endpoint ! 0) = ''ept''"
proof -
  have "getEndpoint ''ept'' one_endpoint = Some 0"
    by (simp add: getEndpoint_def one_endpoint_simps)
  then show ?thesis
    using handle_lookups_sound [OF one_endpoint_reachable, of "''ept''" 0] by simp
qed

text \<open>A handle added is found: its global identifier, unless already taken, leads to the new last
  record, and so does its name, unless a handle of the same kind has the name already; an
  identifier or name that was known before still leads where it did.\<close>

lemma handle_found_after_add:
  fixes s :: HandleManager and fed :: global_federate_id and what :: handle_type and key ty un :: string
  defines "n \<equiv> length (hm_handles s)"
  defines "s' \<equiv> snd (addHandle fed what key ty un s)"
  assumes "n < 2 ^ 31" and "key \<noteq> []" and "what \<noteq> HT_unknown"
  shows "findHandle h s' = (if findHandle h s = None \<and> h = Global_Handle fed (Interface_Handle (word_of_nat n))
            then Some n else findHandle h s)
    \<and> by_name what name s' = (if by_name what name s = None \<and> name = key then Some n else by_name what name s)
    \<and> hm_handles s' = hm_handles s
        @ [mk_BasicHandleInfo fed (Interface_Handle (word_of_nat n)) what key ty un]"
proof -
  have n: "nat (sint (word_of_nat n :: int32)) = n"
    using assms(3) by (rule nat_sint_of_nat)
  let ?info = "mk_BasicHandleInfo fed (Interface_Handle (word_of_nat n)) what key ty un"
  have s': "s' = addSearchFields ?info (word_of_nat n) (s\<lparr> hm_handles := hm_handles s @ [?info] \<rparr>)"
    using assms(4) by (simp add: s'_def addHandle_def addHandle_id_def n_def Let_def)
  show ?thesis
    using assms(4,5) n
    by (auto simp: s' findHandle_def by_name_def addSearchFields_ids addSearchFields_names
        emplace_table.get_put global_handle_key_inj)
qed

lemma handle_found_after_add_example:
  "findHandle (Global_Handle (Global_Federate_Id 131072) (Interface_Handle 0))
     (snd (addHandle (Global_Federate_Id 131072) HT_endpoint ''ept'' ''text'' [] HandleManager_empty)) = Some 0"
proof -
  have "length (hm_handles HandleManager_empty) < 2 ^ 31"
    by (simp add: HandleManager_empty_def)
  from handle_found_after_add [OF this, of "''ept''" HT_endpoint] show ?thesis
    by (simp add: HandleManager_empty_def findHandle_def)
qed

text \<open>A handle removed is gone: its identifier and its name lead nowhere, its record is blank, and
  every other identifier still leads where it did.\<close>

lemma handle_gone_after_remove:
  assumes "hm_step\<^sup>*\<^sup>* HandleManager_empty s" and "findHandle h s = Some i"
  shows "findHandle h' (removeHandle h s) = (if h' = h then None else findHandle h' s)
    \<and> hm_handles (removeHandle h s) = (hm_handles s)[i := BasicHandleInfo_default]
    \<and> by_name (handleType (hm_handles s ! i)) (bh_key (hm_handles s ! i)) (removeHandle h s) = None"
proof -
  obtain j where j: "unique_ids s (global_handle_key h) = Some j" "i = nat (sint j)"
    using assms(2) by (auto simp: findHandle_def)
  have empty: "name_index_of t s [] = None" for t
    using hm_reachable_inv [OF assms(1)] by (cases "name_index_of t s []") (auto simp: hm_inv_def name_entry_ok_def)
  show ?thesis
    using j empty
    by (auto simp: findHandle_def by_name_def removeHandle_names [OF j(1)] removeHandle_rest [OF j(1)]
        global_handle_key_inj)
qed

lemma handle_gone_after_remove_example:
  "findHandle (Global_Handle (Global_Federate_Id 131072) (Interface_Handle 0))
     (removeHandle (Global_Handle (Global_Federate_Id 131072) (Interface_Handle 0)) one_endpoint) = None"
proof -
  have "findHandle (Global_Handle (Global_Federate_Id 131072) (Interface_Handle 0)) one_endpoint = Some 0"
    by (simp add: findHandle_def one_endpoint_simps)
  from handle_gone_after_remove [OF one_endpoint_reachable this] show ?thesis
    by simp
qed

text \<open>C37: two interfaces of one kind and name: removing the second also takes the name away from the
  first, which is still in the table under its identifier but is no longer found by name.\<close>

theorem remove_duplicate_hides_first:
  assumes "by_name t name s = Some i" and "findHandle g s = Some i" and "findHandle h s = Some j" and "g \<noteq> h"
    and "handleType (hm_handles s ! j) = t" and "bh_key (hm_handles s ! j) = name" and "name \<noteq> []"
  shows "findHandle g (removeHandle h s) = Some i \<and> by_name t name (removeHandle h s) = None"
proof -
  obtain j' where j: "unique_ids s (global_handle_key h) = Some j'" "j = nat (sint j')"
    using assms(3) by (auto simp: findHandle_def)
  show ?thesis
    using assms j
    by (auto simp: findHandle_def by_name_def removeHandle_names [OF j(1)] removeHandle_rest [OF j(1)]
        global_handle_key_inj)
qed

definition two_same :: HandleManager where
  "two_same = snd (addHandle (Global_Federate_Id 131073) HT_endpoint ''ept'' ''text'' [] one_endpoint)"

theorem remove_duplicate_hides_first_witness:
  "getEndpoint ''ept'' (removeHandle (Global_Handle (Global_Federate_Id 131073) (Interface_Handle 1)) two_same) = None"
proof -
  have lists: "hm_handles two_same = hm_handles one_endpoint
      @ [mk_BasicHandleInfo (Global_Federate_Id 131073) (Interface_Handle 1) HT_endpoint ''ept'' ''text'' []]"
    "hm_endpoints two_same = [''ept'' \<mapsto> Interface_Handle 0]"
    "unique_ids two_same (global_handle_key (Global_Handle (Global_Federate_Id 131072) (Interface_Handle 0))) = Some 0"
    "unique_ids two_same (global_handle_key (Global_Handle (Global_Federate_Id 131073) (Interface_Handle 1))) = Some 1"
    by (simp_all add: two_same_def addHandle_def addHandle_id_def Let_def addSearchFields_def one_endpoint_simps
        mk_BasicHandleInfo_def emplace_def global_handle_key_inj)
  show ?thesis
    using remove_duplicate_hides_first [of HT_endpoint "''ept''" two_same 0
        "Global_Handle (Global_Federate_Id 131072) (Interface_Handle 0)"
        "Global_Handle (Global_Federate_Id 131073) (Interface_Handle 1)" 1]
    by (simp add: by_name_lookups getEndpoint_def findHandle_def lists one_endpoint_simps mk_BasicHandleInfo_def)
qed

text \<open>Making a connection optional through \<open>setHandleOption\<close> is read back as such, excludes
  required, and, the two flags having the same number, is also read back as transmission on change
  only.\<close>

lemma optional_reads_as_transmit_on_change:
  assumes "isValidIndex (hid h) (hm_handles s)" and "val \<noteq> 0"
  shows "getHandleOption h opt_connection_optional (setHandleOption h opt_connection_optional val s) = 1
    \<and> getHandleOption h opt_connection_required (setHandleOption h opt_connection_optional val s) = 0
    \<and> getHandleOption h opt_only_transmit_on_change (setHandleOption h opt_connection_optional val s) = 1"
proof -
  have "nat (sint (hid h)) < length (hm_handles s)"
    using assms(1) by (rule isValidIndex_length)
  then show ?thesis
    using assms
    by (simp add: getHandleOption_def setHandleOption_def update_handle_def handle_setFlag_def handle_clearFlag_def
        isValidIndex_def option_defs flag_defs Let_def)
qed

lemma optional_reads_as_transmit_on_change_example:
  "getHandleOption (Interface_Handle 0) opt_only_transmit_on_change
     (setHandleOption (Interface_Handle 0) opt_connection_optional 1 one_endpoint) = 1"
  using optional_reads_as_transmit_on_change [of "Interface_Handle 0" one_endpoint 1]
  by (simp add: one_endpoint_simps isValidIndex_def)

end
