(* ===== verification/Federate_State.thy ===== *)
theory Federate_State
  imports Interface_Info Time_Coordinator Handle_Manager
begin

text \<open>
  One federate inside a core (\<open>FederateState.hpp\<close>, \<open>FederateState.cpp\<close>): its state machine, the
  processing of the messages sent to it, the delaying of messages, and the data calls of its
  interfaces. It drives the time coordinator and the interfaces.

  The messages that \<open>queue.pop()\<close> returns are an argument, so what is proved holds for every arrival
  order; what the federate pushes to its own queue is collected in \<open>fed_pushed\<close>, what it hands to
  its core in \<open>fed_sent\<close>, what it logs in \<open>fed_log\<close>. Real time pacing against the system clock and
  the timer object that serves it, the logging that is compiled in on request only, and the lock that
  keeps a second thread out are not modelled. The reports written with the JSON library and the
  query callback of the application are parameters.
\<close>

section \<open>State\<close>

type_synonym 't messages = "'t ActionMessage list"

record ('t, 'p, 'e, 'i) FederateState =
  fed_name :: string
  timeCoord :: "'t TimeCoordinator"
  fed_local_id :: local_federate_id
  fed_global_id :: global_federate_id
  fed_state :: federate_state
  fed_only_transmit_on_change :: bool
  fed_realtime :: bool
  fed_observer :: bool
  fed_source_only :: bool
  fed_ignore_time_mismatch_warnings :: bool
  fed_strict_input_type_checking :: bool
  fed_ignore_unit_mismatch :: bool
  fed_slow_responding :: bool
  interfaceInformation :: "('p, 'e, 'i) InterfaceInfo"
  fed_errorCode :: int32
  fed_has_parent :: bool
  fed_errorString :: string
  rt_lag :: 't
  rt_lead :: 't
  fed_iterating :: bool
  timeGranted_mode :: bool
  terminate_on_error :: bool
  fed_logLevel :: int32
  interfaceFlags :: uint16
  delayQueues :: "(global_federate_id \<times> 't messages) list"
  fed_events :: "interface_handle list"
  delayedFederates :: "global_federate_id list"
  fed_time_granted :: 't
  fed_allowed_send_time :: 't
  fed_pushed :: "'t messages"
  fed_sent :: "'t messages"
  fed_log :: "(int32 \<times> string \<times> string) list"

text \<open>What a federate runs in: the time type, the byte order, the libraries it calls, the number the
  constant \<open>initialTime\<close> has as a time, the reports written as JSON, the query callback if one was
  set, whether a logger was set, and how a time and its value as a double are printed.\<close>

record ('t, 'u, 'p, 'e, 'i) fed_env =
  fe_time :: "'t time_rep"
  fe_le :: bool
  fe_units :: "'u unit_library"
  fe_fmt :: formatter
  fe_ops :: "('t, 'p, 'e, 'i) containers"
  fe_initialTime :: 't
  fe_json :: "string \<Rightarrow> ('t, 'p, 'e, 'i) FederateState \<Rightarrow> string"
  fe_queryCallback :: "(string \<Rightarrow> string) option"
  fe_logger :: bool
  fe_show_time :: "'t \<Rightarrow> string"
  fe_show_double :: "'t \<Rightarrow> string"

text \<open>The members of a new federate before the properties of its configuration are set.\<close>

definition FederateState_default ::
  "('t::linorder, 'u, 'p, 'e, 'i) fed_env \<Rightarrow> string \<Rightarrow> ('t, 'p, 'e, 'i) FederateState" where
  "FederateState_default E fedName =
     (let T = fe_time E
      in \<lparr> fed_name = fedName, timeCoord = TimeCoordinator_default T,
           fed_local_id = default_local_federate_id, fed_global_id = default_global_federate_id,
           fed_state = HELICS_CREATED, fed_only_transmit_on_change = False, fed_realtime = False,
           fed_observer = False, fed_source_only = False, fed_ignore_time_mismatch_warnings = False,
           fed_strict_input_type_checking = False, fed_ignore_unit_mismatch = False,
           fed_slow_responding = False, interfaceInformation = InterfaceInfo_default (fe_ops E),
           fed_errorCode = 0, fed_has_parent = False, fed_errorString = [], rt_lag = timeZero T,
           rt_lead = timeZero T, fed_iterating = False, timeGranted_mode = False,
           terminate_on_error = False, fed_logLevel = 1, interfaceFlags = 0, delayQueues = [],
           fed_events = [], delayedFederates = [], fed_time_granted = minVal T,
           fed_allowed_send_time = minVal T, fed_pushed = [], fed_sent = [], fed_log = [] \<rparr>)"

section \<open>State changes, sending and logging\<close>

definition setState ::
  "federate_state \<Rightarrow> ('t, 'p, 'e, 'i) FederateState \<Rightarrow> ('t, 'p, 'e, 'i) FederateState" where
  "setState newState s =
     (if fed_state s = newState then s
      else case newState of
             HELICS_ERROR \<Rightarrow> s\<lparr> fed_state := newState \<rparr>
           | HELICS_FINISHED \<Rightarrow> s\<lparr> fed_state := newState \<rparr>
           | HELICS_CREATED \<Rightarrow> s\<lparr> fed_state := newState \<rparr>
           | HELICS_TERMINATING \<Rightarrow> s\<lparr> fed_state := newState \<rparr>
           | HELICS_INITIALIZING \<Rightarrow>
               (if fed_state s = HELICS_CREATED then s\<lparr> fed_state := newState \<rparr> else s)
           | HELICS_EXECUTING \<Rightarrow>
               (if fed_state s = HELICS_INITIALIZING then s\<lparr> fed_state := newState \<rparr> else s)
           | HELICS_UNKNOWN \<Rightarrow> s)"

text \<open>\<open>queue.clear()\<close> discards what is waiting in the queue, which is outside the record.\<close>

definition reset :: "('t, 'p, 'e, 'i) FederateState \<Rightarrow> ('t, 'p, 'e, 'i) FederateState" where
  "reset s = s\<lparr> fed_global_id := default_global_federate_id,
     interfaceInformation := setGlobalId default_global_federate_id (interfaceInformation s),
     fed_local_id := default_local_federate_id, fed_state := HELICS_CREATED, delayQueues := [] \<rparr>"

definition reInit :: "('t, 'p, 'e, 'i) FederateState \<Rightarrow> ('t, 'p, 'e, 'i) FederateState" where
  "reInit s = s\<lparr> fed_state := HELICS_INITIALIZING, delayQueues := [] \<rparr>"

definition routeMessage ::
  "'t ActionMessage \<Rightarrow> ('t, 'p, 'e, 'i) FederateState \<Rightarrow> ('t, 'p, 'e, 'i) FederateState" where
  "routeMessage msg s =
     (if fed_has_parent s then s\<lparr> fed_sent := fed_sent s @ [msg] \<rparr>
      else s\<lparr> fed_pushed := fed_pushed s @ [copy_message msg] \<rparr>)"

definition addAction ::
  "'t ActionMessage \<Rightarrow> ('t, 'p, 'e, 'i) FederateState \<Rightarrow> ('t, 'p, 'e, 'i) FederateState" where
  "addAction act s =
     (if messageAction act \<noteq> cmd_ignore then s\<lparr> fed_pushed := fed_pushed s @ [copy_message act] \<rparr> else s)"

text \<open>The coordinator after a call, with what it sent during the call routed in order.\<close>

definition put_coord ::
  "'t TimeCoordinator \<Rightarrow> ('t, 'p, 'e, 'i) FederateState \<Rightarrow> ('t, 'p, 'e, 'i) FederateState" where
  "put_coord tc s =
     foldl (\<lambda>s m. routeMessage m s) (s\<lparr> timeCoord := tc\<lparr> tc_sent := [] \<rparr> \<rparr>) (tc_sent tc)"

definition logMessage ::
  "('t, 'u, 'p, 'e, 'i) fed_env \<Rightarrow> int32 \<Rightarrow> string \<Rightarrow> string \<Rightarrow> ('t, 'p, 'e, 'i) FederateState
     \<Rightarrow> ('t, 'p, 'e, 'i) FederateState" where
  "logMessage E level logMessageSource message s =
     (if fe_logger E \<and> sint level \<le> sint (fed_logLevel s)
      then s\<lparr> fed_log := fed_log s @
                [(level,
                  if logMessageSource = []
                  then fe_fmt E ''{} ({})'' [Fmt_String (fed_name s), Fmt_Int (sint (gid (fed_global_id s)))]
                  else logMessageSource, message)] \<rparr>
      else s)"

definition log_error ::
  "('t, 'u, 'p, 'e, 'i) fed_env \<Rightarrow> string \<Rightarrow> ('t, 'p, 'e, 'i) FederateState \<Rightarrow> ('t, 'p, 'e, 'i) FederateState" where
  "log_error E message s = logMessage E 0 [] message s"

definition log_warning ::
  "('t, 'u, 'p, 'e, 'i) fed_env \<Rightarrow> string \<Rightarrow> ('t, 'p, 'e, 'i) FederateState \<Rightarrow> ('t, 'p, 'e, 'i) FederateState" where
  "log_warning E message s = logMessage E 1 [] message s"

abbreviation fed_interfaces_put where
  "fed_interfaces_put ii s \<equiv> s\<lparr> interfaceInformation := ii \<rparr>"

section \<open>Data calls\<close>

definition checkAndSetValue ::
  "('t, 'u, 'p, 'e, 'i) fed_env \<Rightarrow> interface_handle \<Rightarrow> string \<Rightarrow> ('t, 'p, 'e, 'i) FederateState
     \<Rightarrow> (bool \<times> ('t, 'p, 'e, 'i) FederateState) option" where
  "checkAndSetValue E h data s =
     (if \<not> fed_only_transmit_on_change s then Some (True, s)
      else map_option (\<lambda>pub. let (res, pub') = CheckSetValue data pub
                             in (res, fed_interfaces_put (put_publication (fe_ops E) h pub'
                                        (interfaceInformation s)) s))
             (if_getPublication (fe_ops E) h (interfaceInformation s)))"

definition getQueueSize_of ::
  "('t::linorder, 'u, 'p, 'e, 'i) fed_env \<Rightarrow> interface_handle \<Rightarrow> ('t, 'p, 'e, 'i) FederateState \<Rightarrow> uint64" where
  "getQueueSize_of E h s =
     (case if_getEndpoint (fe_ops E) h (interfaceInformation s) of
        Some epI \<Rightarrow> scast (queueSize (fed_time_granted s) epI) | None \<Rightarrow> 0)"

definition getQueueSize ::
  "('t::linorder, 'u, 'p, 'e, 'i) fed_env \<Rightarrow> ('t, 'p, 'e, 'i) FederateState \<Rightarrow> uint64" where
  "getQueueSize E s =
     foldl (\<lambda>cnt end_point. cnt + scast (queueSize (fed_time_granted s) end_point)) 0
       (dv_elems (endpoint_ops (fe_ops E)) (endpoints (interfaceInformation s)))"

definition receive ::
  "('t::linorder, 'u, 'p, 'e, 'i) fed_env \<Rightarrow> interface_handle \<Rightarrow> ('t, 'p, 'e, 'i) FederateState
     \<Rightarrow> 't Message option \<times> ('t, 'p, 'e, 'i) FederateState" where
  "receive E h s =
     (case if_getEndpoint (fe_ops E) h (interfaceInformation s) of
        Some epI \<Rightarrow>
          (let (m, epI') = getMessage (fed_time_granted s) epI
           in (m, fed_interfaces_put (put_endpoint (fe_ops E) h epI' (interfaceInformation s)) s))
      | None \<Rightarrow> (None, s))"

text \<open>The search for the endpoint with the earliest message: the time found so far and the endpoint.\<close>

fun earliest_endpoint ::
  "('t::linorder) time_rep \<Rightarrow> 't \<Rightarrow> 't EndpointInfo option \<Rightarrow> 't EndpointInfo list
     \<Rightarrow> 't \<times> 't EndpointInfo option" where
  "earliest_endpoint T earliest_time endpointI [] = (earliest_time, endpointI)"
| "earliest_endpoint T earliest_time endpointI (end_point # rest) =
     (if firstMessageTime T end_point < earliest_time
      then earliest_endpoint T (firstMessageTime T end_point) (Some end_point) rest
      else earliest_endpoint T earliest_time endpointI rest)"

definition receiveAny ::
  "('t::linorder, 'u, 'p, 'e, 'i) fed_env \<Rightarrow> ('t, 'p, 'e, 'i) FederateState
     \<Rightarrow> 't Message option \<times> interface_handle option \<times> ('t, 'p, 'e, 'i) FederateState" where
  "receiveAny E s =
     (case earliest_endpoint (fe_time E) (maxVal (fe_time E)) None
             (dv_elems (endpoint_ops (fe_ops E)) (endpoints (interfaceInformation s))) of
        (_, None) \<Rightarrow> (None, None, s)
      | (earliest_time, Some endpointI) \<Rightarrow>
          if earliest_time \<le> fed_time_granted s
          then let (result, endpointI') = getMessage (fed_time_granted s) endpointI;
                   h = handle (ept_id endpointI)
               in (result, Some h,
                   fed_interfaces_put (put_endpoint (fe_ops E) h endpointI' (interfaceInformation s)) s)
          else (None, Some default_interface_handle, s))"

definition fed_nextValueTime ::
  "('t::linorder, 'u, 'p, 'e, 'i) fed_env \<Rightarrow> ('t, 'p, 'e, 'i) FederateState \<Rightarrow> 't" where
  "fed_nextValueTime E s =
     foldl (\<lambda>firstValueTime inp.
         let nvt = nextValueTime (fe_time E) inp
         in if nvt \<ge> fed_time_granted s \<and> nvt < firstValueTime then nvt else firstValueTime)
       (maxVal (fe_time E)) (dv_elems (input_ops (fe_ops E)) (inputs (interfaceInformation s)))"

definition nextMessageTime ::
  "('t::linorder, 'u, 'p, 'e, 'i) fed_env \<Rightarrow> ('t, 'p, 'e, 'i) FederateState \<Rightarrow> 't" where
  "nextMessageTime E s =
     foldl (\<lambda>firstTime ep.
         let messageTime = firstMessageTime (fe_time E) ep
         in if messageTime \<ge> fed_time_granted s \<and> messageTime < firstTime then messageTime else firstTime)
       (maxVal (fe_time E)) (dv_elems (endpoint_ops (fe_ops E)) (endpoints (interfaceInformation s)))"

text \<open>The three functions that fill the vector of events differ in how they advance an input.\<close>

definition fill_events ::
  "('t, 'u, 'p, 'e, 'i) fed_env \<Rightarrow> ('t InputInfo \<Rightarrow> bool \<times> 't InputInfo) \<Rightarrow> ('t, 'p, 'e, 'i) FederateState
     \<Rightarrow> ('t, 'p, 'e, 'i) FederateState" where
  "fill_events E upd s =
     (let ii = interfaceInformation s; ops = input_ops (fe_ops E)
      in s\<lparr> fed_events := map (\<lambda>ipt. handle (inp_id ipt)) (filter (\<lambda>ipt. fst (upd ipt)) (dv_elems ops (inputs ii))),
            interfaceInformation := ii\<lparr> inputs := dv_write_all ops (\<lambda>ipt. snd (upd ipt)) (inputs ii) \<rparr> \<rparr>)"

definition fillEventVectorUpTo ::
  "('t::linorder, 'u, 'p, 'e, 'i) fed_env \<Rightarrow> 't \<Rightarrow> ('t, 'p, 'e, 'i) FederateState \<Rightarrow> ('t, 'p, 'e, 'i) FederateState" where
  "fillEventVectorUpTo E currentTime s = fill_events E (updateTimeUpTo currentTime) s"

definition fillEventVectorInclusive ::
  "('t::linorder, 'u, 'p, 'e, 'i) fed_env \<Rightarrow> 't \<Rightarrow> ('t, 'p, 'e, 'i) FederateState \<Rightarrow> ('t, 'p, 'e, 'i) FederateState" where
  "fillEventVectorInclusive E currentTime s = fill_events E (updateTimeInclusive currentTime) s"

definition fillEventVectorNextIteration ::
  "('t::linorder, 'u, 'p, 'e, 'i) fed_env \<Rightarrow> 't \<Rightarrow> ('t, 'p, 'e, 'i) FederateState \<Rightarrow> ('t, 'p, 'e, 'i) FederateState" where
  "fillEventVectorNextIteration E currentTime s = fill_events E (updateTimeNextIteration currentTime) s"

section \<open>Interfaces of the federate\<close>

definition createInterface ::
  "('t, 'u, 'p, 'e, 'i) fed_env \<Rightarrow> handle_type \<Rightarrow> interface_handle \<Rightarrow> string \<Rightarrow> string \<Rightarrow> string
     \<Rightarrow> ('t, 'p, 'e, 'i) FederateState \<Rightarrow> ('t, 'p, 'e, 'i) FederateState" where
  "createInterface E htype h key type units s =
     (let K = fe_ops E; ii = interfaceInformation s; fl = interfaceFlags s;
          set_pub = (\<lambda>c opt ii. if c then snd (setPublicationProperty K h opt 1 ii) else ii);
          set_inp = (\<lambda>c opt ii. if c then snd (setInputProperty K h opt 1 ii) else ii)
      in case htype of
           HT_publication \<Rightarrow>
             fed_interfaces_put
               (set_pub (checkActionFlag fl optional_flag) opt_connection_optional
                 (set_pub (checkActionFlag fl required_flag) opt_connection_required
                   (createPublication K h key type units ii))) s
         | HT_input \<Rightarrow>
             fed_interfaces_put
               (set_inp (checkActionFlag fl optional_flag) opt_connection_optional
                 (set_inp (checkActionFlag fl required_flag) opt_connection_required
                   (set_inp (fed_ignore_unit_mismatch s) opt_ignore_unit_mismatch
                     (set_inp (fed_strict_input_type_checking s) opt_strict_type_checking
                       (createInput K h key type units ii))))) s
         | HT_endpoint \<Rightarrow> fed_interfaces_put (createEndpoint K h key type ii) s
         | _ \<Rightarrow> s)"

definition close_publication ::
  "('t::linorder, 'u, 'p, 'e, 'i) fed_env \<Rightarrow> interface_handle \<Rightarrow> ('t, 'p, 'e, 'i) FederateState
     \<Rightarrow> ('t, 'p, 'e, 'i) FederateState" where
  "close_publication E h s =
     (case if_getPublication (fe_ops E) h (interfaceInformation s) of
        None \<Rightarrow> s
      | Some pub \<Rightarrow>
          let rem = (setSource (pub_id pub) (mk_message (fe_time E) cmd_remove_publication))
                      \<lparr> actionTime := fed_time_granted s \<rparr>;
              s1 = foldl (\<lambda>s sub. routeMessage (setDestination sub rem) s) s (subscribers pub)
          in fed_interfaces_put (put_publication (fe_ops E) h (pub\<lparr> subscribers := [] \<rparr>)
               (interfaceInformation s1)) s1)"

definition close_input ::
  "('t::linorder, 'u, 'p, 'e, 'i) fed_env \<Rightarrow> interface_handle \<Rightarrow> ('t, 'p, 'e, 'i) FederateState
     \<Rightarrow> ('t, 'p, 'e, 'i) FederateState" where
  "close_input E h s =
     (case if_getInput (fe_ops E) h (interfaceInformation s) of
        None \<Rightarrow> s
      | Some ipt \<Rightarrow>
          let rem = (setSource (inp_id ipt) (mk_message (fe_time E) cmd_remove_subscriber))
                      \<lparr> actionTime := fed_time_granted s \<rparr>;
              s1 = foldl (\<lambda>s pub. routeMessage (setDestination pub rem) s) s (input_sources ipt)
          in fed_interfaces_put (put_input (fe_ops E) h (clearFutureData (ipt\<lparr> input_sources := [] \<rparr>))
               (interfaceInformation s1)) s1)"

definition close_endpoint ::
  "('t, 'u, 'p, 'e, 'i) fed_env \<Rightarrow> interface_handle \<Rightarrow> ('t, 'p, 'e, 'i) FederateState
     \<Rightarrow> ('t, 'p, 'e, 'i) FederateState" where
  "close_endpoint E h s =
     (case if_getEndpoint (fe_ops E) h (interfaceInformation s) of
        None \<Rightarrow> s
      | Some ept \<Rightarrow> fed_interfaces_put (put_endpoint (fe_ops E) h (clearQueue ept) (interfaceInformation s)) s)"

definition closeInterface ::
  "('t::linorder, 'u, 'p, 'e, 'i) fed_env \<Rightarrow> interface_handle \<Rightarrow> handle_type \<Rightarrow> ('t, 'p, 'e, 'i) FederateState
     \<Rightarrow> ('t, 'p, 'e, 'i) FederateState" where
  "closeInterface E h type s =
     (case type of
        HT_publication \<Rightarrow> close_publication E h s
      | HT_endpoint \<Rightarrow> close_endpoint E h s
      | HT_input \<Rightarrow> close_input E h s
      | _ \<Rightarrow> s)"

definition getSubscribers ::
  "('t, 'u, 'p, 'e, 'i) fed_env \<Rightarrow> interface_handle \<Rightarrow> ('t, 'p, 'e, 'i) FederateState \<Rightarrow> global_handle list" where
  "getSubscribers E h s =
     (case if_getPublication (fe_ops E) h (interfaceInformation s) of
        Some pubInfo \<Rightarrow> subscribers pubInfo | None \<Rightarrow> [])"

definition checkInterfaces ::
  "('t, 'u, 'p, 'e, 'i) fed_env \<Rightarrow> ('t, 'p, 'e, 'i) FederateState \<Rightarrow> int32 \<times> ('t, 'p, 'e, 'i) FederateState" where
  "checkInterfaces E s =
     (case checkInterfacesForIssues (fe_units E) (fe_fmt E) (fe_ops E) (interfaceInformation s) of
        [] \<Rightarrow> (0, s)
      | issue # issues \<Rightarrow>
          let s1 = s\<lparr> fed_errorCode := fst issue, fed_errorString := snd issue \<rparr>;
              s2 = foldl (\<lambda>s (code, message).
                       log_error E (if code = connection_failure
                                    then fe_fmt E ''Connection Error: {}'' [Fmt_String message]
                                    else fe_fmt E ''error code {}: {}'' [Fmt_Int (sint code), Fmt_String message]) s)
                     s1 (issue # issues)
          in (fed_errorCode s2, s2))"

section \<open>Properties of the federate\<close>

definition fed_setTimeProperty ::
  "('t::linorder, 'u, 'p, 'e, 'i) fed_env \<Rightarrow> int32 \<Rightarrow> 't \<Rightarrow> ('t, 'p, 'e, 'i) FederateState
     \<Rightarrow> ('t, 'p, 'e, 'i) FederateState" where
  "fed_setTimeProperty E timeProperty propertyVal s =
     (if timeProperty = prop_rt_lag then s\<lparr> rt_lag := propertyVal \<rparr>
      else if timeProperty = prop_rt_lead then s\<lparr> rt_lead := propertyVal \<rparr>
      else if timeProperty = prop_rt_tolerance then s\<lparr> rt_lag := propertyVal, rt_lead := propertyVal \<rparr>
      else put_coord (setTimeProperty (fe_time E) timeProperty propertyVal (timeCoord s)) s)"

definition fed_setIntProperty ::
  "('t::linorder, 'u, 'p, 'e, 'i) fed_env \<Rightarrow> int32 \<Rightarrow> int32 \<Rightarrow> ('t, 'p, 'e, 'i) FederateState
     \<Rightarrow> ('t, 'p, 'e, 'i) FederateState" where
  "fed_setIntProperty E intProperty propertyVal s =
     (let t = t_of_int (fe_time E) (sint propertyVal)
      in if intProperty \<in> {prop_log_level, prop_file_log_level, prop_console_log_level}
         then s\<lparr> fed_logLevel := propertyVal \<rparr>
         else if intProperty = prop_rt_lag then s\<lparr> rt_lag := t \<rparr>
         else if intProperty = prop_rt_lead then s\<lparr> rt_lead := t \<rparr>
         else if intProperty = prop_rt_tolerance then s\<lparr> rt_lag := t, rt_lead := t \<rparr>
         else put_coord (setIntProperty (fe_time E) intProperty propertyVal (timeCoord s)) s)"

text \<open>\<open>state < HELICS_EXECUTING\<close> compares the numbers of the states: 0 for created, 1 for initializing.\<close>

definition before_executing :: "federate_state \<Rightarrow> bool" where
  "before_executing st \<longleftrightarrow> st = HELICS_CREATED \<or> st = HELICS_INITIALIZING"

definition set_interface_flag :: "nat \<Rightarrow> bool \<Rightarrow> uint16 \<Rightarrow> uint16" where
  "set_interface_flag flag value fl =
     (if value then fl OR make_flags flag else fl AND NOT (make_flags flag))"

definition fed_setOptionFlag ::
  "('t, 'u, 'p, 'e, 'i) fed_env \<Rightarrow> int32 \<Rightarrow> bool \<Rightarrow> ('t, 'p, 'e, 'i) FederateState
     \<Rightarrow> ('t, 'p, 'e, 'i) FederateState" where
  "fed_setOptionFlag E flag value s =
     (if flag = flag_only_transmit_on_change \<or> flag = opt_only_transmit_on_change
      then s\<lparr> fed_only_transmit_on_change := value \<rparr>
      else if flag = flag_only_update_on_change \<or> flag = opt_only_update_on_change
      then fed_interfaces_put (setChangeUpdateFlag (fe_ops E) value (interfaceInformation s)) s
      else if flag = opt_strict_type_checking then s\<lparr> fed_strict_input_type_checking := value \<rparr>
      else if flag = opt_ignore_unit_mismatch then s\<lparr> fed_ignore_unit_mismatch := value \<rparr>
      else if flag = flag_slow_responding then s\<lparr> fed_slow_responding := value \<rparr>
      else if flag = flag_terminate_on_error then s\<lparr> terminate_on_error := value \<rparr>
      else if flag = flag_realtime
      then (if value then (if before_executing (fed_state s) then s\<lparr> fed_realtime := True \<rparr> else s)
            else s\<lparr> fed_realtime := False \<rparr>)
      else if flag = flag_source_only
      then (if fed_state s = HELICS_CREATED
            then s\<lparr> fed_source_only := value, fed_observer := (if value then False else fed_observer s) \<rparr> else s)
      else if flag = flag_observer
      then (if fed_state s = HELICS_CREATED
            then s\<lparr> fed_observer := value, fed_source_only := (if value then False else fed_source_only s) \<rparr> else s)
      else if flag = flag_ignore_time_mismatch_warnings then s\<lparr> fed_ignore_time_mismatch_warnings := value \<rparr>
      else if flag = opt_buffer_data then s
      else if flag = opt_connection_required
      then s\<lparr> interfaceFlags := set_interface_flag required_flag value (interfaceFlags s) \<rparr>
      else if flag = opt_connection_optional
      then s\<lparr> interfaceFlags := set_interface_flag optional_flag value (interfaceFlags s) \<rparr>
      else put_coord (setOptionFlag flag value (timeCoord s)) s)"

definition fed_getTimeProperty ::
  "('t::linorder, 'u, 'p, 'e, 'i) fed_env \<Rightarrow> int32 \<Rightarrow> ('t, 'p, 'e, 'i) FederateState \<Rightarrow> 't" where
  "fed_getTimeProperty E timeProperty s =
     (if timeProperty = prop_rt_lag \<or> timeProperty = prop_rt_tolerance then rt_lag s
      else if timeProperty = prop_rt_lead then rt_lead s
      else getTimeProperty (fe_time E) timeProperty (timeCoord s))"

definition fed_getOptionFlag :: "int32 \<Rightarrow> ('t, 'p, 'e, 'i) FederateState \<Rightarrow> helics_exception + bool" where
  "fed_getOptionFlag flag s =
     (if flag = flag_only_transmit_on_change \<or> flag = opt_only_transmit_on_change
      then Inr (fed_only_transmit_on_change s)
      else if flag = flag_only_update_on_change \<or> flag = opt_only_update_on_change
      then Inr (if_only_update_on_change (interfaceInformation s))
      else if flag = flag_realtime then Inr (fed_realtime s)
      else if flag = flag_observer then Inr (fed_observer s)
      else if flag = flag_source_only then Inr (fed_source_only s)
      else if flag = flag_slow_responding then Inr (fed_slow_responding s)
      else if flag = flag_terminate_on_error then Inr (terminate_on_error s)
      else if flag = opt_connection_required then Inr (interfaceFlags s AND make_flags required_flag \<noteq> 0)
      else if flag = opt_connection_optional then Inr (interfaceFlags s AND make_flags optional_flag \<noteq> 0)
      else if flag = opt_strict_type_checking then Inr (fed_strict_input_type_checking s)
      else if flag = opt_ignore_unit_mismatch then Inr (fed_ignore_unit_mismatch s)
      else if flag = flag_ignore_time_mismatch_warnings then Inr (fed_ignore_time_mismatch_warnings s)
      else getOptionFlag flag (timeCoord s))"

definition fed_getHandleOption ::
  "('t, 'u, 'p, 'e, 'i) fed_env \<Rightarrow> interface_handle \<Rightarrow> char \<Rightarrow> int32 \<Rightarrow> ('t, 'p, 'e, 'i) FederateState \<Rightarrow> int32" where
  "fed_getHandleOption E h iType opt s =
     (if iType = CHR ''i'' then getInputProperty (fe_ops E) h opt (interfaceInformation s)
      else if iType = CHR ''p'' then getPublicationProperty (fe_ops E) h opt (interfaceInformation s)
      else if iType = CHR ''e'' then getEndpointProperty h opt (interfaceInformation s)
      else 0)"

definition fed_getIntegerProperty :: "int32 \<Rightarrow> ('t, 'p, 'e, 'i) FederateState \<Rightarrow> int32" where
  "fed_getIntegerProperty intProperty s =
     (if intProperty \<in> {prop_log_level, prop_file_log_level, prop_console_log_level} then fed_logLevel s
      else getIntegerProperty intProperty (timeCoord s))"

text \<open>The character a 16 bit counter is cast to.\<close>

definition counter_char :: "uint16 \<Rightarrow> char" where
  "counter_char c = char_of (unat c mod 256)"

definition not_used ::
  "('t, 'u, 'p, 'e, 'i) fed_env \<Rightarrow> string \<Rightarrow> int32 \<Rightarrow> string option \<Rightarrow> bool \<times> ('p, 'e, 'i) InterfaceInfo
     \<Rightarrow> ('t, 'p, 'e, 'i) FederateState \<Rightarrow> ('t, 'p, 'e, 'i) FederateState" where
  "not_used E kind prop key res s =
     (let s1 = fed_interfaces_put (snd res) s
      in if fst res then s1
         else case key of
                Some k \<Rightarrow> log_warning E (fe_fmt E (''property {} not used on '' @ kind @ '' {}'')
                                           [Fmt_Int (sint prop), Fmt_String k]) s1
              | None \<Rightarrow> log_warning E (fe_fmt E (''property {} not used on due to unknown '' @ kind)
                                           [Fmt_Int (sint prop)]) s1)"

definition setInterfaceProperty ::
  "('t, 'u, 'p, 'e, 'i) fed_env \<Rightarrow> 't ActionMessage \<Rightarrow> ('t, 'p, 'e, 'i) FederateState
     \<Rightarrow> ('t, 'p, 'e, 'i) FederateState" where
  "setInterfaceProperty E cmd s =
     (let K = fe_ops E; ii = interfaceInformation s; h = dest_handle cmd; prop = messageID cmd;
          val = (if checkActionFlag (flags cmd) indicator_flag then hid (source_handle cmd) else 0);
          c = counter_char (counter cmd)
      in if messageAction cmd \<noteq> cmd_interface_configure then s
         else if c = CHR ''i''
         then not_used E ''input'' prop (map_option inp_key (if_getInput K h ii)) (setInputProperty K h prop val ii) s
         else if c = CHR ''p''
         then not_used E ''Publication'' prop (map_option pub_key (if_getPublication K h ii))
                (setPublicationProperty K h prop val ii) s
         else if c = CHR ''e''
         then not_used E ''Endpoint'' prop (map_option ept_key (if_getEndpoint K h ii))
                (setEndpointProperty h prop val ii) s
         else s)"

definition configure ::
  "('t::linorder, 'u, 'p, 'e, 'i) fed_env \<Rightarrow> 't ActionMessage \<Rightarrow> ('t, 'p, 'e, 'i) FederateState
     \<Rightarrow> ('t, 'p, 'e, 'i) FederateState" where
  "configure E cmd s =
     (if messageAction cmd = cmd_fed_configure_flag
      then fed_setOptionFlag E (messageID cmd) (checkActionFlag (flags cmd) indicator_flag) s
      else if messageAction cmd = cmd_fed_configure_time
      then fed_setTimeProperty E (messageID cmd) (actionTime cmd) s
      else if messageAction cmd = cmd_fed_configure_int
      then fed_setIntProperty E (messageID cmd) (getExtraData cmd) s
      else if messageAction cmd = cmd_interface_configure then setInterfaceProperty E cmd s
      else s)"

definition setProperties ::
  "('t::linorder, 'u, 'p, 'e, 'i) fed_env \<Rightarrow> 't ActionMessage \<Rightarrow> ('t, 'p, 'e, 'i) FederateState
     \<Rightarrow> ('t, 'p, 'e, 'i) FederateState" where
  "setProperties E cmd s =
     (if fed_state s = HELICS_CREATED then configure E cmd s
      else if messageAction cmd \<in> {cmd_fed_configure_flag, cmd_fed_configure_time, cmd_fed_configure_int,
                cmd_interface_configure}
      then addAction cmd s else s)"

text \<open>The constructor: the defaults, then the properties of the configuration in order.\<close>

definition mk_FederateState ::
  "('t::linorder, 'u, 'p, 'e, 'i) fed_env \<Rightarrow> string \<Rightarrow> (int32 \<times> 't) list \<Rightarrow> (int32 \<times> int32) list
     \<Rightarrow> (int32 \<times> bool) list \<Rightarrow> ('t, 'p, 'e, 'i) FederateState" where
  "mk_FederateState E fedName timeProps intProps flagProps =
     foldl (\<lambda>s (p, v). fed_setOptionFlag E p v s)
       (foldl (\<lambda>s (p, v). fed_setIntProperty E p v s)
          (foldl (\<lambda>s (p, v). fed_setTimeProperty E p v s) (FederateState_default E fedName) timeProps)
          intProps)
       flagProps"

section \<open>Queries\<close>

definition generateStringVector :: "string list \<Rightarrow> string" where
  "generateStringVector data =
     (let ret = ''['' @ concat (map (\<lambda>e. e @ '';'') data)
      in if length ret > 1 then butlast ret @ '']'' else ret @ '']'')"

definition decimal_int :: "int \<Rightarrow> string" where
  "decimal_int n = (if n < 0 then ''-'' @ decimal (nat (- n)) else decimal (nat n))"

definition subscription_query :: "global_handle list \<Rightarrow> string" where
  "subscription_query sources =
     (let str = ''['' @ concat (map (\<lambda>src. decimal_int (sint (gid (fed_id src))) @ '':''
                                        @ decimal_int (sint (hid (handle src))) @ '';'') sources)
      in (if last str = CHR '';'' then butlast str else str) @ '']'')"

definition json_queries :: "string list" where
  "json_queries = [''interfaces'', ''current_time'', ''current_state'', ''timeconfig'', ''config'',
     ''data_flow_graph'', ''global_time'', ''dependency_graph'']"

definition processQueryActual ::
  "('t, 'u, 'p, 'e, 'i) fed_env \<Rightarrow> string \<Rightarrow> ('t, 'p, 'e, 'i) FederateState \<Rightarrow> string" where
  "processQueryActual E query s =
     (let ii = interfaceInformation s; K = fe_ops E;
          ids = map (\<lambda>dep. decimal_int (sint (gid dep)))
      in if query = ''publications''
         then generateStringVector (map pub_key (dv_elems (publication_ops K) (publications ii)))
         else if query = ''inputs'' then generateStringVector (map inp_key (dv_elems (input_ops K) (inputs ii)))
         else if query = ''endpoints''
         then generateStringVector (map ept_key (dv_elems (endpoint_ops K) (endpoints ii)))
         else if query = ''subscriptions''
         then subscription_query (concat (map input_sources (dv_elems (input_ops K) (inputs ii))))
         else if query = ''dependencies'' then generateStringVector (ids (tc_getDependencies (timeCoord s)))
         else if query = ''dependents'' then generateStringVector (ids (tc_getDependents (timeCoord s)))
         else if query \<in> set json_queries then fe_json E query s
         else case fe_queryCallback E of Some f \<Rightarrow> f query | None \<Rightarrow> ''#invalid'')"

definition processQuery ::
  "('t, 'u, 'p, 'e, 'i) fed_env \<Rightarrow> bool \<Rightarrow> string \<Rightarrow> ('t, 'p, 'e, 'i) FederateState \<Rightarrow> string" where
  "processQuery E locked query s =
     (if query = ''publications'' \<or> query = ''inputs'' \<or> query = ''endpoints'' then processQueryActual E query s
      else if query = ''queries'' \<or> query = ''available_queries''
      then ''publications;inputs;endpoints;interfaces;subscriptions;dependencies;timeconfig;config;dependents;current_time''
      else if \<not> locked then processQueryActual E query s
      else ''#wait'')"

section \<open>Delayed messages\<close>

definition addFederateToDelay ::
  "global_federate_id \<Rightarrow> ('t, 'p, 'e, 'i) FederateState \<Rightarrow> ('t, 'p, 'e, 'i) FederateState" where
  "addFederateToDelay fed s =
     (let feds = delayedFederates s; res = lower_bound (\<lambda>f. f) feds fed
      in if feds = [] \<or> fed > last feds then s\<lparr> delayedFederates := feds @ [fed] \<rparr>
         else if res = length feds then s\<lparr> delayedFederates := feds @ [fed] \<rparr>
         else if feds ! res \<noteq> fed then s\<lparr> delayedFederates := insert_at res fed feds \<rparr>
         else s)"

definition messageShouldBeDelayed :: "'t ActionMessage \<Rightarrow> ('t, 'p, 'e, 'i) FederateState \<Rightarrow> bool" where
  "messageShouldBeDelayed cmd s =
     (let feds = delayedFederates s
      in case feds of
           [] \<Rightarrow> False
         | [f] \<Rightarrow> source_id cmd = f
         | [f, g] \<Rightarrow> source_id cmd = f \<or> source_id cmd = g
         | _ \<Rightarrow> (let res = lower_bound (\<lambda>f. f) feds (source_id cmd)
                 in res \<noteq> length feds \<and> feds ! res = source_id cmd))"

text \<open>\<open>delayQueues[fed].push_back(cmd)\<close>, \<open>delayQueues[fed]\<close> and \<open>pop_front\<close> on the ordered map.\<close>

fun delay_push ::
  "global_federate_id \<Rightarrow> 't ActionMessage \<Rightarrow> (global_federate_id \<times> 't messages) list
     \<Rightarrow> (global_federate_id \<times> 't messages) list" where
  "delay_push fed cmd [] = [(fed, [copy_message cmd])]"
| "delay_push fed cmd ((k, q) # rest) =
     (if k = fed then (k, q @ [copy_message cmd]) # rest
      else if fed < k then (fed, [copy_message cmd]) # (k, q) # rest
      else (k, q) # delay_push fed cmd rest)"

definition delay_queue :: "global_federate_id \<Rightarrow> ('t, 'p, 'e, 'i) FederateState \<Rightarrow> 't messages" where
  "delay_queue fed s = (case map_of (delayQueues s) fed of Some q \<Rightarrow> q | None \<Rightarrow> [])"

definition delay_pop ::
  "global_federate_id \<Rightarrow> ('t, 'p, 'e, 'i) FederateState \<Rightarrow> ('t, 'p, 'e, 'i) FederateState" where
  "delay_pop fed s = s\<lparr> delayQueues := map (\<lambda>(k, q). (k, if k = fed then tl q else q)) (delayQueues s) \<rparr>"

definition delay_message ::
  "'t ActionMessage \<Rightarrow> ('t, 'p, 'e, 'i) FederateState \<Rightarrow> ('t, 'p, 'e, 'i) FederateState" where
  "delay_message cmd s = s\<lparr> delayQueues := delay_push (source_id cmd) cmd (delayQueues s) \<rparr>"

section \<open>Processing of one message\<close>

type_synonym ('t, 'p, 'e, 'i) outcome =
  "(message_processing_result \<times> ('t, 'p, 'e, 'i) FederateState) option"

abbreviation go_on :: "('t, 'p, 'e, 'i) FederateState \<Rightarrow> ('t, 'p, 'e, 'i) outcome" where
  "go_on s \<equiv> Some (MPR_continue_processing, s)"

text \<open>A message the coordinator handles; \<open>cont\<close> is what follows when it had an effect.\<close>

definition time_message_then ::
  "('t::linorder, 'u, 'p, 'e, 'i) fed_env \<Rightarrow> 't ActionMessage
     \<Rightarrow> (('t, 'p, 'e, 'i) FederateState \<Rightarrow> ('t, 'p, 'e, 'i) outcome) \<Rightarrow> ('t, 'p, 'e, 'i) FederateState
     \<Rightarrow> ('t, 'p, 'e, 'i) outcome" where
  "time_message_then E cmd cont s =
     (let (res, tc) = tc_processTimeMessage (fe_time E) cmd (timeCoord s); s1 = put_coord tc s
      in case res of
           delay_processing \<Rightarrow> Some (MPR_delay_message, addFederateToDelay (source_id cmd) s1)
         | no_effect \<Rightarrow> go_on s1
         | processed \<Rightarrow> cont s1)"

definition exec_check ::
  "('t::linorder, 'u, 'p, 'e, 'i) fed_env \<Rightarrow> ('t, 'p, 'e, 'i) FederateState \<Rightarrow> ('t, 'p, 'e, 'i) outcome" where
  "exec_check E s =
     (if fed_state s \<noteq> HELICS_INITIALIZING \<or> timeGranted_mode s then go_on s
      else let (grant, tc) = checkExecEntry (fe_time E) (timeCoord s); s1 = put_coord tc s
           in case grant of
                MPR_next_step \<Rightarrow> Some (grant, (setState HELICS_EXECUTING s1)\<lparr> timeGranted_mode := True \<rparr>)
              | MPR_continue_processing \<Rightarrow> go_on s1
              | _ \<Rightarrow> Some (grant, s1\<lparr> timeGranted_mode := True \<rparr>))"

text \<open>What is taken over from the coordinator once a time is granted.\<close>

definition take_grant ::
  "('t::linorder, 'u, 'p, 'e, 'i) fed_env \<Rightarrow> ('t, 'p, 'e, 'i) FederateState \<Rightarrow> ('t, 'p, 'e, 'i) FederateState" where
  "take_grant E s =
     s\<lparr> fed_time_granted := getGrantedTime (timeCoord s),
        fed_allowed_send_time := allowedSendTime (fe_time E) (timeCoord s) \<rparr>"

definition time_check ::
  "('t::linorder, 'u, 'p, 'e, 'i) fed_env \<Rightarrow> ('t, 'p, 'e, 'i) FederateState \<Rightarrow> ('t, 'p, 'e, 'i) outcome" where
  "time_check E s =
     (if fed_state s \<noteq> HELICS_EXECUTING \<or> timeGranted_mode s then go_on s
      else do {
        (ret, tc) \<leftarrow> checkTimeGrant (fe_time E) (fe_le E) (timeCoord s);
        let s1 = put_coord tc s;
        if returnableResult ret then Some (ret, (take_grant E s1)\<lparr> timeGranted_mode := True \<rparr>)
        else go_on s1
      })"

definition process_time_block ::
  "('t::linorder, 'u, 'p, 'e, 'i) fed_env \<Rightarrow> 't ActionMessage \<Rightarrow> ('t, 'p, 'e, 'i) FederateState
     \<Rightarrow> ('t, 'p, 'e, 'i) outcome" where
  "process_time_block E cmd s =
     (let (res, tc) = tc_processTimeMessage (fe_time E) cmd (timeCoord s); s1 = put_coord tc s
      in if res = processed \<and> \<not> timeGranted_mode s1
         then if fed_state s1 = HELICS_INITIALIZING then exec_check E s1
              else if fed_state s1 = HELICS_EXECUTING then time_check E s1
              else go_on s1
         else go_on s1)"

definition process_init_grant ::
  "('t, 'u, 'p, 'e, 'i) fed_env \<Rightarrow> ('t, 'p, 'e, 'i) FederateState \<Rightarrow> ('t, 'p, 'e, 'i) outcome" where
  "process_init_grant E s =
     (if fed_state s = HELICS_CREATED
      then let (pcode, s1) = checkInterfaces E ((setState HELICS_INITIALIZING s)\<lparr> timeGranted_mode := True \<rparr>)
           in if pcode \<noteq> 0 then Some (MPR_error, setState HELICS_ERROR s1) else Some (MPR_next_step, s1)
      else go_on s)"

definition own_request :: "'t ActionMessage \<Rightarrow> ('t, 'p, 'e, 'i) FederateState \<Rightarrow> bool" where
  "own_request cmd s \<longleftrightarrow> source_id cmd = fed_global_id s \<and> dest_id cmd = fed_of_broker parent_broker_id"

definition requested_iteration :: "'t ActionMessage \<Rightarrow> iteration_request" where
  "requested_iteration cmd =
     (if checkActionFlag (flags cmd) iteration_requested_flag
      then if checkActionFlag (flags cmd) required_flag then force_iteration else iterate_if_needed
      else no_iterations)"

text \<open>The processing of the delay queue after a request, and the check that follows.\<close>

definition after_request ::
  "(('t, 'p, 'e, 'i) FederateState \<Rightarrow> ('t, 'p, 'e, 'i) outcome)
     \<Rightarrow> (('t, 'p, 'e, 'i) FederateState \<Rightarrow> ('t, 'p, 'e, 'i) outcome) \<Rightarrow> ('t, 'p, 'e, 'i) FederateState
     \<Rightarrow> ('t, 'p, 'e, 'i) outcome" where
  "after_request delayed check s =
     do {
       (ret, s1) \<leftarrow> delayed (s\<lparr> timeGranted_mode := False \<rparr>);
       if returnableResult ret then Some (ret, s1) else check s1
     }"

definition process_exec_request ::
  "('t::linorder, 'u, 'p, 'e, 'i) fed_env \<Rightarrow> (('t, 'p, 'e, 'i) FederateState \<Rightarrow> ('t, 'p, 'e, 'i) outcome)
     \<Rightarrow> 't ActionMessage \<Rightarrow> ('t, 'p, 'e, 'i) FederateState \<Rightarrow> ('t, 'p, 'e, 'i) outcome" where
  "process_exec_request E delayed cmd s =
     (if own_request cmd s
      then after_request delayed (exec_check E)
             (put_coord (enteringExecMode (fe_time E) (requested_iteration cmd) (timeCoord s)) s)
      else time_message_then E cmd (exec_check E) s)"

definition process_time_request ::
  "('t::linorder, 'u, 'p, 'e, 'i) fed_env \<Rightarrow> (('t, 'p, 'e, 'i) FederateState \<Rightarrow> ('t, 'p, 'e, 'i) outcome)
     \<Rightarrow> 't ActionMessage \<Rightarrow> ('t, 'p, 'e, 'i) FederateState \<Rightarrow> ('t, 'p, 'e, 'i) outcome" where
  "process_time_request E delayed cmd s =
     (if own_request cmd s
      then do {
        tc \<leftarrow> timeRequest (fe_time E) (actionTime cmd) (requested_iteration cmd)
               (fed_nextValueTime E s) (nextMessageTime E s) (timeCoord s);
        after_request delayed (time_check E) (put_coord tc s)
      }
      else time_message_then E cmd (time_check E) s)"

definition leave_coord ::
  "('t::linorder, 'u, 'p, 'e, 'i) fed_env \<Rightarrow> ('t, 'p, 'e, 'i) FederateState \<Rightarrow> ('t, 'p, 'e, 'i) FederateState" where
  "leave_coord E s = put_coord (disconnect (fe_time E) (fe_le E) (timeCoord s)) s"

definition leaving :: "('t, 'p, 'e, 'i) FederateState \<Rightarrow> bool" where
  "leaving s \<longleftrightarrow> fed_state s = HELICS_FINISHED \<or> fed_state s = HELICS_TERMINATING"

definition process_disconnect_ack ::
  "('t::linorder, 'u, 'p, 'e, 'i) fed_env \<Rightarrow> 't ActionMessage \<Rightarrow> ('t, 'p, 'e, 'i) FederateState
     \<Rightarrow> ('t, 'p, 'e, 'i) outcome" where
  "process_disconnect_ack E cmd s =
     (if dest_id cmd = fed_global_id s \<and> source_id cmd = fed_of_broker parent_broker_id
      then let s1 = (if leaving s then s else leave_coord E s)
           in Some (MPR_halted, setState HELICS_FINISHED s1)
      else go_on s)"

definition process_disconnect ::
  "('t::linorder, 'u, 'p, 'e, 'i) fed_env \<Rightarrow> 't ActionMessage \<Rightarrow> ('t, 'p, 'e, 'i) FederateState
     \<Rightarrow> ('t, 'p, 'e, 'i) outcome" where
  "process_disconnect E cmd s =
     (if source_id cmd = fed_global_id s
      then if leaving s then go_on s
           else go_on (routeMessage (cmd\<lparr> dest_id := fed_of_broker parent_broker_id \<rparr>)
                  (setState HELICS_TERMINATING (leave_coord E s)))
      else time_message_then E cmd (time_check E) s)"

definition process_force_grant ::
  "('t::linorder, 'u, 'p, 'e, 'i) fed_env \<Rightarrow> 't ActionMessage \<Rightarrow> ('t, 'p, 'e, 'i) FederateState
     \<Rightarrow> ('t, 'p, 'e, 'i) outcome" where
  "process_force_grant E cmd s =
     (if actionTime cmd < fed_time_granted s then go_on s
      else let s1 = take_grant E (put_coord (snd (tc_processTimeMessage (fe_time E) cmd (timeCoord s))) s);
               s2 = (if \<not> fed_ignore_time_mismatch_warnings s1
                     then log_warning E (fe_fmt E ''forced Granted Time={}'' [Fmt_String (fe_show_time E (fed_time_granted s1))]) s1
                     else s1)
           in Some (MPR_next_step, s2\<lparr> timeGranted_mode := True \<rparr>))"

definition process_send_message ::
  "('t::linorder, 'u, 'p, 'e, 'i) fed_env \<Rightarrow> 't ActionMessage \<Rightarrow> ('t, 'p, 'e, 'i) FederateState
     \<Rightarrow> ('t, 'p, 'e, 'i) outcome" where
  "process_send_message E cmd s =
     (case if_getEndpoint (fe_ops E) (dest_handle cmd) (interfaceInformation s) of
        None \<Rightarrow> go_on s
      | Some epi \<Rightarrow> do {
          tc \<leftarrow> updateMessageTime (fe_time E) (actionTime cmd) (timeCoord s);
          let s1 = put_coord tc s;
          go_on (fed_interfaces_put (put_endpoint (fe_ops E) (dest_handle cmd)
                   (addMessage (createMessageFromCommand (fe_time E) cmd) epi) (interfaceInformation s1)) s1)
        })"

text \<open>The loop over the sources of an input for a published value. The value is moved out of the
  message by the first source that matches; later ones find the moved-from, empty string.\<close>

fun pub_loop ::
  "('t::linorder, 'u, 'p, 'e, 'i) fed_env \<Rightarrow> 't ActionMessage \<Rightarrow> global_handle list \<Rightarrow> string
     \<Rightarrow> ('t, 'p, 'e, 'i) FederateState \<Rightarrow> ('t, 'p, 'e, 'i) FederateState option" where
  "pub_loop E cmd [] data s = Some s"
| "pub_loop E cmd (src # rest) data s =
     (if source_id cmd = fed_id src \<and> source_handle cmd = handle src
      then case if_getInput (fe_ops E) (dest_handle cmd) (interfaceInformation s) of
             None \<Rightarrow> Some s
           | Some subI \<Rightarrow>
               let s1 = fed_interfaces_put (put_input (fe_ops E) (dest_handle cmd)
                     (addData src (actionTime cmd) (ucast (counter cmd)) (Some data) subI)
                     (interfaceInformation s)) s
               in if not_interruptible subI then pub_loop E cmd rest [] s1
                  else do {
                    tc \<leftarrow> updateValueTime (fe_time E) (actionTime cmd) (timeCoord s1);
                    pub_loop E cmd rest [] (put_coord tc s1)
                  }
      else pub_loop E cmd rest data s)"

definition process_pub ::
  "('t::linorder, 'u, 'p, 'e, 'i) fed_env \<Rightarrow> 't ActionMessage \<Rightarrow> ('t, 'p, 'e, 'i) FederateState
     \<Rightarrow> ('t, 'p, 'e, 'i) outcome" where
  "process_pub E cmd s =
     (case if_getInput (fe_ops E) (dest_handle cmd) (interfaceInformation s) of
        None \<Rightarrow> go_on s
      | Some subI \<Rightarrow> map_option (\<lambda>s1. (MPR_continue_processing, s1))
                      (pub_loop E cmd (input_sources subI) (payload cmd) s))"

definition error_text :: "'t ActionMessage \<Rightarrow> string" where
  "error_text cmd =
     (if payload cmd = []
      then let es = commandErrorString (sint (messageID cmd))
           in if es = ''unknown'' then es @ '' code:'' @ decimal_int (sint (messageID cmd)) else es
      else payload cmd)"

definition process_error ::
  "('t::linorder, 'u, 'p, 'e, 'i) fed_env \<Rightarrow> 't ActionMessage \<Rightarrow> ('t, 'p, 'e, 'i) FederateState
     \<Rightarrow> ('t, 'p, 'e, 'i) outcome" where
  "process_error E cmd s =
     (if messageAction cmd = cmd_global_error \<or> source_id cmd = fed_global_id s
         \<or> source_id cmd = fed_of_broker parent_broker_id \<or> source_id cmd = fed_of_broker root_broker_id
         \<or> dest_id cmd \<noteq> fed_global_id s
      then if leaving s then go_on s
           else let s1 = (if messageAction cmd \<noteq> cmd_global_error
                          then put_coord (localError (fe_time E) (fe_le E) (timeCoord s)) s else s);
                    s2 = (setState HELICS_ERROR s1)
                           \<lparr> fed_errorString := error_text cmd, fed_errorCode := messageID cmd \<rparr>
                in Some (MPR_error, log_error E (fed_errorString s2) s2)
      else time_message_then E cmd (time_check E) s)"

definition process_add_publisher ::
  "('t::linorder, 'u, 'p, 'e, 'i) fed_env \<Rightarrow> 't ActionMessage \<Rightarrow> ('t, 'p, 'e, 'i) FederateState
     \<Rightarrow> ('t, 'p, 'e, 'i) FederateState" where
  "process_add_publisher E cmd s =
     (case if_getInput (fe_ops E) (dest_handle cmd) (interfaceInformation s) of
        None \<Rightarrow> s
      | Some subI \<Rightarrow>
          let s1 = fed_interfaces_put (put_input (fe_ops E) (dest_handle cmd)
                (addSource (fe_time E) (getSource cmd) (payload cmd) (getString cmd 0) (getString cmd 1) subI)
                (interfaceInformation s)) s
          in put_coord (snd (tc_addDependency (fe_time E) (source_id cmd) (timeCoord s1))) s1)"

definition process_add_subscriber ::
  "('t, 'u, 'p, 'e, 'i) fed_env \<Rightarrow> 't ActionMessage \<Rightarrow> ('t, 'p, 'e, 'i) FederateState
     \<Rightarrow> ('t, 'p, 'e, 'i) FederateState" where
  "process_add_subscriber E cmd s =
     (case if_getPublication (fe_ops E) (dest_handle cmd) (interfaceInformation s) of
        None \<Rightarrow> s
      | Some pubI \<Rightarrow>
          let s1 = fed_interfaces_put (put_publication (fe_ops E) (dest_handle cmd)
                (pubI\<lparr> subscribers := subscribers pubI @ [getSource cmd] \<rparr>) (interfaceInformation s)) s
          in put_coord (snd (tc_addDependent (source_id cmd) (timeCoord s1))) s1)"

definition update_input ::
  "('t, 'u, 'p, 'e, 'i) fed_env \<Rightarrow> interface_handle \<Rightarrow> ('t InputInfo \<Rightarrow> 't InputInfo)
     \<Rightarrow> ('t, 'p, 'e, 'i) FederateState \<Rightarrow> ('t, 'p, 'e, 'i) FederateState" where
  "update_input E h f s =
     (case if_getInput (fe_ops E) h (interfaceInformation s) of
        None \<Rightarrow> s
      | Some subI \<Rightarrow> fed_interfaces_put (put_input (fe_ops E) h (f subI) (interfaceInformation s)) s)"

text \<open>The messages that change the interfaces; the result of each is to continue.\<close>

definition process_interface_message ::
  "('t::linorder, 'u, 'p, 'e, 'i) fed_env \<Rightarrow> 't ActionMessage \<Rightarrow> ('t, 'p, 'e, 'i) FederateState
     \<Rightarrow> ('t, 'p, 'e, 'i) FederateState" where
  "process_interface_message E cmd s =
     (let act = messageAction cmd;
          t = (if actionTime cmd \<noteq> timeZero (fe_time E) then actionTime cmd else fed_time_granted s)
      in if act = cmd_add_publisher then process_add_publisher E cmd s
         else if act = cmd_add_subscriber then process_add_subscriber E cmd s
         else if act = cmd_remove_named_publication
         then update_input E (source_handle cmd) (removeSource_named (payload cmd) t) s
         else if act = cmd_remove_publication then update_input E (dest_handle cmd) (removeSource (getSource cmd) t) s
         else if act = cmd_remove_subscriber
         then (case if_getPublication (fe_ops E) (dest_handle cmd) (interfaceInformation s) of
                 None \<Rightarrow> s
               | Some pubI \<Rightarrow> fed_interfaces_put (put_publication (fe_ops E) (dest_handle cmd)
                               (removeSubscriber (getSource cmd) pubI) (interfaceInformation s)) s)
         else if act = cmd_close_interface
         then (if source_id cmd = fed_global_id s
               then closeInterface E (source_handle cmd)
                      (case find (\<lambda>ht. handle_type_char ht = counter_char (counter cmd))
                              [HT_publication, HT_input, HT_endpoint, HT_filter] of
                         Some ht \<Rightarrow> ht | None \<Rightarrow> HT_unknown) s
               else s)
         else s)"

definition process_fed_ack ::
  "'t ActionMessage \<Rightarrow> ('t, 'p, 'e, 'i) FederateState \<Rightarrow> ('t, 'p, 'e, 'i) outcome" where
  "process_fed_ack cmd s =
     (if fed_state s \<noteq> HELICS_CREATED then go_on s
      else if payload cmd = fed_name s
      then if checkActionFlag (flags cmd) error_flag
           then Some (MPR_error, (setState HELICS_ERROR s)
                  \<lparr> fed_errorString := commandErrorString (sint (messageID cmd)) \<rparr>)
           else Some (MPR_next_step, s\<lparr> fed_global_id := dest_id cmd,
                  interfaceInformation := setGlobalId (dest_id cmd) (interfaceInformation s),
                  timeCoord := (timeCoord s)\<lparr> tc_source_id := dest_id cmd \<rparr> \<rparr>)
      else go_on s)"

definition process_query ::
  "('t::linorder, 'u, 'p, 'e, 'i) fed_env \<Rightarrow> 't ActionMessage \<Rightarrow> ('t, 'p, 'e, 'i) FederateState
     \<Rightarrow> ('t, 'p, 'e, 'i) FederateState" where
  "process_query E cmd s =
     routeMessage ((mk_message (fe_time E) cmd_query_reply)
         \<lparr> dest_id := source_id cmd, source_id := dest_id cmd, messageID := messageID cmd,
           counter := counter cmd, payload := processQueryActual E (payload cmd) s \<rparr>) s"

definition process_log ::
  "('t, 'u, 'p, 'e, 'i) fed_env \<Rightarrow> 't ActionMessage \<Rightarrow> ('t, 'p, 'e, 'i) FederateState
     \<Rightarrow> ('t, 'p, 'e, 'i) FederateState" where
  "process_log E cmd s =
     (if messageAction cmd = cmd_log
      then (case stringData cmd of
              [] \<Rightarrow> logMessage E (messageID cmd) [] (payload cmd) s
            | src # _ \<Rightarrow> logMessage E (messageID cmd) src (payload cmd) s)
      else log_warning E (error_text cmd) s)"

definition interface_actions :: "action_t list" where
  "interface_actions = [cmd_add_publisher, cmd_add_subscriber, cmd_remove_named_publication,
     cmd_remove_publication, cmd_remove_subscriber, cmd_close_interface]"

definition process_with ::
  "('t::linorder, 'u, 'p, 'e, 'i) fed_env \<Rightarrow> (('t, 'p, 'e, 'i) FederateState \<Rightarrow> ('t, 'p, 'e, 'i) outcome)
     \<Rightarrow> 't ActionMessage \<Rightarrow> ('t, 'p, 'e, 'i) FederateState \<Rightarrow> ('t, 'p, 'e, 'i) outcome" where
  "process_with E delayed cmd s =
     (let act = messageAction cmd
      in if act = cmd_log \<or> act = cmd_warning then go_on (process_log E cmd s)
         else if act = cmd_time_block \<or> act = cmd_time_unblock then process_time_block E cmd s
         else if act = cmd_init_grant then process_init_grant E s
         else if act = cmd_exec_request then process_exec_request E delayed cmd s
         else if act = cmd_exec_grant then time_message_then E cmd (exec_check E) s
         else if act = cmd_exec_check then exec_check E s
         else if act = cmd_terminate_immediately then Some (MPR_halted, setState HELICS_FINISHED s)
         else if act = cmd_stop then Some (MPR_halted, leave_coord E (setState HELICS_FINISHED s))
         else if act = cmd_disconnect_fed_ack then process_disconnect_ack E cmd s
         else if act = cmd_disconnect_fed \<or> act = cmd_disconnect then process_disconnect E cmd s
         else if act = cmd_broadcast_disconnect \<or> act = cmd_disconnect_broker \<or> act = cmd_disconnect_core
         then time_message_then E cmd (time_check E) s
         else if act = cmd_time_request then process_time_request E delayed cmd s
         else if act = cmd_time_grant then time_message_then E cmd (time_check E) s
         else if act = cmd_time_check then time_check E s
         else if act = cmd_force_time_grant then process_force_grant E cmd s
         else if act = cmd_send_message then process_send_message E cmd s
         else if act = cmd_pub then process_pub E cmd s
         else if act = cmd_error \<or> act = cmd_local_error \<or> act = cmd_global_error then process_error E cmd s
         else if act \<in> set interface_actions then go_on (process_interface_message E cmd s)
         else if isDependencyCommand cmd
         then go_on (if dest_id cmd = fed_global_id s
                     then put_coord (tc_processDependencyUpdateMessage (fe_time E) cmd (timeCoord s)) s else s)
         else if act = cmd_fed_ack then process_fed_ack cmd s
         else if act = cmd_query then go_on (process_query E cmd s)
         else go_on (configure E cmd s))"

section \<open>The queues\<close>

text \<open>The loop over one delay queue. The number bounds the messages taken from it; when it runs out
  the result is \<open>None\<close>, which also stands for a call that does not return.\<close>

fun drain_queue ::
  "nat \<Rightarrow> ('t::linorder, 'u, 'p, 'e, 'i) fed_env
     \<Rightarrow> (('t, 'p, 'e, 'i) FederateState \<Rightarrow> ('t, 'p, 'e, 'i) outcome) \<Rightarrow> global_federate_id
     \<Rightarrow> ('t, 'p, 'e, 'i) FederateState \<Rightarrow> ('t, 'p, 'e, 'i) outcome" where
  "drain_queue 0 E delayed fed s = None"
| "drain_queue (Suc n) E delayed fed s =
     (case delay_queue fed s of
        [] \<Rightarrow> go_on s
      | cmd # _ \<Rightarrow>
          if messageShouldBeDelayed cmd s then Some (MPR_delay_message, s)
          else do {
            (ret, s1) \<leftarrow> process_with E delayed cmd s;
            if ret = MPR_delay_message then Some (ret, s1)
            else let s2 = delay_pop fed s1
                 in if ret = MPR_continue_processing then drain_queue n E delayed fed s2 else Some (ret, s2)
          })"

fun drain_all ::
  "nat \<Rightarrow> ('t::linorder, 'u, 'p, 'e, 'i) fed_env
     \<Rightarrow> (('t, 'p, 'e, 'i) FederateState \<Rightarrow> ('t, 'p, 'e, 'i) outcome) \<Rightarrow> message_processing_result
     \<Rightarrow> global_federate_id list \<Rightarrow> ('t, 'p, 'e, 'i) FederateState \<Rightarrow> ('t, 'p, 'e, 'i) outcome" where
  "drain_all n E delayed ret_code [] s = Some (ret_code, s)"
| "drain_all n E delayed ret_code (fed # feds) s =
     do {
       (ret, s1) \<leftarrow> drain_queue n E delayed fed s;
       if returnableResult ret then Some (ret, s1) else drain_all n E delayed ret feds s1
     }"

text \<open>A request of the federate's own in a delay queue would start the processing of the delay queues
  again from inside; the number also bounds this nesting.\<close>

fun processDelayQueue ::
  "nat \<Rightarrow> ('t::linorder, 'u, 'p, 'e, 'i) fed_env \<Rightarrow> ('t, 'p, 'e, 'i) FederateState
     \<Rightarrow> ('t, 'p, 'e, 'i) outcome" where
  "processDelayQueue 0 E s = None"
| "processDelayQueue (Suc n) E s =
     drain_all n E (processDelayQueue n E) MPR_continue_processing (map fst (delayQueues s))
       (s\<lparr> delayedFederates := [] \<rparr>)"

definition processActionMessage ::
  "nat \<Rightarrow> ('t::linorder, 'u, 'p, 'e, 'i) fed_env \<Rightarrow> 't ActionMessage \<Rightarrow> ('t, 'p, 'e, 'i) FederateState
     \<Rightarrow> ('t, 'p, 'e, 'i) outcome" where
  "processActionMessage n E cmd s = process_with E (processDelayQueue n E) cmd s"

text \<open>\<open>Waiting\<close>: the queue is empty and \<open>pop\<close> blocks.\<close>

datatype queue_result = Waiting | Returned message_processing_result

fun process_loop ::
  "nat \<Rightarrow> ('t::linorder, 'u, 'p, 'e, 'i) fed_env \<Rightarrow> bool \<Rightarrow> 't messages \<Rightarrow> ('t, 'p, 'e, 'i) FederateState
     \<Rightarrow> (queue_result \<times> bool \<times> 't messages \<times> ('t, 'p, 'e, 'i) FederateState) option" where
  "process_loop n E error_cmd [] s = Some (Waiting, error_cmd, [], s)"
| "process_loop n E error_cmd (cmd # pops) s =
     (if messageShouldBeDelayed cmd s then process_loop n E error_cmd pops (delay_message cmd s)
      else do {
        (ret, s1) \<leftarrow> processActionMessage n E cmd s;
        let s2 = (if ret = MPR_delay_message then delay_message cmd s1 else s1);
        let err = (error_cmd \<or> (ret = MPR_error \<and> messageAction cmd = cmd_global_error));
        if returnableResult ret then Some (Returned ret, err, pops, s2)
        else process_loop n E err pops s2
      })"

definition report_error ::
  "('t::linorder, 'u, 'p, 'e, 'i) fed_env \<Rightarrow> ('t, 'p, 'e, 'i) FederateState \<Rightarrow> ('t, 'p, 'e, 'i) FederateState" where
  "report_error E s =
     (let s1 = (if terminate_on_error s then s
                else put_coord (localError (fe_time E) (fe_le E) (timeCoord s)) s)
      in s1\<lparr> fed_sent := fed_sent s1 @
           [(mk_message (fe_time E) (if terminate_on_error s then cmd_global_error else cmd_local_error))
              \<lparr> source_id := fed_global_id s1, dest_id := fed_of_broker parent_broker_id,
                messageID := fed_errorCode s1, payload := fed_errorString s1 \<rparr>] \<rparr>)"

definition processQueue ::
  "nat \<Rightarrow> ('t::linorder, 'u, 'p, 'e, 'i) fed_env \<Rightarrow> 't messages \<Rightarrow> ('t, 'p, 'e, 'i) FederateState
     \<Rightarrow> (queue_result \<times> 't messages \<times> ('t, 'p, 'e, 'i) FederateState) option" where
  "processQueue n E pops s =
     (if fed_state s = HELICS_FINISHED then Some (Returned MPR_halted, pops, s)
      else do {
        let initError = (fed_state s = HELICS_ERROR);
        (ret, s1) \<leftarrow> processDelayQueue n E s;
        (res, error_cmd, rest, s2) \<leftarrow>
          (if returnableResult ret then Some (Returned ret, False, pops, s1)
           else process_loop n E False pops s1);
        let s3 = (if res = Returned MPR_error \<and> fed_state s2 = HELICS_ERROR \<and> \<not> initError \<and> \<not> error_cmd
                     \<and> fed_has_parent s2
                  then report_error E s2 else s2);
        Some (if res \<noteq> Waiting \<and> initError then Returned MPR_error else res, rest, s3)
      })"

section \<open>Calls of the application\<close>

text \<open>Each call runs the queue and then, once it returns, a part of its own. The numeric codes of the
  results of processing and of the calls are the same, so the cast between them is left out.\<close>

definition waitSetup ::
  "nat \<Rightarrow> ('t::linorder, 'u, 'p, 'e, 'i) fed_env \<Rightarrow> 't messages \<Rightarrow> ('t, 'p, 'e, 'i) FederateState
     \<Rightarrow> (queue_result \<times> 't messages \<times> ('t, 'p, 'e, 'i) FederateState) option" where
  "waitSetup n E pops s = processQueue n E pops s"

definition enterInitializingMode ::
  "nat \<Rightarrow> ('t::linorder, 'u, 'p, 'e, 'i) fed_env \<Rightarrow> 't messages \<Rightarrow> ('t, 'p, 'e, 'i) FederateState
     \<Rightarrow> (queue_result \<times> 't messages \<times> ('t, 'p, 'e, 'i) FederateState) option" where
  "enterInitializingMode n E pops s =
     do {
       (res, rest, s1) \<leftarrow> processQueue n E pops s;
       Some (res, rest,
         if res = Returned MPR_next_step
         then s1\<lparr> fed_time_granted := fe_initialTime E, fed_allowed_send_time := fe_initialTime E \<rparr> else s1)
     }"

definition finish_exec_entry ::
  "('t::linorder, 'u, 'p, 'e, 'i) fed_env \<Rightarrow> iteration_request \<Rightarrow> message_processing_result
     \<Rightarrow> ('t, 'p, 'e, 'i) FederateState \<Rightarrow> ('t, 'p, 'e, 'i) FederateState" where
  "finish_exec_entry E iterate ret s =
     (let s1 = (if ret = MPR_next_step
                then s\<lparr> fed_time_granted := timeZero (fe_time E),
                        fed_allowed_send_time := allowedSendTime (fe_time E) (timeCoord s) \<rparr>
                else s)
      in case iterate of
           force_iteration \<Rightarrow> fillEventVectorNextIteration E (fed_time_granted s1) s1
         | iterate_if_needed \<Rightarrow>
             (if ret = MPR_next_step then fillEventVectorUpTo E (fed_time_granted s1) s1
              else fillEventVectorNextIteration E (fed_time_granted s1) s1)
         | no_iterations \<Rightarrow> fillEventVectorUpTo E (fed_time_granted s1) s1)"

definition exec_request ::
  "('t::linorder, 'u, 'p, 'e, 'i) fed_env \<Rightarrow> iteration_request \<Rightarrow> ('t, 'p, 'e, 'i) FederateState
     \<Rightarrow> 't ActionMessage" where
  "exec_request E iterate s =
     setIterationFlags ((mk_message (fe_time E) cmd_exec_request)\<lparr> source_id := fed_global_id s \<rparr>) iterate"

definition enterExecutingMode ::
  "nat \<Rightarrow> ('t::linorder, 'u, 'p, 'e, 'i) fed_env \<Rightarrow> iteration_request \<Rightarrow> 't messages
     \<Rightarrow> ('t, 'p, 'e, 'i) FederateState
     \<Rightarrow> (queue_result \<times> 't messages \<times> ('t, 'p, 'e, 'i) FederateState) option" where
  "enterExecutingMode n E iterate pops s =
     do {
       (res, rest, s1) \<leftarrow> processQueue n E pops (addAction (exec_request E iterate s) s);
       Some (res, rest, case res of Waiting \<Rightarrow> s1 | Returned ret \<Rightarrow> finish_exec_entry E iterate ret s1)
     }"

definition finish_request ::
  "('t::linorder, 'u, 'p, 'e, 'i) fed_env \<Rightarrow> 't \<Rightarrow> 't \<Rightarrow> iteration_request \<Rightarrow> message_processing_result
     \<Rightarrow> ('t, 'p, 'e, 'i) FederateState \<Rightarrow> ('t, 'p, 'e, 'i) FederateState" where
  "finish_request E lastTime nextTime iterate ret s =
     (let s1 = (take_grant E s)\<lparr> fed_iterating := (ret = MPR_iterating) \<rparr>;
          t = fed_time_granted s1;
          s2 = (case iterate of
                  force_iteration \<Rightarrow> fillEventVectorNextIteration E t s1
                | iterate_if_needed \<Rightarrow>
                    (if t < nextTime then fillEventVectorNextIteration E t s1 else fillEventVectorUpTo E t s1)
                | no_iterations \<Rightarrow>
                    (if t < nextTime then fillEventVectorInclusive E t s1 else fillEventVectorUpTo E t s1))
      in if t > nextTime \<and> nextTime > lastTime \<and> \<not> fed_ignore_time_mismatch_warnings s2
         then log_warning E (fe_fmt E ''Time mismatch detected granted time >requested time {} vs {}''
                [Fmt_String (fe_show_double E t), Fmt_String (fe_show_double E nextTime)]) s2
         else s2)"

definition time_request ::
  "('t::linorder, 'u, 'p, 'e, 'i) fed_env \<Rightarrow> 't \<Rightarrow> iteration_request \<Rightarrow> ('t, 'p, 'e, 'i) FederateState
     \<Rightarrow> 't ActionMessage" where
  "time_request E nextTime iterate s =
     setIterationFlags ((mk_message (fe_time E) cmd_time_request)
         \<lparr> source_id := fed_global_id s, actionTime := nextTime \<rparr>) iterate"

definition requestTime ::
  "nat \<Rightarrow> ('t::linorder, 'u, 'p, 'e, 'i) fed_env \<Rightarrow> 't \<Rightarrow> iteration_request \<Rightarrow> 't messages
     \<Rightarrow> ('t, 'p, 'e, 'i) FederateState
     \<Rightarrow> (queue_result \<times> 't messages \<times> ('t, 'p, 'e, 'i) FederateState) option" where
  "requestTime n E nextTime iterate pops s =
     do {
       let lastTime = getGrantedTime (timeCoord s);
       (res, rest, s1) \<leftarrow> processQueue n E pops
          (addAction (time_request E nextTime iterate s) (s\<lparr> fed_events := [] \<rparr>));
       Some (res, rest,
         case res of Waiting \<Rightarrow> s1 | Returned ret \<Rightarrow> finish_request E lastTime nextTime iterate ret s1)
     }"

definition genericUnspecifiedQueueProcess ::
  "nat \<Rightarrow> ('t::linorder, 'u, 'p, 'e, 'i) fed_env \<Rightarrow> 't messages \<Rightarrow> ('t, 'p, 'e, 'i) FederateState
     \<Rightarrow> (queue_result \<times> 't messages \<times> ('t, 'p, 'e, 'i) FederateState) option" where
  "genericUnspecifiedQueueProcess n E pops s =
     do {
       (res, rest, s1) \<leftarrow> processQueue n E pops s;
       Some (res, rest, case res of Waiting \<Rightarrow> s1 | Returned _ \<Rightarrow> take_grant E s1)
     }"

text \<open>The number \<open>k\<close> bounds the turns of the loop.\<close>

fun finalize_loop ::
  "nat \<Rightarrow> nat \<Rightarrow> ('t::linorder, 'u, 'p, 'e, 'i) fed_env \<Rightarrow> 't messages \<Rightarrow> ('t, 'p, 'e, 'i) FederateState
     \<Rightarrow> (queue_result \<times> 't messages \<times> ('t, 'p, 'e, 'i) FederateState) option" where
  "finalize_loop 0 n E pops s = None"
| "finalize_loop (Suc k) n E pops s =
     do {
       (res, rest, s1) \<leftarrow> genericUnspecifiedQueueProcess n E pops s;
       if res = Waiting \<or> res = Returned MPR_halted \<or> res = Returned MPR_error then Some (res, rest, s1)
       else finalize_loop k n E rest s1
     }"

definition finalize ::
  "nat \<Rightarrow> nat \<Rightarrow> ('t::linorder, 'u, 'p, 'e, 'i) fed_env \<Rightarrow> 't messages \<Rightarrow> ('t, 'p, 'e, 'i) FederateState
     \<Rightarrow> (queue_result \<times> 't messages \<times> ('t, 'p, 'e, 'i) FederateState) option" where
  "finalize k n E pops s =
     (if fed_state s = HELICS_FINISHED \<or> fed_state s = HELICS_ERROR then Some (Returned MPR_next_step, pops, s)
      else finalize_loop k n E pops s)"

end
