(* ===== verification/Federate_Queues.thy ===== *)
theory Federate_Queues
  imports Federate_State
begin

text \<open>
  What the processing of messages by a federate guarantees, for every order in which messages arrive:
  the states are passed through in order and the coordinator stays in a legal state, messages of one
  sender are never overtaken by later ones although some are delayed, and errors are reported to
  the core. The relation \<open>keeps\<close> collects what a single message leaves alone.
\<close>

section \<open>What the coordinator keeps\<close>

lemma static_source: "tc_static s' = tc_static s \<Longrightarrow> tc_source_id s' = tc_source_id s"
  by (simp add: tc_static_def)

lemma removeDependent_source [simp]: "tc_source_id (tc_removeDependent f s) = tc_source_id s"
  by (simp add: tc_removeDependent_def Let_def)

lemma processTimeMessage_source [simp]: "tc_source_id (snd (tc_processTimeMessage T cmd s)) = tc_source_id s"
  by (simp add: tc_processTimeMessage_def processTimeBlockMessage_def tc_updateTime_def Let_def split_beta
      split: option.split)

lemma send_bye_source: "tc_source_id (snd (send_bye T le act s)) = tc_source_id s"
proof -
  define bye where "bye = (mk_message T act)\<lparr> source_id := tc_source_id s \<rparr>"
  have fold: "tc_source_id (snd (foldl (\<lambda>(multi, s1) fed.
        let bye' = bye\<lparr> dest_id := fed \<rparr>
        in if fed = tc_source_id s1 then (multi, snd (tc_processTimeMessage T bye' s1))
           else (snd (appendMessage T le multi bye'), s1)) (multi, s1) feds)) = tc_source_id s1" for multi s1 feds
    by (induction feds arbitrary: multi s1) (auto simp: Let_def)
  show ?thesis
    using fold by (auto simp: send_bye_def Let_def split_beta sendMessage_def bye_def [symmetric] split: list.split)
qed

lemma leave_source [simp]:
  "tc_source_id (disconnect T le s) = tc_source_id s" "tc_source_id (localError T le s) = tc_source_id s"
  using send_bye_source [of T le cmd_disconnect "s\<lparr> tc_time_granted := maxVal T, tc_time_grantBase := maxVal T \<rparr>"]
    send_bye_source [of T le cmd_local_error "s\<lparr> tc_time_granted := maxVal T, tc_time_grantBase := maxVal T \<rparr>"]
  by (simp_all add: disconnect_def localError_def Let_def split_beta)

lemma enteringExecMode_source [simp]: "tc_source_id (enteringExecMode T it s) = tc_source_id s"
  by (simp add: enteringExecMode_def Let_def)

lemma checkExecEntry_source [simp]: "tc_source_id (snd (checkExecEntry T s)) = tc_source_id s"
  by (simp add: checkExecEntry_def Let_def)

lemma sendTimeRequest_source [simp]: "tc_source_id (sendTimeRequest T s) = tc_source_id s"
  by (simp add: sendTimeRequest_eq)

lemma timeRequest_source:
  assumes "timeRequest T t it v m s = Some s'"
  shows "tc_source_id s' = tc_source_id s"
proof -
  obtain s3 u s5 where s3: "set_request T t it v m s = Some s3"
    and s5: "updateTimeFactors T (s3\<lparr> tc_dependencies := resetDependentEvents (tc_time_granted s3) (tc_dependencies s3) \<rparr>) = Some (u, s5)"
    and s': "s' = (if tc_dependents s5 \<noteq> [] then sendTimeRequest T s5 else s5)"
    using assms by (auto simp: timeRequest_def Let_def bind_eq_Some_conv)
  show ?thesis
    using static_source [OF set_request_static [OF s3]] static_source [OF updateTimeFactors_static [OF s5]]
    by (simp add: s')
qed

lemma update_times_source:
  "updateValueTime T t s = Some s' \<Longrightarrow> tc_source_id s' = tc_source_id s"
  "updateMessageTime T t s = Some s' \<Longrightarrow> tc_source_id s' = tc_source_id s"
  by (auto simp: updateValueTime_def updateMessageTime_def Let_def bind_eq_Some_conv
      dest!: static_source [OF updateNextExecutionTime_static] split: if_splits)

lemma checkTimeGrant_source:
  assumes "checkTimeGrant T le s = Some (r, s')"
  shows "tc_source_id s' = tc_source_id s"
proof -
  obtain u s1 where s1: "updateTimeFactors T s = Some (u, s1)"
    using assms by (auto simp: checkTimeGrant_def bind_eq_Some_conv)
  have "tc_source_id (updateTimeGrant T s) = tc_source_id s" for s
    by (simp add: updateTimeGrant_def Let_def)
  then show ?thesis
    using assms static_source [OF updateTimeFactors_static [OF s1]]
    by (auto simp: checkTimeGrant_def s1 Let_def split: if_splits)
qed

lemma config_source [simp]:
  "tc_source_id (setTimeProperty T p v s) = tc_source_id s" "tc_source_id (setIntProperty T p i s) = tc_source_id s"
  "tc_source_id (setOptionFlag f b s) = tc_source_id s"
  by (simp_all add: setTimeProperty_def setIntProperty_def setOptionFlag_def Let_def)

lemma dependency_source [simp]:
  "tc_source_id (snd (tc_addDependency T f s)) = tc_source_id s"
  "tc_source_id (snd (tc_addDependent f s)) = tc_source_id s"
  "tc_source_id (tc_removeDependency f s) = tc_source_id s"
  "tc_source_id (tc_processDependencyUpdateMessage T cmd s) = tc_source_id s"
  by (simp_all add: tc_addDependency_def tc_addDependent_def tc_removeDependency_def
      tc_processDependencyUpdateMessage_def tc_removeDependent_def Let_def split_beta)

section \<open>What a message leaves alone\<close>

text \<open>The order in which a federate passes through its states.\<close>

fun state_rank :: "federate_state \<Rightarrow> nat" where
  "state_rank HELICS_CREATED = 0"
| "state_rank HELICS_INITIALIZING = 1"
| "state_rank HELICS_EXECUTING = 2"
| "state_rank HELICS_ERROR = 3"
| "state_rank HELICS_TERMINATING = 4"
| "state_rank HELICS_FINISHED = 5"
| "state_rank HELICS_UNKNOWN = 0"

definition coord_ok :: "('t::linorder, 'u, 'p, 'e, 'i) fed_env \<Rightarrow> 't TimeCoordinator \<Rightarrow> bool" where
  "coord_ok E tc \<longleftrightarrow> time_bounded (fe_time E) \<longrightarrow> time_consts (fe_time E) \<longrightarrow> tc_inv (fe_time E) tc"

definition keeps ::
  "('t::linorder, 'u, 'p, 'e, 'i) fed_env \<Rightarrow> ('t, 'p, 'e, 'i) FederateState \<Rightarrow> ('t, 'p, 'e, 'i) FederateState
     \<Rightarrow> bool" where
  "keeps E s s' \<longleftrightarrow> delayQueues s' = delayQueues s \<and> delayedFederates s' = delayedFederates s
     \<and> fed_has_parent s' = fed_has_parent s \<and> state_rank (fed_state s) \<le> state_rank (fed_state s')
     \<and> (fed_state s \<noteq> HELICS_CREATED \<longrightarrow> fed_state s' \<noteq> HELICS_CREATED \<and> fed_global_id s' = fed_global_id s
        \<and> tc_source_id (timeCoord s') = tc_source_id (timeCoord s))
     \<and> (coord_ok E (timeCoord s) \<longrightarrow> coord_ok E (timeCoord s'))"

lemma keeps_refl [simp]: "keeps E s s"
  by (simp add: keeps_def)

lemma keeps_trans: "keeps E s s1 \<Longrightarrow> keeps E s1 s2 \<Longrightarrow> keeps E s s2"
  by (auto simp: keeps_def)

lemma route_all_eq:
  "foldl (\<lambda>s m. routeMessage (f m) s) s ms =
     s\<lparr> fed_sent := fed_sent s @ (if fed_has_parent s then map f ms else []),
        fed_pushed := fed_pushed s @ (if fed_has_parent s then [] else map (\<lambda>m. copy_message (f m)) ms) \<rparr>"
  by (induction ms arbitrary: s) (simp_all add: routeMessage_def)

lemma put_coord_eq:
  "put_coord tc s =
     s\<lparr> timeCoord := tc\<lparr> tc_sent := [] \<rparr>,
        fed_sent := fed_sent s @ (if fed_has_parent s then tc_sent tc else []),
        fed_pushed := fed_pushed s @ (if fed_has_parent s then [] else map copy_message (tc_sent tc)) \<rparr>"
  by (simp add: put_coord_def route_all_eq [where f = "\<lambda>m. m"])

lemma put_coord_simps [simp]:
  "timeCoord (put_coord tc s) = tc\<lparr> tc_sent := [] \<rparr>" "fed_state (put_coord tc s) = fed_state s"
  "fed_global_id (put_coord tc s) = fed_global_id s" "delayQueues (put_coord tc s) = delayQueues s"
  "delayedFederates (put_coord tc s) = delayedFederates s" "fed_has_parent (put_coord tc s) = fed_has_parent s"
  "timeGranted_mode (put_coord tc s) = timeGranted_mode s"
  "interfaceInformation (put_coord tc s) = interfaceInformation s"
  "fed_time_granted (put_coord tc s) = fed_time_granted s"
  by (simp_all add: put_coord_eq)

lemma keeps_put_coord:
  assumes "tc_source_id tc = tc_source_id (timeCoord s)"
    and "time_bounded (fe_time E) \<Longrightarrow> time_consts (fe_time E) \<Longrightarrow> tc_inv (fe_time E) (timeCoord s) \<Longrightarrow>
      tc_inv (fe_time E) tc"
  shows "keeps E s (put_coord tc s)"
  using assms by (auto simp: keeps_def coord_ok_def)

lemma setState_simps [simp]:
  "timeCoord (setState st s) = timeCoord s" "fed_global_id (setState st s) = fed_global_id s"
  "delayQueues (setState st s) = delayQueues s" "delayedFederates (setState st s) = delayedFederates s"
  "fed_has_parent (setState st s) = fed_has_parent s"
  "interfaceInformation (setState st s) = interfaceInformation s"
  by (simp_all add: setState_def split: federate_state.split)

lemma log_simps [simp]:
  "timeCoord (logMessage E l a m s) = timeCoord s" "fed_global_id (logMessage E l a m s) = fed_global_id s"
  "delayQueues (logMessage E l a m s) = delayQueues s" "delayedFederates (logMessage E l a m s) = delayedFederates s"
  "fed_has_parent (logMessage E l a m s) = fed_has_parent s" "fed_state (logMessage E l a m s) = fed_state s"
  "fed_errorCode (logMessage E l a m s) = fed_errorCode s" "fed_errorString (logMessage E l a m s) = fed_errorString s"
  "fed_sent (logMessage E l a m s) = fed_sent s" "fed_time_granted (logMessage E l a m s) = fed_time_granted s"
  by (simp_all add: logMessage_def)

lemma keeps_fields:
  assumes "delayQueues s' = delayQueues s" "delayedFederates s' = delayedFederates s"
    "fed_has_parent s' = fed_has_parent s" "fed_state s' = fed_state s" "fed_global_id s' = fed_global_id s"
    "timeCoord s' = timeCoord s"
  shows "keeps E s s'"
  using assms by (simp add: keeps_def)

lemma keeps_log [simp]: "keeps E s (logMessage E' l a m s)"
  by (rule keeps_fields) simp_all

lemma keeps_log_error [simp]: "keeps E s (log_error E' m s)" "keeps E s (log_warning E' m s)"
  by (simp_all add: log_error_def log_warning_def)

lemma keeps_route [simp]: "keeps E s (routeMessage m s)"
  by (rule keeps_fields) (simp_all add: routeMessage_def)

lemma keeps_interfaces [simp]: "keeps E s (fed_interfaces_put ii s)"
  by (rule keeps_fields) simp_all

lemma keeps_route_all:
  "keeps E s (fed_interfaces_put ii (foldl (\<lambda>s m. routeMessage (f m) s) s ms))"
  by (rule keeps_fields) (simp_all add: route_all_eq)

lemma keeps_close: "keeps E s (closeInterface E h ht s)"
  by (auto simp: closeInterface_def close_publication_def close_input_def close_endpoint_def Let_def keeps_route_all
      split: handle_type.split option.split)

lemma keeps_leave: "keeps E s (leave_coord E s)"
  unfolding leave_coord_def by (rule keeps_put_coord) (simp_all add: disconnect_inv)

lemma keeps_local_error: "keeps E s (put_coord (localError (fe_time E) le (timeCoord s)) s)"
  by (rule keeps_put_coord) (simp_all add: localError_inv)

lemma keeps_setState:
  assumes "state_rank (fed_state s) \<le> state_rank (fed_state (setState st s))"
    and "fed_state s \<noteq> HELICS_CREATED \<Longrightarrow> st \<noteq> HELICS_CREATED"
  shows "keeps E s (setState st s)"
  using assms by (auto simp: keeps_def setState_def split: federate_state.splits)

lemma keeps_finish: "keeps E s (setState HELICS_FINISHED s)"
  by (rule keeps_setState) (cases "fed_state s"; simp add: setState_def)+

lemma keeps_stop: "keeps E s (leave_coord E (setState HELICS_FINISHED s))"
  by (rule keeps_trans [OF keeps_finish keeps_leave])

lemma keeps_error_state: "\<not> leaving s \<Longrightarrow> keeps E s (setState HELICS_ERROR s)"
  by (rule keeps_setState) (cases "fed_state s"; simp add: setState_def leaving_def)+

lemma keeps_terminating: "\<not> leaving s \<Longrightarrow> keeps E s (setState HELICS_TERMINATING s)"
  by (rule keeps_setState) (cases "fed_state s"; simp add: setState_def leaving_def)+

lemma keeps_setTimeProperty: "keeps E s (fed_setTimeProperty E p v s)"
proof -
  have "keeps E s (put_coord (setTimeProperty (fe_time E) p v (timeCoord s)) s)"
    by (rule keeps_put_coord) (simp_all add: setTimeProperty_inv)
  then show ?thesis
    by (auto simp: fed_setTimeProperty_def keeps_fields)
qed

lemma setIntProperty_inv:
  assumes "time_consts T" and "tc_inv T s"
  shows "tc_inv T (setIntProperty T p i s)"
  using setTimeProperty_inv [OF assms, of p] assms(2)
  by (auto simp: setIntProperty_def tc_inv_def records_ok_def block_ok_def)

lemma setOptionFlag_inv: "tc_inv T (setOptionFlag f b s) = tc_inv T s"
  by (auto simp: setOptionFlag_def Let_def tc_inv_def records_ok_def block_ok_def)

lemma keeps_setIntProperty: "keeps E s (fed_setIntProperty E p v s)"
proof -
  have "keeps E s (put_coord (setIntProperty (fe_time E) p v (timeCoord s)) s)"
    by (rule keeps_put_coord) (simp_all add: setIntProperty_inv)
  then show ?thesis
    by (auto simp: fed_setIntProperty_def keeps_fields Let_def)
qed

lemma if_keeps: "(c \<Longrightarrow> keeps E s a) \<Longrightarrow> (\<not> c \<Longrightarrow> keeps E s b) \<Longrightarrow> keeps E s (if c then a else b)"
  by simp

lemma keeps_setOptionFlag: "keeps E s (fed_setOptionFlag E f v s)"
proof -
  have "keeps E s (put_coord (setOptionFlag f v (timeCoord s)) s)"
    by (rule keeps_put_coord) (simp_all add: setOptionFlag_inv)
  then show ?thesis
    unfolding fed_setOptionFlag_def
    by (intro if_keeps keeps_interfaces keeps_refl) (assumption | rule keeps_fields; simp)+
qed

lemma keeps_setInterfaceProperty: "keeps E s (setInterfaceProperty E cmd s)"
proof -
  have "keeps E s (not_used E k p key res s)" for k p key res
    by (auto simp: not_used_def Let_def log_warning_def intro!: keeps_fields split: option.split)
  then show ?thesis
    by (simp add: setInterfaceProperty_def Let_def)
qed

lemma keeps_configure: "keeps E s (configure E cmd s)"
  by (simp add: configure_def keeps_setOptionFlag keeps_setTimeProperty keeps_setIntProperty keeps_setInterfaceProperty)

lemma keeps_add_publisher: "keeps E s (process_add_publisher E cmd s)"
proof -
  have "keeps E s (put_coord (snd (tc_addDependency (fe_time E) f (timeCoord s))) (fed_interfaces_put ii s))" for f ii
    by (rule keeps_trans [OF keeps_interfaces keeps_put_coord]) (simp_all add: tc_inv_addDependency)
  then show ?thesis
    by (simp add: process_add_publisher_def Let_def split: option.split)
qed

lemma keeps_add_subscriber: "keeps E s (process_add_subscriber E cmd s)"
proof -
  have "keeps E s (put_coord (snd (tc_addDependent f (timeCoord s))) (fed_interfaces_put ii s))" for f ii
    by (rule keeps_trans [OF keeps_interfaces keeps_put_coord]) (simp_all add: tc_inv_addDependent)
  then show ?thesis
    by (simp add: process_add_subscriber_def Let_def split: option.split)
qed

lemma keeps_interface_message: "keeps E s (process_interface_message E cmd s)"
  by (auto simp: process_interface_message_def Let_def keeps_add_publisher keeps_add_subscriber keeps_close
      update_input_def split: option.split)

lemma keeps_dependency_message:
  "keeps E s (put_coord (tc_processDependencyUpdateMessage (fe_time E) cmd (timeCoord s)) s)"
  by (rule keeps_put_coord) (simp_all add: tc_processDependencyUpdateMessage_inv)

lemma keeps_process_log: "keeps E s (process_log E cmd s)"
  by (auto simp: process_log_def split: list.split)

lemma keeps_query: "keeps E s (process_query E cmd s)"
  by (simp add: process_query_def)

lemmas keeps_simple = keeps_interface_message keeps_dependency_message keeps_process_log keeps_query
  keeps_configure keeps_finish keeps_stop

section \<open>Messages other than the federate's own requests\<close>

text \<open>A message is either delayed, with its sender added to the delayed federates and everything else
  kept, or it is done.\<close>

definition handled ::
  "('t::linorder, 'u, 'p, 'e, 'i) fed_env \<Rightarrow> 't ActionMessage \<Rightarrow> ('t, 'p, 'e, 'i) FederateState
     \<Rightarrow> message_processing_result \<Rightarrow> ('t, 'p, 'e, 'i) FederateState \<Rightarrow> bool" where
  "handled E cmd s r s' \<longleftrightarrow>
     (if r = MPR_delay_message
      then source_id cmd \<noteq> tc_source_id (timeCoord s) \<and> (\<exists>s1. keeps E s s1 \<and> s' = addFederateToDelay (source_id cmd) s1)
      else keeps E s s')"

lemma handledI: "keeps E s s' \<Longrightarrow> r \<noteq> MPR_delay_message \<Longrightarrow> handled E cmd s r s'"
  by (simp add: handled_def)

lemma keeps_granted [simp]: "keeps E s (s'\<lparr> timeGranted_mode := b \<rparr>) = keeps E s s'"
  by (simp add: keeps_def)

lemma keeps_take_grant [simp]: "keeps E s (take_grant E' s') = keeps E s s'"
  by (simp add: keeps_def take_grant_def)

lemma exec_entry_not_delayed: "fst (checkExecEntry T s) \<noteq> MPR_delay_message"
  by (simp add: checkExecEntry_def exec_entry_result_def Let_def split: iteration_request.split)

lemma exec_check_keeps:
  assumes "exec_check E s = Some (r, s')"
  shows "keeps E s s'" and "r \<noteq> MPR_delay_message"
proof -
  obtain g tc where g: "checkExecEntry (fe_time E) (timeCoord s) = (g, tc)"
    by fastforce
  have k: "keeps E s (put_coord tc s)"
    using checkExecEntry_source [of "fe_time E" "timeCoord s"]
      checkExecEntry_inv [of "fe_time E" "timeCoord s" "fe_time E"]
    by (auto simp: g intro: keeps_put_coord)
  have "keeps E s (setState HELICS_EXECUTING (put_coord tc s))"
    if "fed_state s = HELICS_INITIALIZING"
    by (rule keeps_trans [OF k keeps_setState]) (simp_all add: that setState_def)
  then show "keeps E s s'"
    using assms k by (auto simp: exec_check_def g Let_def split: if_splits message_processing_result.splits)
  show "r \<noteq> MPR_delay_message"
    using assms exec_entry_not_delayed [of "fe_time E" "timeCoord s"]
    by (auto simp: exec_check_def g Let_def split: if_splits message_processing_result.splits)
qed

lemma time_check_keeps:
  assumes "time_check E s = Some (r, s')"
  shows "keeps E s s'" and "r \<noteq> MPR_delay_message"
proof -
  have "keeps E s (put_coord tc s)" if "checkTimeGrant (fe_time E) le (timeCoord s) = Some (g, tc)" for g tc le
    using checkTimeGrant_source [OF that] checkTimeGrant_inv [OF that] by (auto intro: keeps_put_coord)
  then show "keeps E s s'" and "r \<noteq> MPR_delay_message"
    using assms by (auto simp: time_check_def bind_eq_Some_conv Let_def returnableResult_def split: if_splits)
qed

lemma tc_processTimeMessage_delay:
  "fst (tc_processTimeMessage T cmd s) = delay_processing \<Longrightarrow> source_id cmd \<noteq> tc_source_id s"
  by (auto simp: tc_processTimeMessage_def processTimeBlockMessage_def tc_updateTime_def isDelayableMessage_def Let_def
      split_beta split: if_splits option.splits)

lemma keeps_time_message:
  "keeps E s (put_coord (snd (tc_processTimeMessage (fe_time E) cmd (timeCoord s))) s)"
  by (rule keeps_put_coord) (simp_all add: tc_processTimeMessage_inv)

lemma time_message_then_handled:
  assumes "time_message_then E cmd cont s = Some (r, s')"
    and "\<And>s1 r' s2. cont s1 = Some (r', s2) \<Longrightarrow> keeps E s1 s2 \<and> r' \<noteq> MPR_delay_message"
  shows "handled E cmd s r s'"
proof -
  obtain res tc where res: "tc_processTimeMessage (fe_time E) cmd (timeCoord s) = (res, tc)"
    by fastforce
  have k: "keeps E s (put_coord tc s)"
    using keeps_time_message [of E s cmd] by (simp add: res)
  show ?thesis
  proof (cases res)
    case no_effect
    then show ?thesis
      using assms(1) k by (simp add: time_message_then_def res handled_def)
  next
    case processed
    then show ?thesis
      using assms(1) assms(2) [of "put_coord tc s" r s'] keeps_trans [OF k]
      by (simp add: time_message_then_def res handled_def)
  next
    case delay_processing
    then show ?thesis
      using assms(1) k tc_processTimeMessage_delay [of "fe_time E" cmd "timeCoord s"]
      by (auto simp: time_message_then_def res handled_def)
  qed
qed

lemma process_time_block_handled: "process_time_block E cmd s = Some (r, s') \<Longrightarrow> handled E cmd s r s'"
  using keeps_time_message [of E s cmd]
  by (auto simp: process_time_block_def Let_def split_beta intro: handledI keeps_trans
      dest: exec_check_keeps time_check_keeps split: if_splits)

lemma log_all_eq: "\<exists>l. foldl (\<lambda>s (code, message). log_error E (f code message) s) s iss = s\<lparr> fed_log := l \<rparr>"
proof (induction iss arbitrary: s)
  case Nil
  show ?case by (intro exI [of _ "fed_log s"]) simp
next
  case (Cons i iss)
  obtain l where "log_error E (f (fst i) (snd i)) s = s\<lparr> fed_log := l \<rparr>"
    using that [of "fed_log (log_error E (f (fst i) (snd i)) s)"] by (simp add: log_error_def logMessage_def)
  then show ?case
    using Cons [of "s\<lparr> fed_log := l \<rparr>"] by (auto simp: split_beta)
qed

lemma checkInterfaces_eq:
  "\<exists>e l. checkInterfaces E s =
     (if checkInterfacesForIssues (fe_units E) (fe_fmt E) (fe_ops E) (interfaceInformation s) = [] then (0, s)
      else (connection_failure, s\<lparr> fed_errorCode := connection_failure, fed_errorString := e, fed_log := l \<rparr>))"
proof (cases "checkInterfacesForIssues (fe_units E) (fe_fmt E) (fe_ops E) (interfaceInformation s)")
  case Nil
  then show ?thesis by (simp add: checkInterfaces_def)
next
  case (Cons i iss)
  have "(fst i, snd i) \<in> set (checkInterfacesForIssues (fe_units E) (fe_fmt E) (fe_ops E) (interfaceInformation s))"
    by (simp add: Cons)
  then have i: "fst i = connection_failure"
    by (rule issue_codes)
  show ?thesis
    using log_all_eq [of E "\<lambda>code message. if code = connection_failure
          then fe_fmt E ''Connection Error: {}'' [Fmt_String message]
          else fe_fmt E ''error code {}: {}'' [Fmt_Int (sint code), Fmt_String message]"
        "s\<lparr> fed_errorCode := connection_failure, fed_errorString := snd i \<rparr>" "i # iss"]
    by (auto simp: checkInterfaces_def Cons i Let_def simp del: foldl_Cons)
qed

lemma keeps_init_grant:
  assumes "fed_state s = HELICS_CREATED" "checkInterfaces E ((setState HELICS_INITIALIZING s)\<lparr> timeGranted_mode := True \<rparr>) = (c, s1)"
  shows "keeps E s s1" and "fed_state s1 = HELICS_INITIALIZING"
  using checkInterfaces_eq [of E "(setState HELICS_INITIALIZING s)\<lparr> timeGranted_mode := True \<rparr>"] assms
  by (auto simp: keeps_def setState_def split: if_splits)

lemma process_init_grant_handled: "process_init_grant E s = Some (r, s') \<Longrightarrow> handled E cmd s r s'"
  by (auto simp: process_init_grant_def handled_def leaving_def keeps_init_grant
      keeps_trans [OF keeps_init_grant(1) keeps_error_state] split: if_splits prod.splits)

lemma exec_check_handled: "exec_check E s = Some (r, s') \<Longrightarrow> handled E cmd s r s'"
  using exec_check_keeps by (blast intro: handledI)

lemma time_check_handled: "time_check E s = Some (r, s') \<Longrightarrow> handled E cmd s r s'"
  using time_check_keeps by (blast intro: handledI)

lemma time_message_handled:
  "time_message_then E cmd (exec_check E) s = Some (r, s') \<Longrightarrow> handled E cmd s r s'"
  "time_message_then E cmd (time_check E) s = Some (r, s') \<Longrightarrow> handled E cmd s r s'"
  by (erule time_message_then_handled, simp add: exec_check_keeps)
    (erule time_message_then_handled, simp add: time_check_keeps)

lemma process_disconnect_ack_handled: "process_disconnect_ack E cmd s = Some (r, s') \<Longrightarrow> handled E cmd s r s'"
  by (auto simp: process_disconnect_ack_def handled_def keeps_finish keeps_trans [OF keeps_leave keeps_finish]
      split: if_splits)

lemma process_disconnect_handled:
  assumes "process_disconnect E cmd s = Some (r, s')"
  shows "handled E cmd s r s'"
proof -
  have "keeps E s (routeMessage m (setState HELICS_TERMINATING (leave_coord E s)))" if "\<not> leaving s" for m
  proof -
    have "\<not> leaving (leave_coord E s)"
      using that by (simp add: leaving_def leave_coord_def)
    then show ?thesis
      using keeps_trans [OF keeps_trans [OF keeps_leave keeps_terminating] keeps_route] by blast
  qed
  then show ?thesis
    using assms time_message_handled(2) [of E cmd s r s']
    by (auto simp: process_disconnect_def handled_def split: if_splits)
qed

lemma process_force_grant_handled: "process_force_grant E cmd s = Some (r, s') \<Longrightarrow> handled E cmd s r s'"
  using keeps_time_message [of E s cmd]
  by (auto simp: process_force_grant_def handled_def Let_def keeps_trans [OF _ keeps_log_error(2)] split: if_splits)

lemma keeps_update_times:
  "updateMessageTime (fe_time E) t (timeCoord s) = Some tc \<Longrightarrow> keeps E s (put_coord tc s)"
  "updateValueTime (fe_time E) t (timeCoord s) = Some tc \<Longrightarrow> keeps E s (put_coord tc s)"
  by (auto intro: keeps_put_coord simp: update_times_source updateMessageTime_inv updateValueTime_inv)

lemma process_send_message_handled: "process_send_message E cmd s = Some (r, s') \<Longrightarrow> handled E cmd s r s'"
  by (auto simp: process_send_message_def handled_def bind_eq_Some_conv Let_def
      keeps_trans [OF keeps_update_times(1) keeps_interfaces] split: option.splits)

lemma pub_loop_keeps: "pub_loop E cmd srcs data s = Some s' \<Longrightarrow> keeps E s s'"
proof (induction srcs arbitrary: data s)
  case (Cons src rest)
  show ?case
  proof (cases "source_id cmd = fed_id src \<and> source_handle cmd = handle src")
    case match: True
    show ?thesis
    proof (cases "if_getInput (fe_ops E) (dest_handle cmd) (interfaceInformation s)")
      case None
      then show ?thesis
        using Cons match by simp
    next
      case (Some subI)
      define s1 where "s1 = fed_interfaces_put (put_input (fe_ops E) (dest_handle cmd)
          (addData src (actionTime cmd) (ucast (counter cmd)) (Some data) subI) (interfaceInformation s)) s"
      have "if not_interruptible subI then pub_loop E cmd rest [] s1 = Some s'
        else \<exists>tc. updateValueTime (fe_time E) (actionTime cmd) (timeCoord s1) = Some tc
          \<and> pub_loop E cmd rest [] (put_coord tc s1) = Some s'"
        using Cons(2) match Some by (auto simp: s1_def Let_def bind_eq_Some_conv)
      then have "keeps E s1 s'"
        using Cons(1) keeps_trans [OF keeps_update_times(2)] by (metis (full_types))
      moreover have "keeps E s s1"
        by (simp add: s1_def)
      ultimately show ?thesis
        using keeps_trans by blast
    qed
  next
    case False
    then have "pub_loop E cmd rest data s = Some s'"
      using Cons(2) by (simp only: pub_loop.simps if_False)
    then show ?thesis
      by (rule Cons(1))
  qed
qed simp

lemma process_pub_handled: "process_pub E cmd s = Some (r, s') \<Longrightarrow> handled E cmd s r s'"
  by (auto simp: process_pub_def handled_def intro: pub_loop_keeps split: option.splits)

lemma process_error_handled:
  assumes "process_error E cmd s = Some (r, s')"
  shows "handled E cmd s r s'"
proof -
  have err: "keeps E s (log_error E m ((setState HELICS_ERROR s1)\<lparr> fed_errorString := a, fed_errorCode := c \<rparr>))"
    if "keeps E s s1" "\<not> leaving s1" for m a c s1
  proof -
    have "keeps E s1 ((setState HELICS_ERROR s1)\<lparr> fed_errorString := a, fed_errorCode := c \<rparr>)"
      using keeps_error_state [OF that(2), of E] by (simp add: keeps_def)
    then show ?thesis
      using keeps_trans [OF keeps_trans [OF that(1)] keeps_log_error(1)] by blast
  qed
  have "keeps E s (put_coord (localError (fe_time E) (fe_le E) (timeCoord s)) s)"
    by (rule keeps_local_error)
  moreover have "leaving (put_coord tc s) = leaving s" for tc
    by (simp add: leaving_def)
  ultimately show ?thesis
    using assms err time_message_handled(2) [of E cmd s r s']
    by (auto simp: process_error_def handled_def Let_def split: if_splits)
qed

lemma process_fed_ack_handled: "process_fed_ack cmd s = Some (r, s') \<Longrightarrow> handled E cmd s r s'"
  by (auto simp: process_fed_ack_def handled_def keeps_def setState_def coord_ok_def split: if_splits)

lemma go_on_handled: "keeps E s s1 \<Longrightarrow> go_on s1 = Some (r, s') \<Longrightarrow> handled E cmd s r s'"
  by (auto simp: handled_def)

definition own_requesting :: "'t ActionMessage \<Rightarrow> ('t, 'p, 'e, 'i) FederateState \<Rightarrow> bool" where
  "own_requesting cmd s \<longleftrightarrow>
     (messageAction cmd = cmd_exec_request \<or> messageAction cmd = cmd_time_request) \<and> own_request cmd s"

lemma if_handled:
  assumes "c \<Longrightarrow> a = Some (r, s') \<Longrightarrow> handled E cmd s r s'" "\<not> c \<Longrightarrow> b = Some (r, s') \<Longrightarrow> handled E cmd s r s'"
  shows "(if c then a else b) = Some (r, s') \<Longrightarrow> handled E cmd s r s'"
  using assms by (cases c) simp_all

lemma halted_handled:
  "Some (MPR_halted, setState HELICS_FINISHED s) = Some (r, s') \<Longrightarrow> handled E cmd s r s'"
  "Some (MPR_halted, leave_coord E (setState HELICS_FINISHED s)) = Some (r, s') \<Longrightarrow> handled E cmd s r s'"
  by (auto simp: handled_def keeps_simple)

lemma foreign_request_handled:
  assumes "\<not> own_request cmd s"
  shows "process_exec_request E delayed cmd s = Some (r, s') \<Longrightarrow> handled E cmd s r s'"
    and "process_time_request E delayed cmd s = Some (r, s') \<Longrightarrow> handled E cmd s r s'"
  using assms time_message_handled by (simp_all add: process_exec_request_def process_time_request_def)

lemma dependency_handled:
  "go_on (if c then put_coord (tc_processDependencyUpdateMessage (fe_time E) cmd (timeCoord s)) s else s) = Some (r, s')
     \<Longrightarrow> handled E cmd s r s'"
  by (auto simp: handled_def keeps_simple)

lemma process_with_handled:
  assumes "process_with E delayed cmd s = Some (r, s')" and "\<not> own_requesting cmd s"
  shows "handled E cmd s r s'"
  using assms(1) unfolding process_with_def Let_def
proof (elim if_handled [rotated 2])
  assume "messageAction cmd = cmd_exec_request" "process_exec_request E delayed cmd s = Some (r, s')"
  then show ?thesis
    using assms(2) foreign_request_handled(1) by (auto simp: own_requesting_def)
next
  assume "messageAction cmd = cmd_time_request" "process_time_request E delayed cmd s = Some (r, s')"
  then show ?thesis
    using assms(2) foreign_request_handled(2) by (auto simp: own_requesting_def)
qed (erule go_on_handled [OF keeps_simple(1)] go_on_handled [OF keeps_simple(3)]
    go_on_handled [OF keeps_simple(4)] go_on_handled [OF keeps_simple(5)] dependency_handled halted_handled
    process_time_block_handled process_init_grant_handled time_message_handled exec_check_handled time_check_handled
    process_disconnect_ack_handled process_disconnect_handled process_force_grant_handled process_send_message_handled
    process_pub_handled process_error_handled process_fed_ack_handled)+

section \<open>The life cycle\<close>

definition advances ::
  "('t::linorder, 'u, 'p, 'e, 'i) fed_env \<Rightarrow> ('t, 'p, 'e, 'i) FederateState \<Rightarrow> ('t, 'p, 'e, 'i) FederateState
     \<Rightarrow> bool" where
  "advances E s s' \<longleftrightarrow> state_rank (fed_state s) \<le> state_rank (fed_state s')
     \<and> (coord_ok E (timeCoord s) \<longrightarrow> coord_ok E (timeCoord s'))"

definition advancing ::
  "('t::linorder, 'u, 'p, 'e, 'i) fed_env \<Rightarrow> (('t, 'p, 'e, 'i) FederateState \<Rightarrow> ('t, 'p, 'e, 'i) outcome) \<Rightarrow> bool" where
  "advancing E f \<longleftrightarrow> (\<forall>s r s'. f s = Some (r, s') \<longrightarrow> advances E s s')"

lemma advances_refl [simp]: "advances E s s"
  by (simp add: advances_def)

lemma advances_trans: "advances E s s1 \<Longrightarrow> advances E s1 s2 \<Longrightarrow> advances E s s2"
  by (auto simp: advances_def)

lemma keeps_advances: "keeps E s s' \<Longrightarrow> advances E s s'"
  by (simp add: keeps_def advances_def)

lemma addFederateToDelay_simps [simp]:
  "fed_state (addFederateToDelay f s) = fed_state s" "timeCoord (addFederateToDelay f s) = timeCoord s"
  "delayQueues (addFederateToDelay f s) = delayQueues s" "fed_global_id (addFederateToDelay f s) = fed_global_id s"
  "fed_has_parent (addFederateToDelay f s) = fed_has_parent s"
  by (simp_all add: addFederateToDelay_def Let_def)

lemma handled_advances: "handled E cmd s r s' \<Longrightarrow> advances E s s'"
  by (auto simp: handled_def keeps_def advances_def split: if_splits)

lemma after_request_cases:
  assumes "after_request delayed check s = Some (r, s')"
  obtains ret s1 where "delayed (s\<lparr> timeGranted_mode := False \<rparr>) = Some (ret, s1)"
    and "returnableResult ret \<and> r = ret \<and> s' = s1 \<or> \<not> returnableResult ret \<and> check s1 = Some (r, s')"
  using assms by (auto simp: after_request_def bind_eq_Some_conv split: if_splits)

text \<open>An own request: the coordinator is told, the delay queue is processed, and the check is made unless
  that already had a result.\<close>

lemma own_request_cases:
  assumes "process_with E delayed cmd s = Some (r, s')" and "own_requesting cmd s"
  obtains s0 ret s1 where "keeps E s s0" "delayed s0 = Some (ret, s1)"
    and "returnableResult ret \<and> r = ret \<and> s' = s1 \<or> \<not> returnableResult ret \<and> keeps E s1 s' \<and> r \<noteq> MPR_delay_message"
proof -
  have "keeps E s (put_coord (enteringExecMode (fe_time E) it (timeCoord s)) s)" for it
    by (rule keeps_put_coord) (simp_all add: enteringExecMode_inv)
  moreover have "keeps E s (put_coord tc s)" if "timeRequest (fe_time E) t it v m (timeCoord s) = Some tc" for t it v m tc
    using timeRequest_source [OF that] timeRequest_inv [OF that] by (rule keeps_put_coord)
  ultimately obtain check s2 where k: "keeps E s s2" and a: "after_request delayed check s2 = Some (r, s')"
    and c: "check = exec_check E \<or> check = time_check E"
    using assms by (auto simp: own_requesting_def process_with_def process_exec_request_def process_time_request_def
        cmd_defs bind_eq_Some_conv) blast+
  from a obtain ret s1 where d: "delayed (s2\<lparr> timeGranted_mode := False \<rparr>) = Some (ret, s1)"
    and r: "returnableResult ret \<and> r = ret \<and> s' = s1 \<or> \<not> returnableResult ret \<and> check s1 = Some (r, s')"
    by (rule after_request_cases)
  have "keeps E s1 s' \<and> r \<noteq> MPR_delay_message" if "check s1 = Some (r, s')"
    using c that exec_check_keeps time_check_keeps by blast
  with k d r show thesis
    using that by (metis keeps_granted)
qed

lemma process_with_advances:
  assumes "advancing E delayed" "process_with E delayed cmd s = Some (r, s')"
  shows "advances E s s'"
proof (cases "own_requesting cmd s")
  case True
  with assms(2) show ?thesis
  proof (rule own_request_cases)
    fix s0 ret s1
    assume "keeps E s s0" "delayed s0 = Some (ret, s1)"
      and "returnableResult ret \<and> r = ret \<and> s' = s1 \<or> \<not> returnableResult ret \<and> keeps E s1 s' \<and> r \<noteq> MPR_delay_message"
    then show ?thesis
      using assms(1) keeps_advances advances_trans unfolding advancing_def by metis
  qed
next
  case False
  then show ?thesis
    using process_with_handled [OF assms(2)] handled_advances by blast
qed

lemma delay_pop_advances [simp]: "advances E s (delay_pop f s') = advances E s s'"
  by (simp add: advances_def delay_pop_def)

lemma drain_queue_advances:
  "advancing E delayed \<Longrightarrow> drain_queue n E delayed fed s = Some (r, s') \<Longrightarrow> advances E s s'"
proof (induction n arbitrary: s)
  case (Suc n)
  show ?case
  proof (cases "delay_queue fed s")
    case Nil
    then show ?thesis
      using Suc(3) by simp
  next
    case (Cons cmd q)
    show ?thesis
    proof (cases "messageShouldBeDelayed cmd s")
      case True
      then show ?thesis
        using Suc(3) Cons by simp
    next
      case False
      then obtain ret s1 where p: "process_with E delayed cmd s = Some (ret, s1)"
        and rest: "s' = s1 \<or> s' = delay_pop fed s1 \<or> drain_queue n E delayed fed (delay_pop fed s1) = Some (r, s')"
        using Suc(3) Cons by (auto simp: bind_eq_Some_conv Let_def split: if_splits)
      have "advances E s s1"
        by (rule process_with_advances [OF Suc(2) p])
      then show ?thesis
        using rest Suc(1) [OF Suc(2)] advances_trans delay_pop_advances by metis
    qed
  qed
qed simp

lemma drain_all_advances:
  "advancing E delayed \<Longrightarrow> drain_all n E delayed c feds s = Some (r, s') \<Longrightarrow> advances E s s'"
proof (induction feds arbitrary: c s)
  case (Cons fed feds)
  then obtain ret s1 where "drain_queue n E delayed fed s = Some (ret, s1)"
    and "s' = s1 \<or> drain_all n E delayed ret feds s1 = Some (r, s')"
    by (auto simp: bind_eq_Some_conv split: if_splits)
  then show ?case
    using drain_queue_advances Cons(1) Cons(2) advances_trans by metis
qed simp

lemma processDelayQueue_advancing: "advancing E (processDelayQueue n E)"
proof (induction n)
  case (Suc n)
  have "advances E (s\<lparr> delayedFederates := [] \<rparr>) s' = advances E s s'" for s s'
    by (simp add: advances_def)
  then show ?case
    by (auto simp: advancing_def dest!: drain_all_advances [OF Suc])
qed (simp add: advancing_def)

lemma delay_message_advances [simp]: "advances E s (delay_message cmd s') = advances E s s'"
  by (simp add: advances_def delay_message_def)

lemma delay_message_advances' [simp]: "advances E (delay_message cmd s) s' = advances E s s'"
  by (simp add: advances_def delay_message_def)

lemma process_loop_advances:
  "process_loop n E err pops s = Some (res, err', rest, s') \<Longrightarrow> advances E s s'"
proof (induction pops arbitrary: err s)
  case (Cons cmd pops)
  show ?case
  proof (cases "messageShouldBeDelayed cmd s")
    case True
    then show ?thesis
      using Cons(1) [of err "delay_message cmd s"] Cons(2) by simp
  next
    case False
    then obtain ret s1 s2 e where p: "processActionMessage n E cmd s = Some (ret, s1)"
      and s2: "s2 = s1 \<or> s2 = delay_message cmd s1"
      and rest: "s' = s2 \<or> process_loop n E e pops s2 = Some (res, err', rest, s')"
      using Cons(2) by (auto simp: bind_eq_Some_conv Let_def split: if_splits)
    have "advances E s s1"
      using process_with_advances [OF processDelayQueue_advancing] p by (simp add: processActionMessage_def)
    then have "advances E s s2"
      using s2 by auto
    then show ?thesis
      using rest Cons(1) advances_trans by blast
  qed
qed simp

lemma report_error_advances: "advances E s (report_error E s)"
  using localError_inv [of "fe_time E" "timeCoord s" "fe_le E"]
  by (auto simp: report_error_def advances_def coord_ok_def Let_def)

lemma processQueue_cases:
  assumes "processQueue n E pops s = Some (res, rest, s')" and "fed_state s \<noteq> HELICS_FINISHED"
  obtains ret s1 res2 err s2 where "processDelayQueue n E s = Some (ret, s1)"
    and "returnableResult ret \<and> res2 = Returned ret \<and> \<not> err \<and> rest = pops \<and> s2 = s1
      \<or> \<not> returnableResult ret \<and> process_loop n E False pops s1 = Some (res2, err, rest, s2)"
    and "res = (if res2 \<noteq> Waiting \<and> fed_state s = HELICS_ERROR then Returned MPR_error else res2)"
    and "s' = (if res2 = Returned MPR_error \<and> fed_state s2 = HELICS_ERROR \<and> fed_state s \<noteq> HELICS_ERROR \<and> \<not> err
                  \<and> fed_has_parent s2 then report_error E s2 else s2)"
proof -
  obtain ret s1 where d: "processDelayQueue n E s = Some (ret, s1)"
    using assms by (auto simp: processQueue_def bind_eq_Some_conv Let_def)
  obtain res2 err rest2 s2 where l:
    "(if returnableResult ret then Some (Returned ret, False, pops, s1) else process_loop n E False pops s1)
        = Some (res2, err, rest2, s2)"
    using assms d by (auto simp: processQueue_def bind_eq_Some_conv Let_def)
  have "rest = rest2"
    and "res = (if res2 \<noteq> Waiting \<and> fed_state s = HELICS_ERROR then Returned MPR_error else res2)"
    and "s' = (if res2 = Returned MPR_error \<and> fed_state s2 = HELICS_ERROR \<and> fed_state s \<noteq> HELICS_ERROR \<and> \<not> err
                  \<and> fed_has_parent s2 then report_error E s2 else s2)"
    using assms d l by (simp_all add: processQueue_def Let_def split: if_splits)
  moreover have "returnableResult ret \<and> res2 = Returned ret \<and> \<not> err \<and> rest2 = pops \<and> s2 = s1
      \<or> \<not> returnableResult ret \<and> process_loop n E False pops s1 = Some (res2, err, rest2, s2)"
    using l by (auto split: if_splits)
  ultimately show thesis
    using that [OF d, of res2 err s2] by blast
qed

lemma processQueue_advances:
  assumes "processQueue n E pops s = Some (res, rest, s')"
  shows "advances E s s'"
proof (cases "fed_state s = HELICS_FINISHED")
  case True
  then show ?thesis
    using assms by (simp add: processQueue_def)
next
  case False
  from assms False obtain ret s1 res2 err s2 where "processDelayQueue n E s = Some (ret, s1)"
    and "s2 = s1 \<or> process_loop n E False pops s1 = Some (res2, err, rest, s2)"
    and "s' = s2 \<or> s' = report_error E s2"
    by (rule processQueue_cases) (auto split: if_splits)
  then show ?thesis
    using processDelayQueue_advancing process_loop_advances report_error_advances advances_trans
    unfolding advancing_def by metis
qed

section \<open>Messages of one sender stay in order\<close>

lemma delayed_insert:
  assumes "strictly_sorted (delayedFederates s)"
  shows "delayedFederates (addFederateToDelay f s) = snd (vec_insert (\<lambda>f. f) (\<lambda>f. f) f (delayedFederates s))"
proof -
  have "lower_bound (\<lambda>f. f) fs f = length fs" if "f > last fs" "strictly_sorted fs" for fs
  proof -
    have "x < f" if "x \<in> set fs" for x
      using sorted_last [of "\<lambda>f. f" fs x] strict_sorted_imp_sorted [OF \<open>strictly_sorted fs\<close>] that \<open>f > last fs\<close> by simp
    then have "takeWhile (\<lambda>x. x < f) fs = fs"
      by (simp add: takeWhile_eq_all_conv)
    then show ?thesis
      by (simp only: lower_bound_def)
  qed
  then show ?thesis
    using assms by (auto simp: addFederateToDelay_def vec_insert_def Let_def)
qed

lemma addFederateToDelay_sorted:
  assumes "strictly_sorted (delayedFederates s)"
  shows "set (delayedFederates (addFederateToDelay f s)) = insert f (set (delayedFederates s))"
    and "strictly_sorted (delayedFederates (addFederateToDelay f s))"
  using vec_insert_spec [of "\<lambda>f. f" "delayedFederates s" "\<lambda>f. f" f] assms by (simp_all add: delayed_insert)

lemma messageShouldBeDelayed_iff:
  assumes "strictly_sorted (delayedFederates s)"
  shows "messageShouldBeDelayed cmd s \<longleftrightarrow> source_id cmd \<in> set (delayedFederates s)"
  using lower_bound_found [of "\<lambda>f. f" "delayedFederates s" "source_id cmd"] assms
    lower_bound_le [of "\<lambda>f. f" "delayedFederates s" "source_id cmd"]
  by (auto simp: messageShouldBeDelayed_def Let_def le_less split: list.split)

text \<open>What an executing federate's delay queues satisfy: one queue per sender, never its own.\<close>

definition delays_ok :: "('t, 'p, 'e, 'i) FederateState \<Rightarrow> bool" where
  "delays_ok s \<longleftrightarrow> strictly_sorted (map fst (delayQueues s)) \<and> strictly_sorted (delayedFederates s)
     \<and> (\<forall>(f, q)\<in>set (delayQueues s). \<forall>m\<in>set q. source_id m = f)
     \<and> fed_state s \<noteq> HELICS_CREATED \<and> tc_source_id (timeCoord s) = fed_global_id s
     \<and> fed_global_id s \<notin> set (delayedFederates s) \<and> fed_global_id s \<notin> fst ` set (delayQueues s)"

definition shorter :: "('t, 'p, 'e, 'i) FederateState \<Rightarrow> ('t, 'p, 'e, 'i) FederateState \<Rightarrow> bool" where
  "shorter s s' \<longleftrightarrow> (\<forall>f. suffix (delay_queue f s') (delay_queue f s))"

definition covered :: "('t, 'p, 'e, 'i) FederateState \<Rightarrow> bool" where
  "covered s \<longleftrightarrow> (\<forall>f. delay_queue f s \<noteq> [] \<longrightarrow> f \<in> set (delayedFederates s))"

lemma shorter_trans: "shorter s s1 \<Longrightarrow> shorter s1 s2 \<Longrightarrow> shorter s s2"
  unfolding shorter_def using suffix_order.trans by blast

lemma delay_queue_cong: "delayQueues s' = delayQueues s \<Longrightarrow> delay_queue f s' = delay_queue f s"
  by (simp add: delay_queue_def)

lemma delay_queue_in: "delay_queue f s \<noteq> [] \<Longrightarrow> (f, delay_queue f s) \<in> set (delayQueues s)"
  by (auto simp: delay_queue_def dest: map_of_SomeD split: option.splits)

lemma delays_ok_source: "delays_ok s \<Longrightarrow> m \<in> set (delay_queue f s) \<Longrightarrow> source_id m = f"
  using delay_queue_in [of f s] by (fastforce simp: delays_ok_def)

lemma delay_pop_queue: "delay_queue f (delay_pop g s) = (if f = g then tl (delay_queue f s) else delay_queue f s)"
proof -
  have "map_of (map (\<lambda>(k, q). (k, if k = g then tl q else q)) qs) f
      = map_option (\<lambda>q. if f = g then tl q else q) (map_of qs f)" for qs :: "(global_federate_id \<times> 'a ActionMessage list) list"
    by (induction qs) auto
  then show ?thesis
    by (simp add: delay_queue_def delay_pop_def split: option.split)
qed

lemma delay_pop_simps [simp]:
  "delayedFederates (delay_pop f s) = delayedFederates s" "fed_state (delay_pop f s) = fed_state s"
  "timeCoord (delay_pop f s) = timeCoord s" "fed_global_id (delay_pop f s) = fed_global_id s"
  "map fst (delayQueues (delay_pop f s)) = map fst (delayQueues s)"
  by (auto simp: delay_pop_def)

lemma delay_pop_ok:
  assumes "delays_ok s"
  shows "delays_ok (delay_pop f s)"
proof -
  have src: "source_id m = k" if "(k, q) \<in> set (delayQueues s)" "m \<in> set q" for k q m
    using assms that by (fastforce simp: delays_ok_def)
  have tl: "m \<in> set (tl q) \<Longrightarrow> m \<in> set q" for m and q :: "'a ActionMessage list"
    by (cases q) simp_all
  have "fst ` set (delayQueues (delay_pop f s)) = fst ` set (delayQueues s)"
    using delay_pop_simps(5) [of f s] by (metis set_map)
  moreover have "\<forall>(k, q)\<in>set (delayQueues (delay_pop f s)). \<forall>m\<in>set q. source_id m = k"
    by (auto simp: delay_pop_def src dest: src [OF _ tl] split: if_splits)
  ultimately show ?thesis
    using assms by (simp add: delays_ok_def)
qed

lemma keeps_delays_ok: "keeps E s s' \<Longrightarrow> delays_ok s \<Longrightarrow> delays_ok s'"
  by (simp add: keeps_def delays_ok_def)

lemma keeps_queue: "keeps E s s' \<Longrightarrow> delay_queue f s' = delay_queue f s"
  by (simp add: keeps_def delay_queue_def)

lemma handled_delays:
  assumes "handled E cmd s r s'" "delays_ok s"
  shows "delays_ok s'" and "delay_queue f s' = delay_queue f s"
    and "set (delayedFederates s') = (if r = MPR_delay_message then insert (source_id cmd) (set (delayedFederates s))
                                      else set (delayedFederates s))"
proof -
  have "delays_ok s' \<and> delayQueues s' = delayQueues s \<and>
    set (delayedFederates s') = (if r = MPR_delay_message then insert (source_id cmd) (set (delayedFederates s))
                                      else set (delayedFederates s))"
  proof (cases "r = MPR_delay_message")
    case True
    then obtain s1 where k: "keeps E s s1" and s': "s' = addFederateToDelay (source_id cmd) s1"
      and src: "source_id cmd \<noteq> tc_source_id (timeCoord s)"
      using assms(1) by (auto simp: handled_def)
    have ok: "delays_ok s1" and feds: "delayedFederates s1 = delayedFederates s" "delayQueues s1 = delayQueues s"
      and src1: "source_id cmd \<noteq> fed_global_id s1"
      using keeps_delays_ok [OF k] k src assms(2) by (auto simp: keeps_def delays_ok_def)
    then have sorted: "strictly_sorted (delayedFederates s1)"
      by (simp add: delays_ok_def)
    show ?thesis
      using ok src1 feds True addFederateToDelay_sorted [OF sorted, of "source_id cmd"]
      by (auto simp: s' delays_ok_def)
  next
    case False
    then show ?thesis
      using assms keeps_delays_ok by (auto simp: handled_def keeps_def)
  qed
  then show "delays_ok s'" "delay_queue f s' = delay_queue f s"
    "set (delayedFederates s') = (if r = MPR_delay_message then insert (source_id cmd) (set (delayedFederates s))
                                      else set (delayedFederates s))"
    using delay_queue_cong by blast+
qed

lemma delayed_not_own: "delays_ok s \<Longrightarrow> m \<in> set (delay_queue f s) \<Longrightarrow> \<not> own_requesting m s"
  using delays_ok_source [of s m f] delay_queue_in [of f s]
  by (fastforce simp: own_requesting_def own_request_def delays_ok_def)

text \<open>One delay queue: messages are taken from its front; what is left of it is covered.\<close>

lemma drain_queue_order:
  assumes "delays_ok s" "drain_queue n E delayed fed s = Some (r, s')"
  shows "delays_ok s' \<and> shorter s s' \<and> set (delayedFederates s) \<subseteq> set (delayedFederates s')
    \<and> (\<not> returnableResult r \<longrightarrow> delay_queue fed s' \<noteq> [] \<longrightarrow> fed \<in> set (delayedFederates s'))"
  using assms
proof (induction n arbitrary: s)
  case (Suc n)
  show ?case
  proof (cases "delay_queue fed s")
    case Nil
    then show ?thesis
      using Suc(2,3) by (simp add: shorter_def)
  next
    case (Cons cmd q)
    have src: "source_id cmd = fed" and own: "\<not> own_requesting cmd s"
      using delays_ok_source [OF Suc(2), of cmd fed] delayed_not_own [OF Suc(2), of cmd fed] by (simp_all add: Cons)
    have sorted: "strictly_sorted (delayedFederates s)"
      using Suc(2) by (simp add: delays_ok_def)
    show ?thesis
    proof (cases "messageShouldBeDelayed cmd s")
      case True
      then show ?thesis
        using Suc(2,3) Cons src messageShouldBeDelayed_iff [OF sorted] by (auto simp: shorter_def)
    next
      case False
      then obtain ret s1 where p: "process_with E delayed cmd s = Some (ret, s1)"
        and rest: "if ret = MPR_delay_message then r = ret \<and> s' = s1
          else if ret = MPR_continue_processing then drain_queue n E delayed fed (delay_pop fed s1) = Some (r, s')
          else r = ret \<and> s' = delay_pop fed s1"
        using Suc(3) Cons by (auto simp: bind_eq_Some_conv Let_def split: if_splits)
      note h = handled_delays [OF process_with_handled [OF p own] Suc(2)]
      have pop: "delays_ok (delay_pop fed s1)" "shorter s (delay_pop fed s1)"
        using delay_pop_ok [OF h(1)] by (auto simp: shorter_def delay_pop_queue h(2) suffix_tl)
      have ret: "returnableResult ret" if "ret \<noteq> MPR_delay_message" "ret \<noteq> MPR_continue_processing"
        using that by (cases ret) (simp_all add: returnableResult_def)
      consider "ret = MPR_delay_message" | "ret = MPR_continue_processing"
        | "ret \<noteq> MPR_delay_message" "ret \<noteq> MPR_continue_processing" by blast
      then show ?thesis
      proof cases
        case 1
        then show ?thesis
          using rest h src by (auto simp: shorter_def)
      next
        case 2
        then show ?thesis
          using Suc(1) [OF pop(1)] rest pop h(3) shorter_trans by auto
      next
        case 3
        then show ?thesis
          using rest pop h(3) ret by auto
      qed
    qed
  qed
qed simp

lemma shorter_nonempty: "shorter s s' \<Longrightarrow> delay_queue f s' \<noteq> [] \<Longrightarrow> delay_queue f s \<noteq> []"
  by (metis shorter_def suffix_bot.extremum_uniqueI)

lemma drain_all_order:
  assumes "delays_ok s" "drain_all n E delayed c feds s = Some (r, s')"
  shows "delays_ok s' \<and> shorter s s' \<and> set (delayedFederates s) \<subseteq> set (delayedFederates s')
    \<and> (\<not> returnableResult r \<longrightarrow> (\<forall>f\<in>set feds. delay_queue f s' \<noteq> [] \<longrightarrow> f \<in> set (delayedFederates s')))"
  using assms
proof (induction feds arbitrary: c s)
  case Nil
  then show ?case by (simp add: shorter_def)
next
  case (Cons fed feds)
  then obtain ret s1 where d: "drain_queue n E delayed fed s = Some (ret, s1)"
    and rest: "if returnableResult ret then r = ret \<and> s' = s1 else drain_all n E delayed ret feds s1 = Some (r, s')"
    by (auto simp: bind_eq_Some_conv split: if_splits)
  note o = drain_queue_order [OF Cons(2) d]
  show ?case
  proof (cases "returnableResult ret")
    case True
    then show ?thesis
      using o rest by simp
  next
    case False
    then have r: "drain_all n E delayed ret feds s1 = Some (r, s')"
      using rest by simp
    note i = Cons(1) [OF conjunct1 [OF o] r]
    have "fed \<in> set (delayedFederates s')" if "delay_queue fed s' \<noteq> []"
      using shorter_nonempty [OF _ that, of s1] o i False by blast
    then show ?thesis
      using o i shorter_trans by auto
  qed
qed

lemma processDelayQueue_order:
  assumes "delays_ok s" "processDelayQueue n E s = Some (r, s')"
  shows "delays_ok s'" "shorter s s'" "\<not> returnableResult r \<Longrightarrow> covered s'"
proof -
  let ?s = "s\<lparr> delayedFederates := [] \<rparr>"
  obtain m where n: "n = Suc m"
    using assms(2) by (cases n) simp_all
  have ok: "delays_ok ?s"
    using assms(1) by (simp add: delays_ok_def)
  note o = drain_all_order [OF ok assms(2) [unfolded n processDelayQueue.simps]]
  have sh: "shorter s s'"
    using o by (simp add: shorter_def delay_queue_def)
  show "delays_ok s'" "shorter s s'"
    using o sh by simp_all
  assume r: "\<not> returnableResult r"
  show "covered s'"
    unfolding covered_def
  proof (intro allI impI)
    fix f
    assume "delay_queue f s' \<noteq> []"
    then have "f \<in> set (map fst (delayQueues s))"
      using delay_queue_in [OF shorter_nonempty [OF sh]] by force
    then show "f \<in> set (delayedFederates s')"
      using o r \<open>delay_queue f s' \<noteq> []\<close> by blast
  qed
qed

text \<open>One message from the queue, while all delay queues are covered.\<close>

lemma processActionMessage_order:
  assumes "delays_ok s" "covered s" "processActionMessage n E cmd s = Some (r, s')"
  shows "delays_ok s'" "shorter s s'" "r \<noteq> MPR_delay_message \<Longrightarrow> \<not> returnableResult r \<Longrightarrow> covered s'"
    "r = MPR_delay_message \<Longrightarrow> source_id cmd \<in> set (delayedFederates s') \<and> source_id cmd \<noteq> fed_global_id s'
       \<and> (\<forall>f. delay_queue f s' = delay_queue f s) \<and> set (delayedFederates s) \<subseteq> set (delayedFederates s')"
proof -
  have p: "process_with E (processDelayQueue n E) cmd s = Some (r, s')"
    using assms(3) by (simp add: processActionMessage_def)
  have "delays_ok s' \<and> shorter s s' \<and> (r \<noteq> MPR_delay_message \<longrightarrow> \<not> returnableResult r \<longrightarrow> covered s')
    \<and> (r = MPR_delay_message \<longrightarrow> source_id cmd \<in> set (delayedFederates s') \<and> source_id cmd \<noteq> fed_global_id s'
       \<and> (\<forall>f. delay_queue f s' = delay_queue f s) \<and> set (delayedFederates s) \<subseteq> set (delayedFederates s'))"
  proof (cases "own_requesting cmd s")
    case True
    with p show ?thesis
    proof (rule own_request_cases)
      fix s0 ret s1
      assume k: "keeps E s s0" and d: "processDelayQueue n E s0 = Some (ret, s1)"
        and r: "returnableResult ret \<and> r = ret \<and> s' = s1
          \<or> \<not> returnableResult ret \<and> keeps E s1 s' \<and> r \<noteq> MPR_delay_message"
      note o = processDelayQueue_order [OF keeps_delays_ok [OF k assms(1)] d]
      have sh: "shorter s s1"
        using o(2) keeps_queue [OF k] by (simp add: shorter_def)
      have "covered s'" "delays_ok s'" "shorter s s'" if "keeps E s1 s'" "\<not> returnableResult ret"
        using o(3) [OF that(2)] sh keeps_delays_ok [OF that(1) o(1)] keeps_queue [OF that(1)] that(1)
        by (simp_all add: covered_def shorter_def keeps_def)
      moreover have "r \<noteq> MPR_delay_message" if "returnableResult r"
        using that by (auto simp: returnableResult_def)
      ultimately show ?thesis
        using r o sh by blast
    qed
  next
    case False
    note h = process_with_handled [OF p False]
    note hd = handled_delays [OF h assms(1)]
    have "source_id cmd \<noteq> fed_global_id s'" if "r = MPR_delay_message"
      using hd(1,3) that by (auto simp: delays_ok_def)
    then show ?thesis
      using hd assms(2) by (auto simp: shorter_def covered_def)
  qed
  then show "delays_ok s'" "shorter s s'" "r \<noteq> MPR_delay_message \<Longrightarrow> \<not> returnableResult r \<Longrightarrow> covered s'"
    "r = MPR_delay_message \<Longrightarrow> source_id cmd \<in> set (delayedFederates s') \<and> source_id cmd \<noteq> fed_global_id s'
       \<and> (\<forall>f. delay_queue f s' = delay_queue f s) \<and> set (delayedFederates s) \<subseteq> set (delayedFederates s')"
    by blast+
qed

lemma delay_push_keys:
  "fst ` set (delay_push fed cmd qs) = insert fed (fst ` set qs)"
  "strictly_sorted (map fst qs) \<Longrightarrow> strictly_sorted (map fst (delay_push fed cmd qs))"
proof -
  show keys: "fst ` set (delay_push fed cmd qs) = insert fed (fst ` set qs)" for qs
  proof (induction qs)
    case (Cons kq rest)
    then show ?case
      by (cases kq; cases "fst kq = fed"; cases "fed < fst kq") (simp_all add: insert_commute)
  qed simp
  show "strictly_sorted (map fst qs) \<Longrightarrow> strictly_sorted (map fst (delay_push fed cmd qs))"
  proof (induction qs)
    case (Cons kq rest)
    have "fst ` set (delay_push fed cmd rest) = insert fed (fst ` set rest)"
      by (rule keys)
    then have "x \<in> set (delay_push fed cmd rest) \<Longrightarrow> fst x = fed \<or> fst x \<in> fst ` set rest" for x
      by blast
    then show ?case
      using Cons by (cases kq) fastforce
  qed simp
qed

lemma delay_push_map:
  "strictly_sorted (map fst qs) \<Longrightarrow> map_of (delay_push fed cmd qs) f =
     (if f = fed then Some ((case map_of qs fed of Some q \<Rightarrow> q | None \<Rightarrow> []) @ [copy_message cmd]) else map_of qs f)"
proof (induction qs)
  case (Cons kq rest)
  obtain k q where kq: "kq = (k, q)"
    by fastforce
  have "map_of rest fed = None" if "fed < k"
    using Cons(2) that by (fastforce simp: kq map_of_eq_None_iff)
  then show ?case
    using Cons by (auto simp: kq)
qed simp

lemma delay_message_queue:
  "delays_ok s \<Longrightarrow> delay_queue f (delay_message cmd s) =
     (if f = source_id cmd then delay_queue f s @ [copy_message cmd] else delay_queue f s)"
  by (simp add: delays_ok_def delay_queue_def delay_message_def delay_push_map)

lemma delay_message_ok:
  assumes "delays_ok s" "source_id cmd \<noteq> fed_global_id s"
  shows "delays_ok (delay_message cmd s)"
proof -
  have s: "strictly_sorted (map fst (delayQueues s))"
    using assms(1) by (simp add: delays_ok_def)
  have "source_id m = f" if "(f, q) \<in> set (delay_push (source_id cmd) cmd (delayQueues s))" "m \<in> set q" for f q m
  proof -
    have "distinct (map fst (delay_push (source_id cmd) cmd (delayQueues s)))"
      using delay_push_keys(2) [OF s] by (simp add: strict_sorted_iff)
    then have "q = delay_queue f (delay_message cmd s)"
      using that by (simp add: delay_queue_def delay_message_def)
    then show ?thesis
      using that(2) delays_ok_source [OF assms(1), of m f]
      by (auto simp: delay_message_queue [OF assms(1)] copy_message_def split: if_splits)
  qed
  then show ?thesis
    using assms delay_push_keys [where qs = "delayQueues s" and fed = "source_id cmd" and cmd = cmd]
    by (auto simp: delays_ok_def delay_message_def)
qed

text \<open>The messages of a sender that are still to be processed: the delayed ones, then those in the queue.
  A message that was delayed is a copy, and a copy does not have the sequence number.\<close>

definition pending ::
  "global_federate_id \<Rightarrow> ('t, 'p, 'e, 'i) FederateState \<Rightarrow> 't messages \<Rightarrow> 't messages" where
  "pending f s pops = map copy_message (delay_queue f s @ filter (\<lambda>m. source_id m = f) pops)"

lemma copy_message_idem [simp]: "copy_message (copy_message m) = copy_message m"
  by (simp add: copy_message_def)

lemma delay_message_pending:
  "delays_ok s \<Longrightarrow> pending f (delay_message cmd s) pops = pending f s (cmd # pops)"
  by (simp add: pending_def delay_message_queue)

lemma delay_message_covered:
  assumes "delays_ok s" "source_id cmd \<in> set (delayedFederates s)"
    and "\<And>f. delay_queue f s \<noteq> [] \<Longrightarrow> f \<in> set (delayedFederates s)"
  shows "covered (delay_message cmd s)"
  using assms(2,3) by (auto simp: covered_def delay_message_queue [OF assms(1)]) (simp add: delay_message_def)+

lemma shorter_pending:
  assumes "covered s" "shorter s s'" "source_id cmd \<notin> set (delayedFederates s)"
  shows "suffix (pending f s' pops) (pending f s (cmd # pops))"
proof (cases "f = source_id cmd")
  case True
  then have "delay_queue f s = []" "delay_queue f s' = []"
    using assms shorter_nonempty [OF assms(2), of f] by (auto simp: covered_def)
  then show ?thesis
    using True by (simp add: pending_def suffix_ConsI)
next
  case False
  have "suffix (delay_queue f s' @ filter (\<lambda>m. source_id m = f) pops) (delay_queue f s @ filter (\<lambda>m. source_id m = f) pops)"
    using assms(2) by (auto simp: shorter_def suffix_def)
  then have "suffix (map copy_message (delay_queue f s' @ filter (\<lambda>m. source_id m = f) pops))
      (map copy_message (delay_queue f s @ filter (\<lambda>m. source_id m = f) pops))"
    by (rule map_mono_suffix)
  then show ?thesis
    using False by (simp add: pending_def)
qed

lemma process_loop_taken:
  assumes "process_loop n E err (cmd # pops) s = Some (res, err', rest, s')" "\<not> messageShouldBeDelayed cmd s"
  obtains r s1 e where "processActionMessage n E cmd s = Some (r, s1)"
    and "returnableResult r \<Longrightarrow> res = Returned r \<and> rest = pops \<and> s' = s1"
    and "\<not> returnableResult r \<Longrightarrow>
      process_loop n E e pops (if r = MPR_delay_message then delay_message cmd s1 else s1) = Some (res, err', rest, s')"
proof -
  obtain r s1 where p: "processActionMessage n E cmd s = Some (r, s1)"
    using assms by (auto simp: bind_eq_Some_conv)
  let ?e = "err \<or> r = MPR_error \<and> messageAction cmd = cmd_global_error"
  have "r \<noteq> MPR_delay_message" if "returnableResult r"
    using that by (auto simp: returnableResult_def)
  then show thesis
    using assms p by (intro that [OF p, of ?e]) (simp_all add: Let_def)
qed

lemma process_loop_order:
  assumes "delays_ok s" "covered s" "process_loop n E err pops s = Some (res, err', rest, s')"
  shows "delays_ok s' \<and> suffix (pending f s' rest) (pending f s pops)"
  using assms
proof (induction pops arbitrary: err s)
  case (Cons cmd pops)
  have sorted: "strictly_sorted (delayedFederates s)"
    using Cons(2) by (simp add: delays_ok_def)
  have cov: "delay_queue f s \<noteq> [] \<Longrightarrow> f \<in> set (delayedFederates s)" for f
    using Cons(3) by (simp add: covered_def)
  show ?case
  proof (cases "messageShouldBeDelayed cmd s")
    case True
    then have src: "source_id cmd \<in> set (delayedFederates s)"
      by (simp add: messageShouldBeDelayed_iff [OF sorted])
    have "source_id cmd \<noteq> fed_global_id s"
      using src Cons(2) by (auto simp: delays_ok_def)
    then show ?thesis
      using Cons(1) [OF delay_message_ok [OF Cons(2)] delay_message_covered [OF Cons(2) src cov], where err = err] Cons(4) True
      by (simp add: delay_message_pending [OF Cons(2)])
  next
    case False
    then have src: "source_id cmd \<notin> set (delayedFederates s)"
      by (simp add: messageShouldBeDelayed_iff [OF sorted])
    from Cons(4) False obtain r s1 e where p: "processActionMessage n E cmd s = Some (r, s1)"
      and fin: "returnableResult r \<Longrightarrow> rest = pops \<and> s' = s1"
      and more: "\<not> returnableResult r \<Longrightarrow>
        process_loop n E e pops (if r = MPR_delay_message then delay_message cmd s1 else s1) = Some (res, err', rest, s')"
      by (rule process_loop_taken) blast
    note o = processActionMessage_order [OF Cons(2,3) p]
    show ?thesis
    proof (cases "r = MPR_delay_message")
      case True
      note d = o(4) [OF True]
      have q: "delay_queue f s1 \<noteq> [] \<Longrightarrow> f \<in> set (delayedFederates s1)" for f
        using d cov by auto
      have "delay_queue f s1 = delay_queue f s" for f
        using d by blast
      then have pend: "pending f s1 xs = pending f s xs" for xs
        by (simp add: pending_def)
      have "\<not> returnableResult r"
        using True by (simp add: returnableResult_def)
      note rest = more [OF this]
      show ?thesis
        using Cons(1) [OF delay_message_ok [OF o(1), of cmd] delay_message_covered [OF o(1) _ q], where err = e] d rest True
        by (simp add: delay_message_pending [OF o(1)] pend)
    next
      case False
      have suf: "suffix (pending f s1 pops) (pending f s (cmd # pops))"
        by (rule shorter_pending [OF Cons(3) o(2) src])
      show ?thesis
      proof (cases "returnableResult r")
        case True
        then show ?thesis
          using fin [OF True] False suf o(1) by simp
      next
        case nr: False
        then show ?thesis
          using Cons(1) [OF o(1) o(3) [OF False nr], where err = e] more [OF nr] False suf suffix_order.trans by auto
      qed
    qed
  qed
qed simp

lemma report_error_delays [simp]:
  "delayQueues (report_error E s) = delayQueues s" "delayedFederates (report_error E s) = delayedFederates s"
  "fed_state (report_error E s) = fed_state s" "fed_global_id (report_error E s) = fed_global_id s"
  "tc_source_id (timeCoord (report_error E s)) = tc_source_id (timeCoord s)"
  by (simp_all add: report_error_def Let_def)

lemma report_error_ok: "delays_ok (report_error E s) = delays_ok s" "pending f (report_error E s) ms = pending f s ms"
  by (simp_all add: delays_ok_def pending_def delay_queue_def)

lemma processQueue_order:
  assumes "delays_ok s" "processQueue n E pops s = Some (res, rest, s')"
  shows "delays_ok s' \<and> suffix (pending f s' rest) (pending f s pops)"
proof (cases "fed_state s = HELICS_FINISHED")
  case True
  then show ?thesis
    using assms by (simp add: processQueue_def)
next
  case False
  from assms(2) False obtain ret s1 res2 err s2 where d: "processDelayQueue n E s = Some (ret, s1)"
    and l: "returnableResult ret \<and> rest = pops \<and> s2 = s1
      \<or> \<not> returnableResult ret \<and> process_loop n E False pops s1 = Some (res2, err, rest, s2)"
    and s': "s' = s2 \<or> s' = report_error E s2"
    by (rule processQueue_cases) (auto split: if_splits)
  note o = processDelayQueue_order [OF assms(1) d]
  have "suffix (pending f s1 pops) (pending f s pops)"
    using o(2) unfolding pending_def shorter_def by (intro map_mono_suffix) (auto simp: suffix_def)
  moreover have "delays_ok s2 \<and> suffix (pending f s2 rest) (pending f s1 pops)"
    using l process_loop_order [OF o(1) o(3)] o(1) by blast
  ultimately have "delays_ok s2 \<and> suffix (pending f s2 rest) (pending f s pops)"
    using suffix_order.trans by blast
  then show ?thesis
    using s' by (auto simp: report_error_ok)
qed

section \<open>The queue is processed to its end\<close>

text \<open>What the time type must provide for the coordinator's loop over periods: adding a period to a time
  again and again reaches every bound.\<close>

definition periods_end :: "('t::linorder) time_rep \<Rightarrow> bool" where
  "periods_end T \<longleftrightarrow> (\<forall>per bound t. epsilon T < per \<longrightarrow> (\<exists>n. bound \<le> ((\<lambda>t. t_add T t per) ^^ n) t))"

lemma next_possible_total: "periods_end T \<Longrightarrow> \<exists>np. getNextPossibleTime T s = Some np"
  using step_periods_reach [where bound = "timeDelta (tc_info s)" and T = T and per = "period (tc_info s)"]
  by (auto simp: getNextPossibleTime_def Let_def periods_end_def not_le) blast

lemma bind_returns: "m \<noteq> None \<Longrightarrow> (\<And>x. f x \<noteq> None) \<Longrightarrow> m \<bind> f \<noteq> None"
  by (simp add: bind_eq_None_conv)

lemma coord_total:
  assumes "periods_end T"
  shows "checkTimeGrant T le s \<noteq> None" "timeRequest T t it v m s \<noteq> None"
    "updateValueTime T t s \<noteq> None" "updateMessageTime T t s \<noteq> None"
proof -
  note np = next_possible_total [OF assms]
  show "checkTimeGrant T le s \<noteq> None"
    using np [of s] checkTimeGrant_cases by fastforce
  have factors: "updateTimeFactors T s \<noteq> None" for s
    using np [of s] updateTimeFactors_Some by fastforce
  have exec: "updateNextExecutionTime T s \<noteq> None" for s
    using np [of s] updateNextExecutionTime_eq by fastforce
  have upd: "update_time T t s \<noteq> None" for t s
    using np [of s] by (auto simp: update_time_def)
  have "set_request T t it v m s \<noteq> None"
    using np [of "s\<lparr> tc_iterating := it \<rparr>"] by (auto simp: set_request_def Let_def)
  then show "timeRequest T t it v m s \<noteq> None"
    using factors by (simp add: timeRequest_def Let_def bind_eq_None_conv split_beta del: not_None_eq)
  show "updateValueTime T t s \<noteq> None" "updateMessageTime T t s \<noteq> None"
    using upd exec by (simp_all add: updateValueTime_def updateMessageTime_def Let_def bind_eq_None_conv split_beta del: not_None_eq)
qed

lemma checks_return:
  assumes "periods_end (fe_time E)"
  shows "exec_check E s \<noteq> None" "time_check E s \<noteq> None"
    "time_message_then E cmd (exec_check E) s \<noteq> None" "time_message_then E cmd (time_check E) s \<noteq> None"
proof -
  show e: "exec_check E s \<noteq> None" for s
    by (auto simp: exec_check_def Let_def split: prod.splits message_processing_result.splits)
  show t: "time_check E s \<noteq> None" for s
    using coord_total(1) [OF assms] by (simp add: time_check_def Let_def bind_eq_None_conv split_beta del: not_None_eq)
  show "time_message_then E cmd (exec_check E) s \<noteq> None" "time_message_then E cmd (time_check E) s \<noteq> None"
    using e t by (simp_all add: time_message_then_def Let_def split_beta split: message_process_result.split)
qed

lemma pub_loop_returns: "periods_end (fe_time E) \<Longrightarrow> pub_loop E cmd srcs data s \<noteq> None"
proof (induction srcs arbitrary: data s)
  case (Cons src rest)
  then show ?case
    using coord_total(3) [OF Cons(2)] by (simp add: Let_def bind_eq_None_conv del: not_None_eq split: option.split)
qed simp

lemma if_returns: "(c \<Longrightarrow> a \<noteq> None) \<Longrightarrow> (\<not> c \<Longrightarrow> b \<noteq> None) \<Longrightarrow> (if c then a else b) \<noteq> None"
  by simp

lemma handlers_return:
  assumes "periods_end (fe_time E)"
  shows "process_time_block E cmd s \<noteq> None" "process_init_grant E s \<noteq> None" "process_disconnect_ack E cmd s \<noteq> None"
    "process_disconnect E cmd s \<noteq> None" "process_force_grant E cmd s \<noteq> None" "process_send_message E cmd s \<noteq> None"
    "process_pub E cmd s \<noteq> None" "process_error E cmd s \<noteq> None" "process_fed_ack cmd s \<noteq> None"
proof -
  note c = checks_return [OF assms]
  show "process_time_block E cmd s \<noteq> None"
    using c by (auto simp: process_time_block_def Let_def split: prod.splits)
  show "process_init_grant E s \<noteq> None"
    by (auto simp: process_init_grant_def split: prod.splits)
  show "process_disconnect_ack E cmd s \<noteq> None"
    by (simp add: process_disconnect_ack_def Let_def)
  show "process_disconnect E cmd s \<noteq> None"
    using c by (simp add: process_disconnect_def)
  show "process_force_grant E cmd s \<noteq> None"
    by (simp add: process_force_grant_def Let_def)
  show "process_send_message E cmd s \<noteq> None"
    using coord_total(4) [OF assms] by (simp add: process_send_message_def Let_def bind_eq_None_conv del: not_None_eq split: option.split)
  show "process_pub E cmd s \<noteq> None"
    using pub_loop_returns [OF assms] by (simp add: process_pub_def split: option.split)
  show "process_error E cmd s \<noteq> None"
    using c by (simp add: process_error_def Let_def)
  show "process_fed_ack cmd s \<noteq> None"
    by (simp add: process_fed_ack_def)
qed

lemma after_request_returns:
  assumes "\<And>s0. keeps E s s0 \<Longrightarrow> delayed s0 \<noteq> None" "\<And>s1. check s1 \<noteq> None" "keeps E s s0"
  shows "after_request delayed check s0 \<noteq> None"
  using assms(1) [of "s0\<lparr> timeGranted_mode := False \<rparr>"] assms(2,3)
  by (simp add: after_request_def bind_eq_None_conv split_beta)

lemma own_request_returns:
  assumes "periods_end (fe_time E)" and "\<And>s0. keeps E s s0 \<Longrightarrow> delayed s0 \<noteq> None"
  shows "process_exec_request E delayed cmd s \<noteq> None" "process_time_request E delayed cmd s \<noteq> None"
proof -
  note c = checks_return [OF assms(1)]
  have a: "after_request delayed check s0 \<noteq> None" if "\<And>s1. check s1 \<noteq> None" "keeps E s s0" for check s0
    by (rule after_request_returns [OF assms(2) that])
  have "keeps E s (put_coord (enteringExecMode (fe_time E) it (timeCoord s)) s)" for it
    by (rule keeps_put_coord) (simp_all add: enteringExecMode_inv)
  then show "process_exec_request E delayed cmd s \<noteq> None"
    using a [OF c(1)] c(3) by (simp add: process_exec_request_def del: not_None_eq)
  have "keeps E s (put_coord tc s)" if "timeRequest (fe_time E) t it v m (timeCoord s) = Some tc" for t it v m tc
    using timeRequest_source [OF that] timeRequest_inv [OF that] by (rule keeps_put_coord)
  then show "process_time_request E delayed cmd s \<noteq> None"
    using a [OF c(2)] c(4) coord_total(2) [OF assms(1)]
    by (auto simp: process_time_request_def bind_eq_None_conv simp del: not_None_eq)
qed

lemma process_with_returns:
  assumes "periods_end (fe_time E)" and "own_requesting cmd s \<Longrightarrow> (\<And>s0. keeps E s s0 \<Longrightarrow> delayed s0 \<noteq> None)"
  shows "process_with E delayed cmd s \<noteq> None"
proof -
  note c = checks_return [OF assms(1)]
  have "process_exec_request E delayed cmd s \<noteq> None" if "messageAction cmd = cmd_exec_request"
  proof (cases "own_request cmd s")
    case True
    then show ?thesis
      using own_request_returns(1) [OF assms] that by (simp add: own_requesting_def)
  qed (use c in \<open>simp add: process_exec_request_def\<close>)
  moreover have "process_time_request E delayed cmd s \<noteq> None" if "messageAction cmd = cmd_time_request"
  proof (cases "own_request cmd s")
    case True
    then show ?thesis
      using own_request_returns(2) [OF assms] that by (simp add: own_requesting_def)
  qed (use c in \<open>simp add: process_time_request_def\<close>)
  ultimately show ?thesis
    unfolding process_with_def Let_def
    by (intro if_returns) (assumption | rule c handlers_return [OF assms(1)] option.distinct(2) | simp)+
qed

text \<open>The nesting number suffices when it exceeds the length of every delay queue.\<close>

lemma drain_queue_returns:
  assumes "periods_end (fe_time E)" "delays_ok s" "length (delay_queue fed s) < n"
  shows "drain_queue n E delayed fed s \<noteq> None"
  using assms(2,3)
proof (induction n arbitrary: s)
  case (Suc n)
  show ?case
  proof (cases "delay_queue fed s")
    case (Cons cmd q)
    have own: "\<not> own_requesting cmd s"
      using delayed_not_own [OF Suc(2), of cmd fed] by (simp add: Cons)
    have "process_with E delayed cmd s \<noteq> None"
      by (rule process_with_returns [OF assms(1)]) (use own in blast)
    then obtain r s1 where p: "process_with E delayed cmd s = Some (r, s1)"
      by auto
    note h = handled_delays [OF process_with_handled [OF p own] Suc(2)]
    have "drain_queue n E delayed fed (delay_pop fed s1) \<noteq> None"
      using Suc(3) by (intro Suc(1) delay_pop_ok h(1)) (simp add: delay_pop_queue h(2) Cons)
    then show ?thesis
      by (simp add: Cons p Let_def)
  qed simp
qed simp

lemma drain_all_returns:
  assumes "periods_end (fe_time E)" "delays_ok s" "\<And>f. length (delay_queue f s) < n"
  shows "drain_all n E delayed c feds s \<noteq> None"
  using assms(2,3)
proof (induction feds arbitrary: c s)
  case (Cons fed feds)
  have "drain_queue n E delayed fed s \<noteq> None"
    using drain_queue_returns [OF assms(1) Cons(2,3)] .
  then obtain r s1 where d: "drain_queue n E delayed fed s = Some (r, s1)"
    by auto
  note o = drain_queue_order [OF Cons(2) d]
  have "length (delay_queue f s1) < n" for f
    using o Cons(3) [of f] suffix_length_le [of "delay_queue f s1" "delay_queue f s"] by (simp add: shorter_def)
  then show ?case
    using Cons(1) [of s1 r] o by (simp add: d)
qed simp

lemma processDelayQueue_returns:
  assumes "periods_end (fe_time E)" "delays_ok s" "\<And>f. Suc (length (delay_queue f s)) < n"
  shows "processDelayQueue n E s \<noteq> None"
proof -
  obtain m where n: "n = Suc m"
    using assms(3) by (cases n) auto
  have "delays_ok (s\<lparr> delayedFederates := [] \<rparr>)"
    using assms(2) by (simp add: delays_ok_def)
  moreover have "length (delay_queue f (s\<lparr> delayedFederates := [] \<rparr>)) < m" for f
    using assms(3) [of f] by (simp add: n delay_queue_def)
  ultimately show ?thesis
    using drain_all_returns [OF assms(1)] by (simp add: n)
qed

lemma process_loop_returns:
  assumes "periods_end (fe_time E)" "delays_ok s" "covered s"
    and "\<And>f. Suc (length (pending f s pops)) < n"
  shows "process_loop n E err pops s \<noteq> None"
  using assms(2-4)
proof (induction pops arbitrary: err s)
  case (Cons cmd pops)
  have sorted: "strictly_sorted (delayedFederates s)"
    using Cons(2) by (simp add: delays_ok_def)
  have cov: "delay_queue f s \<noteq> [] \<Longrightarrow> f \<in> set (delayedFederates s)" for f
    using Cons(3) by (simp add: covered_def)
  show ?case
  proof (cases "messageShouldBeDelayed cmd s")
    case True
    then have src: "source_id cmd \<in> set (delayedFederates s)"
      by (simp add: messageShouldBeDelayed_iff [OF sorted])
    have "source_id cmd \<noteq> fed_global_id s"
      using src Cons(2) by (auto simp: delays_ok_def)
    then have "process_loop n E err pops (delay_message cmd s) \<noteq> None"
      using Cons(4) by (intro Cons(1) delay_message_ok delay_message_covered src cov Cons(2))
        (simp_all add: delay_message_pending [OF Cons(2)])
    then show ?thesis
      using True by simp
  next
    case False
    then have src: "source_id cmd \<notin> set (delayedFederates s)"
      by (simp add: messageShouldBeDelayed_iff [OF sorted])
    have "Suc (length (delay_queue f s0)) < n" if "keeps E s s0" for f s0
      using Cons(4) [of f] keeps_queue [OF that, of f] by (simp add: pending_def)
    then have "processActionMessage n E cmd s \<noteq> None"
      unfolding processActionMessage_def
      by (intro process_with_returns processDelayQueue_returns assms(1) keeps_delays_ok [OF _ Cons(2)])
    then obtain r s1 where p: "processActionMessage n E cmd s = Some (r, s1)"
      by auto
    note o = processActionMessage_order [OF Cons(2,3) p]
    let ?s2 = "if r = MPR_delay_message then delay_message cmd s1 else s1"
    have "process_loop n E e pops ?s2 \<noteq> None" if nr: "\<not> returnableResult r" for e
    proof (cases "r = MPR_delay_message")
      case True
      note d = o(4) [OF True]
      have q: "delay_queue f s1 = delay_queue f s" for f
        using d by blast
      have "pending f (delay_message cmd s1) pops = pending f s (cmd # pops)" for f
        by (simp add: delay_message_pending [OF o(1)]) (simp add: pending_def q)
      moreover have "covered (delay_message cmd s1)"
        using d cov by (intro delay_message_covered o(1)) (auto simp: q)
      ultimately show ?thesis
        using True d Cons(1) [OF delay_message_ok [OF o(1)], of cmd e] Cons(4) by simp
    next
      case False
      have "Suc (length (pending f s1 pops)) < n" for f
        using suffix_length_le [OF shorter_pending [OF Cons(3) o(2) src, of f pops]] Cons(4) [of f] by simp
      then show ?thesis
        using False Cons(1) [OF o(1) o(3) [OF False nr], of e] by simp
    qed
    then show ?thesis
      using False by (simp add: p Let_def)
  qed
qed simp

lemma processQueue_returns:
  assumes "periods_end (fe_time E)" "delays_ok s" "\<And>f. Suc (length (pending f s pops)) < n"
  shows "processQueue n E pops s \<noteq> None"
proof -
  have "Suc (length (delay_queue f s)) < n" for f
    using assms(3) [of f] by (simp add: pending_def)
  then have "processDelayQueue n E s \<noteq> None"
    by (rule processDelayQueue_returns [OF assms(1,2)])
  then obtain r s1 where d: "processDelayQueue n E s = Some (r, s1)"
    by auto
  note o = processDelayQueue_order [OF assms(2) d]
  have "Suc (length (pending f s1 pops)) < n" for f
    using o(2) assms(3) [of f] suffix_length_le [of "delay_queue f s1" "delay_queue f s"]
    by (simp add: shorter_def pending_def)
  then have "process_loop n E False pops s1 \<noteq> None" if "\<not> returnableResult r"
    using process_loop_returns [OF assms(1) o(1) o(3) [OF that]] by blast
  then show ?thesis
    by (auto simp: processQueue_def d Let_def bind_eq_None_conv split_beta)
qed

section \<open>The calls of the application as steps\<close>

text \<open>Everything the core and the application do with a federate while it lives. \<open>reset\<close> and \<open>reInit\<close>,
  which no other code calls, would start it over.\<close>

inductive fed_step ::
  "('t::linorder, 'u, 'p, 'e, 'i) fed_env \<Rightarrow> ('t, 'p, 'e, 'i) FederateState \<Rightarrow> ('t, 'p, 'e, 'i) FederateState \<Rightarrow> bool"
  for E where
  wait_setup: "waitSetup n E pops s = Some (res, rest, s') \<Longrightarrow> fed_step E s s'"
| enter_initializing: "enterInitializingMode n E pops s = Some (res, rest, s') \<Longrightarrow> fed_step E s s'"
| enter_executing: "enterExecutingMode n E iterate pops s = Some (res, rest, s') \<Longrightarrow> fed_step E s s'"
| request_time: "requestTime n E nextTime iterate pops s = Some (res, rest, s') \<Longrightarrow> fed_step E s s'"
| generic_process: "genericUnspecifiedQueueProcess n E pops s = Some (res, rest, s') \<Longrightarrow> fed_step E s s'"
| finalizing: "finalize k n E pops s = Some (res, rest, s') \<Longrightarrow> fed_step E s s'"
| create_interface: "fed_step E s (createInterface E htype h key type units s)"
| close_interface: "fed_step E s (closeInterface E h htype s)"
| set_properties: "fed_step E s (setProperties E cmd s)"
| add_action: "fed_step E s (addAction cmd s)"
| set_value: "checkAndSetValue E h data s = Some (b, s') \<Longrightarrow> fed_step E s s'"
| receiving: "receive E h s = (m, s') \<Longrightarrow> fed_step E s s'"
| receiving_any: "receiveAny E s = (m, h, s') \<Longrightarrow> fed_step E s s'"

lemma advances_fields:
  "fed_state s' = fed_state s \<Longrightarrow> timeCoord s' = timeCoord s \<Longrightarrow> advances E s s'"
  by (simp add: advances_def)

lemma addAction_simps [simp]:
  "fed_state (addAction m s) = fed_state s" "timeCoord (addAction m s) = timeCoord s"
  by (simp_all add: addAction_def)

lemma fill_simps [simp]:
  "fed_state (fill_events E f s) = fed_state s" "timeCoord (fill_events E f s) = timeCoord s"
  by (simp_all add: fill_events_def Let_def)

lemma finish_simps [simp]:
  "fed_state (finish_exec_entry E it ret s) = fed_state s" "timeCoord (finish_exec_entry E it ret s) = timeCoord s"
  "fed_state (take_grant E s) = fed_state s" "timeCoord (take_grant E s) = timeCoord s"
  "fed_state (finish_request E l nt it ret s) = fed_state s" "timeCoord (finish_request E l nt it ret s) = timeCoord s"
  by (simp_all add: finish_exec_entry_def finish_request_def take_grant_def fillEventVectorUpTo_def
      fillEventVectorInclusive_def fillEventVectorNextIteration_def Let_def log_warning_def logMessage_def
      split: iteration_request.split)

text \<open>A call that runs the queue from a state with the same coordinator and only adjusts data after it.\<close>

lemma call_advances:
  assumes "processQueue n E pops s0 = Some (res, rest, s1)"
    and "fed_state s0 = fed_state s" "timeCoord s0 = timeCoord s"
    and "fed_state s' = fed_state s1" "timeCoord s' = timeCoord s1"
  shows "advances E s s'"
  using processQueue_advances [OF assms(1)] assms(2-) by (simp add: advances_def)

lemma genericProcess_advances:
  assumes "genericUnspecifiedQueueProcess n E pops s = Some (res, rest, s')"
  shows "advances E s s'"
proof -
  obtain s1 where q: "processQueue n E pops s = Some (res, rest, s1)"
      and s': "s' = (case res of Waiting \<Rightarrow> s1 | Returned _ \<Rightarrow> take_grant E s1)"
    using assms by (auto simp: genericUnspecifiedQueueProcess_def bind_eq_Some_conv)
  show ?thesis
    by (rule call_advances [OF q refl refl]) (simp_all add: s' split: queue_result.split)
qed

lemma finalize_loop_advances: "finalize_loop k n E pops s = Some (res, rest, s') \<Longrightarrow> advances E s s'"
proof (induction k n E pops s rule: finalize_loop.induct)
  case (2 k n E pops s)
  obtain res1 rest1 s1 where g: "genericUnspecifiedQueueProcess n E pops s = Some (res1, rest1, s1)"
    using 2(2) by (auto simp: bind_eq_Some_conv)
  then have "s' = s1 \<or> finalize_loop k n E rest1 s1 = Some (res, rest, s')"
    using 2(2) by (simp split: if_splits)
  moreover have "finalize_loop k n E rest1 s1 = Some (res, rest, s') \<Longrightarrow> advances E s1 s'"
    using 2 g by (fastforce split: if_splits)
  ultimately show ?case
    using genericProcess_advances [OF g] advances_trans by blast
qed simp

lemma enterInitializing_advances:
  assumes "enterInitializingMode n E pops s = Some (res, rest, s')"
  shows "advances E s s'"
proof -
  obtain s1 where q: "processQueue n E pops s = Some (res, rest, s1)"
    and s': "fed_state s' = fed_state s1" "timeCoord s' = timeCoord s1"
    using assms by (auto simp: enterInitializingMode_def bind_eq_Some_conv)
  show ?thesis
    by (rule call_advances [OF q refl refl s'])
qed

lemma enterExecuting_advances:
  assumes "enterExecutingMode n E iterate pops s = Some (res, rest, s')"
  shows "advances E s s'"
proof -
  obtain s1 where q: "processQueue n E pops (addAction (exec_request E iterate s) s) = Some (res, rest, s1)"
    and s': "s' = (case res of Waiting \<Rightarrow> s1 | Returned ret \<Rightarrow> finish_exec_entry E iterate ret s1)"
    using assms by (auto simp: enterExecutingMode_def bind_eq_Some_conv)
  show ?thesis
    by (rule call_advances [OF q]) (simp_all add: s' split: queue_result.split)
qed

lemma requestTime_advances:
  assumes "requestTime n E nextTime iterate pops s = Some (res, rest, s')"
  shows "advances E s s'"
proof -
  let ?s0 = "addAction (time_request E nextTime iterate s) (s\<lparr> fed_events := [] \<rparr>)"
  obtain s1 where q: "processQueue n E pops ?s0 = Some (res, rest, s1)"
    and s': "s' = (case res of Waiting \<Rightarrow> s1
        | Returned ret \<Rightarrow> finish_request E (getGrantedTime (timeCoord s)) nextTime iterate ret s1)"
    using assms by (auto simp: requestTime_def bind_eq_Some_conv Let_def)
  show ?thesis
    by (rule call_advances [OF q]) (simp_all add: s' split: queue_result.split)
qed

lemma createInterface_fields:
  "fed_state (createInterface E ht h key ty un s) = fed_state s"
  "timeCoord (createInterface E ht h key ty un s) = timeCoord s"
  by (simp_all add: createInterface_def Let_def split: handle_type.split)

lemma setProperties_advances: "advances E s (setProperties E cmd s)"
  by (simp add: setProperties_def keeps_advances keeps_configure advances_fields)

lemma checkAndSetValue_advances: "checkAndSetValue E h data s = Some (b, s') \<Longrightarrow> advances E s s'"
  by (auto simp: checkAndSetValue_def Let_def split_beta split: if_splits intro: advances_fields)

lemma receive_advances: "receive E h s = (m, s') \<Longrightarrow> advances E s s'"
  by (auto simp: receive_def split: option.splits prod.splits intro: advances_fields)

lemma receiveAny_advances: "receiveAny E s = (m, h, s') \<Longrightarrow> advances E s s'"
  by (auto simp: receiveAny_def Let_def split: option.splits prod.splits if_splits intro: advances_fields)

lemma fed_step_advances: "fed_step E s s' \<Longrightarrow> advances E s s'"
proof (induction rule: fed_step.induct)
  case (finalizing k n pops s res rest s')
  then show ?case
    using finalize_loop_advances by (auto simp: finalize_def split: if_splits)
qed (auto simp: waitSetup_def createInterface_fields intro: processQueue_advances enterInitializing_advances
    enterExecuting_advances requestTime_advances genericProcess_advances keeps_advances keeps_close
    setProperties_advances checkAndSetValue_advances receive_advances receiveAny_advances advances_fields)

lemma fed_steps_advance: "(fed_step E)\<^sup>*\<^sup>* s s' \<Longrightarrow> advances E s s'"
  by (induction rule: rtranclp_induct) (auto intro: advances_trans fed_step_advances)

lemma foldl_keeps:
  assumes "\<And>s x. keeps E s (f s x)"
  shows "keeps E s (foldl f s xs)"
  using assms by (induction xs arbitrary: s) (auto intro: keeps_trans)

lemma new_federate_coord: "coord_ok E (timeCoord (mk_FederateState E nm tps ips fps))"
proof -
  have "keeps E (FederateState_default E nm) (mk_FederateState E nm tps ips fps)"
    unfolding mk_FederateState_def
    by (intro keeps_trans [OF keeps_trans [OF foldl_keeps foldl_keeps] foldl_keeps])
      (simp_all add: split_beta keeps_setTimeProperty keeps_setIntProperty keeps_setOptionFlag)
  moreover have "coord_ok E (timeCoord (FederateState_default E nm))"
    by (simp add: coord_ok_def FederateState_default_def Let_def tc_reachable_inv)
  ultimately show ?thesis
    by (simp add: keeps_def)
qed



text \<open>A federate on 64 bit ticks whose units all match and whose texts are empty, for the examples.\<close>

definition sample_env ::
  "ticks time_rep \<Rightarrow> (ticks, unit, PublicationInfo entries,
     ticks EndpointInfo entries, ticks InputInfo entries) fed_env" where
  "sample_env T =
     \<lparr> fe_time = T, fe_le = True,
       fe_units = \<lparr> unit_from_string = \<lambda>_. (), is_valid = \<lambda>_. True, quick_convertible = \<lambda>_ _. True,
                    convertible = \<lambda>_ _. True \<rparr>,
       fe_fmt = \<lambda>_ _. [], fe_ops = list_containers, fe_initialTime = Ticks (- 1),
       fe_json = \<lambda>_ _. [], fe_queryCallback = None, fe_logger = False, fe_show_time = \<lambda>_. [],
       fe_show_double = \<lambda>_. [] \<rparr>"

lemma sample_env_simps [simp]:
  "fe_time (sample_env T) = T" "fe_ops (sample_env T) = list_containers" "fe_logger (sample_env T) = False"
  by (simp_all add: sample_env_def)

definition sample_fed :: "(ticks, PublicationInfo entries,
     ticks EndpointInfo entries, ticks InputInfo entries) FederateState" where
  "sample_fed = mk_FederateState (sample_env tick_rep) ''fed'' [] [] []"

lemma sample_fed_simps [simp]:
  "fed_state sample_fed = HELICS_CREATED" "delayQueues sample_fed = []" "delayedFederates sample_fed = []"
  "fed_has_parent sample_fed = False" "fed_name sample_fed = ''fed''"
  by (simp_all add: sample_fed_def mk_FederateState_def FederateState_default_def Let_def)

definition halt_message :: "ticks ActionMessage" where
  "halt_message = mk_message tick_rep cmd_terminate_immediately"

lemma halt_message_simps [simp]:
  "messageAction halt_message = cmd_terminate_immediately" "source_id halt_message = source_id (mk_message tick_rep 0)"
  by (simp_all add: halt_message_def mk_message_def)

lemma sample_halt:
  "waitSetup 3 (sample_env tick_rep) [halt_message] sample_fed
     = Some (Returned MPR_halted, [], setState HELICS_FINISHED (sample_fed\<lparr> delayedFederates := [] \<rparr>))"
  by (simp add: waitSetup_def processQueue_def numeral_3_eq_3 Let_def returnableResult_def messageShouldBeDelayed_def
      processActionMessage_def process_with_def cmd_defs setState_def)


section \<open>Order and progress of queue processing\<close>

lemma pending_length:
  fixes s :: "('t, 'p, 'e, 'i) FederateState"
  shows "length (pending f s pops) \<le> length pops + sum_list (map (\<lambda>(_, q). length q) (delayQueues s))"
proof -
  have *: "length (case map_of qs f of Some q \<Rightarrow> q | None \<Rightarrow> []) \<le> sum_list (map (\<lambda>(_, q). length q) qs)"
    for qs :: "(global_federate_id \<times> 't messages) list"
    by (induction qs) (auto split: option.splits)
  show ?thesis
    using add_mono [OF length_filter_le [of "\<lambda>m. source_id m = f" pops] * [of "delayQueues s"]]
    by (simp add: pending_def delay_queue_def)
qed

lemma process_loop_Cons:
  assumes "process_loop n E err (cmd # pops) s = Some (res, err', rest, s')"
  obtains e s2 where "process_loop n E e pops s2 = Some (res, err', rest, s')"
      and "e \<longrightarrow> err \<or> messageAction cmd = cmd_global_error"
  | ret where "res = Returned ret" "returnableResult ret" "err' \<longrightarrow> err \<or> messageAction cmd = cmd_global_error"
proof (cases "messageShouldBeDelayed cmd s")
  case True
  then show ?thesis
    using assms that(1) [of err "delay_message cmd s"] by simp
next
  case False
  then obtain ret s1 where p: "processActionMessage n E cmd s = Some (ret, s1)"
    using assms by (auto simp: bind_eq_Some_conv)
  show ?thesis
    using assms False p that by (cases "returnableResult ret") (auto simp: Let_def)
qed

lemma process_loop_result:
  "process_loop n E err pops s = Some (res, err', rest, s') \<Longrightarrow>
     (res = Waiting \<longrightarrow> rest = []) \<and> (\<forall>r. res = Returned r \<longrightarrow> returnableResult r)
       \<and> (err' \<longrightarrow> err \<or> (\<exists>m\<in>set pops. messageAction m = cmd_global_error))"
proof (induction pops arbitrary: err s)
  case (Cons cmd pops)
  from Cons(2) show ?case
  proof (cases rule: process_loop_Cons)
    case (1 e s2)
    then show ?thesis
      using Cons(1) [OF 1(1)] by auto
  qed auto
qed auto

lemma processQueue_result:
  assumes "processQueue n E pops s = Some (res, rest, s')"
  shows "(res = Waiting \<longrightarrow> rest = []) \<and> (\<forall>r. res = Returned r \<longrightarrow> returnableResult r)"
proof (cases "fed_state s = HELICS_FINISHED")
  case False
  with assms obtain ret s1 res2 err s2 where
      l: "returnableResult ret \<and> res2 = Returned ret \<or> process_loop n E False pops s1 = Some (res2, err, rest, s2)"
    and res: "res = (if res2 \<noteq> Waiting \<and> fed_state s = HELICS_ERROR then Returned MPR_error else res2)"
    by (rule processQueue_cases) blast
  then show ?thesis
    using process_loop_result [of n E False pops s1 res2 err rest s2]
    by (auto simp: returnableResult_def split: if_splits)
qed (use assms in \<open>auto simp: processQueue_def returnableResult_def\<close>)



text \<open>Ticks with an addition that stops at the ends of the range, as an example of a time type whose
  periods end.\<close>

definition sat_add :: "ticks \<Rightarrow> ticks \<Rightarrow> ticks" where
  "sat_add a b = Ticks (word_of_int (max (- (2 ^ 63)) (min (2 ^ 63 - 1) (sint (tick_count a) + sint (tick_count b)))))"

definition sat_rep :: "ticks time_rep" where
  "sat_rep = tick_rep\<lparr> t_add := sat_add \<rparr>"

lemma sint_of_int_small: "- (2 ^ 63) \<le> k \<Longrightarrow> k < 2 ^ 63 \<Longrightarrow> sint (word_of_int k :: 64 word) = k"
  by (simp add: signed_of_int signed_take_bit_int_eq_self)

lemma sat_add_count:
  "sint (tick_count (sat_add a b)) = max (- (2 ^ 63)) (min (2 ^ 63 - 1) (sint (tick_count a) + sint (tick_count b)))"
proof -
  define k :: int where "k = max (- (2 ^ 63)) (min (2 ^ 63 - 1) (sint (tick_count a) + sint (tick_count b)))"
  have "- (2 ^ 63) \<le> k" "k < 2 ^ 63"
    by (simp_all add: k_def)
  then have "sint (word_of_int k :: 64 word) = k"
    by (simp add: sint_of_int_small)
  then show ?thesis
    by (simp add: sat_add_def k_def)
qed

lemma sat_periods_end: "periods_end sat_rep"
proof -
  have "\<exists>n. bound \<le> ((\<lambda>t. sat_add t per) ^^ n) t" if "Ticks 1 < per" for per bound t
  proof -
    have per: "1 < sint (tick_count per)"
      using that by (cases per) (simp add: less_ticks_def)
    have "min (2 ^ 63 - 1) (sint (tick_count t) + int n) \<le> sint (tick_count (((\<lambda>t. sat_add t per) ^^ n) t))" for n
      using per sint_bounds64 [of "tick_count t"]
      by (induction n) (auto simp: sat_add_count)
    from this [of "2 ^ 64"] show ?thesis
      using sint_bounds64 [of "tick_count t"] sint_bounds64 [of "tick_count bound"]
      by (intro exI [of _ "2 ^ 64"]) (simp add: less_eq_ticks_def)
  qed
  then show ?thesis
    by (simp add: periods_end_def sat_rep_def)
qed


text \<open>A federate that executes and has held back a message of federate 7 until its next request.\<close>

definition held_message :: "ticks ActionMessage" where
  "held_message = (mk_message sat_rep cmd_time_grant)\<lparr> source_id := Global_Federate_Id 7, actionTime := Ticks 4 \<rparr>"

definition holding_fed :: "(ticks, PublicationInfo entries,
     ticks EndpointInfo entries, ticks InputInfo entries) FederateState" where
  "holding_fed = (FederateState_default (sample_env sat_rep) ''fed'')
     \<lparr> fed_global_id := Global_Federate_Id 131072,
       timeCoord := (TimeCoordinator_default sat_rep)\<lparr> tc_source_id := Global_Federate_Id 131072 \<rparr>, fed_state := HELICS_EXECUTING, delayQueues := [(Global_Federate_Id 7, [held_message])],
       delayedFederates := [Global_Federate_Id 7] \<rparr>"

lemma holding_ok: "delays_ok holding_fed"
  by (simp add: delays_ok_def holding_fed_def FederateState_default_def Let_def held_message_def
      TimeCoordinator_default_def default_global_federate_id_def)



section \<open>Errors\<close>


definition local_error_message :: "ticks ActionMessage" where
  "local_error_message = (mk_message tick_rep cmd_local_error)
     \<lparr> source_id := fed_of_broker parent_broker_id, messageID := 9, payload := ''bad'' \<rparr>"


section \<open>Entering initialization\<close>

text \<open>C25: a federate enters initialization only with its interfaces in order. On the grant that ends its
  setup a federate moves to the initializing state and reports the next step if every input and every
  publication has the connections it requires, in the number it requires, and the types and units of
  all sources match; otherwise it moves to the error state with the code of a connection failure.\<close>

theorem init_requires_connections:
  fixes E :: "('t::linorder, 'u, 'p, 'e, 'i) fed_env"
  assumes "fed_state s = HELICS_CREATED" and "messageAction cmd = cmd_init_grant"
  shows "\<exists>s'. processActionMessage n E cmd s =
      Some (if list_all (input_connected (fe_units E)) (dv_elems (input_ops (fe_ops E)) (inputs (interfaceInformation s)))
               \<and> list_all publication_connected (dv_elems (publication_ops (fe_ops E)) (publications (interfaceInformation s)))
            then MPR_next_step else MPR_error, s')
    \<and> (if list_all (input_connected (fe_units E)) (dv_elems (input_ops (fe_ops E)) (inputs (interfaceInformation s)))
             \<and> list_all publication_connected (dv_elems (publication_ops (fe_ops E)) (publications (interfaceInformation s)))
       then fed_state s' = HELICS_INITIALIZING \<and> fed_errorCode s' = fed_errorCode s
       else fed_state s' = HELICS_ERROR \<and> fed_errorCode s' = connection_failure)"
proof -
  let ?s1 = "s\<lparr> fed_state := HELICS_INITIALIZING, timeGranted_mode := True \<rparr>"
  obtain e l where c: "checkInterfaces E ?s1 =
      (if checkInterfacesForIssues (fe_units E) (fe_fmt E) (fe_ops E) (interfaceInformation s) = [] then (0, ?s1)
       else (connection_failure, ?s1\<lparr> fed_errorCode := connection_failure, fed_errorString := e, fed_log := l \<rparr>))"
    using checkInterfaces_eq [of E ?s1] by auto
  have p: "processActionMessage n E cmd s =
      (let (pcode, s1) = checkInterfaces E ?s1
       in if pcode \<noteq> 0 then Some (MPR_error, setState HELICS_ERROR s1) else Some (MPR_next_step, s1))"
    using assms by (simp add: processActionMessage_def process_with_def process_init_grant_def setState_def cmd_defs)
  show ?thesis
    unfolding p c no_issues [symmetric, where F = "fe_fmt E"] by (simp add: setState_def connection_failure_def)
qed

definition init_grant_message :: "ticks ActionMessage" where
  "init_grant_message = mk_message tick_rep cmd_init_grant"

text \<open>The federate of the example has an input that requires a connection and has none.\<close>

definition unconnected_fed :: "(ticks, PublicationInfo entries, ticks EndpointInfo entries, ticks InputInfo entries) FederateState" where
  "unconnected_fed = sample_fed\<lparr> interfaceInformation :=
     (InterfaceInfo_default list_containers)\<lparr> inputs :=
        [(''in'', Interface_Handle 1, (mk_InputInfo default_global_handle ''in'' [] [])\<lparr> inp_required := True \<rparr>)] \<rparr> \<rparr>"

theorem init_requires_connections_witness:
  "\<exists>s'. processActionMessage 1 (sample_env tick_rep) init_grant_message unconnected_fed = Some (MPR_error, s')
     \<and> fed_state s' = HELICS_ERROR \<and> fed_errorCode s' = connection_failure"
  using init_requires_connections [of unconnected_fed init_grant_message 1 "sample_env tick_rep"]
  by (simp add: unconnected_fed_def init_grant_message_def mk_message_def input_connected_def list_containers_def
      list_vector_def mk_InputInfo_def)

section \<open>Receiving from any endpoint\<close>

lemma earliest_endpoint_spec:
  assumes "earliest_endpoint T t0 e0 es = (t, e)"
  shows "t \<le> t0 \<and> (\<forall>x\<in>set es. t \<le> firstMessageTime T x)
    \<and> (e = e0 \<and> t = t0 \<or> (\<exists>x\<in>set es. e = Some x \<and> firstMessageTime T x = t \<and> t < t0))"
  using assms
proof (induction T t0 e0 es rule: earliest_endpoint.induct)
  case (2 T earliest_time endpointI end_point rest)
  then show ?case
    by (cases "firstMessageTime T end_point < earliest_time") force+
qed simp

text \<open>A call that receives from any endpoint delivers the earliest message there is. If some endpoint
  has a message due at the granted time, the result is the first message of an endpoint, no endpoint
  holds an earlier one, the handle returned is that endpoint's, and just this message leaves its
  queue; if no message is due, nothing is returned and nothing changes.\<close>

lemma receive_any_earliest:
  fixes E :: "('t::linorder, 'u, 'p, 'e, 'i) fed_env"
  defines "eps s \<equiv> dv_elems (endpoint_ops (fe_ops E)) (endpoints (interfaceInformation s))"
  assumes "fed_time_granted s < maxVal (fe_time E)"
  shows "if \<exists>e\<in>set (eps s). message_queue e \<noteq> [] \<and> msg_time (hd (message_queue e)) \<le> fed_time_granted s
     then \<exists>e m ms. e \<in> set (eps s) \<and> message_queue e = m # ms
        \<and> (\<forall>e'\<in>set (eps s). message_queue e' \<noteq> [] \<longrightarrow> msg_time m \<le> msg_time (hd (message_queue e')))
        \<and> receiveAny E s = (Some m, Some (handle (ept_id e)), s\<lparr> interfaceInformation :=
             put_endpoint (fe_ops E) (handle (ept_id e)) (e\<lparr> message_queue := ms \<rparr>) (interfaceInformation s) \<rparr>)
     else fst (receiveAny E s) = None \<and> snd (snd (receiveAny E s)) = s"
proof -
  let ?T = "fe_time E"
  obtain t e where e: "earliest_endpoint ?T (maxVal ?T) None (eps s) = (t, e)"
    by fastforce
  note spec = earliest_endpoint_spec [OF e]
  have first: "firstMessageTime ?T x = (if message_queue x = [] then maxVal ?T else msg_time (hd (message_queue x)))" for x
    by (simp add: firstMessageTime_def split: list.split)
  show ?thesis
  proof (cases "t \<le> fed_time_granted s")
    case True
    then obtain x where x: "e = Some x" "x \<in> set (eps s)" "firstMessageTime ?T x = t" "t < maxVal ?T"
      using spec assms(2) by auto
    then obtain m ms where q: "message_queue x = m # ms" "msg_time m = t"
      by (cases "message_queue x") (auto simp: firstMessageTime_def)
    have "receiveAny E s = (Some m, Some (handle (ept_id x)), s\<lparr> interfaceInformation :=
             put_endpoint (fe_ops E) (handle (ept_id x)) (x\<lparr> message_queue := ms \<rparr>) (interfaceInformation s) \<rparr>)"
      using True e x(1) q by (simp add: receiveAny_def eps_def getMessage_def Let_def)
    moreover have "\<forall>e'\<in>set (eps s). message_queue e' \<noteq> [] \<longrightarrow> msg_time m \<le> msg_time (hd (message_queue e'))"
      using spec q(2) by (auto simp: first split: if_splits)
    moreover have "\<exists>e\<in>set (eps s). message_queue e \<noteq> [] \<and> msg_time (hd (message_queue e)) \<le> fed_time_granted s"
      using x(2) q True by (intro bexI [of _ x]) simp_all
    ultimately show ?thesis
      using x(2) q(1) by auto
  next
    case False
    then have "\<not> (\<exists>e\<in>set (eps s). message_queue e \<noteq> [] \<and> msg_time (hd (message_queue e)) \<le> fed_time_granted s)"
      using spec by (force simp: first)
    moreover have "fst (receiveAny E s) = None \<and> snd (snd (receiveAny E s)) = s"
      using False e by (auto simp: receiveAny_def eps_def split: option.split)
    ultimately show ?thesis
      by (simp only: if_False)
  qed
qed


definition due_message :: "ticks Message" where
  "due_message = (Message_default tick_rep)\<lparr> msg_time := Ticks 3 \<rparr>"

definition receiving_fed :: "(ticks, PublicationInfo entries, ticks EndpointInfo entries, ticks InputInfo entries) FederateState" where
  "receiving_fed = sample_fed\<lparr> fed_time_granted := Ticks 5, interfaceInformation :=
     (InterfaceInfo_default list_containers)\<lparr> endpoints :=
        [(''a'', Interface_Handle 1, (mk_EndpointInfo (Global_Handle (Global_Federate_Id 9) (Interface_Handle 1)) ''a'' [])
            \<lparr> message_queue := [due_message\<lparr> msg_time := Ticks 4 \<rparr>] \<rparr>),
         (''b'', Interface_Handle 2, (mk_EndpointInfo (Global_Handle (Global_Federate_Id 9) (Interface_Handle 2)) ''b'' [])
            \<lparr> message_queue := [due_message] \<rparr>)] \<rparr> \<rparr>"

lemma receive_any_earliest_example:
  "\<exists>m h s'. receiveAny (sample_env tick_rep) receiving_fed = (Some m, Some h, s') \<and> msg_time m = Ticks 3"
proof -
  have eps: "dv_elems (endpoint_ops (fe_ops (sample_env tick_rep))) (endpoints (interfaceInformation receiving_fed)) =
      [(mk_EndpointInfo (Global_Handle (Global_Federate_Id 9) (Interface_Handle 1)) ''a'' [])
            \<lparr> message_queue := [due_message\<lparr> msg_time := Ticks 4 \<rparr>] \<rparr>,
       (mk_EndpointInfo (Global_Handle (Global_Federate_Id 9) (Interface_Handle 2)) ''b'' [])\<lparr> message_queue := [due_message] \<rparr>]"
    by (simp add: receiving_fed_def list_containers_def list_vector_def)
  have "fed_time_granted receiving_fed < maxVal (fe_time (sample_env tick_rep))"
    by (simp add: receiving_fed_def)
  from receive_any_earliest [OF this] show ?thesis
    unfolding eps by (auto simp: due_message_def receiving_fed_def split: if_splits)
qed

section \<open>A publication connected twice\<close>

text \<open>An input connected twice to the same publication gets an empty value behind every published
  one. The loop over the sources runs its body once per entry; the first run moves the data out of the
  message, and the second queues a record with the same time and iteration and no data behind the
  record with the value.\<close>

lemma duplicate_source_blanks:
  assumes "container_laws (fe_ops E)"
    and "if_getInput (fe_ops E) (dest_handle cmd) (interfaceInformation s) = Some i"
    and "input_sources i = [getSource cmd, getSource cmd]" "data_queues i = [[], []]"
    and "actionTime cmd \<le> deactivated i ! 0" "not_interruptible i"
  shows "\<exists>s' i'. process_pub E cmd s = Some (MPR_continue_processing, s')
    \<and> if_getInput (fe_ops E) (dest_handle cmd) (interfaceInformation s') = Some i'
    \<and> data_queues i' ! 0 =
        [\<lparr> rec_time = actionTime cmd, rec_iteration = ucast (counter cmd), rec_data = Some (payload cmd) \<rparr>,
         \<lparr> rec_time = actionTime cmd, rec_iteration = ucast (counter cmd), rec_data = Some [] \<rparr>]"
proof -
  let ?r = "\<lambda>d. \<lparr> rec_time = actionTime cmd, rec_iteration = ucast (counter cmd), rec_data = Some d \<rparr>"
  let ?h = "dest_handle cmd"
  let ?add = "addData (getSource cmd) (actionTime cmd) (ucast (counter cmd))"
  have q: "queue_insert (?r []) [?r d] = [?r d, ?r []]" for d
    by (simp add: queue_insert_def upper_bound_def insert_at_def recordComparison_def)
  have a: "?add (Some d) i = i\<lparr> data_queues := [[?r d], []] \<rparr>" for d
    using assms(3-5) by (simp add: addData_def queue_insert_def)
  have b: "?add (Some []) (i\<lparr> data_queues := [[?r d], []] \<rparr>) = i\<lparr> data_queues := [[?r d, ?r []], []] \<rparr>" for d
    using assms(3-5) by (simp add: addData_def q)
  have src: "source_id cmd = fed_id (getSource cmd)" "source_handle cmd = handle (getSource cmd)"
    by (simp_all add: getSource_def)
  show ?thesis
    using assms src by (simp add: process_pub_def getInput_put a b Let_def)
qed


definition published :: "ticks ActionMessage" where
  "published = (mk_message tick_rep cmd_pub)
     \<lparr> source_id := Global_Federate_Id 8, source_handle := Interface_Handle 3, dest_handle := Interface_Handle 1,
       actionTime := Ticks 2, payload := ''v'' \<rparr>"

definition twice_connected :: "ticks InputInfo" where
  "twice_connected = (mk_InputInfo default_global_handle ''in'' [] [])
     \<lparr> input_sources := [getSource published, getSource published], data_queues := [[], []],
       deactivated := [Ticks 9, Ticks 9], not_interruptible := True \<rparr>"

lemma duplicate_source_blanks_example:
  "\<exists>s' i'. process_pub (sample_env tick_rep) published (sample_fed\<lparr> interfaceInformation :=
        (InterfaceInfo_default list_containers)\<lparr> inputs := [(''in'', Interface_Handle 1, twice_connected)] \<rparr> \<rparr>)
      = Some (MPR_continue_processing, s')
    \<and> if_getInput list_containers (Interface_Handle 1) (interfaceInformation s') = Some i'
    \<and> map rec_data (data_queues i' ! 0) = [Some ''v'', Some []]"
proof -
  let ?s = "sample_fed\<lparr> interfaceInformation :=
        (InterfaceInfo_default list_containers)\<lparr> inputs := [(''in'', Interface_Handle 1, twice_connected)] \<rparr> \<rparr>"
  have h: "dest_handle published = Interface_Handle 1" "payload published = ''v''"
    by (simp_all add: published_def)
  have i: "if_getInput (fe_ops (sample_env tick_rep)) (dest_handle published) (interfaceInformation ?s) = Some twice_connected"
    by (simp add: h if_getInput_def list_containers_def list_vector_def)
  have "actionTime published \<le> deactivated twice_connected ! 0"
    by (simp add: published_def twice_connected_def)
  then show ?thesis
    using duplicate_source_blanks [OF _ i] by (fastforce simp: list_containers_laws h twice_connected_def)
qed

end
