(* ===== verification/Forwarding_Coordinator.thy ===== *)
theory Forwarding_Coordinator
  imports Time_Coordinator
begin

text \<open>
  The time coordinator of cores and brokers (\<open>ForwardingTimeCoordinator.hpp\<close>,
  \<open>ForwardingTimeCoordinator.cpp\<close>): it grants no time of its own but passes on the minimum of what
  its dependencies announce. \<open>ft_sender\<close> tells whether a callback for sending is set; the calls of the
  callback are appended to \<open>ft_sent\<close>.
\<close>

section \<open>State\<close>

record 't ForwardingTimeCoordinator =
  ft_time_next :: 't
  ft_time_minminDe :: 't
  ft_time_minDe :: 't
  ft_time_state :: time_state_t
  ft_lastMinFed :: global_federate_id
  ft_dependencies :: "'t TimeDependencies"
  ft_dependents :: "global_federate_id list"
  ft_sender :: bool
  ft_source_id :: global_federate_id
  ft_checkingExec :: bool
  ft_executionMode :: bool
  ft_iterating :: bool
  ft_ignoreMinFed :: bool
  ft_restrictive_time_policy :: bool
  ft_sent :: "'t ActionMessage list"

definition ForwardingTimeCoordinator_default :: "('t::linorder) time_rep \<Rightarrow> 't ForwardingTimeCoordinator" where
  "ForwardingTimeCoordinator_default T =
     \<lparr> ft_time_next = timeZero T, ft_time_minminDe = timeZero T, ft_time_minDe = timeZero T,
       ft_time_state = time_requested, ft_lastMinFed = default_global_federate_id,
       ft_dependencies = [], ft_dependents = [], ft_sender = False,
       ft_source_id = Global_Federate_Id 0, ft_checkingExec = False, ft_executionMode = False,
       ft_iterating = False, ft_ignoreMinFed = False, ft_restrictive_time_policy = False,
       ft_sent = [] \<rparr>"

definition ft_sendMessage ::
  "'t ActionMessage \<Rightarrow> 't ForwardingTimeCoordinator \<Rightarrow> 't ForwardingTimeCoordinator" where
  "ft_sendMessage m s = s\<lparr> ft_sent := ft_sent s @ [m] \<rparr>"

section \<open>The minima over the dependencies\<close>

definition isBroker :: "global_federate_id \<Rightarrow> bool" where
  "isBroker fed \<longleftrightarrow> gid fed = 1 \<or> sint (gid fed) \<ge> 0x70000000"

record 't minTimeSet =
  minNext :: 't
  minminDe :: 't
  minDe :: 't
  mt_minFed :: global_federate_id
  tState :: time_state_t

definition minTimeSet_default :: "('t::linorder) time_rep \<Rightarrow> 't minTimeSet" where
  "minTimeSet_default T =
     \<lparr> minNext = maxVal T, minminDe = maxVal T, minDe = maxVal T,
       mt_minFed = default_global_federate_id, tState = time_requested \<rparr>"

definition min_set_next :: "('t::linorder) DependencyInfo \<Rightarrow> 't minTimeSet \<Rightarrow> 't minTimeSet" where
  "min_set_next dep mTime =
     (if Tnext dep < minNext mTime then mTime\<lparr> minNext := Tnext dep, tState := time_state dep \<rparr>
      else if Tnext dep = minNext mTime
      then (if time_state dep = time_granted then mTime\<lparr> tState := time_state dep \<rparr> else mTime)
      else mTime)"

definition min_set_demin ::
  "('t::linorder) time_rep \<Rightarrow> 't DependencyInfo \<Rightarrow> 't minTimeSet \<Rightarrow> 't minTimeSet" where
  "min_set_demin T dep mTime =
     (if dep_Tdemin dep \<ge> Tnext dep
      then if dep_Tdemin dep < minminDe mTime
           then mTime\<lparr> minminDe := dep_Tdemin dep, mt_minFed := fedID dep \<rparr>
           else if dep_Tdemin dep = minminDe mTime
           then mTime\<lparr> mt_minFed := default_global_federate_id \<rparr>
           else mTime
      else mTime\<lparr> minminDe := t_of_int T (- 1) \<rparr>)"

definition min_set_de :: "('t::linorder) DependencyInfo \<Rightarrow> 't minTimeSet \<Rightarrow> 't minTimeSet" where
  "min_set_de dep mTime =
     (if dep_Te dep < minDe mTime then mTime\<lparr> minDe := dep_Te dep \<rparr> else mTime)"

definition min_set_step ::
  "('t::linorder) time_rep \<Rightarrow> global_federate_id \<Rightarrow> 't minTimeSet \<Rightarrow> 't DependencyInfo \<Rightarrow> 't minTimeSet" where
  "min_set_step T ignore mTime dep =
     (if fedID dep = ignore then mTime
      else min_set_de dep (min_set_demin T dep (min_set_next dep mTime)))"

definition generateMinTimeSet ::
  "('t::linorder) time_rep \<Rightarrow> 't TimeDependencies \<Rightarrow> bool \<Rightarrow> global_federate_id \<Rightarrow> 't minTimeSet" where
  "generateMinTimeSet T deps restricted ignore =
     (let m = foldl (min_set_step T ignore) (minTimeSet_default T) deps;
          m1 = m\<lparr> minminDe := min (minDe m) (minminDe m) \<rparr>
      in if \<not> restricted \<and> minminDe m1 < maxVal T
         then if minminDe m1 > minNext m1 then m1\<lparr> minNext := minminDe m1 \<rparr> else m1
         else m1)"

section \<open>Sending\<close>

definition generateTimeRequestIgnoreDependency ::
  "('t::linorder) time_rep \<Rightarrow> 't ForwardingTimeCoordinator \<Rightarrow> 't ActionMessage \<Rightarrow> global_federate_id
     \<Rightarrow> 't ActionMessage" where
  "generateTimeRequestIgnoreDependency T s msg iFed =
     (let mTime = generateMinTimeSet T (ft_dependencies s) (ft_restrictive_time_policy s) iFed;
          nTime = (copy_message msg)\<lparr> actionTime := minNext mTime, Tdemin := minminDe mTime,
                    Te := minDe mTime, dest_id := iFed \<rparr>
      in if tState mTime = time_granted then setAction cmd_time_grant nTime
         else if tState mTime = time_requested
         then msg_clearFlag iteration_requested_flag (setAction cmd_time_request nTime)
         else if tState mTime = time_requested_iterative
         then msg_setFlag iteration_requested_flag (setAction cmd_time_request nTime)
         else nTime)"

text \<open>What one dependent is sent of a time request or grant: a request recomputed without its own
  input, nothing, or the message itself.\<close>

definition timing_message_for ::
  "('t::linorder) time_rep \<Rightarrow> 't ForwardingTimeCoordinator \<Rightarrow> 't ActionMessage \<Rightarrow> global_federate_id
     \<Rightarrow> 't ActionMessage option" where
  "timing_message_for T s msg dep =
     (let di = getDependencyInfo dep (ft_dependencies s)
      in if isBroker dep \<and> \<not> ft_ignoreMinFed s
           \<and> (case di of None \<Rightarrow> False
              | Some d \<Rightarrow> Tnext d = actionTime msg \<or> fedID d = ft_lastMinFed s)
         then Some (generateTimeRequestIgnoreDependency T s msg dep)
         else if (case di of None \<Rightarrow> False | Some d \<Rightarrow> Tnext d > actionTime msg) then None
         else Some (msg\<lparr> dest_id := dep \<rparr>))"

definition ft_transmitTimingMessage ::
  "('t::linorder) time_rep \<Rightarrow> 't ActionMessage \<Rightarrow> 't ForwardingTimeCoordinator \<Rightarrow> 't ForwardingTimeCoordinator" where
  "ft_transmitTimingMessage T msg s =
     (if ft_sender s
      then if messageAction msg = cmd_time_request \<or> messageAction msg = cmd_time_grant
           then foldl (\<lambda>s' dep. case timing_message_for T s msg dep of
                          None \<Rightarrow> s' | Some m \<Rightarrow> ft_sendMessage m s') s (ft_dependents s)
           else foldl (\<lambda>s' dep. ft_sendMessage (msg\<lparr> dest_id := dep \<rparr>) s') s (ft_dependents s)
      else s)"

definition ft_sendTimeRequest ::
  "('t::linorder) time_rep \<Rightarrow> 't ForwardingTimeCoordinator \<Rightarrow> 't ForwardingTimeCoordinator" where
  "ft_sendTimeRequest T s =
     (if \<not> ft_sender s then s
      else let upd = (if ft_time_state s = time_granted
                      then (mk_message T cmd_time_grant)
                             \<lparr> source_id := ft_source_id s, actionTime := ft_time_next s \<rparr>
                      else (mk_message T cmd_time_request)
                             \<lparr> source_id := ft_source_id s, actionTime := ft_time_next s,
                               Te := ft_time_minDe s, Tdemin := ft_time_minminDe s \<rparr>);
               upd' = (if ft_iterating s then msg_setFlag iteration_requested_flag upd else upd)
           in ft_transmitTimingMessage T upd' s)"

definition ft_enteringExecMode ::
  "('t::linorder) time_rep \<Rightarrow> 't ForwardingTimeCoordinator \<Rightarrow> 't ForwardingTimeCoordinator" where
  "ft_enteringExecMode T s =
     (if ft_executionMode s then s
      else ft_transmitTimingMessage T ((mk_message T cmd_exec_request)\<lparr> source_id := ft_source_id s \<rparr>)
             (s\<lparr> ft_checkingExec := True \<rparr>))"

section \<open>Updating\<close>

definition ft_updateTimeFactors ::
  "('t::linorder) time_rep \<Rightarrow> 't ForwardingTimeCoordinator \<Rightarrow> 't ForwardingTimeCoordinator" where
  "ft_updateTimeFactors T s =
     (let mTime = generateMinTimeSet T (ft_dependencies s) (ft_restrictive_time_policy s)
                    default_global_federate_id;
          u1 = (ft_time_state s \<noteq> tState mTime);
          prev_next = ft_time_next s;
          u2 = (u1 \<or> minDe mTime \<noteq> ft_time_minDe s);
          u3 = (u2 \<or> minminDe mTime \<noteq> ft_time_minminDe s);
          next = (if \<not> ft_restrictive_time_policy s \<and> minminDe mTime < maxVal T
                    \<and> minminDe mTime > minNext mTime
                  then minminDe mTime else minNext mTime);
          u4 = (u3 \<or> prev_next \<noteq> next);
          u5 = (u4 \<or> (mt_minFed mTime \<noteq> ft_lastMinFed s \<and> isBroker (mt_minFed mTime)));
          s1 = s\<lparr> ft_time_state := tState mTime, ft_time_next := next, ft_time_minDe := minDe mTime,
                  ft_time_minminDe := minminDe mTime, ft_lastMinFed := mt_minFed mTime \<rparr>
      in if u5 then ft_sendTimeRequest T s1 else s1)"

definition ft_checkExecEntry ::
  "('t::linorder) time_rep \<Rightarrow> 't ForwardingTimeCoordinator
     \<Rightarrow> message_processing_result \<times> 't ForwardingTimeCoordinator" where
  "ft_checkExecEntry T s =
     (if \<not> checkIfReadyForExecEntry False (ft_dependencies s) then (MPR_continue_processing, s)
      else let s1 = s\<lparr> ft_executionMode := True, ft_time_next := timeZero T, ft_time_state := time_granted,
                       ft_time_minDe := timeZero T, ft_time_minminDe := timeZero T \<rparr>
           in (MPR_next_step,
               ft_transmitTimingMessage T ((mk_message T cmd_exec_grant)\<lparr> source_id := ft_source_id s1 \<rparr>) s1))"

section \<open>Dependencies and leaving\<close>

definition ft_addDependency ::
  "('t::linorder) time_rep \<Rightarrow> global_federate_id \<Rightarrow> 't ForwardingTimeCoordinator
     \<Rightarrow> bool \<times> 't ForwardingTimeCoordinator" where
  "ft_addDependency T fed s =
     (let (added, deps) = addDependency T fed (ft_dependencies s) in (added, s\<lparr> ft_dependencies := deps \<rparr>))"

definition ft_addDependent ::
  "global_federate_id \<Rightarrow> 't ForwardingTimeCoordinator \<Rightarrow> bool \<times> 't ForwardingTimeCoordinator" where
  "ft_addDependent fed s =
     (let (added, deps) = vec_insert (\<lambda>f. f) (\<lambda>f. f) fed (ft_dependents s)
      in (added, s\<lparr> ft_dependents := deps \<rparr>))"

definition ft_removeDependency ::
  "global_federate_id \<Rightarrow> 't ForwardingTimeCoordinator \<Rightarrow> 't ForwardingTimeCoordinator" where
  "ft_removeDependency fed s = s\<lparr> ft_dependencies := removeDependency fed (ft_dependencies s) \<rparr>"

definition ft_removeDependent ::
  "global_federate_id \<Rightarrow> 't ForwardingTimeCoordinator \<Rightarrow> 't ForwardingTimeCoordinator" where
  "ft_removeDependent fed s = s\<lparr> ft_dependents := vec_erase (\<lambda>f. f) fed (ft_dependents s) \<rparr>"

definition ft_getDependencies :: "'t ForwardingTimeCoordinator \<Rightarrow> global_federate_id list" where
  "ft_getDependencies s = map fedID (ft_dependencies s)"

definition ft_leaving_actions :: "action_t list" where
  "ft_leaving_actions = [cmd_disconnect, cmd_disconnect_broker, cmd_disconnect_fed,
     cmd_disconnect_core, cmd_broadcast_disconnect]"

definition ft_processTimeMessage ::
  "('t::linorder) time_rep \<Rightarrow> 't ActionMessage \<Rightarrow> 't ForwardingTimeCoordinator
     \<Rightarrow> bool \<times> 't ForwardingTimeCoordinator" where
  "ft_processTimeMessage T cmd s =
     (let s1 = (if messageAction cmd \<in> set ft_leaving_actions
                then ft_removeDependent (source_id cmd) s else s);
          (res, deps) = updateTime T cmd (ft_dependencies s1)
      in (res, s1\<lparr> ft_dependencies := deps \<rparr>))"

definition ft_processDependencyUpdateMessage ::
  "('t::linorder) time_rep \<Rightarrow> 't ActionMessage \<Rightarrow> 't ForwardingTimeCoordinator
     \<Rightarrow> 't ForwardingTimeCoordinator" where
  "ft_processDependencyUpdateMessage T cmd s =
     (if messageAction cmd = cmd_add_dependency then snd (ft_addDependency T (source_id cmd) s)
      else if messageAction cmd = cmd_remove_dependency then ft_removeDependency (source_id cmd) s
      else if messageAction cmd = cmd_add_dependent then snd (ft_addDependent (source_id cmd) s)
      else if messageAction cmd = cmd_remove_dependent then ft_removeDependent (source_id cmd) s
      else if messageAction cmd = cmd_add_interdependency
      then snd (ft_addDependent (source_id cmd) (snd (ft_addDependency T (source_id cmd) s)))
      else if messageAction cmd = cmd_remove_interdependency
      then ft_removeDependent (source_id cmd) (ft_removeDependency (source_id cmd) s)
      else s)"

definition ft_connections ::
  "('t::linorder) time_rep \<Rightarrow> 't ForwardingTimeCoordinator \<Rightarrow> global_federate_id list" where
  "ft_connections T s =
     sort (remdups (ft_dependents s
       @ map fedID (filter (\<lambda>dep. Tnext dep < maxVal T) (ft_dependencies s))))"

definition ft_disconnect ::
  "('t::linorder) time_rep \<Rightarrow> bool \<Rightarrow> 't ForwardingTimeCoordinator \<Rightarrow> 't ForwardingTimeCoordinator" where
  "ft_disconnect T le s =
     (if ft_sender s
      then let bye = (mk_message T cmd_disconnect)\<lparr> source_id := ft_source_id s \<rparr>
           in case ft_connections T s of
                [] \<Rightarrow> s
              | [fed] \<Rightarrow>
                  if fed = ft_source_id s then snd (ft_processTimeMessage T (bye\<lparr> dest_id := fed \<rparr>) s)
                  else ft_sendMessage (bye\<lparr> dest_id := fed \<rparr>) s
              | feds \<Rightarrow>
                  let (multi, s1) =
                        foldl (\<lambda>(multi, s1) fed.
                            if fed = ft_source_id s1
                            then (multi, snd (ft_processTimeMessage T (bye\<lparr> dest_id := fed \<rparr>) s1))
                            else (snd (appendMessage T le multi (bye\<lparr> dest_id := fed \<rparr>)), s1))
                          (mk_message T cmd_multi_message, s) feds
                  in ft_sendMessage multi s1
      else s)"

section \<open>The minima are minima\<close>

lemma min_set_proj [simp]:
  "minNext (min_set_de d m) = minNext m" "tState (min_set_de d m) = tState m"
  "minminDe (min_set_de d m) = minminDe m" "minNext (min_set_demin T d m) = minNext m"
  "tState (min_set_demin T d m) = tState m" "minDe (min_set_demin T d m) = minDe m"
  "minminDe (min_set_next d m) = minminDe m" "minDe (min_set_next d m) = minDe m"
  by (simp_all add: min_set_de_def min_set_demin_def min_set_next_def)

definition considered :: "global_federate_id \<Rightarrow> 't TimeDependencies \<Rightarrow> 't TimeDependencies" where
  "considered ignore deps = filter (\<lambda>d. fedID d \<noteq> ignore) deps"

definition min_all :: "('t::linorder) time_rep \<Rightarrow> 't TimeDependencies \<Rightarrow> 't minTimeSet" where
  "min_all T deps = foldl (\<lambda>m d. min_set_de d (min_set_demin T d (min_set_next d m))) (minTimeSet_default T) deps"

lemma min_fold_considered:
  "foldl (min_set_step T ignore) (minTimeSet_default T) deps = min_all T (considered ignore deps)"
proof -
  have "foldl (min_set_step T ignore) m deps
      = foldl (\<lambda>m d. min_set_de d (min_set_demin T d (min_set_next d m))) m (considered ignore deps)" for m
    by (induction deps arbitrary: m) (simp_all add: considered_def min_set_step_def)
  then show ?thesis
    by (simp add: min_all_def)
qed

lemma min_all_Nil: "min_all T [] = minTimeSet_default T"
  by (simp add: min_all_def)

lemma min_all_snoc:
  "min_all T (deps @ [d]) = min_set_de d (min_set_demin T d (min_set_next d (min_all T deps)))"
  by (simp add: min_all_def)

lemma min_all_next: "minNext (min_all T deps) = min_next T deps"
proof (induction deps rule: rev_induct)
  case Nil
  then show ?case
    by (simp add: min_all_Nil min_next_def minTimeSet_default_def)
next
  case (snoc d deps)
  have "min_next T (deps @ [d]) = min (min_next T deps) (Tnext d)"
    by (simp add: min_next_def)
  then show ?case
    by (cases "Tnext d" "min_next T deps" rule: linorder_cases)
      (auto simp: min_all_snoc min_set_next_def snoc.IH)
qed

lemma min_all_de: "minDe (min_all T deps) = foldl (\<lambda>m d. min m (dep_Te d)) (maxVal T) deps"
  by (induction deps rule: rev_induct)
    (auto simp: min_all_Nil min_all_snoc minTimeSet_default_def min_set_de_def min_def)

lemma min_all_demin:
  "\<forall>d \<in> set deps. Tnext d \<le> dep_Tdemin d \<Longrightarrow>
    minminDe (min_all T deps) = foldl (\<lambda>m d. min m (dep_Tdemin d)) (maxVal T) deps"
  by (induction deps rule: rev_induct)
    (auto simp: min_all_Nil min_all_snoc minTimeSet_default_def min_set_demin_def min_def)

lemma min_all_state:
  "tState (min_all T deps) = time_granted \<longleftrightarrow>
     (\<exists>d \<in> set deps. Tnext d = min_next T deps \<and> time_state d = time_granted)"
proof (induction deps rule: rev_induct)
  case Nil
  then show ?case
    by (simp add: min_all_Nil minTimeSet_default_def)
next
  case (snoc d deps)
  have low: "\<forall>x \<in> set deps. min_next T deps \<le> Tnext x"
    by (simp add: min_next_spec(1))
  have "min_next T (deps @ [d]) = min (min_next T deps) (Tnext d)"
    by (simp add: min_next_def)
  moreover have "min_next T deps < Tnext d \<or> min_next T deps = Tnext d \<or> Tnext d < min_next T deps"
    by auto
  ultimately show ?case
    using snoc.IH low by (elim disjE) (auto simp: min_all_snoc min_set_next_def min_all_next)
qed

text \<open>A dependency bounds the minima, however many others there are; an announcement of an event
  before the next time counts as minus one.\<close>

lemma min_all_demin_le:
  "d \<in> set deps \<Longrightarrow> minminDe (min_all T deps) \<le> max (dep_Tdemin d) (t_of_int T (- 1))"
  "d \<in> set deps \<Longrightarrow> dep_Tdemin d < Tnext d \<Longrightarrow> minminDe (min_all T deps) \<le> t_of_int T (- 1)"
proof (induction deps rule: rev_induct)
  case (snoc e deps)
  have step: "minminDe (min_all T (deps @ [e])) =
      (if dep_Tdemin e \<ge> Tnext e then min (minminDe (min_all T deps)) (dep_Tdemin e) else t_of_int T (- 1))"
    by (auto simp: min_all_snoc min_set_demin_def)
  { case 1 then show ?case using snoc.IH(1) by (auto simp: step min_le_iff_disj le_max_iff_disj) }
  { case 2 then show ?case using snoc.IH(2) by (auto simp: step min_le_iff_disj) }
qed simp_all

lemma generateMinTimeSet_simps:
  fixes T :: "('t::linorder) time_rep" and deps :: "'t TimeDependencies" and ignore :: global_federate_id
  defines "A \<equiv> min_all T (considered ignore deps)"
  defines "lo \<equiv> min (minDe A) (minminDe A)"
  shows "minDe (generateMinTimeSet T deps restricted ignore) = minDe A"
    and "minminDe (generateMinTimeSet T deps restricted ignore) = lo"
    and "tState (generateMinTimeSet T deps restricted ignore) = tState A"
    and "mt_minFed (generateMinTimeSet T deps restricted ignore) = mt_minFed A"
    and "minNext (generateMinTimeSet T deps restricted ignore)
      = (if \<not> restricted \<and> lo < maxVal T then max (min_next T (considered ignore deps)) lo
         else min_next T (considered ignore deps))"
  by (auto simp: generateMinTimeSet_def min_fold_considered A_def lo_def Let_def min_all_next max_def)

lemma minNext_bound:
  assumes "d \<in> set deps" and "fedID d \<noteq> ignore" and "t_of_int T (- 1) \<le> Tnext d"
  shows "minNext (generateMinTimeSet T deps restricted ignore) \<le> max (Tnext d) (dep_Tdemin d)"
proof -
  have d: "d \<in> set (considered ignore deps)"
    using assms(1,2) by (simp add: considered_def)
  have "min_next T (considered ignore deps) \<le> max (Tnext d) (dep_Tdemin d)"
    using min_next_spec(1) [OF d, of T] by (simp add: le_max_iff_disj)
  moreover have "minminDe (min_all T (considered ignore deps)) \<le> max (Tnext d) (dep_Tdemin d)"
    using min_all_demin_le(1) [OF d, of T] assms(3) by (auto simp: le_max_iff_disj)
  ultimately show ?thesis
    by (simp add: generateMinTimeSet_simps min_le_iff_disj)
qed

section \<open>What is sent\<close>

lemma foldl_send:
  "foldl (\<lambda>s' x. case f x of None \<Rightarrow> s' | Some m \<Rightarrow> ft_sendMessage m s') s xs
    = s\<lparr> ft_sent := ft_sent s @ List.map_filter f xs \<rparr>"
  by (induction xs arbitrary: s) (auto simp: ft_sendMessage_def map_filter_simps split: option.split)

lemma ft_transmit_eq:
  "ft_transmitTimingMessage T msg s =
     (if ft_sender s then s\<lparr> ft_sent := ft_sent s @
        (if messageAction msg = cmd_time_request \<or> messageAction msg = cmd_time_grant
         then List.map_filter (timing_message_for T s msg) (ft_dependents s)
         else map (\<lambda>dep. msg\<lparr> dest_id := dep \<rparr>) (ft_dependents s)) \<rparr> else s)"
proof -
  have "foldl (\<lambda>s' dep. ft_sendMessage (g dep) s') s xs = s\<lparr> ft_sent := ft_sent s @ map g xs \<rparr>"
    for g :: "global_federate_id \<Rightarrow> 'a ActionMessage" and s xs
    by (induction xs arbitrary: s) (simp_all add: ft_sendMessage_def)
  then show ?thesis
    by (simp add: ft_transmitTimingMessage_def foldl_send)
qed

lemma ft_transmit_frame [simp]:
  "ft_time_next (ft_transmitTimingMessage T m s) = ft_time_next s"
  "ft_time_minminDe (ft_transmitTimingMessage T m s) = ft_time_minminDe s"
  "ft_time_minDe (ft_transmitTimingMessage T m s) = ft_time_minDe s"
  "ft_time_state (ft_transmitTimingMessage T m s) = ft_time_state s"
  "ft_lastMinFed (ft_transmitTimingMessage T m s) = ft_lastMinFed s"
  "ft_dependencies (ft_transmitTimingMessage T m s) = ft_dependencies s"
  "ft_dependents (ft_transmitTimingMessage T m s) = ft_dependents s"
  "ft_restrictive_time_policy (ft_transmitTimingMessage T m s) = ft_restrictive_time_policy s"
  by (simp_all add: ft_transmit_eq)

lemma ft_sendTimeRequest_frame [simp]:
  "ft_time_next (ft_sendTimeRequest T s) = ft_time_next s"
  "ft_time_minminDe (ft_sendTimeRequest T s) = ft_time_minminDe s"
  "ft_time_minDe (ft_sendTimeRequest T s) = ft_time_minDe s"
  "ft_time_state (ft_sendTimeRequest T s) = ft_time_state s"
  "ft_lastMinFed (ft_sendTimeRequest T s) = ft_lastMinFed s"
  "ft_dependencies (ft_sendTimeRequest T s) = ft_dependencies s"
  "ft_dependents (ft_sendTimeRequest T s) = ft_dependents s"
  "ft_restrictive_time_policy (ft_sendTimeRequest T s) = ft_restrictive_time_policy s"
  by (simp_all add: ft_sendTimeRequest_def Let_def)

lemma next_not_raised:
  "\<not> (\<not> restricted \<and> minminDe (generateMinTimeSet T deps restricted i) < maxVal T
      \<and> minNext (generateMinTimeSet T deps restricted i) < minminDe (generateMinTimeSet T deps restricted i))"
  by (auto simp: generateMinTimeSet_simps min_less_iff_disj)

text \<open>A coordinator that has just been updated has nothing new to say.\<close>

lemma ft_updateTimeFactors_settled:
  fixes s :: "('t::linorder) ForwardingTimeCoordinator" and T :: "'t time_rep"
  defines "m \<equiv> generateMinTimeSet T (ft_dependencies s) (ft_restrictive_time_policy s) default_global_federate_id"
  assumes "ft_time_state s = tState m" and "ft_time_minDe s = minDe m" and "ft_time_minminDe s = minminDe m"
    and "ft_time_next s = minNext m" and "ft_lastMinFed s = mt_minFed m"
  shows "ft_updateTimeFactors T s = s"
proof -
  have "\<not> (\<not> ft_restrictive_time_policy s \<and> minminDe m < maxVal T \<and> minNext m < minminDe m)"
    unfolding m_def by (rule next_not_raised)
  then show ?thesis
    using assms(2-6) unfolding ft_updateTimeFactors_def m_def [symmetric] by (auto simp: Let_def)
qed

lemma ft_updateTimeFactors_fields:
  fixes s :: "('t::linorder) ForwardingTimeCoordinator" and T :: "'t time_rep"
  defines "m \<equiv> generateMinTimeSet T (ft_dependencies s) (ft_restrictive_time_policy s) default_global_federate_id"
  shows "ft_time_state (ft_updateTimeFactors T s) = tState m"
    and "ft_time_minDe (ft_updateTimeFactors T s) = minDe m"
    and "ft_time_minminDe (ft_updateTimeFactors T s) = minminDe m"
    and "ft_time_next (ft_updateTimeFactors T s) = minNext m"
    and "ft_lastMinFed (ft_updateTimeFactors T s) = mt_minFed m"
    and "ft_dependencies (ft_updateTimeFactors T s) = ft_dependencies s"
    and "ft_dependents (ft_updateTimeFactors T s) = ft_dependents s"
    and "ft_restrictive_time_policy (ft_updateTimeFactors T s) = ft_restrictive_time_policy s"
proof -
  have "\<not> (\<not> ft_restrictive_time_policy s \<and> minminDe m < maxVal T \<and> minNext m < minminDe m)"
    unfolding m_def by (rule next_not_raised)
  then show "ft_time_next (ft_updateTimeFactors T s) = minNext m"
    unfolding ft_updateTimeFactors_def m_def [symmetric] by (auto simp: Let_def)
qed (simp_all add: ft_updateTimeFactors_def m_def Let_def)

section \<open>Registries, invariant and runs\<close>

definition ft_inv :: "('t::linorder) ForwardingTimeCoordinator \<Rightarrow> bool" where
  "ft_inv s \<longleftrightarrow> deps_ok (ft_dependencies s) \<and> strictly_sorted (ft_dependents s)"

interpretation ft_dependent_reg: id_registry ft_addDependent ft_removeDependent ft_dependents
  by unfold_locales
    (simp_all add: ft_addDependent_def ft_removeDependent_def split_beta
      vec_insert_spec [where key = "\<lambda>f. f" and mk = "\<lambda>f. f", simplified]
      vec_erase_spec [where key = "\<lambda>f. f", simplified])

interpretation ft_dependency_reg: id_registry "ft_addDependency T" ft_removeDependency
    "\<lambda>s. dep_ids (ft_dependencies s)" for T
  by unfold_locales
    (simp_all add: ft_addDependency_def ft_removeDependency_def split_beta dep_reg.add_new dep_reg.add_set
      dep_reg.add_sorted dep_reg.remove_set dep_reg.remove_sorted del: set_map)

lemma ft_registry_frame [simp]:
  "ft_dependents (snd (ft_addDependency T f s)) = ft_dependents s"
  "ft_dependents (ft_removeDependency f s) = ft_dependents s"
  "ft_dependencies (snd (ft_addDependent f s)) = ft_dependencies s"
  "ft_dependencies (ft_removeDependent f s) = ft_dependencies s"
  by (simp_all add: ft_addDependency_def ft_removeDependency_def ft_addDependent_def ft_removeDependent_def
      Let_def split_beta)

lemma ft_inv_registry:
  assumes "ft_inv s"
  shows "ft_inv (snd (ft_addDependency T f s))" "ft_inv (ft_removeDependency f s)"
    "ft_inv (snd (ft_addDependent f s))" "ft_inv (ft_removeDependent f s)"
proof -
  have s: "strictly_sorted (dep_ids (ft_dependencies s))" "strictly_sorted (ft_dependents s)"
    "list_all dep_ok (ft_dependencies s)"
    using assms by (simp_all add: ft_inv_def deps_ok_def)
  show "ft_inv (snd (ft_addDependency T f s))" "ft_inv (ft_removeDependency f s)"
    using s ft_dependency_reg.add_sorted [OF s(1)] ft_dependency_reg.remove_sorted [OF s(1)]
    by (simp_all add: ft_inv_def deps_ok_def)
      (simp_all add: ft_addDependency_def ft_removeDependency_def split_beta addDependency_ok removeDependency_ok)
  show "ft_inv (snd (ft_addDependent f s))" "ft_inv (ft_removeDependent f s)"
    using s ft_dependent_reg.add_sorted [OF s(2)] ft_dependent_reg.remove_sorted [OF s(2)]
    by (simp_all add: ft_inv_def deps_ok_def)
qed

lemma ft_processTimeMessage_inv:
  assumes "ft_inv s"
  shows "ft_inv (snd (ft_processTimeMessage T cmd s))"
proof -
  have "ft_inv (s'\<lparr> ft_dependencies := snd (updateTime T cmd (ft_dependencies s')) \<rparr>)" if "ft_inv s'" for s'
    using that by (simp add: ft_inv_def deps_ok_def updateTime_ok)
  then show ?thesis
    using assms by (simp add: ft_processTimeMessage_def Let_def split_beta ft_inv_registry)
qed

lemma ft_inv_static:
  "ft_dependencies s' = ft_dependencies s \<Longrightarrow> ft_dependents s' = ft_dependents s \<Longrightarrow> ft_inv s' = ft_inv s"
  by (simp add: ft_inv_def)

lemma ft_disconnect_inv:
  assumes "ft_inv s"
  shows "ft_inv (ft_disconnect T le s)"
proof -
  have send: "ft_inv (ft_sendMessage m s') = ft_inv s'" for m and s' :: "'a ForwardingTimeCoordinator"
    by (simp add: ft_inv_def ft_sendMessage_def)
  have fold: "ft_inv s1 \<Longrightarrow> ft_inv (snd (foldl (\<lambda>(multi, s1) fed.
        if fed = ft_source_id s1 then (multi, snd (ft_processTimeMessage T (bye\<lparr> dest_id := fed \<rparr>) s1))
        else (snd (appendMessage T le multi (bye\<lparr> dest_id := fed \<rparr>)), s1)) (multi, s1) feds))" for bye multi s1 feds
    by (induction feds arbitrary: multi s1) (auto simp: ft_processTimeMessage_inv)
  show ?thesis
    using assms fold
    by (auto simp: ft_disconnect_def Let_def ft_processTimeMessage_inv send split_beta split: list.split)
qed

inductive ft_step :: "('t::linorder) time_rep \<Rightarrow> bool \<Rightarrow> 't ForwardingTimeCoordinator
    \<Rightarrow> 't ForwardingTimeCoordinator \<Rightarrow> bool" for T le where
  ft_entering: "ft_step T le s (ft_enteringExecMode T s)"
| ft_exec_entry: "ft_step T le s (snd (ft_checkExecEntry T s))"
| ft_factors: "ft_step T le s (ft_updateTimeFactors T s)"
| ft_time_message: "ft_step T le s (snd (ft_processTimeMessage T cmd s))"
| ft_dependency_message: "ft_step T le s (ft_processDependencyUpdateMessage T cmd s)"
| ft_leave: "ft_step T le s (ft_disconnect T le s)"
| ft_set_source: "ft_step T le s (s\<lparr> ft_source_id := i \<rparr>)"
| ft_set_sender: "ft_step T le s (s\<lparr> ft_sender := True \<rparr>)"
| ft_set_policy: "ft_step T le s (s\<lparr> ft_restrictive_time_policy := b, ft_ignoreMinFed := c \<rparr>)"

lemma ft_processDependencyUpdateMessage_inv:
  "ft_inv s \<Longrightarrow> ft_inv (ft_processDependencyUpdateMessage T cmd s)"
  by (simp add: ft_processDependencyUpdateMessage_def ft_inv_registry)

lemma ft_inv_frame [simp]:
  "ft_inv (ft_enteringExecMode T s) = ft_inv s" "ft_inv (snd (ft_checkExecEntry T s)) = ft_inv s"
  "ft_inv (ft_updateTimeFactors T s) = ft_inv s" "ft_inv (s\<lparr> ft_source_id := i \<rparr>) = ft_inv s"
  "ft_inv (s\<lparr> ft_sender := b \<rparr>) = ft_inv s"
  "ft_inv (s\<lparr> ft_restrictive_time_policy := b, ft_ignoreMinFed := c \<rparr>) = ft_inv s"
  by (simp_all add: ft_inv_def ft_updateTimeFactors_fields ft_enteringExecMode_def ft_checkExecEntry_def Let_def)

lemma ft_step_inv: "ft_step T le s s' \<Longrightarrow> ft_inv s \<Longrightarrow> ft_inv s'"
  by (induction rule: ft_step.induct)
    (simp_all add: ft_processTimeMessage_inv ft_processDependencyUpdateMessage_inv ft_disconnect_inv)

lemma ft_reachable_inv:
  "(ft_step T le)\<^sup>*\<^sup>* (ForwardingTimeCoordinator_default T) s \<Longrightarrow> ft_inv s"
proof (induction rule: rtranclp_induct)
  case base
  then show ?case
    by (simp add: ForwardingTimeCoordinator_default_def ft_inv_def deps_ok_def)
qed (rule ft_step_inv)

interpretation ft_tracker: dependency_tracker "ft_processDependencyUpdateMessage T"
    "\<lambda>s. set (dep_ids (ft_dependencies s))" "\<lambda>s. set (ft_dependents s)" ft_inv for T
proof
  fix s :: "'a ForwardingTimeCoordinator" and m
  assume inv: "ft_inv s"
  show "ft_inv (ft_processDependencyUpdateMessage T m s)"
    by (rule ft_processDependencyUpdateMessage_inv [OF inv])
  have deps: "strictly_sorted (dep_ids (ft_dependencies s))" and dents: "strictly_sorted (ft_dependents s)"
    using inv by (simp_all add: ft_inv_def deps_ok_def)
  show "set (dep_ids (ft_dependencies (ft_processDependencyUpdateMessage T m s)))
      = dependency_spec m (set (dep_ids (ft_dependencies s)))"
    by (simp add: ft_processDependencyUpdateMessage_def dependency_spec_def
        ft_dependency_reg.add_set [OF deps] ft_dependency_reg.remove_set [OF deps] cmd_defs del: set_map)
  show "set (ft_dependents (ft_processDependencyUpdateMessage T m s)) = dependent_spec m (set (ft_dependents s))"
    by (simp add: ft_processDependencyUpdateMessage_def dependent_spec_def dents
        ft_dependent_reg.add_set ft_dependent_reg.remove_set cmd_defs)
qed

section \<open>A dependency that leaves\<close>

definition leave_dep :: "('t::linorder) time_rep \<Rightarrow> global_federate_id \<Rightarrow> 't DependencyInfo \<Rightarrow> 't DependencyInfo" where
  "leave_dep T f d = (if fedID d = f then process_leave T time_granted d else d)"

lemma updateTime_leave:
  assumes "strictly_sorted (dep_ids deps)" and "messageAction m \<in> set leaving_actions"
  shows "snd (updateTime T m deps) = map (leave_dep T (source_id m)) deps"
proof -
  have dep: "msg_dependency m = source_id m"
    using assms(2) by (auto simp: msg_dependency_def leaving_actions_def cmd_defs)
  from updateTime_cases [of T m deps] show ?thesis
  proof (elim disjE conjE exE)
    assume "updateTime T m deps = (False, deps)" and "vec_find fedID deps (msg_dependency m) = None"
    then show ?thesis
      using vec_find_None [OF assms(1), of "source_id m"] dep by (auto simp: leave_dep_def image_iff intro!: map_idI [symmetric])
  next
    fix i
    assume i: "i < length deps" "fedID (deps ! i) = msg_dependency m"
      and u: "updateTime T m deps = (fst (ProcessMessage T m (deps ! i)), deps[i := snd (ProcessMessage T m (deps ! i))])"
    have "fedID (deps ! j) = source_id m \<longleftrightarrow> j = i" if "j < length deps" for j
      using i that assms(1) dep nth_eq_iff_index_eq [of "dep_ids deps" j i] by (auto simp: strict_sorted_iff)
    then show ?thesis
      using i by (auto simp: u ProcessMessage_leave [OF assms(2)] leave_dep_def nth_list_update intro: nth_equalityI)
  qed
qed

lemma min_all_leave:
  assumes "time_bounded T"
  shows "minDe (min_all T (map (leave_dep T f) deps)) = minDe (min_all T (filter (\<lambda>d. fedID d \<noteq> f) deps))
    \<and> minminDe (min_all T (map (leave_dep T f) deps)) = minminDe (min_all T (filter (\<lambda>d. fedID d \<noteq> f) deps))
    \<and> min_next T (map (leave_dep T f) deps) = min_next T (filter (\<lambda>d. fedID d \<noteq> f) deps)"
proof (induction deps rule: rev_induct)
  case (snoc d deps)
  have "t \<le> maxVal T" for t
    using assms by (rule time_boundedD)
  then show ?case
    using snoc.IH
    by (auto simp: min_all_snoc leave_dep_def process_leave_def min_set_de_def min_set_demin_def min_next_def min_absorb1
        simp flip: not_le)
qed simp

lemma considered_leave:
  "considered i (map (leave_dep T f) deps) = map (leave_dep T f) (considered i deps)"
  by (simp add: considered_def filter_map comp_def leave_dep_def process_leave_def if_distrib [of fedID] cong: if_cong)

section \<open>Properties of the forwarding coordinator\<close>

lemma foldl_min_Min:
  fixes f :: "'a \<Rightarrow> 't::linorder"
  shows "foldl (\<lambda>m d. min m (f d)) a xs = Min (insert a (f ` set xs))"
  using foldl_min_spec(1,3) [of f a xs] foldl_min_spec(2) [of _ xs f a]
  by (intro Min_eqI [symmetric]) auto

text \<open>The minima of \<open>generateMinTimeSet\<close>. If every announced event time is at or after the
  announced next time, the three times are the minima over all dependencies but the ignored one, the
  next time being raised to the earliest possible event unless the policy is restrictive, and the
  state is granted exactly if a dependency at the minimal time is granted.\<close>

lemma min_time_set_spec:
  fixes T :: "('t::linorder) time_rep" and deps :: "'t TimeDependencies" and ignore :: global_federate_id
  defines "A \<equiv> {d \<in> set deps. fedID d \<noteq> ignore}"
  defines "lo \<equiv> Min (insert (maxVal T) (Tnext ` A))"
    and "ev \<equiv> min (Min (insert (maxVal T) (dep_Te ` A))) (Min (insert (maxVal T) (dep_Tdemin ` A)))"
  assumes "\<forall>d \<in> set deps. Tnext d \<le> dep_Tdemin d"
  shows "minDe (generateMinTimeSet T deps restricted ignore) = Min (insert (maxVal T) (dep_Te ` A))
    \<and> minminDe (generateMinTimeSet T deps restricted ignore) = ev
    \<and> minNext (generateMinTimeSet T deps restricted ignore)
        = (if \<not> restricted \<and> ev < maxVal T then max lo ev else lo)
    \<and> (tState (generateMinTimeSet T deps restricted ignore) = time_granted
        \<longleftrightarrow> (\<exists>d \<in> A. Tnext d = lo \<and> time_state d = time_granted))"
proof -
  have A: "set (considered ignore deps) = A"
    by (auto simp: considered_def A_def)
  have "\<forall>d \<in> set (considered ignore deps). Tnext d \<le> dep_Tdemin d"
    using assms(4) by (simp add: considered_def)
  note demin = min_all_demin [OF this]
  show ?thesis
    by (simp add: generateMinTimeSet_simps min_all_de demin min_all_state min_next_def foldl_min_Min A
        lo_def ev_def del: Min_insert)
qed

definition relayed_deps :: "ticks TimeDependencies" where
  "relayed_deps = [(mk_DependencyInfo tick_rep (Global_Federate_Id 131073))
        \<lparr> Tnext := Ticks 30, dep_Te := Ticks 50, dep_Tdemin := Ticks 40, time_state := time_requested \<rparr>,
      (mk_DependencyInfo tick_rep (Global_Federate_Id 131074))
        \<lparr> Tnext := Ticks 20, dep_Te := Ticks 60, dep_Tdemin := Ticks 60, time_state := time_granted \<rparr>]"

lemma min_time_set_spec_example:
  "minNext (generateMinTimeSet tick_rep relayed_deps False (Global_Federate_Id 0)) = Ticks 40"
proof -
  have valid: "\<forall>d \<in> set relayed_deps. Tnext d \<le> dep_Tdemin d"
    by (simp add: relayed_deps_def)
  have A: "{d \<in> set relayed_deps. fedID d \<noteq> Global_Federate_Id 0} = set relayed_deps"
    by (auto simp: relayed_deps_def)
  show ?thesis
    using min_time_set_spec [OF valid, of tick_rep False "Global_Federate_Id 0"] unfolding A
    by (simp add: relayed_deps_def min_def max_def)
qed

lemma map_filter_SomeD: "y \<in> set (List.map_filter f xs) \<Longrightarrow> \<exists>x \<in> set xs. f x = Some y"
  by (auto simp: List.map_filter_def)

lemma timing_message_dest: "timing_message_for T s msg dep = Some m \<Longrightarrow> dest_id m = dep"
  by (auto simp: timing_message_for_def Let_def generateTimeRequestIgnoreDependency_def setAction_def
      msg_clearFlag_def msg_setFlag_def split: if_splits option.splits)

lemma timing_message_bound:
  assumes "timing_message_for T s msg dep = Some m" and "d \<in> set (ft_dependencies s)" and "fedID d \<noteq> dep"
    and "t_of_int T (- 1) \<le> Tnext d" and "actionTime msg \<le> max (Tnext d) (dep_Tdemin d)"
  shows "actionTime m \<le> max (Tnext d) (dep_Tdemin d)"
  using assms minNext_bound [OF assms(2,3,4), of "ft_restrictive_time_policy s"]
  by (auto simp: timing_message_for_def Let_def generateTimeRequestIgnoreDependency_def setAction_def
      msg_clearFlag_def msg_setFlag_def split: if_splits option.splits)

lemma ft_sendTimeRequest_sent:
  assumes "\<forall>d \<in> set (ft_dependencies s). t_of_int T (- 1) \<le> Tnext d
      \<and> (fedID d \<noteq> default_global_federate_id \<longrightarrow> ft_time_next s \<le> max (Tnext d) (dep_Tdemin d))"
  shows "\<exists>ms. ft_sent (ft_sendTimeRequest T s) = ft_sent s @ ms
    \<and> (\<forall>m \<in> set ms. dest_id m \<in> set (ft_dependents s)
        \<and> (\<forall>d \<in> set (ft_dependencies s). fedID d \<noteq> default_global_federate_id \<and> fedID d \<noteq> dest_id m
             \<longrightarrow> actionTime m \<le> max (Tnext d) (dep_Tdemin d)))"
proof (cases "ft_sender s")
  case True
  define ms where "ms msg = List.map_filter (timing_message_for T s msg) (ft_dependents s)" for msg
  have dest: "dest_id m \<in> set (ft_dependents s)" if "m \<in> set (ms msg)" for m msg
    using that timing_message_dest by (fastforce simp: ms_def dest!: map_filter_SomeD)
  have bound: "actionTime m \<le> max (Tnext d) (dep_Tdemin d)"
    if "m \<in> set (ms msg)" "actionTime msg = ft_time_next s" "d \<in> set (ft_dependencies s)"
      "fedID d \<noteq> default_global_federate_id" "fedID d \<noteq> dest_id m" for m msg d
    using that assms timing_message_bound timing_message_dest
    by (fastforce simp: ms_def dest!: map_filter_SomeD)
  define upd where "upd = (if ft_time_state s = time_granted
        then (mk_message T cmd_time_grant)\<lparr> source_id := ft_source_id s, actionTime := ft_time_next s \<rparr>
        else (mk_message T cmd_time_request)\<lparr> source_id := ft_source_id s, actionTime := ft_time_next s,
               Te := ft_time_minDe s, Tdemin := ft_time_minminDe s \<rparr>)"
  define msg where "msg = (if ft_iterating s then msg_setFlag iteration_requested_flag upd else upd)"
  have act: "actionTime msg = ft_time_next s"
    "messageAction msg = cmd_time_request \<or> messageAction msg = cmd_time_grant"
    by (simp_all add: msg_def upd_def msg_setFlag_def)
  have "ft_sendTimeRequest T s = ft_transmitTimingMessage T msg s"
    using True unfolding ft_sendTimeRequest_def Let_def upd_def [symmetric] msg_def [symmetric] by simp
  then have "ft_sent (ft_sendTimeRequest T s) = ft_sent s @ ms msg"
    using True act(2) by (simp add: ft_transmit_eq ms_def)
  with dest bound [OF _ act(1)] show ?thesis
    by blast
qed (auto simp: ft_sendTimeRequest_def)

lemma ft_updateTimeFactors_cases:
  obtains s1 where "ft_sent s1 = ft_sent s" and "ft_dependencies s1 = ft_dependencies s"
    and "ft_dependents s1 = ft_dependents s"
    and "ft_time_next s1 = minNext (generateMinTimeSet T (ft_dependencies s) (ft_restrictive_time_policy s)
           default_global_federate_id)"
    and "ft_updateTimeFactors T s = s1 \<or> ft_updateTimeFactors T s = ft_sendTimeRequest T s1"
proof -
  define m where "m = generateMinTimeSet T (ft_dependencies s) (ft_restrictive_time_policy s)
      default_global_federate_id"
  have "\<not> (\<not> ft_restrictive_time_policy s \<and> minminDe m < maxVal T \<and> minNext m < minminDe m)"
    unfolding m_def by (rule next_not_raised)
  then show ?thesis
    by (intro that [of "s\<lparr> ft_time_state := tState m, ft_time_next := minNext m, ft_time_minDe := minDe m,
        ft_time_minminDe := minminDe m, ft_lastMinFed := mt_minFed m \<rparr>"])
      (auto simp: ft_updateTimeFactors_def Let_def m_def [symmetric])
qed

text \<open>C6: a forwarded time never runs ahead of what the others may still do. Every message that
  \<open>updateTimeFactors\<close> sends goes to a dependent and carries a time that is not after the later of the
  next time and the event time of any dependency other than its receiver.\<close>

theorem forwarded_time_safe:
  assumes "\<forall>d \<in> set (ft_dependencies s). t_of_int T (- 1) \<le> Tnext d"
  shows "\<exists>ms. ft_sent (ft_updateTimeFactors T s) = ft_sent s @ ms
    \<and> (\<forall>m \<in> set ms. dest_id m \<in> set (ft_dependents s)
        \<and> (\<forall>d \<in> set (ft_dependencies s). fedID d \<noteq> default_global_federate_id \<and> fedID d \<noteq> dest_id m
             \<longrightarrow> actionTime m \<le> max (Tnext d) (dep_Tdemin d)))"
proof (rule ft_updateTimeFactors_cases [of s T])
  fix s1
  assume s1: "ft_sent s1 = ft_sent s" "ft_dependencies s1 = ft_dependencies s" "ft_dependents s1 = ft_dependents s"
    and nxt: "ft_time_next s1 = minNext (generateMinTimeSet T (ft_dependencies s) (ft_restrictive_time_policy s)
          default_global_federate_id)"
    and res: "ft_updateTimeFactors T s = s1 \<or> ft_updateTimeFactors T s = ft_sendTimeRequest T s1"
  have "\<forall>d \<in> set (ft_dependencies s1). t_of_int T (- 1) \<le> Tnext d
      \<and> (fedID d \<noteq> default_global_federate_id \<longrightarrow> ft_time_next s1 \<le> max (Tnext d) (dep_Tdemin d))"
    using assms by (intro ballI conjI impI) (simp_all add: s1 nxt minNext_bound)
  from ft_sendTimeRequest_sent [OF this] have "\<exists>ms. ft_sent (ft_sendTimeRequest T s1) = ft_sent s @ ms
    \<and> (\<forall>m \<in> set ms. dest_id m \<in> set (ft_dependents s)
        \<and> (\<forall>d \<in> set (ft_dependencies s). fedID d \<noteq> default_global_federate_id \<and> fedID d \<noteq> dest_id m
             \<longrightarrow> actionTime m \<le> max (Tnext d) (dep_Tdemin d)))"
    by (simp add: s1)
  with res show ?thesis
    by (elim disjE) (simp_all add: s1 exI [of _ "[]"])
qed

definition relay :: "ticks ForwardingTimeCoordinator" where
  "relay = (ForwardingTimeCoordinator_default tick_rep)
     \<lparr> ft_sender := True, ft_dependencies := relayed_deps, ft_dependents := [Global_Federate_Id 131073] \<rparr>"

theorem forwarded_time_safe_witness:
  "\<exists>ms. ft_sent (ft_updateTimeFactors tick_rep relay) = ms
    \<and> (\<forall>m \<in> set ms. dest_id m = Global_Federate_Id 131073 \<and> actionTime m \<le> Ticks 60)"
proof -
  have "\<forall>d \<in> set (ft_dependencies relay). t_of_int tick_rep (- 1) \<le> Tnext d"
    by (simp add: relay_def relayed_deps_def tick_rep_def)
  from forwarded_time_safe [OF this] show ?thesis
    by (auto simp: relay_def relayed_deps_def ForwardingTimeCoordinator_default_def default_global_federate_id_def
        invalid_global_id_def max_def)
qed

text \<open>C30: \<open>updateTimeFactors\<close> settles at once: run again with no message in between, it changes and sends
  nothing.\<close>

theorem forwarding_quiescent:
  "ft_updateTimeFactors T (ft_updateTimeFactors T s) = ft_updateTimeFactors T s"
  by (rule ft_updateTimeFactors_settled) (simp_all add: ft_updateTimeFactors_fields)

text \<open>C31: a dependency that leaves no longer holds anyone back. After its disconnect it is not sent
  anything, and the times forwarded are those of the remaining dependencies.\<close>

theorem forwarding_leave_releases:
  assumes "(ft_step T le)\<^sup>*\<^sup>* (ForwardingTimeCoordinator_default T) s" and "time_bounded T"
    and "messageAction m \<in> set ft_leaving_actions"
  shows "source_id m \<notin> set (ft_dependents (snd (ft_processTimeMessage T m s)))
    \<and> minNext (generateMinTimeSet T (ft_dependencies (snd (ft_processTimeMessage T m s))) r i)
        = minNext (generateMinTimeSet T (filter (\<lambda>d. fedID d \<noteq> source_id m) (ft_dependencies s)) r i)
    \<and> minminDe (generateMinTimeSet T (ft_dependencies (snd (ft_processTimeMessage T m s))) r i)
        = minminDe (generateMinTimeSet T (filter (\<lambda>d. fedID d \<noteq> source_id m) (ft_dependencies s)) r i)
    \<and> minDe (generateMinTimeSet T (ft_dependencies (snd (ft_processTimeMessage T m s))) r i)
        = minDe (generateMinTimeSet T (filter (\<lambda>d. fedID d \<noteq> source_id m) (ft_dependencies s)) r i)"
proof -
  have sorted: "strictly_sorted (dep_ids (ft_dependencies s))" "strictly_sorted (ft_dependents s)"
    using ft_reachable_inv [OF assms(1)] by (simp_all add: ft_inv_def deps_ok_def)
  have "messageAction m \<in> set leaving_actions"
    using assms(3) by (auto simp: ft_leaving_actions_def leaving_actions_def)
  note leave = updateTime_leave [OF sorted(1) this, of T]
  have deps: "ft_dependencies (snd (ft_processTimeMessage T m s))
      = map (leave_dep T (source_id m)) (ft_dependencies s)"
    using assms(3) leave by (simp add: ft_processTimeMessage_def Let_def split_beta)
  have filt: "considered i (filter (\<lambda>d. fedID d \<noteq> source_id m) (ft_dependencies s))
      = filter (\<lambda>d. fedID d \<noteq> source_id m) (considered i (ft_dependencies s))"
    by (simp add: considered_def conj_commute)
  have "source_id m \<notin> set (ft_dependents (snd (ft_processTimeMessage T m s)))"
    using assms(3) sorted(2) ft_dependent_reg.remove_set [OF sorted(2), of "source_id m"]
    by (simp add: ft_processTimeMessage_def Let_def split_beta)
  then show ?thesis
    using min_all_leave [OF assms(2), of "source_id m" "considered i (ft_dependencies s)"]
    by (simp add: generateMinTimeSet_simps deps considered_leave filt)
qed

theorem forwarding_leave_releases_witness:
  "Global_Federate_Id 1 \<notin> set (ft_dependents (snd (ft_processTimeMessage tick_rep
      ((mk_message tick_rep cmd_disconnect)\<lparr> source_id := Global_Federate_Id 1 \<rparr>)
      (ForwardingTimeCoordinator_default tick_rep))))"
proof -
  have "messageAction ((mk_message tick_rep cmd_disconnect)\<lparr> source_id := Global_Federate_Id 1 \<rparr>)
      \<in> set ft_leaving_actions"
    by (simp add: ft_leaving_actions_def)
  from forwarding_leave_releases [OF rtranclp.rtrancl_refl tick_bounded this] show ?thesis
    by simp
qed

text \<open>C32: in every reachable state of a forwarding coordinator the dependencies and the dependents are
  strictly ordered, and any further sequence of dependency update messages has the effect of the
  corresponding set operations.\<close>

theorem forwarding_tracks:
  assumes "(ft_step T le)\<^sup>*\<^sup>* (ForwardingTimeCoordinator_default T) s"
  shows "strictly_sorted (ft_getDependencies s) \<and> strictly_sorted (ft_dependents s)
    \<and> set (ft_getDependencies (foldl (\<lambda>s m. ft_processDependencyUpdateMessage T m s) s ms))
        = foldl (\<lambda>A m. dependency_spec m A) (set (ft_getDependencies s)) ms
    \<and> set (ft_dependents (foldl (\<lambda>s m. ft_processDependencyUpdateMessage T m s) s ms))
        = foldl (\<lambda>A m. dependent_spec m A) (set (ft_dependents s)) ms"
  using ft_tracker.run_tracks [OF ft_reachable_inv [OF assms], of T ms] ft_reachable_inv [OF assms]
  by (simp add: ft_getDependencies_def ft_inv_def deps_ok_def del: set_map)

theorem forwarding_tracks_witness:
  "set (ft_dependents (foldl (\<lambda>s m. ft_processDependencyUpdateMessage tick_rep m s)
     (ForwardingTimeCoordinator_default tick_rep)
     [(mk_message tick_rep cmd_add_dependent)\<lparr> source_id := Global_Federate_Id 131073 \<rparr>,
      (mk_message tick_rep cmd_remove_interdependency)\<lparr> source_id := Global_Federate_Id 131073 \<rparr>])) = {}"
proof -
  have start: "ft_dependents (ForwardingTimeCoordinator_default tick_rep) = []"
    by (simp add: ForwardingTimeCoordinator_default_def)
  show ?thesis
    using forwarding_tracks [OF rtranclp.rtrancl_refl, of tick_rep
      "[(mk_message tick_rep cmd_add_dependent)\<lparr> source_id := Global_Federate_Id 131073 \<rparr>,
        (mk_message tick_rep cmd_remove_interdependency)\<lparr> source_id := Global_Federate_Id 131073 \<rparr>]"]
    by (simp add: start dependent_spec_def cmd_defs)
qed

end
