(* ===== verification/Unknown_Handles.thy ===== *)
theory Unknown_Handles
  imports Handle_Manager
begin

text \<open>
  The bookkeeping of links whose other end is not known yet (\<open>UnknownHandleManager.hpp\<close>,
  \<open>UnknownHandleManager.cpp\<close>). The unordered multimaps are lists of key and value pairs; the order in
  which the library visits the entries is not specified, the lists visit them in order of
  insertion, and the results are about multisets of entries.
\<close>

section \<open>State and operations\<close>

type_synonym targetInfo = "global_handle \<times> uint16"

record UnknownHandleManager =
  unknown_publications :: "(string \<times> targetInfo) list"
  unknown_endpoints :: "(string \<times> targetInfo) list"
  unknown_inputs :: "(string \<times> targetInfo) list"
  unknown_filters :: "(string \<times> targetInfo) list"
  unknown_links :: "(string \<times> string) list"
  unknown_src_filters :: "(string \<times> string) list"
  unknown_dest_filters :: "(string \<times> string) list"

definition UnknownHandleManager_empty :: UnknownHandleManager where
  "UnknownHandleManager_empty =
     \<lparr> unknown_publications = [], unknown_endpoints = [], unknown_inputs = [], unknown_filters = [],
       unknown_links = [], unknown_src_filters = [], unknown_dest_filters = [] \<rparr>"

definition addUnknownPublication :: "string \<Rightarrow> global_handle \<Rightarrow> uint16 \<Rightarrow> UnknownHandleManager \<Rightarrow> UnknownHandleManager" where
  "addUnknownPublication key target flags s =
     s\<lparr> unknown_publications := unknown_publications s @ [(key, target, flags)] \<rparr>"

definition addUnknownInput :: "string \<Rightarrow> global_handle \<Rightarrow> uint16 \<Rightarrow> UnknownHandleManager \<Rightarrow> UnknownHandleManager" where
  "addUnknownInput key target flags s = s\<lparr> unknown_inputs := unknown_inputs s @ [(key, target, flags)] \<rparr>"

definition addUnknownEndpoint :: "string \<Rightarrow> global_handle \<Rightarrow> uint16 \<Rightarrow> UnknownHandleManager \<Rightarrow> UnknownHandleManager" where
  "addUnknownEndpoint key target flags s =
     s\<lparr> unknown_endpoints := unknown_endpoints s @ [(key, target, flags)] \<rparr>"

definition addUnknownFilter :: "string \<Rightarrow> global_handle \<Rightarrow> uint16 \<Rightarrow> UnknownHandleManager \<Rightarrow> UnknownHandleManager" where
  "addUnknownFilter key target flags s = s\<lparr> unknown_filters := unknown_filters s @ [(key, target, flags)] \<rparr>"

definition addDataLink :: "string \<Rightarrow> string \<Rightarrow> UnknownHandleManager \<Rightarrow> UnknownHandleManager" where
  "addDataLink source target s = s\<lparr> unknown_links := unknown_links s @ [(source, target)] \<rparr>"

definition addSourceFilterLink :: "string \<Rightarrow> string \<Rightarrow> UnknownHandleManager \<Rightarrow> UnknownHandleManager" where
  "addSourceFilterLink filt endpoint s = s\<lparr> unknown_src_filters := unknown_src_filters s @ [(filt, endpoint)] \<rparr>"

definition addDestinationFilterLink :: "string \<Rightarrow> string \<Rightarrow> UnknownHandleManager \<Rightarrow> UnknownHandleManager" where
  "addDestinationFilterLink filt endpoint s =
     s\<lparr> unknown_dest_filters := unknown_dest_filters s @ [(filt, endpoint)] \<rparr>"

definition getTargets :: "(string \<times> 'v) list \<Rightarrow> string \<Rightarrow> 'v list" where
  "getTargets tmap target = map snd (filter (\<lambda>e. fst e = target) tmap)"

definition erase_key :: "string \<Rightarrow> (string \<times> 'v) list \<Rightarrow> (string \<times> 'v) list" where
  "erase_key key tmap = filter (\<lambda>e. fst e \<noteq> key) tmap"

definition checkForInputs :: "string \<Rightarrow> UnknownHandleManager \<Rightarrow> targetInfo list" where
  "checkForInputs newInput s = getTargets (unknown_inputs s) newInput"

definition checkForPublications :: "string \<Rightarrow> UnknownHandleManager \<Rightarrow> targetInfo list" where
  "checkForPublications newPublication s = getTargets (unknown_publications s) newPublication"

definition checkForLinks :: "string \<Rightarrow> UnknownHandleManager \<Rightarrow> string list" where
  "checkForLinks newSource s = getTargets (unknown_links s) newSource"

definition checkForEndpoints :: "string \<Rightarrow> UnknownHandleManager \<Rightarrow> targetInfo list" where
  "checkForEndpoints newEndpoint s = getTargets (unknown_endpoints s) newEndpoint"

definition checkForFilters :: "string \<Rightarrow> UnknownHandleManager \<Rightarrow> targetInfo list" where
  "checkForFilters newFilter s = getTargets (unknown_filters s) newFilter"

definition checkForFilterSourceTargets :: "string \<Rightarrow> UnknownHandleManager \<Rightarrow> string list" where
  "checkForFilterSourceTargets newFilter s = getTargets (unknown_src_filters s) newFilter"

definition checkForFilterDestTargets :: "string \<Rightarrow> UnknownHandleManager \<Rightarrow> string list" where
  "checkForFilterDestTargets newFilter s = getTargets (unknown_dest_filters s) newFilter"

definition hasUnknowns :: "UnknownHandleManager \<Rightarrow> bool" where
  "hasUnknowns s \<longleftrightarrow> \<not> (unknown_publications s = [] \<and> unknown_endpoints s = [] \<and> unknown_inputs s = []
     \<and> unknown_filters s = [] \<and> unknown_links s = [] \<and> unknown_dest_filters s = [] \<and> unknown_src_filters s = [])"

definition target_optional :: "string \<times> targetInfo \<Rightarrow> bool" where
  "target_optional e \<longleftrightarrow> snd (snd e) AND make_flags optional_flag \<noteq> 0"

definition target_required :: "string \<times> targetInfo \<Rightarrow> bool" where
  "target_required e \<longleftrightarrow> snd (snd e) AND make_flags required_flag \<noteq> 0"

definition hasNonOptionalUnknowns :: "UnknownHandleManager \<Rightarrow> bool" where
  "hasNonOptionalUnknowns s \<longleftrightarrow>
     (if \<not> (unknown_links s = [] \<and> unknown_dest_filters s = [] \<and> unknown_src_filters s = []) then True
      else if list_ex (\<lambda>e. \<not> target_optional e) (unknown_publications s) then True
      else if list_ex (\<lambda>e. \<not> target_optional e) (unknown_endpoints s) then True
      else if list_ex (\<lambda>e. \<not> target_optional e) (unknown_inputs s) then True
      else list_ex (\<lambda>e. \<not> target_optional e) (unknown_filters s))"

definition hasRequiredUnknowns :: "UnknownHandleManager \<Rightarrow> bool" where
  "hasRequiredUnknowns s \<longleftrightarrow>
     (if list_ex target_required (unknown_publications s) then True
      else if list_ex target_required (unknown_endpoints s) then True
      else if list_ex target_required (unknown_inputs s) then True
      else list_ex target_required (unknown_filters s))"

text \<open>The two iterations over a callback return the calls they make.\<close>

definition unknown_calls ::
  "(string \<times> targetInfo \<Rightarrow> bool) \<Rightarrow> char \<Rightarrow> (string \<times> targetInfo) list \<Rightarrow> (string \<times> char \<times> global_handle) list" where
  "unknown_calls P c es = map (\<lambda>e. (fst e, c, fst (snd e))) (filter P es)"

definition processNonOptionalUnknowns :: "UnknownHandleManager \<Rightarrow> (string \<times> char \<times> global_handle) list" where
  "processNonOptionalUnknowns s =
     unknown_calls (\<lambda>e. \<not> target_optional e) (CHR ''p'') (unknown_publications s)
   @ unknown_calls (\<lambda>e. \<not> target_optional e) (CHR ''e'') (unknown_endpoints s)
   @ unknown_calls (\<lambda>e. \<not> target_optional e) (CHR ''i'') (unknown_inputs s)
   @ unknown_calls (\<lambda>e. \<not> target_optional e) (CHR ''f'') (unknown_filters s)"

definition processRequiredUnknowns :: "UnknownHandleManager \<Rightarrow> (string \<times> char \<times> global_handle) list" where
  "processRequiredUnknowns s =
     unknown_calls target_required (CHR ''p'') (unknown_publications s)
   @ unknown_calls target_required (CHR ''e'') (unknown_endpoints s)
   @ unknown_calls target_required (CHR ''i'') (unknown_inputs s)
   @ unknown_calls target_required (CHR ''f'') (unknown_filters s)"

definition clearInput :: "string \<Rightarrow> UnknownHandleManager \<Rightarrow> UnknownHandleManager" where
  "clearInput newInput s = s\<lparr> unknown_inputs := erase_key newInput (unknown_inputs s) \<rparr>"

definition clearPublication :: "string \<Rightarrow> UnknownHandleManager \<Rightarrow> UnknownHandleManager" where
  "clearPublication newPublication s =
     s\<lparr> unknown_publications := erase_key newPublication (unknown_publications s),
        unknown_links := erase_key newPublication (unknown_links s) \<rparr>"

definition clearEndpoint :: "string \<Rightarrow> UnknownHandleManager \<Rightarrow> UnknownHandleManager" where
  "clearEndpoint newEndpoint s = s\<lparr> unknown_endpoints := erase_key newEndpoint (unknown_endpoints s) \<rparr>"

definition clearFilter :: "string \<Rightarrow> UnknownHandleManager \<Rightarrow> UnknownHandleManager" where
  "clearFilter newFilter s =
     s\<lparr> unknown_filters := erase_key newFilter (unknown_filters s),
        unknown_src_filters := erase_key newFilter (unknown_src_filters s),
        unknown_dest_filters := erase_key newFilter (unknown_dest_filters s) \<rparr>"

fun erase_federate :: "global_federate_id \<Rightarrow> (string \<times> targetInfo) list \<Rightarrow> (string \<times> targetInfo) list" where
  "erase_federate fed [] = []"
| "erase_federate fed (e # es) =
     (if fed_id (fst (snd e)) = fed then erase_federate fed es else e # erase_federate fed es)"

definition clearFederateUnknowns :: "global_federate_id \<Rightarrow> UnknownHandleManager \<Rightarrow> UnknownHandleManager" where
  "clearFederateUnknowns fed s =
     s\<lparr> unknown_publications := erase_federate fed (unknown_publications s),
        unknown_endpoints := erase_federate fed (unknown_endpoints s),
        unknown_filters := erase_federate fed (unknown_filters s),
        unknown_inputs := erase_federate fed (unknown_inputs s) \<rparr>"

section \<open>Interface: a table with several entries for a key\<close>

locale multi_table =
  fixes put :: "'k \<Rightarrow> 'v \<Rightarrow> 's \<Rightarrow> 's"
    and look :: "'k \<Rightarrow> 's \<Rightarrow> 'v list"
    and clear :: "'k \<Rightarrow> 's \<Rightarrow> 's"
  assumes look_put: "mset (look k' (put k v s)) = (if k' = k then add_mset v (mset (look k' s)) else mset (look k' s))"
    and look_clear: "look k' (clear k s) = (if k' = k then [] else look k' s)"
begin

lemma look_put_all:
  "mset (look k' (foldl (\<lambda>s (k, v). put k v s) s kvs))
    = mset (look k' s) + image_mset snd (filter_mset (\<lambda>e. fst e = k') (mset kvs))"
  by (induction kvs arbitrary: s) (auto simp: look_put)

lemma look_after_clear:
  "mset (look k' (foldl (\<lambda>s (k, v). put k v s) (clear k' s) kvs))
    = image_mset snd (filter_mset (\<lambda>e. fst e = k') (mset kvs))"
  by (simp add: look_put_all look_clear)

end

lemma getTargets_simps [simp]:
  "getTargets (es @ [(k, v)]) k' = getTargets es k' @ (if k = k' then [v] else [])"
  "getTargets (erase_key k es) k' = (if k' = k then [] else getTargets es k')"
  by (auto simp: getTargets_def erase_key_def filter_empty_conv intro: arg_cong [where f = "map snd"] filter_cong)

lemmas unknown_table_defs = addUnknownPublication_def addUnknownInput_def addUnknownEndpoint_def
  addUnknownFilter_def addDataLink_def addSourceFilterLink_def addDestinationFilterLink_def
  checkForInputs_def checkForPublications_def checkForLinks_def checkForEndpoints_def checkForFilters_def
  checkForFilterSourceTargets_def checkForFilterDestTargets_def clearInput_def clearPublication_def
  clearEndpoint_def clearFilter_def

interpretation unknown_input_table: multi_table "\<lambda>k (t, f). addUnknownInput k t f" checkForInputs clearInput
  by unfold_locales (auto simp: unknown_table_defs)

interpretation unknown_publication_table:
  multi_table "\<lambda>k (t, f). addUnknownPublication k t f" checkForPublications clearPublication
  by unfold_locales (auto simp: unknown_table_defs)

interpretation unknown_endpoint_table:
  multi_table "\<lambda>k (t, f). addUnknownEndpoint k t f" checkForEndpoints clearEndpoint
  by unfold_locales (auto simp: unknown_table_defs)

interpretation unknown_filter_table:
  multi_table "\<lambda>k (t, f). addUnknownFilter k t f" checkForFilters clearFilter
  by unfold_locales (auto simp: unknown_table_defs)

interpretation unknown_link_table: multi_table addDataLink checkForLinks clearPublication
  by unfold_locales (auto simp: unknown_table_defs)

interpretation unknown_source_filter_table:
  multi_table addSourceFilterLink checkForFilterSourceTargets clearFilter
  by unfold_locales (auto simp: unknown_table_defs)

interpretation unknown_dest_filter_table:
  multi_table addDestinationFilterLink checkForFilterDestTargets clearFilter
  by unfold_locales (auto simp: unknown_table_defs)

section \<open>One multiset of open links\<close>

datatype open_link =
    Open_Target handle_type string targetInfo
  | Open_Data string string
  | Open_Source_Filter string string
  | Open_Dest_Filter string string

definition open_links :: "UnknownHandleManager \<Rightarrow> open_link multiset" where
  "open_links s =
     image_mset (\<lambda>e. Open_Target HT_publication (fst e) (snd e)) (mset (unknown_publications s))
   + image_mset (\<lambda>e. Open_Target HT_endpoint (fst e) (snd e)) (mset (unknown_endpoints s))
   + image_mset (\<lambda>e. Open_Target HT_input (fst e) (snd e)) (mset (unknown_inputs s))
   + image_mset (\<lambda>e. Open_Target HT_filter (fst e) (snd e)) (mset (unknown_filters s))
   + image_mset (\<lambda>e. Open_Data (fst e) (snd e)) (mset (unknown_links s))
   + image_mset (\<lambda>e. Open_Source_Filter (fst e) (snd e)) (mset (unknown_src_filters s))
   + image_mset (\<lambda>e. Open_Dest_Filter (fst e) (snd e)) (mset (unknown_dest_filters s))"

fun settles :: "handle_type \<Rightarrow> string \<Rightarrow> open_link \<Rightarrow> bool" where
  "settles t name (Open_Target t' k v) \<longleftrightarrow> t' = t \<and> k = name"
| "settles t name (Open_Data k v) \<longleftrightarrow> t = HT_publication \<and> k = name"
| "settles t name (Open_Source_Filter k v) \<longleftrightarrow> t = HT_filter \<and> k = name"
| "settles t name (Open_Dest_Filter k v) \<longleftrightarrow> t = HT_filter \<and> k = name"

fun link_of_federate :: "global_federate_id \<Rightarrow> open_link \<Rightarrow> bool" where
  "link_of_federate fed (Open_Target t k v) \<longleftrightarrow> fed_id (fst v) = fed"
| "link_of_federate fed l \<longleftrightarrow> False"

datatype unknown_op = U_Open open_link | U_Known handle_type string | U_Gone global_federate_id

fun unknown_step :: "UnknownHandleManager \<Rightarrow> unknown_op \<Rightarrow> UnknownHandleManager" where
  "unknown_step s (U_Open (Open_Target HT_publication k (h, f))) = addUnknownPublication k h f s"
| "unknown_step s (U_Open (Open_Target HT_endpoint k (h, f))) = addUnknownEndpoint k h f s"
| "unknown_step s (U_Open (Open_Target HT_input k (h, f))) = addUnknownInput k h f s"
| "unknown_step s (U_Open (Open_Target HT_filter k (h, f))) = addUnknownFilter k h f s"
| "unknown_step s (U_Open (Open_Target HT_unknown k (h, f))) = s"
| "unknown_step s (U_Open (Open_Data k v)) = addDataLink k v s"
| "unknown_step s (U_Open (Open_Source_Filter k v)) = addSourceFilterLink k v s"
| "unknown_step s (U_Open (Open_Dest_Filter k v)) = addDestinationFilterLink k v s"
| "unknown_step s (U_Known HT_publication k) = clearPublication k s"
| "unknown_step s (U_Known HT_endpoint k) = clearEndpoint k s"
| "unknown_step s (U_Known HT_input k) = clearInput k s"
| "unknown_step s (U_Known HT_filter k) = clearFilter k s"
| "unknown_step s (U_Known HT_unknown k) = s"
| "unknown_step s (U_Gone fed) = clearFederateUnknowns fed s"

fun unknown_spec :: "open_link multiset \<Rightarrow> unknown_op \<Rightarrow> open_link multiset" where
  "unknown_spec M (U_Open (Open_Target HT_unknown k v)) = M"
| "unknown_spec M (U_Open l) = add_mset l M"
| "unknown_spec M (U_Known t k) = filter_mset (\<lambda>l. \<not> settles t k l) M"
| "unknown_spec M (U_Gone fed) = filter_mset (\<lambda>l. \<not> link_of_federate fed l) M"

lemma erase_federate_filter: "erase_federate fed es = filter (\<lambda>e. fed_id (fst (snd e)) \<noteq> fed) es"
  by (induction es) simp_all

lemma unknown_step_open: "open_links (unknown_step s (U_Open l)) = unknown_spec (open_links s) (U_Open l)"
proof (cases l)
  case (Open_Target t k v)
  then show ?thesis
    by (cases t; cases v) (simp_all add: open_links_def unknown_table_defs)
qed (simp_all add: open_links_def unknown_table_defs)

lemma unknown_step_known: "open_links (unknown_step s (U_Known t k)) = unknown_spec (open_links s) (U_Known t k)"
  by (cases t) (simp_all add: open_links_def unknown_table_defs erase_key_def filter_mset_image_mset
      filter_mset_eq_mempty_iff)

lemma unknown_step_gone: "open_links (unknown_step s (U_Gone fed)) = unknown_spec (open_links s) (U_Gone fed)"
  by (simp add: open_links_def clearFederateUnknowns_def erase_federate_filter filter_mset_image_mset)

lemma unknown_step_refines: "open_links (unknown_step s e) = unknown_spec (open_links s) e"
  by (cases e) (simp_all only: unknown_step_open unknown_step_known unknown_step_gone)

lemma open_links_empty [simp]: "open_links UnknownHandleManager_empty = {#}"
  by (simp add: open_links_def UnknownHandleManager_empty_def)

lemma run_unknown: "open_links (foldl unknown_step s es) = foldl unknown_spec (open_links s) es"
  by (induction es arbitrary: s) (simp_all add: unknown_step_refines)

fun link_flag :: "nat \<Rightarrow> open_link \<Rightarrow> bool" where
  "link_flag n (Open_Target t k v) \<longleftrightarrow> checkActionFlag (snd v) n"
| "link_flag n l \<longleftrightarrow> False"

text \<open>The call that reports an open link to an interface; the other kinds of links carry no flags and are
  never reported.\<close>

fun link_call :: "open_link \<Rightarrow> string \<times> char \<times> global_handle" where
  "link_call (Open_Target t k v) = (k, handle_type_char t, fst v)"
| "link_call (Open_Data k v) = (k, CHR ''u'', default_global_handle)"
| "link_call (Open_Source_Filter k v) = (k, CHR ''u'', default_global_handle)"
| "link_call (Open_Dest_Filter k v) = (k, CHR ''u'', default_global_handle)"

lemma target_flags:
  "target_optional e \<longleftrightarrow> checkActionFlag (snd (snd e)) optional_flag"
  "target_required e \<longleftrightarrow> checkActionFlag (snd (snd e)) required_flag"
  by (simp_all add: target_optional_def target_required_def checkActionFlag_def make_flags_def)

lemma hasUnknowns_iff: "hasUnknowns s \<longleftrightarrow> open_links s \<noteq> {#}"
  by (simp add: hasUnknowns_def open_links_def) blast

lemma hasRequiredUnknowns_iff: "hasRequiredUnknowns s \<longleftrightarrow> (\<exists>l \<in># open_links s. link_flag required_flag l)"
  by (simp add: hasRequiredUnknowns_def open_links_def list_ex_iff target_flags bex_Un)

lemma hasNonOptionalUnknowns_iff:
  "hasNonOptionalUnknowns s \<longleftrightarrow> (\<exists>l \<in># open_links s. \<not> link_flag optional_flag l)"
proof -
  have "xs \<noteq> [] \<longleftrightarrow> (\<exists>e \<in> set xs. True)" for xs :: "(string \<times> string) list"
    by (cases xs) auto
  then show ?thesis
    by (simp add: hasNonOptionalUnknowns_def open_links_def list_ex_iff target_flags bex_Un del: split_paired_Ex)
qed

section \<open>Properties\<close>

text \<open>C34: the seven tables together are one multiset of open links. After any sequence of operations it
  is what the sequence says: an open link is added once per registration, a name that becomes known
  settles the links that wait for it and no others, and a federate that goes takes its links with it.
  The three tests agree with the multiset.\<close>

theorem unknowns_refine:
  "open_links (foldl unknown_step UnknownHandleManager_empty es) = foldl unknown_spec {#} es
   \<and> (hasUnknowns s \<longleftrightarrow> open_links s \<noteq> {#})
   \<and> (hasRequiredUnknowns s \<longleftrightarrow> (\<exists>l \<in># open_links s. link_flag required_flag l))
   \<and> (hasNonOptionalUnknowns s \<longleftrightarrow> (\<exists>l \<in># open_links s. \<not> link_flag optional_flag l))"
  by (simp add: run_unknown hasUnknowns_iff hasRequiredUnknowns_iff hasNonOptionalUnknowns_iff)

text \<open>When a name becomes known, the open links that were waiting for it are reported to the caller
  completely, and once it is cleared nothing waits for it, while every other name is waited for as
  before.\<close>

lemma unknowns_settled_by_name:
  "mset (checkForPublications k (foldl (\<lambda>s (k, t, f). addUnknownPublication k t f s) s regs))
      = mset (checkForPublications k s) + image_mset snd (filter_mset (\<lambda>e. fst e = k) (mset regs))
   \<and> checkForPublications k' (clearPublication k s) = (if k' = k then [] else checkForPublications k' s)
   \<and> checkForLinks k' (clearPublication k s) = (if k' = k then [] else checkForLinks k' s)
   \<and> checkForFilterSourceTargets k' (clearFilter k s) = (if k' = k then [] else checkForFilterSourceTargets k' s)
   \<and> checkForFilterDestTargets k' (clearFilter k s) = (if k' = k then [] else checkForFilterDestTargets k' s)
   \<and> checkForInputs k' (clearPublication k s) = checkForInputs k' s"
  using unknown_publication_table.look_put_all [of k s regs]
  by (simp add: unknown_publication_table.look_clear unknown_link_table.look_clear
      unknown_source_filter_table.look_clear unknown_dest_filter_table.look_clear case_prod_unfold)
    (simp add: checkForInputs_def clearPublication_def)


end
