(* ===== verification/Broker_State.thy ===== *)
theory Broker_State
  imports Forwarding_Coordinator Unknown_Handles Interface_Info
begin

text \<open>
  The state of a broker (\<open>CoreBroker.hpp\<close>, with the members it has from \<open>BrokerBase.hpp\<close>) and what its
  operations share: routes, sending, the summary of the connections. The lists of brokers and
  federates are kept in \<open>DualMappedVector\<close>s of an external library, a parameter whose relied on
  behaviour is \<open>mapped_laws\<close>.

  What a broker does to its surroundings is a list of events: messages handed to the transport,
  routes added and removed, messages added to its own queue. Logging is not modelled.
\<close>

section \<open>States and records\<close>

datatype connection_state = CS_connected | CS_init_requested | CS_operating | CS_error
  | CS_request_disconnect | CS_disconnected

fun conn_code :: "connection_state \<Rightarrow> nat" where
  "conn_code CS_connected = 0"
| "conn_code CS_init_requested = 1"
| "conn_code CS_operating = 2"
| "conn_code CS_error = 40"
| "conn_code CS_request_disconnect = 48"
| "conn_code CS_disconnected = 50"

instantiation connection_state :: linorder
begin

definition less_eq_connection_state :: "connection_state \<Rightarrow> connection_state \<Rightarrow> bool" where
  "less_eq_connection_state a b \<longleftrightarrow> conn_code a \<le> conn_code b"

definition less_connection_state :: "connection_state \<Rightarrow> connection_state \<Rightarrow> bool" where
  "less_connection_state a b \<longleftrightarrow> conn_code a < conn_code b"

instance
proof
  fix x y z :: connection_state
  show "x \<le> y \<Longrightarrow> y \<le> x \<Longrightarrow> x = y"
    by (cases x; cases y) (simp_all add: less_eq_connection_state_def)
qed (auto simp: less_eq_connection_state_def less_connection_state_def)

end

datatype broker_state_t = BS_created | BS_configuring | BS_configured | BS_connecting | BS_connected
  | BS_initializing | BS_operating | BS_terminating | BS_terminated | BS_errored

fun broker_state_code :: "broker_state_t \<Rightarrow> int" where
  "broker_state_code BS_created = - 6"
| "broker_state_code BS_configuring = - 5"
| "broker_state_code BS_configured = - 4"
| "broker_state_code BS_connecting = - 3"
| "broker_state_code BS_connected = - 2"
| "broker_state_code BS_initializing = - 1"
| "broker_state_code BS_operating = 0"
| "broker_state_code BS_terminating = 1"
| "broker_state_code BS_terminated = 3"
| "broker_state_code BS_errored = 7"

instantiation broker_state_t :: linorder
begin

definition less_eq_broker_state_t :: "broker_state_t \<Rightarrow> broker_state_t \<Rightarrow> bool" where
  "less_eq_broker_state_t a b \<longleftrightarrow> broker_state_code a \<le> broker_state_code b"

definition less_broker_state_t :: "broker_state_t \<Rightarrow> broker_state_t \<Rightarrow> bool" where
  "less_broker_state_t a b \<longleftrightarrow> broker_state_code a < broker_state_code b"

instance
proof
  fix x y z :: broker_state_t
  show "x \<le> y \<Longrightarrow> y \<le> x \<Longrightarrow> x = y"
    by (cases x; cases y) (simp_all add: less_eq_broker_state_t_def)
qed (auto simp: less_eq_broker_state_t_def less_broker_state_t_def)

end

lemmas state_order = less_eq_connection_state_def less_connection_state_def less_eq_broker_state_t_def
  less_broker_state_t_def

record BasicFedInfo =
  bf_name :: string
  bf_global_id :: global_federate_id
  bf_route :: route_id
  bf_parent :: global_broker_id
  bf_state :: connection_state

definition mk_BasicFedInfo :: "string \<Rightarrow> BasicFedInfo" where
  "mk_BasicFedInfo fedname =
     \<lparr> bf_name = fedname, bf_global_id = default_global_federate_id, bf_route = Route_Id invalid_route_id,
       bf_parent = default_global_broker_id, bf_state = CS_connected \<rparr>"

record BasicBrokerInfo =
  bb_name :: string
  bb_global_id :: global_broker_id
  bb_route :: route_id
  bb_parent :: global_broker_id
  bb_state :: connection_state
  bb_hasTimeDependency :: bool
  bb_core :: bool
  bb_nonLocal :: bool
  bb_route_key :: bool
  bb_sent_disconnect_ack :: bool
  bb_disable_ping :: bool
  bb_routeInfo :: string

definition mk_BasicBrokerInfo :: "string \<Rightarrow> BasicBrokerInfo" where
  "mk_BasicBrokerInfo brokerName =
     \<lparr> bb_name = brokerName, bb_global_id = default_global_broker_id, bb_route = Route_Id invalid_route_id,
       bb_parent = default_global_broker_id, bb_state = CS_connected, bb_hasTimeDependency = False,
       bb_core = False, bb_nonLocal = False, bb_route_key = False, bb_sent_disconnect_ack = False,
       bb_disable_ping = False, bb_routeInfo = [] \<rparr>"

definition slow_responding_flag :: nat where "slow_responding_flag = 14"

definition registration_failure :: int32 where "registration_failure = - 1"

abbreviation parent_fed :: global_federate_id where
  "parent_fed \<equiv> fed_of_broker parent_broker_id"

section \<open>The container\<close>

text \<open>
  Elements have positions in the order of insertion and are found, as positions, by name and by a
  second key, which an insertion may leave out and which can be added later.
\<close>

record ('s, 'v, 'k) mapped_vector =
  mv_empty :: 's
  mv_elems :: "'s \<Rightarrow> 'v list"
  mv_find_name :: "string \<Rightarrow> 's \<Rightarrow> nat option"
  mv_find :: "'k \<Rightarrow> 's \<Rightarrow> nat option"
  mv_insert :: "string \<Rightarrow> 'k option \<Rightarrow> 'v \<Rightarrow> 's \<Rightarrow> 's option"
  mv_write :: "nat \<Rightarrow> 'v \<Rightarrow> 's \<Rightarrow> 's"
  mv_add_key :: "'k \<Rightarrow> nat \<Rightarrow> 's \<Rightarrow> 's"

definition mv_insert_law :: "('s, 'v, 'k) mapped_vector \<Rightarrow> bool" where
  "mv_insert_law M \<longleftrightarrow> (\<forall>n v s.
     (mv_insert M n None v s = None \<longleftrightarrow> mv_find_name M n s \<noteq> None)
     \<and> (\<forall>s'. mv_insert M n None v s = Some s' \<longrightarrow> mv_elems M s' = mv_elems M s @ [v]
          \<and> (\<forall>n'. mv_find_name M n' s' = (if n' = n then Some (length (mv_elems M s)) else mv_find_name M n' s))
          \<and> (\<forall>k. mv_find M k s' = mv_find M k s)))"

definition mv_write_law :: "('s, 'v, 'k) mapped_vector \<Rightarrow> bool" where
  "mv_write_law M \<longleftrightarrow> (\<forall>i v s. mv_elems M (mv_write M i v s) = (mv_elems M s)[i := v]
     \<and> (\<forall>n. mv_find_name M n (mv_write M i v s) = mv_find_name M n s)
     \<and> (\<forall>k. mv_find M k (mv_write M i v s) = mv_find M k s))"

definition mv_key_law :: "('s, 'v, 'k) mapped_vector \<Rightarrow> bool" where
  "mv_key_law M \<longleftrightarrow> (\<forall>k i s. mv_elems M (mv_add_key M k i s) = mv_elems M s
     \<and> (\<forall>n. mv_find_name M n (mv_add_key M k i s) = mv_find_name M n s)
     \<and> (\<forall>k'. mv_find M k' (mv_add_key M k i s) =
          (if k' = k \<and> mv_find M k s = None \<and> i < length (mv_elems M s) then Some i else mv_find M k' s)))"

definition mapped_laws :: "('s, 'v, 'k) mapped_vector \<Rightarrow> bool" where
  "mapped_laws M \<longleftrightarrow> mv_insert_law M \<and> mv_write_law M \<and> mv_key_law M
     \<and> mv_elems M (mv_empty M) = [] \<and> (\<forall>n. mv_find_name M n (mv_empty M) = None)
     \<and> (\<forall>k. mv_find M k (mv_empty M) = None)"

definition mv_size :: "('s, 'v, 'k) mapped_vector \<Rightarrow> 's \<Rightarrow> nat" where
  "mv_size M s = length (mv_elems M s)"

text \<open>\<open>apply\<close>: a function on every element in turn.\<close>

definition mv_map :: "('s, 'v, 'k) mapped_vector \<Rightarrow> ('v \<Rightarrow> 'v) \<Rightarrow> 's \<Rightarrow> 's" where
  "mv_map M f s = foldl (\<lambda>s' i. mv_write M i (f (mv_elems M s ! i)) s') s [0..<mv_size M s]"

section \<open>Timeouts\<close>

record linkConnection =
  lc_waitingForPingReply :: bool
  lc_activeConnection :: bool
  lc_disablePing :: bool
  lc_connection :: global_federate_id
  lc_lastPing :: int

definition linkConnection_default :: linkConnection where
  "linkConnection_default =
     \<lparr> lc_waitingForPingReply = False, lc_activeConnection = False, lc_disablePing = False,
       lc_connection = Global_Federate_Id 0, lc_lastPing = 0 \<rparr>"

text \<open>Readings of the steady clock and the timeout are integers in one unit.\<close>

record TimeoutMonitor =
  tm_timeout :: int
  tm_waitingForConnection :: bool
  tm_startWaiting :: int
  tm_parentConnection :: linkConnection
  tm_connections :: "linkConnection list"

section \<open>The broker\<close>

datatype 't broker_event = Transmit route_id "'t ActionMessage" | Add_Route route_id int32 string
  | Remove_Route route_id | Queue_Message "'t ActionMessage" | Broker_Disconnect | Unregister
  | Disconnection_Trigger

record ('t, 'b, 'f) CoreBroker =
  cb_global_id :: global_broker_id
  cb_local_id :: global_broker_id
  higher_broker_id :: global_broker_id
  cb_maxLogLevel :: int32
  minFederateCount :: int32
  minBrokerCount :: int32
  cb_error_delayed :: bool
  cb_identifier :: string
  brokerKey :: string
  haltOperations :: bool
  cb_terminate_on_error :: bool
  cb_timeCoord :: "'t ForwardingTimeCoordinator"
  brokerState :: broker_state_t
  cb_hasTimeDependency :: bool
  enteredExecutionMode :: bool
  hasFilters :: bool
  forwardTick :: bool
  no_ping :: bool
  lastErrorCode :: int32
  lastErrorString :: string
  isRoot :: bool
  isRootc :: bool
  connectionEstablished :: bool
  routeCount :: int32
  cb_federates :: 'f
  cb_brokers :: 'b
  cb_handles :: HandleManager
  cb_unknowns :: UnknownHandleManager
  delayedDependencies :: "(string \<times> global_federate_id) list"
  global_id_translation :: "global_federate_id \<rightharpoonup> local_federate_id"
  routing_table :: "global_federate_id \<rightharpoonup> route_id"
  knownExternalEndpoints :: "string \<rightharpoonup> route_id"
  global_values :: "string \<rightharpoonup> string"
  earlyMessages :: "'t ActionMessage list"
  delayTransmitQueue :: "'t ActionMessage list"
  timeoutMon :: TimeoutMonitor
  cb_events :: "'t broker_event list"

text \<open>What a broker runs in: the time type, the byte order, the containers, the printing of texts, and
  the handling of queries, which is built on a JSON library.\<close>

record ('t, 'b, 'f) broker_env =
  be_time :: "'t time_rep"
  be_le :: bool
  be_brokers :: "('b, BasicBrokerInfo, global_broker_id) mapped_vector"
  be_federates :: "('f, BasicFedInfo, global_federate_id) mapped_vector"
  be_fmt :: formatter
  be_query :: "'t ActionMessage \<Rightarrow> ('t, 'b, 'f) CoreBroker \<Rightarrow> ('t, 'b, 'f) CoreBroker"

text \<open>A broker before it is configured.\<close>

definition CoreBroker_default ::
  "('t::linorder, 'b, 'f) broker_env \<Rightarrow> bool \<Rightarrow> string \<Rightarrow> ('t, 'b, 'f) CoreBroker" where
  "CoreBroker_default E setAsRootBroker name =
     \<lparr> cb_global_id = parent_broker_id, cb_local_id = default_global_broker_id,
       higher_broker_id = Global_Broker_Id 0, cb_maxLogLevel = 1, minFederateCount = 1, minBrokerCount = 0,
       cb_error_delayed = True, cb_identifier = name, brokerKey = [], haltOperations = False,
       cb_terminate_on_error = False, cb_timeCoord = ForwardingTimeCoordinator_default (be_time E),
       brokerState = BS_created, cb_hasTimeDependency = False, enteredExecutionMode = False,
       hasFilters = False, forwardTick = False, no_ping = False, lastErrorCode = 0, lastErrorString = [],
       isRoot = setAsRootBroker, isRootc = setAsRootBroker, connectionEstablished = False, routeCount = 1,
       cb_federates = mv_empty (be_federates E), cb_brokers = mv_empty (be_brokers E),
       cb_handles = HandleManager_empty, cb_unknowns = UnknownHandleManager_empty, delayedDependencies = [],
       global_id_translation = Map.empty, routing_table = Map.empty, knownExternalEndpoints = Map.empty,
       global_values = Map.empty, earlyMessages = [], delayTransmitQueue = [],
       timeoutMon = \<lparr> tm_timeout = 100000000, tm_waitingForConnection = False, tm_startWaiting = 0,
                      tm_parentConnection = linkConnection_default, tm_connections = [] \<rparr>,
       cb_events = [] \<rparr>"

section \<open>Sending\<close>

definition event :: "'t broker_event \<Rightarrow> ('t, 'b, 'f) CoreBroker \<Rightarrow> ('t, 'b, 'f) CoreBroker" where
  "event e s = s\<lparr> cb_events := cb_events s @ [e] \<rparr>"

abbreviation transmit :: "route_id \<Rightarrow> 't ActionMessage \<Rightarrow> ('t, 'b, 'f) CoreBroker \<Rightarrow> ('t, 'b, 'f) CoreBroker" where
  "transmit r m \<equiv> event (Transmit r m)"

abbreviation addActionMessage :: "'t ActionMessage \<Rightarrow> ('t, 'b, 'f) CoreBroker \<Rightarrow> ('t, 'b, 'f) CoreBroker" where
  "addActionMessage m \<equiv> event (Queue_Message m)"

text \<open>The coordinator after a call; what it sends is added to the queue.\<close>

definition put_forwarding ::
  "'t ForwardingTimeCoordinator \<Rightarrow> ('t, 'b, 'f) CoreBroker \<Rightarrow> ('t, 'b, 'f) CoreBroker" where
  "put_forwarding tc s =
     s\<lparr> cb_timeCoord := tc\<lparr> ft_sent := [] \<rparr>, cb_events := cb_events s @ map Queue_Message (ft_sent tc) \<rparr>"

definition getRoute :: "global_federate_id \<Rightarrow> ('t, 'b, 'f) CoreBroker \<Rightarrow> route_id" where
  "getRoute fedid s =
     (if fedid = fed_of_broker parent_broker_id \<or> fedid = fed_of_broker (higher_broker_id s) then parent_route_id
      else case routing_table s fedid of Some r \<Rightarrow> r | None \<Rightarrow> parent_route_id)"

definition cb_routeMessage :: "'t ActionMessage \<Rightarrow> ('t, 'b, 'f) CoreBroker \<Rightarrow> ('t, 'b, 'f) CoreBroker" where
  "cb_routeMessage cmd s =
     (if dest_id cmd = fed_of_broker parent_broker_id \<or> dest_id cmd = fed_of_broker (higher_broker_id s)
      then transmit parent_route_id cmd s
      else transmit (getRoute (dest_id cmd) s) cmd s)"

definition cb_routeMessage_to ::
  "'t ActionMessage \<Rightarrow> global_federate_id \<Rightarrow> ('t, 'b, 'f) CoreBroker \<Rightarrow> ('t, 'b, 'f) CoreBroker" where
  "cb_routeMessage_to cmd dest s =
     (if dest = default_global_federate_id then s else cb_routeMessage (cmd\<lparr> dest_id := dest \<rparr>) s)"

definition transmitToParent :: "'t ActionMessage \<Rightarrow> ('t, 'b, 'f) CoreBroker \<Rightarrow> ('t, 'b, 'f) CoreBroker" where
  "transmitToParent cmd s =
     (if isRoot s then addActionMessage cmd s
      else if \<not> broker_isValid (cb_global_id s)
      then s\<lparr> delayTransmitQueue := delayTransmitQueue s @ [cmd] \<rparr>
      else transmit parent_route_id cmd s)"

abbreviation brokers_of :: "('t, 'b, 'f) broker_env \<Rightarrow> ('t, 'b, 'f) CoreBroker \<Rightarrow> BasicBrokerInfo list" where
  "brokers_of E s \<equiv> mv_elems (be_brokers E) (cb_brokers s)"

abbreviation federates_of :: "('t, 'b, 'f) broker_env \<Rightarrow> ('t, 'b, 'f) CoreBroker \<Rightarrow> BasicFedInfo list" where
  "federates_of E s \<equiv> mv_elems (be_federates E) (cb_federates s)"

definition cb_broadcast ::
  "('t, 'b, 'f) broker_env \<Rightarrow> 't ActionMessage \<Rightarrow> ('t, 'b, 'f) CoreBroker \<Rightarrow> ('t, 'b, 'f) CoreBroker" where
  "cb_broadcast E cmd s =
     foldl (\<lambda>s b. if \<not> bb_nonLocal b \<and> bb_state b < CS_disconnected
                  then transmit (bb_route b) (cmd\<lparr> dest_id := fed_of_broker (bb_global_id b) \<rparr>) s else s)
       s (brokers_of E s)"

definition cb_setErrorState ::
  "('t::linorder, 'b, 'f) broker_env \<Rightarrow> int32 \<Rightarrow> string \<Rightarrow> ('t, 'b, 'f) CoreBroker \<Rightarrow> ('t, 'b, 'f) CoreBroker" where
  "cb_setErrorState E eCode estring s =
     (let s1 = s\<lparr> lastErrorString := estring, lastErrorCode := eCode \<rparr>
      in if brokerState s1 \<noteq> BS_errored
         then let s2 = s1\<lparr> brokerState := BS_errored \<rparr>; me = fed_of_broker (cb_global_id s)
              in if \<not> cb_error_delayed s then addActionMessage (mk_message_to (be_time E) cmd_user_disconnect me me) s2
                 else s2
         else s1)"

section \<open>Looking up and summing up\<close>

definition getBrokerById ::
  "('t, 'b, 'f) broker_env \<Rightarrow> global_broker_id \<Rightarrow> ('t, 'b, 'f) CoreBroker \<Rightarrow> nat option" where
  "getBrokerById E brokerid s =
     (if isRootc s
      then if isValidIndex (broker_localIndex brokerid) (brokers_of E s)
           then Some (nat (sint (broker_localIndex brokerid))) else None
      else mv_find (be_brokers E) brokerid (cb_brokers s))"

definition set_broker ::
  "('t, 'b, 'f) broker_env \<Rightarrow> nat \<Rightarrow> (BasicBrokerInfo \<Rightarrow> BasicBrokerInfo) \<Rightarrow> ('t, 'b, 'f) CoreBroker
     \<Rightarrow> ('t, 'b, 'f) CoreBroker" where
  "set_broker E i f s =
     s\<lparr> cb_brokers := mv_write (be_brokers E) i (f (brokers_of E s ! i)) (cb_brokers s) \<rparr>"

definition set_federate ::
  "('t, 'b, 'f) broker_env \<Rightarrow> nat \<Rightarrow> (BasicFedInfo \<Rightarrow> BasicFedInfo) \<Rightarrow> ('t, 'b, 'f) CoreBroker
     \<Rightarrow> ('t, 'b, 'f) CoreBroker" where
  "set_federate E i f s =
     s\<lparr> cb_federates := mv_write (be_federates E) i (f (federates_of E s ! i)) (cb_federates s) \<rparr>"

definition getAllConnectionState :: "('t, 'b, 'f) broker_env \<Rightarrow> ('t, 'b, 'f) CoreBroker \<Rightarrow> connection_state" where
  "getAllConnectionState E s =
     (let own = filter (\<lambda>b. \<not> bb_nonLocal b) (brokers_of E s);
          res = foldl (\<lambda>res b. if bb_state b < res then bb_state b else res) CS_disconnected own
      in if 0 < length own then res else CS_connected)"

definition allInitReady :: "('t, 'b, 'f) broker_env \<Rightarrow> ('t, 'b, 'f) CoreBroker \<Rightarrow> bool" where
  "allInitReady E s \<longleftrightarrow>
     (if sint (word_of_nat (mv_size (be_federates E) (cb_federates s)) :: int32) < sint (minFederateCount s) then False
      else if sint (word_of_nat (mv_size (be_brokers E) (cb_brokers s)) :: int32) < sint (minBrokerCount s) then False
      else CS_init_requested \<le> getAllConnectionState E s)"

definition isConnected :: "('t, 'b, 'f) CoreBroker \<Rightarrow> bool" where
  "isConnected s \<longleftrightarrow> brokerState s = BS_operating \<or> brokerState s = BS_connected"

definition isOpenToNewFederates :: "('t, 'b, 'f) CoreBroker \<Rightarrow> bool" where
  "isOpenToNewFederates s \<longleftrightarrow>
     brokerState s \<noteq> BS_created \<and> brokerState s < BS_operating \<and> \<not> haltOperations s"

definition universalKey :: string where "universalKey = ''**''"

definition verifyBrokerKey :: "'t ActionMessage \<Rightarrow> ('t, 'b, 'f) CoreBroker \<Rightarrow> bool" where
  "verifyBrokerKey mess s =
     (if 1 < length (stringData mess)
      then getString mess 1 = brokerKey s \<or> brokerKey s = universalKey
      else brokerKey s = [])"

end
