(* ===== verification/Timeout_Monitor.thy ===== *)
theory Timeout_Monitor
  imports Broker_State
begin

text \<open>
  The supervision of the connections of a broker (\<open>TimeoutMonitor.cpp\<close>): pings, their replies, and
  what happens when they stay out. The reading of the steady clock is an argument. The variant of
  \<open>tick\<close> for cores is in \<open>Core_Processing\<close>.
\<close>

definition set_monitor :: "(TimeoutMonitor \<Rightarrow> TimeoutMonitor) \<Rightarrow> ('t, 'b, 'f) CoreBroker \<Rightarrow> ('t, 'b, 'f) CoreBroker" where
  "set_monitor f s = s\<lparr> timeoutMon := f (timeoutMon s) \<rparr>"

definition tm_set_parent :: "(linkConnection \<Rightarrow> linkConnection) \<Rightarrow> TimeoutMonitor \<Rightarrow> TimeoutMonitor" where
  "tm_set_parent f tm = tm\<lparr> tm_parentConnection := f (tm_parentConnection tm) \<rparr>"

definition setTimeout :: "int \<Rightarrow> TimeoutMonitor \<Rightarrow> TimeoutMonitor" where
  "setTimeout to tm = tm\<lparr> tm_timeout := to \<rparr>"

definition setParentId :: "global_broker_id \<Rightarrow> TimeoutMonitor \<Rightarrow> TimeoutMonitor" where
  "setParentId parent_id tm = tm_set_parent (\<lambda>c. c\<lparr> lc_connection := fed_of_broker parent_id \<rparr>) tm"

definition disableParentPing :: "bool \<Rightarrow> TimeoutMonitor \<Rightarrow> TimeoutMonitor" where
  "disableParentPing v tm = tm_set_parent (\<lambda>c. c\<lparr> lc_disablePing := v, lc_waitingForPingReply := False \<rparr>) tm"

definition tm_reset :: "TimeoutMonitor \<Rightarrow> TimeoutMonitor" where
  "tm_reset tm =
     (tm_set_parent (\<lambda>c. c\<lparr> lc_waitingForPingReply := False \<rparr>) tm)
       \<lparr> tm_waitingForConnection := False,
         tm_connections := map (\<lambda>c. c\<lparr> lc_waitingForPingReply := False \<rparr>) (tm_connections tm) \<rparr>"

text \<open>\<open>CoreBroker::processDisconnect(bool)\<close>: the end of the transport.\<close>

definition cb_processDisconnect :: "bool \<Rightarrow> ('t, 'b, 'f) CoreBroker \<Rightarrow> ('t, 'b, 'f) CoreBroker" where
  "cb_processDisconnect skipUnregister s =
     (if brokerState s = BS_terminating \<or> brokerState s = BS_terminated then s
      else let s1 = (if BS_configured < brokerState s
                     then event Broker_Disconnect (s\<lparr> brokerState := BS_terminating \<rparr>) else s);
               s2 = s1\<lparr> brokerState := BS_terminated \<rparr>;
               s3 = (if skipUnregister then s2 else event Unregister s2)
           in event Disconnection_Trigger s3)"

definition sendErrorToImmediateBrokers ::
  "('t::linorder, 'b, 'f) broker_env \<Rightarrow> int32 \<Rightarrow> ('t, 'b, 'f) CoreBroker \<Rightarrow> ('t, 'b, 'f) CoreBroker" where
  "sendErrorToImmediateBrokers E error_code s =
     cb_broadcast E ((mk_message (be_time E) cmd_error)\<lparr> messageID := error_code \<rparr>) s"

definition REQUEST_TICK_FORWARDING :: int32 where "REQUEST_TICK_FORWARDING = 607"

text \<open>The search for the record of a connection; the number of records stands for none.\<close>

definition conn_index :: "global_federate_id \<Rightarrow> linkConnection list \<Rightarrow> nat" where
  "conn_index fed cs = length (takeWhile (\<lambda>c. lc_connection c \<noteq> fed) cs)"

definition ping_broker ::
  "('t::linorder, 'b, 'f) broker_env \<Rightarrow> int \<Rightarrow> bool \<times> ('t, 'b, 'f) CoreBroker \<Rightarrow> BasicBrokerInfo
     \<Rightarrow> bool \<times> ('t, 'b, 'f) CoreBroker" where
  "ping_broker E now act_s brkr =
     (let (activePing, s) = act_s; fed = fed_of_broker (bb_global_id brkr);
          cs = tm_connections (timeoutMon s); i = conn_index fed cs;
          cs1 = (if i = length cs
                 then cs @ [linkConnection_default\<lparr> lc_connection := fed, lc_disablePing := bb_disable_ping brkr \<rparr>]
                 else cs);
          put = (\<lambda>cs s. set_monitor (\<lambda>tm. tm\<lparr> tm_connections := cs \<rparr>) s)
      in if bb_state brkr < CS_error
         then if lc_disablePing (cs1 ! i) then (activePing, put cs1 s)
              else (True, transmit (bb_route brkr)
                      ((mk_message (be_time E) (if bb_core brkr then cmd_ping else CMD_BROKER_PING))
                         \<lparr> source_id := fed_of_broker (cb_local_id s), dest_id := fed \<rparr>)
                      (put (cs1[i := (cs1 ! i)\<lparr> lc_activeConnection := True, lc_waitingForPingReply := True,
                                         lc_lastPing := now \<rparr>]) s))
         else (activePing, put (cs1[i := (cs1 ! i)\<lparr> lc_activeConnection := False \<rparr>]) s))"

definition pingSub :: "('t::linorder, 'b, 'f) broker_env \<Rightarrow> int \<Rightarrow> ('t, 'b, 'f) CoreBroker \<Rightarrow> ('t, 'b, 'f) CoreBroker" where
  "pingSub E now s =
     (let (activePing, s1) = foldl (ping_broker E now) (False, s) (brokers_of E s);
          me = fed_of_broker (cb_global_id s1)
      in if activePing
         then addActionMessage (msg_setFlag indicator_flag ((mk_message (be_time E) cmd_broker_configure)
                \<lparr> dest_id := me, source_id := me, messageID := REQUEST_TICK_FORWARDING \<rparr>)) s1
         else s1)"

definition parent_ping :: "('t::linorder, 'b, 'f) broker_env \<Rightarrow> ('t, 'b, 'f) CoreBroker \<Rightarrow> ('t, 'b, 'f) CoreBroker" where
  "parent_ping E s =
     transmit parent_route_id ((mk_message (be_time E) cmd_ping_priority)
       \<lparr> source_id := fed_of_broker (cb_local_id s), dest_id := fed_of_broker (higher_broker_id s) \<rparr>) s"

definition tick_parent ::
  "('t::linorder, 'b, 'f) broker_env \<Rightarrow> int \<Rightarrow> ('t, 'b, 'f) CoreBroker \<Rightarrow> ('t, 'b, 'f) CoreBroker" where
  "tick_parent E now s =
     (let tm = timeoutMon s; pc = tm_parentConnection tm
      in if \<not> isRoot s \<and> lc_waitingForPingReply pc
         then if now - lc_lastPing pc > tm_timeout tm
              then addActionMessage (mk_message (be_time E) cmd_stop)
                     ((cb_processDisconnect False (sendErrorToImmediateBrokers E (- 5) s))\<lparr> brokerState := BS_errored \<rparr>)
              else parent_ping E s
         else s)"

definition tick_connection ::
  "('t::linorder, 'b, 'f) broker_env \<Rightarrow> int \<Rightarrow> ('t, 'b, 'f) CoreBroker \<Rightarrow> linkConnection \<Rightarrow> ('t, 'b, 'f) CoreBroker" where
  "tick_connection E now s conn =
     (let me = fed_of_broker (cb_local_id s)
      in if \<not> lc_waitingForPingReply conn then s
         else if now - lc_lastPing conn > tm_timeout (timeoutMon s)
         then addActionMessage (mk_message_to (be_time E) cmd_connection_error (lc_connection conn) me) s
         else addActionMessage (mk_message_to (be_time E) cmd_ping me (lc_connection conn)) s)"

definition tick_wait ::
  "('t::linorder, 'b, 'f) broker_env \<Rightarrow> int \<Rightarrow> ('t, 'b, 'f) CoreBroker \<Rightarrow> ('t, 'b, 'f) CoreBroker" where
  "tick_wait E now s =
     (let tm = timeoutMon s
      in if tm_waitingForConnection tm
         then if now - tm_startWaiting tm > tm_timeout tm
              then addActionMessage ((mk_message (be_time E) cmd_check_connections)
                     \<lparr> source_id := fed_of_broker (cb_local_id s) \<rparr>) s
              else s
         else set_monitor (\<lambda>tm. tm\<lparr> tm_waitingForConnection := True, tm_startWaiting := now \<rparr>) s)"

definition tick :: "('t::linorder, 'b, 'f) broker_env \<Rightarrow> int \<Rightarrow> ('t, 'b, 'f) CoreBroker \<Rightarrow> ('t, 'b, 'f) CoreBroker" where
  "tick E now s =
     (let conns = tm_connections (timeoutMon s);
          waiting = (lc_waitingForPingReply (tm_parentConnection (timeoutMon s))
                     \<or> list_ex lc_waitingForPingReply conns);
          s1 = foldl (tick_connection E now) (tick_parent E now s) conns
      in if waiting then s1
         else if isRoot s1 then pingSub E now s1
         else if isConnected s1 \<and> broker_isValid (cb_local_id s1) \<and> cb_local_id s1 \<noteq> parent_broker_id
         then if broker_isValid (higher_broker_id s1)
              then set_monitor (tm_set_parent (\<lambda>c. c\<lparr> lc_lastPing := now, lc_waitingForPingReply := True \<rparr>))
                     (parent_ping E s1)
              else s1
         else tick_wait E now s1)"

text \<open>\<open>waswaiting\<close> is overwritten by every record with the sender's identifier.\<close>

definition pingReply ::
  "('t::linorder, 'b, 'f) broker_env \<Rightarrow> 't ActionMessage \<Rightarrow> ('t, 'b, 'f) CoreBroker \<Rightarrow> ('t, 'b, 'f) CoreBroker" where
  "pingReply E cmd s =
     (let tm = timeoutMon s; conns = tm_connections tm; mine = filter (\<lambda>c. source_id cmd = lc_connection c) conns
      in if source_id cmd = lc_connection (tm_parentConnection tm)
         then set_monitor (\<lambda>tm. (tm_set_parent (\<lambda>c. c\<lparr> lc_waitingForPingReply := False \<rparr>) tm)
                                  \<lparr> tm_waitingForConnection := False \<rparr>) s
         else let waswaiting = (mine \<noteq> [] \<and> lc_waitingForPingReply (last mine));
                  conns1 = map (\<lambda>c. if source_id cmd = lc_connection c then c\<lparr> lc_waitingForPingReply := False \<rparr> else c) conns;
                  s1 = set_monitor (\<lambda>tm. tm\<lparr> tm_connections := conns1 \<rparr>) s
              in if \<not> list_ex lc_waitingForPingReply conns1 \<and> waswaiting
                 then addActionMessage ((mk_message_to (be_time E) cmd_broker_configure (dest_id cmd) (dest_id cmd))
                        \<lparr> messageID := REQUEST_TICK_FORWARDING \<rparr>) s1
                 else s1)"

end
