(* ===== verification/Core_Broker.thy ===== *)
theory Core_Broker
  imports Timeout_Monitor
begin

text \<open>
  The message processing of a broker (\<open>CoreBroker.cpp\<close>): registration of federates, cores, brokers and
  interfaces, the linking of interfaces by name, the entry into initialization, time messages,
  errors and disconnection. A handler that uses an iterator past the end of a list has the result
  \<open>None\<close>. The queries are a parameter; log levels and callbacks other than the maximum level, and the
  promises given for open queries, are not modelled.
\<close>

unbundle bit_operations_syntax

type_synonym ('t, 'b, 'f) broker_outcome = "('t, 'b, 'f) CoreBroker option"

section \<open>Handles\<close>

definition me :: "('t, 'b, 'f) CoreBroker \<Rightarrow> global_federate_id" where
  "me s = fed_of_broker (cb_local_id s)"

definition fillMessageRouteInformation ::
  "'t ActionMessage \<Rightarrow> ('t, 'b, 'f) CoreBroker \<Rightarrow> route_id \<times> 't ActionMessage" where
  "fillMessageRouteInformation mess s =
     (let endpointName = getString mess 0
      in case getEndpoint endpointName (cb_handles s) of
           Some i \<Rightarrow> (let h = bh_handle (hm_handles (cb_handles s) ! i)
                      in (getRoute (fed_id h) s, setDestination h mess))
         | None \<Rightarrow> (case knownExternalEndpoints s endpointName of
                      Some r \<Rightarrow> (r, mess) | None \<Rightarrow> (parent_route_id, mess)))"

definition addLocalInfo :: "nat \<Rightarrow> 't ActionMessage \<Rightarrow> ('t, 'b, 'f) CoreBroker \<Rightarrow> ('t, 'b, 'f) CoreBroker" where
  "addLocalInfo i m s =
     s\<lparr> cb_handles := update_handle i
          (\<lambda>h. (case global_id_translation s (source_id m) of
                  Some l \<Rightarrow> h\<lparr> local_fed_id := l \<rparr> | None \<Rightarrow> h)\<lparr> bh_flags := flags m \<rparr>) (cb_handles s) \<rparr>"

text \<open>\<open>handles.addHandle\<close> for the sender of a message, with the local information; the index and the state.\<close>

definition add_sender_handle ::
  "handle_type \<Rightarrow> string \<Rightarrow> 't ActionMessage \<Rightarrow> ('t, 'b, 'f) CoreBroker \<Rightarrow> nat \<times> ('t, 'b, 'f) CoreBroker" where
  "add_sender_handle ht name m s =
     (let (i, hm) = addHandle_id (source_id m) (source_handle m) ht name (getString m 0) (getString m 1) (cb_handles s)
      in (i, addLocalInfo i m (s\<lparr> cb_handles := hm \<rparr>)))"

section \<open>Linking by name\<close>

text \<open>Each case of \<open>checkForNamedInterface\<close>: whether the interface was found, and the state.\<close>

definition named_publication ::
  "('t, 'b, 'f) broker_env \<Rightarrow> 't ActionMessage \<Rightarrow> ('t, 'b, 'f) CoreBroker
     \<Rightarrow> (bool \<times> ('t, 'b, 'f) CoreBroker) option" where
  "named_publication E command s =
     (case getPublication (payload command) (cb_handles s) of
        None \<Rightarrow> Some (False, s)
      | Some i \<Rightarrow>
          let pub = hm_handles (cb_handles s) ! i
          in map_option (\<lambda>f.
               if bf_state (federates_of E s ! f) < CS_error
               then let m1 = (setDestination (bh_handle pub) (setAction cmd_add_subscriber command))\<lparr> payload := [] \<rparr>;
                        m2 = (swapSourceDest (setAction cmd_add_publisher m1))
                               \<lparr> payload := bh_key pub, stringData := [bh_type pub, bh_units pub] \<rparr>
                    in (True, cb_routeMessage m2 (cb_routeMessage m1 s))
               else (True, cb_routeMessage ((setSource (bh_handle pub) (swapSourceDest
                       (msg_setFlag error_flag (setAction cmd_add_publisher command))))\<lparr> stringData := [] \<rparr>) s))
             (mv_find (be_federates E) (getFederateId pub) (cb_federates s)))"

definition named_input ::
  "('t, 'b, 'f) broker_env \<Rightarrow> 't ActionMessage \<Rightarrow> ('t, 'b, 'f) CoreBroker
     \<Rightarrow> (bool \<times> ('t, 'b, 'f) CoreBroker) option" where
  "named_input E command s =
     (case getInput (payload command) (cb_handles s) of
        None \<Rightarrow> Some (False, s)
      | Some i \<Rightarrow>
          let inp = hm_handles (cb_handles s) ! i
          in map_option (\<lambda>f.
               if bf_state (federates_of E s ! f) < CS_error
               then let m0 = setDestination (bh_handle inp) (setAction cmd_add_publisher command);
                        m1 = (case findHandle (getSource m0) (cb_handles s) of
                                Some p \<Rightarrow> m0\<lparr> stringData := [bh_type (hm_handles (cb_handles s) ! p),
                                                             bh_units (hm_handles (cb_handles s) ! p)] \<rparr>
                              | None \<Rightarrow> m0)\<lparr> payload := [] \<rparr>;
                        m2 = (swapSourceDest (setAction cmd_add_subscriber m1))
                               \<lparr> stringData := [], payload := bh_key inp \<rparr>
                    in (True, cb_routeMessage m2 (cb_routeMessage m1 s))
               else (True, cb_routeMessage ((setSource (bh_handle inp) (swapSourceDest
                       (msg_setFlag error_flag (setAction cmd_add_subscriber command))))\<lparr> stringData := [] \<rparr>) s))
             (mv_find (be_federates E) (getFederateId inp) (cb_federates s)))"

definition filter_details :: "BasicHandleInfo \<Rightarrow> 't ActionMessage \<Rightarrow> 't ActionMessage" where
  "filter_details filt m =
     (let m1 = (if type_in filt \<noteq> [] \<or> type_out filt \<noteq> []
                then m\<lparr> stringData := [type_in filt, type_out filt] \<rparr> else m)
      in if checkActionFlag (bh_flags filt) clone_flag then msg_setFlag clone_flag m1 else m1)"

definition named_filter :: "'t ActionMessage \<Rightarrow> ('t, 'b, 'f) CoreBroker \<Rightarrow> bool \<times> ('t, 'b, 'f) CoreBroker" where
  "named_filter command s =
     (case getFilter (payload command) (cb_handles s) of
        None \<Rightarrow> (False, s)
      | Some i \<Rightarrow>
          let filt = hm_handles (cb_handles s) ! i;
              m1 = (setDestination (bh_handle filt) (setAction cmd_add_endpoint command))\<lparr> payload := [] \<rparr>;
              m2 = filter_details filt (swapSourceDest (setAction cmd_add_filter m1))
          in (True, cb_routeMessage m2 (cb_routeMessage m1 s)))"

definition named_endpoint ::
  "('t, 'b, 'f) broker_env \<Rightarrow> 't ActionMessage \<Rightarrow> ('t, 'b, 'f) CoreBroker
     \<Rightarrow> (bool \<times> ('t, 'b, 'f) CoreBroker) option" where
  "named_endpoint E command s =
     (case getEndpoint (payload command) (cb_handles s) of
        None \<Rightarrow> Some (False, s)
      | Some i \<Rightarrow>
          let ept = hm_handles (cb_handles s) ! i
          in map_option (\<lambda>f.
               if bf_state (federates_of E s ! f) < CS_error
               then let m0 = (setDestination (bh_handle ept) (setAction cmd_add_filter command))\<lparr> payload := [] \<rparr>;
                        m1 = (case findHandle (getSource m0) (cb_handles s) of
                                Some p \<Rightarrow> filter_details (hm_handles (cb_handles s) ! p) m0 | None \<Rightarrow> m0);
                        m2 = (swapSourceDest (setAction cmd_add_endpoint m1))\<lparr> stringData := [] \<rparr>
                    in (True, cb_routeMessage m2 (cb_routeMessage m1 s))
               else (True, cb_routeMessage ((setSource (bh_handle ept) (swapSourceDest
                       (msg_setFlag error_flag (setAction cmd_add_endpoint command))))\<lparr> stringData := [] \<rparr>) s))
             (mv_find (be_federates E) (getFederateId ept) (cb_federates s)))"

text \<open>An interface that is not known yet, at the root.\<close>

definition note_unknown :: "'t ActionMessage \<Rightarrow> ('t, 'b, 'f) CoreBroker \<Rightarrow> ('t, 'b, 'f) CoreBroker" where
  "note_unknown command s =
     (let act = messageAction command; src = getSource command; name = payload command; fl = flags command;
          anonymous = (\<lambda>ht s. if stringData command \<noteq> [] \<and> findHandle src (cb_handles s) = None
                              then snd (add_sender_handle ht [] command s) else s)
      in if act = cmd_add_named_publication
         then s\<lparr> cb_unknowns := addUnknownPublication name src fl (cb_unknowns s) \<rparr>
         else if act = cmd_add_named_input
         then anonymous HT_publication (s\<lparr> cb_unknowns := addUnknownInput name src fl (cb_unknowns s) \<rparr>)
         else if act = cmd_add_named_endpoint
         then anonymous HT_filter (s\<lparr> cb_unknowns := addUnknownEndpoint name src fl (cb_unknowns s) \<rparr>)
         else if act = cmd_add_named_filter
         then s\<lparr> cb_unknowns := addUnknownFilter name src fl (cb_unknowns s) \<rparr>
         else s)"

definition checkForNamedInterface ::
  "('t, 'b, 'f) broker_env \<Rightarrow> 't ActionMessage \<Rightarrow> ('t, 'b, 'f) CoreBroker \<Rightarrow> ('t, 'b, 'f) broker_outcome" where
  "checkForNamedInterface E command s =
     do {
       (foundInterface, s1) \<leftarrow>
         (let act = messageAction command
          in if act = cmd_add_named_publication then named_publication E command s
             else if act = cmd_add_named_input then named_input E command s
             else if act = cmd_add_named_filter then Some (named_filter command s)
             else if act = cmd_add_named_endpoint then named_endpoint E command s
             else Some (False, s));
       Some (if foundInterface then s1
             else if isRootc s1 then note_unknown command s1
             else cb_routeMessage command s1)
     }"

text \<open>The lookup, the action sent to the target and the one sent back, for each kind of removal.\<close>

definition removal :: "action_t \<Rightarrow> string \<Rightarrow> HandleManager \<Rightarrow> (nat option \<times> action_t \<times> action_t) option" where
  "removal act name hm =
     (if act = cmd_remove_named_publication
      then Some (getPublication name hm, cmd_remove_subscriber, cmd_remove_publication)
      else if act = cmd_remove_named_input then Some (getInput name hm, cmd_remove_publication, cmd_remove_subscriber)
      else if act = cmd_remove_named_filter then Some (getFilter name hm, cmd_remove_endpoint, cmd_remove_filter)
      else if act = cmd_remove_named_endpoint then Some (getEndpoint name hm, cmd_remove_filter, cmd_add_endpoint)
      else None)"

definition removeNamedTarget :: "'t ActionMessage \<Rightarrow> ('t, 'b, 'f) CoreBroker \<Rightarrow> ('t, 'b, 'f) CoreBroker" where
  "removeNamedTarget command s =
     (case removal (messageAction command) (payload command) (cb_handles s) of
        Some (Some i, there, back) \<Rightarrow>
          (let m1 = (setDestination (bh_handle (hm_handles (cb_handles s) ! i)) (setAction there command))\<lparr> payload := [] \<rparr>;
               m2 = swapSourceDest (setAction back m1)
           in cb_routeMessage m2 (cb_routeMessage m1 s))
      | _ \<Rightarrow> (if isRootc s then s else cb_routeMessage command s))"

section \<open>New interfaces\<close>

definition propagateError ::
  "('t::linorder, 'b, 'f) broker_env \<Rightarrow> 't ActionMessage \<Rightarrow> ('t, 'b, 'f) CoreBroker \<Rightarrow> ('t, 'b, 'f) CoreBroker" where
  "propagateError E cmd s =
     (if messageAction cmd = cmd_local_error \<and> cb_terminate_on_error s
      then let c = setAction cmd_global_error cmd
           in transmitToParent c (cb_broadcast E c (cb_setErrorState E (messageID c) (payload c) s))
      else cb_routeMessage cmd s)"

definition duplicate_name ::
  "('t::linorder, 'b, 'f) broker_env \<Rightarrow> string \<Rightarrow> 't ActionMessage \<Rightarrow> ('t, 'b, 'f) CoreBroker \<Rightarrow> ('t, 'b, 'f) CoreBroker" where
  "duplicate_name E kind m s =
     propagateError E ((mk_message_to (be_time E) cmd_local_error (me s) (source_id m))
       \<lparr> dest_handle := source_handle m, messageID := registration_failure,
         payload := ''Duplicate '' @ kind @ '' names ('' @ payload m @ '')'' \<rparr>) s"

definition notify_pair ::
  "'t ActionMessage \<Rightarrow> 't ActionMessage \<Rightarrow> ('t, 'b, 'f) CoreBroker \<Rightarrow> ('t, 'b, 'f) CoreBroker" where
  "notify_pair m1 m2 s = (let s1 = transmit (getRoute (dest_id m1) s) m1 s in transmit (getRoute (dest_id m2) s1) m2 s1)"

definition FindandNotifyInputTargets ::
  "('t::linorder, 'b, 'f) broker_env \<Rightarrow> BasicHandleInfo \<Rightarrow> ('t, 'b, 'f) CoreBroker \<Rightarrow> ('t, 'b, 'f) CoreBroker" where
  "FindandNotifyInputTargets E h s =
     (let targets = checkForInputs (bh_key h) (cb_unknowns s);
          s1 = foldl (\<lambda>s (target, fl).
              let m1 = (setSource (bh_handle h) (setDestination target (mk_message (be_time E) cmd_add_subscriber)))
                         \<lparr> payload := bh_type h, flags := bh_flags h \<rparr>;
                  m2 = (setDestination (bh_handle h) (setSource target (setAction cmd_add_publisher m1)))\<lparr> flags := fl \<rparr>;
                  m3 = (case findHandle target (cb_handles s) of
                          Some p \<Rightarrow> m2\<lparr> stringData := [bh_type (hm_handles (cb_handles s) ! p),
                                                       bh_units (hm_handles (cb_handles s) ! p)] \<rparr>
                        | None \<Rightarrow> m2)
              in notify_pair m1 m3 s) s targets
      in if targets \<noteq> [] then s1\<lparr> cb_unknowns := clearInput (bh_key h) (cb_unknowns s1) \<rparr> else s1)"

text \<open>A loop of \<open>checkForNamedInterface\<close> over messages.\<close>

fun check_all ::
  "('t, 'b, 'f) broker_env \<Rightarrow> 't ActionMessage list \<Rightarrow> ('t, 'b, 'f) CoreBroker \<Rightarrow> ('t, 'b, 'f) broker_outcome" where
  "check_all E [] s = Some s"
| "check_all E (m # ms) s = do { s1 \<leftarrow> checkForNamedInterface E m s; check_all E ms s1 }"

definition FindandNotifyPublicationTargets ::
  "('t::linorder, 'b, 'f) broker_env \<Rightarrow> BasicHandleInfo \<Rightarrow> ('t, 'b, 'f) CoreBroker \<Rightarrow> ('t, 'b, 'f) broker_outcome" where
  "FindandNotifyPublicationTargets E h s =
     do {
       let subHandles = checkForPublications (bh_key h) (cb_unknowns s);
       let s1 = foldl (\<lambda>s (sub, fl).
              let m1 = (setDestination (bh_handle h) (setSource sub (mk_message (be_time E) cmd_add_subscriber)))\<lparr> flags := fl \<rparr>;
                  m2 = (setSource (bh_handle h) (setDestination sub (setAction cmd_add_publisher m1)))
                         \<lparr> payload := bh_type h, flags := bh_flags h, stringData := [bh_type h, bh_units h] \<rparr>
              in notify_pair m1 m2 s) s subHandles;
       let Pubtargets = checkForLinks (bh_key h) (cb_unknowns s1);
       s2 \<leftarrow> check_all E (map (\<lambda>sub. setSource (bh_handle h)
                ((mk_message (be_time E) cmd_add_named_input)\<lparr> payload := sub \<rparr>)) Pubtargets) s1;
       Some (if \<not> (subHandles = [] \<and> Pubtargets = [])
             then s2\<lparr> cb_unknowns := clearPublication (bh_key h) (cb_unknowns s2) \<rparr> else s2)
     }"

definition FindandNotifyEndpointTargets ::
  "('t::linorder, 'b, 'f) broker_env \<Rightarrow> BasicHandleInfo \<Rightarrow> ('t, 'b, 'f) CoreBroker \<Rightarrow> ('t, 'b, 'f) CoreBroker" where
  "FindandNotifyEndpointTargets E h s =
     (let targets = checkForEndpoints (bh_key h) (cb_unknowns s);
          s1 = foldl (\<lambda>s (target, fl).
              let m1 = (setDestination target (setSource (bh_handle h) (mk_message (be_time E) cmd_add_endpoint)))\<lparr> flags := fl \<rparr>;
                  m2 = (swapSourceDest (setAction cmd_add_filter m1))\<lparr> flags := fl \<rparr>
              in notify_pair m1 m2 s) s targets
      in if targets \<noteq> [] then s1\<lparr> cb_unknowns := clearEndpoint (bh_key h) (cb_unknowns s1) \<rparr> else s1)"

definition FindandNotifyFilterTargets ::
  "('t::linorder, 'b, 'f) broker_env \<Rightarrow> BasicHandleInfo \<Rightarrow> ('t, 'b, 'f) CoreBroker \<Rightarrow> ('t, 'b, 'f) broker_outcome" where
  "FindandNotifyFilterTargets E h s =
     do {
       let targets = checkForFilters (bh_key h) (cb_unknowns s);
       let clone = (\<lambda>m. if checkActionFlag (bh_flags h) clone_flag then msg_setFlag clone_flag m else m);
       let s1 = foldl (\<lambda>s (target, fl).
              let m0 = setDestination target (clone ((setSource (bh_handle h)
                         (mk_message (be_time E) cmd_add_filter))\<lparr> flags := fl \<rparr>));
                  m1 = (if type_in h \<noteq> [] \<or> type_out h \<noteq> [] then m0\<lparr> stringData := [type_in h, type_out h] \<rparr> else m0);
                  m2 = (swapSourceDest (setAction cmd_add_endpoint m1))\<lparr> stringData := [] \<rparr>
              in notify_pair m1 m2 s) s targets;
       let dests = checkForFilterDestTargets (bh_key h) (cb_unknowns s1);
       let named = (\<lambda>t. (setSource (bh_handle h) ((mk_message (be_time E) cmd_add_named_endpoint)\<lparr> payload := t \<rparr>))
                          \<lparr> flags := bh_flags h \<rparr>);
       s2 \<leftarrow> check_all E (map (\<lambda>t. clone (msg_setFlag destination_target (named t))) dests) s1;
       let srcs = checkForFilterSourceTargets (bh_key h) (cb_unknowns s2);
       s3 \<leftarrow> check_all E (map (\<lambda>t. clone (named t)) srcs) s2;
       Some (if \<not> (targets = [] \<and> dests = [] \<and> srcs = [])
             then s3\<lparr> cb_unknowns := clearFilter (bh_key h) (cb_unknowns s3) \<rparr> else s3)
     }"

definition addPublication ::
  "('t::linorder, 'b, 'f) broker_env \<Rightarrow> 't ActionMessage \<Rightarrow> ('t, 'b, 'f) CoreBroker \<Rightarrow> ('t, 'b, 'f) broker_outcome" where
  "addPublication E m s =
     (if getPublication (payload m) (cb_handles s) \<noteq> None then Some (duplicate_name E ''publication'' m s)
      else let (i, s1) = add_sender_handle HT_publication (payload m) m s
           in if \<not> isRootc s1 then Some (transmit parent_route_id m s1)
              else FindandNotifyPublicationTargets E (hm_handles (cb_handles s1) ! i) s1)"

definition addInput ::
  "('t::linorder, 'b, 'f) broker_env \<Rightarrow> 't ActionMessage \<Rightarrow> ('t, 'b, 'f) CoreBroker \<Rightarrow> ('t, 'b, 'f) CoreBroker" where
  "addInput E m s =
     (if getInput (payload m) (cb_handles s) \<noteq> None then duplicate_name E ''input'' m s
      else let (i, s1) = add_sender_handle HT_input (payload m) m s
           in if \<not> isRootc s1 then transmit parent_route_id m s1
              else FindandNotifyInputTargets E (hm_handles (cb_handles s1) ! i) s1)"

definition addEndpoint ::
  "('t::linorder, 'b, 'f) broker_env \<Rightarrow> 't ActionMessage \<Rightarrow> ('t, 'b, 'f) CoreBroker \<Rightarrow> ('t, 'b, 'f) CoreBroker" where
  "addEndpoint E m s =
     (if getEndpoint (payload m) (cb_handles s) \<noteq> None then duplicate_name E ''endpoint'' m s
      else let (i, s1) = add_sender_handle HT_endpoint (payload m) m s
           in if isRootc s1 then FindandNotifyEndpointTargets E (hm_handles (cb_handles s1) ! i) s1
              else let s2 = transmit parent_route_id m s1; up = fed_of_broker (higher_broker_id s2)
                   in if cb_hasTimeDependency s2 then s2
                      else let (added, tc) = ft_addDependency (be_time E) up (cb_timeCoord s2); s3 = put_forwarding tc s2
                           in if added
                              then put_forwarding (snd (ft_addDependent up (cb_timeCoord s3)))
                                     (transmit parent_route_id (mk_message_to (be_time E) cmd_add_interdependency (me s3) up)
                                        (s3\<lparr> cb_hasTimeDependency := True \<rparr>))
                              else s3)"

definition addFilter ::
  "('t::linorder, 'b, 'f) broker_env \<Rightarrow> 't ActionMessage \<Rightarrow> ('t, 'b, 'f) CoreBroker \<Rightarrow> ('t, 'b, 'f) broker_outcome" where
  "addFilter E m s =
     (if getFilter (payload m) (cb_handles s) \<noteq> None then Some (duplicate_name E ''filter'' m s)
      else let (i, s1) = add_sender_handle HT_filter (payload m) m s
           in if isRootc s1 then FindandNotifyFilterTargets E (hm_handles (cb_handles s1) ! i) s1
              else let s2 = transmit parent_route_id m s1; up = fed_of_broker (higher_broker_id s2)
                   in if hasFilters s2 then Some s2
                      else let (added, tc) = ft_addDependent up (cb_timeCoord s2);
                               s3 = put_forwarding tc (s2\<lparr> hasFilters := True \<rparr>)
                           in Some (if added
                                    then transmit parent_route_id (mk_message_to (be_time E) cmd_add_dependency (me s3) up)
                                           (s3\<lparr> cb_hasTimeDependency := True \<rparr>)
                                    else s3))"

end
