(* ===== verification/Broker_Processing.thy ===== *)
theory Broker_Processing
  imports Core_Broker
begin

text \<open>
  The rest of \<open>CoreBroker.cpp\<close>: registration of federates and brokers, initialization, errors,
  disconnection, and the two functions that dispatch the messages.
\<close>

section \<open>Registration\<close>

definition refusal ::
  "('t::linorder, 'b, 'f) broker_env \<Rightarrow> action_t \<Rightarrow> int32 \<Rightarrow> 't ActionMessage \<Rightarrow> ('t, 'b, 'f) CoreBroker
     \<Rightarrow> 't ActionMessage" where
  "refusal E act code command s =
     (msg_setFlag error_flag (mk_message (be_time E) act))
       \<lparr> source_id := me s, messageID := code, payload := payload command \<rparr>"

definition init_not_ready ::
  "('t::linorder, 'b, 'f) broker_env \<Rightarrow> ('t, 'b, 'f) CoreBroker \<Rightarrow> ('t, 'b, 'f) CoreBroker" where
  "init_not_ready E s =
     (if allInitReady E s
      then transmit parent_route_id ((mk_message (be_time E) cmd_init_not_ready)\<lparr> source_id := me s \<rparr>) s else s)"

text \<open>A federate the root registers gets the next identifier. The insertion fails exactly when the name is
  found, which is what the code asks before it inserts.\<close>

definition new_federate_id :: "nat \<Rightarrow> global_federate_id" where
  "new_federate_id n = Global_Federate_Id (word_of_nat n - 1 + global_federate_id_shift)"

definition reg_fed ::
  "('t::linorder, 'b, 'f) broker_env \<Rightarrow> 't ActionMessage \<Rightarrow> ('t, 'b, 'f) CoreBroker \<Rightarrow> ('t, 'b, 'f) CoreBroker" where
  "reg_fed E command s =
     (let F = be_federates E; r = getRoute (source_id command) s; name = payload command
      in if \<not> connectionEstablished s then s\<lparr> earlyMessages := earlyMessages s @ [command] \<rparr>
         else if brokerState s = BS_operating then transmit r (refusal E cmd_fed_ack 5 command s) s
         else let s1 = init_not_ready E s;
                  info = (mk_BasicFedInfo name)\<lparr> bf_route := r, bf_parent := broker_of_fed (source_id command) \<rparr>
              in case mv_insert F name None info (cb_federates s1) of
                   None \<Rightarrow> transmit r (refusal E cmd_fed_ack 6 command s1) s1
                 | Some fs \<Rightarrow>
                     if \<not> isRootc s1
                     then let s2 = s1\<lparr> cb_federates := fs \<rparr>
                          in if broker_isValid (cb_local_id s2)
                             then transmit parent_route_id (command\<lparr> source_id := me s2 \<rparr>) s2
                             else s2\<lparr> delayTransmitQueue := delayTransmitQueue s2 @ [command] \<rparr>
                     else let i = mv_size F fs - 1; fid = new_federate_id (mv_size F fs);
                              fs1 = mv_write F i ((mv_elems F fs ! i)\<lparr> bf_global_id := fid \<rparr>) fs;
                              fs2 = mv_add_key F fid (nat (uint (gid fid - global_federate_id_shift))) fs1
                          in transmit r ((mk_message (be_time E) cmd_fed_ack)
                               \<lparr> source_id := me s1, dest_id := fid, payload := name \<rparr>)
                               (s1\<lparr> cb_federates := fs2, routing_table := emplace fid r (routing_table s1) \<rparr>))"

definition direct_sender :: "'t ActionMessage \<Rightarrow> bool" where
  "direct_sender command \<longleftrightarrow> \<not> fed_isValid (source_id command) \<or> source_id command = parent_fed"

definition reply_route ::
  "'t ActionMessage \<Rightarrow> ('t, 'b, 'f) CoreBroker \<Rightarrow> route_id \<times> ('t, 'b, 'f) CoreBroker" where
  "reply_route command s =
     (if direct_sender command
      then let r = Route_Id (routeCount s)
           in (r, event (Add_Route r (getExtraData command) (getString command 0)) (s\<lparr> routeCount := routeCount s + 1 \<rparr>))
      else (getRoute (source_id command) s, s))"

definition refuse_broker ::
  "'t ActionMessage \<Rightarrow> 't ActionMessage \<Rightarrow> ('t, 'b, 'f) CoreBroker \<Rightarrow> ('t, 'b, 'f) CoreBroker" where
  "refuse_broker command answer s =
     (let (r, s1) = reply_route command s; s2 = transmit r answer s1
      in if direct_sender command then event (Remove_Route r) s2 else s2)"

definition broker_reply ::
  "('t::linorder, 'b, 'f) broker_env \<Rightarrow> global_broker_id \<Rightarrow> string \<Rightarrow> ('t, 'b, 'f) CoreBroker \<Rightarrow> 't ActionMessage" where
  "broker_reply E b name s =
     (let m = (mk_message (be_time E) cmd_broker_ack)\<lparr> source_id := me s, dest_id := fed_of_broker b, payload := name \<rparr>
      in if no_ping s then msg_setFlag slow_responding_flag m else m)"

definition new_broker_id :: "nat \<Rightarrow> global_broker_id" where
  "new_broker_id n = Global_Broker_Id (word_of_nat n - 1 + global_broker_id_shift)"

text \<open>The registration that is sent again because the acknowledgement did not arrive.\<close>

definition resend_broker ::
  "('t::linorder, 'b, 'f) broker_env \<Rightarrow> nat \<Rightarrow> 't ActionMessage \<Rightarrow> ('t, 'b, 'f) CoreBroker \<Rightarrow> ('t, 'b, 'f) CoreBroker" where
  "resend_broker E i command s =
     (let r = Route_Id (routeCount s);
          s1 = event (Add_Route r (getExtraData command) (getString command 0))
                 (set_broker E i (\<lambda>b. b\<lparr> bb_route := r \<rparr>) (s\<lparr> routeCount := routeCount s + 1 \<rparr>));
          b = bb_global_id (brokers_of E s1 ! i);
          s2 = s1\<lparr> routing_table := (routing_table s1)(fed_of_broker b \<mapsto> r) \<rparr>
      in transmit r (broker_reply E b (payload command) s2) s2)"

text \<open>A broker that was accepted: its record, then the way on to the parent or the answer of the root.\<close>

definition broker_record ::
  "'t ActionMessage \<Rightarrow> ('t, 'b, 'f) CoreBroker \<Rightarrow> BasicBrokerInfo \<times> ('t, 'b, 'f) CoreBroker" where
  "broker_record command s =
     (let (r, s1) = reply_route command s;
          info = (mk_BasicBrokerInfo (payload command))\<lparr> bb_route := r, bb_core := checkActionFlag (flags command) core_flag \<rparr>
      in if direct_sender command
         then (info\<lparr> bb_parent := cb_local_id s, bb_nonLocal := False, bb_route_key := True \<rparr>, s1)
         else (info\<lparr> bb_parent := broker_of_fed (source_id command), bb_nonLocal := True \<rparr>, s1))"

definition accept_broker ::
  "('t::linorder, 'b, 'f) broker_env \<Rightarrow> 't ActionMessage \<Rightarrow> 'b \<Rightarrow> ('t, 'b, 'f) CoreBroker \<Rightarrow> ('t, 'b, 'f) CoreBroker" where
  "accept_broker E command bs s =
     (let B = be_brokers E
      in if \<not> isRootc s
         then let s1 = s\<lparr> cb_brokers := bs \<rparr>
              in if broker_isValid (cb_local_id s1) \<and> cb_local_id s1 \<noteq> parent_broker_id
                 then transmit parent_route_id (command\<lparr> source_id := me s1 \<rparr>) s1
                 else s1\<lparr> delayTransmitQueue := delayTransmitQueue s1 @ [command] \<rparr>
         else let i = mv_size B bs - 1; b = new_broker_id (mv_size B bs); r = bb_route (mv_elems B bs ! i);
                  slow = checkActionFlag (flags command) slow_responding_flag;
                  bs1 = mv_write B i ((mv_elems B bs ! i)
                          \<lparr> bb_global_id := b, bb_disable_ping := slow \<or> bb_disable_ping (mv_elems B bs ! i) \<rparr>) bs;
                  s1 = s\<lparr> cb_brokers := mv_add_key B b i bs1,
                          routing_table := emplace (fed_of_broker b) r (routing_table s) \<rparr>
              in transmit r (broker_reply E b (payload command) s1) s1)"

definition reg_broker ::
  "('t::linorder, 'b, 'f) broker_env \<Rightarrow> 't ActionMessage \<Rightarrow> ('t, 'b, 'f) CoreBroker \<Rightarrow> ('t, 'b, 'f) CoreBroker" where
  "reg_broker E command s =
     (let B = be_brokers E; name = payload command
      in if \<not> connectionEstablished s then s\<lparr> earlyMessages := earlyMessages s @ [command] \<rparr>
         else if 0 < counter command \<and> mv_find_name B name (cb_brokers s) \<noteq> None
         then resend_broker E (the (mv_find_name B name (cb_brokers s))) command s
         else if brokerState s = BS_operating then refuse_broker command (refusal E cmd_broker_ack 5 command s) s
         else let s1 = init_not_ready E s
              in if \<not> verifyBrokerKey command s1
                 then refuse_broker command ((refusal E cmd_broker_ack 9 command s1)
                        \<lparr> stringData := [''broker key does not match''] \<rparr>) s1
                 else let (info, s2) = broker_record command s1
                      in case mv_insert B name None info (cb_brokers s2) of
                           None \<Rightarrow> refuse_broker command (refusal E cmd_broker_ack 7 command s1) s1
                         | Some bs \<Rightarrow> accept_broker E command bs s2)"

text \<open>An acknowledgement for a federate or broker that is not known uses an iterator past the end.\<close>

definition fed_ack ::
  "('t, 'b, 'f) broker_env \<Rightarrow> 't ActionMessage \<Rightarrow> ('t, 'b, 'f) CoreBroker \<Rightarrow> ('t, 'b, 'f) broker_outcome" where
  "fed_ack E command s =
     (case mv_find_name (be_federates E) (payload command) (cb_federates s) of
        None \<Rightarrow> None
      | Some i \<Rightarrow>
          let s1 = set_federate E i (\<lambda>f. f\<lparr> bf_global_id := dest_id command \<rparr>) s;
              r = bf_route (federates_of E s1 ! i);
              s2 = transmit r command (s1\<lparr> cb_federates := mv_add_key (be_federates E) (dest_id command) i (cb_federates s1) \<rparr>)
          in Some (s2\<lparr> routing_table := emplace (dest_id command) r (routing_table s2) \<rparr>))"

definition transmitDelayedMessages :: "('t, 'b, 'f) CoreBroker \<Rightarrow> ('t, 'b, 'f) CoreBroker" where
  "transmitDelayedMessages s =
     foldl (\<lambda>s m. transmit parent_route_id (m\<lparr> source_id := me s \<rparr>) s) (s\<lparr> delayTransmitQueue := [] \<rparr>) (delayTransmitQueue s)"

definition own_ack ::
  "('t, 'b, 'f) broker_env \<Rightarrow> 't ActionMessage \<Rightarrow> ('t, 'b, 'f) CoreBroker \<Rightarrow> ('t, 'b, 'f) CoreBroker" where
  "own_ack E command s =
     (let b = broker_of_fed (dest_id command);
          s1 = s\<lparr> cb_local_id := b, cb_global_id := b, higher_broker_id := broker_of_fed (source_id command),
                  cb_timeCoord := (cb_timeCoord s)\<lparr> ft_source_id := fed_of_broker b \<rparr> \<rparr>;
          s2 = transmitDelayedMessages s1;
          s3 = s2\<lparr> cb_brokers := mv_map (be_brokers E) (\<lambda>k. if \<not> bb_nonLocal k then k\<lparr> bb_parent := b \<rparr> else k) (cb_brokers s2) \<rparr>
      in set_monitor (\<lambda>tm. tm_reset ((if checkActionFlag (flags command) slow_responding_flag then disableParentPing True else id)
           (setParentId (higher_broker_id s3) tm))) s3)"

definition broker_ack ::
  "('t, 'b, 'f) broker_env \<Rightarrow> 't ActionMessage \<Rightarrow> ('t, 'b, 'f) CoreBroker \<Rightarrow> ('t, 'b, 'f) broker_outcome" where
  "broker_ack E command s =
     (if payload command = cb_identifier s
      then Some (if checkActionFlag (flags command) error_flag then s else own_ack E command s)
      else case mv_find_name (be_brokers E) (payload command) (cb_brokers s) of
             None \<Rightarrow> None
           | Some i \<Rightarrow>
               let b = broker_of_fed (dest_id command)
               in if bb_global_id (brokers_of E s ! i) = b then Some s
                  else let s1 = set_broker E i (\<lambda>k. k\<lparr> bb_global_id := b \<rparr>) s;
                           r = bb_route (brokers_of E s1 ! i);
                           s2 = s1\<lparr> cb_brokers := mv_add_key (be_brokers E) b i (cb_brokers s1),
                                    routing_table := emplace (fed_of_broker b) r (routing_table s1) \<rparr>
                       in Some (transmit r (command\<lparr> source_id := me s2 \<rparr>) s2))"

section \<open>Dependencies and initialization\<close>

definition delayed_dependency ::
  "('t::linorder, 'b, 'f) broker_env \<Rightarrow> ('t, 'b, 'f) CoreBroker \<Rightarrow> string \<times> global_federate_id \<Rightarrow> ('t, 'b, 'f) CoreBroker" where
  "delayed_dependency E s newdep =
     (case mv_find_name (be_federates E) (fst newdep) (cb_federates s) of
        Some i \<Rightarrow>
          let f = bf_global_id (federates_of E s ! i)
          in cb_routeMessage (mk_message_to (be_time E) cmd_add_dependent f (snd newdep))
               (cb_routeMessage (mk_message_to (be_time E) cmd_add_dependency (snd newdep) f) s)
      | None \<Rightarrow> cb_routeMessage ((mk_message_to (be_time E) cmd_log parent_fed (snd newdep))
                  \<lparr> messageID := 1, payload := ''unable to locate '' @ fst newdep @ '' to establish dependency'' \<rparr>) s)"

definition send_from ::
  "('t::linorder, 'b, 'f) broker_env \<Rightarrow> action_t \<Rightarrow> global_federate_id \<Rightarrow> global_federate_id
     \<Rightarrow> ('t, 'b, 'f) CoreBroker \<Rightarrow> ('t, 'b, 'f) CoreBroker" where
  "send_from E act src dest s = cb_routeMessage_to ((mk_message (be_time E) act)\<lparr> source_id := src \<rparr>) dest s"

definition drop_dependency :: "global_federate_id \<Rightarrow> ('t, 'b, 'f) CoreBroker \<Rightarrow> ('t, 'b, 'f) CoreBroker" where
  "drop_dependency f s = s\<lparr> cb_timeCoord := ft_removeDependency f (cb_timeCoord s) \<rparr>"

definition drop_dependent :: "global_federate_id \<Rightarrow> ('t, 'b, 'f) CoreBroker \<Rightarrow> ('t, 'b, 'f) CoreBroker" where
  "drop_dependent f s = s\<lparr> cb_timeCoord := ft_removeDependent f (cb_timeCoord s) \<rparr>"

definition check_root_dependencies ::
  "('t::linorder, 'b, 'f) broker_env \<Rightarrow> ('t, 'b, 'f) CoreBroker \<Rightarrow> ('t, 'b, 'f) CoreBroker" where
  "check_root_dependencies E s0 =
     (let s = foldl (delayed_dependency E) s0 (delayedDependencies s0)
      in case (ft_dependents (cb_timeCoord s), ft_getDependencies (cb_timeCoord s)) of
           ([depid], [front]) \<Rightarrow>
             if front \<noteq> depid
             then drop_dependent depid (drop_dependency front
                    (send_from E cmd_remove_dependency (me s) depid
                      (send_from E cmd_add_dependency front depid
                        (send_from E cmd_remove_dependent (me s) front
                          (send_from E cmd_add_dependent depid front s)))))
             else drop_dependent depid (drop_dependency depid (send_from E cmd_remove_interdependency (me s) depid s))
         | _ \<Rightarrow> s)"

definition check_own_dependencies ::
  "('t::linorder, 'b, 'f) broker_env \<Rightarrow> ('t, 'b, 'f) CoreBroker \<Rightarrow> ('t, 'b, 'f) CoreBroker" where
  "check_own_dependencies E s =
     (let up = fed_of_broker (higher_broker_id s); deps = ft_dependents (cb_timeCoord s);
          own = filter (\<lambda>d. d \<noteq> up) deps
      in if 2 < length deps \<or> length own \<noteq> 1 then s
         else let f = last own;
                  s1 = drop_dependent f (drop_dependent up (drop_dependency f (drop_dependency up s)))
              in send_from E cmd_add_interdependency up f (send_from E cmd_add_interdependency f up
                   (send_from E cmd_remove_interdependency (me s) f (send_from E cmd_remove_interdependency (me s) up s1))))"

definition checkDependencies ::
  "('t::linorder, 'b, 'f) broker_env \<Rightarrow> ('t, 'b, 'f) CoreBroker \<Rightarrow> ('t, 'b, 'f) CoreBroker" where
  "checkDependencies E s = (if isRootc s then check_root_dependencies E s else check_own_dependencies E s)"

text \<open>\<open>sendDisconnect\<close>: the brokers in turn, each with its state at that moment.\<close>

definition disconnect_one ::
  "('t::linorder, 'b, 'f) broker_env \<Rightarrow> ('t, 'b, 'f) CoreBroker \<Rightarrow> nat \<Rightarrow> ('t, 'b, 'f) CoreBroker" where
  "disconnect_one E s i =
     (let b = brokers_of E s ! i; f = fed_of_broker (bb_global_id b)
      in if bb_state b < CS_disconnected
         then let s1 = (if bb_parent b = cb_local_id s
                        then set_broker E i (\<lambda>b. b\<lparr> bb_state := CS_disconnected \<rparr>)
                               (cb_routeMessage_to ((mk_message (be_time E) cmd_disconnect)\<lparr> source_id := me s \<rparr>) f s)
                        else s)
              in if cb_hasTimeDependency s1 then drop_dependent f (drop_dependency f s1) else s1
         else s)"

definition sendDisconnect ::
  "('t::linorder, 'b, 'f) broker_env \<Rightarrow> ('t, 'b, 'f) CoreBroker \<Rightarrow> ('t, 'b, 'f) CoreBroker" where
  "sendDisconnect E s =
     (let s1 = foldl (disconnect_one E) s [0..<mv_size (be_brokers E) (cb_brokers s)]
      in if cb_hasTimeDependency s1 then put_forwarding (ft_disconnect (be_time E) (be_le E) (cb_timeCoord s1)) s1 else s1)"

definition target_word :: "char \<Rightarrow> string \<Rightarrow> string" where
  "target_word type other =
     (if type = CHR ''p'' then ''publication'' else if type = CHR ''i'' then ''input''
      else if type = CHR ''f'' then ''filter'' else if type = CHR ''e'' then ''endpoint'' else other)"

definition report_missing ::
  "('t::linorder, 'b, 'f) broker_env \<Rightarrow> (char \<Rightarrow> string) \<Rightarrow> 't ActionMessage
     \<Rightarrow> (string \<times> char \<times> global_handle) list \<Rightarrow> ('t, 'b, 'f) CoreBroker \<Rightarrow> ('t, 'b, 'f) CoreBroker" where
  "report_missing E text m calls s =
     foldl (\<lambda>s (target, type, h). cb_routeMessage (setDestination h
              (m\<lparr> payload := be_fmt E (text type) [Fmt_String target] \<rparr>)) s) s calls"

definition start_execution ::
  "('t::linorder, 'b, 'f) broker_env \<Rightarrow> ('t, 'b, 'f) CoreBroker \<Rightarrow> ('t, 'b, 'f) CoreBroker" where
  "start_execution E s =
     (let s1 = put_forwarding (ft_enteringExecMode (be_time E) (cb_timeCoord s)) s;
          (res, tc) = ft_checkExecEntry (be_time E) (cb_timeCoord s1); s2 = put_forwarding tc s1
      in if res = MPR_next_step then s2\<lparr> enteredExecutionMode := True \<rparr> else s2)"

definition missing_required ::
  "('t::linorder, 'b, 'f) broker_env \<Rightarrow> ('t, 'b, 'f) CoreBroker \<Rightarrow> ('t, 'b, 'f) CoreBroker" where
  "missing_required E s =
     (let eMiss = (mk_message (be_time E) cmd_error)\<lparr> source_id := me s, messageID := connection_failure \<rparr>;
          calls = processRequiredUnknowns (cb_unknowns s);
          s1 = report_missing E (\<lambda>c. ''Unable to connect to required '' @ target_word c ''unknown'' @ '' target {}'')
                 eMiss calls s
      in addActionMessage (mk_message (be_time E) cmd_stop) (sendDisconnect E
           (cb_broadcast E (eMiss\<lparr> payload := ''Missing required connections'' \<rparr>) s1)))"

definition executeInitializationOperations ::
  "('t::linorder, 'b, 'f) broker_env \<Rightarrow> ('t, 'b, 'f) CoreBroker \<Rightarrow> ('t, 'b, 'f) CoreBroker" where
  "executeInitializationOperations E s =
     (let s1 = checkDependencies E s; un = cb_unknowns s1
      in if hasUnknowns un \<and> hasNonOptionalUnknowns un \<and> hasRequiredUnknowns un then missing_required E s1
         else let s2 = (if hasUnknowns un \<and> hasNonOptionalUnknowns un
                        then report_missing E (\<lambda>c. ''Unable to connect to '' @ target_word c ''undefined'' @ '' target {}'')
                               ((mk_message (be_time E) cmd_warning)\<lparr> source_id := me s1, messageID := connection_failure \<rparr>)
                               (processNonOptionalUnknowns un) s1
                        else s1)
              in start_execution E (cb_broadcast E ((mk_message (be_time E) cmd_init_grant)\<lparr> source_id := me s2 \<rparr>)
                   (s2\<lparr> brokerState := BS_operating \<rparr>)))"


section \<open>Errors\<close>

definition set_state_of ::
  "('t, 'b, 'f) broker_env \<Rightarrow> global_federate_id \<Rightarrow> connection_state \<Rightarrow> ('t, 'b, 'f) CoreBroker
     \<Rightarrow> ('t, 'b, 'f) CoreBroker" where
  "set_state_of E f st s =
     (case getBrokerById E (broker_of_fed f) s of
        Some i \<Rightarrow> set_broker E i (\<lambda>b. b\<lparr> bb_state := st \<rparr>) s
      | None \<Rightarrow> (case mv_find (be_federates E) f (cb_federates s) of
                   Some i \<Rightarrow> set_federate E i (\<lambda>x. x\<lparr> bf_state := st \<rparr>) s | None \<Rightarrow> s))"

text \<open>What every error message from elsewhere causes.\<close>

definition error_noted ::
  "('t, 'b, 'f) broker_env \<Rightarrow> 't ActionMessage \<Rightarrow> ('t, 'b, 'f) CoreBroker \<Rightarrow> ('t, 'b, 'f) CoreBroker" where
  "error_noted E command s =
     set_state_of E (source_id command) CS_error
       (if source_id command = parent_fed \<or> source_id command = fed_of_broker root_broker_id
        then cb_broadcast E command (s\<lparr> brokerState := BS_errored \<rparr>) else s)"

definition error_passed_up :: "'t ActionMessage \<Rightarrow> ('t, 'b, 'f) CoreBroker \<Rightarrow> bool" where
  "error_passed_up command s \<longleftrightarrow> \<not> (isRootc s \<or> dest_id command = me s \<or> dest_id command = parent_fed)"

definition global_error ::
  "('t::linorder, 'b, 'f) broker_env \<Rightarrow> 't ActionMessage \<Rightarrow> ('t, 'b, 'f) CoreBroker \<Rightarrow> ('t, 'b, 'f) CoreBroker" where
  "global_error E command s =
     (let s1 = cb_setErrorState E (messageID command) (payload command) (error_noted E command s)
      in if error_passed_up command s1 then transmit parent_route_id command s1
         else cb_broadcast E (command\<lparr> source_id := me s1 \<rparr>) s1)"

definition cb_processError ::
  "('t::linorder, 'b, 'f) broker_env \<Rightarrow> 't ActionMessage \<Rightarrow> ('t, 'b, 'f) CoreBroker \<Rightarrow> ('t, 'b, 'f) CoreBroker" where
  "cb_processError E command s =
     (if source_id command = me s
      then let s1 = cb_broadcast E command (s\<lparr> brokerState := BS_errored \<rparr>)
           in if isRootc s1 then s1 else transmit parent_route_id (setAction cmd_local_error command) s1
      else if messageAction command = cmd_local_error \<or> messageAction command = cmd_error
      then let s1 = error_noted E command s
           in if cb_terminate_on_error s1 then global_error E (setAction cmd_global_error command) s1
              else let s2 = (if error_passed_up command s1 then transmit parent_route_id command s1 else s1)
                   in if cb_hasTimeDependency s2
                      then put_forwarding (snd (ft_processTimeMessage (be_time E) command (cb_timeCoord s2))) s2
                      else s2
      else if messageAction command = cmd_global_error then global_error E command s
      else error_noted E command s)"

section \<open>Disconnection\<close>

text \<open>The loop of \<open>markAsDisconnected\<close> over the brokers, with the recursive call as an argument.\<close>

fun mark_brokers ::
  "('t, 'b, 'f) broker_env \<Rightarrow> (global_broker_id \<Rightarrow> ('t, 'b, 'f) CoreBroker \<Rightarrow> ('t, 'b, 'f) broker_outcome)
     \<Rightarrow> global_broker_id \<Rightarrow> nat list \<Rightarrow> bool \<Rightarrow> ('t, 'b, 'f) CoreBroker \<Rightarrow> (bool \<times> ('t, 'b, 'f) CoreBroker) option" where
  "mark_brokers E rec brkid [] isCore s = Some (isCore, s)"
| "mark_brokers E rec brkid (ii # rest) isCore s =
     (let b = brokers_of E s ! ii; hit = (bb_global_id b = brkid \<and> bb_state b \<noteq> CS_error);
          s1 = (if hit then set_broker E ii (\<lambda>b. b\<lparr> bb_state := CS_disconnected \<rparr>) s else s);
          isCore1 = (if hit then bb_core b else isCore)
      in if bb_parent b = brkid \<and> bb_state b \<noteq> CS_error
         then do {
           s2 \<leftarrow> rec (bb_global_id b) (set_broker E ii (\<lambda>b. b\<lparr> bb_state := CS_disconnected \<rparr>) s1);
           mark_brokers E rec brkid rest isCore1 s2
         }
         else mark_brokers E rec brkid rest isCore1 s1)"

definition mark_federates ::
  "('t, 'b, 'f) broker_env \<Rightarrow> global_broker_id \<Rightarrow> ('t, 'b, 'f) CoreBroker \<Rightarrow> ('t, 'b, 'f) CoreBroker" where
  "mark_federates E brkid s =
     s\<lparr> cb_federates := mv_map (be_federates E)
          (\<lambda>f. if bf_parent f = brkid \<and> bf_state f \<noteq> CS_error then f\<lparr> bf_state := CS_disconnected \<rparr> else f) (cb_federates s) \<rparr>"

text \<open>The number bounds the depth of the recursion; a broker that is its own ancestor makes it endless.\<close>

fun markAsDisconnected ::
  "nat \<Rightarrow> ('t, 'b, 'f) broker_env \<Rightarrow> global_broker_id \<Rightarrow> ('t, 'b, 'f) CoreBroker \<Rightarrow> ('t, 'b, 'f) broker_outcome" where
  "markAsDisconnected 0 E brkid s = None"
| "markAsDisconnected (Suc n) E brkid s =
     do {
       (isCore, s1) \<leftarrow> mark_brokers E (markAsDisconnected n E) brkid [0..<mv_size (be_brokers E) (cb_brokers s)] False s;
       Some (if isCore then mark_federates E brkid s1 else s1)
     }"

definition disconnectBroker ::
  "nat \<Rightarrow> ('t::linorder, 'b, 'f) broker_env \<Rightarrow> nat \<Rightarrow> ('t, 'b, 'f) CoreBroker \<Rightarrow> ('t, 'b, 'f) broker_outcome" where
  "disconnectBroker n E i s =
     do {
       let b = bb_global_id (brokers_of E s ! i);
       s1 \<leftarrow> markAsDisconnected n E b s;
       Some (if brokerState s1 < BS_operating \<and> isRootc s1
             then let s2 = cb_broadcast E ((mk_message (be_time E) cmd_broadcast_disconnect)\<lparr> source_id := fed_of_broker b \<rparr>) s1;
                      subs = (if bb_core (brokers_of E s2 ! i) then []
                              else filter (\<lambda>k. bb_parent k = b \<and> bb_core k) (brokers_of E s2))
                  in s2\<lparr> cb_unknowns := foldl (\<lambda>u f. clearFederateUnknowns f u) (cb_unknowns s2)
                           (fed_of_broker b # map (\<lambda>k. fed_of_broker (bb_global_id k)) subs) \<rparr>
             else s1)
     }"

definition disconnect_ack ::
  "('t::linorder, 'b, 'f) broker_env \<Rightarrow> BasicBrokerInfo \<Rightarrow> ('t, 'b, 'f) CoreBroker \<Rightarrow> 't ActionMessage" where
  "disconnect_ack E b s =
     (mk_message (be_time E) (if bb_core b then cmd_disconnect_core_ack else cmd_disconnect_broker_ack))
       \<lparr> source_id := me s, dest_id := fed_of_broker (bb_global_id b) \<rparr>"

text \<open>The acknowledgement to a direct broker; \<open>up\<close> is what is sent on to the parent before the route is removed.\<close>

definition acknowledge ::
  "('t::linorder, 'b, 'f) broker_env \<Rightarrow> 't ActionMessage \<Rightarrow> nat \<Rightarrow> 't ActionMessage option \<Rightarrow> ('t, 'b, 'f) CoreBroker
     \<Rightarrow> ('t, 'b, 'f) CoreBroker" where
  "acknowledge E command i up s =
     (let b = brokers_of E s ! i;
          s1 = (if checkActionFlag (flags command) error_flag then s else transmit (bb_route b) (disconnect_ack E b s) s);
          s2 = set_broker E i (\<lambda>b. b\<lparr> bb_sent_disconnect_ack := True \<rparr>) s1;
          s3 = (case up of Some m \<Rightarrow> transmit parent_route_id m s2 | None \<Rightarrow> s2)
      in event (Remove_Route (bb_route b)) s3)"

definition own_time_message ::
  "('t::linorder, 'b, 'f) broker_env \<Rightarrow> 't ActionMessage \<Rightarrow> ('t, 'b, 'f) CoreBroker \<Rightarrow> ('t, 'b, 'f) CoreBroker" where
  "own_time_message E command s =
     (let (changed, tc) = ft_processTimeMessage (be_time E) command (cb_timeCoord s); s1 = put_forwarding tc s
      in if changed then put_forwarding (ft_updateTimeFactors (be_time E) (cb_timeCoord s1)) s1 else s1)"

definition exec_message ::
  "('t::linorder, 'b, 'f) broker_env \<Rightarrow> 't ActionMessage \<Rightarrow> ('t, 'b, 'f) CoreBroker \<Rightarrow> ('t, 'b, 'f) CoreBroker" where
  "exec_message E command s =
     (let s1 = put_forwarding (snd (ft_processTimeMessage (be_time E) command (cb_timeCoord s))) s
      in if enteredExecutionMode s1 then s1
         else let (res, tc) = ft_checkExecEntry (be_time E) (cb_timeCoord s1); s2 = put_forwarding tc s1
              in if res = MPR_next_step then s2\<lparr> enteredExecutionMode := True \<rparr> else s2)"

text \<open>A disconnect for this level: the sender, found as \<open>brk\<close> before, has left.\<close>

definition sender_left ::
  "nat \<Rightarrow> ('t::linorder, 'b, 'f) broker_env \<Rightarrow> 't ActionMessage \<Rightarrow> nat option \<Rightarrow> ('t, 'b, 'f) CoreBroker
     \<Rightarrow> ('t, 'b, 'f) broker_outcome" where
  "sender_left n E command brk s =
     do {
       s1 \<leftarrow> (case brk of Some i \<Rightarrow> disconnectBroker n E i s | None \<Rightarrow> Some s);
       let direct = (case brk of Some i \<Rightarrow> \<not> bb_nonLocal (brokers_of E s1 ! i) | None \<Rightarrow> False);
       let pass = (case brk of
                     Some i \<Rightarrow> if \<not> isRootc s1 \<and> brokerState s1 < BS_operating
                               then Some (setAction (if bb_core (brokers_of E s1 ! i) then cmd_disconnect_core
                                                     else cmd_disconnect_broker) command)
                               else None
                   | None \<Rightarrow> None);
       Some (if CS_disconnected \<le> getAllConnectionState E s1
             then let s2 = put_forwarding (ft_disconnect (be_time E) (be_le E) (cb_timeCoord s1)) s1
                  in if \<not> isRootc s2
                     then transmit parent_route_id ((mk_message (be_time E) cmd_disconnect)\<lparr> source_id := me s2 \<rparr>) s2
                     else addActionMessage (mk_message (be_time E) cmd_stop)
                            (if direct then acknowledge E command (the brk) None s2 else s2)
             else if direct then acknowledge E command (the brk) pass s1
             else case pass of Some m \<Rightarrow> transmit parent_route_id m s1 | None \<Rightarrow> s1)
     }"

definition processDisconnect ::
  "nat \<Rightarrow> ('t::linorder, 'b, 'f) broker_env \<Rightarrow> 't ActionMessage \<Rightarrow> ('t, 'b, 'f) CoreBroker \<Rightarrow> ('t, 'b, 'f) broker_outcome" where
  "processDisconnect n E command s =
     (let brk = getBrokerById E (broker_of_fed (source_id command)) s; act = messageAction command
      in if act = cmd_disconnect \<or> act = cmd_priority_disconnect
         then if dest_id command = me s
              then Some (if \<not> cb_hasTimeDependency s then s
                         else if \<not> enteredExecutionMode s then exec_message E command s
                         else own_time_message E command s)
              else if dest_id command = parent_fed
              then if \<not> isRootc s \<and> source_id command = fed_of_broker (higher_broker_id s)
                   then Some (addActionMessage (mk_message (be_time E) cmd_stop) (sendDisconnect E s))
                   else sender_left n E command brk s
              else Some (transmit (getRoute (dest_id command) s) command s)
         else if act = cmd_disconnect_core \<or> act = cmd_disconnect_broker
         then case brk of
                None \<Rightarrow> Some s
              | Some i \<Rightarrow> map_option (\<lambda>s1. if isRootc s1 then s1 else transmit parent_route_id command s1)
                            (disconnectBroker n E i s)
         else Some s)"


section \<open>Commands\<close>

definition answer_ping ::
  "('t::linorder, 'b, 'f) broker_env \<Rightarrow> 't ActionMessage \<Rightarrow> ('t, 'b, 'f) CoreBroker \<Rightarrow> ('t, 'b, 'f) CoreBroker" where
  "answer_ping E command s =
     (if dest_id command = me s
      then cb_routeMessage (mk_message_to (be_time E) cmd_ping_reply (me s) (source_id command)) s
      else cb_routeMessage command s)"

definition connection_error ::
  "nat \<Rightarrow> ('t::linorder, 'b, 'f) broker_env \<Rightarrow> 't ActionMessage \<Rightarrow> ('t, 'b, 'f) CoreBroker \<Rightarrow> ('t, 'b, 'f) broker_outcome" where
  "connection_error n E command s =
     (let gone = filter (\<lambda>b. bb_state b = CS_disconnected) (brokers_of E s)
      in if dest_id command \<noteq> me s then Some (cb_routeMessage command s)
         else if list_ex (\<lambda>b. fed_of_broker (bb_global_id b) = source_id command) gone then Some s
         else if gone \<noteq> []
         then processDisconnect n E (msg_setFlag error_flag ((setAction cmd_disconnect command)\<lparr> dest_id := parent_fed \<rparr>)) s
         else if isRootc s
         then let elink = (mk_message (be_time E) cmd_error)
                    \<lparr> payload := be_fmt E ''lost comms with {}'' [Fmt_Int (sint (gid (source_id command)))],
                      messageID := connection_failure \<rparr>
              in Some (addActionMessage (mk_message (be_time E) cmd_user_disconnect)
                   ((cb_broadcast E elink s)\<lparr> brokerState := BS_errored \<rparr>))
         else Some (transmit parent_route_id (command\<lparr> dest_id := parent_fed \<rparr>) s))"

definition init_request ::
  "('t::linorder, 'b, 'f) broker_env \<Rightarrow> 't ActionMessage \<Rightarrow> ('t, 'b, 'f) CoreBroker \<Rightarrow> ('t, 'b, 'f) CoreBroker" where
  "init_request E command s =
     (let s1 = (case getBrokerById E (broker_of_fed (source_id command)) s of
                  Some i \<Rightarrow> set_broker E i (\<lambda>b. b\<lparr> bb_state := CS_init_requested \<rparr>) s | None \<Rightarrow> s)
      in if \<not> allInitReady E s1 then s1
         else if isRootc s1 then executeInitializationOperations E s1
         else let s2 = checkDependencies E s1 in transmit parent_route_id (command\<lparr> source_id := me s2 \<rparr>) s2)"

definition not_ready_request ::
  "('t, 'b, 'f) broker_env \<Rightarrow> 't ActionMessage \<Rightarrow> ('t, 'b, 'f) CoreBroker \<Rightarrow> ('t, 'b, 'f) CoreBroker" where
  "not_ready_request E command s =
     (let s1 = (if allInitReady E s then transmit parent_route_id command s else s)
      in case getBrokerById E (broker_of_fed (source_id command)) s1 of
           Some i \<Rightarrow> set_broker E i (\<lambda>b. b\<lparr> bb_state := CS_connected \<rparr>) s1 | None \<Rightarrow> s1)"

definition init_granted ::
  "('t::linorder, 'b, 'f) broker_env \<Rightarrow> 't ActionMessage \<Rightarrow> ('t, 'b, 'f) CoreBroker \<Rightarrow> ('t, 'b, 'f) CoreBroker" where
  "init_granted E command s =
     start_execution E (foldl (\<lambda>s b. transmit (bb_route b) command s) (s\<lparr> brokerState := BS_operating \<rparr>) (brokers_of E s))"

definition search_dependency ::
  "('t::linorder, 'b, 'f) broker_env \<Rightarrow> 't ActionMessage \<Rightarrow> ('t, 'b, 'f) CoreBroker \<Rightarrow> ('t, 'b, 'f) CoreBroker" where
  "search_dependency E command s =
     (let found = (case mv_find_name (be_federates E) (payload command) (cb_federates s) of
                     Some i \<Rightarrow> let f = bf_global_id (federates_of E s ! i) in if fed_isValid f then Some f else None
                   | None \<Rightarrow> None)
      in case found of
           Some f \<Rightarrow> cb_routeMessage (mk_message_to (be_time E) cmd_add_dependent (source_id command) f)
                       (cb_routeMessage (mk_message_to (be_time E) cmd_add_dependency f (source_id command)) s)
         | None \<Rightarrow> if isRootc s
                   then s\<lparr> delayedDependencies := delayedDependencies s @ [(payload command, source_id command)] \<rparr>
                   else cb_routeMessage command s)"

definition data_link ::
  "('t, 'b, 'f) broker_env \<Rightarrow> 't ActionMessage \<Rightarrow> ('t, 'b, 'f) CoreBroker \<Rightarrow> ('t, 'b, 'f) broker_outcome" where
  "data_link E command s =
     (let target = getString command 0; info = (\<lambda>i. bh_handle (hm_handles (cb_handles s) ! i))
      in case getPublication (payload command) (cb_handles s) of
           Some p \<Rightarrow> checkForNamedInterface E
                       (setSource (info p) (setAction cmd_add_named_input (command\<lparr> payload := target \<rparr>))) s
         | None \<Rightarrow> (case getInput target (cb_handles s) of
             Some i \<Rightarrow> checkForNamedInterface E (setSource (info i) (setAction cmd_add_named_publication command)) s
           | None \<Rightarrow> Some (if isRootc s
                           then s\<lparr> cb_unknowns := addDataLink (payload command) target (cb_unknowns s) \<rparr>
                           else cb_routeMessage command s)))"

definition filter_link ::
  "('t, 'b, 'f) broker_env \<Rightarrow> 't ActionMessage \<Rightarrow> ('t, 'b, 'f) CoreBroker \<Rightarrow> ('t, 'b, 'f) broker_outcome" where
  "filter_link E command s =
     (let target = getString command 0; info = (\<lambda>i. hm_handles (cb_handles s) ! i)
      in case getFilter (payload command) (cb_handles s) of
           Some f \<Rightarrow>
             (let m = setSource (bh_handle (info f)) (setAction cmd_add_named_endpoint (command\<lparr> payload := target \<rparr>))
              in checkForNamedInterface E
                   (if checkActionFlag (bh_flags (info f)) clone_flag then msg_setFlag clone_flag m else m) s)
         | None \<Rightarrow> (case getEndpoint target (cb_handles s) of
             Some e \<Rightarrow> checkForNamedInterface E (setSource (bh_handle (info e)) (setAction cmd_add_named_filter command)) s
           | None \<Rightarrow> Some (if isRootc s
                           then s\<lparr> cb_unknowns :=
                                  (if checkActionFlag (flags command) destination_target then addDestinationFilterLink
                                   else addSourceFilterLink) (payload command) target (cb_unknowns s) \<rparr>
                           else cb_routeMessage command s)))"

definition disconnect_acked ::
  "('t::linorder, 'b, 'f) broker_env \<Rightarrow> 't ActionMessage \<Rightarrow> ('t, 'b, 'f) CoreBroker \<Rightarrow> ('t, 'b, 'f) CoreBroker" where
  "disconnect_acked E command s =
     (if dest_id command = me s \<and> source_id command = fed_of_broker (higher_broker_id s)
      then addActionMessage (mk_message (be_time E) cmd_stop)
             (foldl (\<lambda>s i. let b = brokers_of E s ! i
                           in if bb_sent_disconnect_ack b then s
                              else event (Remove_Route (bb_route b)) (set_broker E i (\<lambda>b. b\<lparr> bb_sent_disconnect_ack := True \<rparr>)
                                     (transmit (bb_route b) (disconnect_ack E b s) s)))
                s [0..<mv_size (be_brokers E) (cb_brokers s)])
      else s)"

definition federate_left ::
  "('t, 'b, 'f) broker_env \<Rightarrow> 't ActionMessage \<Rightarrow> ('t, 'b, 'f) CoreBroker \<Rightarrow> ('t, 'b, 'f) CoreBroker" where
  "federate_left E command s =
     (let s1 = (case mv_find (be_federates E) (source_id command) (cb_federates s) of
                  Some i \<Rightarrow> set_federate E i (\<lambda>f. f\<lparr> bf_state := CS_disconnected \<rparr>) s | None \<Rightarrow> s)
      in if \<not> isRootc s1 then transmit parent_route_id command s1
         else if brokerState s1 < BS_operating
         then let s2 = cb_broadcast E (setAction cmd_broadcast_disconnect command) s1
              in s2\<lparr> cb_unknowns := clearFederateUnknowns (source_id command) (cb_unknowns s2) \<rparr>
         else s1)"

definition stop_command ::
  "('t::linorder, 'b, 'f) broker_env \<Rightarrow> ('t, 'b, 'f) CoreBroker \<Rightarrow> ('t, 'b, 'f) CoreBroker" where
  "stop_command E s =
     (if getAllConnectionState E s < CS_disconnected
      then let s1 = put_forwarding (ft_disconnect (be_time E) (be_le E) (cb_timeCoord s)) s
           in if isRootc s1 then s1
              else transmit parent_route_id ((mk_message (be_time E) cmd_disconnect)\<lparr> source_id := me s1 \<rparr>) s1
      else s)"

definition to_dependents ::
  "'t ActionMessage \<Rightarrow> ('t, 'b, 'f) CoreBroker \<Rightarrow> ('t, 'b, 'f) CoreBroker" where
  "to_dependents command s = foldl (\<lambda>s d. cb_routeMessage_to command d s) s (ft_dependents (cb_timeCoord s))"

definition exec_command ::
  "('t::linorder, 'b, 'f) broker_env \<Rightarrow> 't ActionMessage \<Rightarrow> ('t, 'b, 'f) CoreBroker \<Rightarrow> ('t, 'b, 'f) CoreBroker" where
  "exec_command E command s =
     (if dest_id command = me s then exec_message E command s
      else if source_id command = me s then to_dependents command s
      else transmit (getRoute (dest_id command) s) command s)"

definition time_command ::
  "('t::linorder, 'b, 'f) broker_env \<Rightarrow> 't ActionMessage \<Rightarrow> ('t, 'b, 'f) CoreBroker \<Rightarrow> ('t, 'b, 'f) CoreBroker" where
  "time_command E command s =
     (if source_id command = me s \<and> dest_id command = parent_fed then to_dependents command s
      else if dest_id command = me s then own_time_message E command s
      else cb_routeMessage command s)"

definition message_command :: "'t ActionMessage \<Rightarrow> ('t, 'b, 'f) CoreBroker \<Rightarrow> ('t, 'b, 'f) CoreBroker" where
  "message_command command s =
     (if dest_id command = parent_fed
      then let (r, m) = fillMessageRouteInformation command s in transmit r m s
      else transmit (getRoute (dest_id command) s) command s)"

definition processBrokerConfigureCommands :: "'t ActionMessage \<Rightarrow> ('t, 'b, 'f) CoreBroker \<Rightarrow> ('t, 'b, 'f) CoreBroker" where
  "processBrokerConfigureCommands cmd s =
     (if messageID cmd = 47 \<or> messageID cmd = 271 then s\<lparr> cb_maxLogLevel := getExtraData cmd \<rparr>
      else if messageID cmd = REQUEST_TICK_FORWARDING
      then s\<lparr> forwardTick := checkActionFlag (flags cmd) indicator_flag \<rparr>
      else s)"

definition registration_command ::
  "('t::linorder, 'b, 'f) broker_env \<Rightarrow> 't ActionMessage \<Rightarrow> ('t, 'b, 'f) CoreBroker \<Rightarrow> ('t, 'b, 'f) broker_outcome" where
  "registration_command E command s =
     (let act = messageAction command
      in if \<not> isRootc s \<and> dest_id command \<noteq> parent_fed then Some (cb_routeMessage command s)
         else if act = cmd_reg_pub then addPublication E command s
         else if act = cmd_reg_input then Some (addInput E command s)
         else if act = cmd_reg_end then Some (addEndpoint E command s)
         else if act = cmd_reg_filter then addFilter E command s
         else Some (s\<lparr> cb_handles := removeHandle (getSource command) (cb_handles s) \<rparr>))"


text \<open>The dispatch of the ordinary commands. \<open>n\<close> bounds the depth of the tree of brokers that is marked as
  disconnected, \<open>now\<close> is the reading of the clock.\<close>

definition processCommand ::
  "nat \<Rightarrow> int \<Rightarrow> ('t::linorder, 'b, 'f) broker_env \<Rightarrow> 't ActionMessage \<Rightarrow> ('t, 'b, 'f) CoreBroker
     \<Rightarrow> ('t, 'b, 'f) broker_outcome" where
  "processCommand n now E command s =
     (let act = messageAction command; local = (dest_id command = me s)
      in if act = cmd_ignore \<or> act = cmd_protocol then Some s
         else if act = cmd_tick then Some (if brokerState s = BS_operating then tick E now s else s)
         else if act = cmd_ping then Some (answer_ping E command s)
         else if act = CMD_BROKER_PING
         then Some (if local then pingSub E now (answer_ping E command s) else answer_ping E command s)
         else if act = cmd_ping_reply then Some (if local then pingReply E command s else cb_routeMessage command s)
         else if act = cmd_check_connections \<or> act = cmd_user_disconnect
         then Some (addActionMessage (mk_message (be_time E) cmd_stop) (sendDisconnect E s))
         else if act = cmd_connection_error then connection_error n E command s
         else if act = cmd_init then Some (init_request E command s)
         else if act = cmd_init_not_ready then Some (not_ready_request E command s)
         else if act = cmd_init_grant then Some (init_granted E command s)
         else if act = cmd_search_dependency then Some (search_dependency E command s)
         else if act = cmd_data_link then data_link E command s
         else if act = cmd_filter_link then filter_link E command s
         else if act = cmd_disconnect_name
         then processDisconnect n E
                (case (if dest_id command = parent_fed then mv_find_name (be_brokers E) (payload command) (cb_brokers s) else None) of
                   Some i \<Rightarrow> command\<lparr> source_id := fed_of_broker (bb_global_id (brokers_of E s ! i)) \<rparr> | None \<Rightarrow> command) s
         else if act = cmd_disconnect \<or> act = cmd_disconnect_core \<or> act = cmd_disconnect_broker
         then processDisconnect n E command s
         else if act = cmd_disconnect_broker_ack then Some (disconnect_acked E command s)
         else if act = cmd_disconnect_fed then Some (federate_left E command s)
         else if act = cmd_stop then Some (stop_command E s)
         else if act = cmd_broadcast_disconnect
         then Some (cb_broadcast E command
                (put_forwarding (snd (ft_processTimeMessage (be_time E) command (cb_timeCoord s))) s))
         else if act = cmd_exec_request \<or> act = cmd_exec_grant then Some (exec_command E command s)
         else if act = cmd_time_request \<or> act = cmd_time_grant then Some (time_command E command s)
         else if act \<in> {cmd_send_message, cmd_send_for_filter, cmd_send_for_filter_return, cmd_filter_result, cmd_null_message}
         then Some (message_command command s)
         else if act = cmd_pub then Some (transmit (getRoute (dest_id command) s) command s)
         else if act = cmd_log then Some (if isRootc s then s else transmit parent_route_id command s)
         else if isErrorCommand command then Some (cb_processError E command s)
         else if act \<in> {cmd_reg_pub, cmd_reg_input, cmd_reg_end, cmd_reg_filter, cmd_close_interface}
         then registration_command E command s
         else if isDependencyCommand command
         then Some (if local
                    then (put_forwarding (ft_processDependencyUpdateMessage (be_time E) command (cb_timeCoord s)) s)
                           \<lparr> cb_hasTimeDependency := True \<rparr>
                    else cb_routeMessage command s)
         else if act \<in> {cmd_add_named_endpoint, cmd_add_named_publication, cmd_add_named_input, cmd_add_named_filter}
         then checkForNamedInterface E command s
         else if act \<in> {cmd_remove_named_endpoint, cmd_remove_named_publication, cmd_remove_named_input,
                   cmd_remove_named_filter}
         then Some (removeNamedTarget command s)
         else if act = cmd_broker_configure then Some (processBrokerConfigureCommands command s)
         else Some (if local then s else cb_routeMessage command s))"

definition priority_disconnect ::
  "('t::linorder, 'b, 'f) broker_env \<Rightarrow> 't ActionMessage \<Rightarrow> ('t, 'b, 'f) CoreBroker \<Rightarrow> ('t, 'b, 'f) CoreBroker" where
  "priority_disconnect E command s =
     (let s1 = (case getBrokerById E (broker_of_fed (source_id command)) s of
                  Some i \<Rightarrow> set_broker E i (\<lambda>b. b\<lparr> bb_state := CS_disconnected \<rparr>) s | None \<Rightarrow> s)
      in if CS_disconnected \<le> getAllConnectionState E s1
         then addActionMessage (mk_message (be_time E) cmd_stop)
                (if isRootc s1 then s1
                 else transmit parent_route_id ((mk_message (be_time E) cmd_priority_disconnect)\<lparr> source_id := me s1 \<rparr>) s1)
         else s1)"

definition set_global :: "'t ActionMessage \<Rightarrow> ('t, 'b, 'f) CoreBroker \<Rightarrow> ('t, 'b, 'f) CoreBroker" where
  "set_global command s =
     (if isRootc s then s\<lparr> global_values := (global_values s)(payload command \<mapsto> getString command 0) \<rparr>
      else if broker_isValid (cb_local_id s) \<and> cb_local_id s \<noteq> parent_broker_id then transmit parent_route_id command s
      else s\<lparr> delayTransmitQueue := delayTransmitQueue s @ [command] \<rparr>)"

text \<open>The priority commands other than the set-up.\<close>

definition priority_command ::
  "('t::linorder, 'b, 'f) broker_env \<Rightarrow> 't ActionMessage \<Rightarrow> ('t, 'b, 'f) CoreBroker \<Rightarrow> ('t, 'b, 'f) broker_outcome" where
  "priority_command E command s =
     (let act = messageAction command
      in if act = cmd_ping_priority then Some (answer_ping E command s)
         else if act = cmd_reg_fed then Some (reg_fed E command s)
         else if act = cmd_reg_broker then Some (reg_broker E command s)
         else if act = cmd_fed_ack then fed_ack E command s
         else if act = cmd_broker_ack then broker_ack E command s
         else if act = cmd_priority_disconnect then Some (priority_disconnect E command s)
         else if act = cmd_broker_query
         then Some (if \<not> connectionEstablished s then s\<lparr> earlyMessages := earlyMessages s @ [command] \<rparr>
                    else if dest_id command = me s \<or> isRootc s \<and> dest_id command = parent_fed then be_query E command s
                    else cb_routeMessage command s)
         else if act = cmd_query then Some (be_query E command s)
         else if act = cmd_query_reply
         then Some (if dest_id command = me s then be_query E command s
                    else transmit (getRoute (dest_id command) s) command s)
         else if act = cmd_set_global then Some (set_global command s)
         else Some s)"

fun process_early ::
  "nat \<Rightarrow> int \<Rightarrow> ('t::linorder, 'b, 'f) broker_env \<Rightarrow> 't ActionMessage list \<Rightarrow> ('t, 'b, 'f) CoreBroker
     \<Rightarrow> ('t, 'b, 'f) broker_outcome" where
  "process_early n now E [] s = Some s"
| "process_early n now E (m # ms) s =
     do { s1 \<leftarrow> (if isPriorityCommand m then priority_command E m s else processCommand n now E m s);
          process_early n now E ms s1 }"

text \<open>The messages held back until the set-up are registrations and queries, so no set-up is among them.\<close>

definition processPriorityCommand ::
  "nat \<Rightarrow> int \<Rightarrow> ('t::linorder, 'b, 'f) broker_env \<Rightarrow> 't ActionMessage \<Rightarrow> ('t, 'b, 'f) CoreBroker
     \<Rightarrow> ('t, 'b, 'f) broker_outcome" where
  "processPriorityCommand n now E command s =
     (if messageAction command = cmd_broker_setup
      then let s1 = s\<lparr> cb_local_id := cb_global_id s, isRootc := isRoot s,
                      cb_timeCoord := (cb_timeCoord s)\<lparr> ft_source_id := fed_of_broker (cb_global_id s) \<rparr>,
                      connectionEstablished := True \<rparr>
           in map_option (\<lambda>s2. s2\<lparr> earlyMessages := [] \<rparr>) (process_early n now E (earlyMessages s1) s1)
      else priority_command E command s)"

text \<open>\<open>BrokerBase::commandProcessor\<close> for a message that is neither a signal to the loop nor a bundle.\<close>

definition dispatch ::
  "nat \<Rightarrow> int \<Rightarrow> ('t::linorder, 'b, 'f) broker_env \<Rightarrow> 't ActionMessage \<Rightarrow> ('t, 'b, 'f) CoreBroker
     \<Rightarrow> ('t, 'b, 'f) broker_outcome" where
  "dispatch n now E command s =
     (if haltOperations s then Some s
      else if isPriorityCommand command then processPriorityCommand n now E command s
      else processCommand n now E command s)"

section \<open>Calls\<close>

definition setAsRoot :: "('t, 'b, 'f) CoreBroker \<Rightarrow> ('t, 'b, 'f) CoreBroker" where
  "setAsRoot s = (if brokerState s < BS_connected then s\<lparr> isRoot := True, cb_global_id := Global_Broker_Id 1 \<rparr> else s)"

text \<open>\<open>connect\<close> of a configured broker; the result of the transport and its address are arguments.\<close>

definition connect ::
  "('t::linorder, 'b, 'f) broker_env \<Rightarrow> int \<Rightarrow> bool \<Rightarrow> string \<Rightarrow> ('t, 'b, 'f) CoreBroker \<Rightarrow> ('t, 'b, 'f) CoreBroker" where
  "connect E timeout brokerConnect address s =
     (if brokerState s \<noteq> BS_configured then s
      else let s1 = set_monitor (setTimeout timeout) (s\<lparr> brokerState := BS_connecting \<rparr>)
           in if \<not> brokerConnect then s1\<lparr> brokerState := BS_configured \<rparr>
              else let s2 = addActionMessage (mk_message (be_time E) cmd_broker_setup) (s1\<lparr> brokerState := BS_connected \<rparr>);
                       m = (mk_message (be_time E) cmd_reg_broker)
                             \<lparr> source_id := default_global_federate_id, payload := cb_identifier s,
                               stringData := (if brokerKey s \<noteq> [] \<and> brokerKey s \<noteq> universalKey
                                              then [address, brokerKey s] else [address]) \<rparr>
                   in if isRoot s then s2
                      else transmit parent_route_id (if no_ping s then msg_setFlag slow_responding_flag m else m) s2)"

end
