(* ===== verification/Broker_Init.thy ===== *)
theory Broker_Init
  imports Broker_Processing
begin

text \<open>
  What follows from the laws of the containers, the effect of sending on the state, and the entry of
  a federation into initialization: the root grants it exactly when the federation is complete.
\<close>

section \<open>The container\<close>

lemma mv_insert_spec:
  assumes "mapped_laws M" "mv_insert M n None v s = Some s'"
  shows "mv_elems M s' = mv_elems M s @ [v]"
    and "mv_find_name M n' s' = (if n' = n then Some (length (mv_elems M s)) else mv_find_name M n' s)"
    and "mv_find M k s' = mv_find M k s"
  using assms by (auto simp: mapped_laws_def mv_insert_law_def)

lemma mv_insert_fails: "mapped_laws M \<Longrightarrow> mv_insert M n None v s = None \<longleftrightarrow> mv_find_name M n s \<noteq> None"
  by (simp add: mapped_laws_def mv_insert_law_def)

lemma mv_write_spec:
  assumes "mapped_laws M"
  shows "mv_elems M (mv_write M i v s) = (mv_elems M s)[i := v]"
    and "mv_find_name M n (mv_write M i v s) = mv_find_name M n s"
    and "mv_find M k (mv_write M i v s) = mv_find M k s"
  using assms by (auto simp: mapped_laws_def mv_write_law_def)

lemma mv_key_spec:
  assumes "mapped_laws M"
  shows "mv_elems M (mv_add_key M k i s) = mv_elems M s"
    and "mv_find_name M n (mv_add_key M k i s) = mv_find_name M n s"
    and "mv_find M k' (mv_add_key M k i s) =
          (if k' = k \<and> mv_find M k s = None \<and> i < length (mv_elems M s) then Some i else mv_find M k' s)"
  using assms by (auto simp: mapped_laws_def mv_key_law_def)

lemma mv_empty_spec:
  assumes "mapped_laws M"
  shows "mv_elems M (mv_empty M) = []" "mv_find_name M n (mv_empty M) = None" "mv_find M k (mv_empty M) = None"
  using assms by (auto simp: mapped_laws_def)

lemma mv_map_spec:
  assumes "mapped_laws M"
  shows "mv_elems M (mv_map M f s) = map f (mv_elems M s)"
proof -
  have "mv_elems M (foldl (\<lambda>s' i. mv_write M i (f (mv_elems M s ! i)) s') s [0..<k])
      = map f (take k (mv_elems M s)) @ drop k (mv_elems M s)" if "k \<le> length (mv_elems M s)" for k
    using that
  proof (induction k)
    case (Suc k)
    then have "(map f (take k (mv_elems M s)) @ drop k (mv_elems M s))[k := f (mv_elems M s ! k)]
        = map f (take (Suc k) (mv_elems M s)) @ drop (Suc k) (mv_elems M s)"
      by (intro nth_equalityI) (auto simp: nth_append nth_list_update min_def less_Suc_eq)
    then show ?case
      using Suc by (simp add: mv_write_spec [OF assms])
  qed simp
  from this [of "length (mv_elems M s)"] show ?thesis
    by (simp add: mv_map_def mv_size_def)
qed

text \<open>A list with two finite maps is such a container.\<close>

record ('v, 'k) listed =
  li_elems :: "'v list"
  li_names :: "string \<rightharpoonup> nat"
  li_keys :: "'k \<rightharpoonup> nat"

definition listed_vector :: "(('v, 'k) listed, 'v, 'k) mapped_vector" where
  "listed_vector = \<lparr> mv_empty = \<lparr> li_elems = [], li_names = Map.empty, li_keys = Map.empty \<rparr>,
     mv_elems = li_elems, mv_find_name = (\<lambda>n s. li_names s n), mv_find = (\<lambda>k s. li_keys s k),
     mv_insert = (\<lambda>n k v s. if li_names s n \<noteq> None then None
        else Some (s\<lparr> li_elems := li_elems s @ [v], li_names := (li_names s)(n \<mapsto> length (li_elems s)),
               li_keys := (case k of None \<Rightarrow> li_keys s | Some k \<Rightarrow> emplace k (length (li_elems s)) (li_keys s)) \<rparr>)),
     mv_write = (\<lambda>i v s. s\<lparr> li_elems := (li_elems s)[i := v] \<rparr>),
     mv_add_key = (\<lambda>k i s. if i < length (li_elems s) then s\<lparr> li_keys := emplace k i (li_keys s) \<rparr> else s) \<rparr>"

lemma listed_laws: "mapped_laws listed_vector"
  by (auto simp: mapped_laws_def listed_vector_def mv_insert_law_def mv_write_law_def mv_key_law_def emplace_def
      split: option.split)

section \<open>Events\<close>

lemma event_simps [simp]:
  "cb_events (event e s) = cb_events s @ [e]" "cb_brokers (event e s) = cb_brokers s"
  "cb_federates (event e s) = cb_federates s" "brokerState (event e s) = brokerState s"
  "cb_unknowns (event e s) = cb_unknowns s" "cb_handles (event e s) = cb_handles s"
  "routing_table (event e s) = routing_table s" "isRootc (event e s) = isRootc s"
  "cb_local_id (event e s) = cb_local_id s" "me (event e s) = me s" "higher_broker_id (event e s) = higher_broker_id s"
  "cb_timeCoord (event e s) = cb_timeCoord s" "connectionEstablished (event e s) = connectionEstablished s"
  "minFederateCount (event e s) = minFederateCount s" "minBrokerCount (event e s) = minBrokerCount s"
  "cb_hasTimeDependency (event e s) = cb_hasTimeDependency s" "global_id_translation (event e s) = global_id_translation s"
  "enteredExecutionMode (event e s) = enteredExecutionMode s" "delayedDependencies (event e s) = delayedDependencies s"
  by (simp_all add: event_def me_def)

text \<open>A route depends only on the routing table and the parent.\<close>

lemma getRoute_event [simp]: "getRoute f (event e s) = getRoute f s"
  by (simp add: getRoute_def)

lemma routeMessage_eq: "cb_routeMessage m s = transmit (getRoute (dest_id m) s) m s"
  by (simp add: cb_routeMessage_def getRoute_def)

lemma broadcast_eq:
  "cb_broadcast E cmd s = s\<lparr> cb_events := cb_events s @
     map (\<lambda>b. Transmit (bb_route b) (cmd\<lparr> dest_id := fed_of_broker (bb_global_id b) \<rparr>))
       (filter (\<lambda>b. \<not> bb_nonLocal b \<and> bb_state b < CS_disconnected) (brokers_of E s)) \<rparr>"
proof -
  have "foldl (\<lambda>s b. if P b then transmit (r b) (m b) s else s) t bs
      = t\<lparr> cb_events := cb_events t @ map (\<lambda>b. Transmit (r b) (m b)) (filter P bs) \<rparr>"
    for P r and m :: "BasicBrokerInfo \<Rightarrow> 'a ActionMessage" and t :: "('a, 'b, 'c) CoreBroker" and bs
    by (induction bs arbitrary: t) (simp_all add: event_def)
  then show ?thesis
    by (simp add: cb_broadcast_def)
qed


section \<open>Entry into initialization\<close>

fun is_grant :: "'t broker_event \<Rightarrow> bool" where
  "is_grant (Transmit r m) \<longleftrightarrow> messageAction m = cmd_init_grant"
| "is_grant _ \<longleftrightarrow> False"

definition grants :: "('t, 'b, 'f) CoreBroker \<Rightarrow> 't broker_event list" where
  "grants s = filter is_grant (cb_events s)"

text \<open>Steps that grant nothing and leave the state of the broker alone; and those that also leave the lists
  of brokers and of unknown interfaces alone.\<close>

definition quiet :: "('t, 'b, 'f) CoreBroker \<Rightarrow> ('t, 'b, 'f) CoreBroker \<Rightarrow> bool" where
  "quiet s s' \<longleftrightarrow> grants s' = grants s \<and> brokerState s' = brokerState s \<and> cb_local_id s' = cb_local_id s"

definition relays :: "('t, 'b, 'f) CoreBroker \<Rightarrow> ('t, 'b, 'f) CoreBroker \<Rightarrow> bool" where
  "relays s s' \<longleftrightarrow> quiet s s' \<and> cb_brokers s' = cb_brokers s \<and> cb_unknowns s' = cb_unknowns s"

lemma quiet_refl [simp]: "quiet s s"
  by (simp add: quiet_def)

lemma quiet_trans: "quiet s s1 \<Longrightarrow> quiet s1 s2 \<Longrightarrow> quiet s s2"
  by (simp add: quiet_def)

lemma relays_refl [simp]: "relays s s"
  by (simp add: relays_def)

lemma relays_trans: "relays s s1 \<Longrightarrow> relays s1 s2 \<Longrightarrow> relays s s2"
  using quiet_trans by (auto simp: relays_def)

lemma relays_quiet: "relays s s' \<Longrightarrow> quiet s s'"
  by (simp add: relays_def)

lemma relays_eventI: "relays s s' \<Longrightarrow> \<not> is_grant e \<Longrightarrow> relays s (event e s')"
  by (auto simp: relays_def quiet_def grants_def)

lemma relays_route: "relays s s' \<Longrightarrow> messageAction m \<noteq> cmd_init_grant \<Longrightarrow> relays s (cb_routeMessage m s')"
  by (simp add: routeMessage_eq relays_eventI)

lemma relays_route_to: "relays s s' \<Longrightarrow> messageAction m \<noteq> cmd_init_grant \<Longrightarrow> relays s (cb_routeMessage_to m d s')"
  by (simp add: cb_routeMessage_to_def relays_route)

lemma relays_send_from: "relays s s' \<Longrightarrow> act \<noteq> cmd_init_grant \<Longrightarrow> relays s (send_from E act src d s')"
  by (simp add: send_from_def relays_route_to mk_message_def)

lemma relays_drop:
  "relays s s' \<Longrightarrow> relays s (drop_dependency f s')" "relays s s' \<Longrightarrow> relays s (drop_dependent f s')"
  by (simp_all add: relays_def quiet_def grants_def drop_dependency_def drop_dependent_def)

lemma relays_put: "relays s s' \<Longrightarrow> relays s (put_forwarding tc s')"
  by (auto simp: relays_def quiet_def grants_def put_forwarding_def filter_empty_conv)

lemma relays_foldl: "(\<And>t x. relays t (f t x)) \<Longrightarrow> relays s (foldl f s xs)"
  by (induction xs arbitrary: s) (auto intro: relays_trans)

lemma relays_delayed: "relays s (delayed_dependency E s d)"
  unfolding delayed_dependency_def
  by (auto simp: mk_message_to_def mk_message_def cmd_defs Let_def split: option.split intro!: relays_route)

lemma relays_checkDependencies: "relays s (checkDependencies E s)"
proof -
  have "relays s (foldl (delayed_dependency E) s ds)" for ds
    by (intro relays_foldl relays_delayed)
  then show ?thesis
    by (auto simp: checkDependencies_def check_root_dependencies_def check_own_dependencies_def Let_def cmd_defs
        split: list.split intro!: relays_drop relays_send_from)
qed

lemma relays_report: "messageAction m \<noteq> cmd_init_grant \<Longrightarrow> relays s (report_missing E text m calls s)"
  unfolding report_missing_def
  by (intro relays_foldl) (auto simp: setDestination_def intro!: relays_route)

lemma quiet_disconnect_one: "quiet s (disconnect_one E s i)"
proof -
  have "quiet s (set_broker E i f t)" if "relays s t" for f t
    using that by (simp add: relays_def quiet_def grants_def set_broker_def)
  moreover have "quiet s (drop_dependent f (drop_dependency f t))" if "quiet s t" for f t
    using that by (simp add: quiet_def grants_def drop_dependency_def drop_dependent_def)
  ultimately show ?thesis
    by (simp add: disconnect_one_def Let_def relays_route_to mk_message_def cmd_defs)
qed

lemma quiet_sendDisconnect: "quiet s (sendDisconnect E s)"
proof -
  have "quiet s (foldl (disconnect_one E) s is)" for "is"
    by (induction "is" arbitrary: s) (auto intro: quiet_trans quiet_disconnect_one)
  moreover have "quiet s (put_forwarding tc t)" if "quiet s t" for tc t
    using that by (auto simp: quiet_def grants_def put_forwarding_def filter_empty_conv)
  ultimately show ?thesis
    by (simp add: sendDisconnect_def Let_def)
qed

lemma relays_broadcast: "messageAction m \<noteq> cmd_init_grant \<Longrightarrow> relays s (cb_broadcast E m s)"
  by (auto simp: broadcast_eq relays_def quiet_def grants_def filter_empty_conv)

lemma quiet_missing_required: "quiet s (missing_required E s)"
proof -
  let ?m = "(mk_message (be_time E) cmd_error)\<lparr> source_id := me s, messageID := connection_failure \<rparr>"
  have m: "messageAction ?m \<noteq> cmd_init_grant"
    by (simp add: mk_message_def cmd_defs)
  have "quiet s (event (Queue_Message m) t)" if "quiet s t" for m t
    using that by (simp add: quiet_def grants_def)
  moreover have "relays s (cb_broadcast E (?m\<lparr> payload := p \<rparr>) (report_missing E tx ?m calls s))" for p tx calls
    by (rule relays_trans [OF relays_report [OF m] relays_broadcast]) (simp add: mk_message_def cmd_defs)
  then have "quiet s (sendDisconnect E (cb_broadcast E (?m\<lparr> payload := p \<rparr>) (report_missing E tx ?m calls s)))" for p tx calls
    by (rule quiet_trans [OF relays_quiet quiet_sendDisconnect])
  ultimately show ?thesis
    unfolding missing_required_def Let_def by simp
qed

lemma relays_start: "relays s (start_execution E s)"
proof -
  have "relays s (t\<lparr> enteredExecutionMode := True \<rparr>)" if "relays s t" for t
    using that by (simp add: relays_def quiet_def grants_def)
  moreover have "relays s (put_forwarding x (put_forwarding y s))" for x y
    by (simp add: relays_put)
  ultimately show ?thesis
    by (simp add: start_execution_def Let_def relays_put split: prod.split)
qed

text \<open>When everyone is ready: the counts are reached, some broker is directly connected, and every such
  broker has asked for the initialization or is past it.\<close>

definition ready_to_start :: "('t, 'b, 'f) broker_env \<Rightarrow> BasicBrokerInfo list \<Rightarrow> ('t, 'b, 'f) CoreBroker \<Rightarrow> bool" where
  "ready_to_start E bs s \<longleftrightarrow>
     sint (minFederateCount s) \<le> sint (word_of_nat (length (federates_of E s)) :: int32)
     \<and> sint (minBrokerCount s) \<le> sint (word_of_nat (length bs) :: int32)
     \<and> (\<exists>b\<in>set bs. \<not> bb_nonLocal b) \<and> (\<forall>b\<in>set bs. \<not> bb_nonLocal b \<longrightarrow> CS_init_requested \<le> bb_state b)"

lemma fold_min_state:
  "c \<le> foldl (\<lambda>res b. if bb_state b < res then bb_state b else res) x bs \<longleftrightarrow> c \<le> x \<and> (\<forall>b\<in>set bs. c \<le> bb_state b)"
  by (induction bs arbitrary: x) auto

lemma allInitReady_iff: "allInitReady E s \<longleftrightarrow> ready_to_start E (brokers_of E s) s"
proof -
  have "CS_init_requested \<le> CS_disconnected" "\<not> CS_init_requested \<le> CS_connected"
    by (simp_all add: state_order)
  then have "CS_init_requested \<le> getAllConnectionState E s \<longleftrightarrow> (\<exists>b\<in>set (brokers_of E s). \<not> bb_nonLocal b)
      \<and> (\<forall>b\<in>set (brokers_of E s). \<not> bb_nonLocal b \<longrightarrow> CS_init_requested \<le> bb_state b)"
    by (auto simp: getAllConnectionState_def fold_min_state Let_def filter_empty_conv)
  then show ?thesis
    by (auto simp: allInitReady_def ready_to_start_def mv_size_def)
qed

lemma required_unknowns: "hasRequiredUnknowns u \<Longrightarrow> hasUnknowns u"
  by (auto simp: hasRequiredUnknowns_def hasUnknowns_def split: if_splits)

lemma executeInitialization_grants:
  "if hasNonOptionalUnknowns (cb_unknowns s) \<and> hasRequiredUnknowns (cb_unknowns s)
   then quiet s (executeInitializationOperations E s)
   else brokerState (executeInitializationOperations E s) = BS_operating
     \<and> grants (executeInitializationOperations E s) = grants s @
        map (\<lambda>b. Transmit (bb_route b) ((mk_message (be_time E) cmd_init_grant)
               \<lparr> source_id := me s, dest_id := fed_of_broker (bb_global_id b) \<rparr>))
          (filter (\<lambda>b. \<not> bb_nonLocal b \<and> bb_state b < CS_disconnected) (brokers_of E s))"
proof -
  let ?s1 = "checkDependencies E s"
  note r1 = relays_checkDependencies [of s E]
  then have u: "cb_unknowns ?s1 = cb_unknowns s"
    by (simp add: relays_def)
  show ?thesis
  proof (cases "hasNonOptionalUnknowns (cb_unknowns s) \<and> hasRequiredUnknowns (cb_unknowns s)")
    case True
    then show ?thesis
      using quiet_trans [OF relays_quiet [OF r1] quiet_missing_required]
      by (simp add: executeInitializationOperations_def Let_def u required_unknowns)
  next
    case False
    define s2 where "s2 = (if hasUnknowns (cb_unknowns s) \<and> hasNonOptionalUnknowns (cb_unknowns s)
       then report_missing E (\<lambda>c. ''Unable to connect to '' @ target_word c ''undefined'' @ '' target {}'')
              ((mk_message (be_time E) cmd_warning)\<lparr> source_id := me ?s1, messageID := connection_failure \<rparr>)
              (processNonOptionalUnknowns (cb_unknowns s)) ?s1
       else ?s1)"
    have "relays ?s1 s2"
      by (simp add: s2_def relays_report mk_message_def cmd_defs)
    then have s2: "relays s s2"
      by (rule relays_trans [OF r1])
    let ?m = "(mk_message (be_time E) cmd_init_grant)\<lparr> source_id := me s2 \<rparr>"
    let ?s3 = "cb_broadcast E ?m (s2\<lparr> brokerState := BS_operating \<rparr>)"
    have g: "is_grant (Transmit r (?m\<lparr> dest_id := d \<rparr>))" for r d
      by (simp add: mk_message_def)
    have "executeInitializationOperations E s = start_execution E ?s3"
      using False by (auto simp: executeInitializationOperations_def Let_def u s2_def required_unknowns)
    moreover have "relays ?s3 (start_execution E ?s3)"
      by (rule relays_start)
    moreover have "me s2 = me s"
      using s2 by (simp add: relays_def quiet_def me_def)
    ultimately show ?thesis
      using s2 g unfolding if_not_P [OF False]
      by (simp add: relays_def quiet_def broadcast_eq grants_def filter_map o_def)
  qed
qed

lemma processCommand_init:
  "messageAction cmd = cmd_init \<Longrightarrow> processCommand n now E cmd s = Some (init_request E cmd s)"
  by (simp add: processCommand_def cmd_defs CMD_BROKER_PING_def)

text \<open>C9: the root broker lets the federation start exactly when it is complete. A request for
  initialization puts the root into operation, and sends the grant once to every broker and core that
  is directly connected and has not left, if with this request the required numbers of federates and
  brokers are reached, every directly connected broker has asked, and no required interface is
  missing; otherwise no grant is sent and the state does not change.\<close>

theorem init_granted_when_ready:
  fixes E :: "('t::linorder, 'b, 'f) broker_env"
  assumes "mapped_laws (be_brokers E)" and "isRootc s" and "messageAction cmd = cmd_init"
  defines "bs \<equiv> case getBrokerById E (broker_of_fed (source_id cmd)) s of
      Some i \<Rightarrow> (brokers_of E s)[i := (brokers_of E s ! i)\<lparr> bb_state := CS_init_requested \<rparr>] | None \<Rightarrow> brokers_of E s"
  shows "\<exists>s'. processCommand n now E cmd s = Some s'
    \<and> (if ready_to_start E bs s \<and> \<not> (hasNonOptionalUnknowns (cb_unknowns s) \<and> hasRequiredUnknowns (cb_unknowns s))
       then brokerState s' = BS_operating \<and> grants s' = grants s @
         map (\<lambda>b. Transmit (bb_route b) ((mk_message (be_time E) cmd_init_grant)
                \<lparr> source_id := me s, dest_id := fed_of_broker (bb_global_id b) \<rparr>))
           (filter (\<lambda>b. \<not> bb_nonLocal b \<and> bb_state b < CS_disconnected) bs)
       else brokerState s' = brokerState s \<and> grants s' = grants s)"
proof -
  define s1 where "s1 = (case getBrokerById E (broker_of_fed (source_id cmd)) s of
      Some i \<Rightarrow> set_broker E i (\<lambda>b. b\<lparr> bb_state := CS_init_requested \<rparr>) s | None \<Rightarrow> s)"
  have s1: "brokers_of E s1 = bs" "cb_unknowns s1 = cb_unknowns s" "me s1 = me s" "quiet s s1" "isRootc s1"
    "ready_to_start E bs s1 = ready_to_start E bs s"
    using assms(2) by (auto simp: s1_def bs_def set_broker_def me_def quiet_def grants_def ready_to_start_def
        mv_write_spec [OF assms(1)] split: option.split)
  have "processCommand n now E cmd s = Some (if ready_to_start E bs s then executeInitializationOperations E s1 else s1)"
    using s1 by (simp add: processCommand_init [OF assms(3)] init_request_def s1_def [symmetric] allInitReady_iff Let_def)
  then show ?thesis
    using executeInitialization_grants [of s1 E] s1 by (auto simp: quiet_def)
qed

text \<open>A root with one core, which asks.\<close>

definition tick_env :: "(ticks, (BasicBrokerInfo, global_broker_id) listed, (BasicFedInfo, global_federate_id) listed) broker_env" where
  "tick_env = \<lparr> be_time = tick_rep, be_le = True, be_brokers = listed_vector, be_federates = listed_vector,
     be_fmt = (\<lambda>t args. t), be_query = (\<lambda>m s. s) \<rparr>"

lemma tick_env_simps [simp]:
  "be_time tick_env = tick_rep" "be_brokers tick_env = listed_vector" "be_federates tick_env = listed_vector"
  by (simp_all add: tick_env_def)

definition first_core :: BasicBrokerInfo where
  "first_core = (mk_BasicBrokerInfo ''core'')
     \<lparr> bb_global_id := Global_Broker_Id 0x70000000, bb_route := Route_Id 1, bb_core := True \<rparr>"

definition joined_root :: "(ticks, (BasicBrokerInfo, global_broker_id) listed, (BasicFedInfo, global_federate_id) listed) CoreBroker" where
  "joined_root = (CoreBroker_default tick_env True ''root'')
     \<lparr> cb_local_id := Global_Broker_Id 1, brokerState := BS_connected, connectionEstablished := True, minFederateCount := 0,
       cb_brokers := \<lparr> li_elems = [first_core], li_names = [''core'' \<mapsto> 0], li_keys = [Global_Broker_Id 0x70000000 \<mapsto> 0] \<rparr> \<rparr>"

definition core_asks :: "ticks ActionMessage" where
  "core_asks = (mk_message tick_rep cmd_init)\<lparr> source_id := Global_Federate_Id 0x70000000 \<rparr>"

lemma joined_root_simps:
  "isRootc joined_root" "mv_elems listed_vector (cb_brokers joined_root) = [first_core]" "cb_unknowns joined_root = UnknownHandleManager_empty"
  "grants joined_root = []" "me joined_root = Global_Federate_Id 1"
  "getBrokerById tick_env (Global_Broker_Id 0x70000000) joined_root = Some 0"
  by (simp_all add: joined_root_def CoreBroker_default_def listed_vector_def grants_def me_def fed_of_broker_def
      getBrokerById_def isValidIndex_def broker_localIndex_def global_broker_id_shift_def)

theorem init_granted_when_ready_witness:
  "\<exists>s'. processCommand 1 0 tick_env core_asks joined_root = Some s' \<and> brokerState s' = BS_operating
    \<and> grants s' = [Transmit (Route_Id 1) ((mk_message tick_rep cmd_init_grant)
        \<lparr> source_id := Global_Federate_Id 1, dest_id := Global_Federate_Id 0x70000000 \<rparr>)]"
proof -
  have "messageAction core_asks = cmd_init" "broker_of_fed (source_id core_asks) = Global_Broker_Id 0x70000000"
    by (simp_all add: core_asks_def mk_message_def broker_of_fed_def)
  moreover have "ready_to_start tick_env [first_core\<lparr> bb_state := CS_init_requested \<rparr>] joined_root"
    by (simp add: ready_to_start_def first_core_def mk_BasicBrokerInfo_def joined_root_def CoreBroker_default_def
        listed_vector_def)
  moreover have "CS_init_requested < CS_disconnected" "\<not> bb_nonLocal first_core" "bb_route first_core = Route_Id 1"
    "fed_of_broker (bb_global_id first_core) = Global_Federate_Id 0x70000000"
    by (simp_all add: state_order first_core_def mk_BasicBrokerInfo_def fed_of_broker_def)
  ultimately show ?thesis
    using init_granted_when_ready [of tick_env joined_root core_asks 1 0] listed_laws
    by (auto simp: joined_root_simps hasNonOptionalUnknowns_def UnknownHandleManager_empty_def)
qed

end
