(* ===== verification/Broker_Registration.thy ===== *)
theory Broker_Registration
  imports Broker_Init
begin

text \<open>
  The registration of federates at the root, which numbers them, and the links between interfaces
  that are made when a name is registered or asked for.
\<close>

section \<open>Registration of federates\<close>

text \<open>The number of federates for which the identifiers stay below those of the brokers.\<close>

definition fed_limit :: nat where "fed_limit = 0x6FFE0000"

lemma new_federate_id_alt: "gid (new_federate_id (Suc k)) = word_of_nat (k + 0x20000)"
  by (simp add: new_federate_id_def global_federate_id_shift_def)

lemma new_federate_id_value: "k < fed_limit \<Longrightarrow> sint (gid (new_federate_id (Suc k))) = int k + 0x20000"
  using sint_word_of_nat_small [of "k + 0x20000"] by (simp add: new_federate_id_alt fed_limit_def)

lemma new_federate_id_inj:
  "j < fed_limit \<Longrightarrow> k < fed_limit \<Longrightarrow> new_federate_id (Suc j) = new_federate_id (Suc k) \<longleftrightarrow> j = k"
  using new_federate_id_value by (metis add_right_cancel of_nat_eq_iff)

lemma new_federate_id_index:
  "k < fed_limit \<Longrightarrow> unat (gid (new_federate_id (Suc k)) - global_federate_id_shift) = k"
  by (simp add: new_federate_id_alt global_federate_id_shift_def fed_limit_def unsigned_of_nat take_bit_nat_eq_self)

text \<open>The root numbers the federates in the order of the list, finds each by its name and by its
  identifier, has a route to it and has told it.\<close>

definition told ::
  "('t::linorder, 'b, 'f) broker_env \<Rightarrow> BasicFedInfo \<Rightarrow> ('t, 'b, 'f) CoreBroker \<Rightarrow> 't broker_event" where
  "told E f s = Transmit (bf_route f) ((mk_message (be_time E) cmd_fed_ack)
     \<lparr> source_id := me s, dest_id := bf_global_id f, payload := bf_name f \<rparr>)"

definition fed_listed :: "('t::linorder, 'b, 'f) broker_env \<Rightarrow> ('t, 'b, 'f) CoreBroker \<Rightarrow> nat \<Rightarrow> bool" where
  "fed_listed E s i \<longleftrightarrow> (let f = federates_of E s ! i in
     bf_global_id f = new_federate_id (Suc i) \<and> mv_find (be_federates E) (bf_global_id f) (cb_federates s) = Some i
     \<and> mv_find_name (be_federates E) (bf_name f) (cb_federates s) = Some i
     \<and> routing_table s (bf_global_id f) = Some (bf_route f) \<and> told E f s \<in> set (cb_events s))"

definition fed_table :: "('t::linorder, 'b, 'f) broker_env \<Rightarrow> ('t, 'b, 'f) CoreBroker \<Rightarrow> bool" where
  "fed_table E s \<longleftrightarrow> (\<forall>i < length (federates_of E s). fed_listed E s i)
     \<and> (\<forall>n. mv_find_name (be_federates E) n (cb_federates s) \<noteq> None \<longrightarrow> n \<in> bf_name ` set (federates_of E s))
     \<and> (\<forall>k. length (federates_of E s) \<le> k \<and> k < fed_limit \<longrightarrow>
          mv_find (be_federates E) (new_federate_id (Suc k)) (cb_federates s) = None
          \<and> routing_table s (new_federate_id (Suc k)) = None)"

definition root_open :: "('t, 'b, 'f) CoreBroker \<Rightarrow> bool" where
  "root_open s \<longleftrightarrow> isRootc s \<and> connectionEstablished s \<and> brokerState s \<noteq> BS_operating"

text \<open>A registration at the root, up to events: a name that is known is refused, a new one is appended.\<close>

definition listed_fed :: "('t, 'b, 'f) broker_env \<Rightarrow> 't ActionMessage \<Rightarrow> ('t, 'b, 'f) CoreBroker \<Rightarrow> BasicFedInfo" where
  "listed_fed E m s = (mk_BasicFedInfo (payload m))
     \<lparr> bf_route := getRoute (source_id m) s, bf_parent := broker_of_fed (source_id m),
       bf_global_id := new_federate_id (Suc (length (federates_of E s))) \<rparr>"

lemma reg_fed_known:
  assumes "mapped_laws (be_federates E)" "root_open s" "mv_find_name (be_federates E) (payload m) (cb_federates s) \<noteq> None"
  obtains es where "reg_fed E m s = s\<lparr> cb_events := cb_events s @ es \<rparr>"
proof -
  have "mv_insert (be_federates E) (payload m) None info (cb_federates s) = None" for info
    using assms(3) by (simp add: mv_insert_fails [OF assms(1)])
  then have "\<exists>es. reg_fed E m s = s\<lparr> cb_events := cb_events s @ es \<rparr>"
    using assms(2) by (auto simp: reg_fed_def root_open_def init_not_ready_def Let_def event_def me_def)
  then show ?thesis
    using that by blast
qed

lemma reg_fed_new:
  assumes "mapped_laws (be_federates E)" "root_open s" "mv_find_name (be_federates E) (payload m) (cb_federates s) = None"
    and "length (federates_of E s) < fed_limit"
  obtains es fs where "reg_fed E m s = s\<lparr> cb_federates := fs, routing_table := emplace (bf_global_id (listed_fed E m s)) (bf_route (listed_fed E m s)) (routing_table s),
      cb_events := cb_events s @ es @ [told E (listed_fed E m s) s] \<rparr>"
    and "mv_elems (be_federates E) fs = federates_of E s @ [listed_fed E m s]"
    and "\<forall>n. mv_find_name (be_federates E) n fs = (if n = payload m then Some (length (federates_of E s))
           else mv_find_name (be_federates E) n (cb_federates s))"
    and "\<forall>k. mv_find (be_federates E) k fs = (if k = bf_global_id (listed_fed E m s)
             \<and> mv_find (be_federates E) k (cb_federates s) = None then Some (length (federates_of E s))
           else mv_find (be_federates E) k (cb_federates s))"
proof -
  let ?F = "be_federates E" and ?n = "length (federates_of E s)"
  let ?info = "(mk_BasicFedInfo (payload m))\<lparr> bf_route := getRoute (source_id m) s, bf_parent := broker_of_fed (source_id m) \<rparr>"
  have "mv_insert ?F (payload m) None ?info (cb_federates s) \<noteq> None"
    using mv_insert_fails [OF assms(1)] assms(3) by metis
  then obtain f0 where f0: "mv_insert ?F (payload m) None ?info (cb_federates s) = Some f0"
    by blast
  note spec = mv_insert_spec [OF assms(1) f0]
  define fs where "fs = mv_add_key ?F (bf_global_id (listed_fed E m s)) ?n (mv_write ?F ?n (listed_fed E m s) f0)"
  have "\<exists>es. init_not_ready E s = s\<lparr> cb_events := cb_events s @ es \<rparr>"
    by (auto simp: init_not_ready_def event_def intro: exI [of _ "[]"])
  then obtain es where es: "init_not_ready E s = s\<lparr> cb_events := cb_events s @ es \<rparr>"
    by blast
  have l: "?info\<lparr> bf_global_id := new_federate_id (Suc ?n) \<rparr> = listed_fed E m s"
    "bf_global_id (listed_fed E m s) = new_federate_id (Suc ?n)" "bf_route (listed_fed E m s) = getRoute (source_id m) s"
    "bf_name (listed_fed E m s) = payload m"
    by (simp_all add: spec listed_fed_def mk_BasicFedInfo_def)
  have r: "reg_fed E m s = s\<lparr> cb_federates := fs, routing_table := emplace (bf_global_id (listed_fed E m s)) (bf_route (listed_fed E m s)) (routing_table s),
      cb_events := cb_events s @ es @ [told E (listed_fed E m s) s] \<rparr>"
    using assms(2) f0 spec(1) unfolding reg_fed_def root_open_def es Let_def
    by (simp add: mv_size_def fs_def new_federate_id_index [OF assms(4)] l told_def event_def me_def)
  note defs = fs_def mv_key_spec [OF assms(1)] mv_write_spec [OF assms(1)] spec
  show ?thesis
    by (rule that [OF r]) (auto simp: defs)
qed

lemma told_event: "me s' = me s \<Longrightarrow> told E f s' = told E f s"
  by (simp add: told_def)

lemma reg_fed_step:
  assumes laws: "mapped_laws (be_federates E)" and s: "root_open s" "fed_table E s" and lim: "length (federates_of E s) < fed_limit"
  shows "root_open (reg_fed E m s) \<and> fed_table E (reg_fed E m s)
    \<and> map bf_name (federates_of E (reg_fed E m s)) = (if payload m \<in> bf_name ` set (federates_of E s)
         then map bf_name (federates_of E s) else map bf_name (federates_of E s) @ [payload m])"
proof (cases "mv_find_name (be_federates E) (payload m) (cb_federates s)")
  case None
  let ?f = "listed_fed E m s" and ?n = "length (federates_of E s)"
  have fresh: "payload m \<notin> bf_name ` set (federates_of E s)"
    using s(2) None by (force simp: fed_table_def fed_listed_def in_set_conv_nth Let_def)
  have f: "bf_name ?f = payload m" "bf_global_id ?f = new_federate_id (Suc ?n)"
    by (simp_all add: listed_fed_def mk_BasicFedInfo_def)
  have new: "mv_find (be_federates E) (bf_global_id ?f) (cb_federates s) = None" "routing_table s (bf_global_id ?f) = None"
    using s(2) lim by (auto simp: fed_table_def f)
  obtain es fs where r: "reg_fed E m s = s\<lparr> cb_federates := fs, routing_table := emplace (bf_global_id ?f) (bf_route ?f) (routing_table s),
      cb_events := cb_events s @ es @ [told E ?f s] \<rparr>"
    and fs: "mv_elems (be_federates E) fs = federates_of E s @ [?f]"
    "\<forall>n. mv_find_name (be_federates E) n fs = (if n = payload m then Some ?n
           else mv_find_name (be_federates E) n (cb_federates s))"
    "\<forall>k. mv_find (be_federates E) k fs = (if k = bf_global_id ?f
             \<and> mv_find (be_federates E) k (cb_federates s) = None then Some ?n
           else mv_find (be_federates E) k (cb_federates s))"
    by (rule reg_fed_new [OF laws s(1) None lim])
  let ?t = "reg_fed E m s"
  have t: "me ?t = me s" "cb_federates ?t = fs" "set (cb_events ?t) = set (cb_events s) \<union> set es \<union> {told E ?f s}"
    "routing_table ?t = emplace (bf_global_id ?f) (bf_route ?f) (routing_table s)"
    unfolding r by (simp_all add: me_def)
  have old: "fed_listed E ?t i" if "i < ?n" for i
  proof -
    have "bf_name (federates_of E s ! i) \<noteq> payload m"
      using fresh that by (metis image_eqI nth_mem)
    moreover have "fed_listed E s i"
      using that s(2) by (simp add: fed_table_def)
    moreover have "federates_of E ?t ! i = federates_of E s ! i"
      using that by (simp add: t fs nth_append)
    ultimately show ?thesis
      using new by (auto simp: fed_listed_def Let_def told_event [OF t(1)] t fs emplace_table.get_put)
  qed
  have "federates_of E ?t ! ?n = ?f"
    by (simp add: t fs)
  then have "fed_listed E ?t ?n"
    using new f by (simp add: fed_listed_def Let_def told_event [OF t(1)] t fs emplace_table.get_put)
  then have "\<forall>i < length (federates_of E ?t). fed_listed E ?t i"
    using old by (auto simp: t fs less_Suc_eq)
  moreover have "new_federate_id (Suc k) \<noteq> bf_global_id ?f" if "?n < k" "k < fed_limit" for k
    using that new_federate_id_inj [OF that(2) lim] by (simp add: f)
  ultimately have "fed_table E ?t"
    using s(2) f by (auto simp: fed_table_def t fs emplace_table.get_put split: if_splits)
  moreover have "root_open ?t"
    using s(1) unfolding r by (simp add: root_open_def)
  ultimately show ?thesis
    using fresh f by (simp add: t fs)
next
  case (Some i)
  then obtain es where r: "reg_fed E m s = s\<lparr> cb_events := cb_events s @ es \<rparr>"
    by (auto intro: reg_fed_known [OF laws s(1), of m])
  have "payload m \<in> bf_name ` set (federates_of E s)"
    using s(2) Some by (auto simp: fed_table_def)
  moreover have "fed_table E (reg_fed E m s)"
    using s(2) by (auto simp: fed_table_def fed_listed_def r told_def me_def Let_def)
  ultimately show ?thesis
    using s(1) by (simp add: root_open_def r)
qed

lemma reg_feds_run:
  assumes laws: "mapped_laws (be_federates E)" and s: "root_open s" "fed_table E s" "federates_of E s = []"
  shows "length ms < fed_limit \<Longrightarrow> root_open (foldl (\<lambda>s m. reg_fed E m s) s ms) \<and> fed_table E (foldl (\<lambda>s m. reg_fed E m s) s ms)
    \<and> map bf_name (federates_of E (foldl (\<lambda>s m. reg_fed E m s) s ms)) = rev (remdups (rev (map payload ms)))"
proof (induction ms rule: rev_induct)
  case (snoc m ms)
  let ?u = "foldl (\<lambda>s m. reg_fed E m s) s ms"
  have IH: "root_open ?u" "fed_table E ?u" "map bf_name (federates_of E ?u) = rev (remdups (rev (map payload ms)))"
    using snoc by auto
  have "length (federates_of E ?u) < fed_limit"
    using arg_cong [OF IH(3), of length] length_remdups_leq [of "rev (map payload ms)"] snoc.prems by simp
  moreover have "bf_name ` set (federates_of E ?u) = payload ` set ms"
    using arg_cong [OF IH(3), of set] by simp
  ultimately show ?case
    using reg_fed_step [OF laws IH(1,2), of m] IH(3) by simp
qed (use s in simp)

text \<open>C22: the identifiers the root gives to federates. After any sequence of registrations the federates
  are the names in the order in which they first came; their identifiers are different and lie in the
  range of federates; each federate is found by its identifier, the broker has the route to it on
  which it came, and it has been told its identifier on that route.\<close>

theorem federate_ids_unique:
  fixes E :: "('t::linorder, 'b, 'f) broker_env"
  assumes "mapped_laws (be_federates E)" and "isRootc s" and "connectionEstablished s" and "brokerState s \<noteq> BS_operating"
    and "cb_federates s = mv_empty (be_federates E)" and "\<And>f. fed_isFederate f \<Longrightarrow> routing_table s f = None"
    and "length ms < fed_limit"
  defines "s' \<equiv> foldl (\<lambda>s m. reg_fed E m s) s ms"
  shows "map bf_name (federates_of E s') = rev (remdups (rev (map payload ms)))
    \<and> distinct (map bf_global_id (federates_of E s')) \<and> list_all (\<lambda>f. fed_isFederate (bf_global_id f)) (federates_of E s')
    \<and> (\<forall>i < length (federates_of E s'). let f = federates_of E s' ! i in
         mv_find (be_federates E) (bf_global_id f) (cb_federates s') = Some i
         \<and> routing_table s' (bf_global_id f) = Some (bf_route f) \<and> told E f s' \<in> set (cb_events s'))"
proof -
  have federate: "fed_isFederate (new_federate_id (Suc k))" if "k < fed_limit" for k
    using new_federate_id_value [OF that] that
    by (simp add: fed_isFederate_def global_federate_id_shift_def global_broker_id_shift_def fed_limit_def)
  have "root_open s" "fed_table E s" "federates_of E s = []"
    using assms(2-6) federate by (simp_all add: root_open_def fed_table_def mv_empty_spec [OF assms(1)])
  then have "fed_table E s'" and names: "map bf_name (federates_of E s') = rev (remdups (rev (map payload ms)))"
    using reg_feds_run [OF assms(1) _ _ _ assms(7), of s] by (simp_all add: s'_def)
  have len: "length (federates_of E s') < fed_limit"
    using arg_cong [OF names, of length] length_remdups_leq [of "rev (map payload ms)"] assms(7) by simp
  have ids: "bf_global_id (federates_of E s' ! i) = new_federate_id (Suc i)" if "i < length (federates_of E s')" for i
    using that \<open>fed_table E s'\<close> by (simp add: fed_table_def fed_listed_def Let_def)
  have "distinct (map bf_global_id (federates_of E s'))"
    using len by (auto simp: distinct_conv_nth ids new_federate_id_inj)
  moreover have "list_all (\<lambda>f. fed_isFederate (bf_global_id f)) (federates_of E s')"
    using len by (auto simp: list_all_length ids federate)
  ultimately show ?thesis
    using names \<open>fed_table E s'\<close> by (auto simp: fed_table_def fed_listed_def Let_def)
qed

text \<open>Three registrations, two of them with one name.\<close>

definition register_message :: "string \<Rightarrow> ticks ActionMessage" where
  "register_message name = (mk_message tick_rep cmd_reg_fed)\<lparr> source_id := Global_Federate_Id 0x70000000, payload := name \<rparr>"

theorem federate_ids_unique_witness:
  "map bf_name (federates_of tick_env (foldl (\<lambda>s m. reg_fed tick_env m s) joined_root
     (map register_message [''a'', ''b'', ''a'']))) = [''a'', ''b'']"
proof -
  have "mapped_laws (be_federates tick_env)" "isRootc joined_root" "connectionEstablished joined_root"
    "brokerState joined_root \<noteq> BS_operating" "cb_federates joined_root = mv_empty (be_federates tick_env)"
    "\<And>f. fed_isFederate f \<Longrightarrow> routing_table joined_root f = None"
    "length (map register_message [''a'', ''b'', ''a'']) < fed_limit"
    by (simp_all add: joined_root_def CoreBroker_default_def listed_laws fed_limit_def)
  note federate_ids_unique [OF this]
  moreover have "rev (remdups (rev (map payload (map register_message [''a'', ''b'', ''a''])))) = [''a'', ''b'']"
    by (simp add: register_message_def)
  ultimately show ?thesis
    by simp
qed

section \<open>Links between interfaces\<close>

text \<open>A sequence of messages from the queue.\<close>

fun broker_run ::
  "nat \<Rightarrow> int \<Rightarrow> ('t::linorder, 'b, 'f) broker_env \<Rightarrow> 't ActionMessage list \<Rightarrow> ('t, 'b, 'f) CoreBroker
     \<Rightarrow> ('t, 'b, 'f) broker_outcome" where
  "broker_run n now E [] s = Some s"
| "broker_run n now E (m # ms) s = do { s1 \<leftarrow> dispatch n now E m s; broker_run n now E ms s1 }"

lemma dispatch_reg_pub:
  "messageAction p = cmd_reg_pub \<Longrightarrow> isRootc s \<Longrightarrow> \<not> haltOperations s \<Longrightarrow> dispatch n now E p s = addPublication E p s"
  by (simp add: dispatch_def isPriorityCommand_def processCommand_def registration_command_def isErrorCommand_def cmd_defs
      CMD_BROKER_PING_def)

lemma dispatch_named_pub:
  "messageAction q = cmd_add_named_publication \<Longrightarrow> \<not> haltOperations s \<Longrightarrow>
    dispatch n now E q s = checkForNamedInterface E q s"
  by (simp add: dispatch_def isPriorityCommand_def processCommand_def isErrorCommand_def isDependencyCommand_def cmd_defs
      CMD_BROKER_PING_def)

text \<open>The record of a publication the broker adds.\<close>

definition new_publication :: "'t ActionMessage \<Rightarrow> ('t, 'b, 'f) CoreBroker \<Rightarrow> BasicHandleInfo" where
  "new_publication p s =
     (case global_id_translation s (source_id p) of Some l \<Rightarrow> (\<lambda>h. h\<lparr> local_fed_id := l \<rparr>) | None \<Rightarrow> id)
       (mk_BasicHandleInfo (source_id p) (source_handle p) HT_publication (payload p) (getString p 0) (getString p 1))
     \<lparr> bh_flags := flags p \<rparr>"

lemma new_publication_simps:
  "bh_handle (new_publication p s) = getSource p" "bh_key (new_publication p s) = payload p"
  "bh_type (new_publication p s) = getString p 0" "bh_units (new_publication p s) = getString p 1"
  "bh_flags (new_publication p s) = flags p" "getFederateId (new_publication p s) = source_id p"
  by (simp_all add: new_publication_def mk_BasicHandleInfo_def BasicHandleInfo_default_def getSource_def getFederateId_def
      split: option.split)

lemma add_publication_handle:
  assumes "payload p \<noteq> []" "getPublication (payload p) (cb_handles s) = None" "length (hm_handles (cb_handles s)) < 2 ^ 31"
  obtains hm where "add_sender_handle HT_publication (payload p) p s = (length (hm_handles (cb_handles s)), s\<lparr> cb_handles := hm \<rparr>)"
    and "hm_handles hm ! length (hm_handles (cb_handles s)) = new_publication p s"
    and "getPublication (payload p) hm = Some (length (hm_handles (cb_handles s)))"
proof -
  let ?n = "length (hm_handles (cb_handles s))"
  let ?info = "mk_BasicHandleInfo (source_id p) (source_handle p) HT_publication (payload p) (getString p 0) (getString p 1)"
  define h0 where "h0 = addSearchFields ?info (size32 (hm_handles (cb_handles s)))
     ((cb_handles s)\<lparr> hm_handles := hm_handles (cb_handles s) @ [?info] \<rparr>)"
  define hm where "hm = h0\<lparr> hm_handles := hm_handles (cb_handles s) @ [new_publication p s] \<rparr>"
  have "hm_handles h0 = hm_handles (cb_handles s) @ [?info]"
    by (simp add: h0_def)
  then have "add_sender_handle HT_publication (payload p) p s = (?n, s\<lparr> cb_handles := hm \<rparr>)"
    using assms(1) by (simp add: add_sender_handle_def addHandle_id_def h0_def [symmetric] addLocalInfo_def update_handle_def
        hm_def new_publication_def Let_def split: option.split)
  moreover have "name_index_of HT_publication h0 (payload p) = Some (Interface_Handle (size32 (hm_handles (cb_handles s))))"
    using assms(2) by (simp add: h0_def addSearchFields_names mk_BasicHandleInfo_def emplace_table.get_put getPublication_def)
  then have "getPublication (payload p) hm = Some ?n"
    using assms(3) by (simp add: hm_def getPublication_def nat_sint_of_nat)
  ultimately show ?thesis
    using that [of hm] by (simp add: hm_def)
qed

text \<open>What a message sent says about a link, and the payload of the last one.\<close>

fun link_event :: "'t broker_event \<Rightarrow> (route_id \<times> action_t \<times> global_handle \<times> global_handle) option" where
  "link_event (Transmit r m) = Some (r, messageAction m, getSource m, getDest m)"
| "link_event _ = None"

fun sent_payload :: "'t broker_event \<Rightarrow> string option" where
  "sent_payload (Transmit r m) = Some (payload m)"
| "sent_payload _ = None"

text \<open>Both ends of a link from the publication of \<open>p\<close> to the input that sent \<open>q\<close>.\<close>

definition link_pair ::
  "'t ActionMessage \<Rightarrow> 't ActionMessage \<Rightarrow> ('t, 'b, 'f) CoreBroker
     \<Rightarrow> (route_id \<times> action_t \<times> global_handle \<times> global_handle) option list" where
  "link_pair p q s = [Some (getRoute (source_id p) s, cmd_add_subscriber, getSource q, getSource p),
     Some (getRoute (source_id q) s, cmd_add_publisher, getSource p, getSource q)]"

definition link_made ::
  "'t ActionMessage \<Rightarrow> 't ActionMessage \<Rightarrow> string \<Rightarrow> ('t, 'b, 'f) CoreBroker \<Rightarrow> ('t, 'b, 'f) CoreBroker \<Rightarrow> bool" where
  "link_made p q pl s s' \<longleftrightarrow> map link_event (cb_events s') = map link_event (cb_events s) @ link_pair p q s
     \<and> sent_payload (last (cb_events s')) = Some pl \<and> checkForPublications (payload p) (cb_unknowns s') = []"

lemmas msg_ends = getSource_def getDest_def setSource_def setDestination_def swapSourceDest_def setAction_def

lemma published_first:
  assumes "isRootc s" "\<not> haltOperations s" "messageAction p = cmd_reg_pub" "messageAction q = cmd_add_named_publication"
    and "payload q = payload p" "payload p \<noteq> []" "getPublication (payload p) (cb_handles s) = None"
    "length (hm_handles (cb_handles s)) < 2 ^ 31" "checkForPublications (payload p) (cb_unknowns s) = []"
    "checkForLinks (payload p) (cb_unknowns s) = []" "mv_find (be_federates E) (source_id p) (cb_federates s) = Some f"
    "bf_state (federates_of E s ! f) < CS_error"
  shows "\<exists>s'. broker_run n now E [p, q] s = Some s' \<and> link_made p q (payload p) s s'"
proof -
  obtain hm where hm: "add_sender_handle HT_publication (payload p) p s = (length (hm_handles (cb_handles s)), s\<lparr> cb_handles := hm \<rparr>)"
    "hm_handles hm ! length (hm_handles (cb_handles s)) = new_publication p s"
    "getPublication (payload p) hm = Some (length (hm_handles (cb_handles s)))"
    by (rule add_publication_handle [OF assms(6-8)])
  have "dispatch n now E p s = Some (s\<lparr> cb_handles := hm \<rparr>)"
    using assms by (simp add: dispatch_reg_pub addPublication_def hm FindandNotifyPublicationTargets_def new_publication_simps Let_def)
  moreover have "dispatch n now E q (s\<lparr> cb_handles := hm \<rparr>) = checkForNamedInterface E q (s\<lparr> cb_handles := hm \<rparr>)"
    using assms by (simp add: dispatch_named_pub)
  ultimately show ?thesis
    using assms by (simp add: checkForNamedInterface_def named_publication_def hm new_publication_simps Let_def link_made_def
        routeMessage_eq link_pair_def msg_ends) (simp add: getRoute_def event_def)
qed

lemma asked_first:
  assumes "isRootc s" "\<not> haltOperations s" "messageAction p = cmd_reg_pub" "messageAction q = cmd_add_named_publication"
    and "payload q = payload p" "payload p \<noteq> []" "getPublication (payload p) (cb_handles s) = None"
    "length (hm_handles (cb_handles s)) < 2 ^ 31" "checkForPublications (payload p) (cb_unknowns s) = []"
    "checkForLinks (payload p) (cb_unknowns s) = []"
  shows "\<exists>s'. broker_run n now E [q, p] s = Some s' \<and> link_made p q (getString p 0) s s'"
proof -
  define u where "u = s\<lparr> cb_unknowns := addUnknownPublication (payload p) (getSource q) (flags q) (cb_unknowns s) \<rparr>"
  have u: "dispatch n now E q s = Some u"
    using assms by (simp add: dispatch_named_pub checkForNamedInterface_def named_publication_def note_unknown_def u_def Let_def)
  have w: "checkForPublications (payload p) (cb_unknowns u) = [(getSource q, flags q)]" "checkForLinks (payload p) (cb_unknowns u) = []"
    "cb_handles u = cb_handles s" "isRootc u" "\<not> haltOperations u" "cb_events u = cb_events s" "getRoute f u = getRoute f s" for f
    using assms by (simp_all add: u_def unknown_table_defs checkForPublications_def checkForLinks_def getRoute_def)
  obtain hm where hm: "add_sender_handle HT_publication (payload p) p u = (length (hm_handles (cb_handles u)), u\<lparr> cb_handles := hm \<rparr>)"
    "hm_handles hm ! length (hm_handles (cb_handles u)) = new_publication p u"
    using add_publication_handle [of p u] assms by (metis w(3))
  note hm' = hm [unfolded w(3)]
  have c: "checkForPublications k (clearPublication k un) = []" for k un
    by (simp add: checkForPublications_def clearPublication_def)
  have "getRoute f (u\<lparr> cb_handles := hm \<rparr>) = getRoute f s" for f
    by (simp add: getRoute_def u_def)
  then show ?thesis
    using assms by (simp add: u dispatch_reg_pub w addPublication_def hm' FindandNotifyPublicationTargets_def new_publication_simps
        Let_def notify_pair_def link_made_def link_pair_def msg_ends c)
qed


definition two_fed_root :: "(ticks, (BasicBrokerInfo, global_broker_id) listed, (BasicFedInfo, global_federate_id) listed) CoreBroker" where
  "two_fed_root = joined_root\<lparr> cb_federates := \<lparr> li_elems = [(mk_BasicFedInfo ''fed'')\<lparr> bf_global_id := Global_Federate_Id 0x20000 \<rparr>],
       li_names = [''fed'' \<mapsto> 0], li_keys = [Global_Federate_Id 0x20000 \<mapsto> 0] \<rparr>,
     routing_table := [Global_Federate_Id 0x20000 \<mapsto> Route_Id 1, Global_Federate_Id 0x20001 \<mapsto> Route_Id 2] \<rparr>"

definition publishes :: "ticks ActionMessage" where
  "publishes = (mk_message tick_rep cmd_reg_pub)\<lparr> source_id := Global_Federate_Id 0x20000, source_handle := Interface_Handle 3,
     payload := ''volts'', stringData := [''double'', ''V''] \<rparr>"

definition subscribes :: "ticks ActionMessage" where
  "subscribes = (mk_message tick_rep cmd_add_named_publication)
     \<lparr> source_id := Global_Federate_Id 0x20001, source_handle := Interface_Handle 5, payload := ''volts'' \<rparr>"


end
