(* ===== verification/Broker_Departure.thy ===== *)
theory Broker_Departure
  imports Broker_Init
begin

text \<open>
  What the root does when a broker or core leaves: the recursion over the tree of brokers returns
  and marks exactly the subtree, and the root stops when everyone has left.
\<close>

section \<open>Leaving\<close>

text \<open>The identifiers reached from a broker through brokers that are not in error: those that leave with it.\<close>

inductive leaves :: "BasicBrokerInfo list \<Rightarrow> global_broker_id \<Rightarrow> global_broker_id \<Rightarrow> bool" for bs where
  leaves_self: "leaves bs a a"
| leaves_child: "b \<in> set bs \<Longrightarrow> bb_parent b = a \<Longrightarrow> bb_state b \<noteq> CS_error \<Longrightarrow> leaves bs (bb_global_id b) x \<Longrightarrow> leaves bs a x"

text \<open>Whether the record of a broker, the last one with its identifier and without error, is that of a core.\<close>

definition core_of :: "BasicBrokerInfo list \<Rightarrow> global_broker_id \<Rightarrow> bool" where
  "core_of bs x = foldl (\<lambda>c b. if bb_global_id b = x \<and> bb_state b \<noteq> CS_error then bb_core b else c) False bs"

definition mark_broker :: "BasicBrokerInfo \<Rightarrow> BasicBrokerInfo" where
  "mark_broker b = (if bb_state b \<noteq> CS_error then b\<lparr> bb_state := CS_disconnected \<rparr> else b)"

definition mark_at :: "nat set \<Rightarrow> BasicBrokerInfo list \<Rightarrow> BasicBrokerInfo list" where
  "mark_at I bs = map (\<lambda>i. if i \<in> I then mark_broker (bs ! i) else bs ! i) [0..<length bs]"

definition mark_feds :: "global_broker_id set \<Rightarrow> BasicFedInfo list \<Rightarrow> BasicFedInfo list" where
  "mark_feds P fs = map (\<lambda>f. if bf_parent f \<in> P \<and> bf_state f \<noteq> CS_error then f\<lparr> bf_state := CS_disconnected \<rparr> else f) fs"

text \<open>The state after brokers at some positions and the federates of some cores have been marked.\<close>

definition marked ::
  "('t, 'b, 'f) broker_env \<Rightarrow> nat set \<Rightarrow> global_broker_id set \<Rightarrow> ('t, 'b, 'f) CoreBroker \<Rightarrow> ('t, 'b, 'f) CoreBroker \<Rightarrow> bool" where
  "marked E I P s s' \<longleftrightarrow> brokers_of E s' = mark_at I (brokers_of E s) \<and> federates_of E s' = mark_feds P (federates_of E s)
     \<and> s' = s\<lparr> cb_brokers := cb_brokers s', cb_federates := cb_federates s' \<rparr>"

definition leaving_at :: "BasicBrokerInfo list \<Rightarrow> global_broker_id \<Rightarrow> nat set" where
  "leaving_at bs a = {i. i < length bs \<and> leaves bs a (bb_global_id (bs ! i))}"

definition leaving_cores :: "BasicBrokerInfo list \<Rightarrow> global_broker_id \<Rightarrow> global_broker_id set" where
  "leaving_cores bs a = {x. leaves bs a x \<and> core_of bs x}"

lemma mark_broker_simps [simp]:
  "bb_global_id (mark_broker b) = bb_global_id b" "bb_parent (mark_broker b) = bb_parent b" "bb_core (mark_broker b) = bb_core b"
  "bb_nonLocal (mark_broker b) = bb_nonLocal b" "bb_route (mark_broker b) = bb_route b"
  "bb_state (mark_broker b) = CS_error \<longleftrightarrow> bb_state b = CS_error" "mark_broker (mark_broker b) = mark_broker b"
  by (simp_all add: mark_broker_def)

lemma mark_at_length [simp]: "length (mark_at I bs) = length bs"
  by (simp add: mark_at_def)

lemma mark_at_nth: "i < length bs \<Longrightarrow> mark_at I bs ! i = (if i \<in> I then mark_broker (bs ! i) else bs ! i)"
  by (simp add: mark_at_def)

lemma mark_at_union: "mark_at J (mark_at I bs) = mark_at (I \<union> J) bs"
  by (intro nth_equalityI) (auto simp: mark_at_nth)

lemma mark_feds_union: "mark_feds Q (mark_feds P fs) = mark_feds (P \<union> Q) fs"
  by (auto simp: mark_feds_def)

lemma mark_at_keeps:
  assumes "i < length bs"
  shows "bb_global_id (mark_at I bs ! i) = bb_global_id (bs ! i)" "bb_parent (mark_at I bs ! i) = bb_parent (bs ! i)"
    "bb_core (mark_at I bs ! i) = bb_core (bs ! i)" "bb_nonLocal (mark_at I bs ! i) = bb_nonLocal (bs ! i)"
    "bb_state (mark_at I bs ! i) = CS_error \<longleftrightarrow> bb_state (bs ! i) = CS_error"
  using assms by (simp_all add: mark_at_nth)

lemma marked_trans:
  assumes "marked E I P s s1" "marked E J Q s1 s2"
  shows "marked E (I \<union> J) (P \<union> Q) s s2"
proof -
  have "s2 = s1\<lparr> cb_brokers := cb_brokers s2, cb_federates := cb_federates s2 \<rparr>"
    using assms(2) by (simp add: marked_def)
  moreover have "s1 = s\<lparr> cb_brokers := cb_brokers s1, cb_federates := cb_federates s1 \<rparr>"
    using assms(1) by (simp add: marked_def)
  ultimately have "s2 = (s\<lparr> cb_brokers := cb_brokers s1, cb_federates := cb_federates s1 \<rparr>)
      \<lparr> cb_brokers := cb_brokers s2, cb_federates := cb_federates s2 \<rparr>"
    by metis
  then show ?thesis
    using assms by (simp add: marked_def mark_at_union mark_feds_union)
qed

lemma marked_rest:
  assumes "marked E I P s s'"
  shows "isRootc s' = isRootc s" "cb_local_id s' = cb_local_id s" "cb_unknowns s' = cb_unknowns s"
    "cb_events s' = cb_events s" "brokerState s' = brokerState s"
proof -
  have *: "s' = s\<lparr> cb_brokers := cb_brokers s', cb_federates := cb_federates s' \<rparr>"
    using assms by (simp add: marked_def)
  show "isRootc s' = isRootc s" "cb_local_id s' = cb_local_id s" "cb_unknowns s' = cb_unknowns s"
    "cb_events s' = cb_events s" "brokerState s' = brokerState s"
    by (subst *, simp)+
qed

lemma mark_nothing [simp]: "mark_at {} bs = bs" "mark_feds {} fs = fs"
  by (simp_all add: mark_at_def mark_feds_def map_nth)

lemma marked_refl: "marked E {} {} s s"
  by (simp add: marked_def)

lemma marked_set:
  assumes "mapped_laws (be_brokers E)" "i < length (brokers_of E s)" "bb_state (brokers_of E s ! i) \<noteq> CS_error"
  shows "marked E {i} {} s (set_broker E i (\<lambda>b. b\<lparr> bb_state := CS_disconnected \<rparr>) s)"
proof -
  have "(brokers_of E s)[i := (brokers_of E s ! i)\<lparr> bb_state := CS_disconnected \<rparr>] = mark_at {i} (brokers_of E s)"
    using assms(2,3) by (intro nth_equalityI) (auto simp: nth_list_update mark_broker_def mark_at_nth)
  then show ?thesis
    by (simp add: marked_def set_broker_def mv_write_spec [OF assms(1)])
qed

lemma marked_in_error: "bb_state (brokers_of E s ! i) = CS_error \<Longrightarrow> marked E {i} {} s s"
  unfolding marked_def by (auto simp: mark_broker_def mark_at_nth intro!: nth_equalityI)

lemma leaves_mark_mono: "leaves (mark_at I bs) a x \<longleftrightarrow> leaves bs a x"
proof
  assume "leaves (mark_at I bs) a x"
  then show "leaves bs a x"
  proof induction
    case (leaves_child b a x)
    then obtain i where i: "i < length bs" "b = mark_at I bs ! i"
      by (auto simp: in_set_conv_nth)
    then have "leaves bs (bb_global_id (bs ! i)) x" "bb_parent (bs ! i) = a" "bb_state (bs ! i) \<noteq> CS_error"
      using leaves_child by (auto simp: mark_at_keeps)
    then show ?case
      using i(1) by (metis leaves.leaves_child nth_mem)
  qed (rule leaves_self)
next
  assume "leaves bs a x"
  then show "leaves (mark_at I bs) a x"
  proof induction
    case (leaves_child b a x)
    then obtain i where i: "i < length bs" "b = bs ! i"
      by (auto simp: in_set_conv_nth)
    then have "mark_at I bs ! i \<in> set (mark_at I bs)" "bb_parent (mark_at I bs ! i) = a"
      "bb_state (mark_at I bs ! i) \<noteq> CS_error" "bb_global_id (mark_at I bs ! i) = bb_global_id b"
      using leaves_child by (auto simp: mark_at_keeps)
    then show ?case
      using leaves_child(5) by (metis leaves.leaves_child)
  qed (rule leaves_self)
qed

lemma core_of_mark: "core_of (mark_at I bs) x = core_of bs x"
proof -
  have "core_of (mark_at I bs) x = core_of (map ((!) bs) [0..<length bs]) x"
    unfolding core_of_def mark_at_def foldl_map by (intro arg_cong [where f = "\<lambda>g. foldl g False [0..<length bs]"] ext) auto
  then show ?thesis
    by (simp only: map_nth)
qed

lemma leaving_mark [simp]:
  "leaving_at (mark_at I bs) a = leaving_at bs a" "leaving_cores (mark_at I bs) a = leaving_cores bs a"
  by (auto simp: leaving_at_def leaving_cores_def leaves_mark_mono core_of_mark mark_at_keeps)

text \<open>The loop over the brokers.\<close>

definition hits :: "BasicBrokerInfo list \<Rightarrow> global_broker_id \<Rightarrow> nat list \<Rightarrow> nat set" where
  "hits bs a is = {i \<in> set is. bb_global_id (bs ! i) = a}"

definition children :: "BasicBrokerInfo list \<Rightarrow> global_broker_id \<Rightarrow> nat list \<Rightarrow> global_broker_id set" where
  "children bs a is = {bb_global_id (bs ! i) | i. i \<in> set is \<and> bb_parent (bs ! i) = a \<and> bb_state (bs ! i) \<noteq> CS_error}"

text \<open>The recursive call does its work for some identifiers, from every state the marking passes through.\<close>

definition marks ::
  "('t, 'b, 'f) broker_env \<Rightarrow> BasicBrokerInfo list \<Rightarrow> (global_broker_id \<Rightarrow> ('t, 'b, 'f) CoreBroker \<Rightarrow> ('t, 'b, 'f) broker_outcome)
     \<Rightarrow> global_broker_id set \<Rightarrow> bool" where
  "marks E bs rec X \<longleftrightarrow> (\<forall>t x J. brokers_of E t = mark_at J bs \<longrightarrow> x \<in> X \<longrightarrow>
     (\<exists>t'. rec x t = Some t' \<and> marked E (leaving_at bs x) (leaving_cores bs x) t t'))"

lemma marks_mono: "marks E bs rec X \<Longrightarrow> Y \<subseteq> X \<Longrightarrow> marks E bs rec Y"
  unfolding marks_def by blast

lemma mark_brokers_spec:
  assumes laws: "mapped_laws (be_brokers E)" and rec: "marks E bs rec (children bs a is)"
  shows "set is \<subseteq> {..<length bs} \<Longrightarrow> brokers_of E s = mark_at J bs \<Longrightarrow>
    \<exists>s'. mark_brokers E rec a is c s =
        Some (foldl (\<lambda>c i. if bb_global_id (bs ! i) = a \<and> bb_state (bs ! i) \<noteq> CS_error then bb_core (bs ! i) else c) c is, s')
      \<and> marked E (hits bs a is \<union> (\<Union>x \<in> children bs a is. leaving_at bs x)) (\<Union>x \<in> children bs a is. leaving_cores bs x) s s'"
  using rec
proof (induction "is" arbitrary: s J c)
  case Nil
  then show ?case
    by (simp add: hits_def children_def marked_refl)
next
  case (Cons i "is")
  let ?b = "bs ! i" and ?hit = "bb_global_id (bs ! i) = a" and ?kid = "bb_parent (bs ! i) = a \<and> bb_state (bs ! i) \<noteq> CS_error"
  let ?set = "set_broker E i (\<lambda>b. b\<lparr> bb_state := CS_disconnected \<rparr>)"
  have i: "i < length bs" "brokers_of E s ! i = mark_at J bs ! i" "i < length (brokers_of E s)"
    using Cons.prems(1,2) by auto
  define s1 where "s1 = (if ?hit \<and> bb_state ?b \<noteq> CS_error then ?set s else s)"
  have m1: "marked E (if ?hit then {i} else {}) {} s s1"
    using i marked_set [OF laws i(3)] marked_in_error [of E s i]
    by (auto simp: s1_def marked_refl mark_at_keeps)
  obtain K where K: "brokers_of E s1 = mark_at K bs"
    using m1 Cons.prems(2) by (simp add: marked_def mark_at_union)
  have kids: "marks E bs rec (children bs a is)"
    using Cons.prems(3) by (rule marks_mono) (auto simp: children_def)
  have "\<exists>s2. (if ?kid then rec (bb_global_id ?b) (?set s1) else Some s1) = Some s2
     \<and> marked E (if ?kid then leaving_at bs (bb_global_id ?b) else {}) (if ?kid then leaving_cores bs (bb_global_id ?b) else {}) s1 s2"
  proof (cases ?kid)
    case True
    then have m2: "marked E {i} {} s1 (?set s1)"
      using K i(1) by (intro marked_set [OF laws]) (simp_all add: mark_at_keeps)
    then have "brokers_of E (?set s1) = mark_at (K \<union> {i}) bs"
      using K by (simp add: marked_def mark_at_union)
    moreover have "bb_global_id ?b \<in> children bs a (i # is)"
      using True by (auto simp: children_def)
    ultimately obtain t where t: "rec (bb_global_id ?b) (?set s1) = Some t"
      "marked E (leaving_at bs (bb_global_id ?b)) (leaving_cores bs (bb_global_id ?b)) (?set s1) t"
      using Cons.prems(3) unfolding marks_def by blast
    moreover have "{i} \<union> leaving_at bs (bb_global_id ?b) = leaving_at bs (bb_global_id ?b)"
      using i(1) by (auto simp: leaving_at_def leaves_self)
    ultimately show ?thesis
      using True marked_trans [OF m2 t(2)] by simp
  next
    case False
    then show ?thesis
      using marked_refl [of E s1] by (simp only: if_False simp_thms option.inject)
  qed
  then obtain s2 where s2: "(if ?kid then rec (bb_global_id ?b) (?set s1) else Some s1) = Some s2"
    "marked E (if ?kid then leaving_at bs (bb_global_id ?b) else {}) (if ?kid then leaving_cores bs (bb_global_id ?b) else {}) s1 s2"
    by blast
  obtain L where L: "brokers_of E s2 = mark_at L bs"
    using s2(2) K by (simp add: marked_def mark_at_union)
  obtain s3 where s3: "mark_brokers E rec a is (if ?hit \<and> bb_state ?b \<noteq> CS_error then bb_core ?b else c) s2 =
        Some (foldl (\<lambda>c i. if bb_global_id (bs ! i) = a \<and> bb_state (bs ! i) \<noteq> CS_error then bb_core (bs ! i) else c)
          (if ?hit \<and> bb_state ?b \<noteq> CS_error then bb_core ?b else c) is, s3)"
    "marked E (hits bs a is \<union> (\<Union>x \<in> children bs a is. leaving_at bs x)) (\<Union>x \<in> children bs a is. leaving_cores bs x) s2 s3"
    using Cons.IH [OF _ L kids] Cons.prems(1) by auto
  have "mark_brokers E rec a (i # is) c s = mark_brokers E rec a is (if ?hit \<and> bb_state ?b \<noteq> CS_error then bb_core ?b else c) s2"
    using s2(1) i by (auto simp: Let_def s1_def mark_at_keeps split: if_splits)
  moreover have "hits bs a (i # is) = (if ?hit then {i} else {}) \<union> hits bs a is"
    "children bs a (i # is) = (if ?kid then {bb_global_id ?b} else {}) \<union> children bs a is"
    by (auto simp: hits_def children_def)
  ultimately show ?case
    using s3(1) marked_trans [OF marked_trans [OF m1 s2(2)] s3(2)]
    by (auto simp: Un_ac split: if_splits)
qed

lemma leaves_unfold:
  "leaves bs a x \<longleftrightarrow> x = a \<or> (\<exists>c \<in> children bs a [0..<length bs]. leaves bs c x)"
proof
  assume "leaves bs a x"
  then show "x = a \<or> (\<exists>c \<in> children bs a [0..<length bs]. leaves bs c x)"
    by cases (auto simp: children_def in_set_conv_nth)
next
  assume "x = a \<or> (\<exists>c \<in> children bs a [0..<length bs]. leaves bs c x)"
  then show "leaves bs a x"
    using leaves_child [OF nth_mem, of _ bs a x] by (auto simp: children_def leaves_self)
qed

lemma leaving_unfold:
  "leaving_at bs a = hits bs a [0..<length bs] \<union> (\<Union>c \<in> children bs a [0..<length bs]. leaving_at bs c)"
  "leaving_cores bs a = (\<Union>c \<in> children bs a [0..<length bs]. leaving_cores bs c) \<union> (if core_of bs a then {a} else {})"
  using leaves_unfold [of bs a] by (auto simp: leaving_at_def leaving_cores_def hits_def)

lemma core_of_index:
  "foldl (\<lambda>c i. if bb_global_id (bs ! i) = a \<and> bb_state (bs ! i) \<noteq> CS_error then bb_core (bs ! i) else c) False [0..<length bs]
    = core_of bs a"
  using foldl_map [of _ False "(!) bs" "[0..<length bs]"] by (simp add: core_of_def map_nth)

text \<open>A measure that decreases from the parents to their brokers: no broker is its own ancestor.\<close>

definition ranked :: "(global_broker_id \<Rightarrow> nat) \<Rightarrow> BasicBrokerInfo list \<Rightarrow> bool" where
  "ranked d bs \<longleftrightarrow> list_all (\<lambda>b. d (bb_global_id b) < d (bb_parent b)) bs"

lemma markAsDisconnected_spec:
  assumes laws: "mapped_laws (be_brokers E)" "mapped_laws (be_federates E)" and "ranked d bs"
  shows "brokers_of E s = mark_at J bs \<Longrightarrow> d a < n \<Longrightarrow>
    \<exists>s'. markAsDisconnected n E a s = Some s' \<and> marked E (leaving_at bs a) (leaving_cores bs a) s s'"
proof (induction n arbitrary: a s J)
  case (Suc n)
  let ?is = "[0..<length bs]"
  have less: "d x < n" if "x \<in> children bs a ?is" for x
    using that assms(3) Suc.prems(2) by (fastforce simp: children_def ranked_def list_all_length)
  have "marks E bs (markAsDisconnected n E) (children bs a ?is)"
    unfolding marks_def using Suc.IH less by blast
  from mark_brokers_spec [OF laws(1) this, of s J False] obtain s1 where s1: "mark_brokers E (markAsDisconnected n E) a ?is False s = Some (core_of bs a, s1)"
    "marked E (hits bs a ?is \<union> (\<Union>x \<in> children bs a ?is. leaving_at bs x)) (\<Union>x \<in> children bs a ?is. leaving_cores bs x) s s1"
    using Suc.prems(1) by (auto simp: core_of_index lessThan_atLeast0)
  have "marked E {} {a} s1 (mark_federates E a s1)"
    by (simp add: marked_def mark_federates_def mv_map_spec [OF laws(2)] mark_feds_def)
  then have "marked E {} (if core_of bs a then {a} else {}) s1 (if core_of bs a then mark_federates E a s1 else s1)"
    by (simp add: marked_refl)
  from marked_trans [OF s1(2) this] show ?case
    using s1(1) Suc.prems(1) by (simp add: leaving_unfold(1) [of bs a] leaving_unfold(2) [of bs a] mv_size_def)
qed simp

lemma all_disconnected_iff:
  "CS_disconnected \<le> getAllConnectionState E s \<longleftrightarrow> (\<exists>b\<in>set (brokers_of E s). \<not> bb_nonLocal b)
     \<and> (\<forall>b\<in>set (brokers_of E s). \<not> bb_nonLocal b \<longrightarrow> CS_disconnected \<le> bb_state b)"
proof -
  have "\<not> CS_disconnected \<le> CS_connected"
    by (simp add: state_order)
  then show ?thesis
    by (auto simp: getAllConnectionState_def fold_min_state Let_def filter_empty_conv)
qed

lemma disconnectBroker_spec:
  assumes laws: "mapped_laws (be_brokers E)" "mapped_laws (be_federates E)" and "ranked d (brokers_of E s)"
    and "d (bb_global_id (brokers_of E s ! i)) < n"
  defines "a \<equiv> bb_global_id (brokers_of E s ! i)"
  shows "\<exists>s'. disconnectBroker n E i s = Some s' \<and> brokers_of E s' = mark_at (leaving_at (brokers_of E s) a) (brokers_of E s)
    \<and> federates_of E s' = mark_feds (leaving_cores (brokers_of E s) a) (federates_of E s)
    \<and> isRootc s' = isRootc s \<and> cb_local_id s' = cb_local_id s"
proof -
  have "brokers_of E s = mark_at {} (brokers_of E s)"
    by simp
  from markAsDisconnected_spec [OF laws assms(3) this, of a n] assms(4) obtain s1 where
    "markAsDisconnected n E a s = Some s1" and m: "marked E (leaving_at (brokers_of E s) a) (leaving_cores (brokers_of E s) a) s s1"
    by (auto simp: a_def)
  moreover have "isRootc s1 = isRootc s" "cb_local_id s1 = cb_local_id s"
    using m by (simp_all add: marked_rest)
  ultimately show ?thesis
    by (simp add: disconnectBroker_def a_def [symmetric] marked_def broadcast_eq Let_def)
qed

lemma put_forwarding_simps [simp]:
  "cb_brokers (put_forwarding tc s) = cb_brokers s" "cb_federates (put_forwarding tc s) = cb_federates s"
  "isRootc (put_forwarding tc s) = isRootc s" "cb_unknowns (put_forwarding tc s) = cb_unknowns s" "me (put_forwarding tc s) = me s"
  by (simp_all add: put_forwarding_def me_def)

lemma acknowledge_spec:
  assumes "mapped_laws (be_brokers E)"
  shows "brokers_of E (acknowledge E cmd i None s) = (brokers_of E s)[i := (brokers_of E s ! i)\<lparr> bb_sent_disconnect_ack := True \<rparr>]"
    and "cb_federates (acknowledge E cmd i None s) = cb_federates s" "cb_unknowns (acknowledge E cmd i None s) = cb_unknowns s"
    and "last (cb_events (acknowledge E cmd i None s)) = Remove_Route (bb_route (brokers_of E s ! i))"
    and "\<not> checkActionFlag (flags cmd) error_flag \<Longrightarrow>
      Transmit (bb_route (brokers_of E s ! i)) (disconnect_ack E (brokers_of E s ! i) s) \<in> set (cb_events (acknowledge E cmd i None s))"
  by (simp_all add: acknowledge_def Let_def set_broker_def mv_write_spec [OF assms] event_def)

lemma processCommand_disconnect:
  "messageAction cmd = cmd_disconnect \<Longrightarrow> dest_id cmd = parent_fed \<Longrightarrow> me s \<noteq> parent_fed \<Longrightarrow> isRootc s \<Longrightarrow>
    getBrokerById E (broker_of_fed (source_id cmd)) s = Some i \<Longrightarrow> processCommand n now E cmd s = sender_left n E cmd (Some i) s"
  by (simp add: processCommand_def processDisconnect_def cmd_defs CMD_BROKER_PING_def)

text \<open>C11: a broker or core that is connected to the root directly takes its subtree with it. Its
  disconnect returns; then exactly the brokers below it that are not in error, and the federates of
  the cores among them, are recorded as disconnected, the sender is acknowledged unless it left with
  an error, and the root stops exactly when every directly connected broker is disconnected.\<close>

theorem broker_departure:
  fixes E :: "('t::linorder, 'b, 'f) broker_env"
  assumes "mapped_laws (be_brokers E)" and "mapped_laws (be_federates E)" and "isRootc s" and "me s \<noteq> parent_fed"
    and "messageAction cmd = cmd_disconnect" and "dest_id cmd = parent_fed"
    and "getBrokerById E (broker_of_fed (source_id cmd)) s = Some i" and "i < length (brokers_of E s)"
    and "\<not> bb_nonLocal (brokers_of E s ! i)"
    and "ranked d (brokers_of E s)" and "d (bb_global_id (brokers_of E s ! i)) < n"
  defines "b \<equiv> brokers_of E s ! i"
  defines "left \<equiv> mark_at (leaving_at (brokers_of E s) (bb_global_id b)) (brokers_of E s)"
  shows "\<exists>s'. processCommand n now E cmd s = Some s'
    \<and> brokers_of E s' = left[i := (left ! i)\<lparr> bb_sent_disconnect_ack := True \<rparr>]
    \<and> federates_of E s' = mark_feds (leaving_cores (brokers_of E s) (bb_global_id b)) (federates_of E s)
    \<and> (\<not> checkActionFlag (flags cmd) error_flag \<longrightarrow>
         Transmit (bb_route b) (disconnect_ack E b s) \<in> set (cb_events s'))
    \<and> (last (cb_events s') = Queue_Message (mk_message (be_time E) cmd_stop)
       \<longleftrightarrow> (\<forall>k\<in>set left. \<not> bb_nonLocal k \<longrightarrow> CS_disconnected \<le> bb_state k))"
proof -
  obtain s1 where s1: "disconnectBroker n E i s = Some s1" "brokers_of E s1 = left" "isRootc s1" "me s1 = me s"
    "federates_of E s1 = mark_feds (leaving_cores (brokers_of E s) (bb_global_id b)) (federates_of E s)"
    using disconnectBroker_spec [OF assms(1,2,10,11)] assms(3) by (auto simp: left_def b_def me_def)
  have li: "left ! i \<in> set left" "\<not> bb_nonLocal (left ! i)" "bb_route (left ! i) = bb_route b"
    using assms(8,9) by (simp_all add: left_def mark_at_keeps, simp add: mark_at_nth b_def)
  have ack: "disconnect_ack E (left ! i) t = disconnect_ack E b s" if "me t = me s" for t
    using that assms(8) by (simp add: disconnect_ack_def left_def mark_at_keeps b_def)
  define all where "all \<longleftrightarrow> (\<forall>k\<in>set left. \<not> bb_nonLocal k \<longrightarrow> CS_disconnected \<le> bb_state k)"
  have all: "CS_disconnected \<le> getAllConnectionState E s1 \<longleftrightarrow> all"
    using li by (auto simp: all_disconnected_iff s1(2) all_def)
  note step = processCommand_disconnect [OF assms(5,6,4,3,7), of n now]
  let ?t = "put_forwarding (ft_disconnect (be_time E) (be_le E) (cb_timeCoord s1)) s1"
  have "processCommand n now E cmd s = Some (if all then addActionMessage (mk_message (be_time E) cmd_stop) (acknowledge E cmd i None ?t)
      else acknowledge E cmd i None s1)"
    using s1 li by (simp add: step sender_left_def Let_def all)
  moreover have "Transmit (bb_route b) (disconnect_ack E b s) \<in> set (cb_events (acknowledge E cmd i None t))"
    if "me t = me s" "brokers_of E t = left" "\<not> checkActionFlag (flags cmd) error_flag" for t
    using acknowledge_spec(5) [OF assms(1) that(3), where i = i and s = t] that li(3) ack by simp
  ultimately show ?thesis
    using s1 acknowledge_spec(1,2,4) [OF assms(1), where cmd = cmd and i = i] unfolding all_def [symmetric] by (cases all) simp_all
qed

text \<open>A root with a core, a broker, and a core below that broker, which leaves.\<close>

definition tree_brokers :: "BasicBrokerInfo list" where
  "tree_brokers = [first_core\<lparr> bb_parent := Global_Broker_Id 1 \<rparr>,
     (mk_BasicBrokerInfo ''broker'')\<lparr> bb_global_id := Global_Broker_Id 0x70000001, bb_parent := Global_Broker_Id 1, bb_route := Route_Id 2 \<rparr>,
     (mk_BasicBrokerInfo ''far'')\<lparr> bb_global_id := Global_Broker_Id 0x70000002, bb_parent := Global_Broker_Id 0x70000001,
       bb_nonLocal := True, bb_core := True \<rparr>]"

definition tree_root :: "(ticks, (BasicBrokerInfo, global_broker_id) listed, (BasicFedInfo, global_federate_id) listed) CoreBroker" where
  "tree_root = joined_root\<lparr> cb_brokers := \<lparr> li_elems = tree_brokers, li_names = Map.empty, li_keys = Map.empty \<rparr>,
     cb_unknowns := addUnknownPublication ''volts'' (Global_Handle (Global_Federate_Id 0x20000) (Interface_Handle 5)) 0 UnknownHandleManager_empty \<rparr>"

definition broker_leaves :: "ticks ActionMessage" where
  "broker_leaves = (mk_message tick_rep cmd_disconnect)\<lparr> source_id := Global_Federate_Id 0x70000001, dest_id := parent_fed \<rparr>"

definition tree_rank :: "global_broker_id \<Rightarrow> nat" where
  "tree_rank b = (if b = Global_Broker_Id 1 then 2 else if b = Global_Broker_Id 0x70000001 then 1 else 0)"

lemma tree_simps:
  "isRootc tree_root" "me tree_root \<noteq> parent_fed" "mv_elems listed_vector (cb_brokers tree_root) = tree_brokers"
  "length tree_brokers = 3"
  "bb_global_id (tree_brokers ! 1) = Global_Broker_Id 0x70000001" "ranked tree_rank tree_brokers"
  "tree_rank (Global_Broker_Id 0x70000001) = 1" "\<not> bb_nonLocal (tree_brokers ! 1)"
  by (simp_all add: tree_root_def tree_brokers_def joined_root_def CoreBroker_default_def listed_vector_def me_def fed_of_broker_def
      mk_BasicBrokerInfo_def ranked_def tree_rank_def first_core_def parent_broker_id_def)

lemma broker_leaves_simps:
  "messageAction broker_leaves = cmd_disconnect" "dest_id broker_leaves = parent_fed"
  "getBrokerById tick_env (broker_of_fed (source_id broker_leaves)) tree_root = Some 1"
  by (simp_all add: broker_leaves_def mk_message_def getBrokerById_def tree_simps isValidIndex_def broker_localIndex_def
      global_broker_id_shift_def broker_of_fed_def)

lemma tree_leaves: "leaving_at tree_brokers (Global_Broker_Id 0x70000001) = {1, 2}"
proof -
  have c: "children bs a is = set (map (\<lambda>i. bb_global_id (bs ! i))
      (filter (\<lambda>i. bb_parent (bs ! i) = a \<and> bb_state (bs ! i) \<noteq> CS_error) is))" for bs a "is"
    by (auto simp: children_def)
  have u: "[0..<3] = [0, 1, 2 :: nat]"
    by (simp add: upt_rec)
  have "children tree_brokers (Global_Broker_Id 0x70000001) [0..<3] = {Global_Broker_Id 0x70000002}"
    "children tree_brokers (Global_Broker_Id 0x70000002) [0..<3] = {}"
    unfolding c u by (simp_all add: tree_brokers_def first_core_def mk_BasicBrokerInfo_def)
  then have l: "leaves tree_brokers (Global_Broker_Id 0x70000001) x \<longleftrightarrow> x = Global_Broker_Id 0x70000001 \<or> x = Global_Broker_Id 0x70000002" for x
    using leaves_unfold [of tree_brokers "Global_Broker_Id 0x70000001" x] leaves_unfold [of tree_brokers "Global_Broker_Id 0x70000002" x]
    by (simp add: tree_simps)
  have f: "leaving_at bs a = set (filter (\<lambda>i. leaves bs a (bb_global_id (bs ! i))) [0..<length bs])" for bs a
    by (auto simp: leaving_at_def)
  show ?thesis
    unfolding f l tree_simps(4) u by (simp add: tree_brokers_def first_core_def mk_BasicBrokerInfo_def)
qed

theorem broker_departure_witness:
  "\<exists>s'. processCommand 2 0 tick_env broker_leaves tree_root = Some s'
    \<and> map bb_state (brokers_of tick_env s') = [CS_connected, CS_disconnected, CS_disconnected]"
proof -
  have h: "mapped_laws (be_brokers tick_env)" "mapped_laws (be_federates tick_env)" "isRootc tree_root" "me tree_root \<noteq> parent_fed"
    "messageAction broker_leaves = cmd_disconnect" "dest_id broker_leaves = parent_fed"
    "getBrokerById tick_env (broker_of_fed (source_id broker_leaves)) tree_root = Some 1" "1 < length (brokers_of tick_env tree_root)"
    "\<not> bb_nonLocal (brokers_of tick_env tree_root ! 1)" "ranked tree_rank (brokers_of tick_env tree_root)"
    "tree_rank (bb_global_id (brokers_of tick_env tree_root ! 1)) < 2"
    using listed_laws broker_leaves_simps by (simp_all add: tree_simps del: One_nat_def)
  obtain s' where s': "processCommand 2 0 tick_env broker_leaves tree_root = Some s'"
    "brokers_of tick_env s' = (mark_at {1, 2} tree_brokers)[1 := (mark_at {1, 2} tree_brokers ! 1)\<lparr> bb_sent_disconnect_ack := True \<rparr>]"
    using broker_departure [OF h, of 0] by (auto simp: tree_simps tree_leaves simp del: One_nat_def)
  have "map bb_state ((mark_at {1, 2} tree_brokers)[1 := (mark_at {1, 2} tree_brokers ! 1)\<lparr> bb_sent_disconnect_ack := True \<rparr>])
      = [CS_connected, CS_disconnected, CS_disconnected]"
    by (simp add: mark_at_def tree_brokers_def mark_broker_def first_core_def mk_BasicBrokerInfo_def upt_rec)
  then show ?thesis
    using s' by simp
qed

text \<open>What is unknown was asked for by federates; the identifiers of brokers are not those of federates.\<close>

definition from_federates :: "UnknownHandleManager \<Rightarrow> bool" where
  "from_federates u \<longleftrightarrow> list_all (\<lambda>e. fed_isFederate (fed_id (fst (snd e))))
     (unknown_publications u @ unknown_endpoints u @ unknown_filters u @ unknown_inputs u)"

lemma clear_broker_unknowns: "from_federates u \<Longrightarrow> \<not> fed_isFederate f \<Longrightarrow> clearFederateUnknowns f u = u"
  by (auto simp: from_federates_def clearFederateUnknowns_def erase_federate_filter list_all_iff filter_id_conv
      intro!: UnknownHandleManager.equality)

lemma clear_brokers_unknowns:
  "from_federates u \<Longrightarrow> list_all (\<lambda>f. \<not> fed_isFederate f) fs \<Longrightarrow> foldl (\<lambda>u f. clearFederateUnknowns f u) u fs = u"
  by (induction fs) (auto simp: clear_broker_unknowns)

lemma disconnectBroker_unknowns:
  assumes laws: "mapped_laws (be_brokers E)" "mapped_laws (be_federates E)" and "ranked d (brokers_of E s)"
    and "d (bb_global_id (brokers_of E s ! i)) < n" and "i < length (brokers_of E s)" and "from_federates (cb_unknowns s)"
    and "list_all (\<lambda>b. \<not> fed_isFederate (fed_of_broker (bb_global_id b))) (brokers_of E s)"
    and "disconnectBroker n E i s = Some s'"
  shows "cb_unknowns s' = cb_unknowns s"
proof -
  let ?a = "bb_global_id (brokers_of E s ! i)"
  have "brokers_of E s = mark_at {} (brokers_of E s)"
    by simp
  from markAsDisconnected_spec [OF laws assms(3) this, of ?a n] assms(4) obtain s1 where
    s1: "markAsDisconnected n E ?a s = Some s1" "marked E (leaving_at (brokers_of E s) ?a) (leaving_cores (brokers_of E s) ?a) s s1"
    by auto
  have "\<not> fed_isFederate (fed_of_broker (bb_global_id b))" if "b \<in> set (brokers_of E s1)" for b
    using that s1(2) assms(7) by (auto simp: marked_def in_set_conv_nth mark_at_keeps list_all_length)
  moreover have "\<not> fed_isFederate (fed_of_broker ?a)"
    using assms(5,7) by (simp add: list_all_length)
  ultimately have "clearFederateUnknowns (fed_of_broker ?a) (cb_unknowns s) = cb_unknowns s"
    "set ks \<subseteq> set (brokers_of E s1) \<Longrightarrow>
      foldl (\<lambda>u f. clearFederateUnknowns f u) (cb_unknowns s) (map (\<lambda>k. fed_of_broker (bb_global_id k)) ks) = cb_unknowns s" for ks
    using assms(6) by (auto simp: list_all_iff subset_iff intro!: clear_brokers_unknowns clear_broker_unknowns)
  then show ?thesis
    using assms(8) marked_rest(3) [OF s1(2)] by (auto simp: disconnectBroker_def s1(1) broadcast_eq Let_def split: if_splits)
qed

text \<open>C38: the open requests of a federate stay when its core leaves before the start. Whatever requests
  for interfaces federates have left open at the root, none of them is taken back by the disconnect
  of a core or broker: the root clears the requests of the federate that has the identifier of the
  broker, and there is none.\<close>

theorem departure_keeps_unknowns:
  fixes E :: "('t::linorder, 'b, 'f) broker_env"
  assumes "mapped_laws (be_brokers E)" and "mapped_laws (be_federates E)" and "isRootc s" and "me s \<noteq> parent_fed"
    and "messageAction cmd = cmd_disconnect" and "dest_id cmd = parent_fed"
    and "getBrokerById E (broker_of_fed (source_id cmd)) s = Some i" and "i < length (brokers_of E s)"
    and "ranked d (brokers_of E s)" and "d (bb_global_id (brokers_of E s ! i)) < n"
    and "from_federates (cb_unknowns s)"
    and "list_all (\<lambda>b. \<not> fed_isFederate (fed_of_broker (bb_global_id b))) (brokers_of E s)"
  shows "\<exists>s'. processCommand n now E cmd s = Some s' \<and> cb_unknowns s' = cb_unknowns s"
proof -
  obtain s1 where s1: "disconnectBroker n E i s = Some s1" "isRootc s1"
    using disconnectBroker_spec [OF assms(1,2,9,10)] assms(3) by auto
  have "cb_unknowns s1 = cb_unknowns s"
    by (rule disconnectBroker_unknowns [OF assms(1,2,9,10,8,11,12) s1(1)])
  then show ?thesis
    using s1 acknowledge_spec(3) [OF assms(1)]
    by (simp add: processCommand_disconnect [OF assms(5,6,4,3,7)] sender_left_def Let_def)
qed

theorem departure_keeps_unknowns_witness:
  "\<exists>s'. processCommand 2 0 tick_env broker_leaves tree_root = Some s' \<and> hasUnknowns (cb_unknowns s')"
proof -
  have u: "unknown_publications (cb_unknowns tree_root) = [(''volts'', Global_Handle (Global_Federate_Id 0x20000) (Interface_Handle 5), 0)]"
    "unknown_endpoints (cb_unknowns tree_root) = []" "unknown_filters (cb_unknowns tree_root) = []"
    "unknown_inputs (cb_unknowns tree_root) = []"
    by (simp_all add: tree_root_def addUnknownPublication_def UnknownHandleManager_empty_def)
  have h: "mapped_laws (be_brokers tick_env)" "mapped_laws (be_federates tick_env)" "isRootc tree_root" "me tree_root \<noteq> parent_fed"
    "messageAction broker_leaves = cmd_disconnect" "dest_id broker_leaves = parent_fed"
    "getBrokerById tick_env (broker_of_fed (source_id broker_leaves)) tree_root = Some 1" "1 < length (brokers_of tick_env tree_root)"
    "ranked tree_rank (brokers_of tick_env tree_root)"
    "tree_rank (bb_global_id (brokers_of tick_env tree_root ! 1)) < 2" "from_federates (cb_unknowns tree_root)"
    using listed_laws broker_leaves_simps
    by (simp_all add: tree_simps del: One_nat_def, simp add: from_federates_def u fed_isFederate_def
        global_broker_id_shift_def global_federate_id_shift_def)
  moreover have "list_all (\<lambda>b. \<not> fed_isFederate (fed_of_broker (bb_global_id b))) (brokers_of tick_env tree_root)"
    by (simp add: tree_simps, simp add: tree_brokers_def first_core_def mk_BasicBrokerInfo_def fed_of_broker_def fed_isFederate_def
        global_broker_id_shift_def)
  ultimately show ?thesis
    using departure_keeps_unknowns [of tick_env tree_root broker_leaves 1 tree_rank 2 0] by (auto simp: hasUnknowns_def u)
qed

end
