(* ===== verification/Broker_Supervision.thy ===== *)
theory Broker_Supervision
  imports Broker_Init
begin

text \<open>
  The pings of the root and what becomes of them.
\<close>

section \<open>Supervision\<close>

text \<open>The records of the connections after a broker has been pinged.\<close>

definition pinged :: "int \<Rightarrow> BasicBrokerInfo \<Rightarrow> linkConnection list \<Rightarrow> linkConnection list" where
  "pinged now k cs =
     (let fed = fed_of_broker (bb_global_id k); i = conn_index fed cs;
          cs1 = (if i = length cs
                 then cs @ [linkConnection_default\<lparr> lc_connection := fed, lc_disablePing := bb_disable_ping k \<rparr>] else cs)
      in if bb_state k < CS_error
         then if lc_disablePing (cs1 ! i) then cs1
              else cs1[i := (cs1 ! i)\<lparr> lc_activeConnection := True, lc_waitingForPingReply := True, lc_lastPing := now \<rparr>]
         else cs1[i := (cs1 ! i)\<lparr> lc_activeConnection := False \<rparr>])"

lemma ping_broker_spec:
  fixes E :: "('t::linorder, 'b, 'f) broker_env" and s :: "('t, 'b, 'f) CoreBroker" and now :: int and p :: bool and k :: BasicBrokerInfo
  defines "s' \<equiv> snd (ping_broker E now (p, s) k)"
  shows "tm_connections (timeoutMon s') = pinged now k (tm_connections (timeoutMon s))"
    and "tm_timeout (timeoutMon s') = tm_timeout (timeoutMon s)" and "tm_parentConnection (timeoutMon s') = tm_parentConnection (timeoutMon s)"
    and "set (cb_events s) \<subseteq> set (cb_events s')" and "isRoot s' = isRoot s" and "cb_local_id s' = cb_local_id s"
  unfolding s'_def by (auto simp: ping_broker_def pinged_def Let_def set_monitor_def event_def)

text \<open>A connection that waits for the answer to a ping sent at a time.\<close>

definition awaited :: "global_federate_id \<Rightarrow> int \<Rightarrow> linkConnection list \<Rightarrow> bool" where
  "awaited fed now cs \<longleftrightarrow> list_ex (\<lambda>c. lc_connection c = fed \<and> lc_waitingForPingReply c \<and> lc_lastPing c = now) cs"

definition pingable :: "global_federate_id \<Rightarrow> linkConnection list \<Rightarrow> bool" where
  "pingable fed cs \<longleftrightarrow> list_all (\<lambda>c. lc_connection c = fed \<longrightarrow> \<not> lc_disablePing c) cs"

lemma conn_index_spec: "conn_index fed cs \<le> length cs" "conn_index fed cs < length cs \<Longrightarrow> lc_connection (cs ! conn_index fed cs) = fed"
  using nth_length_takeWhile [of "\<lambda>c. lc_connection c \<noteq> fed" cs] by (auto simp: conn_index_def length_takeWhile_le)

lemma list_ex_update: "list_ex P xs \<Longrightarrow> (P (xs ! i) \<Longrightarrow> P y) \<Longrightarrow> list_ex P (xs[i := y])"
  by (cases "i < length xs") (auto simp: list_ex_length nth_list_update, metis)

lemma list_all_update: "list_all P xs \<Longrightarrow> (i < length xs \<Longrightarrow> P (xs ! i) \<Longrightarrow> P y) \<Longrightarrow> list_all P (xs[i := y])"
  by (cases "i < length xs") (auto simp: list_all_length nth_list_update)

lemma pinged_awaited: "awaited fed now cs \<Longrightarrow> awaited fed now (pinged now k cs)"
  by (auto simp: awaited_def pinged_def Let_def list_ex_append intro!: list_ex_update)

lemma pinged_pingable:
  "pingable fed cs \<Longrightarrow> (fed_of_broker (bb_global_id k) = fed \<Longrightarrow> \<not> bb_disable_ping k) \<Longrightarrow> pingable fed (pinged now k cs)"
  by (auto simp: pingable_def pinged_def Let_def intro!: list_all_update)

lemma pinged_self:
  assumes "pingable (fed_of_broker (bb_global_id k)) cs" "\<not> bb_disable_ping k" "bb_state k < CS_error"
  shows "awaited (fed_of_broker (bb_global_id k)) now (pinged now k cs)"
proof -
  let ?f = "fed_of_broker (bb_global_id k)" and ?i = "conn_index (fed_of_broker (bb_global_id k)) cs"
  define cs1 where "cs1 = (if ?i = length cs then cs @ [linkConnection_default\<lparr> lc_connection := ?f, lc_disablePing := bb_disable_ping k \<rparr>] else cs)"
  have "?i < length cs1" "lc_connection (cs1 ! ?i) = ?f" "\<not> lc_disablePing (cs1 ! ?i)"
    using conn_index_spec [of ?f cs] assms(1,2) by (auto simp: cs1_def pingable_def list_all_length)
  then show ?thesis
    using assms(3) unfolding awaited_def pinged_def Let_def cs1_def [symmetric] by (auto simp: list_ex_length intro!: exI [of _ ?i])
qed

lemma ping_all_keeps:
  fixes E :: "('t::linorder, 'b, 'f) broker_env" and now :: int and ks :: "BasicBrokerInfo list" and ps :: "bool \<times> ('t, 'b, 'f) CoreBroker"
  defines "s' \<equiv> snd (foldl (ping_broker E now) ps ks)"
  shows "tm_timeout (timeoutMon s') = tm_timeout (timeoutMon (snd ps))" and "set (cb_events (snd ps)) \<subseteq> set (cb_events s')"
    and "isRoot s' = isRoot (snd ps)" and "cb_local_id s' = cb_local_id (snd ps)"
    and "awaited fed now (tm_connections (timeoutMon (snd ps))) \<Longrightarrow> awaited fed now (tm_connections (timeoutMon s'))"
    and "pingable fed (tm_connections (timeoutMon (snd ps))) \<Longrightarrow>
      list_all (\<lambda>k. fed_of_broker (bb_global_id k) = fed \<longrightarrow> \<not> bb_disable_ping k) ks \<Longrightarrow> pingable fed (tm_connections (timeoutMon s'))"
proof -
  have step: "tm_timeout (timeoutMon (snd (ping_broker E now q k))) = tm_timeout (timeoutMon (snd q))"
    "set (cb_events (snd q)) \<subseteq> set (cb_events (snd (ping_broker E now q k)))" "isRoot (snd (ping_broker E now q k)) = isRoot (snd q)"
    "cb_local_id (snd (ping_broker E now q k)) = cb_local_id (snd q)"
    "tm_connections (timeoutMon (snd (ping_broker E now q k))) = pinged now k (tm_connections (timeoutMon (snd q)))" for q k
    using ping_broker_spec [where E = E and now = now and p = "fst q" and s = "snd q" and k = k] by simp_all
  show "tm_timeout (timeoutMon s') = tm_timeout (timeoutMon (snd ps))" "isRoot s' = isRoot (snd ps)" "cb_local_id s' = cb_local_id (snd ps)"
    unfolding s'_def by (induction ks arbitrary: ps) (simp_all add: step)
  show "set (cb_events (snd ps)) \<subseteq> set (cb_events s')"
    unfolding s'_def
  proof (induction ks arbitrary: ps)
    case (Cons k ks)
    show ?case
      using subset_trans [OF step(2) Cons.IH] by simp
  qed simp
  show "awaited fed now (tm_connections (timeoutMon s'))" if "awaited fed now (tm_connections (timeoutMon (snd ps)))"
    using that unfolding s'_def by (induction ks arbitrary: ps) (simp_all add: step pinged_awaited)
  show "pingable fed (tm_connections (timeoutMon s'))" if "pingable fed (tm_connections (timeoutMon (snd ps)))"
      "list_all (\<lambda>k. fed_of_broker (bb_global_id k) = fed \<longrightarrow> \<not> bb_disable_ping k) ks"
    using that unfolding s'_def by (induction ks arbitrary: ps) (simp_all add: step pinged_pingable)
qed

definition broker_ping ::
  "('t::linorder, 'b, 'f) broker_env \<Rightarrow> BasicBrokerInfo \<Rightarrow> ('t, 'b, 'f) CoreBroker \<Rightarrow> 't ActionMessage" where
  "broker_ping E b s = (mk_message (be_time E) CMD_BROKER_PING)
     \<lparr> source_id := me s, dest_id := fed_of_broker (bb_global_id b) \<rparr>"

lemma ping_broker_sends:
  assumes "pingable (fed_of_broker (bb_global_id b)) (tm_connections (timeoutMon (snd q)))" "\<not> bb_disable_ping b"
    "bb_state b < CS_error" "\<not> bb_core b"
  shows "Transmit (bb_route b) (broker_ping E b (snd q)) \<in> set (cb_events (snd (ping_broker E now q b)))"
    and "awaited (fed_of_broker (bb_global_id b)) now (tm_connections (timeoutMon (snd (ping_broker E now q b))))"
proof -
  let ?cs = "tm_connections (timeoutMon (snd q))" and ?f = "fed_of_broker (bb_global_id b)"
  show "awaited ?f now (tm_connections (timeoutMon (snd (ping_broker E now q b))))"
    using pinged_self [OF assms(1-3), of now] ping_broker_spec(1) [where E = E and now = now and p = "fst q" and s = "snd q" and k = b] by simp
  have "conn_index ?f ?cs = length ?cs \<or> \<not> lc_disablePing (?cs ! conn_index ?f ?cs)"
    using conn_index_spec [of ?f ?cs] assms(1) by (auto simp: pingable_def list_all_length)
  then show "Transmit (bb_route b) (broker_ping E b (snd q)) \<in> set (cb_events (snd (ping_broker E now q b)))"
    using assms by (auto simp: ping_broker_def Let_def event_def set_monitor_def broker_ping_def me_def split: prod.split)
qed

lemma pingSub_spec:
  assumes b: "b \<in> set (brokers_of E s)" "\<not> bb_core b" "bb_state b < CS_error"
    and "list_all (\<lambda>k. bb_global_id k = bb_global_id b \<longrightarrow> \<not> bb_disable_ping k) (brokers_of E s)"
    and "pingable (fed_of_broker (bb_global_id b)) (tm_connections (timeoutMon s))"
  shows "Transmit (bb_route b) (broker_ping E b s) \<in> set (cb_events (pingSub E now s))"
    and "awaited (fed_of_broker (bb_global_id b)) now (tm_connections (timeoutMon (pingSub E now s)))"
    and "isRoot (pingSub E now s) = isRoot s" "me (pingSub E now s) = me s"
    and "tm_timeout (timeoutMon (pingSub E now s)) = tm_timeout (timeoutMon s)"
proof -
  let ?f = "fed_of_broker (bb_global_id b)"
  obtain xs ys where ks: "brokers_of E s = xs @ b # ys"
    using split_list [OF b(1)] by blast
  have inj: "fed_of_broker x = fed_of_broker y \<longleftrightarrow> x = y" for x y
    by (cases x; cases y) (simp add: fed_of_broker_def)
  let ?q = "foldl (ping_broker E now) (False, s) xs" and ?r = "foldl (ping_broker E now) (False, s) (brokers_of E s)"
  have q: "pingable ?f (tm_connections (timeoutMon (snd ?q)))" "cb_local_id (snd ?q) = cb_local_id s"
    using ping_all_keeps(6) [where fed = ?f and ps = "(False, s)" and ks = xs and E = E and now = now]
      ping_all_keeps(4) [where ps = "(False, s)" and ks = xs and E = E and now = now] assms(4,5)
    by (simp_all add: ks inj)
  have "\<not> bb_disable_ping b"
    using assms(4) by (simp add: ks)
  note sends = ping_broker_sends [OF q(1) this b(3,2), where E = E and now = now]
  have r: "?r = foldl (ping_broker E now) (ping_broker E now ?q b) ys"
    by (simp add: ks)
  have sent: "Transmit (bb_route b) (broker_ping E b s) \<in> set (cb_events (snd ?r))"
    using sends(1) ping_all_keeps(2) [where ps = "ping_broker E now ?q b" and ks = ys and E = E and now = now] q(2) by (auto simp: r broker_ping_def me_def)
  have wait: "awaited ?f now (tm_connections (timeoutMon (snd ?r)))"
    using ping_all_keeps(5) [where fed = ?f and ps = "ping_broker E now ?q b" and ks = ys and E = E and now = now] sends(2) by (simp add: r)
  have p: "pingSub E now s = snd ?r \<or> (\<exists>m. pingSub E now s = addActionMessage m (snd ?r))"
    by (auto simp: pingSub_def Let_def split: prod.split)
  note rest = ping_all_keeps [where E = E and now = now and ps = "(False, s)" and ks = "brokers_of E s", simplified]
  show "Transmit (bb_route b) (broker_ping E b s) \<in> set (cb_events (pingSub E now s))"
    "awaited ?f now (tm_connections (timeoutMon (pingSub E now s)))"
    "isRoot (pingSub E now s) = isRoot s" "me (pingSub E now s) = me s"
    "tm_timeout (timeoutMon (pingSub E now s)) = tm_timeout (timeoutMon s)"
    using p sent wait rest(1,3,4) by (auto simp: event_def me_def)
qed

lemma tick_pings:
  assumes "isRoot s" "\<not> lc_waitingForPingReply (tm_parentConnection (timeoutMon s))"
    "\<not> list_ex lc_waitingForPingReply (tm_connections (timeoutMon s))"
  shows "tick E now s = pingSub E now s"
proof -
  have "foldl (tick_connection E now) s cs = s" if "\<not> list_ex lc_waitingForPingReply cs" for cs
    using that by (induction cs) (simp_all add: tick_connection_def Let_def)
  then show ?thesis
    using assms by (simp add: tick_def tick_parent_def Let_def)
qed

lemma tick_awaited:
  assumes "isRoot s" "awaited fed sent (tm_connections (timeoutMon s))"
  shows "Queue_Message (if tm_timeout (timeoutMon s) < now - sent then mk_message_to (be_time E) cmd_connection_error fed (me s)
     else mk_message_to (be_time E) cmd_ping (me s) fed) \<in> set (cb_events (tick E now s))"
proof -
  let ?e = "Queue_Message (if tm_timeout (timeoutMon s) < now - sent then mk_message_to (be_time E) cmd_connection_error fed (me s)
     else mk_message_to (be_time E) cmd_ping (me s) fed)"
  have step: "timeoutMon (tick_connection E now t c) = timeoutMon t \<and> me (tick_connection E now t c) = me t
      \<and> set (cb_events t) \<subseteq> set (cb_events (tick_connection E now t c))" for t c
    by (auto simp: tick_connection_def Let_def event_def me_def)
  have keep: "timeoutMon (foldl (tick_connection E now) t cs) = timeoutMon t \<and> me (foldl (tick_connection E now) t cs) = me t
      \<and> set (cb_events t) \<subseteq> set (cb_events (foldl (tick_connection E now) t cs))" for t cs
  proof (induction cs arbitrary: t)
    case (Cons c cs)
    then show ?case
      using step [of t c] Cons.IH [of "tick_connection E now t c"] by auto
  qed simp
  obtain c where c: "c \<in> set (tm_connections (timeoutMon s))" "lc_connection c = fed" "lc_waitingForPingReply c" "lc_lastPing c = sent"
    using assms(2) by (auto simp: awaited_def list_ex_iff)
  obtain xs ys where cs: "tm_connections (timeoutMon s) = xs @ c # ys"
    using split_list [OF c(1)] by blast
  let ?t = "foldl (tick_connection E now) s xs"
  have "?e \<in> set (cb_events (tick_connection E now ?t c))"
    using keep [of s xs] c by (simp add: tick_connection_def Let_def me_def event_def)
  then have "?e \<in> set (cb_events (foldl (tick_connection E now) s (tm_connections (timeoutMon s))))"
    using keep [of "tick_connection E now ?t c" ys] by (auto simp: cs)
  moreover have "list_ex lc_waitingForPingReply (tm_connections (timeoutMon s))"
    using c by (auto simp: list_ex_iff)
  ultimately show ?thesis
    using assms(1) by (simp add: tick_def tick_parent_def Let_def)
qed

lemma ping_is_setup:
  assumes "earlyMessages t = []" "messageAction m = CMD_BROKER_PING"
  shows "\<exists>t'. dispatch n now E m t = Some t' \<and> cb_events t' = cb_events t"
  using assms by (auto simp: dispatch_def isPriorityCommand_def processPriorityCommand_def CMD_BROKER_PING_def cmd_defs Let_def)

text \<open>C39: the ping a tick of the root sends to a broker is not answered. The tick pings every broker below
  the root that is no core, but the message is the broker's own set-up command: whatever its state,
  the broker sends nothing. The next tick reports the connection as lost when it is later than the
  timeout; a tick before that repeats the question with the ordinary ping.\<close>

theorem broker_ping_unanswered:
  fixes E :: "('t::linorder, 'b, 'f) broker_env"
  assumes "isRoot s" and "\<not> lc_waitingForPingReply (tm_parentConnection (timeoutMon s))"
    and "\<not> list_ex lc_waitingForPingReply (tm_connections (timeoutMon s))"
    and "b \<in> set (brokers_of E s)" and "\<not> bb_core b" and "bb_state b < CS_error"
    and "list_all (\<lambda>k. bb_global_id k = bb_global_id b \<longrightarrow> \<not> bb_disable_ping k) (brokers_of E s)"
    and "pingable (fed_of_broker (bb_global_id b)) (tm_connections (timeoutMon s))"
    and "earlyMessages t = []"
  shows "Transmit (bb_route b) (broker_ping E b s) \<in> set (cb_events (tick E now s))
    \<and> (\<exists>t'. dispatch n now' E (broker_ping E b s) t = Some t' \<and> cb_events t' = cb_events t)
    \<and> Queue_Message (if tm_timeout (timeoutMon s) < later - now
          then mk_message_to (be_time E) cmd_connection_error (fed_of_broker (bb_global_id b)) (me s)
          else mk_message_to (be_time E) cmd_ping (me s) (fed_of_broker (bb_global_id b)))
        \<in> set (cb_events (tick E later (tick E now s)))"
proof -
  note p = pingSub_spec [OF assms(4-8), of now]
  have "messageAction (broker_ping E b s) = CMD_BROKER_PING"
    by (simp add: broker_ping_def mk_message_def)
  note silent = ping_is_setup [OF assms(9) this, of n now' E]
  have "isRoot (pingSub E now s)"
    using p(3) assms(1) by simp
  from tick_awaited [OF this p(2), of later E] show ?thesis
    using p(1) silent unfolding tick_pings [OF assms(1-3)] p(4,5) by blast
qed

text \<open>A root that pings one broker with the timeout of one tick.\<close>

definition pinging_root :: "(ticks, (BasicBrokerInfo, global_broker_id) listed, (BasicFedInfo, global_federate_id) listed) CoreBroker" where
  "pinging_root = joined_root\<lparr> cb_brokers := \<lparr> li_elems = [first_core\<lparr> bb_core := False \<rparr>], li_names = Map.empty, li_keys = Map.empty \<rparr>,
     timeoutMon := \<lparr> tm_timeout = 1, tm_waitingForConnection = False, tm_startWaiting = 0,
       tm_parentConnection = linkConnection_default, tm_connections = [] \<rparr> \<rparr>"

theorem broker_ping_unanswered_witness:
  "Queue_Message (mk_message_to tick_rep cmd_connection_error (Global_Federate_Id 0x70000000) (Global_Federate_Id 1))
     \<in> set (cb_events (tick tick_env 5 (tick tick_env 0 pinging_root)))"
proof -
  let ?b = "first_core\<lparr> bb_core := False \<rparr>"
  have "isRoot pinging_root" "\<not> lc_waitingForPingReply (tm_parentConnection (timeoutMon pinging_root))"
    "\<not> list_ex lc_waitingForPingReply (tm_connections (timeoutMon pinging_root))" "?b \<in> set (brokers_of tick_env pinging_root)"
    "\<not> bb_core ?b" "bb_state ?b < CS_error"
    "list_all (\<lambda>k. bb_global_id k = bb_global_id ?b \<longrightarrow> \<not> bb_disable_ping k) (brokers_of tick_env pinging_root)"
    "pingable (fed_of_broker (bb_global_id ?b)) (tm_connections (timeoutMon pinging_root))"
    "earlyMessages pinging_root = []"
    by (simp_all add: pinging_root_def joined_root_def CoreBroker_default_def listed_vector_def linkConnection_default_def
        first_core_def mk_BasicBrokerInfo_def state_order pingable_def)
  note broker_ping_unanswered [OF this, of 0 1 0 5]
  moreover have "tm_timeout (timeoutMon pinging_root) < 5 - 0"
    by (simp add: pinging_root_def)
  moreover have "fed_of_broker (bb_global_id ?b) = Global_Federate_Id 0x70000000" "me pinging_root = Global_Federate_Id 1"
    by (simp_all add: first_core_def fed_of_broker_def pinging_root_def joined_root_def me_def)
  ultimately show ?thesis
    by simp
qed

end
