(* ===== verification/Core_State.thy ===== *)
theory Core_State
  imports Timeout_Monitor
begin

text \<open>
  The state of a core (\<open>CommonCore.hpp\<close>, with the members it has from \<open>BrokerBase.hpp\<close>): the federates
  it runs, the filters and their coordinators, its time coordinator, and how it sends: to the parent,
  to itself, to a federate of its own, along a route.

  Of a federate the core reads a few members; they are the record \<open>LocalFed\<close>, and what is put in a
  federate's queue is an event. The operator of a filter is code of the application and answers a
  message as a function of it. The federates and the filters are kept in vectors of an external library,
  as at a broker. Logging is not modelled.
\<close>

section \<open>Filters\<close>

record 't FilterOperator =
  fo_process :: "'t Message \<Rightarrow> 't Message option"
  fo_processVector :: "'t Message \<Rightarrow> 't Message option list"

definition NullFilterOperator :: "'t FilterOperator" where
  "NullFilterOperator = \<lparr> fo_process = Some, fo_processVector = (\<lambda>m. [Some m]) \<rparr>"

record 't FilterInfo =
  fi_core_id :: global_broker_id
  fi_handle :: interface_handle
  fi_key :: string
  inputType :: string
  outputType :: string
  cloning :: bool
  fi_flags :: uint16
  filterOp :: "'t FilterOperator option"
  sourceTargets :: "global_handle list"
  destTargets :: "global_handle list"

definition mk_FilterInfo ::
  "global_broker_id \<Rightarrow> interface_handle \<Rightarrow> string \<Rightarrow> string \<Rightarrow> string \<Rightarrow> 't FilterInfo" where
  "mk_FilterInfo core h key tin tout =
     \<lparr> fi_core_id = core, fi_handle = h, fi_key = key, inputType = tin, outputType = tout,
       cloning = False, fi_flags = 0, filterOp = None, sourceTargets = [], destTargets = [] \<rparr>"

definition fi_removeTarget :: "global_handle \<Rightarrow> 't FilterInfo \<Rightarrow> 't FilterInfo" where
  "fi_removeTarget targetToRemove f =
     f\<lparr> sourceTargets := filter (\<lambda>h. h \<noteq> targetToRemove) (sourceTargets f),
        destTargets := filter (\<lambda>h. h \<noteq> targetToRemove) (destTargets f) \<rparr>"

definition fi_closed :: "'t FilterInfo \<Rightarrow> bool" where
  "fi_closed f \<longleftrightarrow> checkActionFlag (fi_flags f) disconnected_flag"

definition fi_close :: "'t FilterInfo \<Rightarrow> 't FilterInfo" where
  "fi_close f = f\<lparr> fi_flags := setActionFlag (fi_flags f) disconnected_flag \<rparr>"

text \<open>The pointers a coordinator has to filters are positions in the vector of the filters.\<close>

record FilterCoordinator =
  sourceFilters :: "nat list"
  destFilter :: "nat option"
  allSourceFilters :: "nat list"
  cloningDestFilters :: "nat list"
  hasSourceFilters :: bool
  hasDestFilters :: bool

definition FilterCoordinator_default :: FilterCoordinator where
  "FilterCoordinator_default =
     \<lparr> sourceFilters = [], destFilter = None, allSourceFilters = [], cloningDestFilters = [],
       hasSourceFilters = False, hasDestFilters = False \<rparr>"

section \<open>Federates\<close>

datatype operation_state = OS_operating | OS_error | OS_disconnected

fun operation_code :: "operation_state \<Rightarrow> nat" where
  "operation_code OS_operating = 0"
| "operation_code OS_error = 5"
| "operation_code OS_disconnected = 10"

instantiation operation_state :: linorder
begin

definition less_eq_operation_state :: "operation_state \<Rightarrow> operation_state \<Rightarrow> bool" where
  "less_eq_operation_state a b \<longleftrightarrow> operation_code a \<le> operation_code b"

definition less_operation_state :: "operation_state \<Rightarrow> operation_state \<Rightarrow> bool" where
  "less_operation_state a b \<longleftrightarrow> operation_code a < operation_code b"

instance
proof
  fix x y z :: operation_state
  show "x \<le> y \<Longrightarrow> y \<le> x \<Longrightarrow> x = y"
    by (cases x; cases y) (simp_all add: less_eq_operation_state_def)
qed (auto simp: less_eq_operation_state_def less_operation_state_def)

end

record LocalFed =
  lf_global_id :: global_federate_id
  lf_state :: federate_state
  lf_init_transmitted :: bool
  lf_endpointCount :: nat
  lf_observer :: bool
  lf_source_only :: bool

record FedInfo =
  fd_fed :: LocalFed
  fd_state :: operation_state

section \<open>The core\<close>

type_synonym int16 = "16 word"

datatype 't core_event = Core_Transmit route_id "'t ActionMessage" | To_Federate nat "'t ActionMessage"
  | Core_Queue "'t ActionMessage" | Core_Add_Route route_id int32 string | Core_Disconnect | Core_Unregister
  | Core_Disconnection_Trigger | Query_Answer int32 string | Query_Waits string "'t ActionMessage"
  | Queries_Closed string

record ('t, 'd, 'x) CommonCore =
  co_global_id :: global_broker_id
  co_local_id :: global_broker_id
  co_higher :: global_broker_id
  co_minFederateCount :: int32
  co_error_delayed :: bool
  co_identifier :: string
  co_address :: string
  co_terminate_on_error :: bool
  co_timeCoord :: "'t ForwardingTimeCoordinator"
  co_state :: broker_state_t
  co_hasTimeDependency :: bool
  co_enteredExec :: bool
  co_hasFilters :: bool
  co_no_ping :: bool
  co_lastErrorCode :: int32
  co_lastErrorString :: string
  co_routing :: "global_federate_id \<rightharpoonup> route_id"
  co_delayTransmit :: "'t ActionMessage list"
  co_knownExternal :: "string \<rightharpoonup> route_id"
  co_timeoutMon :: TimeoutMonitor
  co_delayInitCounter :: int16
  co_registered :: "string \<rightharpoonup> LocalFed"
  co_federates :: 'd
  co_messageCounter :: int32
  co_handles :: HandleManager
  co_loopHandles :: HandleManager
  co_ongoing :: "global_federate_id \<Rightarrow> int32 set"
  co_ongoingDest :: "global_federate_id \<Rightarrow> int32 set"
  co_delayedTiming :: "global_federate_id \<Rightarrow> 't ActionMessage list"
  co_filterCoord :: "interface_handle \<rightharpoonup> FilterCoordinator"
  co_filters :: 'x
  co_nextAirLock :: uint16
  co_airlocks :: "uint16 \<Rightarrow> 't FilterOperator option"
  co_events :: "'t core_event list"

text \<open>What a core runs in. The answers to queries and the collection of the answers of others are built
  on a JSON library.\<close>

record ('t, 'd, 'x) core_env =
  ce_time :: "'t time_rep"
  ce_le :: bool
  ce_federates :: "('d, FedInfo, global_federate_id) mapped_vector"
  ce_filters :: "('x, 't FilterInfo, global_handle) mapped_vector"
  ce_coreQuery :: "string \<Rightarrow> ('t, 'd, 'x) CommonCore \<Rightarrow> string"
  ce_federateQuery :: "nat option \<Rightarrow> string \<Rightarrow> ('t, 'd, 'x) CommonCore \<Rightarrow> string"
  ce_queryResponse :: "'t ActionMessage \<Rightarrow> ('t, 'd, 'x) CommonCore \<Rightarrow> 't core_event list"

type_synonym ('t, 'd, 'x) core_outcome = "('t, 'd, 'x) CommonCore option"

definition CommonCore_default :: "('t::linorder, 'd, 'x) core_env \<Rightarrow> string \<Rightarrow> ('t, 'd, 'x) CommonCore" where
  "CommonCore_default E name =
     \<lparr> co_global_id = parent_broker_id, co_local_id = default_global_broker_id,
       co_higher = Global_Broker_Id 0, co_minFederateCount = 1, co_error_delayed = True,
       co_identifier = name, co_address = [], co_terminate_on_error = False,
       co_timeCoord = ForwardingTimeCoordinator_default (ce_time E), co_state = BS_created,
       co_hasTimeDependency = False, co_enteredExec = False, co_hasFilters = False, co_no_ping = False,
       co_lastErrorCode = 0, co_lastErrorString = [], co_routing = Map.empty, co_delayTransmit = [],
       co_knownExternal = Map.empty,
       co_timeoutMon = \<lparr> tm_timeout = 100000000, tm_waitingForConnection = False, tm_startWaiting = 0,
                         tm_parentConnection = linkConnection_default, tm_connections = [] \<rparr>,
       co_delayInitCounter = 0, co_registered = Map.empty, co_federates = mv_empty (ce_federates E),
       co_messageCounter = 54, co_handles = HandleManager_empty, co_loopHandles = HandleManager_empty,
       co_ongoing = (\<lambda>_. {}), co_ongoingDest = (\<lambda>_. {}), co_delayedTiming = (\<lambda>_. []),
       co_filterCoord = Map.empty, co_filters = mv_empty (ce_filters E), co_nextAirLock = 0,
       co_airlocks = Map.empty, co_events = [] \<rparr>"

section \<open>Sending\<close>

definition co_event :: "'t core_event \<Rightarrow> ('t, 'd, 'x) CommonCore \<Rightarrow> ('t, 'd, 'x) CommonCore" where
  "co_event e s = s\<lparr> co_events := co_events s @ [e] \<rparr>"

abbreviation co_transmit :: "route_id \<Rightarrow> 't ActionMessage \<Rightarrow> ('t, 'd, 'x) CommonCore \<Rightarrow> ('t, 'd, 'x) CommonCore" where
  "co_transmit r m \<equiv> co_event (Core_Transmit r m)"

abbreviation co_queue :: "'t ActionMessage \<Rightarrow> ('t, 'd, 'x) CommonCore \<Rightarrow> ('t, 'd, 'x) CommonCore" where
  "co_queue m \<equiv> co_event (Core_Queue m)"

abbreviation addFedAction :: "nat \<Rightarrow> 't ActionMessage \<Rightarrow> ('t, 'd, 'x) CommonCore \<Rightarrow> ('t, 'd, 'x) CommonCore" where
  "addFedAction i m \<equiv> co_event (To_Federate i m)"

definition co_me :: "('t, 'd, 'x) CommonCore \<Rightarrow> global_federate_id" where
  "co_me s = fed_of_broker (co_local_id s)"

abbreviation feds_of :: "('t, 'd, 'x) core_env \<Rightarrow> ('t, 'd, 'x) CommonCore \<Rightarrow> FedInfo list" where
  "feds_of E s \<equiv> mv_elems (ce_federates E) (co_federates s)"

abbreviation filters_of :: "('t, 'd, 'x) core_env \<Rightarrow> ('t, 'd, 'x) CommonCore \<Rightarrow> 't FilterInfo list" where
  "filters_of E s \<equiv> mv_elems (ce_filters E) (co_filters s)"

definition set_fed ::
  "('t, 'd, 'x) core_env \<Rightarrow> nat \<Rightarrow> (FedInfo \<Rightarrow> FedInfo) \<Rightarrow> ('t, 'd, 'x) CommonCore \<Rightarrow> ('t, 'd, 'x) CommonCore" where
  "set_fed E i f s = s\<lparr> co_federates := mv_write (ce_federates E) i (f (feds_of E s ! i)) (co_federates s) \<rparr>"

definition set_filter ::
  "('t, 'd, 'x) core_env \<Rightarrow> nat \<Rightarrow> ('t FilterInfo \<Rightarrow> 't FilterInfo) \<Rightarrow> ('t, 'd, 'x) CommonCore
     \<Rightarrow> ('t, 'd, 'x) CommonCore" where
  "set_filter E i f s = s\<lparr> co_filters := mv_write (ce_filters E) i (f (filters_of E s ! i)) (co_filters s) \<rparr>"

text \<open>The coordinator after a call; what it sends is added to the queue.\<close>

definition put_time :: "'t ForwardingTimeCoordinator \<Rightarrow> ('t, 'd, 'x) CommonCore \<Rightarrow> ('t, 'd, 'x) CommonCore" where
  "put_time tc s =
     s\<lparr> co_timeCoord := tc\<lparr> ft_sent := [] \<rparr>, co_events := co_events s @ map Core_Queue (ft_sent tc) \<rparr>"

definition time_disconnect :: "('t::linorder, 'd, 'x) core_env \<Rightarrow> ('t, 'd, 'x) CommonCore \<Rightarrow> ('t, 'd, 'x) CommonCore" where
  "time_disconnect E s = put_time (ft_disconnect (ce_time E) (ce_le E) (co_timeCoord s)) s"

text \<open>A loop over the federates that puts a message in the queues of some.\<close>

definition tell_federates ::
  "('t, 'd, 'x) core_env \<Rightarrow> (FedInfo \<Rightarrow> bool) \<Rightarrow> (FedInfo \<Rightarrow> 't ActionMessage) \<Rightarrow> ('t, 'd, 'x) CommonCore
     \<Rightarrow> ('t, 'd, 'x) CommonCore" where
  "tell_federates E P m s =
     foldl (\<lambda>s' i. if P (feds_of E s ! i) then addFedAction i (m (feds_of E s ! i)) s' else s')
       s [0..<mv_size (ce_federates E) (co_federates s)]"

definition co_getRoute :: "global_federate_id \<Rightarrow> ('t, 'd, 'x) CommonCore \<Rightarrow> route_id" where
  "co_getRoute fedid s = (case co_routing s fedid of Some r \<Rightarrow> r | None \<Rightarrow> parent_route_id)"

definition getFederateCore ::
  "('t, 'd, 'x) core_env \<Rightarrow> global_federate_id \<Rightarrow> ('t, 'd, 'x) CommonCore \<Rightarrow> nat option" where
  "getFederateCore E fed s = mv_find (ce_federates E) fed (co_federates s)"

definition isLocal :: "('t, 'd, 'x) core_env \<Rightarrow> global_federate_id \<Rightarrow> ('t, 'd, 'x) CommonCore \<Rightarrow> bool" where
  "isLocal E fed s \<longleftrightarrow> mv_find (ce_federates E) fed (co_federates s) \<noteq> None"

definition co_isConnected :: "('t, 'd, 'x) CommonCore \<Rightarrow> bool" where
  "co_isConnected s \<longleftrightarrow> co_state s = BS_operating \<or> co_state s = BS_connected"

section \<open>Summing up the federates\<close>

definition co_allInitReady :: "('t, 'd, 'x) core_env \<Rightarrow> ('t, 'd, 'x) CommonCore \<Rightarrow> bool" where
  "co_allInitReady E s \<longleftrightarrow>
     (if sint (co_delayInitCounter s) > 0 then False
      else if sint (word_of_nat (mv_size (ce_federates E) (co_federates s)) :: int32) < sint (co_minFederateCount s)
      then False
      else list_all (\<lambda>f. lf_init_transmitted (fd_fed f)) (feds_of E s))"

definition minFederateState :: "('t, 'd, 'x) core_env \<Rightarrow> ('t, 'd, 'x) CommonCore \<Rightarrow> operation_state" where
  "minFederateState E s = foldl (\<lambda>op f. if fd_state f < op then fd_state f else op) OS_disconnected (feds_of E s)"

definition allDisconnected :: "('t::linorder, 'd, 'x) core_env \<Rightarrow> ('t, 'd, 'x) CommonCore \<Rightarrow> bool" where
  "allDisconnected E s \<longleftrightarrow>
     (let afed = (minFederateState E s = OS_disconnected)
      in if co_hasTimeDependency s \<or> co_hasFilters s
         then afed \<and> \<not> hasActiveTimeDependencies (ce_time E) (ft_dependencies (co_timeCoord s))
         else afed)"

section \<open>Errors and leaving\<close>

definition co_setErrorState ::
  "('t::linorder, 'd, 'x) core_env \<Rightarrow> int32 \<Rightarrow> string \<Rightarrow> ('t, 'd, 'x) CommonCore \<Rightarrow> ('t, 'd, 'x) CommonCore" where
  "co_setErrorState E eCode estring s =
     (let s1 = s\<lparr> co_lastErrorString := estring, co_lastErrorCode := eCode \<rparr>
      in if co_state s1 \<noteq> BS_errored
         then let s2 = s1\<lparr> co_state := BS_errored \<rparr>; gid = fed_of_broker (co_global_id s)
              in if \<not> co_error_delayed s then co_queue (mk_message_to (ce_time E) cmd_user_disconnect gid gid) s2
                 else s2
         else s1)"

definition sendErrorToFederates ::
  "('t::linorder, 'd, 'x) core_env \<Rightarrow> int32 \<Rightarrow> string \<Rightarrow> ('t, 'd, 'x) CommonCore \<Rightarrow> ('t, 'd, 'x) CommonCore" where
  "sendErrorToFederates E error_code msg s =
     tell_federates E (\<lambda>f. fd_state f = OS_operating)
       (\<lambda>f. (mk_message (ce_time E) cmd_local_error)
               \<lparr> source_id := co_me s, messageID := error_code, payload := msg \<rparr>) s"

definition co_goodbye :: "('t::linorder, 'd, 'x) core_env \<Rightarrow> ('t, 'd, 'x) CommonCore \<Rightarrow> ('t, 'd, 'x) CommonCore" where
  "co_goodbye E s = co_transmit parent_route_id ((mk_message (ce_time E) cmd_disconnect)\<lparr> source_id := co_me s \<rparr>) s"

definition checkAndProcessDisconnect ::
  "('t::linorder, 'd, 'x) core_env \<Rightarrow> ('t, 'd, 'x) CommonCore \<Rightarrow> bool \<times> ('t, 'd, 'x) CommonCore" where
  "checkAndProcessDisconnect E s =
     (if co_state s = BS_terminating \<or> co_state s = BS_terminated then (True, s)
      else if allDisconnected E s
      then (True, co_goodbye E (time_disconnect E (s\<lparr> co_state := BS_terminating \<rparr>)))
      else (False, s))"

definition co_sendDisconnect :: "('t::linorder, 'd, 'x) core_env \<Rightarrow> ('t, 'd, 'x) CommonCore \<Rightarrow> ('t, 'd, 'x) CommonCore" where
  "co_sendDisconnect E s =
     (let bye = (mk_message (ce_time E) cmd_stop)\<lparr> source_id := co_me s \<rparr>;
          s1 = foldl (\<lambda>s' i.
                 let f = fd_fed (feds_of E s ! i);
                     s2 = (if lf_state f \<noteq> HELICS_FINISHED then addFedAction i bye s' else s')
                 in if co_hasTimeDependency s
                    then s2\<lparr> co_timeCoord := ft_removeDependent (lf_global_id f)
                                 (ft_removeDependency (lf_global_id f) (co_timeCoord s2)) \<rparr>
                    else s2) s [0..<mv_size (ce_federates E) (co_federates s)]
      in if co_hasTimeDependency s1 then time_disconnect E s1 else s1)"

definition co_processDisconnect ::
  "('t::linorder, 'd, 'x) core_env \<Rightarrow> bool \<Rightarrow> ('t, 'd, 'x) CommonCore \<Rightarrow> ('t, 'd, 'x) CommonCore" where
  "co_processDisconnect E skipUnregister s =
     (if BS_configured < co_state s \<and> co_state s < BS_terminating
      then let s1 = co_sendDisconnect E (s\<lparr> co_state := BS_terminating \<rparr>);
               s2 = (if co_local_id s1 \<noteq> parent_broker_id \<and> broker_isValid (co_local_id s1) then co_goodbye E s1
                     else co_transmit parent_route_id
                            ((mk_message (ce_time E) cmd_disconnect_name)\<lparr> payload := co_identifier s1 \<rparr>) s1)
           in co_queue (mk_message (ce_time E) cmd_stop) s2
      else let s1 = (if BS_configured < co_state s then co_event Core_Disconnect s else s);
               s2 = s1\<lparr> co_state := BS_terminated \<rparr>;
               s3 = (if skipUnregister then s2 else co_event Core_Unregister s2)
           in co_event Core_Disconnection_Trigger s3)"

section \<open>Routing\<close>

definition co_checkExec :: "('t::linorder, 'd, 'x) core_env \<Rightarrow> ('t, 'd, 'x) CommonCore \<Rightarrow> ('t, 'd, 'x) CommonCore" where
  "co_checkExec E s =
     (let (res, tc) = ft_checkExecEntry (ce_time E) (co_timeCoord s); s1 = put_time tc s
      in if res = MPR_next_step then s1\<lparr> co_enteredExec := True \<rparr> else s1)"

definition co_timeMessage ::
  "('t::linorder, 'd, 'x) core_env \<Rightarrow> 't ActionMessage \<Rightarrow> ('t, 'd, 'x) CommonCore \<Rightarrow> ('t, 'd, 'x) CommonCore" where
  "co_timeMessage E cmd s = put_time (snd (ft_processTimeMessage (ce_time E) cmd (co_timeCoord s))) s"

definition processCommandsForCore ::
  "('t::linorder, 'd, 'x) core_env \<Rightarrow> 't ActionMessage \<Rightarrow> ('t, 'd, 'x) CommonCore \<Rightarrow> ('t, 'd, 'x) CommonCore" where
  "processCommandsForCore E cmd s =
     (let T = ce_time E
      in if isTimingCommand cmd
         then let s1 = (if \<not> co_enteredExec s then co_checkExec E (co_timeMessage E cmd s)
                        else let (res, tc) = ft_processTimeMessage T cmd (co_timeCoord s)
                             in put_time (if res then ft_updateTimeFactors T tc else tc) s)
              in if isDisconnectCommand T cmd
                 then if messageAction cmd = cmd_disconnect \<and> source_id cmd = fed_of_broker (co_higher s1)
                      then let s2 = s1\<lparr> co_state := BS_terminating \<rparr>;
                               s3 = (if co_hasTimeDependency s2 \<or> co_hasFilters s2 then time_disconnect E s2 else s2);
                               s4 = tell_federates E
                                      (\<lambda>f. lf_state (fd_fed f) \<noteq> HELICS_FINISHED \<and> lf_state (fd_fed f) \<noteq> HELICS_ERROR)
                                      (\<lambda>f. mk_message_to T cmd_disconnect_fed_ack parent_fed (lf_global_id (fd_fed f))) s3
                           in co_queue (mk_message T cmd_stop) s4
                      else snd (checkAndProcessDisconnect E s1)
                 else s1
         else if isDependencyCommand cmd
         then put_time (ft_processDependencyUpdateMessage T cmd (co_timeCoord s)) s
         else s)"

text \<open>
  The overloads of \<open>routeMessage\<close>. A federate that has finished is sent nothing, and by the overload for
  a constant reference neither is one in the error state: \<open>processPostTerminationAction\<close> answers nothing.
\<close>

definition route_with ::
  "federate_state set \<Rightarrow> ('t::linorder, 'd, 'x) core_env \<Rightarrow> 't ActionMessage \<Rightarrow> ('t, 'd, 'x) CommonCore
     \<Rightarrow> ('t, 'd, 'x) CommonCore" where
  "route_with closed E cmd s =
     (if dest_id cmd = parent_fed \<or> dest_id cmd = fed_of_broker (co_higher s) then co_transmit parent_route_id cmd s
      else if dest_id cmd = co_me s then processCommandsForCore E cmd s
      else case getFederateCore E (dest_id cmd) s of
             Some i \<Rightarrow> if lf_state (fd_fed (feds_of E s ! i)) \<in> closed then s else addFedAction i cmd s
           | None \<Rightarrow> co_transmit (co_getRoute (dest_id cmd) s) cmd s)"

definition co_routeMessage ::
  "('t::linorder, 'd, 'x) core_env \<Rightarrow> 't ActionMessage \<Rightarrow> ('t, 'd, 'x) CommonCore \<Rightarrow> ('t, 'd, 'x) CommonCore" where
  "co_routeMessage E cmd s = route_with {HELICS_FINISHED, HELICS_ERROR} E cmd s"

definition co_routeMessage_move ::
  "('t::linorder, 'd, 'x) core_env \<Rightarrow> 't ActionMessage \<Rightarrow> ('t, 'd, 'x) CommonCore \<Rightarrow> ('t, 'd, 'x) CommonCore" where
  "co_routeMessage_move E cmd s = route_with {HELICS_FINISHED} E cmd s"

definition co_routeMessage_to ::
  "('t::linorder, 'd, 'x) core_env \<Rightarrow> 't ActionMessage \<Rightarrow> global_federate_id \<Rightarrow> ('t, 'd, 'x) CommonCore
     \<Rightarrow> ('t, 'd, 'x) CommonCore" where
  "co_routeMessage_to E cmd dest s =
     (if \<not> fed_isValid dest then s else route_with {HELICS_FINISHED} E (cmd\<lparr> dest_id := dest \<rparr>) s)"

section \<open>Messages held back\<close>

text \<open>Messages to the parent that wait for the identifier of the core.\<close>

definition co_transmitDelayed :: "('t::linorder, 'd, 'x) core_env \<Rightarrow> ('t, 'd, 'x) CommonCore \<Rightarrow> ('t, 'd, 'x) CommonCore" where
  "co_transmitDelayed E s =
     foldl (\<lambda>s' m. co_routeMessage E
              (if source_id m = parent_fed \<or> source_id m = direct_core_id then m\<lparr> source_id := co_me s' \<rparr> else m) s')
       (s\<lparr> co_delayTransmit := [] \<rparr>) (co_delayTransmit s)"

definition errorRespondDelayed :: "string \<Rightarrow> ('t, 'd, 'x) CommonCore \<Rightarrow> ('t, 'd, 'x) CommonCore" where
  "errorRespondDelayed estring s =
     foldl (\<lambda>s' m. if messageAction m = cmd_query \<or> messageAction m = cmd_broker_query
                   then co_event (Query_Answer (messageID m) (''#error:'' @ estring)) s' else s')
       (s\<lparr> co_delayTransmit := [] \<rparr>) (co_delayTransmit s)"

text \<open>\<open>transmitDelayedMessages(source)\<close>: what was held back for one federate.\<close>

definition transmitDelayedFrom ::
  "('t::linorder, 'd, 'x) core_env \<Rightarrow> global_federate_id \<Rightarrow> ('t, 'd, 'x) CommonCore \<Rightarrow> ('t, 'd, 'x) CommonCore" where
  "transmitDelayedFrom E source s =
     (let mine = filter (\<lambda>m. source_id m = source) (co_delayTransmit s);
          s1 = foldl (\<lambda>s' m. co_routeMessage E m s')
                 (s\<lparr> co_delayTransmit := filter (\<lambda>m. source_id m \<noteq> source) (co_delayTransmit s) \<rparr>) mine;
          s2 = foldl (\<lambda>s' m. co_routeMessage E m s') s1 (co_delayedTiming s1 source)
      in s2\<lparr> co_delayedTiming := (co_delayedTiming s2)(source := []) \<rparr>)"

end
