(* ===== verification/Core_Filters.thy ===== *)
theory Core_Filters
  imports Core_State
begin

text \<open>
  Messages between endpoints and the filters on their way (\<open>CommonCore.cpp\<close>, \<open>FilterCoordinator.cpp\<close>).
  A message that leaves an endpoint passes the source filters of the endpoint in the order
  \<open>organizeFilterOperations\<close> gave them; a filter of another core is sent the message and asked to send
  it back. A message that arrives passes the destination filter and the cloning destination filters.

  The result \<open>None\<close> is a pointer used without being set, an assertion that fails, or, for \<open>deliverMessage\<close>, more nested calls than
  the given bound: a clone that a destination filter makes is delivered by a nested call.
\<close>

section \<open>Coordinators\<close>

definition getFilterCoordinator ::
  "interface_handle \<Rightarrow> ('t, 'd, 'x) CommonCore \<Rightarrow> FilterCoordinator option \<times> ('t, 'd, 'x) CommonCore" where
  "getFilterCoordinator h s =
     (case co_filterCoord s h of
        Some fc \<Rightarrow> (Some fc, s)
      | None \<Rightarrow> if co_state s < BS_operating
                then (Some FilterCoordinator_default,
                      s\<lparr> co_filterCoord := (co_filterCoord s)(h \<mapsto> FilterCoordinator_default) \<rparr>)
                else (None, s))"

definition put_coordinator ::
  "interface_handle \<Rightarrow> FilterCoordinator \<Rightarrow> ('t, 'd, 'x) CommonCore \<Rightarrow> ('t, 'd, 'x) CommonCore" where
  "put_coordinator h fc s = s\<lparr> co_filterCoord := (co_filterCoord s)(h \<mapsto> fc) \<rparr>"

definition names_filter :: "global_handle \<Rightarrow> 't FilterInfo \<Rightarrow> bool" where
  "names_filter h f \<longleftrightarrow> fed_of_broker (fi_core_id f) = fed_id h \<and> fi_handle f = handle h"

definition closeFilter ::
  "('t, 'd, 'x) core_env \<Rightarrow> FilterCoordinator \<Rightarrow> global_handle \<Rightarrow> ('t, 'd, 'x) CommonCore
     \<Rightarrow> ('t, 'd, 'x) CommonCore" where
  "closeFilter E fc filt s =
     foldl (\<lambda>s' i. if names_filter filt (filters_of E s' ! i) then set_filter E i fi_close s' else s') s
       ((case destFilter fc of None \<Rightarrow> [] | Some d \<Rightarrow> [d]) @ allSourceFilters fc @ cloningDestFilters fc)"

section \<open>New filters\<close>

definition int_text :: "int32 \<Rightarrow> string" where
  "int_text i = (if sint i < 0 then ''-'' @ decimal (nat (- sint i)) else decimal (nat (sint i)))"

definition createFilter ::
  "('t, 'd, 'x) core_env \<Rightarrow> global_broker_id \<Rightarrow> interface_handle \<Rightarrow> string \<Rightarrow> string \<Rightarrow> string \<Rightarrow> bool
     \<Rightarrow> ('t, 'd, 'x) CommonCore \<Rightarrow> (nat \<times> ('t, 'd, 'x) CommonCore) option" where
  "createFilter E dest h key tin tout clone s =
     (let core = (if dest = parent_broker_id then co_global_id s else dest);
          filt = (mk_FilterInfo core h key tin tout)\<lparr> cloning := clone \<rparr>;
          actualKey = (if key = [] then ''sFilter_'' @ int_text (hid h) else key);
          (name, gh) = (if core = co_global_id s then (actualKey, Global_Handle (fed_of_broker dest) h)
                        else (actualKey @ ''_'' @ int_text (bid core), Global_Handle (fed_of_broker core) h))
      in map_option (\<lambda>x. (mv_size (ce_filters E) (co_filters s), s\<lparr> co_filters := x \<rparr>))
           (mv_insert (ce_filters E) name (Some gh) filt (co_filters s)))"

text \<open>\<open>filters.find\<close>, and creation where nothing is found.\<close>

definition find_or_create ::
  "('t, 'd, 'x) core_env \<Rightarrow> 't ActionMessage \<Rightarrow> ('t, 'd, 'x) CommonCore
     \<Rightarrow> (nat \<times> ('t, 'd, 'x) CommonCore) option" where
  "find_or_create E command s =
     (case mv_find (ce_filters E) (getSource command) (co_filters s) of
        Some i \<Rightarrow> Some (i, s)
      | None \<Rightarrow> createFilter E (broker_of_fed (source_id command)) (source_handle command) (payload command)
                  (getString command 0) (getString command 1) (checkActionFlag (flags command) clone_flag) s)"

definition add_dest_filter ::
  "('t::linorder, 'd, 'x) core_env \<Rightarrow> FilterCoordinator \<Rightarrow> 't ActionMessage \<Rightarrow> ('t, 'd, 'x) CommonCore
     \<Rightarrow> ('t, 'd, 'x) core_outcome" where
  "add_dest_filter E fc command s =
     (let isClone = checkActionFlag (flags command) clone_flag; h = dest_handle command;
          same = (\<lambda>i. names_filter (getSource command) (filters_of E s ! i));
          present = (if isClone then list_ex same (cloningDestFilters fc)
                     else (case destFilter fc of None \<Rightarrow> False | Some i \<Rightarrow> same i));
          flag = (\<lambda>f s. case getEndpoint_at h (co_loopHandles s) of
                    None \<Rightarrow> s
                  | Some e \<Rightarrow> s\<lparr> co_loopHandles := update_handle e (handle_setFlag f) (co_loopHandles s) \<rparr>);
          ept = getEndpoint_at h (co_loopHandles s);
          s1 = flag has_dest_filter_flag s
      in if present then Some s
         else if ept \<noteq> None \<and> \<not> isClone \<and> hasDestFilters fc
         then Some (co_routeMessage_move E ((mk_message (ce_time E) cmd_error)
                \<lparr> dest_id := source_id command, source_id := dest_id command, source_handle := h,
                  messageID := registration_failure,
                  payload := ''Endpoint '' @ bh_key (hm_handles (co_loopHandles s1) ! the ept)
                    @ '' already has a destination filter'' \<rparr>) s1)
         else do {
           (i, s2) \<leftarrow> find_or_create E command s1;
           Some (if isClone
                 then put_coordinator h (fc\<lparr> hasDestFilters := True, cloningDestFilters := cloningDestFilters fc @ [i] \<rparr>) s2
                 else put_coordinator h (fc\<lparr> hasDestFilters := True, destFilter := Some i \<rparr>)
                        (flag has_non_cloning_dest_filter_flag s2))
         })"

definition add_source_filter ::
  "('t, 'd, 'x) core_env \<Rightarrow> FilterCoordinator \<Rightarrow> 't ActionMessage \<Rightarrow> ('t, 'd, 'x) CommonCore
     \<Rightarrow> ('t, 'd, 'x) core_outcome" where
  "add_source_filter E fc command s =
     (let h = dest_handle command
      in if list_ex (\<lambda>i. names_filter (getSource command) (filters_of E s ! i)) (allSourceFilters fc) then Some s
         else do {
           (i, s1) \<leftarrow> find_or_create E command s;
           let s2 = put_coordinator h (fc\<lparr> allSourceFilters := allSourceFilters fc @ [i], hasSourceFilters := True \<rparr>) s1;
           Some (case getEndpoint_at h (co_loopHandles s2) of
                   None \<Rightarrow> s2
                 | Some e \<Rightarrow> s2\<lparr> co_loopHandles := update_handle e (handle_setFlag has_source_filter_flag)
                                   (co_loopHandles s2) \<rparr>)
         })"

definition processFilterInfo ::
  "('t::linorder, 'd, 'x) core_env \<Rightarrow> 't ActionMessage \<Rightarrow> ('t, 'd, 'x) CommonCore \<Rightarrow> ('t, 'd, 'x) core_outcome" where
  "processFilterInfo E command s =
     (case getFilterCoordinator (dest_handle command) s of
        (None, s1) \<Rightarrow> Some s1
      | (Some fc, s1) \<Rightarrow>
          if checkActionFlag (flags command) destination_target then add_dest_filter E fc command s1
          else add_source_filter E fc command s1)"

section \<open>The order of the source filters\<close>

definition global_match_strings :: "string set" where
  "global_match_strings = {''any'', ''all'', ''data'', ''string'', ''block''}"

definition matchingTypes :: "string \<Rightarrow> string \<Rightarrow> bool" where
  "matchingTypes type1 type2 \<longleftrightarrow>
     (if type1 = type2 then True
      else if type1 = [] \<or> type2 = [] then True
      else if take 3 type1 = ''def'' \<or> take 3 type2 = ''def'' then True
      else type1 \<in> global_match_strings \<or> type2 \<in> global_match_strings)"

text \<open>One turn of the inner loop after the first: every filter that is not used yet is taken when its
  input type matches the current one. The results are the filters taken, those left and the type.\<close>

fun match_pass :: "'t FilterInfo list \<Rightarrow> nat list \<Rightarrow> string \<Rightarrow> nat list \<times> nat list \<times> string" where
  "match_pass fs [] currentType = ([], [], currentType)"
| "match_pass fs (i # is) currentType =
     (if matchingTypes (inputType (fs ! i)) currentType
      then let (took, left, ty) = match_pass fs is (outputType (fs ! i)) in (i # took, left, ty)
      else let (took, left, ty) = match_pass fs is currentType in (took, i # left, ty))"

lemma match_pass_length:
  "match_pass fs is ty = (took, left, ty') \<Longrightarrow> length took + length left = length is"
  by (induction fs "is" ty arbitrary: took left ty' rule: match_pass.induct)
     (auto split: if_splits prod.splits)

text \<open>The \<open>while\<close> loop after the first pass: it goes on as long as a turn took a filter and left one.\<close>

function match_loop :: "'t FilterInfo list \<Rightarrow> nat list \<Rightarrow> string \<Rightarrow> nat list" where
  "match_loop fs unused currentType =
     (let (took, left, ty) = match_pass fs unused currentType
      in if took \<noteq> [] \<and> left \<noteq> [] then took @ match_loop fs left ty else took)"
  by pat_completeness auto
termination
proof (relation "measure (\<lambda>(fs, unused, ty). length unused)")
  fix fs :: "'t FilterInfo list" and unused took left :: "nat list" and currentType ty x y
  assume "x = match_pass fs unused currentType" "(took, y) = x" "(left, ty) = y" "took \<noteq> [] \<and> left \<noteq> []"
  then show "((fs, left, ty), fs, unused, currentType) \<in> measure (\<lambda>(fs, unused, ty). length unused)"
    using match_pass_length [of fs unused currentType took left ty] by (cases took) auto
qed simp

text \<open>The first pass takes the cloning filters.\<close>

definition order_filters :: "'t FilterInfo list \<Rightarrow> nat list \<Rightarrow> string \<Rightarrow> nat list" where
  "order_filters fs all endpointType =
     (let clones = filter (\<lambda>i. cloning (fs ! i)) all; rest = filter (\<lambda>i. \<not> cloning (fs ! i)) all
      in if rest = [] then clones else clones @ match_loop fs rest endpointType)"

definition organizeFilterOperations ::
  "('t, 'd, 'x) core_env \<Rightarrow> ('t, 'd, 'x) CommonCore \<Rightarrow> ('t, 'd, 'x) CommonCore" where
  "organizeFilterOperations E s =
     s\<lparr> co_filterCoord := (\<lambda>h. map_option (\<lambda>fi.
          case getHandleInfo h (co_handles s) of
            None \<Rightarrow> fi
          | Some k \<Rightarrow>
              if allSourceFilters fi = [] then fi
              else fi\<lparr> sourceFilters := order_filters (filters_of E s) (allSourceFilters fi)
                                         (bh_type (hm_handles (co_handles s) ! k)) \<rparr>)
          (co_filterCoord s h)) \<rparr>"

section \<open>Delivery\<close>

text \<open>\<open>message = std::move(nmessage)\<close>: the addresses stay.\<close>

definition assign_from_message :: "'t Message \<Rightarrow> 't ActionMessage \<Rightarrow> 't ActionMessage" where
  "assign_from_message msg m =
     m\<lparr> messageAction := cmd_send_message, messageID := msg_messageID msg, payload := msg_data msg,
        actionTime := msg_time msg,
        stringData := [msg_dest msg, msg_source msg, original_source msg, original_dest msg] \<rparr>"

text \<open>A nested delivery of each message of a list; \<open>dlv\<close> is the delivery of one.\<close>

fun deliver_all ::
  "('t ActionMessage \<Rightarrow> ('t, 'd, 'x) CommonCore \<Rightarrow> ('t, 'd, 'x) core_outcome) \<Rightarrow> ('t::linorder, 'd, 'x) core_env
     \<Rightarrow> 't Message option list \<Rightarrow> ('t, 'd, 'x) CommonCore \<Rightarrow> ('t, 'd, 'x) core_outcome" where
  "deliver_all dlv E [] s = Some s"
| "deliver_all dlv E (None # ms) s = deliver_all dlv E ms s"
| "deliver_all dlv E (Some m # ms) s =
     do { s1 \<leftarrow> dlv (message_to_command (ce_time E) m) s; deliver_all dlv E ms s1 }"

text \<open>A clone for the endpoint itself goes to its federate directly.\<close>

definition deliver_clone ::
  "('t ActionMessage \<Rightarrow> ('t, 'd, 'x) CommonCore \<Rightarrow> ('t, 'd, 'x) core_outcome) \<Rightarrow> ('t::linorder, 'd, 'x) core_env
     \<Rightarrow> BasicHandleInfo \<Rightarrow> 't ActionMessage \<Rightarrow> ('t, 'd, 'x) CommonCore \<Rightarrow> ('t, 'd, 'x) core_outcome" where
  "deliver_clone dlv E h cmd s =
     (if getString cmd 0 = bh_key h then Some (co_routeMessage_move E (setDestination (bh_handle h) cmd) s)
      else dlv cmd s)"

definition send_for_filter ::
  "('t::linorder, 'd, 'x) core_env \<Rightarrow> 't ActionMessage \<Rightarrow> 't FilterInfo \<Rightarrow> ('t, 'd, 'x) CommonCore
     \<Rightarrow> ('t, 'd, 'x) CommonCore" where
  "send_for_filter E message filt s =
     co_routeMessage E ((setAction cmd_send_for_filter (copy_message message))
       \<lparr> dest_id := fed_of_broker (fi_core_id filt), dest_handle := fi_handle filt \<rparr>) s"

fun clone_at_dest ::
  "('t ActionMessage \<Rightarrow> ('t, 'd, 'x) CommonCore \<Rightarrow> ('t, 'd, 'x) core_outcome) \<Rightarrow> ('t::linorder, 'd, 'x) core_env
     \<Rightarrow> BasicHandleInfo \<Rightarrow> 't ActionMessage \<Rightarrow> nat list \<Rightarrow> ('t, 'd, 'x) CommonCore \<Rightarrow> ('t, 'd, 'x) core_outcome" where
  "clone_at_dest dlv E h message [] s = Some s"
| "clone_at_dest dlv E h message (c # cs) s =
     (let cl = filters_of E s ! c
      in if fi_closed cl then clone_at_dest dlv E h message cs s
         else if fi_core_id cl = co_local_id s
         then (case mv_find (ce_filters E) (Global_Handle (co_me s) (fi_handle cl)) (co_filters s) of
                 None \<Rightarrow> clone_at_dest dlv E h message cs s
               | Some i \<Rightarrow>
                   (case filterOp (filters_of E s ! i) of
                      None \<Rightarrow> clone_at_dest dlv E h message cs s
                    | Some op \<Rightarrow> do {
                        s1 \<leftarrow> deliver_all (deliver_clone dlv E h) E
                                (fo_processVector op (createMessageFromCommand (ce_time E) message)) s;
                        clone_at_dest dlv E h message cs s1 }))
         else clone_at_dest dlv E h message cs (send_for_filter E message cl s))"

text \<open>A destination filter of another core: the federate's time is blocked until the answer.\<close>

definition block_for_filter ::
  "('t::linorder, 'd, 'x) core_env \<Rightarrow> BasicHandleInfo \<Rightarrow> 't FilterInfo \<Rightarrow> 't ActionMessage \<Rightarrow> ('t, 'd, 'x) CommonCore
     \<Rightarrow> ('t, 'd, 'x) core_outcome" where
  "block_for_filter E h filt message s =
     (let fed = getFederateId h; mid = co_messageCounter s + 1;
          s1 = s\<lparr> co_messageCounter := mid \<rparr>
      in map_option (\<lambda>f.
           let s2 = addFedAction f ((mk_message_to (ce_time E) cmd_time_block (co_me s) fed)\<lparr> messageID := mid \<rparr>) s1
           in co_routeMessage_move E
                ((setAction cmd_send_for_dest_filter_return message)
                   \<lparr> messageID := mid, source_id := fed, source_handle := getInterfaceHandle h,
                     dest_id := fed_of_broker (fi_core_id filt), dest_handle := fi_handle filt \<rparr>)
                (s2\<lparr> co_ongoingDest := (co_ongoingDest s2)(fed := insert mid (co_ongoingDest s2 fed)) \<rparr>))
         (getFederateCore E fed s))"

text \<open>The message after a destination filter of this core; a filter that drops it leaves a null pointer.\<close>

definition local_dest_filter ::
  "('t::linorder, 'd, 'x) core_env \<Rightarrow> 't FilterInfo \<Rightarrow> 't ActionMessage \<Rightarrow> 't ActionMessage option" where
  "local_dest_filter E filt message =
     (let temp = createMessageFromCommand (ce_time E) message
      in case filterOp filt of
           None \<Rightarrow> Some (assign_from_message temp message)
         | Some op \<Rightarrow> map_option (\<lambda>n. assign_from_message n message) (fo_process op temp))"

definition to_endpoint ::
  "('t::linorder, 'd, 'x) core_env \<Rightarrow> BasicHandleInfo \<Rightarrow> 't ActionMessage \<Rightarrow> ('t, 'd, 'x) CommonCore
     \<Rightarrow> ('t, 'd, 'x) CommonCore" where
  "to_endpoint E h message s =
     (let m = (if dest_id message = parent_fed then setDestination (bh_handle h) message else message);
          s1 = co_timeMessage E m s
      in case getFederateCore E (getFederateId h) s1 of None \<Rightarrow> s1 | Some f \<Rightarrow> addFedAction f m s1)"

definition deliver_local ::
  "('t ActionMessage \<Rightarrow> ('t, 'd, 'x) CommonCore \<Rightarrow> ('t, 'd, 'x) core_outcome) \<Rightarrow> ('t::linorder, 'd, 'x) core_env
     \<Rightarrow> BasicHandleInfo \<Rightarrow> 't ActionMessage \<Rightarrow> ('t, 'd, 'x) CommonCore \<Rightarrow> ('t, 'd, 'x) core_outcome" where
  "deliver_local dlv E h message s =
     (if \<not> checkActionFlag (bh_flags h) has_dest_filter_flag then Some (to_endpoint E h message s)
      else case getFilterCoordinator (getInterfaceHandle h) s of
             (None, s1) \<Rightarrow> Some (to_endpoint E h message s1)
           | (Some fc, s1) \<Rightarrow>
               let clones = (\<lambda>m. do { s2 \<leftarrow> clone_at_dest dlv E h m (cloningDestFilters fc) s1; Some (to_endpoint E h m s2) })
               in case destFilter fc of
                    None \<Rightarrow> clones message
                  | Some d \<Rightarrow>
                      let filt = filters_of E s1 ! d
                      in if fi_closed filt then clones message
                         else if fi_core_id filt \<noteq> co_local_id s1 then block_for_filter E h filt message s1
                         else do { m \<leftarrow> local_dest_filter E filt message; clones m })"

primrec deliverMessage ::
  "nat \<Rightarrow> ('t::linorder, 'd, 'x) core_env \<Rightarrow> 't ActionMessage \<Rightarrow> ('t, 'd, 'x) CommonCore \<Rightarrow> ('t, 'd, 'x) core_outcome" where
  "deliverMessage 0 E message s = None"
| "deliverMessage (Suc n) E message s =
     (if messageAction message = cmd_send_message
      then case (if dest_id message = parent_fed then getEndpoint (getString message 0) (co_loopHandles s)
                 else findHandle (getDest message) (co_loopHandles s)) of
             None \<Rightarrow> Some (co_transmit (case co_knownExternal s (getString message 0) of
                                          Some r \<Rightarrow> r | None \<Rightarrow> parent_route_id) message s)
           | Some p \<Rightarrow> deliver_local (deliverMessage n E) E (hm_handles (co_loopHandles s) ! p) message s
      else Some (co_transmit (co_getRoute (dest_id message) s) message s))"

section \<open>Source filters\<close>

text \<open>A message on its way to a filter of another core; the counter tells where in the order it is.\<close>

definition to_filter :: "'t FilterInfo \<Rightarrow> nat \<Rightarrow> 't ActionMessage \<Rightarrow> 't ActionMessage" where
  "to_filter filt ii m =
     m\<lparr> dest_id := fed_of_broker (fi_core_id filt), dest_handle := fi_handle filt, counter := word_of_nat ii \<rparr>"

text \<open>The loop of \<open>processMessage\<close> over the filters; \<open>ii\<close> counts the filters that were not closed.\<close>

fun source_loop ::
  "nat \<Rightarrow> ('t::linorder, 'd, 'x) core_env \<Rightarrow> global_federate_id \<Rightarrow> nat \<Rightarrow> nat list \<Rightarrow> nat \<Rightarrow> 't ActionMessage
     \<Rightarrow> ('t, 'd, 'x) CommonCore \<Rightarrow> ('t ActionMessage \<times> ('t, 'd, 'x) CommonCore) option" where
  "source_loop n E fed len [] ii m s = Some (m, s)"
| "source_loop n E fed len (f # fs) ii m s =
     (let filt = filters_of E s ! f; T = ce_time E
      in if fi_closed filt then source_loop n E fed len fs ii m s
         else if fi_core_id filt = co_local_id s
         then (case filterOp filt of
                 None \<Rightarrow> None
               | Some op \<Rightarrow>
                   if cloning filt
                   then do {
                     s1 \<leftarrow> deliver_all (deliverMessage n E) E (fo_processVector op (createMessageFromCommand T m)) s;
                     source_loop n E fed len fs (Suc ii) m s1 }
                   else (case fo_process op (createMessageFromCommand T m) of
                           Some msg \<Rightarrow> source_loop n E fed len fs (Suc ii) (assign_message m (message_to_command T msg)) s
                         | None \<Rightarrow> Some (assign_message m (mk_message T cmd_ignore), s)))
         else if cloning filt
         then source_loop n E fed len fs (Suc ii) m (send_for_filter E (msg_setFlag clone_flag m) filt s)
         else Some (if ii < len - 1
                    then (setAction cmd_send_for_filter_return (to_filter filt ii m),
                          s\<lparr> co_ongoing := (co_ongoing s)(fed := insert (messageID m) (co_ongoing s fed)) \<rparr>)
                    else (setAction cmd_send_for_filter (to_filter filt ii m), s)))"

definition processMessage ::
  "nat \<Rightarrow> ('t::linorder, 'd, 'x) core_env \<Rightarrow> 't ActionMessage \<Rightarrow> ('t, 'd, 'x) CommonCore
     \<Rightarrow> ('t ActionMessage \<times> ('t, 'd, 'x) CommonCore) option" where
  "processMessage n E m s =
     (case getEndpoint_at (source_handle m) (co_loopHandles s) of
        None \<Rightarrow> Some (m, s)
      | Some p \<Rightarrow>
          let h = hm_handles (co_loopHandles s) ! p
          in if \<not> checkActionFlag (bh_flags h) has_source_filter_flag then Some (m, s)
             else case getFilterCoordinator (getInterfaceHandle h) s of
                    (None, _) \<Rightarrow> None
                  | (Some fc, s1) \<Rightarrow>
                      if hasSourceFilters fc
                      then source_loop n E (getFederateId h) (length (sourceFilters fc)) (sourceFilters fc) 0 m s1
                      else Some (m, s1))"

section \<open>Returns\<close>

text \<open>The messages of a federate go on when none of its messages is in a filter.\<close>

definition release_timing ::
  "('t::linorder, 'd, 'x) core_env \<Rightarrow> global_federate_id \<Rightarrow> ('t, 'd, 'x) CommonCore \<Rightarrow> ('t, 'd, 'x) CommonCore" where
  "release_timing E fed s = (if co_ongoing s fed = {} then transmitDelayedFrom E fed s else s)"

definition filtering_done :: "global_federate_id \<Rightarrow> int32 \<Rightarrow> ('t, 'd, 'x) CommonCore \<Rightarrow> ('t, 'd, 'x) CommonCore" where
  "filtering_done fed mid s = s\<lparr> co_ongoing := (co_ongoing s)(fed := co_ongoing s fed - {mid}) \<rparr>"

text \<open>The loop of \<open>processFilterReturn\<close> from position \<open>ii\<close> on; at its end the message is delivered.\<close>

fun return_loop ::
  "nat \<Rightarrow> ('t::linorder, 'd, 'x) core_env \<Rightarrow> global_federate_id \<Rightarrow> int32 \<Rightarrow> nat \<Rightarrow> nat list \<Rightarrow> nat
     \<Rightarrow> 't ActionMessage \<Rightarrow> ('t, 'd, 'x) CommonCore \<Rightarrow> ('t, 'd, 'x) core_outcome" where
  "return_loop n E fed mid len [] ii cmd s =
     do { s1 \<leftarrow> deliverMessage n E cmd (filtering_done fed mid s); Some (release_timing E fed s1) }"
| "return_loop n E fed mid len (f # fs) ii cmd s =
     (let filt = filters_of E s ! f; T = ce_time E
      in if fi_closed filt then return_loop n E fed mid len fs (Suc ii) cmd s
         else if fi_core_id filt = co_local_id s
         then (case filterOp filt of
                 None \<Rightarrow> None
               | Some op \<Rightarrow>
                   (case fo_process op (createMessageFromCommand T cmd) of
                      Some msg \<Rightarrow> return_loop n E fed mid len fs (Suc ii) (assign_message cmd (message_to_command T msg)) s
                    | None \<Rightarrow> Some (release_timing E fed (filtering_done fed mid s))))
         else Some (release_timing E fed
                (if ii < len - 1
                 then co_routeMessage E (setAction cmd_send_for_filter_return (to_filter filt ii cmd)) s
                 else co_routeMessage E (setAction cmd_send_for_filter (to_filter filt ii cmd)) (filtering_done fed mid s))))"

definition processFilterReturn ::
  "nat \<Rightarrow> ('t::linorder, 'd, 'x) core_env \<Rightarrow> 't ActionMessage \<Rightarrow> ('t, 'd, 'x) CommonCore \<Rightarrow> ('t, 'd, 'x) core_outcome" where
  "processFilterReturn n E cmd s =
     (case getEndpoint_at (dest_handle cmd) (co_loopHandles s) of
        None \<Rightarrow> Some s
      | Some p \<Rightarrow>
          let h = hm_handles (co_loopHandles s) ! p; mid = messageID cmd; fed = getFederateId h
          in if mid \<notin> co_ongoing s fed then Some s
             else let s1 = (if messageAction cmd = cmd_null_message
                            then release_timing E fed (filtering_done fed mid s) else s)
                  in case getFilterCoordinator (getInterfaceHandle h) s1 of
                       (None, _) \<Rightarrow> None
                     | (Some fc, s2) \<Rightarrow>
                         let first = unat (counter cmd) + 1; len = length (sourceFilters fc)
                         in return_loop n E fed mid len
                              (if hasSourceFilters fc then drop first (sourceFilters fc) else []) first cmd s2)"

text \<open>The clones that local filters make of a message that came back from a destination filter are discarded.\<close>

definition clone_returned ::
  "('t::linorder, 'd, 'x) core_env \<Rightarrow> 't ActionMessage \<Rightarrow> ('t, 'd, 'x) CommonCore \<Rightarrow> nat \<Rightarrow> ('t, 'd, 'x) CommonCore" where
  "clone_returned E command s c =
     (let cl = filters_of E s ! c
      in if fi_closed cl then s
         else if fi_core_id cl = co_local_id s then s
         else send_for_filter E command cl s)"

definition time_unblock ::
  "('t::linorder, 'd, 'x) core_env \<Rightarrow> int32 \<Rightarrow> global_federate_id \<Rightarrow> ('t, 'd, 'x) CommonCore \<Rightarrow> ('t, 'd, 'x) CommonCore" where
  "time_unblock E mid dest s =
     co_routeMessage E ((mk_message_to (ce_time E) cmd_time_unblock (co_me s) dest)\<lparr> messageID := mid \<rparr>) s"

definition processDestFilterReturn ::
  "('t::linorder, 'd, 'x) core_env \<Rightarrow> 't ActionMessage \<Rightarrow> ('t, 'd, 'x) CommonCore \<Rightarrow> ('t, 'd, 'x) core_outcome" where
  "processDestFilterReturn E command s =
     (case getEndpoint_at (dest_handle command) (co_loopHandles s) of
        None \<Rightarrow> Some s
      | Some p \<Rightarrow>
          let h = hm_handles (co_loopHandles s) ! p; mid = messageID command; fed = getFederateId h
          in if mid \<notin> co_ongoingDest s fed then Some s
             else let s1 = s\<lparr> co_ongoingDest := (co_ongoingDest s)(fed := co_ongoingDest s fed - {mid}) \<rparr>
                  in if messageAction command = cmd_null_dest_message then Some (time_unblock E mid (dest_id command) s1)
                     else case getFilterCoordinator (getInterfaceHandle h) s1 of
                            (None, _) \<Rightarrow> None
                          | (Some fc, s2) \<Rightarrow>
                              let s3 = foldl (clone_returned E command) s2 (cloningDestFilters fc);
                                  s4 = co_timeMessage E command s3;
                                  s5 = co_routeMessage_move E (setAction cmd_send_message command) s4
                              in Some (time_unblock E mid fed s5))"

section \<open>Filtering for others\<close>

definition answers_sender :: "'t ActionMessage \<Rightarrow> bool" where
  "answers_sender cmd \<longleftrightarrow> messageAction cmd = cmd_send_for_filter_return
     \<or> messageAction cmd = cmd_send_for_dest_filter_return"

text \<open>The action of an answer, for a destination filter and for a source filter.\<close>

definition filter_answer :: "'t ActionMessage \<Rightarrow> bool \<Rightarrow> action_t" where
  "filter_answer cmd dropped =
     (if messageAction cmd = cmd_send_for_dest_filter_return
      then if dropped then cmd_null_dest_message else cmd_dest_filter_result
      else if dropped then cmd_null_message else cmd_filter_result)"

definition run_filter ::
  "nat \<Rightarrow> ('t::linorder, 'd, 'x) core_env \<Rightarrow> 't FilterInfo \<Rightarrow> 't FilterOperator \<Rightarrow> 't ActionMessage \<Rightarrow> ('t, 'd, 'x) CommonCore
     \<Rightarrow> ('t, 'd, 'x) core_outcome" where
  "run_filter n E filt op cmd s =
     (let T = ce_time E; res = fo_process op (createMessageFromCommand T cmd);
          cmd1 = assign_message cmd (case res of Some msg \<Rightarrow> message_to_command T msg | None \<Rightarrow> mk_message T cmd_ignore)
      in if answers_sender cmd
         then let cmd2 = setAction (filter_answer cmd (res = None)) (setDestination (getSource cmd) cmd1)
              in deliverMessage n E
                   (if res = None then cmd2\<lparr> messageID := messageID cmd \<rparr>
                    else cmd2\<lparr> source_handle := fi_handle filt, source_id := co_me s \<rparr>) s
         else if res = None then Some s
         else deliverMessage n E ((setSource (getSource cmd) cmd1)
                \<lparr> dest_id := parent_fed, dest_handle := default_interface_handle \<rparr>) s)"

text \<open>A filter without an operator, or a closed one.\<close>

definition pass_filter ::
  "nat \<Rightarrow> ('t::linorder, 'd, 'x) core_env \<Rightarrow> 't FilterInfo \<Rightarrow> 't ActionMessage \<Rightarrow> ('t, 'd, 'x) CommonCore
     \<Rightarrow> ('t, 'd, 'x) core_outcome" where
  "pass_filter n E filt cmd s =
     (if answers_sender cmd
      then deliverMessage n E ((setAction (filter_answer cmd False) (setDestination (getSource cmd) cmd))
             \<lparr> source_handle := fi_handle filt, source_id := co_me s \<rparr>) s
      else deliverMessage n E ((setAction cmd_send_message cmd)
             \<lparr> dest_id := parent_fed, dest_handle := default_interface_handle \<rparr>) s)"

definition processMessageFilter ::
  "nat \<Rightarrow> ('t::linorder, 'd, 'x) core_env \<Rightarrow> 't ActionMessage \<Rightarrow> ('t, 'd, 'x) CommonCore \<Rightarrow> ('t, 'd, 'x) core_outcome" where
  "processMessageFilter n E cmd s =
     (if dest_id cmd = parent_fed then Some (co_transmit parent_route_id cmd s)
      else if dest_id cmd = co_me s
      then (case mv_find (ce_filters E) (getDest cmd) (co_filters s) of
              None \<Rightarrow> None
            | Some i \<Rightarrow>
                let filt = filters_of E s ! i
                in (case filterOp filt of
                      None \<Rightarrow> pass_filter n E filt cmd s
                    | Some op \<Rightarrow>
                        if fi_closed filt then pass_filter n E filt cmd s
                        else if cloning filt
                        then deliver_all (deliverMessage n E) E
                               (fo_processVector op (createMessageFromCommand (ce_time E) cmd)) s
                        else run_filter n E filt op cmd s))
      else Some (co_transmit (co_getRoute (dest_id cmd) s) cmd s))"

end
