(* ===== verification/Core_Interfaces.thy ===== *)
theory Core_Interfaces
  imports Core_Filters
begin

text \<open>
  The interfaces at a core (\<open>CommonCore.cpp\<close>): their registration, the links between them by name and by
  identifier, their closing, and the calls of the application that put the requests for these in the
  queue of the core. Errors of the calls are exceptions.
\<close>

section \<open>Registration\<close>

text \<open>The core becomes part of the time coordination of the federation.\<close>

definition link_to_parent ::
  "('t::linorder, 'd, 'x) core_env \<Rightarrow> ('t, 'd, 'x) CommonCore \<Rightarrow> ('t, 'd, 'x) CommonCore" where
  "link_to_parent E s =
     (let parent = fed_of_broker (co_higher s)
      in co_transmit (co_getRoute parent s) (mk_message_to (ce_time E) cmd_add_interdependency (co_me s) parent) s)"

definition register_endpoint ::
  "('t::linorder, 'd, 'x) core_env \<Rightarrow> 't ActionMessage \<Rightarrow> ('t, 'd, 'x) CommonCore \<Rightarrow> ('t, 'd, 'x) CommonCore" where
  "register_endpoint E command s =
     (let T = ce_time E; src = source_id command; parent = fed_of_broker (co_higher s);
          (isNew, tc) = ft_addDependency T src (co_timeCoord s); s1 = s\<lparr> co_timeCoord := tc \<rparr>;
          s2 = (if isNew
                then (case getFederateCore E src s1 of
                        None \<Rightarrow> s1
                      | Some f \<Rightarrow>
                          let sa = addFedAction f (mk_message_to T cmd_add_interdependency (co_me s1) src) s1
                          in sa\<lparr> co_timeCoord := snd (ft_addDependent (lf_global_id (fd_fed (feds_of E sa ! f)))
                                                        (co_timeCoord sa)) \<rparr>)
                else s1)
      in if co_hasTimeDependency s2 then s2
         else let (isNewParent, tc2) = ft_addDependency T parent (co_timeCoord s2); s3 = s2\<lparr> co_timeCoord := tc2 \<rparr>
              in if isNewParent
                 then let s4 = link_to_parent E (s3\<lparr> co_hasTimeDependency := True \<rparr>)
                      in s4\<lparr> co_timeCoord := snd (ft_addDependent parent (co_timeCoord s4)) \<rparr>
                 else s3)"

definition register_filter ::
  "('t::linorder, 'd, 'x) core_env \<Rightarrow> 't ActionMessage \<Rightarrow> ('t, 'd, 'x) CommonCore \<Rightarrow> ('t, 'd, 'x) core_outcome" where
  "register_filter E command s =
     do {
       (_, s1) \<leftarrow> createFilter E (co_local_id s) (source_handle command) (payload command)
                    (getString command 0) (getString command 1) (checkActionFlag (flags command) clone_flag) s;
       let parent = fed_of_broker (co_higher s1);
       Some (if co_hasFilters s1 then s1
             else let (isNew, tc) = ft_addDependent parent (co_timeCoord s1);
                      s2 = s1\<lparr> co_hasFilters := True, co_timeCoord := tc \<rparr>
                  in if isNew
                     then let s3 = link_to_parent E s2
                          in s3\<lparr> co_timeCoord := snd (ft_addDependency (ce_time E) parent (co_timeCoord s3)) \<rparr>
                     else s2)
     }"

text \<open>\<open>filthandle->used = true\<close> for a filter of the table.\<close>

definition use_filter :: "interface_handle \<Rightarrow> ('t, 'd, 'x) CommonCore \<Rightarrow> ('t, 'd, 'x) CommonCore" where
  "use_filter h s =
     (case getFilter_at h (co_loopHandles s) of
        None \<Rightarrow> s
      | Some i \<Rightarrow> s\<lparr> co_loopHandles := update_handle i (\<lambda>b. b\<lparr> used := True \<rparr>) (co_loopHandles s) \<rparr>)"

definition registerInterface ::
  "('t::linorder, 'd, 'x) core_env \<Rightarrow> 't ActionMessage \<Rightarrow> ('t, 'd, 'x) CommonCore \<Rightarrow> ('t, 'd, 'x) core_outcome" where
  "registerInterface E command s =
     (let act = messageAction command; h = source_handle command;
          copied = (case getHandleInfo h (co_handles s) of
                      None \<Rightarrow> s
                    | Some i \<Rightarrow> s\<lparr> co_loopHandles := addHandleAtIndex (hm_handles (co_handles s) ! i) (hid h)
                                                       (co_loopHandles s) \<rparr>);
          forward = (\<lambda>s. if payload command \<noteq> [] then co_transmit parent_route_id command s else s);
          own = Global_Handle (co_me s) (dest_handle command)
      in if dest_id command = parent_fed
         then if act = cmd_reg_input \<or> act = cmd_reg_pub then Some (forward copied)
              else if act = cmd_reg_end then Some (forward (register_endpoint E command copied))
              else if act = cmd_reg_filter then map_option forward (register_filter E command copied)
              else Some copied
         else if dest_id command = co_me s
         then if act = cmd_reg_end
              then Some (use_filter (dest_handle command)
                     (case mv_find (ce_filters E) own (co_filters s) of
                        None \<Rightarrow> s
                      | Some i \<Rightarrow>
                          let s1 = set_filter E i (\<lambda>f. f\<lparr> sourceTargets := sourceTargets f @ [getSource command] \<rparr>) s
                          in s1\<lparr> co_timeCoord := snd (ft_addDependency (ce_time E) (source_id command) (co_timeCoord s1)) \<rparr>))
              else if act = cmd_reg_filter then processFilterInfo E command s
              else Some s
         else Some (co_routeMessage_move E command s))"

section \<open>Targets\<close>

definition setAsUsed :: "nat \<Rightarrow> ('t, 'd, 'x) CommonCore \<Rightarrow> ('t, 'd, 'x) core_outcome" where
  "setAsUsed i s =
     (let hand = hm_handles (co_loopHandles s) ! i; mark = (\<lambda>b. b\<lparr> used := True \<rparr>)
      in if used hand then Some s
         else map_option (\<lambda>k. s\<lparr> co_loopHandles := update_handle i mark (co_loopHandles s),
                                 co_handles := update_handle k mark (co_handles s) \<rparr>)
                (getHandleInfo (handle (bh_handle hand)) (co_handles s)))"

text \<open>The command is passed by reference: the result has the command as the call leaves it.\<close>

definition addTargetToInterface ::
  "('t::linorder, 'd, 'x) core_env \<Rightarrow> 't ActionMessage \<Rightarrow> ('t, 'd, 'x) CommonCore
     \<Rightarrow> ('t ActionMessage \<times> ('t, 'd, 'x) CommonCore) option" where
  "addTargetToInterface E command s =
     (let failed = checkActionFlag (flags command) error_flag
      in if messageAction command = cmd_add_filter
         then do {
           s1 \<leftarrow> processFilterInfo E command s;
           Some (if source_id command \<noteq> co_me s1 \<and> \<not> failed
                 then (case getFederateCore E (dest_id command) s1 of
                         None \<Rightarrow> (command, s1)
                       | Some f \<Rightarrow> (let c = setAction cmd_add_dependent command in (c, addFedAction f c s1)))
                 else (command, s1))
         }
         else if dest_id command = co_me s
         then Some (command,
                if messageAction command = cmd_add_endpoint
                then use_filter (dest_handle command)
                       (case mv_find (ce_filters E) (Global_Handle (co_me s) (dest_handle command)) (co_filters s) of
                          None \<Rightarrow> s
                        | Some i \<Rightarrow>
                            let s1 = set_filter E i (\<lambda>f.
                                       if checkActionFlag (flags command) destination_target
                                       then f\<lparr> destTargets := destTargets f @ [getSource command] \<rparr>
                                       else f\<lparr> sourceTargets := sourceTargets f @ [getSource command] \<rparr>) s
                            in if failed then s1
                               else s1\<lparr> co_timeCoord := snd (ft_addDependency (ce_time E) (source_id command)
                                                              (co_timeCoord s1)) \<rparr>)
                else s)
         else (case getFederateCore E (dest_id command) s of
                 None \<Rightarrow> Some (command, s)
               | Some f \<Rightarrow>
                   let s1 = (if failed then s else addFedAction f command s)
                   in case getHandleInfo (dest_handle command) (co_loopHandles s1) of
                        None \<Rightarrow> Some (command, s1)
                      | Some i \<Rightarrow> map_option (\<lambda>s2. (command, s2)) (setAsUsed i s1)))"

definition removeTargetFromInterface ::
  "('t, 'd, 'x) core_env \<Rightarrow> 't ActionMessage \<Rightarrow> ('t, 'd, 'x) CommonCore \<Rightarrow> ('t, 'd, 'x) CommonCore" where
  "removeTargetFromInterface E command s =
     (if messageAction command = cmd_remove_filter
      then (case getFilterCoordinator (dest_handle command) s of
              (None, s1) \<Rightarrow> s1
            | (Some fc, s1) \<Rightarrow> closeFilter E fc (getSource command) s1)
      else if dest_id command = co_me s
      then if messageAction command = cmd_remove_endpoint
           then (case mv_find (ce_filters E) (getDest command) (co_filters s) of
                   None \<Rightarrow> s
                 | Some i \<Rightarrow> set_filter E i (fi_removeTarget (getSource command)) s)
           else s
      else (case getFederateCore E (dest_id command) s of
              None \<Rightarrow> s
            | Some f \<Rightarrow> addFedAction f command s))"

section \<open>Linking by name\<close>

text \<open>Two calls of \<open>addTargetToInterface\<close>; the second gets the command as \<open>back\<close> makes it of the first.\<close>

definition add_both ::
  "('t::linorder, 'd, 'x) core_env \<Rightarrow> 't ActionMessage \<Rightarrow> ('t ActionMessage \<Rightarrow> 't ActionMessage) \<Rightarrow> ('t, 'd, 'x) CommonCore
     \<Rightarrow> ('t, 'd, 'x) core_outcome" where
  "add_both E there back s =
     do { (c, s1) \<leftarrow> addTargetToInterface E there s; (_, s2) \<leftarrow> addTargetToInterface E (back c) s1; Some s2 }"

definition co_checkForNamedInterface ::
  "('t::linorder, 'd, 'x) core_env \<Rightarrow> 't ActionMessage \<Rightarrow> ('t, 'd, 'x) CommonCore \<Rightarrow> ('t, 'd, 'x) core_outcome" where
  "co_checkForNamedInterface E command s =
     (let act = messageAction command; name = payload command; hm = co_loopHandles s;
          link = (\<lambda>found make. case found of
                    None \<Rightarrow> Some (co_routeMessage_move E command s)
                  | Some i \<Rightarrow>
                      let b = hm_handles hm ! i
                      in if checkActionFlag (bh_flags b) disconnected_flag then Some s else make b);
          there = (\<lambda>a b. (setDestination (bh_handle b) (setAction a command))\<lparr> payload := [] \<rparr>)
      in if act = cmd_add_named_publication
         then link (getPublication name hm) (\<lambda>pub.
                add_both E (there cmd_add_subscriber pub)
                  (\<lambda>c. (swapSourceDest (setAction cmd_add_publisher c))
                         \<lparr> payload := name, stringData := [bh_type pub, bh_units pub] \<rparr>) s)
         else if act = cmd_add_named_input
         then link (getInput name hm) (\<lambda>inp.
                let c0 = there cmd_add_publisher inp;
                    c1 = (if stringData c0 = []
                          then (case findHandle (getSource c0) hm of
                                  None \<Rightarrow> c0
                                | Some p \<Rightarrow> c0\<lparr> stringData := [bh_type (hm_handles hm ! p), bh_units (hm_handles hm ! p)] \<rparr>)
                          else c0)
                in add_both E c1 (\<lambda>c. (swapSourceDest (setAction cmd_add_subscriber c))
                                         \<lparr> stringData := [], payload := name \<rparr>) s)
         else if act = cmd_add_named_filter
         then link (getFilter name hm) (\<lambda>filt.
                add_both E (there cmd_add_endpoint filt)
                  (\<lambda>c. let c2 = swapSourceDest (setAction cmd_add_filter c)
                        in if checkActionFlag (bh_flags filt) clone_flag then msg_setFlag clone_flag c2 else c2) s)
         else if act = cmd_add_named_endpoint
         then link (getEndpoint name hm) (\<lambda>ept.
                add_both E (there cmd_add_filter ept) (\<lambda>c. swapSourceDest (setAction cmd_add_endpoint c)) s)
         else Some s)"

definition co_removal :: "action_t \<Rightarrow> string \<Rightarrow> HandleManager \<Rightarrow> (nat option \<times> action_t \<times> action_t) option" where
  "co_removal act name hm =
     (if act = cmd_remove_named_publication
      then Some (getPublication name hm, cmd_remove_subscriber, cmd_remove_publication)
      else if act = cmd_remove_named_input then Some (getInput name hm, cmd_remove_publication, cmd_remove_subscriber)
      else if act = cmd_remove_named_filter then Some (getFilter name hm, cmd_remove_endpoint, cmd_remove_filter)
      else if act = cmd_remove_named_endpoint then Some (getEndpoint name hm, cmd_remove_filter, cmd_remove_endpoint)
      else None)"

definition co_removeNamedTarget ::
  "('t::linorder, 'd, 'x) core_env \<Rightarrow> 't ActionMessage \<Rightarrow> ('t, 'd, 'x) CommonCore \<Rightarrow> ('t, 'd, 'x) CommonCore" where
  "co_removeNamedTarget E command s =
     (case co_removal (messageAction command) (payload command) (co_loopHandles s) of
        None \<Rightarrow> s
      | Some (None, _, _) \<Rightarrow> co_routeMessage_move E command s
      | Some (Some i, there, back) \<Rightarrow>
          (let m1 = (setDestination (bh_handle (hm_handles (co_loopHandles s) ! i)) (setAction there command))
                      \<lparr> payload := [] \<rparr>
           in removeTargetFromInterface E (swapSourceDest (setAction back m1)) (removeTargetFromInterface E m1 s)))"

section \<open>Closing\<close>

text \<open>Of the destination targets those are notified that are source targets as well.\<close>

definition close_local_filter ::
  "('t::linorder, 'd, 'x) core_env \<Rightarrow> global_handle \<Rightarrow> nat \<Rightarrow> ('t, 'd, 'x) CommonCore \<Rightarrow> ('t, 'd, 'x) CommonCore" where
  "close_local_filter E h i s =
     (let filt = filters_of E s ! i; rem = setSource h (mk_message (ce_time E) cmd_remove_filter);
          tell = (\<lambda>s' target. co_routeMessage E (setDestination target rem) s');
          s1 = foldl tell s (sourceTargets filt);
          s2 = foldl tell s1 (filter (\<lambda>target. target \<in> set (sourceTargets filt)) (destTargets filt))
      in set_filter E i (\<lambda>f. fi_close (f\<lparr> sourceTargets := [], destTargets := [] \<rparr>)) s2)"

definition disconnectInterface ::
  "('t::linorder, 'd, 'x) core_env \<Rightarrow> 't ActionMessage \<Rightarrow> ('t, 'd, 'x) CommonCore \<Rightarrow> ('t, 'd, 'x) CommonCore" where
  "disconnectInterface E command s =
     (case getHandleInfo (source_handle command) (co_loopHandles s) of
        None \<Rightarrow> s
      | Some i \<Rightarrow>
          let info = hm_handles (co_loopHandles s) ! i
          in if checkActionFlag (bh_flags info) disconnected_flag then s
             else let s1 = s\<lparr> co_loopHandles := update_handle i (handle_setFlag disconnected_flag) (co_loopHandles s) \<rparr>;
                      s2 = (if getFederateId info = co_me s1
                            then (case mv_find (ce_filters E) (getSource command) (co_filters s1) of
                                    None \<Rightarrow> s1
                                  | Some k \<Rightarrow> close_local_filter E (bh_handle info) k s1)
                            else if handleType info \<noteq> HT_filter
                            then (case getFederateCore E (source_id command) s1 of
                                    None \<Rightarrow> s1
                                  | Some f \<Rightarrow> addFedAction f command s1)
                            else s1)
                  in if checkActionFlag (bh_flags info) nameless_interface_flag then s2
                     else co_transmit parent_route_id command s2)"

section \<open>Calls of the application\<close>

definition createBasicHandle ::
  "global_federate_id \<Rightarrow> local_federate_id \<Rightarrow> handle_type \<Rightarrow> string \<Rightarrow> string \<Rightarrow> string \<Rightarrow> uint16
     \<Rightarrow> ('t, 'd, 'x) CommonCore \<Rightarrow> BasicHandleInfo \<times> ('t, 'd, 'x) CommonCore" where
  "createBasicHandle fed loc ht key type units fl s =
     (let (i, hm) = addHandle fed ht key type units (co_handles s);
          hm1 = update_handle i (\<lambda>h. h\<lparr> local_fed_id := loc, bh_flags := fl \<rparr>) hm
      in (hm_handles hm1 ! i, s\<lparr> co_handles := hm1 \<rparr>))"

text \<open>\<open>registerInput\<close>, \<open>registerPublication\<close> and \<open>registerEndpoint\<close>. The identifiers and the interface flags
  of the federate are arguments; \<open>None\<close> stands for a federate that does not exist. What the federate
  itself creates is the concern of its interfaces.\<close>

definition register_texts :: "handle_type \<Rightarrow> (string \<times> string \<times> action_t) option" where
  "register_texts ht =
     (case ht of
        HT_input \<Rightarrow> Some (''federateID not valid (registerNamedInput)'', ''named Input already exists'', cmd_reg_input)
      | HT_publication \<Rightarrow> Some (''federateID not valid (registerPublication)'', ''Publication key already exists'', cmd_reg_pub)
      | HT_endpoint \<Rightarrow> Some (''federateID not valid (registerEndpoint)'', ''endpoint name is already used'', cmd_reg_end)
      | _ \<Rightarrow> None)"

definition registerFederateInterface ::
  "('t::linorder, 'd, 'x) core_env \<Rightarrow> handle_type \<Rightarrow> (global_federate_id \<times> local_federate_id \<times> uint16) option
     \<Rightarrow> string \<Rightarrow> string \<Rightarrow> string \<Rightarrow> ('t, 'd, 'x) CommonCore
     \<Rightarrow> (helics_exception + (interface_handle \<times> ('t, 'd, 'x) CommonCore)) option" where
  "registerFederateInterface E ht fed key type units s =
     map_option (\<lambda>(noFed, taken, act).
       case fed of
         None \<Rightarrow> Inl (InvalidIdentifier noFed)
       | Some (g, loc, fl) \<Rightarrow>
           if by_name ht key (co_handles s) \<noteq> None then Inl (RegistrationFailure taken)
           else let un = (if ht = HT_endpoint then [] else units);
                    (info, s1) = createBasicHandle g loc ht key type un fl s;
                    m = (mk_message (ce_time E) act)
                          \<lparr> source_id := g, source_handle := getInterfaceHandle info, flags := bh_flags info,
                            payload := key, stringData := (if ht = HT_endpoint then [type] else [type, un]) \<rparr>
                in Inr (getInterfaceHandle info, co_queue m s1))
       (register_texts ht)"

text \<open>\<open>registered\<close> is what \<open>waitCoreRegistration\<close> returns.\<close>

definition registerFilter ::
  "('t::linorder, 'd, 'x) core_env \<Rightarrow> bool \<Rightarrow> bool \<Rightarrow> string \<Rightarrow> string \<Rightarrow> string \<Rightarrow> ('t, 'd, 'x) CommonCore
     \<Rightarrow> helics_exception + (interface_handle \<times> ('t, 'd, 'x) CommonCore)" where
  "registerFilter E clone registered filterName tin tout s =
     (if filterName \<noteq> [] \<and> getFilter filterName (co_handles s) \<noteq> None
      then Inl (RegistrationFailure ''there already exists a filter with this name'')
      else if \<not> registered
      then Inl (RegistrationFailure (if BS_terminating \<le> co_state s
             then ''core is terminated no further registration possible'' else ''registration timeout exceeded''))
      else let brkid = fed_of_broker (co_global_id s);
               (info, s1) = createBasicHandle brkid default_local_federate_id HT_filter filterName tin tout
                              (if clone then make_flags clone_flag else 0) s;
               m = (mk_message (ce_time E) cmd_reg_filter)
                     \<lparr> source_id := brkid, source_handle := getInterfaceHandle info, payload := bh_key info,
                       flags := (if clone then setActionFlag 0 clone_flag else 0),
                       stringData := (if tin \<noteq> [] \<or> tout \<noteq> [] then [tin, tout] else []) \<rparr>
           in Inr (getInterfaceHandle info, co_queue m s1))"

text \<open>\<open>send\<close>, \<open>sendEvent\<close> and \<open>sendMessage\<close> from an endpoint; \<open>minTime\<close> is \<open>nextAllowedSendTime\<close> of the
  federate the endpoint belongs to.\<close>

definition sending_endpoint ::
  "interface_handle \<Rightarrow> ('t, 'd, 'x) CommonCore \<Rightarrow> helics_exception + BasicHandleInfo" where
  "sending_endpoint h s =
     (case getHandleInfo h (co_handles s) of
        None \<Rightarrow> Inl (InvalidIdentifier ''handle is not valid'')
      | Some i \<Rightarrow> let info = hm_handles (co_handles s) ! i
                  in if handleType info \<noteq> HT_endpoint
                     then Inl (InvalidIdentifier ''handle does not point to an endpoint'')
                     else Inr info)"

definition co_send ::
  "('t::linorder, 'd, 'x) core_env \<Rightarrow> 't \<Rightarrow> 't option \<Rightarrow> interface_handle \<Rightarrow> string \<Rightarrow> string \<Rightarrow> ('t, 'd, 'x) CommonCore
     \<Rightarrow> helics_exception + ('t, 'd, 'x) CommonCore" where
  "co_send E minTime at sourceHandle destination bytes s =
     (case sending_endpoint sourceHandle s of
        Inl e \<Rightarrow> Inl e
      | Inr info \<Rightarrow>
          let mid = co_messageCounter s + 1
          in Inr (co_queue ((mk_message (ce_time E) cmd_send_message)
               \<lparr> messageID := mid, source_handle := sourceHandle, source_id := getFederateId info,
                 payload := bytes, stringData := [destination, bh_key info, bh_key info],
                 actionTime := (case at of None \<Rightarrow> minTime | Some t \<Rightarrow> max t minTime) \<rparr>)
               (s\<lparr> co_messageCounter := mid \<rparr>)))"

definition co_sendMessage ::
  "('t::linorder, 'd, 'x) core_env \<Rightarrow> bool \<Rightarrow> 't \<Rightarrow> interface_handle \<Rightarrow> 't Message \<Rightarrow> ('t, 'd, 'x) CommonCore
     \<Rightarrow> helics_exception + ('t, 'd, 'x) CommonCore" where
  "co_sendMessage E registered minTime sourceHandle message s =
     (let m = message_to_command (ce_time E) message
      in if sourceHandle = direct_send_handle
         then if \<not> registered
              then Inl (FunctionExecutionFailure ''core is unable to register and has timed out, message was not sent'')
              else Inr (co_queue (m\<lparr> source_id := fed_of_broker (co_global_id s), source_handle := sourceHandle \<rparr>) s)
         else case sending_endpoint sourceHandle s of
                Inl e \<Rightarrow> Inl e
              | Inr info \<Rightarrow>
                  let fresh = (messageID m = 0); mid = (if fresh then co_messageCounter s + 1 else messageID m)
                  in Inr (co_queue (m\<lparr> stringData := (stringData m)[1 := bh_key info],
                             source_id := getFederateId info, source_handle := sourceHandle, messageID := mid,
                             actionTime := max (actionTime m) minTime \<rparr>)
                       (if fresh then s\<lparr> co_messageCounter := mid \<rparr> else s)))"

text \<open>\<open>addDestinationTarget\<close> and \<open>addSourceTarget\<close>.\<close>

definition addTarget ::
  "('t::linorder, 'd, 'x) core_env \<Rightarrow> bool \<Rightarrow> interface_handle \<Rightarrow> string \<Rightarrow> ('t, 'd, 'x) CommonCore
     \<Rightarrow> helics_exception + ('t, 'd, 'x) CommonCore" where
  "addTarget E toDest h target s =
     (case getHandleInfo h (co_handles s) of
        None \<Rightarrow> Inl (InvalidIdentifier ''invalid handle'')
      | Some i \<Rightarrow>
          let info = hm_handles (co_handles s) ! i;
              c0 = (setSource (bh_handle info) (mk_message (ce_time E) cmd_ignore))
                     \<lparr> flags := (if toDest then setActionFlag (bh_flags info) destination_target else bh_flags info),
                       payload := target \<rparr>;
              anonymous = (bh_key info = [])
          in case handleType info of
               HT_endpoint \<Rightarrow> Inr (co_queue (setAction cmd_add_named_filter c0) s)
             | HT_filter \<Rightarrow>
                 (let c1 = setAction cmd_add_named_endpoint c0;
                      c2 = (if anonymous \<and> (type_in info \<noteq> [] \<or> type_out info \<noteq> [])
                            then c1\<lparr> stringData := [type_in info, type_out info] \<rparr> else c1)
                  in Inr (co_queue (if checkActionFlag (bh_flags info) clone_flag then msg_setFlag clone_flag c2 else c2) s))
             | HT_publication \<Rightarrow>
                 (if toDest
                  then Inr (co_queue (let c1 = setAction cmd_add_named_input c0
                                      in if anonymous then c1\<lparr> stringData := [bh_type info, bh_units info] \<rparr> else c1) s)
                  else Inl (InvalidIdentifier ''publications cannot have source targets''))
             | HT_input \<Rightarrow>
                 (if toDest then Inl (InvalidIdentifier ''inputs cannot have destination targets'')
                  else Inr (co_queue (setAction cmd_add_named_publication c0) s))
             | HT_unknown \<Rightarrow>
                 Inl (InvalidIdentifier (if toDest then ''inputs cannot have destination targets''
                                         else ''publications cannot have source targets'')))"

definition handle_type_code :: "handle_type \<Rightarrow> int32" where
  "handle_type_code ht = word_of_nat (of_char (handle_type_char ht))"

definition closeHandle ::
  "('t::linorder, 'd, 'x) core_env \<Rightarrow> interface_handle \<Rightarrow> ('t, 'd, 'x) CommonCore
     \<Rightarrow> helics_exception + ('t, 'd, 'x) CommonCore" where
  "closeHandle E h s =
     (case getHandleInfo h (co_handles s) of
        None \<Rightarrow> Inl (InvalidIdentifier ''invalid handle'')
      | Some i \<Rightarrow>
          let info = hm_handles (co_handles s) ! i
          in if checkActionFlag (bh_flags info) disconnected_flag then Inr s
             else let s1 = co_queue ((setSource (bh_handle info) (mk_message (ce_time E) cmd_close_interface))
                             \<lparr> messageID := handle_type_code (handleType info) \<rparr>) s
                  in Inr (s1\<lparr> co_handles := update_handle i (handle_setFlag disconnected_flag) (co_handles s1) \<rparr>))"

text \<open>The airlock that takes the operator of a filter to the core; \<open>None\<close>: the call waits until the lock is
  empty.\<close>

definition getNextAirlockIndex :: "('t, 'd, 'x) CommonCore \<Rightarrow> uint16 \<times> ('t, 'd, 'x) CommonCore" where
  "getNextAirlockIndex s =
     (let n = co_nextAirLock s; index = (if 3 < n then n mod 4 else n); n1 = n + 1
      in (index, s\<lparr> co_nextAirLock := (if index = 3 \<and> n1 = 4 then 0 else n1) \<rparr>))"

definition UPDATE_FILTER_OPERATOR :: int32 where "UPDATE_FILTER_OPERATOR = 572"

definition setFilterOperator ::
  "('t::linorder, 'd, 'x) core_env \<Rightarrow> interface_handle \<Rightarrow> 't FilterOperator option \<Rightarrow> ('t, 'd, 'x) CommonCore
     \<Rightarrow> (helics_exception + ('t, 'd, 'x) CommonCore) option" where
  "setFilterOperator E filt callback s =
     (case getHandleInfo filt (co_handles s) of
        None \<Rightarrow> Some (Inl (InvalidIdentifier ''filter is not a valid handle''))
      | Some i \<Rightarrow>
          if handleType (hm_handles (co_handles s) ! i) \<noteq> HT_filter
          then Some (Inl (InvalidIdentifier ''filter identifier does not point a filter''))
          else let op = (case callback of None \<Rightarrow> NullFilterOperator | Some f \<Rightarrow> f);
                   (ii, s1) = getNextAirlockIndex s
               in if co_airlocks s1 ii \<noteq> None then None
                  else Some (Inr (co_queue ((mk_message (ce_time E) cmd_core_configure)
                         \<lparr> messageID := UPDATE_FILTER_OPERATOR, counter := ii, source_handle := filt \<rparr>)
                         (s1\<lparr> co_airlocks := (co_airlocks s1)(ii \<mapsto> op) \<rparr>))))"

end
