(* ===== verification/Core_Processing.thy ===== *)
theory Core_Processing
  imports Core_Interfaces
begin

text \<open>
  The message processing of a core (\<open>CommonCore::processCommand\<close>, \<open>processPriorityCommand\<close>), with the check
  of its dependencies at the entry into initialization and the supervision of its parent. The result
  \<open>None\<close> is an iterator or a pointer used without being set, or too many nested deliveries, as in the
  theories this one imports. Log levels and callbacks are not modelled.
\<close>

section \<open>Dependencies\<close>

text \<open>The loop over the federates with endpoints: observers and federates that are only sources. The two
  booleans tell whether there is one.\<close>

definition check_special ::
  "('t::linorder, 'd, 'x) core_env \<Rightarrow> bool \<times> bool \<times> ('t, 'd, 'x) CommonCore \<Rightarrow> nat
     \<Rightarrow> bool \<times> bool \<times> ('t, 'd, 'x) CommonCore" where
  "check_special E acc i =
     (let (isobs, issource, s) = acc; f = fd_fed (feds_of E s ! i); g = lf_global_id f;
          say = (\<lambda>act. addFedAction i (mk_message_to (ce_time E) act (co_me s) g))
      in if lf_endpointCount f = 0 then acc
         else if lf_observer f
         then (True, issource, say cmd_remove_dependent (s\<lparr> co_timeCoord := ft_removeDependency g (co_timeCoord s) \<rparr>))
         else if lf_source_only f
         then (isobs, True, say cmd_remove_dependency (s\<lparr> co_timeCoord := ft_removeDependent g (co_timeCoord s) \<rparr>))
         else acc)"

text \<open>The identifiers found among the dependents: the last local one, the last other one, and how many are local.\<close>

definition split_dependents ::
  "('t, 'd, 'x) core_env \<Rightarrow> ('t, 'd, 'x) CommonCore \<Rightarrow> nat \<times> global_federate_id \<times> global_broker_id" where
  "split_dependents E s =
     foldl (\<lambda>(localcnt, fedid, brkid) dep.
              if isLocal E dep s then (Suc localcnt, dep, brkid) else (localcnt, fedid, broker_of_fed dep))
       (0, default_global_federate_id, default_global_broker_id) (ft_dependents (co_timeCoord s))"

text \<open>The core takes itself out of the chain between one federate and its parent.\<close>

definition step_aside ::
  "('t::linorder, 'd, 'x) core_env \<Rightarrow> bool \<Rightarrow> bool \<Rightarrow> global_federate_id \<Rightarrow> global_federate_id \<Rightarrow> ('t, 'd, 'x) CommonCore
     \<Rightarrow> ('t, 'd, 'x) CommonCore" where
  "step_aside E isobs issource fedid brkid s =
     (let T = ce_time E;
          tc = ft_removeDependent fedid (ft_removeDependent brkid
                 (ft_removeDependency fedid (ft_removeDependency brkid (co_timeCoord s))));
          s1 = s\<lparr> co_timeCoord := tc, co_hasTimeDependency := False \<rparr>;
          say = (\<lambda>act src dest. co_routeMessage_to E ((mk_message T act)\<lparr> source_id := src \<rparr>) dest);
          s2 = say cmd_remove_interdependency (co_me s1) fedid (say cmd_remove_interdependency (co_me s1) brkid s1)
      in if isobs then say cmd_add_dependency brkid fedid (say cmd_add_dependent fedid brkid s2)
         else if issource then say cmd_add_dependent brkid fedid (say cmd_add_dependency fedid brkid s2)
         else say cmd_add_interdependency brkid fedid
                (say cmd_add_interdependency fedid fedid (say cmd_add_interdependency fedid brkid s2)))"

definition co_checkDependencies :: "('t::linorder, 'd, 'x) core_env \<Rightarrow> ('t, 'd, 'x) CommonCore \<Rightarrow> ('t, 'd, 'x) CommonCore" where
  "co_checkDependencies E s =
     (let (isobs, issource, s1) = foldl (check_special E) (False, False, s) [0..<mv_size (ce_federates E) (co_federates s)];
          (localcnt, fedid, brkid) = split_dependents E s1; brk = fed_of_broker brkid
      in if co_hasFilters s1 then s1
         else if 2 < length (ft_dependents (co_timeCoord s1)) then s1
         else if 2 < length (ft_getDependencies (co_timeCoord s1)) then s1
         else if 1 < localcnt then s1
         else if localcnt = 0 \<and> \<not> broker_isValid brkid then s1\<lparr> co_hasTimeDependency := False \<rparr>
         else if \<exists>dep \<in> set (ft_getDependencies (co_timeCoord s1)). \<not> (dep = fedid \<or> dep = brk) then s1
         else step_aside E isobs issource fedid brk s1)"

section \<open>Entering initialization\<close>

text \<open>\<open>compare_exchange_strong\<close> from connected to initializing; \<open>init\<close> is the message for the parent.\<close>

definition co_try_init ::
  "('t::linorder, 'd, 'x) core_env \<Rightarrow> 't ActionMessage \<Rightarrow> ('t, 'd, 'x) CommonCore \<Rightarrow> ('t, 'd, 'x) CommonCore" where
  "co_try_init E init s =
     (if co_allInitReady E s \<and> co_state s = BS_connected
      then let s1 = co_checkDependencies E (s\<lparr> co_state := BS_initializing \<rparr>)
           in co_transmit parent_route_id (init\<lparr> source_id := co_me s1 \<rparr>) s1
      else s)"

definition co_process_init ::
  "('t::linorder, 'd, 'x) core_env \<Rightarrow> 't ActionMessage \<Rightarrow> ('t, 'd, 'x) CommonCore \<Rightarrow> ('t, 'd, 'x) CommonCore" where
  "co_process_init E command s =
     (case getFederateCore E (source_id command) s of
        None \<Rightarrow> s
      | Some i \<Rightarrow> co_try_init E command
                    (set_fed E i (\<lambda>f. f\<lparr> fd_fed := (fd_fed f)\<lparr> lf_init_transmitted := True \<rparr> \<rparr>) s))"

definition co_process_init_grant ::
  "('t::linorder, 'd, 'x) core_env \<Rightarrow> 't ActionMessage \<Rightarrow> ('t, 'd, 'x) CommonCore \<Rightarrow> ('t, 'd, 'x) CommonCore" where
  "co_process_init_grant E command s =
     (if co_state s = BS_initializing
      then let s1 = organizeFilterOperations E (s\<lparr> co_state := BS_operating \<rparr>);
               s2 = tell_federates E (\<lambda>f. True) (\<lambda>f. command) s1;
               s3 = put_time (ft_enteringExecMode (ce_time E) (co_timeCoord s2)) s2;
               s4 = co_checkExec E s3
           in if hasActiveTimeDependencies (ce_time E) (ft_dependencies (co_timeCoord s4)) then s4
              else time_disconnect E s4
      else s)"

section \<open>Configuration\<close>

definition processCoreConfigureCommands ::
  "('t::linorder, 'd, 'x) core_env \<Rightarrow> 't ActionMessage \<Rightarrow> ('t, 'd, 'x) CommonCore \<Rightarrow> ('t, 'd, 'x) core_outcome" where
  "processCoreConfigureCommands E cmd s =
     (if messageID cmd = flag_enable_init_entry
      then let s1 = s\<lparr> co_delayInitCounter := co_delayInitCounter s - 1 \<rparr>
           in Some (if sint (co_delayInitCounter s1) \<le> 0
                    then co_try_init E ((setAction cmd_init cmd)\<lparr> dest_id := parent_fed \<rparr>) s1 else s1)
      else if messageID cmd = flag_terminate_on_error
      then Some (s\<lparr> co_terminate_on_error := checkActionFlag (flags cmd) indicator_flag \<rparr>)
      else if messageID cmd = flag_slow_responding
      then Some (s\<lparr> co_no_ping := checkActionFlag (flags cmd) indicator_flag \<rparr>)
      else if messageID cmd = UPDATE_FILTER_OPERATOR
      then (case (if unat (counter cmd) < 4 then Some (co_airlocks s (counter cmd)) else None) of
              None \<Rightarrow> None
            | Some None \<Rightarrow> Some s
            | Some (Some op) \<Rightarrow>
                map_option (\<lambda>i. set_filter E i (\<lambda>f. f\<lparr> filterOp := Some op \<rparr>)
                                  (s\<lparr> co_airlocks := (co_airlocks s)(counter cmd := None) \<rparr>))
                  (mv_find (ce_filters E) (Global_Handle (co_me s) (source_handle cmd)) (co_filters s)))
      else Some s)"

section \<open>Connecting\<close>

text \<open>\<open>res\<close> is what \<open>brokerConnect\<close> of the transport returns. A second call waits for the first.\<close>

definition co_connect ::
  "('t::linorder, 'd, 'x) core_env \<Rightarrow> bool \<Rightarrow> string \<Rightarrow> int \<Rightarrow> ('t, 'd, 'x) CommonCore \<Rightarrow> ('t, 'd, 'x) CommonCore" where
  "co_connect E res bkey to s =
     (if co_state s \<noteq> BS_configured then s
      else let s1 = s\<lparr> co_timeoutMon := setTimeout to (co_timeoutMon s) \<rparr>;
               m = (mk_message (ce_time E) cmd_reg_broker)
                     \<lparr> source_id := default_global_federate_id, payload := co_identifier s,
                       stringData := (if bkey = [] then [co_address s] else [co_address s, bkey]) \<rparr>;
               m1 = msg_setFlag core_flag m;
               m2 = (if co_no_ping s then msg_setFlag slow_responding_flag m1 else m1)
           in if res then (co_transmit parent_route_id m2 s1)\<lparr> co_state := BS_connected \<rparr> else s1)"

section \<open>Supervision\<close>

definition co_resend :: "('t::linorder, 'd, 'x) core_env \<Rightarrow> 't ActionMessage \<Rightarrow> ('t, 'd, 'x) CommonCore \<Rightarrow> ('t, 'd, 'x) CommonCore" where
  "co_resend E command s =
     (if messageID command = cmd_reg_broker \<and> (co_global_id s = parent_broker_id \<or> \<not> broker_isValid (co_global_id s))
      then co_transmit parent_route_id
             (msg_setFlag core_flag ((mk_message (ce_time E) cmd_reg_broker)
                \<lparr> source_id := default_global_federate_id, payload := co_identifier s, stringData := [co_address s],
                  counter := 1 \<rparr>)) s
      else s)"

definition co_parent_ping :: "('t::linorder, 'd, 'x) core_env \<Rightarrow> ('t, 'd, 'x) CommonCore \<Rightarrow> ('t, 'd, 'x) CommonCore" where
  "co_parent_ping E s =
     co_transmit parent_route_id (mk_message_to (ce_time E) cmd_ping_priority (co_me s) (fed_of_broker (co_higher s))) s"

text \<open>\<open>TimeoutMonitor::tick(CommonCore*)\<close>; the last two branches of the source do the same.\<close>

definition core_tick :: "('t::linorder, 'd, 'x) core_env \<Rightarrow> int \<Rightarrow> ('t, 'd, 'x) CommonCore \<Rightarrow> ('t, 'd, 'x) CommonCore" where
  "core_tick E now s =
     (let tm = co_timeoutMon s; pc = tm_parentConnection tm;
          named = (broker_isValid (co_local_id s) \<and> co_local_id s \<noteq> parent_broker_id)
      in if lc_waitingForPingReply pc
         then if now - lc_lastPing pc > tm_timeout tm
              then co_queue (mk_message (ce_time E) cmd_stop)
                     ((co_processDisconnect E False
                         (sendErrorToFederates E (- 5) ''core lost connection with broker'' s))\<lparr> co_state := BS_errored \<rparr>)
              else co_parent_ping E s
         else if co_isConnected s \<and> named
         then if broker_isValid (co_higher s)
              then let s1 = co_parent_ping E s
                   in s1\<lparr> co_timeoutMon := tm_set_parent
                            (\<lambda>c. c\<lparr> lc_lastPing := now, lc_waitingForPingReply := True \<rparr>) (co_timeoutMon s1) \<rparr>
              else s
         else if co_isConnected s
         then co_resend E ((mk_message (ce_time E) cmd_resend)\<lparr> messageID := cmd_reg_broker \<rparr>) s
         else if tm_waitingForConnection tm
         then if now - tm_startWaiting tm > tm_timeout tm
              then co_queue ((mk_message (ce_time E) cmd_check_connections)\<lparr> source_id := co_me s \<rparr>) s
              else s
         else s\<lparr> co_timeoutMon := tm\<lparr> tm_waitingForConnection := True, tm_startWaiting := now \<rparr> \<rparr>)"

definition core_pingReply :: "'t ActionMessage \<Rightarrow> TimeoutMonitor \<Rightarrow> TimeoutMonitor" where
  "core_pingReply cmd tm =
     (if source_id cmd = lc_connection (tm_parentConnection tm)
      then (tm_set_parent (\<lambda>c. c\<lparr> lc_waitingForPingReply := False \<rparr>) tm)\<lparr> tm_waitingForConnection := False \<rparr>
      else tm\<lparr> tm_connections := map (\<lambda>c. if source_id cmd = lc_connection c
                                          then c\<lparr> lc_waitingForPingReply := False \<rparr> else c) (tm_connections tm) \<rparr>)"

definition co_ping :: "('t::linorder, 'd, 'x) core_env \<Rightarrow> 't ActionMessage \<Rightarrow> ('t, 'd, 'x) CommonCore \<Rightarrow> ('t, 'd, 'x) CommonCore" where
  "co_ping E command s =
     (if dest_id command = co_me s
      then co_routeMessage E (mk_message_to (ce_time E) cmd_ping_reply (co_me s) (source_id command)) s else s)"

section \<open>Time messages\<close>

definition co_hold ::
  "'t ActionMessage \<Rightarrow> ('t, 'd, 'x) CommonCore \<Rightarrow> ('t, 'd, 'x) CommonCore" where
  "co_hold command s =
     s\<lparr> co_delayedTiming := (co_delayedTiming s)(source_id command :=
          co_delayedTiming s (source_id command) @ [copy_message command]) \<rparr>"

text \<open>\<open>isLocal\<close> with a filter under way for the sender.\<close>

definition in_filtering :: "('t, 'd, 'x) core_env \<Rightarrow> 't ActionMessage \<Rightarrow> ('t, 'd, 'x) CommonCore \<Rightarrow> bool" where
  "in_filtering E command s \<longleftrightarrow> isLocal E (source_id command) s \<and> co_ongoing s (source_id command) \<noteq> {}"

text \<open>A message of the core itself goes to each of its dependents.\<close>

definition co_to_dependents ::
  "('t::linorder, 'd, 'x) core_env \<Rightarrow> 't ActionMessage \<Rightarrow> ('t, 'd, 'x) CommonCore \<Rightarrow> ('t, 'd, 'x) CommonCore" where
  "co_to_dependents E command s =
     foldl (\<lambda>s' dep. co_routeMessage_to E command dep s') s (ft_dependents (co_timeCoord s))"

definition co_process_exec ::
  "('t::linorder, 'd, 'x) core_env \<Rightarrow> 't ActionMessage \<Rightarrow> ('t, 'd, 'x) CommonCore \<Rightarrow> ('t, 'd, 'x) CommonCore" where
  "co_process_exec E command s =
     (if in_filtering E command s then co_hold command s
      else if dest_id command = co_me s
      then let s1 = co_timeMessage E command s in if co_enteredExec s1 then s1 else co_checkExec E s1
      else if source_id command = co_me s then co_to_dependents E command s
      else co_routeMessage E command s)"

definition co_process_time ::
  "('t::linorder, 'd, 'x) core_env \<Rightarrow> 't ActionMessage \<Rightarrow> ('t, 'd, 'x) CommonCore \<Rightarrow> ('t, 'd, 'x) CommonCore" where
  "co_process_time E command s =
     (if in_filtering E command s then co_hold command s
      else if source_id command = co_me s then co_to_dependents E command s
      else co_routeMessage E command s)"

section \<open>Leaving\<close>

definition co_user_disconnect ::
  "('t::linorder, 'd, 'x) core_env \<Rightarrow> ('t, 'd, 'x) CommonCore \<Rightarrow> ('t, 'd, 'x) CommonCore" where
  "co_user_disconnect E s =
     co_queue (mk_message (ce_time E) cmd_stop)
       (if co_isConnected s
        then if co_state s < BS_terminating then co_goodbye E (co_sendDisconnect E (s\<lparr> co_state := BS_terminating \<rparr>)) else s
        else if co_state s = BS_errored then co_goodbye E (co_sendDisconnect E s)
        else s)"

definition co_stop :: "('t::linorder, 'd, 'x) core_env \<Rightarrow> ('t, 'd, 'x) CommonCore \<Rightarrow> ('t, 'd, 'x) CommonCore" where
  "co_stop E s =
     co_event (Queries_Closed ''#disconnected'')
       (if co_isConnected s \<and> co_state s < BS_terminating
        then co_goodbye E (co_sendDisconnect E (s\<lparr> co_state := BS_terminating \<rparr>)) else s)"

definition co_process_disconnect ::
  "('t::linorder, 'd, 'x) core_env \<Rightarrow> 't ActionMessage \<Rightarrow> ('t, 'd, 'x) CommonCore \<Rightarrow> ('t, 'd, 'x) CommonCore" where
  "co_process_disconnect E command s =
     (if dest_id command \<noteq> parent_fed then co_routeMessage E command s
      else if \<not> co_state s < BS_terminating then s
      else case getFederateCore E (source_id command) s of
             None \<Rightarrow> s
           | Some i \<Rightarrow>
               let s1 = set_fed E i (\<lambda>f. f\<lparr> fd_state := OS_disconnected \<rparr>) s;
                   (leaving, s2) = checkAndProcessDisconnect E s1
               in if leaving \<and> \<not> co_state s1 < BS_operating then s2
                  else let c = setAction cmd_disconnect_fed command; s3 = co_transmit parent_route_id c s2
                       in if minFederateState E s3 \<noteq> OS_disconnected
                          then co_routeMessage E ((setAction cmd_disconnect_fed_ack c)
                                 \<lparr> dest_id := source_id c, source_id := parent_fed \<rparr>) s3
                          else s3)"

definition co_core_ack ::
  "('t::linorder, 'd, 'x) core_env \<Rightarrow> 't ActionMessage \<Rightarrow> ('t, 'd, 'x) CommonCore \<Rightarrow> ('t, 'd, 'x) CommonCore" where
  "co_core_ack E command s =
     (if dest_id command = co_me s \<and> source_id command = fed_of_broker (co_higher s)
      then co_queue (mk_message (ce_time E) cmd_stop)
             (tell_federates E (\<lambda>f. lf_state (fd_fed f) \<noteq> HELICS_FINISHED)
                (\<lambda>f. mk_message_to (ce_time E) cmd_disconnect_fed_ack parent_fed (lf_global_id (fd_fed f))) s)
      else s)"

section \<open>Errors\<close>

definition escalate ::
  "('t::linorder, 'd, 'x) core_env \<Rightarrow> 't ActionMessage \<Rightarrow> ('t, 'd, 'x) CommonCore \<Rightarrow> ('t, 'd, 'x) CommonCore" where
  "escalate E command s =
     (let s1 = (if co_state s \<noteq> BS_errored
                then (sendErrorToFederates E (messageID command) (payload command) s)\<lparr> co_state := BS_errored \<rparr> else s)
      in co_transmit parent_route_id ((setAction cmd_global_error command)
           \<lparr> source_id := co_me s1, dest_id := fed_of_broker root_broker_id \<rparr>) s1)"

definition co_process_error ::
  "('t::linorder, 'd, 'x) core_env \<Rightarrow> 't ActionMessage \<Rightarrow> ('t, 'd, 'x) CommonCore \<Rightarrow> ('t, 'd, 'x) core_outcome" where
  "co_process_error E command s =
     (let failed = (\<lambda>f. f\<lparr> fd_state := OS_error \<rparr>); src = source_id command
      in if dest_id command = co_me s
         then do {
           s1 \<leftarrow> (if src = fed_of_broker (co_higher s) \<or> src = parent_fed \<or> src = fed_of_broker root_broker_id
                  then Some (co_setErrorState E (messageID command) (payload command)
                         (sendErrorToFederates E (messageID command) (payload command) s))
                  else map_option (\<lambda>i.
                         let sa = set_fed E i failed s
                         in if co_hasTimeDependency sa then co_timeMessage E command sa else sa)
                         (getFederateCore E src s));
           Some (if co_terminate_on_error s1 then escalate E command s1 else s1)
         }
         else if dest_id command = parent_fed
         then Some (if co_terminate_on_error s then escalate E command s
                    else co_routeMessage E command
                           (if fed_isValid src
                            then (case getFederateCore E src s of None \<Rightarrow> s | Some i \<Rightarrow> set_fed E i failed s)
                            else s))
         else Some (co_routeMessage E command s))"

definition co_global_error ::
  "('t::linorder, 'd, 'x) core_env \<Rightarrow> 't ActionMessage \<Rightarrow> ('t, 'd, 'x) CommonCore \<Rightarrow> ('t, 'd, 'x) CommonCore" where
  "co_global_error E command s =
     (let s1 = sendErrorToFederates E (messageID command) (payload command)
                 (co_setErrorState E (messageID command) (payload command) s)
      in if source_id command = fed_of_broker (co_higher s1) \<or> source_id command = fed_of_broker root_broker_id then s1
         else co_transmit parent_route_id command s1)"

section \<open>Links made by others\<close>

definition co_data_link ::
  "('t::linorder, 'd, 'x) core_env \<Rightarrow> 't ActionMessage \<Rightarrow> ('t, 'd, 'x) CommonCore \<Rightarrow> ('t, 'd, 'x) core_outcome" where
  "co_data_link E command s =
     (let hm = co_loopHandles s; target = getString command 0
      in case getPublication (payload command) hm of
           Some p \<Rightarrow> co_checkForNamedInterface E ((setSource (bh_handle (hm_handles hm ! p))
                       (setAction cmd_add_named_input command))\<lparr> payload := target, stringData := [] \<rparr>) s
         | None \<Rightarrow>
             (case getInput target hm of
                None \<Rightarrow> Some (co_routeMessage E command s)
              | Some i \<Rightarrow> co_checkForNamedInterface E ((setSource (bh_handle (hm_handles hm ! i))
                            (setAction cmd_add_named_publication command))\<lparr> stringData := [] \<rparr>) s))"

definition co_filter_link ::
  "('t::linorder, 'd, 'x) core_env \<Rightarrow> 't ActionMessage \<Rightarrow> ('t, 'd, 'x) CommonCore \<Rightarrow> ('t, 'd, 'x) core_outcome" where
  "co_filter_link E command s =
     (let hm = co_loopHandles s; target = getString command 0
      in case getFilter (payload command) hm of
           Some f \<Rightarrow>
             (let filt = hm_handles hm ! f;
                  c = (setSource (bh_handle filt) (setAction cmd_add_named_endpoint command))\<lparr> payload := target \<rparr>
              in co_checkForNamedInterface E
                   (if checkActionFlag (bh_flags filt) clone_flag then msg_setFlag clone_flag c else c) s)
         | None \<Rightarrow>
             (case getEndpoint target hm of
                None \<Rightarrow> Some (co_routeMessage E command s)
              | Some i \<Rightarrow> co_checkForNamedInterface E (setSource (bh_handle (hm_handles hm ! i))
                            (setAction cmd_add_named_filter command)) s))"

definition co_search_dependency ::
  "('t::linorder, 'd, 'x) core_env \<Rightarrow> 't ActionMessage \<Rightarrow> ('t, 'd, 'x) CommonCore \<Rightarrow> ('t, 'd, 'x) CommonCore" where
  "co_search_dependency E command s =
     (case mv_find_name (ce_federates E) (payload command) (co_federates s) of
        Some i \<Rightarrow>
          (let g = lf_global_id (fd_fed (feds_of E s ! i)); src = source_id command
           in if fed_isValid g
              then co_routeMessage E (mk_message_to (ce_time E) cmd_add_dependent src g)
                     (co_routeMessage E (mk_message_to (ce_time E) cmd_add_dependency g src) s)
              else co_transmit parent_route_id command s)
      | None \<Rightarrow> co_transmit parent_route_id command s)"

section \<open>Priority commands\<close>

text \<open>To the parent now, or when the core has its identifier.\<close>

definition to_parent_or_delay ::
  "'t ActionMessage \<Rightarrow> global_federate_id \<Rightarrow> ('t, 'd, 'x) CommonCore \<Rightarrow> ('t, 'd, 'x) CommonCore" where
  "to_parent_or_delay command waiting s =
     (if co_local_id s \<noteq> parent_broker_id then co_transmit parent_route_id (command\<lparr> source_id := co_me s \<rparr>) s
      else s\<lparr> co_delayTransmit := co_delayTransmit s @ [command\<lparr> source_id := waiting \<rparr>] \<rparr>)"

definition co_reg_fed ::
  "('t, 'd, 'x) core_env \<Rightarrow> 't ActionMessage \<Rightarrow> ('t, 'd, 'x) CommonCore \<Rightarrow> ('t, 'd, 'x) core_outcome" where
  "co_reg_fed E command s =
     (case co_registered s (payload command) of
        None \<Rightarrow> None
      | Some f \<Rightarrow>
          Some (to_parent_or_delay command (source_id command)
                  (case mv_insert (ce_federates E) (payload command) None \<lparr> fd_fed = f, fd_state = OS_operating \<rparr>
                          (co_federates s) of
                     None \<Rightarrow> s
                   | Some d \<Rightarrow> s\<lparr> co_federates := d \<rparr>)))"

definition NEW_BROKER_INFORMATION :: int32 where "NEW_BROKER_INFORMATION = 333"

definition co_broker_ack ::
  "('t::linorder, 'd, 'x) core_env \<Rightarrow> 't ActionMessage \<Rightarrow> ('t, 'd, 'x) CommonCore \<Rightarrow> ('t, 'd, 'x) CommonCore" where
  "co_broker_ack E command s =
     (if payload command \<noteq> co_identifier s then s
      else if checkActionFlag (flags command) error_flag
      then let estring = ''broker responded with error: '' @ errorMessageString command
           in errorRespondDelayed estring (co_setErrorState E (messageID command) estring s)
      else let gid = broker_of_fed (dest_id command);
               s1 = s\<lparr> co_global_id := gid, co_local_id := gid,
                       co_timeCoord := (co_timeCoord s)\<lparr> ft_source_id := fed_of_broker gid \<rparr>,
                       co_higher := broker_of_fed (source_id command) \<rparr>;
               s2 = co_transmitDelayed E s1;
               tm = setParentId (co_higher s2) (co_timeoutMon s2);
               tm1 = (if checkActionFlag (flags command) slow_responding_flag then disableParentPing True tm else tm);
               s3 = s2\<lparr> co_timeoutMon := tm_reset tm1 \<rparr>
           in if sint (co_delayInitCounter s3) < 0 \<and> co_minFederateCount s3 = 0
              then co_try_init E (mk_message_to (ce_time E) cmd_init parent_fed parent_fed) s3
              else s3)"

definition co_fed_ack ::
  "('t, 'd, 'x) core_env \<Rightarrow> 't ActionMessage \<Rightarrow> ('t, 'd, 'x) CommonCore \<Rightarrow> ('t, 'd, 'x) CommonCore" where
  "co_fed_ack E command s =
     (case mv_find_name (ce_federates E) (payload command) (co_federates s) of
        None \<Rightarrow> s
      | Some i \<Rightarrow>
          addFedAction i command
            (if checkActionFlag (flags command) error_flag then s
             else let s1 = set_fed E i (\<lambda>f. f\<lparr> fd_fed := (fd_fed f)\<lparr> lf_global_id := dest_id command \<rparr> \<rparr>) s
                  in s1\<lparr> co_federates := mv_add_key (ce_federates E) (dest_id command) i (co_federates s1) \<rparr>))"

definition query_reply ::
  "('t::linorder, 'd, 'x) core_env \<Rightarrow> 't ActionMessage \<Rightarrow> global_federate_id \<Rightarrow> 't ActionMessage" where
  "query_reply E command src =
     (mk_message_to (ce_time E) cmd_query_reply src (source_id command))
       \<lparr> messageID := messageID command, counter := counter command \<rparr>"

definition co_broker_query ::
  "('t::linorder, 'd, 'x) core_env \<Rightarrow> 't ActionMessage \<Rightarrow> ('t, 'd, 'x) CommonCore \<Rightarrow> ('t, 'd, 'x) CommonCore" where
  "co_broker_query E command s =
     (if dest_id command = co_me s \<or> dest_id command = direct_core_id
      then let repStr = ce_coreQuery E (payload command) s; rep = query_reply E command (co_me s)
           in if repStr = ''#wait'' then co_event (Query_Waits (payload command) rep) s
              else if source_id command = direct_core_id then co_event (Query_Answer (messageID command) repStr) s
              else co_transmit (co_getRoute (dest_id rep) s) (rep\<lparr> payload := repStr \<rparr>) s
      else co_routeMessage_move E command s)"

definition co_query ::
  "('t::linorder, 'd, 'x) core_env \<Rightarrow> 't ActionMessage \<Rightarrow> ('t, 'd, 'x) CommonCore \<Rightarrow> ('t, 'd, 'x) CommonCore" where
  "co_query E command s =
     (let target = getString command 0
      in if dest_id command = parent_fed
         then let up = (\<lambda>b. (setAction cmd_broker_query command)\<lparr> dest_id := fed_of_broker b, stringData := [] \<rparr>);
                  c = (if target = ''root'' \<or> target = ''federation'' then up root_broker_id
                       else if target = ''parent'' \<or> target = ''broker'' then up (co_higher s)
                       else command)
              in to_parent_or_delay c direct_core_id s
         else let fed = mv_find_name (ce_federates E) target (co_federates s);
                  reply = (\<lambda>src str. let rep = (query_reply E command src)\<lparr> payload := str \<rparr>
                                     in co_transmit (co_getRoute (dest_id rep) s) rep s)
              in if target = co_identifier s then reply (co_me s) (ce_coreQuery E (payload command) s)
                 else let repStr = ce_federateQuery E fed (payload command) s
                      in if repStr \<noteq> ''#wait'' then reply (dest_id command) repStr
                         else case fed of
                                Some i \<Rightarrow> addFedAction i (command\<lparr> dest_id := lf_global_id (fd_fed (feds_of E s ! i)) \<rparr>) s
                              | None \<Rightarrow> reply (dest_id command) ''#error'')"

text \<open>The cases of \<open>processPriorityCommand\<close>; \<open>rest\<close> is its default.\<close>

definition core_priority ::
  "('t::linorder, 'd, 'x) core_env \<Rightarrow> ('t, 'd, 'x) core_outcome \<Rightarrow> 't ActionMessage \<Rightarrow> ('t, 'd, 'x) CommonCore
     \<Rightarrow> ('t, 'd, 'x) core_outcome" where
  "core_priority E rest command s =
     (let act = messageAction command
      in if act = cmd_ping_priority then Some (co_ping E command s)
         else if act = cmd_reg_fed then co_reg_fed E command s
         else if act = cmd_broker_location
         then Some (co_queue ((mk_message (ce_time E) cmd_resend)\<lparr> messageID := cmd_reg_broker \<rparr>)
                (co_transmit control_route ((setAction cmd_protocol command)\<lparr> messageID := NEW_BROKER_INFORMATION \<rparr>) s))
         else if act = cmd_reg_broker
         then Some (if payload command = co_identifier s then s else co_transmit parent_route_id command s)
         else if act = cmd_broker_ack then Some (co_broker_ack E command s)
         else if act = cmd_fed_ack then Some (co_fed_ack E command s)
         else if act = cmd_register_route
         then Some (co_event (Core_Add_Route (Route_Id (getExtraData command)) 0 (payload command)) s)
         else if act = cmd_priority_disconnect
         then Some (snd (checkAndProcessDisconnect E (snd (checkAndProcessDisconnect E s))))
         else if act = cmd_broker_query then Some (co_broker_query E command s)
         else if act = cmd_query then Some (co_query E command s)
         else if act = cmd_query_reply
         then Some (if dest_id command = co_me s
                    then s\<lparr> co_events := co_events s @ ce_queryResponse E command s \<rparr>
                    else co_transmit (co_getRoute (dest_id command) s) command s)
         else if act = cmd_priority_ack \<or> act = cmd_route_ack then Some s
         else if act = cmd_set_global then Some (to_parent_or_delay command (source_id command) s)
         else rest)"

section \<open>Commands\<close>

definition core_sendMessage ::
  "nat \<Rightarrow> ('t::linorder, 'd, 'x) core_env \<Rightarrow> 't ActionMessage \<Rightarrow> ('t, 'd, 'x) CommonCore \<Rightarrow> ('t, 'd, 'x) core_outcome" where
  "core_sendMessage n E command s =
     (if dest_id command = parent_fed \<and> isLocal E (source_id command) s
      then do { (m, s1) \<leftarrow> processMessage n E command s; deliverMessage n E m s1 }
      else deliverMessage n E command s)"

definition core_processCommand ::
  "nat \<Rightarrow> ('t::linorder, 'd, 'x) core_env \<Rightarrow> int \<Rightarrow> 't ActionMessage \<Rightarrow> ('t, 'd, 'x) CommonCore
     \<Rightarrow> ('t, 'd, 'x) core_outcome" where
  "core_processCommand n E now command s =
     (let act = messageAction command
      in if act = cmd_ignore then Some s
         else if act = cmd_tick then Some (if co_state s = BS_operating then core_tick E now s else s)
         else if act = cmd_ping \<or> act = CMD_BROKER_PING then Some (co_ping E command s)
         else if act = cmd_ping_reply
         then Some (if dest_id command = co_me s
                    then s\<lparr> co_timeoutMon := core_pingReply command (co_timeoutMon s) \<rparr> else s)
         else if act = cmd_resend then Some (co_resend E command s)
         else if act = cmd_check_connections then Some (snd (checkAndProcessDisconnect E s))
         else if act = cmd_user_disconnect then Some (co_user_disconnect E s)
         else if act = cmd_broadcast_disconnect
         then Some (snd (checkAndProcessDisconnect E
                (tell_federates E (\<lambda>f. True) (\<lambda>f. command) (co_timeMessage E command s))))
         else if act = cmd_stop then Some (co_stop E s)
         else if act = cmd_exec_grant \<or> act = cmd_exec_request then Some (co_process_exec E command s)
         else if act = cmd_time_request \<or> act = cmd_time_grant then Some (co_process_time E command s)
         else if act = cmd_disconnect \<or> act = cmd_disconnect_fed then Some (co_process_disconnect E command s)
         else if act = cmd_disconnect_check then Some (snd (checkAndProcessDisconnect E s))
         else if act = cmd_disconnect_core_ack then Some (co_core_ack E command s)
         else if act = cmd_search_dependency then Some (co_search_dependency E command s)
         else if isDependencyCommand command then Some (co_routeMessage E command s)
         else if act = cmd_send_for_filter \<or> act = cmd_send_for_filter_return \<or> act = cmd_send_for_dest_filter_return
         then processMessageFilter n E command s
         else if act = cmd_null_message \<or> act = cmd_filter_result then processFilterReturn n E command s
         else if act = cmd_dest_filter_result \<or> act = cmd_null_dest_message
         then processDestFilterReturn E command s
         else if act = cmd_pub then Some (co_routeMessage E command s)
         else if act = cmd_log \<or> act = cmd_warning
         then Some (if dest_id command = co_me s then s else co_routeMessage E command s)
         else if act = cmd_error \<or> act = cmd_local_error then co_process_error E command s
         else if act = cmd_global_error then Some (co_global_error E command s)
         else if act = cmd_data_link then co_data_link E command s
         else if act = cmd_filter_link then co_filter_link E command s
         else if act \<in> {cmd_reg_input, cmd_reg_end, cmd_reg_pub, cmd_reg_filter} then registerInterface E command s
         else if act \<in> {cmd_add_named_endpoint, cmd_add_named_publication, cmd_add_named_input, cmd_add_named_filter}
         then co_checkForNamedInterface E command s
         else if act \<in> {cmd_add_endpoint, cmd_add_filter, cmd_add_subscriber, cmd_add_publisher}
         then map_option snd (addTargetToInterface E command s)
         else if act \<in> {cmd_remove_named_endpoint, cmd_remove_named_publication, cmd_remove_named_input,
                         cmd_remove_named_filter}
         then Some (co_removeNamedTarget E command s)
         else if act \<in> {cmd_remove_publication, cmd_remove_subscriber, cmd_remove_filter, cmd_remove_endpoint}
         then Some (removeTargetFromInterface E command s)
         else if act = cmd_close_interface then Some (disconnectInterface E command s)
         else if act = cmd_core_configure then processCoreConfigureCommands E command s
         else if act = cmd_init then Some (co_process_init E command s)
         else if act = cmd_init_grant then Some (co_process_init_grant E command s)
         else if act = cmd_send_message then core_sendMessage n E command s
         else if isPriorityCommand command then core_priority E (Some s) command s
         else Some s)"

definition core_processPriorityCommand ::
  "nat \<Rightarrow> ('t::linorder, 'd, 'x) core_env \<Rightarrow> int \<Rightarrow> 't ActionMessage \<Rightarrow> ('t, 'd, 'x) CommonCore
     \<Rightarrow> ('t, 'd, 'x) core_outcome" where
  "core_processPriorityCommand n E now command s =
     core_priority E (if isPriorityCommand command then Some s else core_processCommand n E now command s) command s"

end
