(* ===== verification/Core_Views.thy ===== *)
theory Core_Views
  imports Core_Processing
begin

text \<open>
  What sending and delivering leave alone. A view is a part of the state of a core that is independent
  of the members these change: for sending the events, the time coordinator and the state of the core,
  for delivering also the coordinators created on demand, the destination filter processes and the message counter.
  The lemmas for all views are proved once.
\<close>

lemma foldl_keeps_proj: "(\<And>s x. p (f s x) = p s) \<Longrightarrow> p (foldl f s xs) = p s"
  by (induction xs arbitrary: s) simp_all

section \<open>The loops over the filters, one filter at a time\<close>

lemma source_loop_closed:
  "fi_closed (filters_of E s ! f) \<Longrightarrow> source_loop n E fed len (f # fs) ii m s = source_loop n E fed len fs ii m s"
  by (simp only: source_loop.simps(2) Let_def if_True)

lemma source_loop_local:
  "\<not> fi_closed (filters_of E s ! f) \<Longrightarrow> fi_core_id (filters_of E s ! f) = co_local_id s
     \<Longrightarrow> filterOp (filters_of E s ! f) = Some op \<Longrightarrow> \<not> cloning (filters_of E s ! f)
     \<Longrightarrow> source_loop n E fed len (f # fs) ii m s =
       (case fo_process op (createMessageFromCommand (ce_time E) m) of
          Some msg \<Rightarrow> source_loop n E fed len fs (Suc ii) (assign_message m (message_to_command (ce_time E) msg)) s
        | None \<Rightarrow> Some (assign_message m (mk_message (ce_time E) cmd_ignore), s))"
  by (simp only: source_loop.simps(2) Let_def if_True if_False option.case simp_thms)

lemma source_loop_remote:
  "\<not> fi_closed (filters_of E s ! f) \<Longrightarrow> fi_core_id (filters_of E s ! f) \<noteq> co_local_id s
     \<Longrightarrow> \<not> cloning (filters_of E s ! f)
     \<Longrightarrow> source_loop n E fed len (f # fs) ii m s =
       Some (if ii < len - 1
             then (setAction cmd_send_for_filter_return (to_filter (filters_of E s ! f) ii m),
                   s\<lparr> co_ongoing := (co_ongoing s)(fed := insert (messageID m) (co_ongoing s fed)) \<rparr>)
             else (setAction cmd_send_for_filter (to_filter (filters_of E s ! f) ii m), s))"
  by (simp only: source_loop.simps(2) Let_def if_False simp_thms)

lemma return_loop_closed:
  "fi_closed (filters_of E s ! f)
     \<Longrightarrow> return_loop n E fed mid len (f # fs) ii cmd s = return_loop n E fed mid len fs (Suc ii) cmd s"
  by (simp only: return_loop.simps(2) Let_def if_True)

lemma return_loop_local:
  "\<not> fi_closed (filters_of E s ! f) \<Longrightarrow> fi_core_id (filters_of E s ! f) = co_local_id s
     \<Longrightarrow> return_loop n E fed mid len (f # fs) ii cmd s =
       (case filterOp (filters_of E s ! f) of
          None \<Rightarrow> None
        | Some op \<Rightarrow>
            (case fo_process op (createMessageFromCommand (ce_time E) cmd) of
               Some msg \<Rightarrow> return_loop n E fed mid len fs (Suc ii) (assign_message cmd (message_to_command (ce_time E) msg)) s
             | None \<Rightarrow> Some (release_timing E fed (filtering_done fed mid s))))"
  by (simp only: return_loop.simps(2) Let_def if_True if_False simp_thms)

lemma return_loop_remote:
  "\<not> fi_closed (filters_of E s ! f) \<Longrightarrow> fi_core_id (filters_of E s ! f) \<noteq> co_local_id s
     \<Longrightarrow> return_loop n E fed mid len (f # fs) ii cmd s =
       Some (release_timing E fed
         (if ii < len - 1
          then co_routeMessage E (setAction cmd_send_for_filter_return (to_filter (filters_of E s ! f) ii cmd)) s
          else co_routeMessage E (setAction cmd_send_for_filter (to_filter (filters_of E s ! f) ii cmd))
                 (filtering_done fed mid s)))"
  by (simp only: return_loop.simps(2) Let_def if_False simp_thms)

text \<open>What \<open>processFilterReturn\<close> can do with the next filter.\<close>

lemma return_loop_Cons:
  assumes "return_loop n E fed mid len (f # fs) ii cmd s = Some s'"
  shows "(\<exists>cmd'. return_loop n E fed mid len fs (Suc ii) cmd' s = Some s')
    \<or> s' = release_timing E fed (filtering_done fed mid s)
    \<or> (\<exists>m. s' = release_timing E fed (co_routeMessage E m s))
    \<or> (\<exists>m. s' = release_timing E fed (co_routeMessage E m (filtering_done fed mid s)))"
proof (cases "fi_closed (filters_of E s ! f)")
  case True
  then have "return_loop n E fed mid len fs (Suc ii) cmd s = Some s'"
    using assms by (simp only: return_loop_closed)
  then show ?thesis by (intro disjI1 exI)
next
  case open_filter: False
  show ?thesis
  proof (cases "fi_core_id (filters_of E s ! f) = co_local_id s")
    case True
    note eq = assms [unfolded return_loop_local [OF open_filter True]]
    then obtain op where "filterOp (filters_of E s ! f) = Some op"
      by (cases "filterOp (filters_of E s ! f)") simp_all
    with eq show ?thesis
      by (cases "fo_process op (createMessageFromCommand (ce_time E) cmd)") auto
  next
    case False
    from assms [unfolded return_loop_remote [OF open_filter False] option.inject] show ?thesis
      by (cases "ii < len - 1") (simp_all only: if_True if_False, blast+)
  qed
qed

section \<open>Views\<close>

locale route_view =
  fixes view :: "('t::linorder, 'd, 'x) CommonCore \<Rightarrow> 'v"
  assumes view_events [simp]: "view (s\<lparr> co_events := es \<rparr>) = view s"
    and view_time [simp]: "view (s\<lparr> co_timeCoord := tc \<rparr>) = view s"
    and view_state [simp]: "view (s\<lparr> co_state := st \<rparr>) = view s"
    and view_exec [simp]: "view (s\<lparr> co_enteredExec := en \<rparr>) = view s"
begin

lemma view_event [simp]: "view (co_event e s) = view s"
  by (simp add: co_event_def)

lemma view_put_time [simp]:
  "view (put_time tc s) = view s" "view (time_disconnect E s) = view s"
  "view (co_timeMessage E cmd s) = view s" "view (co_goodbye E s) = view s"
  by (simp_all add: put_time_def time_disconnect_def co_timeMessage_def co_goodbye_def)

lemma view_tell [simp]: "view (tell_federates E P m s) = view s"
  unfolding tell_federates_def by (rule foldl_keeps_proj) simp

lemma view_leave [simp]:
  "view (snd (checkAndProcessDisconnect E s)) = view s" "view (co_checkExec E s) = view s"
  "view (sendErrorToFederates E c m s) = view s"
  by (simp_all add: checkAndProcessDisconnect_def co_checkExec_def sendErrorToFederates_def Let_def split_beta)

lemma view_for_core [simp]: "view (processCommandsForCore E cmd s) = view s"
  by (simp add: processCommandsForCore_def Let_def split_beta)

lemma view_route [simp]:
  "view (route_with closed E cmd s) = view s" "view (co_routeMessage E cmd s) = view s"
  "view (co_routeMessage_move E cmd s) = view s" "view (co_routeMessage_to E cmd d s) = view s"
  "view (send_for_filter E cmd f s) = view s"
  by (simp_all add: route_with_def co_routeMessage_def co_routeMessage_move_def co_routeMessage_to_def
      send_for_filter_def split: option.split)

lemma view_route_all [simp]: "view (foldl (\<lambda>s' m. co_routeMessage E m s') s ms) = view s"
  by (rule foldl_keeps_proj) simp

end

locale core_view = route_view +
  assumes view_coord [simp]: "view (s\<lparr> co_filterCoord := fc \<rparr>) = view s"
    and view_dest [simp]: "view (s\<lparr> co_ongoingDest := od \<rparr>) = view s"
    and view_counter [simp]: "view (s\<lparr> co_messageCounter := mc \<rparr>) = view s"
begin

definition keeps_view where
  "keeps_view f \<longleftrightarrow> (\<forall>m s s'. f m s = Some s' \<longrightarrow> view s' = view s)"

lemma keeps_viewD: "keeps_view f \<Longrightarrow> f m s = Some s' \<Longrightarrow> view s' = view s"
  by (simp add: keeps_view_def)

lemma view_coordinator: "getFilterCoordinator h s = (fc, s') \<Longrightarrow> view s' = view s"
  by (auto simp: getFilterCoordinator_def split: option.splits if_splits)

lemma view_deliver_all: "keeps_view dlv \<Longrightarrow> deliver_all dlv E ms s = Some s' \<Longrightarrow> view s' = view s"
  by (induction dlv E ms s rule: deliver_all.induct) (auto simp: bind_eq_Some_conv dest: keeps_viewD)

lemma view_deliver_clone: "keeps_view dlv \<Longrightarrow> keeps_view (deliver_clone dlv E h)"
  by (auto simp: keeps_view_def deliver_clone_def)

lemma view_clone_at_dest:
  assumes "keeps_view dlv"
  shows "clone_at_dest dlv E h m cs s = Some s' \<Longrightarrow> view s' = view s"
proof (induction cs arbitrary: s)
  case (Cons c cs)
  note all = view_deliver_all [OF view_deliver_clone [OF assms]]
  show ?case
    using Cons.prems
    by (auto simp: Let_def bind_eq_Some_conv split: if_splits option.splits dest!: Cons.IH all)
qed simp

lemma view_to_endpoint [simp]: "view (to_endpoint E h m s) = view s"
  by (simp add: to_endpoint_def Let_def split: option.split)

lemma view_block: "block_for_filter E h f m s = Some s' \<Longrightarrow> view s' = view s"
  by (auto simp: block_for_filter_def Let_def)

lemma view_deliver_local:
  assumes dlv: "keeps_view dlv" and res: "deliver_local dlv E h m s = Some s'"
  shows "view s' = view s"
proof (cases "getFilterCoordinator (getInterfaceHandle h) s")
  case (Pair fc s1)
  note v = view_coordinator [OF Pair]
  show ?thesis
    using res v view_clone_at_dest [OF dlv]
    by (auto simp: deliver_local_def Let_def Pair bind_eq_Some_conv dest: view_block
        split: if_splits option.splits)
qed

lemma view_deliver: "deliverMessage n E m s = Some s' \<Longrightarrow> view s' = view s"
proof (induction n arbitrary: m s s')
  case (Suc n)
  have "keeps_view (deliverMessage n E)"
    using Suc.IH by (simp add: keeps_view_def)
  then show ?case
    using Suc.prems view_deliver_local by (auto split: if_splits option.splits)
qed simp

lemma view_deliver_messages: "deliver_all (deliverMessage n E) E ms s = Some s' \<Longrightarrow> view s' = view s"
  by (rule view_deliver_all) (auto simp: keeps_view_def dest: view_deliver)

end

text \<open>What is in filtering and held back for it.\<close>

definition in_flight :: "('t, 'd, 'x) CommonCore
  \<Rightarrow> (global_federate_id \<Rightarrow> int32 set) \<times> (global_federate_id \<Rightarrow> 't ActionMessage list)" where
  "in_flight s = (co_ongoing s, co_delayedTiming s)"

interpretation in_flight: core_view in_flight
  by unfold_locales (simp_all add: in_flight_def)

text \<open>Who and where the core is: its identifiers, its federates, its interfaces and its routes.\<close>

definition setting :: "('t, 'd, 'x) CommonCore
  \<Rightarrow> (global_broker_id \<times> global_broker_id) \<times> 'd \<times> 'x \<times> HandleManager \<times> (global_federate_id \<rightharpoonup> route_id)" where
  "setting s = ((co_local_id s, co_higher s), co_federates s, co_filters s, co_loopHandles s, co_routing s)"

interpretation setting: core_view setting
  by unfold_locales (simp_all add: setting_def)

text \<open>Routing also leaves the coordinators of the filters alone.\<close>

interpretation coordinators: route_view co_filterCoord
  by unfold_locales simp_all

end
