(* ===== verification/Core_Growth.thy ===== *)
theory Core_Growth
  imports Core_Views "HOL-Library.Sublist"
begin

text \<open>
  The events of a core only grow: what was sent stays sent. The relation is proved for sending and
  delivering, and with it where the messages go that \<open>routeMessage\<close> does not keep in the core.
\<close>

definition grows :: "('t, 'd, 'x) CommonCore \<Rightarrow> ('t, 'd, 'x) CommonCore \<Rightarrow> bool" where
  "grows s s' \<longleftrightarrow> prefix (co_events s) (co_events s')"

lemma grows_refl [simp, intro]: "grows s s"
  by (simp add: grows_def)

lemma grows_trans: "grows s s1 \<Longrightarrow> grows s1 s2 \<Longrightarrow> grows s s2"
  unfolding grows_def by (rule prefix_order.trans)

lemma growsD: "grows s s' \<Longrightarrow> \<exists>es. co_events s' = co_events s @ es"
  by (auto simp: grows_def prefix_def)

lemma grows_same: "co_events s' = co_events s \<Longrightarrow> grows s s'"
  by (simp add: grows_def)

lemma co_events_event [simp]: "co_events (co_event e s) = co_events s @ [e]"
  by (simp add: co_event_def)

lemma grows_event [simp]: "grows s0 s \<Longrightarrow> grows s0 (co_event e s)"
  by (simp add: grows_def)

lemma grows_fields [simp]:
  "grows s0 (s\<lparr> co_timeCoord := tc \<rparr>) = grows s0 s" "grows s0 (s\<lparr> co_state := st \<rparr>) = grows s0 s"
  "grows s0 (s\<lparr> co_enteredExec := en \<rparr>) = grows s0 s" "grows s0 (s\<lparr> co_filterCoord := fc \<rparr>) = grows s0 s"
  "grows s0 (s\<lparr> co_ongoingDest := od \<rparr>) = grows s0 s" "grows s0 (s\<lparr> co_messageCounter := mc \<rparr>) = grows s0 s"
  "grows s0 (s\<lparr> co_ongoing := og \<rparr>) = grows s0 s" "grows s0 (s\<lparr> co_delayedTiming := dt \<rparr>) = grows s0 s"
  "grows s0 (s\<lparr> co_delayTransmit := dd \<rparr>) = grows s0 s"
  by (simp_all add: grows_def)

lemma grows_put_time [simp]:
  "grows s0 s \<Longrightarrow> grows s0 (put_time tc s)" "grows s0 s \<Longrightarrow> grows s0 (time_disconnect E s)"
  "grows s0 s \<Longrightarrow> grows s0 (co_timeMessage E cmd s)" "grows s0 s \<Longrightarrow> grows s0 (co_goodbye E s)"
  by (simp_all add: grows_def put_time_def time_disconnect_def co_timeMessage_def co_goodbye_def)

lemma grows_foldl: "(\<And>s x. grows s (f s x)) \<Longrightarrow> grows s0 s \<Longrightarrow> grows s0 (foldl f s xs)"
proof (induction xs arbitrary: s)
  case (Cons x xs)
  show ?case
    using Cons.IH [OF Cons.prems(1) grows_trans [OF Cons.prems(2) Cons.prems(1)]] by simp
qed simp

lemma grows_tell [simp]: "grows s0 s \<Longrightarrow> grows s0 (tell_federates E P m s)"
  unfolding tell_federates_def by (rule grows_foldl) simp_all

lemma grows_for_core [simp]: "grows s0 s \<Longrightarrow> grows s0 (processCommandsForCore E cmd s)"
  by (simp add: processCommandsForCore_def checkAndProcessDisconnect_def co_checkExec_def Let_def split_beta)

lemma grows_route [simp]:
  "grows s0 s \<Longrightarrow> grows s0 (route_with closed E cmd s)" "grows s0 s \<Longrightarrow> grows s0 (co_routeMessage E cmd s)"
  "grows s0 s \<Longrightarrow> grows s0 (co_routeMessage_move E cmd s)" "grows s0 s \<Longrightarrow> grows s0 (send_for_filter E cmd f s)"
  by (simp_all add: route_with_def co_routeMessage_def co_routeMessage_move_def send_for_filter_def split: option.split)

lemma grows_coordinator: "getFilterCoordinator h s = (fc, s') \<Longrightarrow> co_events s' = co_events s"
  by (auto simp: getFilterCoordinator_def split: option.splits if_splits)

definition growing :: "('t ActionMessage \<Rightarrow> ('t, 'd, 'x) CommonCore \<Rightarrow> ('t, 'd, 'x) core_outcome) \<Rightarrow> bool" where
  "growing f \<longleftrightarrow> (\<forall>m s s'. f m s = Some s' \<longrightarrow> grows s s')"

lemma grows_deliver_all: "growing dlv \<Longrightarrow> deliver_all dlv E ms s = Some s' \<Longrightarrow> grows s s'"
proof (induction dlv E ms s rule: deliver_all.induct)
  case (3 dlv E m ms s)
  then obtain s1 where "dlv (message_to_command (ce_time E) m) s = Some s1" "grows s1 s'"
    by (auto simp: bind_eq_Some_conv)
  with 3(2) show ?case
    by (auto simp: growing_def elim: grows_trans [rotated])
qed simp_all

lemma grows_clone_at_dest:
  assumes "growing dlv"
  shows "clone_at_dest dlv E h m cs s = Some s' \<Longrightarrow> grows s s'"
proof (induction cs arbitrary: s)
  case (Cons c cs)
  have clone: "growing (deliver_clone dlv E h)"
    using assms by (auto simp: growing_def deliver_clone_def)
  show ?case
    using Cons.prems grows_trans [OF grows_deliver_all [OF clone] Cons.IH]
      grows_trans [OF grows_route(4) [OF grows_refl] Cons.IH]
    by (auto simp: Let_def bind_eq_Some_conv intro: Cons.IH split: if_splits option.splits)
qed simp

lemma grows_to_endpoint [simp]: "grows s0 s \<Longrightarrow> grows s0 (to_endpoint E h m s)"
  by (simp add: to_endpoint_def Let_def split: option.split)

lemma grows_block: "block_for_filter E h f m s = Some s' \<Longrightarrow> grows s s'"
  by (auto simp: block_for_filter_def Let_def)

lemma grows_deliver_local:
  assumes dlv: "growing dlv" and res: "deliver_local dlv E h m s = Some s'"
  shows "grows s s'"
proof (cases "getFilterCoordinator (getInterfaceHandle h) s")
  case (Pair fc s1)
  have s1: "grows s s2 = grows s1 s2" for s2
    using grows_coordinator [OF Pair] by (simp add: grows_def)
  have "grows s1 (to_endpoint E h m s)"
    using s1 grows_to_endpoint by blast
  then show ?thesis
    using res grows_clone_at_dest [OF dlv, of E h _ _ s1]
    by (auto simp: deliver_local_def Let_def Pair bind_eq_Some_conv s1 dest: grows_block
        split: if_splits option.splits)
qed

lemma grows_deliver: "deliverMessage n E m s = Some s' \<Longrightarrow> grows s s'"
proof (induction n arbitrary: m s s')
  case (Suc n)
  have "growing (deliverMessage n E)"
    using Suc.IH by (simp add: growing_def)
  then show ?case
    using Suc.prems grows_deliver_local by (auto split: if_splits option.splits)
qed simp

section \<open>Where a message goes\<close>

definition routes_to ::
  "('t, 'd, 'x) core_env \<Rightarrow> ('t, 'd, 'x) CommonCore \<Rightarrow> 't ActionMessage \<Rightarrow> 't core_event option" where
  "routes_to E s m =
     (if dest_id m = parent_fed \<or> dest_id m = fed_of_broker (co_higher s) then Some (Core_Transmit parent_route_id m)
      else case getFederateCore E (dest_id m) s of
             Some i \<Rightarrow> if lf_state (fd_fed (feds_of E s ! i)) \<in> {HELICS_FINISHED, HELICS_ERROR} then None
                       else Some (To_Federate i m)
           | None \<Rightarrow> Some (Core_Transmit (co_getRoute (dest_id m) s) m))"

lemma routes_to_setting: "setting s' = setting s \<Longrightarrow> routes_to E s' = routes_to E s"
  by (rule ext) (simp add: routes_to_def setting_def getFederateCore_def co_getRoute_def split: option.split)

lemma setting_me: "setting s' = setting s \<Longrightarrow> co_me s' = co_me s"
  by (simp add: setting_def co_me_def)

lemma route_event:
  "dest_id m \<noteq> co_me s \<Longrightarrow>
     co_events (co_routeMessage E m s) = co_events s @ (case routes_to E s m of None \<Rightarrow> [] | Some e \<Rightarrow> [e])"
  by (simp add: co_routeMessage_def route_with_def routes_to_def split: option.split)

lemma route_all_events:
  "\<forall>m \<in> set ms. dest_id m \<noteq> co_me s \<Longrightarrow>
     co_events (foldl (\<lambda>s' m. co_routeMessage E m s') s ms) = co_events s @ List.map_filter (routes_to E s) ms"
proof (induction ms arbitrary: s)
  case (Cons m ms)
  have "setting (co_routeMessage E m s) = setting s" by simp
  from setting_me [OF this] routes_to_setting [OF this, of E] Cons show ?case
    by (simp add: route_event map_filter_simps split: option.split)
qed (simp add: map_filter_simps)

end
