(* ===== verification/Core_Setup.thy ===== *)
theory Core_Setup
  imports Core_Growth Broker_Init
begin

text \<open>
  Concrete cores: one with a federate whose endpoint has two source filters, and the two cores of these
  filters. The vectors of the external library are the ones \<open>Broker_Init\<close> gives.
\<close>

type_synonym fed_vector = "(FedInfo, global_federate_id) listed"
type_synonym filter_vector = "(ticks FilterInfo, global_handle) listed"
type_synonym tick_core = "(ticks, fed_vector, filter_vector) CommonCore"

definition tick_core_env :: "(ticks, fed_vector, filter_vector) core_env" where
  "tick_core_env = \<lparr> ce_time = tick_rep, ce_le = True, ce_federates = listed_vector, ce_filters = listed_vector,
     ce_coreQuery = (\<lambda>q s. []), ce_federateQuery = (\<lambda>f q s. []), ce_queryResponse = (\<lambda>m s. []) \<rparr>"

abbreviation sender :: global_federate_id where "sender \<equiv> Global_Federate_Id 131072"
abbreviation first_core_id :: global_broker_id where "first_core_id \<equiv> Global_Broker_Id 0x70000000"
abbreviation second_core_id :: global_broker_id where "second_core_id \<equiv> Global_Broker_Id 0x70000001"
abbreviation third_core_id :: global_broker_id where "third_core_id \<equiv> Global_Broker_Id 0x70000002"

definition endpoint_info :: BasicHandleInfo where
  "endpoint_info = BasicHandleInfo_default\<lparr> bh_handle := Global_Handle sender (Interface_Handle 0),
     handleType := HT_endpoint, bh_key := ''ept'', bh_flags := make_flags has_source_filter_flag \<rparr>"

definition sender_info :: FedInfo where
  "sender_info = \<lparr> fd_fed = \<lparr> lf_global_id = sender, lf_state = HELICS_EXECUTING, lf_init_transmitted = True,
     lf_endpointCount = 1, lf_observer = False, lf_source_only = False \<rparr>, fd_state = OS_operating \<rparr>"

definition filter_at :: "global_broker_id \<Rightarrow> ticks FilterInfo" where
  "filter_at core = (mk_FilterInfo core (Interface_Handle 0) ''filt'' [] [])
     \<lparr> filterOp := Some \<lparr> fo_process = (\<lambda>m. Some (m\<lparr> msg_data := CHR ''x'' # msg_data m \<rparr>)),
                          fo_processVector = (\<lambda>m. [Some m]) \<rparr> \<rparr>"

text \<open>The core of the sender, in operation; \<open>fs\<close> are the cores of the source filters of the endpoint.\<close>

definition sending_core :: "global_broker_id list \<Rightarrow> tick_core" where
  "sending_core fs = (CommonCore_default tick_core_env ''one'')
     \<lparr> co_global_id := first_core_id, co_local_id := first_core_id, co_higher := Global_Broker_Id 1,
       co_state := BS_operating, co_hasFilters := True,
       co_federates := \<lparr> li_elems = [sender_info], li_names = [''fed'' \<mapsto> 0], li_keys = [sender \<mapsto> 0] \<rparr>,
       co_loopHandles := HandleManager_empty\<lparr> hm_handles := [endpoint_info], hm_endpoints := [''ept'' \<mapsto> Interface_Handle 0] \<rparr>,
       co_filters := \<lparr> li_elems = map filter_at fs, li_names = Map.empty, li_keys = Map.empty \<rparr>,
       co_filterCoord := [Interface_Handle 0 \<mapsto> FilterCoordinator_default
          \<lparr> hasSourceFilters := True, allSourceFilters := [0..<length fs], sourceFilters := [0..<length fs] \<rparr>] \<rparr>"

text \<open>The core of a filter.\<close>

definition filter_core :: "global_broker_id \<Rightarrow> tick_core" where
  "filter_core core = (CommonCore_default tick_core_env ''other'')
     \<lparr> co_global_id := core, co_local_id := core, co_higher := Global_Broker_Id 1, co_state := BS_operating,
       co_filters := \<lparr> li_elems = [filter_at core], li_names = Map.empty,
                       li_keys = [Global_Handle (fed_of_broker core) (Interface_Handle 0) \<mapsto> 0] \<rparr> \<rparr>"

definition sent_message :: "ticks ActionMessage" where
  "sent_message = (mk_message tick_rep cmd_send_message)
     \<lparr> messageID := 55, source_id := sender, source_handle := Interface_Handle 0, payload := ''data'',
       stringData := [''away'', ''ept'', ''ept''] \<rparr>"

definition time_message :: "ticks ActionMessage" where
  "time_message = mk_message_to tick_rep cmd_time_request sender (Global_Federate_Id 131073)"

lemma core_env_simps [simp]:
  "ce_time tick_core_env = tick_rep" "ce_federates tick_core_env = listed_vector" "ce_filters tick_core_env = listed_vector"
  by (simp_all add: tick_core_env_def)

lemma listed_simps [simp]:
  "mv_elems listed_vector = li_elems" "mv_find listed_vector k s = li_keys s k"
  by (simp_all add: listed_vector_def)

lemma sending_core_simps [simp]:
  "co_local_id (sending_core fs) = first_core_id" "co_higher (sending_core fs) = Global_Broker_Id 1"
  "co_state (sending_core fs) = BS_operating" "co_ongoing (sending_core fs) = (\<lambda>_. {})"
  "co_delayedTiming (sending_core fs) = (\<lambda>_. [])" "co_delayTransmit (sending_core fs) = []"
  "li_elems (co_federates (sending_core fs)) = [sender_info]" "li_keys (co_federates (sending_core fs)) = [sender \<mapsto> 0]"
  "hm_handles (co_loopHandles (sending_core fs)) = [endpoint_info]" "co_events (sending_core fs) = []"
  "li_elems (co_filters (sending_core fs)) = map filter_at fs" "co_routing (sending_core fs) = Map.empty"
  "co_filterCoord (sending_core fs) (Interface_Handle 0) = Some (FilterCoordinator_default
     \<lparr> hasSourceFilters := True, allSourceFilters := [0..<length fs], sourceFilters := [0..<length fs] \<rparr>)"
  by (simp_all add: sending_core_def CommonCore_default_def HandleManager_empty_def)

lemma filter_core_simps [simp]:
  "co_local_id (filter_core c) = c" "co_higher (filter_core c) = Global_Broker_Id 1"
  "co_events (filter_core c) = []" "li_elems (co_filters (filter_core c)) = [filter_at c]"
  "li_keys (co_filters (filter_core c)) = [Global_Handle (fed_of_broker c) (Interface_Handle 0) \<mapsto> 0]"
  "co_loopHandles (filter_core c) = HandleManager_empty" "co_routing (filter_core c) = Map.empty"
  "co_knownExternal (filter_core c) = Map.empty"
  by (simp_all add: filter_core_def CommonCore_default_def)

lemma example_infos [simp]:
  "handleType endpoint_info = HT_endpoint" "bh_handle endpoint_info = Global_Handle sender (Interface_Handle 0)"
  "getInterfaceHandle endpoint_info = Interface_Handle 0" "getFederateId endpoint_info = sender"
  "fi_core_id (filter_at c) = c" "fi_handle (filter_at c) = Interface_Handle 0" "\<not> cloning (filter_at c)"
  "\<not> fi_closed (filter_at c)" "lf_state (fd_fed sender_info) = HELICS_EXECUTING"
  by (simp_all add: endpoint_info_def filter_at_def mk_FilterInfo_def fi_closed_def sender_info_def
      getInterfaceHandle_def getFederateId_def checkActionFlag_def)

lemma endpoint_filtered: "checkActionFlag (bh_flags endpoint_info) has_source_filter_flag"
  by (simp add: endpoint_info_def make_flags_def checkActionFlag_def has_source_filter_flag_def extra_flag2_def)

lemma endpoint_lookup: "hm_handles hm = [endpoint_info] \<Longrightarrow> getEndpoint_at (Interface_Handle 0) hm = Some 0"
  by (simp add: getEndpoint_at_def isValidIndex_def)

end
