(* ===== verification/Core_Timing.thy ===== *)
theory Core_Timing
  imports Core_Setup
begin

text \<open>
  Time messages of a federate whose messages are in filtering are held back by its core. The theory shows
  that nothing is held back without a reason, over all states a core can reach, that what is held back
  keeps its order and that it is sent on when the last message is through.
\<close>

section \<open>Handlers that leave filtering alone\<close>

lemma pending_fields [simp]:
  "in_flight (s\<lparr> co_filters := fl \<rparr>) = in_flight s"
  "in_flight (s\<lparr> co_loopHandles := lh \<rparr>) = in_flight s" "in_flight (s\<lparr> co_handles := hs \<rparr>) = in_flight s"
  "in_flight (s\<lparr> co_federates := fs \<rparr>) = in_flight s" "in_flight (s\<lparr> co_delayTransmit := dt \<rparr>) = in_flight s"
  "in_flight (s\<lparr> co_timeoutMon := tm \<rparr>) = in_flight s" "in_flight (s\<lparr> co_airlocks := al \<rparr>) = in_flight s"
  "in_flight (s\<lparr> co_nextAirLock := na \<rparr>) = in_flight s" "in_flight (s\<lparr> co_hasFilters := hf \<rparr>) = in_flight s"
  "in_flight (s\<lparr> co_hasTimeDependency := htd \<rparr>) = in_flight s" "in_flight (s\<lparr> co_lastErrorString := ls \<rparr>) = in_flight s"
  "in_flight (s\<lparr> co_lastErrorCode := lc \<rparr>) = in_flight s" "in_flight (s\<lparr> co_terminate_on_error := te \<rparr>) = in_flight s"
  "in_flight (s\<lparr> co_no_ping := np \<rparr>) = in_flight s" "in_flight (s\<lparr> co_delayInitCounter := di \<rparr>) = in_flight s"
  "in_flight (s\<lparr> co_global_id := gi \<rparr>) = in_flight s" "in_flight (s\<lparr> co_local_id := li \<rparr>) = in_flight s"
  "in_flight (s\<lparr> co_higher := hi \<rparr>) = in_flight s" "in_flight (s\<lparr> co_registered := rg \<rparr>) = in_flight s"
  by (simp_all add: in_flight_def)

lemma pending_basic [simp]:
  "in_flight (set_fed E i f s) = in_flight s" "in_flight (set_filter E i g s) = in_flight s"
  "in_flight (use_filter h s) = in_flight s"
  by (simp_all add: set_fed_def set_filter_def use_filter_def split: option.split)

lemma pending_put_coordinator [simp]: "in_flight (put_coordinator h fc s) = in_flight s"
  by (simp add: put_coordinator_def in_flight_def)

lemma pending_link_to_parent [simp]: "in_flight (link_to_parent E s) = in_flight s"
  by (simp add: link_to_parent_def Let_def)

lemma pending_errors [simp]:
  "in_flight (co_setErrorState E c m s) = in_flight s" "in_flight (co_sendDisconnect E s) = in_flight s"
  "in_flight (co_processDisconnect E sk s) = in_flight s" "in_flight (errorRespondDelayed es s) = in_flight s"
  "in_flight (co_transmitDelayed E s) = in_flight s"
proof -
  show dis: "in_flight (co_sendDisconnect E s) = in_flight s" for s
    unfolding co_sendDisconnect_def Let_def by (simp add: foldl_keeps_proj [where p = in_flight])
  show "in_flight (co_processDisconnect E sk s) = in_flight s"
    by (simp add: co_processDisconnect_def Let_def dis)
qed (simp_all add: co_setErrorState_def errorRespondDelayed_def co_transmitDelayed_def Let_def
      foldl_keeps_proj [where p = in_flight])

lemma pending_create: "createFilter E d h k a b c s = Some (i, s') \<Longrightarrow> in_flight s' = in_flight s"
  by (auto simp: createFilter_def Let_def split_beta)

lemma pending_find_or_create: "find_or_create E c s = Some (i, s') \<Longrightarrow> in_flight s' = in_flight s"
  by (auto simp: find_or_create_def dest: pending_create split: option.splits)

lemma pending_add_source: "add_source_filter E fc c s = Some s' \<Longrightarrow> in_flight s' = in_flight s"
  by (auto simp: add_source_filter_def Let_def bind_eq_Some_conv dest!: pending_find_or_create
      split: option.splits if_splits)

lemma pending_add_dest: "add_dest_filter E fc c s = Some s' \<Longrightarrow> in_flight s' = in_flight s"
proof -
  define flag where "flag f s = (case getEndpoint_at (dest_handle c) (co_loopHandles s) of
      None \<Rightarrow> s | Some e \<Rightarrow> s\<lparr> co_loopHandles := update_handle e (handle_setFlag f) (co_loopHandles s) \<rparr>)"
    for f and s :: "('a, 'b, 'c) CommonCore"
  have [simp]: "in_flight (flag f s) = in_flight s" for f s
    by (simp add: flag_def split: option.split)
  assume "add_dest_filter E fc c s = Some s'"
  then show ?thesis
    unfolding add_dest_filter_def Let_def flag_def [symmetric]
    by (auto simp: bind_eq_Some_conv dest: pending_find_or_create split: if_splits)
qed

lemma pending_filter_info: "processFilterInfo E c s = Some s' \<Longrightarrow> in_flight s' = in_flight s"
  by (auto simp: processFilterInfo_def split: prod.splits option.splits if_splits
      dest!: in_flight.view_coordinator pending_add_source pending_add_dest)

lemma pending_register [simp]: "in_flight (register_endpoint E c s) = in_flight s"
  by (simp add: register_endpoint_def Let_def split_beta split: option.split)

lemma pending_register_filter: "register_filter E c s = Some s' \<Longrightarrow> in_flight s' = in_flight s"
  by (auto simp: register_filter_def Let_def bind_eq_Some_conv split_beta dest: pending_create)

lemma pending_registerInterface: "registerInterface E c s = Some s' \<Longrightarrow> in_flight s' = in_flight s"
  by (auto simp: registerInterface_def Let_def dest!: pending_register_filter pending_filter_info
      split: if_splits option.splits)

lemma pending_target: "addTargetToInterface E c s = Some (c', s') \<Longrightarrow> in_flight s' = in_flight s"
  by (auto simp: addTargetToInterface_def setAsUsed_def Let_def bind_eq_Some_conv dest!: pending_filter_info
      split: if_splits option.splits)

lemma pending_add_both: "add_both E there back s = Some s' \<Longrightarrow> in_flight s' = in_flight s"
  by (auto simp: add_both_def bind_eq_Some_conv dest!: pending_target)

lemma pending_named: "co_checkForNamedInterface E c s = Some s' \<Longrightarrow> in_flight s' = in_flight s"
  by (auto simp: co_checkForNamedInterface_def Let_def dest!: pending_add_both split: if_splits option.splits)

lemma pending_remove [simp]:
  "in_flight (removeTargetFromInterface E c s) = in_flight s" "in_flight (co_removeNamedTarget E c s) = in_flight s"
proof -
  have "in_flight (closeFilter E fc h s) = in_flight s" for fc h s
    unfolding closeFilter_def by (rule foldl_keeps_proj) simp
  then show r: "in_flight (removeTargetFromInterface E c s) = in_flight s" for c s
    by (auto simp: removeTargetFromInterface_def dest: in_flight.view_coordinator split: option.split prod.split)
  show "in_flight (co_removeNamedTarget E c s) = in_flight s"
    by (simp add: co_removeNamedTarget_def r Let_def split: option.split prod.split)
qed

lemma pending_close [simp]: "in_flight (disconnectInterface E c s) = in_flight s"
proof -
  have "in_flight (close_local_filter E h i s) = in_flight s" for h i s
    by (simp add: close_local_filter_def Let_def foldl_keeps_proj [where p = in_flight])
  then show ?thesis
    by (simp add: disconnectInterface_def Let_def split: option.split)
qed

lemma pending_step_aside [simp]: "in_flight (step_aside E a b f k s) = in_flight s"
  by (simp add: step_aside_def Let_def)

lemma pending_dependencies [simp]: "in_flight (co_checkDependencies E s) = in_flight s"
proof -
  have "in_flight (snd (snd (check_special E acc i))) = in_flight (snd (snd acc))" for acc i
    by (cases acc) (simp add: check_special_def Let_def split_beta)
  then have "in_flight (snd (snd (foldl (check_special E) acc xs))) = in_flight (snd (snd acc))" for acc xs
    by (rule foldl_keeps_proj)
  from this [of "(False, False, s)"] show ?thesis
    by (simp add: co_checkDependencies_def Let_def split_beta)
qed

lemma pending_init [simp]:
  "in_flight (co_try_init E c s) = in_flight s" "in_flight (co_process_init E c s) = in_flight s"
  "in_flight (co_process_init_grant E c s) = in_flight s" "in_flight (organizeFilterOperations E s) = in_flight s"
  by (simp_all add: co_try_init_def co_process_init_def co_process_init_grant_def organizeFilterOperations_def
      Let_def split: option.split)

lemma pending_configure: "processCoreConfigureCommands E c s = Some s' \<Longrightarrow> in_flight s' = in_flight s"
  by (auto simp: processCoreConfigureCommands_def Let_def split: if_splits option.splits)

lemma pending_supervision [simp]:
  "in_flight (co_resend E c s) = in_flight s" "in_flight (core_tick E now s) = in_flight s"
  "in_flight (co_ping E c s) = in_flight s" "in_flight (co_to_dependents E c s) = in_flight s"
  by (simp_all add: co_resend_def core_tick_def co_ping_def co_parent_ping_def co_to_dependents_def Let_def
      foldl_keeps_proj [where p = in_flight])

lemma pending_leaving [simp]:
  "in_flight (co_user_disconnect E s) = in_flight s" "in_flight (co_stop E s) = in_flight s"
  "in_flight (co_process_disconnect E c s) = in_flight s" "in_flight (co_core_ack E c s) = in_flight s"
  by (simp_all add: co_user_disconnect_def co_stop_def co_process_disconnect_def co_core_ack_def Let_def split_beta
      split: option.split)

lemma pending_escalate [simp]: "in_flight (escalate E c s) = in_flight s" "in_flight (co_global_error E c s) = in_flight s"
  by (simp_all add: escalate_def co_global_error_def Let_def)

lemma pending_error: "co_process_error E c s = Some s' \<Longrightarrow> in_flight s' = in_flight s"
  by (auto simp: co_process_error_def Let_def bind_eq_Some_conv split: if_splits option.splits)

lemma pending_links:
  "co_data_link E c s = Some s' \<Longrightarrow> in_flight s' = in_flight s"
  "co_filter_link E c s = Some s' \<Longrightarrow> in_flight s' = in_flight s"
  by (auto simp: co_data_link_def co_filter_link_def Let_def dest!: pending_named split: option.splits)

lemma pending_parent [simp]:
  "in_flight (to_parent_or_delay c w s) = in_flight s" "in_flight (co_fed_ack E c s) = in_flight s"
  by (simp_all add: to_parent_or_delay_def co_fed_ack_def set_fed_def co_event_def in_flight_def Let_def split: option.split)

lemma pending_reg_fed: "co_reg_fed E c s = Some s' \<Longrightarrow> in_flight s' = in_flight s"
  by (auto simp: co_reg_fed_def split: option.splits)

lemma pending_answers [simp]:
  "in_flight (co_search_dependency E c s) = in_flight s" "in_flight (co_broker_ack E c s) = in_flight s"
  "in_flight (co_broker_query E c s) = in_flight s" "in_flight (co_query E c s) = in_flight s"
  by (simp_all add: co_search_dependency_def co_broker_ack_def co_broker_query_def co_query_def Let_def
      split: option.split)

section \<open>The filters\<close>

text \<open>An invariant over \<open>in_flight\<close>: what is held back for a federate are time messages of it, and there
  are such only while one of its messages is in filtering.\<close>

definition time_actions :: "action_t set" where
  "time_actions = {cmd_exec_grant, cmd_exec_request, cmd_time_request, cmd_time_grant}"

definition held_ok ::
  "(global_federate_id \<Rightarrow> int32 set) \<times> (global_federate_id \<Rightarrow> 't ActionMessage list) \<Rightarrow> bool" where
  "held_ok p \<longleftrightarrow> (\<forall>fed. (snd p fed \<noteq> [] \<longrightarrow> fst p fed \<noteq> {})
     \<and> (\<forall>m \<in> set (snd p fed). source_id m = fed \<and> messageAction m \<in> time_actions))"

lemma held_okD:
  "held_ok (in_flight s) \<Longrightarrow> co_delayedTiming s fed \<noteq> [] \<Longrightarrow> co_ongoing s fed \<noteq> {}"
  "held_ok (in_flight s) \<Longrightarrow> m \<in> set (co_delayedTiming s fed) \<Longrightarrow> source_id m = fed \<and> messageAction m \<in> time_actions"
  by (auto simp: held_ok_def in_flight_def)

lemma held_ok_insert:
  "held_ok (in_flight s) \<Longrightarrow> held_ok (in_flight (s\<lparr> co_ongoing := (co_ongoing s)(fed := insert mid (co_ongoing s fed)) \<rparr>))"
  by (auto simp: held_ok_def in_flight_def)

lemma held_ok_source_loop:
  "source_loop n E fed len fs ii m s = Some (m', s') \<Longrightarrow> held_ok (in_flight s) \<Longrightarrow> held_ok (in_flight s')"
proof (induction fs arbitrary: ii m s)
  case (Cons f fs)
  show ?case
    using Cons.prems
    by (auto simp: Let_def bind_eq_Some_conv held_ok_insert dest!: in_flight.view_deliver_messages intro: Cons.IH
        split: if_splits option.splits)
qed simp

lemma pending_iff:
  "in_flight s' = in_flight s \<longleftrightarrow> co_ongoing s' = co_ongoing s \<and> co_delayedTiming s' = co_delayedTiming s"
  by (simp add: in_flight_def)

lemma ongoing_route_all [simp]:
  "co_ongoing (foldl (\<lambda>s' m. co_routeMessage E m s') s ms) = co_ongoing s"
  "co_delayedTiming (foldl (\<lambda>s' m. co_routeMessage E m s') s ms) = co_delayedTiming s"
  using in_flight.view_route_all [unfolded pending_iff] by blast+

lemma pending_transmitDelayedFrom:
  "in_flight (transmitDelayedFrom E fed s) = (co_ongoing s, (co_delayedTiming s)(fed := []))"
  by (simp add: transmitDelayedFrom_def Let_def in_flight_def)

text \<open>Between the end of filtering and the release the invariant may fail for the federate concerned.\<close>

definition held_ok_but :: "global_federate_id \<Rightarrow> ('t, 'd, 'x) CommonCore \<Rightarrow> bool" where
  "held_ok_but fed s \<longleftrightarrow> (\<forall>g. (g \<noteq> fed \<longrightarrow> co_delayedTiming s g \<noteq> [] \<longrightarrow> co_ongoing s g \<noteq> {})
     \<and> (\<forall>m \<in> set (co_delayedTiming s g). source_id m = g \<and> messageAction m \<in> time_actions))"

lemma held_ok_release: "held_ok_but fed s \<Longrightarrow> held_ok (in_flight (release_timing E fed s))"
  unfolding release_timing_def held_ok_def held_ok_but_def
  by (cases "co_ongoing s fed = {}") (auto simp: pending_transmitDelayedFrom, auto simp: in_flight_def)

lemma held_ok_but_done: "held_ok_but fed s \<Longrightarrow> held_ok_but fed (filtering_done fed mid s)"
  by (auto simp: held_ok_but_def filtering_done_def)

lemma held_ok_but_pending: "in_flight s' = in_flight s \<Longrightarrow> held_ok_but fed s' = held_ok_but fed s"
  by (simp add: held_ok_but_def in_flight_def)

lemma held_ok_but_route [simp]: "held_ok_but fed (co_routeMessage E m s) = held_ok_but fed s"
  by (rule held_ok_but_pending) simp

lemma held_ok_weaken: "held_ok (in_flight s) \<Longrightarrow> held_ok_but fed s"
  by (auto simp: held_ok_def held_ok_but_def in_flight_def)

lemma held_ok_return_loop:
  "return_loop n E fed mid len fs ii cmd s = Some s' \<Longrightarrow> held_ok_but fed s \<Longrightarrow> held_ok (in_flight s')"
proof (induction fs arbitrary: ii cmd s)
  case Nil
  then obtain s1 where s1: "deliverMessage n E cmd (filtering_done fed mid s) = Some s1" "s' = release_timing E fed s1"
    by (auto simp: bind_eq_Some_conv)
  have "held_ok_but fed s1"
    using held_ok_but_pending [OF in_flight.view_deliver [OF s1(1)]] held_ok_but_done [OF Nil.prems(2)] by simp
  then show ?case
    by (simp add: s1(2) held_ok_release)
next
  case (Cons f fs)
  note ok = Cons.prems(2)
  have d: "held_ok (in_flight (release_timing E fed (filtering_done fed mid s)))"
    using ok by (simp add: held_ok_release held_ok_but_done)
  have r: "held_ok (in_flight (release_timing E fed (co_routeMessage E m s)))"
    "held_ok (in_flight (release_timing E fed (co_routeMessage E m (filtering_done fed mid s))))" for m
    using ok held_ok_but_done [OF ok] by (simp_all add: held_ok_release)
  show ?case
    using return_loop_Cons [OF Cons.prems(1)]
  proof (elim disjE exE)
    fix cmd'
    assume "return_loop n E fed mid len fs (Suc ii) cmd' s = Some s'"
    then show ?thesis by (rule Cons.IH [OF _ ok])
  qed (simp_all only: d r)
qed

lemma held_ok_filterReturn:
  assumes "processFilterReturn n E cmd s = Some s'" "held_ok (in_flight s)"
  shows "held_ok (in_flight s')"
proof (cases "getEndpoint_at (dest_handle cmd) (co_loopHandles s)")
  case (Some p)
  define h where "h = hm_handles (co_loopHandles s) ! p"
  define s1 where "s1 = (if messageAction cmd = cmd_null_message
    then release_timing E (getFederateId h) (filtering_done (getFederateId h) (messageID cmd) s) else s)"
  have ok: "held_ok_but (getFederateId h) s1"
    using assms(2) by (simp add: s1_def held_ok_weaken held_ok_release held_ok_but_done)
  obtain fc s2 where fc: "getFilterCoordinator (getInterfaceHandle h) s1 = (fc, s2)"
    by (cases "getFilterCoordinator (getInterfaceHandle h) s1")
  have "held_ok_but (getFederateId h) s2"
    using ok held_ok_but_pending [OF in_flight.view_coordinator [OF fc]] by simp
  then show ?thesis
    using assms fc unfolding processFilterReturn_def Some Let_def option.case h_def [symmetric] s1_def [symmetric]
    by (auto simp del: return_loop.simps split: if_splits option.splits dest: held_ok_return_loop)
qed (use assms in \<open>simp add: processFilterReturn_def\<close>)

lemma pending_dest_return: "processDestFilterReturn E cmd s = Some s' \<Longrightarrow> in_flight s' = in_flight s"
proof -
  have clone: "in_flight (clone_returned E c s i) = in_flight s" for c s i
    by (simp add: clone_returned_def Let_def)
  assume "processDestFilterReturn E cmd s = Some s'"
  then show ?thesis
    by (auto simp: processDestFilterReturn_def time_unblock_def Let_def clone foldl_keeps_proj [where p = in_flight]
        dest!: in_flight.view_coordinator split: option.splits if_splits prod.splits)
qed

lemma pending_message_filter: "processMessageFilter n E cmd s = Some s' \<Longrightarrow> in_flight s' = in_flight s"
  by (auto simp: processMessageFilter_def pass_filter_def run_filter_def Let_def
      dest: in_flight.view_deliver in_flight.view_deliver_messages split: if_splits option.splits)

lemma held_ok_sendMessage:
  assumes "core_sendMessage n E cmd s = Some s'" "held_ok (in_flight s)"
  shows "held_ok (in_flight s')"
proof -
  have msg: "held_ok (in_flight s1)" if "processMessage n E cmd s = Some (m, s1)" for m s1
  proof (cases "getEndpoint_at (source_handle cmd) (co_loopHandles s)")
    case (Some p)
    obtain fc s2 where fc: "getFilterCoordinator (getInterfaceHandle (hm_handles (co_loopHandles s) ! p)) s = (fc, s2)"
      by (meson surj_pair)
    show ?thesis
      using that assms(2) in_flight.view_coordinator [OF fc]
      by (auto simp: processMessage_def Some fc Let_def dest: held_ok_source_loop split: option.splits if_splits)
  qed (use that assms in \<open>simp add: processMessage_def\<close>)
  show ?thesis
  proof (cases "dest_id cmd = parent_fed \<and> isLocal E (source_id cmd) s")
    case True
    then obtain m s1 where "processMessage n E cmd s = Some (m, s1)" "deliverMessage n E m s1 = Some s'"
      using assms(1) by (auto simp: core_sendMessage_def bind_eq_Some_conv)
    with msg show ?thesis
      using in_flight.view_deliver [of n E m s1 s'] by simp
  next
    case False
    then show ?thesis
      using assms in_flight.view_deliver [of n E cmd s s'] by (auto simp: core_sendMessage_def)
  qed
qed

lemma held_ok_hold:
  "in_filtering E cmd s \<Longrightarrow> messageAction cmd \<in> time_actions \<Longrightarrow> held_ok (in_flight s)
     \<Longrightarrow> held_ok (in_flight (co_hold cmd s))"
  by (auto simp: in_filtering_def co_hold_def held_ok_def in_flight_def copy_message_def)

lemma held_ok_time:
  assumes "held_ok (in_flight s)" "messageAction cmd \<in> time_actions"
  shows "held_ok (in_flight (co_process_exec E cmd s))" "held_ok (in_flight (co_process_time E cmd s))"
  using assms by (simp_all add: co_process_exec_def co_process_time_def held_ok_hold Let_def)

section \<open>All commands\<close>

definition ok_result :: "('t, 'd, 'x) core_outcome \<Rightarrow> bool" where
  "ok_result r \<longleftrightarrow> (\<forall>s'. r = Some s' \<longrightarrow> held_ok (in_flight s'))"

lemma ok_if: "(P \<Longrightarrow> ok_result a) \<Longrightarrow> (\<not> P \<Longrightarrow> ok_result b) \<Longrightarrow> ok_result (if P then a else b)"
  by simp

lemma ok_Some [simp]: "ok_result (Some s) \<longleftrightarrow> held_ok (in_flight s)"
  by (simp add: ok_result_def)

lemma ok_same: "(\<And>s'. r = Some s' \<Longrightarrow> in_flight s' = in_flight s) \<Longrightarrow> held_ok (in_flight s) \<Longrightarrow> ok_result r"
  by (auto simp: ok_result_def)

lemma ok_reg_fed: "held_ok (in_flight s) \<Longrightarrow> ok_result (co_reg_fed E c s)"
  by (auto simp: ok_result_def dest!: pending_reg_fed)

lemma ok_priority:
  assumes "held_ok (in_flight s)" "ok_result rest"
  shows "ok_result (core_priority E rest c s)"
  unfolding core_priority_def Let_def
  by (intro ok_if ok_reg_fed) (simp_all add: assms)

lemma ok_time:
  assumes "held_ok (in_flight s)"
  shows "messageAction c = cmd_exec_grant \<or> messageAction c = cmd_exec_request \<Longrightarrow> ok_result (Some (co_process_exec E c s))"
    "messageAction c = cmd_time_request \<or> messageAction c = cmd_time_grant \<Longrightarrow> ok_result (Some (co_process_time E c s))"
  using assms by (auto simp: time_actions_def intro!: held_ok_time)

lemma ok_results:
  assumes "held_ok (in_flight s)"
  shows "ok_result (processMessageFilter n E c s)" "ok_result (processFilterReturn n E c s)"
    "ok_result (processDestFilterReturn E c s)" "ok_result (co_process_error E c s)" "ok_result (co_data_link E c s)"
    "ok_result (co_filter_link E c s)" "ok_result (registerInterface E c s)" "ok_result (co_checkForNamedInterface E c s)"
    "ok_result (map_option snd (addTargetToInterface E c s))" "ok_result (processCoreConfigureCommands E c s)"
    "ok_result (core_sendMessage n E c s)"
proof -
  show "ok_result (map_option snd (addTargetToInterface E c s))"
    using assms by (intro ok_same) (auto dest: pending_target)
  show "ok_result (processFilterReturn n E c s)" "ok_result (core_sendMessage n E c s)"
    using assms by (auto simp: ok_result_def dest: held_ok_filterReturn held_ok_sendMessage)
qed (rule ok_same [OF _ assms], erule pending_message_filter pending_dest_return pending_error pending_links
      pending_registerInterface pending_named pending_configure)+

lemma ok_command:
  assumes ok: "held_ok (in_flight s)"
  shows "ok_result (core_processCommand n E now c s)"
  unfolding core_processCommand_def Let_def
  by (intro ok_if ok_results ok_priority ok_time) (simp_all add: ok)

lemma ok_priority_command: "held_ok (in_flight s) \<Longrightarrow> ok_result (core_processPriorityCommand n E now c s)"
  by (simp add: core_processPriorityCommand_def ok_priority ok_command)

section \<open>Runs of a core\<close>

text \<open>The steps of a core: a command or a priority command of its queue, the calls of the application and
  of the federates, the end of the transport, and what a federate changes of its own record.\<close>

inductive core_step ::
  "('t::linorder, 'd, 'x) core_env \<Rightarrow> ('t, 'd, 'x) CommonCore \<Rightarrow> ('t, 'd, 'x) CommonCore \<Rightarrow> bool"
  for E :: "('t::linorder, 'd, 'x) core_env" where
  command: "core_processCommand n E now c s = Some s' \<Longrightarrow> core_step E s s'"
| priority: "core_processPriorityCommand n E now c s = Some s' \<Longrightarrow> core_step E s s'"
| configured: "co_state s = BS_created \<Longrightarrow> core_step E s (s\<lparr> co_state := BS_configured \<rparr>)"
| connect: "core_step E s (co_connect E res bkey to s)"
| loop_start: "core_step E s (s\<lparr> co_local_id := co_global_id s \<rparr>)"
| disconnect: "core_step E s (co_processDisconnect E skip s)"
| join_federate: "co_registered s name = None \<Longrightarrow> core_step E s (s\<lparr> co_registered := (co_registered s)(name \<mapsto> f) \<rparr>)"
| federate: "core_step E s (set_fed E i (\<lambda>f. f\<lparr> fd_fed := g \<rparr>) s)"
| register_interface: "registerFederateInterface E ht fed key type units s = Some (Inr (h, s')) \<Longrightarrow> core_step E s s'"
| register_filter: "registerFilter E clone registered name tin tout s = Inr (h, s') \<Longrightarrow> core_step E s s'"
| send: "co_send E minTime at h dest bytes s = Inr s' \<Longrightarrow> core_step E s s'"
| send_message: "co_sendMessage E registered minTime h msg s = Inr s' \<Longrightarrow> core_step E s s'"
| add_target: "addTarget E toDest h target s = Inr s' \<Longrightarrow> core_step E s s'"
| close_handle: "closeHandle E h s = Inr s' \<Longrightarrow> core_step E s s'"
| filter_operator: "setFilterOperator E h callback s = Some (Inr s') \<Longrightarrow> core_step E s s'"

lemma pending_createBasicHandle [simp]: "in_flight (snd (createBasicHandle g l ht k t u f s)) = in_flight s"
  by (simp add: createBasicHandle_def Let_def split_beta)

lemma pending_new_interface:
  "registerFederateInterface E ht fed key type units s = Some (Inr (h, s')) \<Longrightarrow> in_flight s' = in_flight s"
  by (cases fed; cases "register_texts ht") (auto simp: registerFederateInterface_def Let_def split_beta split: if_splits)

lemma pending_calls:
  "registerFilter E clone registered name tin tout s = Inr (h, s') \<Longrightarrow> in_flight s' = in_flight s"
  "co_send E minTime at sh dest bytes s = Inr s' \<Longrightarrow> in_flight s' = in_flight s"
  "co_sendMessage E registered minTime sh msg s = Inr s' \<Longrightarrow> in_flight s' = in_flight s"
  "addTarget E toDest sh target s = Inr s' \<Longrightarrow> in_flight s' = in_flight s"
  "closeHandle E sh s = Inr s' \<Longrightarrow> in_flight s' = in_flight s"
  "setFilterOperator E sh callback s = Some (Inr s') \<Longrightarrow> in_flight s' = in_flight s"
  by (auto simp: registerFilter_def co_send_def co_sendMessage_def addTarget_def
      closeHandle_def setFilterOperator_def getNextAirlockIndex_def Let_def split_beta
      split: option.splits if_splits sum.splits handle_type.splits)

lemma pending_connect [simp]: "in_flight (co_connect E res k to s) = in_flight s"
  by (simp add: co_connect_def Let_def)

lemma pending_processDisconnect [simp]: "in_flight (co_processDisconnect E skip s) = in_flight s"
  by (simp add: co_processDisconnect_def Let_def)

lemma core_step_held_ok: "core_step E s s' \<Longrightarrow> held_ok (in_flight s) \<Longrightarrow> held_ok (in_flight s')"
proof (induction rule: core_step.induct)
  case (command n now c s s')
  then show ?case using ok_command [of s n E now c] by (simp add: ok_result_def)
next
  case (priority n now c s s')
  then show ?case using ok_priority_command [of s n E now c] by (simp add: ok_result_def)
qed (simp_all add: pending_calls pending_new_interface)

lemma core_steps_held_ok: "(core_step E)\<^sup>*\<^sup>* s s' \<Longrightarrow> held_ok (in_flight s) \<Longrightarrow> held_ok (in_flight s')"
  by (induction rule: rtranclp_induct) (auto intro: core_step_held_ok)


definition busy_core :: tick_core where
  "busy_core = (sending_core [second_core_id, third_core_id])\<lparr> co_ongoing := (\<lambda>_. {})(sender := {55}) \<rparr>"

lemma busy_core_holds:
  "core_processCommand 1 tick_core_env 0 time_message busy_core = Some (co_hold time_message busy_core)"
proof -
  have m: "messageAction time_message = cmd_time_request" "source_id time_message = sender"
    by (simp_all add: time_message_def mk_message_to_def)
  have "in_filtering tick_core_env time_message busy_core"
    by (simp add: in_filtering_def isLocal_def m busy_core_def)
  then show ?thesis
    by (simp add: core_processCommand_def m co_process_time_def cmd_code CMD_BROKER_PING_def)
qed


section \<open>Release\<close>

lemma transmitDelayedFrom_events:
  assumes "\<forall>m \<in> set (co_delayedTiming s fed). dest_id m \<noteq> co_me s"
  shows "\<exists>es. co_events (transmitDelayedFrom E fed s) = co_events s @ es @ List.map_filter (routes_to E s) (co_delayedTiming s fed)"
proof -
  define s0 where "s0 = s\<lparr> co_delayTransmit := filter (\<lambda>m. source_id m \<noteq> fed) (co_delayTransmit s) \<rparr>"
  define s1 where "s1 = foldl (\<lambda>s' m. co_routeMessage E m s') s0 (filter (\<lambda>m. source_id m = fed) (co_delayTransmit s))"
  have same: "setting s1 = setting s" "co_delayedTiming s1 = co_delayedTiming s"
    by (simp_all add: s1_def s0_def setting_def [of "s\<lparr> co_delayTransmit := x \<rparr>" for x] setting_def [of s])
  have "grows s s1"
    by (simp add: s1_def s0_def grows_foldl)
  then obtain es where "co_events s1 = co_events s @ es"
    using growsD by blast
  moreover have "co_events (transmitDelayedFrom E fed s)
      = co_events (foldl (\<lambda>s' m. co_routeMessage E m s') s1 (co_delayedTiming s fed))"
    unfolding transmitDelayedFrom_def Let_def s0_def [symmetric] s1_def [symmetric] by (simp add: same)
  ultimately show ?thesis
    using assms by (simp add: route_all_events setting_me [OF same(1)] routes_to_setting [OF same(1)])
qed

lemma done_simps:
  "setting (filtering_done fed mid s) = setting s" "grows s (filtering_done fed mid s)"
  "co_delayedTiming (filtering_done fed mid s) = co_delayedTiming s"
  by (simp_all add: filtering_done_def setting_def)

lemma return_loop_result:
  "return_loop n E fed mid len fs ii cmd s = Some s' \<Longrightarrow>
     \<exists>s0. s' = release_timing E fed s0 \<and> setting s0 = setting s \<and> grows s s0 \<and> co_delayedTiming s0 = co_delayedTiming s
       \<and> (co_ongoing s0 = co_ongoing s \<or> co_ongoing s0 = co_ongoing (filtering_done fed mid s))"
proof (induction fs arbitrary: ii cmd)
  case Nil
  then obtain s0 where s0: "deliverMessage n E cmd (filtering_done fed mid s) = Some s0" "s' = release_timing E fed s0"
    by (auto simp: bind_eq_Some_conv)
  have "grows s s0"
    using grows_deliver [OF s0(1)] by (simp add: grows_def filtering_done_def)
  with s0 show ?case
    using setting.view_deliver [OF s0(1)] in_flight.view_deliver [OF s0(1)]
    by (auto simp: pending_iff done_simps)
next
  case (Cons f fs)
  have r: "co_delayedTiming (co_routeMessage E m s1) = co_delayedTiming s1" "co_ongoing (co_routeMessage E m s1) = co_ongoing s1"
    for m and s1 :: "('a, 'b, 'c) CommonCore"
    using in_flight.view_route(2) [unfolded pending_iff] by blast+
  show ?case
    using return_loop_Cons [OF Cons.prems]
    by (elim disjE exE) (erule Cons.IH, (rule exI, erule conjI, simp add: done_simps r)+)
qed

text \<open>\<open>let_go E fed s s'\<close>: the time messages held back for \<open>fed\<close> in \<open>s\<close> were sent between \<open>s\<close> and
  \<open>s'\<close>, one after the other and in the order in which they came.\<close>

definition let_go ::
  "('t, 'd, 'x) core_env \<Rightarrow> global_federate_id \<Rightarrow> ('t, 'd, 'x) CommonCore \<Rightarrow> ('t, 'd, 'x) CommonCore \<Rightarrow> bool" where
  "let_go E fed s s' \<longleftrightarrow> co_delayedTiming s' fed = [] \<and> (\<exists>before after.
     co_events s' = co_events s @ before @ List.map_filter (routes_to E s) (co_delayedTiming s fed) @ after)"

lemma release_lets_go:
  assumes "co_ongoing s fed = {}" "\<forall>m \<in> set (co_delayedTiming s fed). dest_id m \<noteq> co_me s"
  shows "let_go E fed s (release_timing E fed s)"
proof -
  obtain es where "co_events (transmitDelayedFrom E fed s)
      = co_events s @ es @ List.map_filter (routes_to E s) (co_delayedTiming s fed) @ []"
    using transmitDelayedFrom_events [OF assms(2), of E] by auto
  then show ?thesis
    using pending_transmitDelayedFrom [of E fed s] assms(1) unfolding let_go_def
    by (intro conjI exI [where x = es] exI [where x = "[]"]) (simp_all add: release_timing_def in_flight_def)
qed

lemma let_go_before:
  assumes "let_go E fed s0 s'" "setting s0 = setting s" "grows s s0" "co_delayedTiming s0 fed = co_delayedTiming s fed"
  shows "let_go E fed s s'"
  using assms growsD [OF assms(3)] routes_to_setting [OF assms(2), of E] unfolding let_go_def
  by (metis append.assoc)

lemma let_go_after:
  assumes "let_go E fed s s0" "grows s0 s'" "co_delayedTiming s' fed = []"
  shows "let_go E fed s s'"
  using assms growsD [OF assms(2)] unfolding let_go_def by (metis append.assoc)

lemma return_loop_lets_go:
  assumes loop: "return_loop n E fed mid len fs ii cmd s = Some s'"
    and others: "\<forall>m \<in> set (co_delayedTiming s fed). dest_id m \<noteq> co_me s" and "co_ongoing s fed \<subseteq> {mid}"
  shows "co_ongoing s' fed = {} \<and> let_go E fed s s'
    \<or> co_ongoing s' fed = {mid} \<and> co_ongoing s fed = {mid} \<and> co_delayedTiming s' fed = co_delayedTiming s fed"
proof -
  from return_loop_result [OF loop] obtain s0 where s0: "s' = release_timing E fed s0" "setting s0 = setting s"
    "grows s s0" "co_delayedTiming s0 = co_delayedTiming s"
    and og: "co_ongoing s0 = co_ongoing s \<or> co_ongoing s0 = co_ongoing (filtering_done fed mid s)" by blast
  show ?thesis
  proof (cases "co_ongoing s0 fed = {}")
    case True
    then have "let_go E fed s0 s'"
      using others release_lets_go [of s0 fed E] by (simp add: s0 setting_me [OF s0(2)])
    moreover have "co_ongoing s' fed = {}"
      using True pending_transmitDelayedFrom [of E fed s0] by (simp add: s0(1) release_timing_def in_flight_def)
    ultimately show ?thesis
      using let_go_before [OF _ s0(2,3)] by (simp add: s0(4))
  next
    case False
    then show ?thesis
      using og assms(3) s0 by (auto simp: release_timing_def filtering_done_def)
  qed
qed


definition last_answer :: "ticks ActionMessage" where
  "last_answer = (mk_message_to tick_rep cmd_filter_result (Global_Federate_Id 0x70000001) sender)
     \<lparr> messageID := 55, counter := 1, dest_handle := Interface_Handle 0 \<rparr>"


end
