(* ===== verification/Core_Chain.thy ===== *)
theory Core_Chain
  imports Core_Timing
begin

text \<open>
  The way of a message through the source filters of its endpoint: filters of the own core, two filters of other
  cores, and what happens with three of them and with a filter that drops the message.
\<close>

section \<open>Messages and commands\<close>

lemma command_round_trip [simp]:
  "message_to_command T (createMessageFromCommand T (message_to_command T msg)) = message_to_command T msg"
  by (simp add: message_to_command_def createMessageFromCommand_def)

lemma create_assign [simp]:
  "createMessageFromCommand T (assign_message m c) = createMessageFromCommand T c"
  "createMessageFromCommand T (setAction a m) = createMessageFromCommand T m"
  "createMessageFromCommand T (to_filter f ii m) = createMessageFromCommand T m"
  by (simp_all add: createMessageFromCommand_def assign_message_def setAction_def to_filter_def)

text \<open>What is left of a message after it was a command: its flags and counter are not sent.\<close>

definition plain :: "('t::linorder) time_rep \<Rightarrow> 't Message \<Rightarrow> 't Message" where
  "plain T msg = createMessageFromCommand T (message_to_command T msg)"

lemma create_fields:
  "msg_data (createMessageFromCommand T m) = payload m" "msg_messageID (createMessageFromCommand T m) = messageID m"
  by (simp_all add: createMessageFromCommand_def Let_def)

lemma plain_fields [simp]:
  "msg_data (plain T msg) = msg_data msg" "msg_messageID (plain T msg) = msg_messageID msg" "msg_dest (plain T msg) = msg_dest msg"
  by (simp_all add: plain_def message_to_command_def create_fields) (simp add: createMessageFromCommand_def)

primrec filter_chain :: "('t::linorder) time_rep \<Rightarrow> 't FilterOperator list \<Rightarrow> 't Message \<Rightarrow> 't Message option" where
  "filter_chain T [] msg = Some msg"
| "filter_chain T (op # ops) msg =
     (case fo_process op msg of None \<Rightarrow> None | Some r \<Rightarrow> filter_chain T ops (plain T r))"

section \<open>The filters of an endpoint\<close>

definition endpoint_chain :: "interface_handle \<Rightarrow> ('t, 'd, 'x) CommonCore \<Rightarrow> (global_federate_id \<times> nat list) option" where
  "endpoint_chain h s =
     do { p \<leftarrow> getEndpoint_at h (co_loopHandles s);
          fc \<leftarrow> co_filterCoord s (getInterfaceHandle (hm_handles (co_loopHandles s) ! p));
          if checkActionFlag (bh_flags (hm_handles (co_loopHandles s) ! p)) has_source_filter_flag \<and> hasSourceFilters fc
          then Some (getFederateId (hm_handles (co_loopHandles s) ! p), sourceFilters fc) else None }"

lemma processMessage_chain:
  "endpoint_chain (source_handle m) s = Some (fed, fs) \<Longrightarrow>
     processMessage n E m s = source_loop n E fed (length fs) fs 0 m s"
  by (auto simp: endpoint_chain_def processMessage_def getFilterCoordinator_def Let_def bind_eq_Some_conv
      split: if_splits)

lemma processFilterReturn_chain:
  "endpoint_chain (dest_handle c) s = Some (fed, fs) \<Longrightarrow> messageID c \<in> co_ongoing s fed
     \<Longrightarrow> messageAction c \<noteq> cmd_null_message \<Longrightarrow>
     processFilterReturn n E c s =
       return_loop n E fed (messageID c) (length fs) (drop (unat (counter c) + 1) fs) (unat (counter c) + 1) c s"
  by (auto simp: endpoint_chain_def processFilterReturn_def getFilterCoordinator_def Let_def bind_eq_Some_conv
      simp del: return_loop.simps split: if_splits)

definition local_filter :: "('t, 'd, 'x) core_env \<Rightarrow> ('t, 'd, 'x) CommonCore \<Rightarrow> nat \<Rightarrow> 't FilterOperator \<Rightarrow> bool" where
  "local_filter E s f op \<longleftrightarrow> (let filt = filters_of E s ! f
     in \<not> fi_closed filt \<and> fi_core_id filt = co_local_id s \<and> \<not> cloning filt \<and> filterOp filt = Some op)"

lemma source_loop_local_chain:
  assumes "list_all2 (local_filter E s) fs ops"
  shows "source_loop n E fed len fs ii m s = Some
    (if fs = [] then m
     else case filter_chain (ce_time E) ops (createMessageFromCommand (ce_time E) m) of
            Some r \<Rightarrow> assign_message m (message_to_command (ce_time E) r)
          | None \<Rightarrow> assign_message m (mk_message (ce_time E) cmd_ignore), s)"
  using assms
proof (induction arbitrary: ii m rule: list_all2_induct)
  case (Cons f fs op ops)
  let ?T = "ce_time E"
  have step: "source_loop n E fed len (f # fs) ii m s =
      (case fo_process op (createMessageFromCommand ?T m) of
         Some msg \<Rightarrow> source_loop n E fed len fs (Suc ii) (assign_message m (message_to_command ?T msg)) s
       | None \<Rightarrow> Some (assign_message m (mk_message ?T cmd_ignore), s))"
    using Cons(1) by (intro source_loop_local) (simp_all add: local_filter_def Let_def)
  have again: "assign_message (assign_message m c) d = assign_message m d" for c d :: "'a ActionMessage"
    by (simp add: assign_message_def)
  show ?case
    using Cons(2) unfolding step
    by (auto simp: Cons(3) again plain_def split: option.split)
qed simp

text \<open>C15: The source filters of an endpoint that belong to its own core act as one: the message that leaves is what
  the operators give one after the other, each applied to what the one before left, and it reaches the destination
  endpoint on the same core in the same step; when an operator drops the message, nothing but an ignored command
  leaves the core.\<close>

theorem local_filters_compose:
  assumes chain: "endpoint_chain (source_handle m) s = Some (fed, fs)" "fs \<noteq> []" "list_all2 (local_filter E s) fs ops"
    and sent: "dest_id m = parent_fed" "isLocal E (source_id m) s"
  shows "(case filter_chain (ce_time E) ops (createMessageFromCommand (ce_time E) m) of
      None \<Rightarrow> \<exists>c. core_sendMessage (Suc n) E m s = Some (co_transmit (co_getRoute parent_fed s) c s)
                 \<and> messageAction c = cmd_ignore
    | Some r \<Rightarrow> \<forall>p i. getEndpoint (msg_dest r) (co_loopHandles s) = Some p
        \<longrightarrow> \<not> checkActionFlag (bh_flags (hm_handles (co_loopHandles s) ! p)) has_dest_filter_flag
        \<longrightarrow> getFederateCore E (getFederateId (hm_handles (co_loopHandles s) ! p)) s = Some i
        \<longrightarrow> (\<exists>s' c. core_sendMessage (Suc n) E m s = Some s' \<and> last (co_events s') = To_Federate i c
               \<and> getDest c = bh_handle (hm_handles (co_loopHandles s) ! p)
               \<and> createMessageFromCommand (ce_time E) c = plain (ce_time E) r))"
proof -
  let ?T = "ce_time E"
  have pm: "core_sendMessage (Suc n) E m s = deliverMessage (Suc n) E
      (case filter_chain ?T ops (createMessageFromCommand ?T m) of
         Some r \<Rightarrow> assign_message m (message_to_command ?T r)
       | None \<Rightarrow> assign_message m (mk_message ?T cmd_ignore)) s"
    using sent chain(2)
    by (simp add: core_sendMessage_def processMessage_chain [OF chain(1)] source_loop_local_chain [OF chain(3)])
  have fed: "getFederateCore E g (co_timeMessage E c s) = getFederateCore E g s" for g c
    using setting.view_put_time(3) [of E c s] by (simp add: getFederateCore_def setting_def)
  have to_fed: "last (co_events (to_endpoint E h c s)) = To_Federate i (setDestination (bh_handle h) c)"
    if "dest_id c = parent_fed" "getFederateCore E (getFederateId h) s = Some i" for h c i
    using that by (simp add: to_endpoint_def Let_def fed)
  show ?thesis
  proof (cases "filter_chain ?T ops (createMessageFromCommand ?T m)")
    case None
    define c where "c = assign_message m (mk_message ?T cmd_ignore)"
    have "messageAction c = cmd_ignore" "dest_id c = parent_fed" "cmd_ignore \<noteq> cmd_send_message"
      by (simp_all add: c_def assign_message_def mk_message_def ActionMessage_default_def) (simp add: cmd_code)
    then show ?thesis
      by (auto simp: None pm c_def [symmetric] intro!: exI [where x = c])
  next
    case (Some r)
    define c where "c = assign_message m (message_to_command ?T r)"
    have c: "messageAction c = cmd_send_message" "dest_id c = parent_fed" "getString c 0 = msg_dest r"
      by (simp_all add: c_def assign_message_def message_to_command_def getString_def isValidIndex_def ActionMessage_default_def)
    have "createMessageFromCommand ?T (setDestination h c) = plain ?T r" for h
      by (simp add: c_def plain_def createMessageFromCommand_def setDestination_def assign_message_def)
    then show ?thesis
      using to_fed [OF c(2)]
      by (auto simp: Some pm c_def [symmetric] c deliver_local_def setDestination_def getDest_def)
  qed
qed

definition local_sender :: tick_core where
  "local_sender = (sending_core [first_core_id, first_core_id])
     \<lparr> co_loopHandles := HandleManager_empty
          \<lparr> hm_handles := [endpoint_info, endpoint_info\<lparr> bh_key := ''away'', bh_flags := 0 \<rparr>],
            hm_endpoints := [''away'' \<mapsto> Interface_Handle 1] \<rparr> \<rparr>"

lemma local_sender_chain:
  "endpoint_chain (source_handle sent_message) local_sender = Some (sender, [0, 1])"
  by (simp add: endpoint_chain_def local_sender_def sent_message_def getEndpoint_at_def isValidIndex_def
      HandleManager_empty_def endpoint_filtered)

theorem local_filters_compose_witness:
  "\<exists>s' c. core_sendMessage 1 tick_core_env sent_message local_sender = Some s' \<and> last (co_events s') = To_Federate 0 c
     \<and> msg_data (createMessageFromCommand tick_rep c) = ''xxdata''"
proof -
  let ?op = "the (filterOp (filter_at first_core_id))"
  have ops: "list_all2 (local_filter tick_core_env local_sender) [0, 1] [?op, ?op]"
    by (simp add: local_filter_def local_sender_def) (simp add: filter_at_def)
  obtain r where r: "filter_chain tick_rep [?op, ?op] (createMessageFromCommand tick_rep sent_message) = Some r"
    "msg_dest r = ''away''" "msg_data (plain tick_rep r) = ''xxdata''"
    by (simp add: filter_at_def sent_message_def createMessageFromCommand_def plain_def message_to_command_def)
  have d: "dest_id sent_message = parent_fed" "isLocal tick_core_env (source_id sent_message) local_sender"
    by (simp_all add: sent_message_def mk_message_def ActionMessage_default_def isLocal_def local_sender_def)
  have e: "getEndpoint ''away'' (co_loopHandles local_sender) = Some 1"
    "hm_handles (co_loopHandles local_sender) ! 1 = endpoint_info\<lparr> bh_key := ''away'', bh_flags := 0 \<rparr>"
    by (simp_all add: local_sender_def getEndpoint_def HandleManager_empty_def)
  have f: "getFederateCore tick_core_env sender local_sender = Some 0"
    "\<not> checkActionFlag (bh_flags (endpoint_info\<lparr> bh_key := ''away'', bh_flags := 0 \<rparr>)) has_dest_filter_flag"
    "getFederateId (endpoint_info\<lparr> bh_key := ''away'', bh_flags := 0 \<rparr>) = sender"
    by (simp_all add: local_sender_def getFederateCore_def checkActionFlag_def getFederateId_def)
  show ?thesis
    using local_filters_compose [OF local_sender_chain _ ops d, of 0] r e f by auto
qed

section \<open>Filters of other cores\<close>

text \<open>\<open>remote_filter E s f c h\<close>: the filter at position \<open>f\<close> is the open filter with handle \<open>h\<close> of another core \<open>c\<close>.
  \<open>filter_in E s c h op\<close>: the core \<open>c\<close> in state \<open>s\<close> has that filter, with operator \<open>op\<close>.\<close>

definition remote_filter ::
  "('t, 'd, 'x) core_env \<Rightarrow> ('t, 'd, 'x) CommonCore \<Rightarrow> nat \<Rightarrow> global_broker_id \<Rightarrow> interface_handle \<Rightarrow> bool" where
  "remote_filter E s f c h \<longleftrightarrow> (let filt = filters_of E s ! f
     in \<not> fi_closed filt \<and> fi_core_id filt = c \<and> fi_handle filt = h \<and> c \<noteq> co_local_id s \<and> \<not> cloning filt)"

definition filter_in ::
  "('t, 'd, 'x) core_env \<Rightarrow> ('t, 'd, 'x) CommonCore \<Rightarrow> global_broker_id \<Rightarrow> interface_handle \<Rightarrow> 't FilterOperator \<Rightarrow> bool" where
  "filter_in E s c h op \<longleftrightarrow> co_local_id s = c \<and> fed_of_broker c \<noteq> parent_fed
     \<and> (\<exists>i. mv_find (ce_filters E) (Global_Handle (fed_of_broker c) h) (co_filters s) = Some i
          \<and> (let filt = filters_of E s ! i
             in \<not> fi_closed filt \<and> fi_handle filt = h \<and> \<not> cloning filt \<and> filterOp filt = Some op))"

lemma send_to_filter:
  assumes "endpoint_chain (source_handle m) s = Some (fed, f # fs)" "fs \<noteq> []" "remote_filter E s f c h"
    and "dest_id m = parent_fed" "isLocal E (source_id m) s"
  shows "core_sendMessage (Suc n) E m s = Some (co_transmit (co_getRoute (fed_of_broker c) s)
      (setAction cmd_send_for_filter_return (to_filter (filters_of E s ! f) 0 m))
      (s\<lparr> co_ongoing := (co_ongoing s)(fed := insert (messageID m) (co_ongoing s fed)) \<rparr>))"
proof -
  have "source_loop (Suc n) E fed (length (f # fs)) (f # fs) 0 m s =
      Some (setAction cmd_send_for_filter_return (to_filter (filters_of E s ! f) 0 m),
            s\<lparr> co_ongoing := (co_ongoing s)(fed := insert (messageID m) (co_ongoing s fed)) \<rparr>)"
    using assms(2,3) by (subst source_loop_remote) (auto simp: remote_filter_def Let_def)
  then show ?thesis
    using assms(3-5)
    by (simp add: core_sendMessage_def processMessage_chain [OF assms(1)] setAction_def to_filter_def remote_filter_def
        Let_def cmd_code co_getRoute_def)
qed

text \<open>The answer of a filter to a core that wants the message back.\<close>

definition answer_of :: "('t::linorder) time_rep \<Rightarrow> global_broker_id \<Rightarrow> interface_handle \<Rightarrow> 't Message option \<Rightarrow> 't ActionMessage
    \<Rightarrow> 't ActionMessage" where
  "answer_of T c h res m =
     (let r = assign_message m (case res of Some msg \<Rightarrow> message_to_command T msg | None \<Rightarrow> mk_message T cmd_ignore);
          r1 = setAction (filter_answer m (res = None)) (setDestination (getSource m) r)
      in if res = None then r1\<lparr> messageID := messageID m \<rparr>
         else r1\<lparr> source_handle := h, source_id := fed_of_broker c \<rparr>)"

lemma filter_answers:
  assumes "filter_in E s c h op" "getDest m = Global_Handle (fed_of_broker c) h"
    and "answers_sender m"
  shows "processMessageFilter (Suc n) E m s = Some (co_transmit (co_getRoute (source_id m) s)
      (answer_of (ce_time E) c h (fo_process op (createMessageFromCommand (ce_time E) m)) m) s)"
  using assms
  by (auto simp: filter_in_def processMessageFilter_def run_filter_def answers_sender_def filter_answer_def
      answer_of_def Let_def co_me_def getDest_def setAction_def setDestination_def getSource_def cmd_code)

lemma answer_simps:
  "getDest (answer_of T c h res m) = getSource m" "counter (answer_of T c h res m) = 0"
  "messageAction (answer_of T c h res m) = filter_answer m (res = None)"
  "messageID (answer_of T c h (Some msg) m) = msg_messageID msg" "messageID (answer_of T c h None m) = messageID m"
  "getSource (answer_of T c h (Some msg) m) = Global_Handle (fed_of_broker c) h"
  "createMessageFromCommand T (answer_of T c h (Some msg) m) = plain T msg"
  "createMessageFromCommand T (answer_of T c h None m) = (Message_default T)\<lparr> msg_data := [], msg_messageID := messageID m,
     msg_time := actionTime (mk_message T cmd_ignore) \<rparr>"
  by (simp_all add: answer_of_def Let_def getDest_def getSource_def setAction_def setDestination_def assign_message_def
      message_to_command_def ActionMessage_default_def mk_message_def createMessageFromCommand_def plain_def
      split: option.split)

text \<open>The core of the endpoint sends a message that came back on to the next filter.\<close>

definition reaches_other :: "('t, 'd, 'x) core_env \<Rightarrow> ('t, 'd, 'x) CommonCore \<Rightarrow> global_broker_id \<Rightarrow> bool" where
  "reaches_other E s c \<longleftrightarrow> fed_of_broker c \<notin> {parent_fed, fed_of_broker (co_higher s), co_me s}
     \<and> getFederateCore E (fed_of_broker c) s = None"

lemma route_other:
  "reaches_other E s c \<Longrightarrow> dest_id m = fed_of_broker c \<Longrightarrow>
     co_routeMessage E m s = co_transmit (co_getRoute (fed_of_broker c) s) m s"
  by (auto simp: reaches_other_def co_routeMessage_def route_with_def)

lemma release_frame:
  "co_ongoing (release_timing E fed s) = co_ongoing s" "setting (release_timing E fed s) = setting s"
  "co_filterCoord (release_timing E fed s) = co_filterCoord s"
  "\<exists>es. co_events (release_timing E fed s) = co_events s @ es"
proof -
  show "co_ongoing (release_timing E fed s) = co_ongoing s"
    using pending_transmitDelayedFrom [of E fed s] by (simp add: release_timing_def in_flight_def)
  have "setting (s1\<lparr> co_delayTransmit := x \<rparr>) = setting s1" "setting (s1\<lparr> co_delayedTiming := y \<rparr>) = setting s1"
    for s1 :: "('a, 'b, 'c) CommonCore" and x y
    by (simp_all add: setting_def)
  then show "setting (release_timing E fed s) = setting s" "co_filterCoord (release_timing E fed s) = co_filterCoord s"
    by (simp_all add: release_timing_def transmitDelayedFrom_def Let_def)
  have "grows s (transmitDelayedFrom E fed s)"
    by (simp add: transmitDelayedFrom_def Let_def grows_foldl)
  then show "\<exists>es. co_events (release_timing E fed s) = co_events s @ es"
    using growsD by (auto simp: release_timing_def)
qed

lemma setting_done: "setting (filtering_done fed mid s) = setting s" "setting (co_event e s) = setting s"
  by (simp_all add: filtering_done_def setting_def co_event_def)

lemma return_to_next:
  assumes "endpoint_chain (dest_handle r) s = Some (fed, f0 # f1 # fs)" "messageID r \<in> co_ongoing s fed"
    and "messageAction r \<noteq> cmd_null_message" "counter r = 0" "remote_filter E s f1 c h" "reaches_other E s c"
  shows "\<exists>s' es. processFilterReturn n E r s = Some s'
    \<and> co_events s' = co_events s @ Core_Transmit (co_getRoute (fed_of_broker c) s)
        (setAction (if fs = [] then cmd_send_for_filter else cmd_send_for_filter_return) (to_filter (filters_of E s ! f1) 1 r)) # es
    \<and> co_ongoing s' fed = (if fs = [] then co_ongoing s fed - {messageID r} else co_ongoing s fed)
    \<and> setting s' = setting s"
proof -
  let ?m = "setAction (if fs = [] then cmd_send_for_filter else cmd_send_for_filter_return) (to_filter (filters_of E s ! f1) 1 r)"
  define s1 where "s1 = (if fs = [] then filtering_done fed (messageID r) s else s)"
  have s1: "reaches_other E s1 c" "co_getRoute (fed_of_broker c) s1 = co_getRoute (fed_of_broker c) s" "co_events s1 = co_events s"
    "co_ongoing s1 fed = (if fs = [] then co_ongoing s fed - {messageID r} else co_ongoing s fed)"
    using assms(6) by (simp_all add: s1_def filtering_done_def reaches_other_def co_getRoute_def getFederateCore_def co_me_def)
  have "dest_id ?m = fed_of_broker c"
    using assms(5) by (simp add: remote_filter_def Let_def setAction_def to_filter_def)
  from route_other [OF s1(1) this, unfolded s1(2)]
  have "processFilterReturn n E r s = Some (release_timing E fed (co_transmit (co_getRoute (fed_of_broker c) s) ?m s1))"
    using assms(5) unfolding processFilterReturn_chain [OF assms(1-3)] assms(4)
    by (subst (1) unat_0, unfold add_0 One_nat_def drop_Suc_Cons drop_0, subst return_loop_remote)
       (auto simp: remote_filter_def Let_def s1_def)
  then show ?thesis
    using release_frame [of E fed "co_transmit (co_getRoute (fed_of_broker c) s) ?m s1"]
    by (auto simp: s1 co_event_def setting_done [unfolded co_event_def]) (simp_all add: s1_def setting_done)
qed

text \<open>A filter that does not have to return the message delivers it.\<close>

lemma filter_delivers:
  assumes "filter_in E s c h op" "getDest m = Global_Handle (fed_of_broker c) h" "messageAction m = cmd_send_for_filter"
    and "fo_process op (createMessageFromCommand (ce_time E) m) = Some msg"
    and "getEndpoint (msg_dest msg) (co_loopHandles s) = None"
  shows "\<exists>r route. processMessageFilter (Suc n) E m s = Some (co_transmit route r s) \<and> messageAction r = cmd_send_message
    \<and> createMessageFromCommand (ce_time E) r = plain (ce_time E) msg"
proof -
  define r where "r = (setSource (getSource m) (assign_message m (message_to_command (ce_time E) msg)))
    \<lparr> dest_id := parent_fed, dest_handle := default_interface_handle \<rparr>"
  have r: "messageAction r = cmd_send_message" "dest_id r = parent_fed" "getString r 0 = msg_dest msg"
    "createMessageFromCommand (ce_time E) r = plain (ce_time E) msg"
    by (simp_all add: r_def setSource_def assign_message_def message_to_command_def getString_def isValidIndex_def
        ActionMessage_default_def createMessageFromCommand_def plain_def)
  have "processMessageFilter (Suc n) E m s = deliverMessage (Suc n) E r s"
    using assms(1-4)
    by (auto simp: filter_in_def processMessageFilter_def run_filter_def answers_sender_def Let_def co_me_def getDest_def
        r_def cmd_code simp del: deliverMessage.simps)
  then show ?thesis
    using r assms(5) by auto
qed

lemma chain_fields [simp]:
  "endpoint_chain h (s\<lparr> co_ongoing := og \<rparr>) = endpoint_chain h s" "endpoint_chain h (co_event e s) = endpoint_chain h s"
  "remote_filter E (s\<lparr> co_ongoing := og \<rparr>) f c h = remote_filter E s f c h"
  "remote_filter E (co_event e s) f c h = remote_filter E s f c h"
  "reaches_other E (s\<lparr> co_ongoing := og \<rparr>) c = reaches_other E s c" "reaches_other E (co_event e s) c = reaches_other E s c"
  "co_getRoute g (s\<lparr> co_ongoing := og \<rparr>) = co_getRoute g s" "co_getRoute g (co_event e s) = co_getRoute g s"
  by (simp_all add: endpoint_chain_def remote_filter_def reaches_other_def co_getRoute_def co_event_def getFederateCore_def
      co_me_def cong: if_cong)

text \<open>The way to the first filter and back, whatever the operator answers.\<close>

lemma first_filter_answers:
  assumes chain: "endpoint_chain (source_handle m) sA = Some (source_id m, f0 # f1 # fs)"
    and first: "remote_filter EA sA f0 cB hB" "filter_in EB sB cB hB opB"
    and sent: "dest_id m = parent_fed" "isLocal EA (source_id m) sA" "ce_time EB = T"
  obtains sA1 m1 rB r1 where "core_sendMessage (Suc n) EA m sA = Some sA1"
    "co_events sA1 = co_events sA @ [Core_Transmit (co_getRoute (fed_of_broker cB) sA) m1]"
    "processMessageFilter (Suc n) EB m1 sB = Some (co_transmit rB r1 sB)"
    "r1 = answer_of T cB hB (fo_process opB (createMessageFromCommand T m)) m1" "dest_handle r1 = source_handle m"
    "messageID m1 = messageID m" "messageAction m1 = cmd_send_for_filter_return"
    "co_ongoing sA1 (source_id m) = insert (messageID m) (co_ongoing sA (source_id m))"
    "endpoint_chain h sA1 = endpoint_chain h sA" "setting sA1 = setting sA" "co_filterCoord sA1 = co_filterCoord sA"
proof -
  define m1 where "m1 = setAction cmd_send_for_filter_return (to_filter (filters_of EA sA ! f0) 0 m)"
  define sA1 where "sA1 = co_transmit (co_getRoute (fed_of_broker cB) sA) m1
    (sA\<lparr> co_ongoing := (co_ongoing sA)(source_id m := insert (messageID m) (co_ongoing sA (source_id m))) \<rparr>)"
  have send: "core_sendMessage (Suc n) EA m sA = Some sA1"
    using send_to_filter [OF chain _ first(1) sent(1,2)] by (simp add: sA1_def m1_def)
  have m1: "getDest m1 = Global_Handle (fed_of_broker cB) hB" "messageAction m1 = cmd_send_for_filter_return"
    "getSource m1 = getSource m" "createMessageFromCommand T m1 = createMessageFromCommand T m" "messageID m1 = messageID m"
    using first(1) by (simp_all add: m1_def remote_filter_def Let_def getDest_def getSource_def setAction_def to_filter_def
        createMessageFromCommand_def)
  define r1 where "r1 = answer_of T cB hB (fo_process opB (createMessageFromCommand T m)) m1"
  have r1: "processMessageFilter (Suc n) EB m1 sB = Some (co_transmit (co_getRoute (source_id m1) sB) r1 sB)"
    using filter_answers [OF first(2) m1(1)] by (simp add: r1_def m1 sent(3) answers_sender_def)
  have "dest_handle r1 = source_handle m"
    using answer_simps(1) [of T cB hB _ m1] m1(3) by (simp add: r1_def getDest_def getSource_def)
  then show thesis
    using send r1 m1(2,5)
    by (intro that [of sA1 m1 _ r1]) (simp_all add: r1_def, simp_all add: sA1_def co_event_def setting_def endpoint_chain_def cong: if_cong)
qed

lemma setting_filters:
  "setting s' = setting s \<Longrightarrow> remote_filter E s' f c h = remote_filter E s f c h"
  "setting s' = setting s \<Longrightarrow> reaches_other E s' c = reaches_other E s c"
  "setting s' = setting s \<Longrightarrow> co_getRoute g s' = co_getRoute g s"
  "setting s' = setting s \<Longrightarrow> filters_of E s' = filters_of E s"
  by (simp_all add: setting_def remote_filter_def reaches_other_def co_getRoute_def getFederateCore_def co_me_def)

text \<open>The message on its way to the second filter.\<close>

lemma second_filter_asked:
  assumes chain: "endpoint_chain (source_handle m) sA = Some (source_id m, f0 # f1 # fs)"
    and first: "remote_filter EA sA f0 cB hB" "filter_in EB sB cB hB opB"
    and second: "remote_filter EA sA f1 cC hC" "reaches_other EA sA cC"
    and sent: "dest_id m = parent_fed" "isLocal EA (source_id m) sA" "ce_time EB = T"
    and ops: "fo_process opB (createMessageFromCommand T m) = Some b" "msg_messageID b = messageID m"
  obtains sA1 m1 rB r1 sA2 m2 es where "core_sendMessage (Suc n) EA m sA = Some sA1"
    "co_events sA1 = co_events sA @ [Core_Transmit (co_getRoute (fed_of_broker cB) sA) m1]"
    "processMessageFilter (Suc n) EB m1 sB = Some (co_transmit rB r1 sB)"
    "processFilterReturn (Suc n) EA r1 sA1 = Some sA2"
    "co_events sA2 = co_events sA1 @ Core_Transmit (co_getRoute (fed_of_broker cC) sA) m2 # es"
    "co_ongoing sA2 (source_id m) = (if fs = [] then co_ongoing sA (source_id m) - {messageID m}
       else insert (messageID m) (co_ongoing sA (source_id m)))" "setting sA2 = setting sA"
    "getDest m2 = Global_Handle (fed_of_broker cC) hC" "getSource m2 = Global_Handle (fed_of_broker cB) hB"
    "messageAction m2 = (if fs = [] then cmd_send_for_filter else cmd_send_for_filter_return)"
    "createMessageFromCommand T m2 = plain T b"
proof -
  let ?fed = "source_id m"
  obtain sA1 m1 rB r1 where A1: "core_sendMessage (Suc n) EA m sA = Some sA1"
    "co_events sA1 = co_events sA @ [Core_Transmit (co_getRoute (fed_of_broker cB) sA) m1]"
    "processMessageFilter (Suc n) EB m1 sB = Some (co_transmit rB r1 sB)" "r1 = answer_of T cB hB (Some b) m1"
    "dest_handle r1 = source_handle m" "co_ongoing sA1 ?fed = insert (messageID m) (co_ongoing sA ?fed)"
    "endpoint_chain (source_handle m) sA1 = Some (?fed, f0 # f1 # fs)" "setting sA1 = setting sA"
    "messageAction m1 = cmd_send_for_filter_return"
    using first_filter_answers [OF chain first sent(1-3), of n] chain ops(1) by metis
  note same = setting_filters [OF A1(8)]
  have r1: "messageID r1 = messageID m" "counter r1 = 0" "messageAction r1 \<noteq> cmd_null_message"
    "createMessageFromCommand T r1 = plain T b" "getSource r1 = Global_Handle (fed_of_broker cB) hB"
    by (simp_all add: A1(4,9) answer_simps ops(2) filter_answer_def cmd_code)
  have "endpoint_chain (dest_handle r1) sA1 = Some (?fed, f0 # f1 # fs)" "messageID r1 \<in> co_ongoing sA1 ?fed"
    "remote_filter EA sA1 f1 cC hC" "reaches_other EA sA1 cC"
    using second A1(5-7) by (simp_all add: r1 same)
  from return_to_next [OF this(1,2) r1(3,2) this(3,4), of "Suc n"]
  obtain sA2 m2 es where sA2: "processFilterReturn (Suc n) EA r1 sA1 = Some sA2"
    "co_events sA2 = co_events sA1 @ Core_Transmit (co_getRoute (fed_of_broker cC) sA) m2 # es"
    "co_ongoing sA2 ?fed = (if fs = [] then co_ongoing sA ?fed - {messageID m}
       else insert (messageID m) (co_ongoing sA ?fed))" "setting sA2 = setting sA"
    "m2 = setAction (if fs = [] then cmd_send_for_filter else cmd_send_for_filter_return)
       (to_filter (filters_of EA sA ! f1) 1 r1)"
    by (auto simp: r1 same A1(6,8))
  have "getDest m2 = Global_Handle (fed_of_broker cC) hC" "getSource m2 = Global_Handle (fed_of_broker cB) hB"
    "messageAction m2 = (if fs = [] then cmd_send_for_filter else cmd_send_for_filter_return)"
    using second(1) r1(5)
    by (simp_all add: sA2(5) remote_filter_def Let_def getDest_def getSource_def setAction_def to_filter_def)
  moreover have "createMessageFromCommand T m2 = plain T b"
    by (simp add: sA2(5) r1)
  ultimately show thesis
    using that A1(1-3) sA2(1-4) by blast
qed

text \<open>C4: A message whose endpoint has two source filters, each of another core, passes both: the core of the endpoint
  sends it to the first one, whose answer it takes back and sends to the second, which delivers what both operators made of the
  message; afterwards the message is no longer in filtering. Every step returns. The operator of the first filter keeps the
  identifier of the message.\<close>

theorem two_filters_round_trip:
  assumes chain: "endpoint_chain (source_handle m) sA = Some (source_id m, [f0, f1])"
    and first: "remote_filter EA sA f0 cB hB" "filter_in EB sB cB hB opB"
    and second: "remote_filter EA sA f1 cC hC" "filter_in EC sC cC hC opC" "reaches_other EA sA cC"
    and sent: "dest_id m = parent_fed" "isLocal EA (source_id m) sA" "ce_time EB = T" "ce_time EC = T"
    and ops: "fo_process opB (createMessageFromCommand T m) = Some b" "msg_messageID b = messageID m"
      "fo_process opC (plain T b) = Some c" "getEndpoint (msg_dest c) (co_loopHandles sC) = None"
  shows "\<exists>sA1 m1 rB r1 sA2 m2 es rC r2.
      core_sendMessage (Suc n) EA m sA = Some sA1
    \<and> co_events sA1 = co_events sA @ [Core_Transmit (co_getRoute (fed_of_broker cB) sA) m1]
    \<and> processMessageFilter (Suc n) EB m1 sB = Some (co_transmit rB r1 sB)
    \<and> processFilterReturn (Suc n) EA r1 sA1 = Some sA2
    \<and> co_events sA2 = co_events sA1 @ Core_Transmit (co_getRoute (fed_of_broker cC) sA) m2 # es
    \<and> processMessageFilter (Suc n) EC m2 sC = Some (co_transmit rC r2 sC)
    \<and> messageAction r2 = cmd_send_message \<and> createMessageFromCommand T r2 = plain T c
    \<and> co_ongoing sA2 (source_id m) = co_ongoing sA (source_id m) - {messageID m}"
proof -
  obtain sA1 m1 rB r1 sA2 m2 es where A: "core_sendMessage (Suc n) EA m sA = Some sA1"
    "co_events sA1 = co_events sA @ [Core_Transmit (co_getRoute (fed_of_broker cB) sA) m1]"
    "processMessageFilter (Suc n) EB m1 sB = Some (co_transmit rB r1 sB)"
    "processFilterReturn (Suc n) EA r1 sA1 = Some sA2"
    "co_events sA2 = co_events sA1 @ Core_Transmit (co_getRoute (fed_of_broker cC) sA) m2 # es"
    "co_ongoing sA2 (source_id m) = co_ongoing sA (source_id m) - {messageID m}"
    and m2: "getDest m2 = Global_Handle (fed_of_broker cC) hC" "messageAction m2 = cmd_send_for_filter"
    "createMessageFromCommand T m2 = plain T b"
    using second_filter_asked [OF chain first second(1,3) sent(1-3) ops(1,2), of n] by (metis (full_types))
  obtain rC r2 where "processMessageFilter (Suc n) EC m2 sC = Some (co_transmit rC r2 sC)"
    "messageAction r2 = cmd_send_message" "createMessageFromCommand T r2 = plain T c"
    using filter_delivers [OF second(2) m2(1,2), of c n] ops m2(3) sent(4) by auto
  then show ?thesis
    using A by blast
qed

lemma example_chain:
  "endpoint_chain (source_handle sent_message) (sending_core fs) = Some (source_id sent_message, [0..<length fs])"
  by (simp add: endpoint_chain_def sent_message_def endpoint_lookup endpoint_filtered)

lemma example_remote:
  "i < length fs \<Longrightarrow> fs ! i \<noteq> first_core_id \<Longrightarrow> remote_filter tick_core_env (sending_core fs) i (fs ! i) (Interface_Handle 0)"
  by (simp add: remote_filter_def)

lemma example_filter_in:
  "fed_of_broker c \<noteq> parent_fed \<Longrightarrow>
     filter_in tick_core_env (filter_core c) c (Interface_Handle 0) (the (filterOp (filter_at c)))"
  by (simp add: filter_in_def) (simp add: filter_at_def)

lemma example_sent:
  "dest_id sent_message = parent_fed" "isLocal tick_core_env (source_id sent_message) (sending_core fs)"
  "reaches_other tick_core_env (sending_core fs) second_core_id" "reaches_other tick_core_env (sending_core fs) third_core_id"
  by (simp_all add: sent_message_def mk_message_def ActionMessage_default_def isLocal_def reaches_other_def getFederateCore_def
      fed_of_broker_def parent_broker_id_def co_me_def)

lemma example_operators:
  "fo_process (the (filterOp (filter_at c))) msg = Some (msg\<lparr> msg_data := CHR ''x'' # msg_data msg \<rparr>)"
  by (simp add: filter_at_def)

lemma example_others:
  "fed_of_broker second_core_id \<noteq> parent_fed" "fed_of_broker third_core_id \<noteq> parent_fed"
  by (simp_all add: fed_of_broker_def parent_broker_id_def)

lemma example_message:
  "msg_data (createMessageFromCommand tick_rep sent_message) = ''data''"
  "msg_messageID (createMessageFromCommand tick_rep sent_message) = messageID sent_message"
  "messageID sent_message = 55" "source_id sent_message = sender"
  by (simp_all add: create_fields) (simp_all add: sent_message_def)

theorem two_filters_round_trip_witness:
  "\<exists>sA1 m2 rC r2. core_sendMessage 1 tick_core_env sent_message (sending_core [second_core_id, third_core_id]) = Some sA1
     \<and> processMessageFilter 1 tick_core_env m2 (filter_core third_core_id) = Some (co_transmit rC r2 (filter_core third_core_id))
     \<and> msg_data (createMessageFromCommand tick_rep r2) = ''xxdata''"
proof -
  let ?fs = "[second_core_id, third_core_id]"
  have c: "endpoint_chain (source_handle sent_message) (sending_core ?fs) = Some (source_id sent_message, [0, 1])"
    using example_chain [of ?fs] by simp
  have r: "remote_filter tick_core_env (sending_core ?fs) 0 second_core_id (Interface_Handle 0)"
    "remote_filter tick_core_env (sending_core ?fs) 1 third_core_id (Interface_Handle 0)"
    using example_remote [of 0 ?fs] example_remote [of 1 ?fs] by simp_all
  have kept: "msg_messageID ((createMessageFromCommand tick_rep sent_message)
      \<lparr> msg_data := CHR ''x'' # msg_data (createMessageFromCommand tick_rep sent_message) \<rparr>) = messageID sent_message"
    and no_ept: "getEndpoint d (co_loopHandles (filter_core third_core_id)) = None" for d
    by (simp_all add: example_message getEndpoint_def HandleManager_empty_def)
  from two_filters_round_trip [where n = 0, OF c r(1) example_filter_in [OF example_others(1)] r(2) example_filter_in
      [OF example_others(2)] example_sent(4,1,2) core_env_simps(1,1) example_operators kept example_operators no_ept]
  show ?thesis
    unfolding One_nat_def by (elim exE conjE) (intro exI conjI, assumption, assumption, simp add: example_message)
qed

text \<open>C19: With three source filters of other cores a message does not get past the second one. The core of the endpoint
  sends it on with the address of the first filter as its source, so the second filter answers to the first one, whose core
  takes no notice. The message stays in filtering at the core of the endpoint, which holds back every time message
  of the federate from then on.\<close>

theorem third_filter_not_reached:
  assumes chain: "endpoint_chain (source_handle m) sA = Some (source_id m, f0 # f1 # f2 # fs)"
    and first: "remote_filter EA sA f0 cB hB" "filter_in EB sB cB hB opB"
    and second: "remote_filter EA sA f1 cC hC" "filter_in EC sC cC hC opC" "reaches_other EA sA cC"
    and sent: "dest_id m = parent_fed" "isLocal EA (source_id m) sA" "ce_time EB = T" "ce_time EC = T"
    and ops: "fo_process opB (createMessageFromCommand T m) = Some b" "msg_messageID b = messageID m"
      "fo_process opC (plain T b) = Some c"
    and no_ept: "getEndpoint_at hB (co_loopHandles sB) = None"
  shows "\<exists>sA1 m1 rB r1 sA2 m2 es rC r2.
      core_sendMessage (Suc n) EA m sA = Some sA1
    \<and> co_events sA1 = co_events sA @ [Core_Transmit (co_getRoute (fed_of_broker cB) sA) m1]
    \<and> processMessageFilter (Suc n) EB m1 sB = Some (co_transmit rB r1 sB)
    \<and> processFilterReturn (Suc n) EA r1 sA1 = Some sA2
    \<and> co_events sA2 = co_events sA1 @ Core_Transmit (co_getRoute (fed_of_broker cC) sA) m2 # es
    \<and> processMessageFilter (Suc n) EC m2 sC = Some (co_transmit rC r2 sC)
    \<and> getDest r2 = Global_Handle (fed_of_broker cB) hB
    \<and> processFilterReturn (Suc n) EB r2 (co_transmit rB r1 sB) = Some (co_transmit rB r1 sB)
    \<and> messageID m \<in> co_ongoing sA2 (source_id m)
    \<and> (\<forall>t. source_id t = source_id m \<longrightarrow> co_process_time EA t sA2 = co_hold t sA2)"
proof -
  obtain sA1 m1 rB r1 sA2 m2 es where A: "core_sendMessage (Suc n) EA m sA = Some sA1"
    "co_events sA1 = co_events sA @ [Core_Transmit (co_getRoute (fed_of_broker cB) sA) m1]"
    "processMessageFilter (Suc n) EB m1 sB = Some (co_transmit rB r1 sB)"
    "processFilterReturn (Suc n) EA r1 sA1 = Some sA2"
    "co_events sA2 = co_events sA1 @ Core_Transmit (co_getRoute (fed_of_broker cC) sA) m2 # es"
    "co_ongoing sA2 (source_id m) = insert (messageID m) (co_ongoing sA (source_id m))" "setting sA2 = setting sA"
    and m2: "getDest m2 = Global_Handle (fed_of_broker cC) hC" "messageAction m2 = cmd_send_for_filter_return"
    "getSource m2 = Global_Handle (fed_of_broker cB) hB"
    using second_filter_asked [OF chain first second(1,3) sent(1-3) ops(1,2), of n] by (metis (full_types) list.distinct(1))
  define r2 where "r2 = answer_of T cC hC (fo_process opC (createMessageFromCommand T m2)) m2"
  have r2: "processMessageFilter (Suc n) EC m2 sC = Some (co_transmit (co_getRoute (source_id m2) sC) r2 sC)"
    "getDest r2 = Global_Handle (fed_of_broker cB) hB"
    using filter_answers [OF second(2) m2(1)] by (simp_all add: r2_def sent(4) answer_simps m2(2,3) answers_sender_def)
  have "processFilterReturn (Suc n) EB r2 (co_transmit rB r1 sB) = Some (co_transmit rB r1 sB)"
    using r2(2) no_ept by (simp add: processFilterReturn_def getDest_def co_event_def)
  moreover have "co_process_time EA t sA2 = co_hold t sA2" if "source_id t = source_id m" for t
    using that A(6,7) sent(2) by (auto simp: co_process_time_def in_filtering_def isLocal_def setting_def)
  ultimately show ?thesis
    using A(1-5) A(6) r2 by blast
qed

theorem third_filter_not_reached_witness:
  "\<exists>sA1 sA2 r1. core_sendMessage 1 tick_core_env sent_message
      (sending_core [second_core_id, third_core_id, Global_Broker_Id 0x70000003]) = Some sA1
    \<and> processFilterReturn 1 tick_core_env r1 sA1 = Some sA2 \<and> 55 \<in> co_ongoing sA2 sender
    \<and> co_process_time tick_core_env time_message sA2 = co_hold time_message sA2"
proof -
  let ?fs = "[second_core_id, third_core_id, Global_Broker_Id 0x70000003]"
  have c: "endpoint_chain (source_handle sent_message) (sending_core ?fs) = Some (source_id sent_message, [0, 1, 2])"
    using example_chain [of ?fs] by simp
  have r: "remote_filter tick_core_env (sending_core ?fs) 0 second_core_id (Interface_Handle 0)"
    "remote_filter tick_core_env (sending_core ?fs) 1 third_core_id (Interface_Handle 0)"
    using example_remote [of 0 ?fs] example_remote [of 1 ?fs] by simp_all
  have t: "source_id time_message = source_id sent_message"
    by (simp add: time_message_def mk_message_to_def example_message)
  have kept: "msg_messageID ((createMessageFromCommand tick_rep sent_message)
      \<lparr> msg_data := CHR ''x'' # msg_data (createMessageFromCommand tick_rep sent_message) \<rparr>) = messageID sent_message"
    and no_ept: "getEndpoint_at h (co_loopHandles (filter_core second_core_id)) = None" for h
    by (simp_all add: example_message getEndpoint_at_def isValidIndex_def HandleManager_empty_def)
  from third_filter_not_reached [where n = 0, OF c r(1) example_filter_in [OF example_others(1)] r(2) example_filter_in
      [OF example_others(2)] example_sent(4,1,2) core_env_simps(1,1) example_operators kept example_operators no_ept]
  show ?thesis
    unfolding One_nat_def
    by (elim exE conjE) (intro exI conjI, assumption, assumption, simp add: example_message, simp add: t)
qed

section \<open>A message that a filter drops\<close>

lemma processFilterReturn_null:
  assumes "endpoint_chain (dest_handle c) s = Some (fed, fs)" "messageID c \<in> co_ongoing s fed"
    and "messageAction c = cmd_null_message"
  shows "processFilterReturn n E c s =
    return_loop n E fed (messageID c) (length fs) (drop (unat (counter c) + 1) fs) (unat (counter c) + 1) c
      (release_timing E fed (filtering_done fed (messageID c) s))"
proof -
  let ?s1 = "release_timing E fed (filtering_done fed (messageID c) s)"
  have "co_filterCoord ?s1 = co_filterCoord s"
    unfolding release_frame(3) by (simp add: filtering_done_def)
  then show ?thesis
    using assms
    by (auto simp: endpoint_chain_def processFilterReturn_def getFilterCoordinator_def Let_def bind_eq_Some_conv
        simp del: return_loop.simps split: if_splits)
qed

lemma dropped_to_next:
  assumes "endpoint_chain (dest_handle r) s = Some (fed, [f0, f1])" "messageID r \<in> co_ongoing s fed"
    and "messageAction r = cmd_null_message" "counter r = 0" "remote_filter E s f1 c h" "reaches_other E s c"
  shows "\<exists>s' es es'. processFilterReturn n E r s = Some s'
    \<and> co_events s' = co_events s @ es @ Core_Transmit (co_getRoute (fed_of_broker c) s)
        (setAction cmd_send_for_filter (to_filter (filters_of E s ! f1) 1 r)) # es'"
proof -
  let ?m = "setAction cmd_send_for_filter (to_filter (filters_of E s ! f1) 1 r)"
  define s1 where "s1 = release_timing E fed (filtering_done fed (messageID r) s)"
  define s2 where "s2 = filtering_done fed (messageID r) s1"
  have same: "setting s1 = setting s" "setting s2 = setting s"
    by (simp_all add: s1_def s2_def setting_done release_frame(2))
  have dest: "dest_id ?m = fed_of_broker c"
    using assms(5) by (simp add: remote_filter_def Let_def setAction_def to_filter_def)
  have "reaches_other E s2 c"
    using assms(6) setting_filters(2) [OF same(2)] by simp
  from route_other [OF this dest, unfolded setting_filters(3) [OF same(2)]]
  have res: "processFilterReturn n E r s = Some (release_timing E fed (co_transmit (co_getRoute (fed_of_broker c) s) ?m s2))"
    using assms(5) [folded setting_filters(1) [OF same(1)]] setting_filters(4) [OF same(1)]
    unfolding processFilterReturn_null [OF assms(1-3)] assms(4) s1_def [symmetric]
    by (subst (1) unat_0, unfold add_0 One_nat_def drop_Suc_Cons drop_0, subst return_loop_remote)
       (auto simp: remote_filter_def Let_def s2_def)
  obtain es where es: "co_events s1 = co_events s @ es"
    using release_frame(4) [of E fed "filtering_done fed (messageID r) s"] by (auto simp: s1_def filtering_done_def)
  obtain es' where "co_events (release_timing E fed (co_transmit (co_getRoute (fed_of_broker c) s) ?m s2))
      = co_events s2 @ Core_Transmit (co_getRoute (fed_of_broker c) s) ?m # es'"
    using release_frame(4) [of E fed "co_transmit (co_getRoute (fed_of_broker c) s) ?m s2"] by auto
  with res es show ?thesis
    by (auto simp: s2_def filtering_done_def)
qed

text \<open>C20: A message that the first of two filters of other cores drops is not gone: its core answers with an empty
  message, and the core of the endpoint sends this empty message on to the second filter as if it was the filtered one.
  What the operator of the second filter makes of it is delivered.\<close>

theorem dropped_message_sent_on:
  assumes chain: "endpoint_chain (source_handle m) sA = Some (source_id m, [f0, f1])"
    and first: "remote_filter EA sA f0 cB hB" "filter_in EB sB cB hB opB"
    and second: "remote_filter EA sA f1 cC hC" "filter_in EC sC cC hC opC" "reaches_other EA sA cC"
    and sent: "dest_id m = parent_fed" "isLocal EA (source_id m) sA" "ce_time EB = T" "ce_time EC = T"
    and drops: "fo_process opB (createMessageFromCommand T m) = None"
    and ops: "fo_process opC ((Message_default T)\<lparr> msg_data := [], msg_messageID := messageID m,
        msg_time := actionTime (mk_message T cmd_ignore) \<rparr>) = Some c"
      "getEndpoint (msg_dest c) (co_loopHandles sC) = None"
  shows "\<exists>sA1 m1 rB r1 sA2 es m2 es' rC r2.
      core_sendMessage (Suc n) EA m sA = Some sA1
    \<and> processMessageFilter (Suc n) EB m1 sB = Some (co_transmit rB r1 sB) \<and> messageAction r1 = cmd_null_message
    \<and> processFilterReturn (Suc n) EA r1 sA1 = Some sA2
    \<and> co_events sA2 = co_events sA1 @ es @ Core_Transmit (co_getRoute (fed_of_broker cC) sA) m2 # es'
    \<and> processMessageFilter (Suc n) EC m2 sC = Some (co_transmit rC r2 sC)
    \<and> messageAction r2 = cmd_send_message \<and> createMessageFromCommand T r2 = plain T c"
proof -
  let ?fed = "source_id m"
  obtain sA1 m1 rB r1 where A1: "core_sendMessage (Suc n) EA m sA = Some sA1"
    "processMessageFilter (Suc n) EB m1 sB = Some (co_transmit rB r1 sB)" "r1 = answer_of T cB hB None m1"
    "dest_handle r1 = source_handle m" "co_ongoing sA1 ?fed = insert (messageID m) (co_ongoing sA ?fed)"
    "endpoint_chain (source_handle m) sA1 = Some (?fed, [f0, f1])" "setting sA1 = setting sA" "messageID m1 = messageID m"
    "messageAction m1 = cmd_send_for_filter_return"
    using first_filter_answers [OF chain first sent(1-3), of n] chain drops by metis
  note same = setting_filters [OF A1(7)]
  have r1: "messageID r1 = messageID m" "counter r1 = 0" "messageAction r1 = cmd_null_message"
    by (simp_all add: A1(3) answer_simps A1(8,9) filter_answer_def cmd_code)
  have "endpoint_chain (dest_handle r1) sA1 = Some (?fed, [f0, f1])" "messageID r1 \<in> co_ongoing sA1 ?fed"
    "remote_filter EA sA1 f1 cC hC" "reaches_other EA sA1 cC"
    using second A1(4-6) by (simp_all add: r1 same)
  from dropped_to_next [OF this(1,2) r1(3,2) this(3,4), of "Suc n"]
  obtain sA2 es m2 es' where sA2: "processFilterReturn (Suc n) EA r1 sA1 = Some sA2"
    "co_events sA2 = co_events sA1 @ es @ Core_Transmit (co_getRoute (fed_of_broker cC) sA) m2 # es'"
    "m2 = setAction cmd_send_for_filter (to_filter (filters_of EA sA ! f1) 1 r1)"
    by (auto simp: same)
  have m2: "getDest m2 = Global_Handle (fed_of_broker cC) hC" "messageAction m2 = cmd_send_for_filter"
    using second(1) by (simp_all add: sA2(3) remote_filter_def Let_def getDest_def setAction_def to_filter_def)
  have "fo_process opC (createMessageFromCommand (ce_time EC) m2) = Some c"
    using ops(1) by (simp add: sA2(3) A1(3,8) answer_simps sent(4))
  from filter_delivers [OF second(2) m2 this ops(2), of n] show ?thesis
    using A1(1,2) r1(3) sA2(1,2) by (auto simp: sent(4)) blast
qed

definition dropping_operator :: "ticks FilterOperator" where
  "dropping_operator = \<lparr> fo_process = (\<lambda>m. None), fo_processVector = (\<lambda>m. []) \<rparr>"

definition dropping_core :: tick_core where
  "dropping_core = (filter_core second_core_id)\<lparr> co_filters := (co_filters (filter_core second_core_id))
     \<lparr> li_elems := [(filter_at second_core_id)\<lparr> filterOp := Some dropping_operator \<rparr>] \<rparr> \<rparr>"

lemma dropping_core_in:
  "filter_in tick_core_env dropping_core second_core_id (Interface_Handle 0) dropping_operator"
  using example_others(1)
  by (simp add: filter_in_def dropping_core_def) (simp add: filter_at_def mk_FilterInfo_def fi_closed_def checkActionFlag_def)

theorem dropped_message_sent_on_witness:
  "\<exists>r1 sA1 rB rC m1 m2 r2. processMessageFilter 1 tick_core_env m1 dropping_core = Some (co_transmit rB r1 dropping_core)
    \<and> messageAction r1 = cmd_null_message
    \<and> core_sendMessage 1 tick_core_env sent_message (sending_core [second_core_id, third_core_id]) = Some sA1
    \<and> processMessageFilter 1 tick_core_env m2 (filter_core third_core_id) = Some (co_transmit rC r2 (filter_core third_core_id))
    \<and> messageAction r2 = cmd_send_message \<and> msg_data (createMessageFromCommand tick_rep r2) = ''x''"
proof -
  let ?fs = "[second_core_id, third_core_id]"
  have c: "endpoint_chain (source_handle sent_message) (sending_core ?fs) = Some (source_id sent_message, [0, 1])"
    using example_chain [of ?fs] by simp
  have r: "remote_filter tick_core_env (sending_core ?fs) 0 second_core_id (Interface_Handle 0)"
    "remote_filter tick_core_env (sending_core ?fs) 1 third_core_id (Interface_Handle 0)"
    using example_remote [of 0 ?fs] example_remote [of 1 ?fs] by simp_all
  have d: "fo_process dropping_operator (createMessageFromCommand tick_rep sent_message) = None"
    and no_ept: "getEndpoint d (co_loopHandles (filter_core third_core_id)) = None" for d
    by (simp_all add: dropping_operator_def getEndpoint_def HandleManager_empty_def)
  from dropped_message_sent_on [where n = 0, OF c r(1) dropping_core_in r(2) example_filter_in [OF example_others(2)]
      example_sent(4,1,2) core_env_simps(1,1) d example_operators no_ept]
  show ?thesis
    unfolding One_nat_def
    by (elim exE conjE) (intro exI conjI, assumption, assumption, assumption, assumption, assumption, simp)
qed

end
