(* ===== verification/Core_Arrival.thy ===== *)
theory Core_Arrival
  imports Core_Chain
begin

text \<open>
  The arrival of a message at an endpoint with a destination filter of another core, and the endpoint of a federate
  whose connections are optional.
\<close>

section \<open>Destination filters\<close>

text \<open>The endpoint \<open>p\<close> of the core has the destination filter at position \<open>d\<close> and no cloning ones; its federate
  is the one at position \<open>f\<close>.\<close>

definition filtered_destination ::
  "('t, 'd, 'x) core_env \<Rightarrow> ('t, 'd, 'x) CommonCore \<Rightarrow> nat \<Rightarrow> nat \<Rightarrow> nat \<Rightarrow> bool" where
  "filtered_destination E s p d f \<longleftrightarrow>
     (let h = hm_handles (co_loopHandles s) ! p
      in checkActionFlag (bh_flags h) has_dest_filter_flag
       \<and> (\<exists>fc. co_filterCoord s (getInterfaceHandle h) = Some fc \<and> destFilter fc = Some d \<and> cloningDestFilters fc = [])
       \<and> getEndpoint_at (getInterfaceHandle h) (co_loopHandles s) = Some p
       \<and> getFederateCore E (getFederateId h) s = Some f
       \<and> lf_state (fd_fed (feds_of E s ! f)) \<notin> {HELICS_FINISHED, HELICS_ERROR}
       \<and> getFederateId h \<notin> {parent_fed, fed_of_broker (co_higher s), co_me s})"

lemma filtered_destinationD:
  assumes "filtered_destination E s p d f"
  defines "h \<equiv> hm_handles (co_loopHandles s) ! p"
  obtains fc where "checkActionFlag (bh_flags h) has_dest_filter_flag" "co_filterCoord s (getInterfaceHandle h) = Some fc"
    "destFilter fc = Some d" "cloningDestFilters fc = []" "getEndpoint_at (getInterfaceHandle h) (co_loopHandles s) = Some p"
    "getFederateCore E (getFederateId h) s = Some f" "lf_state (fd_fed (feds_of E s ! f)) \<notin> {HELICS_FINISHED, HELICS_ERROR}"
    "getFederateId h \<notin> {parent_fed, fed_of_broker (co_higher s), co_me s}"
  using assms unfolding filtered_destination_def Let_def h_def [symmetric] by blast

lemma route_to_federate:
  assumes "dest_id m \<notin> {parent_fed, fed_of_broker (co_higher s), co_me s}" "getFederateCore E (dest_id m) s = Some f"
    and "lf_state (fd_fed (feds_of E s ! f)) \<notin> {HELICS_FINISHED, HELICS_ERROR}"
  shows "co_routeMessage E m s = addFedAction f m s" "co_routeMessage_move E m s = addFedAction f m s"
  using assms by (simp_all add: co_routeMessage_def co_routeMessage_move_def route_with_def)

lemma route_move_other:
  "reaches_other E s c \<Longrightarrow> dest_id m = fed_of_broker c \<Longrightarrow>
     co_routeMessage_move E m s = co_transmit (co_getRoute (fed_of_broker c) s) m s"
  by (auto simp: reaches_other_def co_routeMessage_move_def route_with_def)

text \<open>The two messages about the time of the federate.\<close>

definition block_command :: "('t::linorder) time_rep \<Rightarrow> action_t \<Rightarrow> global_federate_id \<Rightarrow> global_federate_id \<Rightarrow> int32
    \<Rightarrow> 't ActionMessage" where
  "block_command T act core fed mid = (mk_message_to T act core fed)\<lparr> messageID := mid \<rparr>"

lemma arrival_blocks:
  assumes dest: "filtered_destination E s p d f" "remote_filter E s d c h" "reaches_other E s c"
    and m: "messageAction m = cmd_send_message" "dest_id m = parent_fed"
      "getEndpoint (getString m 0) (co_loopHandles s) = Some p"
  defines "info \<equiv> hm_handles (co_loopHandles s) ! p" and "mid \<equiv> co_messageCounter s + 1"
  obtains s' m1 where "deliverMessage (Suc n) E m s = Some s'"
    "co_events s' = co_events s @ [To_Federate f (block_command (ce_time E) cmd_time_block (co_me s) (getFederateId info) mid),
       Core_Transmit (co_getRoute (fed_of_broker c) s) m1]"
    "co_ongoingDest s' (getFederateId info) = insert mid (co_ongoingDest s (getFederateId info))"
    "filtered_destination E s' p d f" "setting s' = setting s"
    "messageAction m1 = cmd_send_for_dest_filter_return" "messageID m1 = mid" "payload m1 = payload m"
    "getDest m1 = Global_Handle (fed_of_broker c) h" "stringData m1 = stringData m" "actionTime m1 = actionTime m"
    "getSource m1 = Global_Handle (getFederateId info) (getInterfaceHandle info)"
proof -
  obtain fc where fc: "checkActionFlag (bh_flags info) has_dest_filter_flag" "co_filterCoord s (getInterfaceHandle info) = Some fc"
    "destFilter fc = Some d" "getFederateCore E (getFederateId info) s = Some f"
    using filtered_destinationD [OF dest(1)] by (auto simp: info_def)
  let ?fed = "getFederateId info"
  let ?block = "block_command (ce_time E) cmd_time_block (co_me s) ?fed mid"
  define m1 where "m1 = (setAction cmd_send_for_dest_filter_return m)\<lparr> messageID := mid, source_id := ?fed,
    source_handle := getInterfaceHandle info, dest_id := fed_of_broker c, dest_handle := h \<rparr>"
  define s2 where "s2 = addFedAction f ?block (s\<lparr> co_messageCounter := mid \<rparr>)"
  define s3 where "s3 = s2\<lparr> co_ongoingDest := (co_ongoingDest s2)(?fed := insert mid (co_ongoingDest s2 ?fed)) \<rparr>"
  define s' where "s' = co_transmit (co_getRoute (fed_of_broker c) s) m1 s3"
  note defs = s'_def s3_def s2_def co_event_def
  have same: "setting s3 = setting s" "setting s' = setting s"
    by (simp_all add: defs setting_def)
  have "deliverMessage (Suc n) E m s = block_for_filter E info (filters_of E s ! d) m s"
    using dest(2) fc m
    by (simp add: deliver_local_def info_def [symmetric] getFilterCoordinator_def remote_filter_def Let_def)
  also have "\<dots> = Some (co_routeMessage_move E m1 s3)"
    using dest(2) fc(4)
    by (simp add: block_for_filter_def Let_def m1_def s3_def s2_def block_command_def mid_def remote_filter_def)
  also have "co_routeMessage_move E m1 s3 = s'"
    using route_move_other [of E s3 c m1] dest(3) setting_filters(2,3) [OF same(1)] by (simp add: s'_def m1_def)
  finally have "deliverMessage (Suc n) E m s = Some s'" .
  moreover have "filtered_destination E s' p d f"
    using dest(1) by (simp add: filtered_destination_def defs getFederateCore_def co_me_def)
  moreover have "co_events s' = co_events s @ [To_Federate f ?block, Core_Transmit (co_getRoute (fed_of_broker c) s) m1]"
    "co_ongoingDest s' ?fed = insert mid (co_ongoingDest s ?fed)"
    by (simp_all add: defs)
  ultimately show thesis
    using same(2) by (intro that [of s' m1]) (simp_all add: m1_def setAction_def getDest_def getSource_def)
qed

interpretation dest_processes: route_view co_ongoingDest
  by unfold_locales simp_all

lemma dest_return:
  assumes dest: "filtered_destination E s p d f"
  defines "info \<equiv> hm_handles (co_loopHandles s) ! p"
  assumes r: "getDest r = Global_Handle (getFederateId info) (getInterfaceHandle info)"
    "messageID r \<in> co_ongoingDest s (getFederateId info)" "messageAction r \<noteq> cmd_null_dest_message"
  obtains s' es where "processDestFilterReturn E r s = Some s'"
    "co_events s' = co_events s @ es @ [To_Federate f (setAction cmd_send_message r),
       To_Federate f (block_command (ce_time E) cmd_time_unblock (co_me s) (getFederateId info) (messageID r))]"
    "co_ongoingDest s' (getFederateId info) = co_ongoingDest s (getFederateId info) - {messageID r}"
    "setting s' = setting s"
proof -
  obtain fc where fc: "co_filterCoord s (getInterfaceHandle info) = Some fc" "cloningDestFilters fc = []"
    "getEndpoint_at (getInterfaceHandle info) (co_loopHandles s) = Some p" "getFederateCore E (getFederateId info) s = Some f"
    "lf_state (fd_fed (feds_of E s ! f)) \<notin> {HELICS_FINISHED, HELICS_ERROR}"
    "getFederateId info \<notin> {parent_fed, fed_of_broker (co_higher s), co_me s}"
    using filtered_destinationD [OF dest] unfolding info_def by metis
  let ?fed = "getFederateId info" and ?m = "setAction cmd_send_message r"
  let ?unblock = "block_command (ce_time E) cmd_time_unblock (co_me s) (getFederateId info) (messageID r)"
  define s1 where "s1 = s\<lparr> co_ongoingDest := (co_ongoingDest s)(?fed := co_ongoingDest s ?fed - {messageID r}) \<rparr>"
  define s4 where "s4 = co_timeMessage E r s1"
  define s' where "s' = addFedAction f ?unblock (addFedAction f ?m s4)"
  have same: "setting s4 = setting s" "setting (addFedAction f ?m s4) = setting s" "setting s' = setting s"
    by (simp_all add: s'_def s4_def s1_def setting_def [of "s\<lparr> co_ongoingDest := x \<rparr>" for x] setting_def [of s])
  have to_fed: "co_routeMessage E m s2 = addFedAction f m s2" "co_routeMessage_move E m s2 = addFedAction f m s2"
    if "setting s2 = setting s" "dest_id m = ?fed" for m s2
    using that fc(4-6) by (auto simp: setting_def getFederateCore_def co_me_def intro!: route_to_federate)
  have ids: "dest_id r = ?fed" "dest_handle r = getInterfaceHandle info"
    using r(1) by (simp_all add: getDest_def)
  have "processDestFilterReturn E r s = Some (time_unblock E (messageID r) ?fed (co_routeMessage_move E ?m s4))"
    using fc(1-3) r(2,3)
    by (simp add: processDestFilterReturn_def ids getFilterCoordinator_def info_def [symmetric] s4_def s1_def Let_def)
  also have "co_routeMessage_move E ?m s4 = addFedAction f ?m s4"
    by (rule to_fed(2) [OF same(1)]) (simp add: setAction_def ids)
  also have "time_unblock E (messageID r) ?fed (addFedAction f ?m s4) = s'"
    using to_fed(1) [OF same(2), of ?unblock] setting_me [OF same(2)]
    by (simp add: time_unblock_def s'_def block_command_def mk_message_to_def)
  finally have "processDestFilterReturn E r s = Some s'" .
  moreover obtain es where "co_events s4 = co_events s @ es"
    using growsD [OF grows_put_time(3) [OF grows_refl], of E r s1] by (auto simp: s4_def s1_def)
  ultimately show thesis
    using same(3) by (intro that [of s' es]) (simp_all add: s'_def s4_def s1_def)
qed

lemma dest_return_ignored:
  assumes "filtered_destination E s0 p d f" "co_loopHandles s = co_loopHandles s0"
    and "dest_handle c = getInterfaceHandle (hm_handles (co_loopHandles s0) ! p)"
    and "messageID c \<notin> co_ongoingDest s (getFederateId (hm_handles (co_loopHandles s0) ! p))"
  shows "processDestFilterReturn E c s = Some s"
proof -
  have "getEndpoint_at (dest_handle c) (co_loopHandles s) = Some p"
    using filtered_destinationD [OF assms(1)] unfolding assms(2,3) by blast
  then show ?thesis
    using assms(2,4) by (simp add: processDestFilterReturn_def)
qed

text \<open>C10: A message for an endpoint with a destination filter of another core comes to the endpoint's federate as the
  operator of the filter leaves it, and in between the time of the federate is blocked: the core of the endpoint sends the federate
  a block with a new identifier and the message to the filter, and when the answer comes, the message and the matching unblock, in
  this order. A second answer with the same identifier is ignored. The operator keeps the identifier of the message.\<close>

theorem destination_filter_round_trip:
  assumes dest: "filtered_destination EA sA p d f" "remote_filter EA sA d cB hB" "reaches_other EA sA cB"
    and m: "messageAction m = cmd_send_message" "dest_id m = parent_fed"
      "getEndpoint (getString m 0) (co_loopHandles sA) = Some p"
    and other: "filter_in EB sB cB hB op" "ce_time EA = T" "ce_time EB = T"
    and ops: "fo_process op (createMessageFromCommand T (m\<lparr> messageID := co_messageCounter sA + 1 \<rparr>)) = Some b"
      "msg_messageID b = co_messageCounter sA + 1"
  shows "\<exists>sA1 rt m1 rB r1 sA2 es m2 fed mid.
      deliverMessage (Suc n) EA m sA = Some sA1 \<and> mid = co_messageCounter sA + 1
    \<and> co_events sA1 = co_events sA @ [To_Federate f (block_command T cmd_time_block (co_me sA) fed mid), Core_Transmit rt m1]
    \<and> processMessageFilter (Suc n) EB m1 sB = Some (co_transmit rB r1 sB)
    \<and> processDestFilterReturn EA r1 sA1 = Some sA2
    \<and> co_events sA2 = co_events sA1 @ es @ [To_Federate f m2, To_Federate f (block_command T cmd_time_unblock (co_me sA) fed mid)]
    \<and> messageAction m2 = cmd_send_message \<and> createMessageFromCommand T m2 = plain T b
    \<and> co_ongoingDest sA2 fed = co_ongoingDest sA fed - {mid}
    \<and> processDestFilterReturn EA r1 sA2 = Some sA2"
proof -
  define info where "info = hm_handles (co_loopHandles sA) ! p"
  define mid where "mid = co_messageCounter sA + 1"
  obtain sA1 m1 where A1: "deliverMessage (Suc n) EA m sA = Some sA1"
    "co_events sA1 = co_events sA @ [To_Federate f (block_command T cmd_time_block (co_me sA) (getFederateId info) mid),
       Core_Transmit (co_getRoute (fed_of_broker cB) sA) m1]"
    "co_ongoingDest sA1 (getFederateId info) = insert mid (co_ongoingDest sA (getFederateId info))"
    "filtered_destination EA sA1 p d f" "setting sA1 = setting sA"
    and m1: "messageAction m1 = cmd_send_for_dest_filter_return" "messageID m1 = mid" "payload m1 = payload m"
    "getDest m1 = Global_Handle (fed_of_broker cB) hB" "stringData m1 = stringData m" "actionTime m1 = actionTime m"
    "getSource m1 = Global_Handle (getFederateId info) (getInterfaceHandle info)"
    by (rule arrival_blocks [OF dest m, of n, folded info_def mid_def, unfolded other(2)])
  have "createMessageFromCommand T m1 = createMessageFromCommand T (m\<lparr> messageID := mid \<rparr>)"
    using m1 by (simp add: createMessageFromCommand_def)
  then have r: "processMessageFilter (Suc n) EB m1 sB
      = Some (co_transmit (co_getRoute (source_id m1) sB) (answer_of T cB hB (Some b) m1) sB)"
    using filter_answers [OF other(1) m1(4), of n] ops(1) by (simp add: answers_sender_def m1(1) other(3) mid_def)
  define r1 where "r1 = answer_of T cB hB (Some b) m1"
  have r1: "getDest r1 = Global_Handle (getFederateId info) (getInterfaceHandle info)" "messageID r1 = mid"
    "messageAction r1 \<noteq> cmd_null_dest_message" "createMessageFromCommand T r1 = plain T b"
    by (simp_all add: r1_def answer_simps m1 ops(2) mid_def filter_answer_def cmd_code)
  have info: "hm_handles (co_loopHandles sA1) ! p = info" "co_me sA1 = co_me sA"
    using A1(5) by (simp_all add: setting_def info_def co_me_def)
  have pend: "messageID r1 \<in> co_ongoingDest sA1 (getFederateId info)"
    by (simp add: r1(2) A1(3))
  obtain sA2 es where A2: "processDestFilterReturn EA r1 sA1 = Some sA2"
    "co_events sA2 = co_events sA1 @ es @ [To_Federate f (setAction cmd_send_message r1),
       To_Federate f (block_command T cmd_time_unblock (co_me sA) (getFederateId info) (messageID r1))]"
    "co_ongoingDest sA2 (getFederateId info) = co_ongoingDest sA1 (getFederateId info) - {messageID r1}"
    "setting sA2 = setting sA1"
    by (rule dest_return [OF A1(4), of r1, unfolded info other(2), OF r1(1) pend r1(3)])
  have m2: "messageAction (setAction cmd_send_message r1) = cmd_send_message"
    "createMessageFromCommand T (setAction cmd_send_message r1) = plain T b"
    using r1(4) by (simp_all add: setAction_def [of _ r1, symmetric]) (simp add: setAction_def)
  have gone: "co_ongoingDest sA2 (getFederateId info) = co_ongoingDest sA (getFederateId info) - {mid}"
    using A2(3) A1(3) r1(2) by auto
  have again: "processDestFilterReturn EA r1 sA2 = Some sA2"
    using dest_return_ignored [OF A1(4), of sA2 r1] A2(4) r1(1,2) gone by (simp add: info setting_def getDest_def)
  show ?thesis
    by (intro exI conjI, rule A1(1), rule mid_def, rule A1(2), rule r [folded r1_def], rule A2(1), rule A2(2) [unfolded r1(2)])
       (rule m2 gone again)+
qed

definition receiving_core :: tick_core where
  "receiving_core = (sending_core [second_core_id])
     \<lparr> co_loopHandles := HandleManager_empty\<lparr> hm_handles := [endpoint_info\<lparr> bh_flags := make_flags has_dest_filter_flag \<rparr>],
         hm_endpoints := [''ept'' \<mapsto> Interface_Handle 0] \<rparr>,
       co_filterCoord := [Interface_Handle 0 \<mapsto> FilterCoordinator_default\<lparr> hasDestFilters := True, destFilter := Some 0 \<rparr>] \<rparr>"

definition arriving_message :: "ticks ActionMessage" where
  "arriving_message = (mk_message tick_rep cmd_send_message)
     \<lparr> messageID := 7, payload := ''data'', stringData := [''ept'', ''away'', ''away''] \<rparr>"

lemma receiving_core_destination:
  "filtered_destination tick_core_env receiving_core 0 0 0" "reaches_other tick_core_env receiving_core second_core_id"
  "remote_filter tick_core_env receiving_core 0 second_core_id (Interface_Handle 0)" "co_messageCounter receiving_core = 54"
proof -
  have flag: "checkActionFlag (make_flags has_dest_filter_flag) has_dest_filter_flag"
    by (simp add: make_flags_def checkActionFlag_def has_dest_filter_flag_def extra_flag3_def)
  have ids: "getInterfaceHandle (endpoint_info\<lparr> bh_flags := x \<rparr>) = Interface_Handle 0"
    "getFederateId (endpoint_info\<lparr> bh_flags := x \<rparr>) = sender" for x
    by (simp_all add: getInterfaceHandle_def getFederateId_def)
  show "filtered_destination tick_core_env receiving_core 0 0 0"
    by (simp add: filtered_destination_def receiving_core_def ids flag HandleManager_empty_def getEndpoint_at_def isValidIndex_def
        getFederateCore_def co_me_def fed_of_broker_def parent_broker_id_def FilterCoordinator_default_def)
  show "reaches_other tick_core_env receiving_core second_core_id"
    by (simp add: reaches_other_def receiving_core_def getFederateCore_def co_me_def fed_of_broker_def parent_broker_id_def)
  show "remote_filter tick_core_env receiving_core 0 second_core_id (Interface_Handle 0)" "co_messageCounter receiving_core = 54"
    by (simp_all add: remote_filter_def receiving_core_def) (simp add: sending_core_def CommonCore_default_def)
qed

theorem destination_filter_round_trip_witness:
  "\<exists>sA1 sA2 r1 es m2 u. deliverMessage 1 tick_core_env arriving_message receiving_core = Some sA1
    \<and> processDestFilterReturn tick_core_env r1 sA1 = Some sA2
    \<and> co_events sA2 = co_events sA1 @ es @ [To_Federate 0 m2, To_Federate 0 u]
    \<and> msg_data (createMessageFromCommand tick_rep m2) = ''xdata''"
proof -
  have m: "messageAction arriving_message = cmd_send_message" "dest_id arriving_message = parent_fed"
    "getEndpoint (getString arriving_message 0) (co_loopHandles receiving_core) = Some 0" "payload arriving_message = ''data''"
    by (simp_all add: arriving_message_def getString_def isValidIndex_def getEndpoint_def receiving_core_def)
       (simp add: mk_message_def ActionMessage_default_def)
  let ?m = "arriving_message\<lparr> messageID := co_messageCounter receiving_core + 1 \<rparr>"
  have kept: "msg_messageID ((createMessageFromCommand tick_rep ?m)\<lparr> msg_data := x \<rparr>) = co_messageCounter receiving_core + 1" for x
    by (simp add: create_fields)
  from destination_filter_round_trip [where n = 0, OF receiving_core_destination(1,3,2) m(1-3) example_filter_in
      [OF example_others(1)] core_env_simps(1,1) example_operators kept]
  show ?thesis
    unfolding One_nat_def
    by (elim exE conjE) (intro exI conjI, assumption, assumption, assumption, simp add: create_fields(1) [of _ ?m] m(4))
qed

section \<open>Optional connections\<close>

text \<open>C40: An endpoint whose federate declared its connections optional carries the flag by which the core tells an endpoint
  with source filters, both being flag 8: when the core is in operation and the endpoint has no filters, sending a message from it
  uses a coordinator that does not exist.\<close>

theorem optional_endpoint_fails:
  assumes "getEndpoint_at (source_handle m) (co_loopHandles s) = Some p"
    and "checkActionFlag (bh_flags (hm_handles (co_loopHandles s) ! p)) optional_flag"
    and "co_filterCoord s (getInterfaceHandle (hm_handles (co_loopHandles s) ! p)) = None" "BS_operating \<le> co_state s"
    and "dest_id m = parent_fed" "isLocal E (source_id m) s"
  shows "core_sendMessage n E m s = None"
proof -
  have "checkActionFlag (bh_flags (hm_handles (co_loopHandles s) ! p)) has_source_filter_flag"
    using assms(2) by (simp add: optional_flag_def has_source_filter_flag_def extra_flag2_def)
  then have "processMessage n E m s = None"
    using assms(1,3,4) by (simp add: processMessage_def getFilterCoordinator_def Let_def leD)
  then show ?thesis
    using assms(5,6) by (simp add: core_sendMessage_def)
qed

definition optional_core :: tick_core where
  "optional_core = (sending_core [])\<lparr> co_filterCoord := Map.empty,
     co_loopHandles := HandleManager_empty\<lparr> hm_handles := [endpoint_info\<lparr> bh_flags := make_flags optional_flag \<rparr>] \<rparr> \<rparr>"

theorem optional_endpoint_fails_witness: "core_sendMessage 1 tick_core_env sent_message optional_core = None"
proof -
  have "getEndpoint_at (source_handle sent_message) (co_loopHandles optional_core) = Some 0"
    by (simp add: sent_message_def optional_core_def getEndpoint_at_def isValidIndex_def HandleManager_empty_def)
  moreover have "checkActionFlag (bh_flags (hm_handles (co_loopHandles optional_core) ! 0)) optional_flag"
    by (simp add: optional_core_def make_flags_def checkActionFlag_def optional_flag_def HandleManager_empty_def)
  moreover have "co_filterCoord optional_core h = None" "BS_operating \<le> co_state optional_core" for h
    by (simp_all add: optional_core_def)
  moreover have "isLocal tick_core_env (source_id sent_message) optional_core"
    by (simp add: isLocal_def optional_core_def example_message)
  ultimately show ?thesis
    using optional_endpoint_fails [of sent_message optional_core 0 tick_core_env 1] example_sent(1) by simp
qed

end
