(* ===== verification/Core_Order.thy ===== *)
theory Core_Order
  imports Core_Setup "HOL-Library.Multiset"
begin

text \<open>
  The order that \<open>organizeFilterOperations\<close> gives to the source filters of an endpoint: the cloning filters come
  first, the others form a chain in which every filter accepts the type the one before it leaves, and no filter
  that could be added at the end of the chain is left out.
\<close>

declare match_loop.simps [simp del]

fun type_chain :: "'t FilterInfo list \<Rightarrow> string \<Rightarrow> nat list \<Rightarrow> bool" where
  "type_chain fs ty [] = True"
| "type_chain fs ty (i # is) = (matchingTypes (inputType (fs ! i)) ty \<and> type_chain fs (outputType (fs ! i)) is)"

definition chain_type :: "'t FilterInfo list \<Rightarrow> string \<Rightarrow> nat list \<Rightarrow> string" where
  "chain_type fs ty is = (if is = [] then ty else outputType (fs ! last is))"

lemma type_chain_append:
  "type_chain fs ty (is @ js) \<longleftrightarrow> type_chain fs ty is \<and> type_chain fs (chain_type fs ty is) js"
  by (induction fs ty "is" rule: type_chain.induct) (auto simp: chain_type_def)

lemma chain_type_append: "chain_type fs ty (is @ js) = chain_type fs (chain_type fs ty is) js"
  by (simp add: chain_type_def)

lemma match_pass_spec:
  "match_pass fs is ty = (took, left, ty') \<Longrightarrow> type_chain fs ty took \<and> ty' = chain_type fs ty took
     \<and> mset is = mset took + mset left \<and> (took = [] \<longrightarrow> (\<forall>i \<in> set left. \<not> matchingTypes (inputType (fs ! i)) ty))"
  by (induction fs "is" ty arbitrary: took left ty' rule: match_pass.induct)
     (auto simp: chain_type_def split: if_splits prod.splits)

lemma match_loop_spec:
  "type_chain fs ty (match_loop fs unused ty) \<and> mset (match_loop fs unused ty) \<subseteq># mset unused
     \<and> (\<forall>i \<in> set unused - set (match_loop fs unused ty).
          \<not> matchingTypes (inputType (fs ! i)) (chain_type fs ty (match_loop fs unused ty)))"
proof (induction fs unused ty rule: match_loop.induct)
  case (1 fs unused ty)
  obtain took left ty' where pass: "match_pass fs unused ty = (took, left, ty')"
    by (meson prod_cases3)
  note spec = match_pass_spec [OF pass]
  then have sets: "set unused = set took \<union> set left"
    by (metis set_mset_mset set_mset_union)
  show ?case
  proof (cases "took \<noteq> [] \<and> left \<noteq> []")
    case True
    then have loop: "match_loop fs unused ty = took @ match_loop fs left ty'"
      by (subst match_loop.simps) (simp add: pass)
    from 1 [OF pass [symmetric] refl refl] True show ?thesis
      unfolding loop using spec sets by (auto simp: type_chain_append chain_type_append)
  next
    case False
    then have "match_loop fs unused ty = took"
      by (subst match_loop.simps) (auto simp: pass)
    then show ?thesis
      using spec sets False by (auto simp: chain_type_def)
  qed
qed

text \<open>C17: After \<open>organizeFilterOperations\<close> the source filters of an endpoint are its cloning filters, in the order in
  which they were added, and then a chain of its other filters in which every filter accepts the type that the one before
  it, or the endpoint, gives; no filter occurs more often than it was added, and a filter that was left out does not accept the
  type at the end of the chain.\<close>

theorem filters_organized:
  fixes E :: "('t, 'd, 'x) core_env" and s :: "('t, 'd, 'x) CommonCore"
  assumes "co_filterCoord s h = Some fc" "getHandleInfo h (co_handles s) = Some k" "allSourceFilters fc \<noteq> []"
  defines "ty \<equiv> bh_type (hm_handles (co_handles s) ! k)" and "all \<equiv> allSourceFilters fc" and "fs \<equiv> filters_of E s"
  shows "\<exists>chain. co_filterCoord (organizeFilterOperations E s) h
        = Some (fc\<lparr> sourceFilters := filter (\<lambda>i. cloning (fs ! i)) all @ chain \<rparr>)
      \<and> type_chain fs ty chain \<and> mset chain \<subseteq># mset (filter (\<lambda>i. \<not> cloning (fs ! i)) all)
      \<and> (\<forall>i \<in> set all. \<not> cloning (fs ! i) \<longrightarrow> i \<notin> set chain
           \<longrightarrow> \<not> matchingTypes (inputType (fs ! i)) (chain_type fs ty chain))"
proof -
  let ?rest = "filter (\<lambda>i. \<not> cloning (fs ! i)) all"
  define chain where "chain = (if ?rest = [] then [] else match_loop fs ?rest ty)"
  have "type_chain fs ty chain \<and> mset chain \<subseteq># mset ?rest
      \<and> (\<forall>i \<in> set ?rest - set chain. \<not> matchingTypes (inputType (fs ! i)) (chain_type fs ty chain))"
    using match_loop_spec [of fs ty ?rest] by (cases "?rest = []") (simp_all add: chain_def)
  moreover have "co_filterCoord (organizeFilterOperations E s) h
      = Some (fc\<lparr> sourceFilters := filter (\<lambda>i. cloning (fs ! i)) all @ chain \<rparr>)"
    using assms(1-3)
    by (simp add: organizeFilterOperations_def order_filters_def chain_def ty_def all_def fs_def Let_def)
  ultimately show ?thesis
    by (intro exI [of _ chain]) auto
qed

definition typed_filter :: "bool \<Rightarrow> string \<Rightarrow> string \<Rightarrow> ticks FilterInfo" where
  "typed_filter cl a b = (mk_FilterInfo second_core_id (Interface_Handle 0) [] a b)\<lparr> cloning := cl \<rparr>"

definition unordered_core :: tick_core where
  "unordered_core = (sending_core [])
     \<lparr> co_handles := HandleManager_empty\<lparr> hm_handles := [endpoint_info\<lparr> bh_type := ''raw'' \<rparr>] \<rparr>,
       co_filters := \<lparr> li_elems = [typed_filter False ''coded'' ''packed'', typed_filter False ''raw'' ''coded'',
                                   typed_filter True [] [], typed_filter False ''other'' []],
                       li_names = Map.empty, li_keys = Map.empty \<rparr>,
       co_filterCoord := [Interface_Handle 0 \<mapsto> FilterCoordinator_default\<lparr> allSourceFilters := [0, 1, 2, 3] \<rparr>] \<rparr>"

theorem filters_organized_witness:
  "\<exists>chain. co_filterCoord (organizeFilterOperations tick_core_env unordered_core) (Interface_Handle 0)
      = Some (FilterCoordinator_default\<lparr> allSourceFilters := [0, 1, 2, 3], sourceFilters := 2 # chain \<rparr>)
    \<and> set chain \<subseteq> {0, 1, 3}"
proof -
  have f: "li_elems (co_filters unordered_core) = [typed_filter False ''coded'' ''packed'', typed_filter False ''raw'' ''coded'',
      typed_filter True [] [], typed_filter False ''other'' []]"
    by (simp add: unordered_core_def)
  have split: "filter (\<lambda>i. cloning (li_elems (co_filters unordered_core) ! i)) [0, 1, 2, 3] = [2]"
    "filter (\<lambda>i. \<not> cloning (li_elems (co_filters unordered_core) ! i)) [0, 1, 2, 3] = [0, 1, 3]"
    by (simp_all add: f typed_filter_def)
  have all: "allSourceFilters (FilterCoordinator_default\<lparr> allSourceFilters := [0, 1, 2, 3] \<rparr>) = [0, 1, 2, 3]"
    by simp
  have fc: "co_filterCoord unordered_core (Interface_Handle 0)
      = Some (FilterCoordinator_default\<lparr> allSourceFilters := [0, 1, 2, 3] \<rparr>)"
    and k: "getHandleInfo (Interface_Handle 0) (co_handles unordered_core) = Some 0"
    by (simp_all add: unordered_core_def getHandleInfo_def isValidIndex_def HandleManager_empty_def)
  obtain chain where chain: "co_filterCoord (organizeFilterOperations tick_core_env unordered_core) (Interface_Handle 0)
      = Some (FilterCoordinator_default\<lparr> allSourceFilters := [0, 1, 2, 3], sourceFilters := [2] @ chain \<rparr>)"
    "mset chain \<subseteq># mset [0, 1, 3]"
    using filters_organized [OF fc k, of tick_core_env, unfolded all core_env_simps listed_simps split] by auto
  from set_mset_mono [OF chain(2)] have "set chain \<subseteq> {0, 1, 3}"
    by simp
  with chain(1) show ?thesis
    by auto
qed

end
