(* ===== verification/Core_Init.thy ===== *)
theory Core_Init
  imports Core_Setup
begin

text \<open>
  A core waits for its federates: it asks its broker to enter the initializing mode when the last of them has asked, once,
  and hands the grant to all of them.
\<close>

lemma dependency_keeps_state:
  "\<not> isTimingCommand m \<Longrightarrow> co_state (co_routeMessage_to E m d s) = co_state s"
  by (simp add: co_routeMessage_to_def route_with_def processCommandsForCore_def isTimingCommand_def put_time_def co_event_def
      split: option.split)

lemma dependency_actions:
  "messageAction m \<in> {cmd_remove_interdependency, cmd_add_interdependency, cmd_add_dependency, cmd_add_dependent}
     \<Longrightarrow> \<not> isTimingCommand m"
  by (auto simp: isTimingCommand_def cmd_code)

lemma check_special_state:
  "co_state (snd (snd (foldl (check_special E) acc is))) = co_state (snd (snd acc))"
  by (rule foldl_keeps_proj [where p = "\<lambda>a. co_state (snd (snd a))"])
     (simp add: check_special_def co_event_def Let_def split_beta)

lemma checkDependencies_state: "co_state (co_checkDependencies E s) = co_state s"
proof -
  have aside: "co_state (step_aside E o1 o2 fid bid s1) = co_state s1" for o1 o2 fid bid s1
    by (simp add: step_aside_def Let_def dependency_keeps_state dependency_actions)
  show ?thesis
    using check_special_state [of E "(False, False, s)" "[0..<mv_size (ce_federates E) (co_federates s)]"]
    by (simp add: co_checkDependencies_def Let_def split_beta aside)
qed

lemma setting_flag: "setting (s\<lparr> co_hasTimeDependency := x \<rparr>) = setting s"
  "setting (s\<lparr> co_timeCoord := y, co_hasTimeDependency := x \<rparr>) = setting s"
  by (simp_all add: setting_def)

lemma checkDependencies_setting: "setting (co_checkDependencies E s) = setting s"
proof -
  have special: "setting (snd (snd (foldl (check_special E) acc is))) = setting (snd (snd acc))" for acc "is"
    by (rule foldl_keeps_proj [where p = "\<lambda>a. setting (snd (snd a))"])
       (simp add: check_special_def Let_def split_beta)
  have aside: "setting (step_aside E o1 o2 fid bid s1) = setting s1" for o1 o2 fid bid s1
    by (simp add: step_aside_def Let_def setting_flag)
  show ?thesis
    using special [of "(False, False, s)" "[0..<mv_size (ce_federates E) (co_federates s)]"]
    by (simp add: co_checkDependencies_def Let_def split_beta aside setting_flag)
qed

text \<open>What \<open>allInitReady\<close> asks for, with the federates after the request.\<close>

definition init_ready :: "('t, 'd, 'x) CommonCore \<Rightarrow> FedInfo list \<Rightarrow> bool" where
  "init_ready s fs \<longleftrightarrow> \<not> 0 < sint (co_delayInitCounter s)
     \<and> sint (co_minFederateCount s) \<le> sint (word_of_nat (length fs) :: int32)
     \<and> (\<forall>f \<in> set fs. lf_init_transmitted (fd_fed f))"

definition asks_init :: "FedInfo \<Rightarrow> FedInfo" where
  "asks_init f = f\<lparr> fd_fed := (fd_fed f)\<lparr> lf_init_transmitted := True \<rparr> \<rparr>"

lemma init_ready_iff:
  "co_allInitReady E s \<longleftrightarrow> init_ready s (feds_of E s)"
  by (auto simp: co_allInitReady_def init_ready_def mv_size_def list_all_iff)

lemma tell_events:
  "co_events (foldl (\<lambda>s' i. addFedAction i g s') s is) = co_events s @ map (\<lambda>i. To_Federate i g) is"
  by (induction "is" arbitrary: s) simp_all

lemma tell_all:
  "j < length (feds_of E s) \<Longrightarrow> To_Federate j g \<in> set (co_events (tell_federates E (\<lambda>f. True) (\<lambda>f. g) s))"
  by (simp add: tell_federates_def mv_size_def tell_events)

lemma init_grant_given:
  assumes "co_state s = BS_initializing"
  shows "co_state (co_process_init_grant E g s) = BS_operating"
    "\<forall>j < length (feds_of E s). To_Federate j g \<in> set (co_events (co_process_init_grant E g s))"
proof -
  define s2 where "s2 = tell_federates E (\<lambda>f. True) (\<lambda>f. g) (organizeFilterOperations E (s\<lparr> co_state := BS_operating \<rparr>))"
  have keep: "co_state (put_time tc s1) = co_state s1" "co_state (co_checkExec E s1) = co_state s1"
    "co_state (time_disconnect E s1) = co_state s1" for tc and s1 :: "('a, 'b, 'c) CommonCore"
    by (simp_all add: put_time_def co_checkExec_def time_disconnect_def Let_def split_beta)
  have tell: "co_state (foldl (\<lambda>s' i. addFedAction i g s') s1 is) = co_state s1" for "is" and s1 :: "('a, 'b, 'c) CommonCore"
    by (rule foldl_keeps_proj) (simp add: co_event_def)
  have "co_state s2 = BS_operating"
    by (simp add: s2_def tell_federates_def tell organizeFilterOperations_def)
  then show "co_state (co_process_init_grant E g s) = BS_operating"
    using assms unfolding co_process_init_grant_def Let_def s2_def [symmetric] by (simp add: keep)
  have "grows s2 (co_process_init_grant E g s)"
    using assms unfolding co_process_init_grant_def Let_def s2_def [symmetric]
    by (simp add: co_checkExec_def Let_def split_beta)
  moreover have "feds_of E (organizeFilterOperations E (s\<lparr> co_state := BS_operating \<rparr>)) = feds_of E s"
    by (simp add: organizeFilterOperations_def)
  ultimately show "\<forall>j < length (feds_of E s). To_Federate j g \<in> set (co_events (co_process_init_grant E g s))"
    using tell_all [of _ E "organizeFilterOperations E (s\<lparr> co_state := BS_operating \<rparr>)" g]
    by (auto simp: s2_def grows_def prefix_def)
qed

lemma init_commands:
  "messageAction c = cmd_init \<Longrightarrow> core_processCommand n E now c s = Some (co_process_init E c s)"
  "messageAction c = cmd_init_grant \<Longrightarrow> core_processCommand n E now c s = Some (co_process_init_grant E c s)"
  by (simp_all add: core_processCommand_def isDependencyCommand_def cmd_code CMD_BROKER_PING_def)

text \<open>C13: A connected core that gets the request of a federate to enter initialization asks its broker, as the last
  thing it does, exactly when every federate has asked, enough federates have joined and no delay is in force; a later
  request makes it send nothing more, and the grant of the broker reaches every federate and puts the core into
  operation. As long as a federate is missing the core sends nothing.\<close>

theorem core_init_barrier:
  fixes E :: "('t::linorder, 'd, 'x) core_env" and s :: "('t, 'd, 'x) CommonCore"
  assumes laws: "mapped_laws (ce_federates E)" and st: "co_state s = BS_connected"
    and c: "messageAction c = cmd_init" "getFederateCore E (source_id c) s = Some i"
  defines "fs \<equiv> (feds_of E s)[i := asks_init (feds_of E s ! i)]"
  shows "\<exists>s1. core_processCommand n E now c s = Some s1
    \<and> (if init_ready s fs
       then co_state s1 = BS_initializing
         \<and> last (co_events s1) = Core_Transmit parent_route_id (c\<lparr> source_id := co_me s \<rparr>)
         \<and> (\<forall>c'. messageAction c' = cmd_init \<longrightarrow>
              (\<exists>s2. core_processCommand n E now c' s1 = Some s2 \<and> co_state s2 = BS_initializing \<and> co_events s2 = co_events s1))
         \<and> (\<forall>g. messageAction g = cmd_init_grant \<longrightarrow>
              (\<exists>s2. core_processCommand n E now g s1 = Some s2 \<and> co_state s2 = BS_operating
                  \<and> (\<forall>j < length fs. To_Federate j g \<in> set (co_events s2))))
       else co_state s1 = BS_connected \<and> co_events s1 = co_events s)"
proof -
  define s0 where "s0 = set_fed E i asks_init s"
  have s0: "co_state s0 = BS_connected" "co_events s0 = co_events s" "co_me s0 = co_me s" "init_ready s0 xs = init_ready s xs" for xs
    using st by (simp_all add: s0_def set_fed_def co_me_def init_ready_def)
  have fs: "feds_of E s0 = fs"
    using laws by (simp add: s0_def set_fed_def fs_def mapped_laws_def mv_write_law_def)
  define s1 where "s1 = co_try_init E c s0"
  have res: "core_processCommand n E now c s = Some s1"
    using c by (simp add: init_commands co_process_init_def s1_def s0_def asks_init_def [abs_def])
  show ?thesis
  proof (cases "init_ready s fs")
    case False
    then have "s1 = s0"
      by (simp add: s1_def co_try_init_def init_ready_iff fs s0)
    with res False s0 show ?thesis by auto
  next
    case True
    define d where "d = co_checkDependencies E (s0\<lparr> co_state := BS_initializing \<rparr>)"
    have d: "co_state d = BS_initializing" "setting d = setting s0"
      by (simp_all add: d_def checkDependencies_state checkDependencies_setting)
    have s1: "s1 = co_transmit parent_route_id (c\<lparr> source_id := co_me d \<rparr>) d"
      using True by (simp add: s1_def co_try_init_def init_ready_iff fs s0 d_def Let_def)
    have st1: "co_state s1 = BS_initializing" "co_me d = co_me s" "feds_of E s1 = fs"
      using d setting_me [OF d(2)] s0(3) fs by (simp_all add: s1 co_event_def setting_def)
    have again: "co_state (co_process_init E c' s1) = BS_initializing \<and> co_events (co_process_init E c' s1) = co_events s1" for c'
      using st1(1) by (simp add: co_process_init_def co_try_init_def set_fed_def split: option.split)
    show ?thesis
      using True res st1 again init_grant_given [OF st1(1), of E] by (auto simp: init_commands s1)
  qed
qed

definition waiting_core :: tick_core where
  "waiting_core = (sending_core [])\<lparr> co_state := BS_connected \<rparr>"

definition init_message :: "ticks ActionMessage" where
  "init_message = (mk_message tick_rep cmd_init)\<lparr> source_id := sender \<rparr>"

theorem core_init_barrier_witness:
  "\<exists>s1. core_processCommand 1 tick_core_env 0 init_message waiting_core = Some s1 \<and> co_state s1 = BS_initializing
     \<and> last (co_events s1) = Core_Transmit parent_route_id (init_message\<lparr> source_id := Global_Federate_Id 0x70000000 \<rparr>)"
proof -
  have "mapped_laws (ce_federates tick_core_env)"
    by (simp add: listed_laws)
  moreover have "co_state waiting_core = BS_connected" "co_me waiting_core = Global_Federate_Id 0x70000000"
    "messageAction init_message = cmd_init" "getFederateCore tick_core_env (source_id init_message) waiting_core = Some 0"
    "feds_of tick_core_env waiting_core = [sender_info]"
    by (simp_all add: waiting_core_def init_message_def getFederateCore_def co_me_def fed_of_broker_def)
  moreover have "init_ready waiting_core [asks_init sender_info]"
    by (simp add: init_ready_def waiting_core_def asks_init_def sending_core_def CommonCore_default_def)
  ultimately show ?thesis
    using core_init_barrier [of tick_core_env waiting_core init_message 0 1 0] by auto
qed

end
